(* ===== verification/Prelude.thy ===== *)
theory Prelude
  imports Complex_Main "HOL-Library.AList" "HOL-Library.Sublist"
begin

text \<open>
  Shared layer of the development: the Python values the components exchange (exceptions,
  JSON values, insertion-ordered dictionaries, optional strings, decimal rendering of
  integers), the simp collections, and the interfaces several components provide:
  a keyed store whose last write wins (\<open>keyed_store\<close>), a fencing counter
  (\<open>fencing_counter\<close>) and a lifecycle with conditions that are never left
  (\<open>one_way\<close>).
\<close>

named_theorems dict_simps \<open>lookups in updated dictionaries\<close>
named_theorems op_defs \<open>unfolding of the operations of the components\<close>

section \<open>Exceptions and results\<close>

text \<open>
  One constructor per exception class the runtime raises; the string is what
  \<open>str(exc)\<close> yields. \<open>Exception\<close> is the class raised directly by
  \<open>raise Exception(...)\<close>.
\<close>

datatype exn =
    ValueError string
  | RuntimeError string
  | PermissionError string
  | TimeoutError string
  | KeyError string
  | FileExistsError string
  | FileNotFoundError string
  | OSError string
  | Exception string
  | StaleGenerationError string
  | SecurityViolationError string
  | ContextAccessError string
  | EnrollmentError string
  | ExecutorLimitsExceeded string
  | ExecutorSecurityError string
  | MCPGatewayError string
  | ToolNotFoundError string
  | AuthorizationDeniedError string
  | PolicyViolationError string
  | ToolImplementationError string
  | RegistryRecoveryRequired string
  | RecoveryAttestationError string
  | ModelOutputInvalid string
  | TypeError string
  | AttributeError string

primrec str_exn :: "exn \<Rightarrow> string" where
  "str_exn (ValueError m) = m"
| "str_exn (RuntimeError m) = m"
| "str_exn (PermissionError m) = m"
| "str_exn (TimeoutError m) = m"
| "str_exn (KeyError m) = m"
| "str_exn (FileExistsError m) = m"
| "str_exn (FileNotFoundError m) = m"
| "str_exn (OSError m) = m"
| "str_exn (Exception m) = m"
| "str_exn (StaleGenerationError m) = m"
| "str_exn (SecurityViolationError m) = m"
| "str_exn (ContextAccessError m) = m"
| "str_exn (EnrollmentError m) = m"
| "str_exn (ExecutorLimitsExceeded m) = m"
| "str_exn (ExecutorSecurityError m) = m"
| "str_exn (MCPGatewayError m) = m"
| "str_exn (ToolNotFoundError m) = m"
| "str_exn (AuthorizationDeniedError m) = m"
| "str_exn (PolicyViolationError m) = m"
| "str_exn (ToolImplementationError m) = m"
| "str_exn (RegistryRecoveryRequired m) = m"
| "str_exn (RecoveryAttestationError m) = m"
| "str_exn (ModelOutputInvalid m) = m"
| "str_exn (TypeError m) = m"
| "str_exn (AttributeError m) = m"

text \<open>\<open>type(e).__name__\<close>\<close>

primrec exn_class :: "exn \<Rightarrow> string" where
  "exn_class (ValueError m) = ''ValueError''"
| "exn_class (RuntimeError m) = ''RuntimeError''"
| "exn_class (PermissionError m) = ''PermissionError''"
| "exn_class (TimeoutError m) = ''TimeoutError''"
| "exn_class (KeyError m) = ''KeyError''"
| "exn_class (FileExistsError m) = ''FileExistsError''"
| "exn_class (FileNotFoundError m) = ''FileNotFoundError''"
| "exn_class (OSError m) = ''OSError''"
| "exn_class (Exception m) = ''Exception''"
| "exn_class (StaleGenerationError m) = ''StaleGenerationError''"
| "exn_class (SecurityViolationError m) = ''SecurityViolationError''"
| "exn_class (ContextAccessError m) = ''ContextAccessError''"
| "exn_class (EnrollmentError m) = ''EnrollmentError''"
| "exn_class (ExecutorLimitsExceeded m) = ''ExecutorLimitsExceeded''"
| "exn_class (ExecutorSecurityError m) = ''ExecutorSecurityError''"
| "exn_class (MCPGatewayError m) = ''MCPGatewayError''"
| "exn_class (ToolNotFoundError m) = ''ToolNotFoundError''"
| "exn_class (AuthorizationDeniedError m) = ''AuthorizationDeniedError''"
| "exn_class (PolicyViolationError m) = ''PolicyViolationError''"
| "exn_class (ToolImplementationError m) = ''ToolImplementationError''"
| "exn_class (RegistryRecoveryRequired m) = ''RegistryRecoveryRequired''"
| "exn_class (RecoveryAttestationError m) = ''RecoveryAttestationError''"
| "exn_class (ModelOutputInvalid m) = ''ModelOutputInvalid''"
| "exn_class (TypeError m) = ''TypeError''"
| "exn_class (AttributeError m) = ''AttributeError''"

type_synonym 'a result = "exn + 'a"

text \<open>Sequencing: the continuation runs only when nothing was raised.\<close>

fun and_then :: "'a result \<Rightarrow> ('a \<Rightarrow> 'b result) \<Rightarrow> 'b result" where
  "and_then (Inl e) f = Inl e"
| "and_then (Inr x) f = f x"

definition raise_if :: "bool \<Rightarrow> exn \<Rightarrow> unit result" where
  "raise_if b e = (if b then Inl e else Inr ())"

lemma and_then_Inr_iff [simp]:
  "and_then m f = Inr y \<longleftrightarrow> (\<exists>x. m = Inr x \<and> f x = Inr y)"
  by (cases m) auto

lemma and_then_Inl_iff:
  "and_then m f = Inl e \<longleftrightarrow> m = Inl e \<or> (\<exists>x. m = Inr x \<and> f x = Inl e)"
  by (cases m) auto

lemma raise_if_Inr_iff [simp]: "raise_if b e = Inr u \<longleftrightarrow> \<not> b"
  by (simp add: raise_if_def)

lemma raise_if_Inl_iff [simp]: "raise_if b e = Inl e' \<longleftrightarrow> b \<and> e' = e"
  by (auto simp: raise_if_def)

lemma raise_if_simps [simp]:
  "raise_if True e = Inl e" "raise_if False e = Inr ()"
  by (simp_all add: raise_if_def)

section \<open>Strings, truth values, decimal rendering\<close>

text \<open>Truth value of an \<open>Optional[str]\<close>: \<open>None\<close> and the empty string are false.\<close>

fun truthy_str :: "string option \<Rightarrow> bool" where
  "truthy_str None = False"
| "truthy_str (Some s) = (s \<noteq> [])"

fun digit :: "nat \<Rightarrow> char" where
  "digit n = char_of (48 + n)"

fun str_nat :: "nat \<Rightarrow> string" where
  "str_nat n = (if n < 10 then [digit n] else str_nat (n div 10) @ [digit (n mod 10)])"

declare str_nat.simps [simp del]

definition str_int :: "int \<Rightarrow> string" where
  "str_int i = (if i < 0 then CHR ''-'' # str_nat (nat (- i)) else str_nat (nat i))"

text \<open>\<open>s.startswith(p)\<close>.\<close>

definition starts_with :: "string \<Rightarrow> string \<Rightarrow> bool" where
  "starts_with s p = prefix p s"

text \<open>\<open>f"{x}"\<close> for an \<open>Optional[str]\<close>.\<close>

definition quoted :: "string \<Rightarrow> string" where
  "quoted s = CHR 0x27 # s @ [CHR 0x27]"

fun str_opt :: "string option \<Rightarrow> string" where
  "str_opt None = ''None''"
| "str_opt (Some s) = s"

text \<open>
  Instants and durations are microseconds since the epoch. \<open>int((t1 - t0) * 1000)\<close>
  on seconds truncates towards zero.
\<close>

type_synonym instant = int

definition ms_between :: "instant \<Rightarrow> instant \<Rightarrow> int" where
  "ms_between t0 t1 = (if t0 \<le> t1 then (t1 - t0) div 1000 else - ((t0 - t1) div 1000))"

definition seconds :: "int \<Rightarrow> int" where
  "seconds n = n * 1000000"

lemma ms_between_nonneg: "t0 \<le> t1 \<Longrightarrow> 0 \<le> ms_between t0 t1"
  by (simp add: ms_between_def)

section \<open>JSON values\<close>

text \<open>
  The values of \<open>Dict[str, Any]\<close> payloads. Floating-point numbers are rationals: the
  code compares and averages them, and rounding is not modelled.
\<close>

datatype json =
    JNull
  | JBool bool
  | JInt int
  | JFloat rat
  | JStr string
  | JList "json list"
  | JObj "(string \<times> json) list"

fun truthy :: "json \<Rightarrow> bool" where
  "truthy JNull = False"
| "truthy (JBool b) = b"
| "truthy (JInt i) = (i \<noteq> 0)"
| "truthy (JFloat q) = (q \<noteq> 0)"
| "truthy (JStr s) = (s \<noteq> [])"
| "truthy (JList xs) = (xs \<noteq> [])"
| "truthy (JObj kvs) = (kvs \<noteq> [])"

definition jopt :: "string option \<Rightarrow> json" where
  "jopt v = (case v of None \<Rightarrow> JNull | Some s \<Rightarrow> JStr s)"

section \<open>Insertion-ordered dictionaries\<close>

text \<open>
  A Python \<open>dict\<close> keeps insertion order: assigning to a present key keeps its place,
  a new key goes to the end. This is \<open>AList.update\<close> on association lists.
\<close>

type_synonym ('k, 'v) dict = "('k \<times> 'v) list"

abbreviation dict_get :: "('k, 'v) dict \<Rightarrow> 'k \<Rightarrow> 'v option" where
  "dict_get d k \<equiv> map_of d k"

abbreviation dict_set :: "('k, 'v) dict \<Rightarrow> 'k \<Rightarrow> 'v \<Rightarrow> ('k, 'v) dict" where
  "dict_set d k v \<equiv> AList.update k v d"

abbreviation dict_del :: "('k, 'v) dict \<Rightarrow> 'k \<Rightarrow> ('k, 'v) dict" where
  "dict_del d k \<equiv> AList.delete k d"

abbreviation dict_keys :: "('k, 'v) dict \<Rightarrow> 'k list" where
  "dict_keys d \<equiv> map fst d"

abbreviation dict_values :: "('k, 'v) dict \<Rightarrow> 'v list" where
  "dict_values d \<equiv> map snd d"

abbreviation dict_wf :: "('k, 'v) dict \<Rightarrow> bool" where
  "dict_wf d \<equiv> distinct (map fst d)"

lemma dict_get_set [simp, dict_simps]:
  "dict_get (dict_set d k v) k' = (if k' = k then Some v else dict_get d k')"
  by (simp add: update_conv')

lemma dict_get_del [simp, dict_simps]:
  "dict_get (dict_del d k) k' = (if k' = k then None else dict_get d k')"
  by (simp add: delete_conv')

lemma dict_wf_set [simp]: "dict_wf d \<Longrightarrow> dict_wf (dict_set d k v)"
  by (rule distinct_update)

lemma dict_wf_del [simp]: "dict_wf d \<Longrightarrow> dict_wf (dict_del d k)"
  by (rule distinct_delete)

lemma set_dict_set:
  "dict_wf d \<Longrightarrow> set (dict_set d k v) = insert (k, v) {p \<in> set d. fst p \<noteq> k}"
  by (induction d) (auto simp: image_iff)

lemma dict_values_set_iff:
  assumes "dict_wf d"
  shows "x \<in> set (dict_values d) \<longleftrightarrow> (\<exists>k. dict_get d k = Some x)"
  using assms by (force simp: image_iff)

lemma dict_get_values: "dict_get d k = Some v \<Longrightarrow> v \<in> set (dict_values d)"
  by (force dest: map_of_SomeD)

lemma length_dict_set:
  "length (dict_set d k v) = (if dict_get d k = None then Suc (length d) else length d)"
  by (induction d) (auto split: if_splits)

lemma dict_get_map_values:
  "dict_get (map (\<lambda>(k, v). (k, f v)) d) k' = map_option f (dict_get d k')"
  by (induction d) auto

lemma dict_keys_map_values [simp]:
  "dict_keys (map (\<lambda>(k, v). (k, f v)) d) = dict_keys d"
  by (induction d) auto

lemma fst_map_values [simp]: "fst \<circ> (\<lambda>(k, v). (k, f k v)) = fst"
  by (auto simp: fun_eq_iff)

lemma dict_get_map_key_values:
  "dict_get (map (\<lambda>(k, v). (k, f k v)) d) k' = map_option (f k') (dict_get d k')"
  by (induction d) auto

lemma dict_set_new: "dict_get d k = None \<Longrightarrow> dict_set d k v = d @ [(k, v)]"
  by (induction d) (auto split: if_splits)

lemma dict_rebuild:
  "dict_wf (d @ e) \<Longrightarrow> foldl (\<lambda>p (k, v). dict_set p k v) d e = d @ e"
proof (induction e arbitrary: d)
  case (Cons kv e)
  obtain k v where kv: "kv = (k, v)" by (cases kv)
  have "dict_get d k = None" using Cons.prems by (auto simp: kv map_of_eq_None_iff)
  then show ?case using Cons.IH [of "d @ [kv]"] Cons.prems by (simp add: kv dict_set_new)
qed simp

lemma dict_rebuild_values:
  assumes "dict_wf d" and "\<And>k v. (k, v) \<in> set d \<Longrightarrow> key v = k"
  shows "foldl (\<lambda>p v. dict_set p (key v) v) [] (dict_values d) = d"
proof -
  have "foldl (\<lambda>p v. dict_set p (key v) v) q (map snd e) = foldl (\<lambda>p (k, v). dict_set p k v) q e"
    if "\<forall>(k, v) \<in> set e. key v = k" for q e
    using that by (induction e arbitrary: q) auto
  from this [of d "[]"] have "foldl (\<lambda>p v. dict_set p (key v) v) [] (map snd d) =
      foldl (\<lambda>p (k, v). dict_set p k v) [] d"
    using assms(2) by auto
  then show ?thesis using dict_rebuild [of "[]" d] assms(1) by simp
qed

section \<open>Interface: a keyed store\<close>

text \<open>
  What every registry of the runtime promises: an entry is stored under its own key and a
  later store under the same key replaces it.
\<close>

locale keyed_store =
  fixes lookup :: "'s \<Rightarrow> 'k \<Rightarrow> 'v option"
    and store :: "'s \<Rightarrow> 'v \<Rightarrow> 's"
    and key :: "'v \<Rightarrow> 'k"
  assumes lookup_store: "lookup (store s v) k = (if k = key v then Some v else lookup s k)"
begin

lemma lookup_same: "lookup (store s v) (key v) = Some v"
  by (simp add: lookup_store)

lemma lookup_other: "k \<noteq> key v \<Longrightarrow> lookup (store s v) k = lookup s k"
  by (simp add: lookup_store)

lemma store_overwrite: "key v = key w \<Longrightarrow> lookup (store (store s v) w) = lookup (store s w)"
  by (auto simp: lookup_store fun_eq_iff)

lemma store_commute:
  "key v \<noteq> key w \<Longrightarrow> lookup (store (store s v) w) = lookup (store (store s w) v)"
  by (auto simp: lookup_store fun_eq_iff)

lemma lookup_foldl:
  "lookup (foldl store s vs) k =
     (case map_of (map (\<lambda>v. (key v, v)) (rev vs)) k of Some v \<Rightarrow> Some v | None \<Rightarrow> lookup s k)"
  by (induction vs rule: rev_induct) (auto simp: lookup_store)

lemma lookup_foldl_distinct:
  assumes "distinct (map key vs)" and "v \<in> set vs"
  shows "lookup (foldl store s vs) (key v) = Some v"
proof -
  have "distinct (map fst (map (\<lambda>v. (key v, v)) (rev vs)))"
    using assms(1) by (simp add: rev_map [symmetric] comp_def)
  moreover have "(key v, v) \<in> set (map (\<lambda>v. (key v, v)) (rev vs))"
    using assms(2) by auto
  ultimately have "map_of (map (\<lambda>v. (key v, v)) (rev vs)) (key v) = Some v"
    by (rule map_of_is_SomeI)
  then show ?thesis by (simp add: lookup_foldl)
qed

end

section \<open>Interface: a fencing counter\<close>

text \<open>
  A counter that only moves forward, with tokens that are valid while they carry the
  current value. The invariant says when a counter is in a state its provider can reach.
\<close>

locale fencing_counter =
  fixes inv :: "'s \<Rightarrow> bool"
    and now_at :: "'s \<Rightarrow> int"
    and advance :: "'s \<Rightarrow> 's"
    and accepts :: "'s \<Rightarrow> int \<Rightarrow> bool"
  assumes inv_advance: "inv s \<Longrightarrow> inv (advance s)"
    and now_advance: "inv s \<Longrightarrow> now_at (advance s) = now_at s + 1"
    and accepts_iff: "accepts s g \<longleftrightarrow> g = now_at s"
begin

lemma inv_advances: "inv s \<Longrightarrow> inv ((advance ^^ n) s)"
  by (induction n) (simp_all add: inv_advance)

lemma now_advances: "inv s \<Longrightarrow> now_at ((advance ^^ n) s) = now_at s + int n"
  by (induction n) (simp_all add: now_advance inv_advances)

lemma stale_forever:
  assumes "inv s" and "g \<le> now_at s" and "0 < n"
  shows "\<not> accepts ((advance ^^ n) s) g"
  using assms by (simp add: accepts_iff now_advances)

lemma fresh_accepted: "accepts s (now_at s)"
  by (simp add: accepts_iff)

end

section \<open>Interface: one-way lifecycles\<close>

text \<open>
  Sessions, workers and processes share a contract: some condition, once reached, is never
  left, whatever operations follow.
\<close>

locale one_way =
  fixes step :: "'s \<Rightarrow> 's \<Rightarrow> bool"
    and over :: "'s \<Rightarrow> bool"
  assumes over_step: "over s \<Longrightarrow> step s t \<Longrightarrow> over t"
begin

lemma over_forever: "step\<^sup>*\<^sup>* s t \<Longrightarrow> over s \<Longrightarrow> over t"
  by (induction rule: rtranclp_induct) (auto intro: over_step)

end

end
