(* ===== verification/Enrollment.thy ===== *)
theory Enrollment
  imports Prelude
begin

text \<open>
  Enrollment of the runtime with an Anny instance (runtime/identity/enrollment.py): a
  challenge-gated linear state machine with a persisted state. Signature verification
  (\<open>RuntimeIdentity.verify\<close>, an Ed25519 check of a third-party package) is the argument
  \<open>ver\<close> of the operations that use it.
\<close>

section \<open>State\<close>

datatype enrollment_state = UNENROLLED | ENROLLING | REGISTERED | PAIRED | READY

primrec enrollment_state_name :: "enrollment_state \<Rightarrow> string" where
  "enrollment_state_name UNENROLLED = ''UNENROLLED''"
| "enrollment_state_name ENROLLING = ''ENROLLING''"
| "enrollment_state_name REGISTERED = ''REGISTERED''"
| "enrollment_state_name PAIRED = ''PAIRED''"
| "enrollment_state_name READY = ''READY''"

text \<open>\<open>EnrollmentState[name]\<close>.\<close>

definition enrollment_state_of_name :: "string \<Rightarrow> enrollment_state result" where
  "enrollment_state_of_name n =
     (case map_of (map (\<lambda>s. (enrollment_state_name s, s))
                    [UNENROLLED, ENROLLING, REGISTERED, PAIRED, READY]) n of
        Some s \<Rightarrow> Inr s | None \<Rightarrow> Inl (KeyError n))"

record enrollment_manager =
  em_state :: enrollment_state
  em_principal :: "string option"
  em_tenant_id :: "string option"
  em_anny_instance_id :: "string option"
  em_runtime_id :: "string option"

definition enrollment_init :: enrollment_manager where
  "enrollment_init = \<lparr>em_state = UNENROLLED, em_principal = None, em_tenant_id = None,
     em_anny_instance_id = None, em_runtime_id = None\<rparr>"

definition enrollment_is_ready :: "enrollment_manager \<Rightarrow> bool" where
  "enrollment_is_ready m = (em_state m = READY)"

section \<open>Challenge and response\<close>

text \<open>
  \<open>bytes.fromhex\<close>: pairs of hexadecimal digits, ASCII whitespace between pairs skipped;
  \<open>None\<close> where Python raises \<open>ValueError\<close>.
\<close>

definition hex_value :: "char \<Rightarrow> nat option" where
  "hex_value c =
     (let n = of_char c in
      if 48 \<le> n \<and> n \<le> 57 then Some (n - 48)
      else if 97 \<le> n \<and> n \<le> 102 then Some (n - 87)
      else if 65 \<le> n \<and> n \<le> 70 then Some (n - 55)
      else None)"

definition ascii_space :: "char \<Rightarrow> bool" where
  "ascii_space c = (let n = (of_char c :: nat) in n = 32 \<or> (9 \<le> n \<and> n \<le> 13))"

fun from_hex :: "string \<Rightarrow> nat list option" where
  "from_hex [] = Some []"
| "from_hex [c] = (if ascii_space c then Some [] else None)"
| "from_hex (c # d # cs) =
     (if ascii_space c then from_hex (d # cs)
      else case (hex_value c, hex_value d) of
             (Some a, Some b) \<Rightarrow> map_option (\<lambda>bs. (16 * a + b) # bs) (from_hex cs)
           | _ \<Rightarrow> None)"

text \<open>Every exception inside \<open>verify_response\<close> counts as a failed verification.\<close>

definition verify_response ::
  "(nat list \<Rightarrow> nat list \<Rightarrow> bool result) \<Rightarrow> string \<Rightarrow> string \<Rightarrow> string \<Rightarrow> bool" where
  "verify_response ver princ challenge response =
     (case (from_hex challenge, from_hex response) of
        (Some c, Some r) \<Rightarrow> (case ver c r of Inl _ \<Rightarrow> False | Inr b \<Rightarrow> b)
      | _ \<Rightarrow> False)"

section \<open>Transitions\<close>

definition bad_transition :: "enrollment_manager \<Rightarrow> string \<Rightarrow> exn" where
  "bad_transition m target =
     EnrollmentError (''Invalid transition from '' @ enrollment_state_name (em_state m) @ '' to '' @ target)"

definition begin_enrollment ::
  "(nat list \<Rightarrow> nat list \<Rightarrow> bool result) \<Rightarrow> string \<Rightarrow> string \<Rightarrow> string \<Rightarrow> string
     \<Rightarrow> enrollment_manager \<Rightarrow> enrollment_manager result" where
  "begin_enrollment ver princ tenant challenge response m =
     (if em_state m \<noteq> UNENROLLED then Inl (bad_transition m ''ENROLLING'')
      else if \<not> verify_response ver princ challenge response
      then Inl (EnrollmentError ''Challenge verification failed'')
      else Inr (m\<lparr>em_principal := Some princ, em_tenant_id := Some tenant, em_state := ENROLLING\<rparr>))"

definition enrollment_register :: "string \<Rightarrow> enrollment_manager \<Rightarrow> enrollment_manager result" where
  "enrollment_register anny m =
     (if em_state m \<noteq> ENROLLING then Inl (bad_transition m ''REGISTERED'')
      else Inr (m\<lparr>em_anny_instance_id := Some anny, em_state := REGISTERED\<rparr>))"

definition enrollment_pair :: "string \<Rightarrow> enrollment_manager \<Rightarrow> enrollment_manager result" where
  "enrollment_pair runtime m =
     (if em_state m \<noteq> REGISTERED then Inl (bad_transition m ''PAIRED'')
      else Inr (m\<lparr>em_runtime_id := Some runtime, em_state := PAIRED\<rparr>))"

definition enrollment_activate :: "enrollment_manager \<Rightarrow> enrollment_manager result" where
  "enrollment_activate m =
     (if em_state m \<noteq> PAIRED then Inl (bad_transition m ''READY'')
      else Inr (m\<lparr>em_state := READY\<rparr>))"

definition enrollment_reset :: "enrollment_manager \<Rightarrow> enrollment_manager" where
  "enrollment_reset m = m\<lparr>em_state := UNENROLLED, em_principal := None, em_tenant_id := None,
     em_anny_instance_id := None, em_runtime_id := None\<rparr>"

text \<open>\<open>enrollment.json\<close>: the saved fields, the state by name.\<close>

record enrollment_file =
  ef_state :: string
  ef_principal :: "string option"
  ef_tenant_id :: "string option"
  ef_anny_instance_id :: "string option"
  ef_runtime_id :: "string option"

definition enrollment_save :: "enrollment_manager \<Rightarrow> enrollment_file option" where
  "enrollment_save m = Some \<lparr>ef_state = enrollment_state_name (em_state m),
     ef_principal = em_principal m, ef_tenant_id = em_tenant_id m,
     ef_anny_instance_id = em_anny_instance_id m, ef_runtime_id = em_runtime_id m\<rparr>"

definition enrollment_load ::
  "enrollment_file option \<Rightarrow> enrollment_manager \<Rightarrow> enrollment_manager result" where
  "enrollment_load file m =
     (case file of
        None \<Rightarrow> Inr m
      | Some f \<Rightarrow>
          and_then (enrollment_state_of_name (ef_state f))
            (\<lambda>st. Inr (m\<lparr>em_state := st, em_principal := ef_principal f, em_tenant_id := ef_tenant_id f,
                         em_anny_instance_id := ef_anny_instance_id f, em_runtime_id := ef_runtime_id f\<rparr>)))"

lemmas enrollment_defs [op_defs] =
  begin_enrollment_def enrollment_register_def enrollment_pair_def enrollment_activate_def
  enrollment_reset_def

lemma enrollment_state_of_name_name [simp]:
  "enrollment_state_of_name (enrollment_state_name s) = Inr s"
  by (cases s) (simp_all add: enrollment_state_of_name_def)

section \<open>The step relation\<close>

inductive enrollment_step ::
  "(nat list \<Rightarrow> nat list \<Rightarrow> bool result) \<Rightarrow> enrollment_manager \<Rightarrow> enrollment_manager \<Rightarrow> bool"
  for ver where
  step_begin: "begin_enrollment ver p t c r m = Inr m' \<Longrightarrow> enrollment_step ver m m'"
| step_register: "enrollment_register a m = Inr m' \<Longrightarrow> enrollment_step ver m m'"
| step_pair: "enrollment_pair rt m = Inr m' \<Longrightarrow> enrollment_step ver m m'"
| step_activate: "enrollment_activate m = Inr m' \<Longrightarrow> enrollment_step ver m m'"
| step_reset: "enrollment_step ver m (enrollment_reset m)"
| step_reload: "enrollment_load (enrollment_save m) m0 = Inr m' \<Longrightarrow> enrollment_step ver m m'"

inductive_cases enrollment_stepE: "enrollment_step ver m m'"

text \<open>What is set in which state: each stage adds one identity, none is set early.\<close>

definition enrollment_inv :: "enrollment_manager \<Rightarrow> bool" where
  "enrollment_inv m \<longleftrightarrow>
     (em_principal m \<noteq> None \<longleftrightarrow> em_state m \<noteq> UNENROLLED) \<and>
     (em_tenant_id m \<noteq> None \<longleftrightarrow> em_state m \<noteq> UNENROLLED) \<and>
     (em_anny_instance_id m \<noteq> None \<longleftrightarrow> em_state m \<in> {REGISTERED, PAIRED, READY}) \<and>
     (em_runtime_id m \<noteq> None \<longleftrightarrow> em_state m \<in> {PAIRED, READY})"

lemma enrollment_inv_init: "enrollment_inv enrollment_init"
  by (simp add: enrollment_inv_def enrollment_init_def)

lemma enrollment_reload:
  "enrollment_load (enrollment_save m) m0 = Inr m' \<longleftrightarrow> m' = m"
  by (cases m, cases m0) (auto simp: enrollment_load_def enrollment_save_def)

lemma enrollment_inv_step:
  "enrollment_step ver m m' \<Longrightarrow> enrollment_inv m \<Longrightarrow> enrollment_inv m'"
  by (erule enrollment_stepE)
     (auto simp: enrollment_inv_def enrollment_defs enrollment_reload split: if_splits)

interpretation enrollment_keeps: one_way "enrollment_step ver" enrollment_inv for ver
  by unfold_locales (rule enrollment_inv_step)

section \<open>Properties\<close>

text \<open>
  A runtime is never half enrolled: in every state reachable by the enrollment
  operations (resets and restarts through the saved file included) a READY runtime has a
  principal, a tenant, an Anny instance and a runtime id, and an UNENROLLED one has none.
\<close>

theorem enrollment_reachable_complete:
  assumes "(enrollment_step ver)\<^sup>*\<^sup>* enrollment_init m"
  shows "(enrollment_is_ready m \<longrightarrow>
            em_principal m \<noteq> None \<and> em_tenant_id m \<noteq> None \<and>
            em_anny_instance_id m \<noteq> None \<and> em_runtime_id m \<noteq> None) \<and>
         (em_state m = UNENROLLED \<longrightarrow>
            em_principal m = None \<and> em_tenant_id m = None \<and>
            em_anny_instance_id m = None \<and> em_runtime_id m = None)"
  using enrollment_keeps.over_forever [OF assms enrollment_inv_init]
  by (auto simp: enrollment_inv_def enrollment_is_ready_def)

definition demo_enrolled :: enrollment_manager where
  "demo_enrolled = \<lparr>em_state = READY, em_principal = Some ''ana'', em_tenant_id = Some ''acme'',
     em_anny_instance_id = Some ''anny-1'', em_runtime_id = Some ''RT-1''\<rparr>"

lemma demo_enrolled_reachable:
  "(enrollment_step (\<lambda>_ _. Inr True))\<^sup>*\<^sup>* enrollment_init demo_enrolled"
proof -
  let ?step = "enrollment_step (\<lambda>_ _. Inr True)"
  let ?m1 = "enrollment_init\<lparr>em_principal := Some ''ana'', em_tenant_id := Some ''acme'', em_state := ENROLLING\<rparr>"
  let ?m2 = "?m1\<lparr>em_anny_instance_id := Some ''anny-1'', em_state := REGISTERED\<rparr>"
  let ?m3 = "?m2\<lparr>em_runtime_id := Some ''RT-1'', em_state := PAIRED\<rparr>"
  have "?step enrollment_init ?m1"
    by (rule step_begin [where p = "''ana''" and t = "''acme''" and c = "''0a''" and r = "''ff''"])
       (simp add: begin_enrollment_def enrollment_init_def verify_response_def hex_value_def ascii_space_def)
  moreover have "?step ?m1 ?m2"
    by (rule step_register [where a = "''anny-1''"]) (simp add: enrollment_register_def)
  moreover have "?step ?m2 ?m3"
    by (rule step_pair [where rt = "''RT-1''"]) (simp add: enrollment_pair_def)
  moreover have "?step ?m3 demo_enrolled"
    by (rule step_activate) (simp add: enrollment_activate_def demo_enrolled_def enrollment_init_def)
  ultimately show ?thesis by (meson converse_rtranclp_into_rtranclp rtranclp.rtrancl_refl)
qed

theorem enrollment_reachable_complete_witness:
  "enrollment_is_ready demo_enrolled \<and> em_tenant_id demo_enrolled \<noteq> None"
  using enrollment_reachable_complete [OF demo_enrolled_reachable]
  by (simp add: enrollment_is_ready_def demo_enrolled_def)

text \<open>
  Persistence is exact: loading the file that \<open>save\<close> wrote restores the manager,
  whatever the manager in memory held before.
\<close>

theorem enrollment_save_load: "enrollment_load (enrollment_save m) m0 = Inr m"
  by (simp add: enrollment_reload)

end
