(* ===== verification/CapGate.thy ===== *)
theory CapGate
  imports Prelude
begin

text \<open>
  The capability gate (runtime/capability/gate.py), the tool registry whose manifests name
  capabilities (runtime/tools/registry.py) and the execution orchestrator that puts the gate
  in front of every tool handler (runtime/execution/executor.py).
\<close>

section \<open>CapabilityGate\<close>

datatype capability =
    FILE_READ | FILE_WRITE | PROCESS_EXECUTION | PROCESS_CONTROL | GIT_READ | GIT_WRITE
  | REMOTE_REPOSITORY_MUTATION | SECRET_USE | WORKSPACE_CREATE | WORKSPACE_DELETE
  | NETWORK_ACCESS

primrec capability_name :: "capability \<Rightarrow> string" where
  "capability_name FILE_READ = ''FILE_READ''"
| "capability_name FILE_WRITE = ''FILE_WRITE''"
| "capability_name PROCESS_EXECUTION = ''PROCESS_EXECUTION''"
| "capability_name PROCESS_CONTROL = ''PROCESS_CONTROL''"
| "capability_name GIT_READ = ''GIT_READ''"
| "capability_name GIT_WRITE = ''GIT_WRITE''"
| "capability_name REMOTE_REPOSITORY_MUTATION = ''REMOTE_REPOSITORY_MUTATION''"
| "capability_name SECRET_USE = ''SECRET_USE''"
| "capability_name WORKSPACE_CREATE = ''WORKSPACE_CREATE''"
| "capability_name WORKSPACE_DELETE = ''WORKSPACE_DELETE''"
| "capability_name NETWORK_ACCESS = ''NETWORK_ACCESS''"

record capability_decision =
  allowed :: bool
  dec_reason :: string
  dec_capability :: capability
  dec_actor_id :: string
  dec_workspace_id :: string

record capability_gate =
  gate_grants :: "(string \<times> capability \<times> string) set"

definition gate_init :: capability_gate where
  "gate_init = \<lparr>gate_grants = {}\<rparr>"

definition gate_grant :: "capability_gate \<Rightarrow> string \<Rightarrow> capability \<Rightarrow> string \<Rightarrow> capability_gate" where
  "gate_grant g actor cap ws = g\<lparr>gate_grants := insert (actor, cap, ws) (gate_grants g)\<rparr>"

definition gate_revoke :: "capability_gate \<Rightarrow> string \<Rightarrow> capability \<Rightarrow> string \<Rightarrow> capability_gate" where
  "gate_revoke g actor cap ws = g\<lparr>gate_grants := gate_grants g - {(actor, cap, ws)}\<rparr>"

definition gate_check ::
  "capability_gate \<Rightarrow> string \<Rightarrow> string \<Rightarrow> capability \<Rightarrow> string \<Rightarrow> int \<Rightarrow> int \<Rightarrow> capability_decision" where
  "gate_check g session_id actor cap ws runtime_generation current_generation =
     (if runtime_generation \<noteq> current_generation
      then \<lparr>allowed = False, dec_reason = ''Stale generation'', dec_capability = cap,
            dec_actor_id = actor, dec_workspace_id = ws\<rparr>
      else if (actor, cap, ws) \<in> gate_grants g \<or> (actor, cap, ''*'') \<in> gate_grants g
      then \<lparr>allowed = True, dec_reason = ''Granted explicitly'', dec_capability = cap,
            dec_actor_id = actor, dec_workspace_id = ws\<rparr>
      else \<lparr>allowed = False, dec_reason = ''No explicit grant found'', dec_capability = cap,
            dec_actor_id = actor, dec_workspace_id = ws\<rparr>)"

lemmas gate_defs [op_defs] = gate_init_def gate_grant_def gate_revoke_def gate_check_def

lemma allowed_gate_check [simp]:
  "allowed (gate_check g sid actor cap ws rg cg) \<longleftrightarrow>
     rg = cg \<and> ((actor, cap, ws) \<in> gate_grants g \<or> (actor, cap, ''*'') \<in> gate_grants g)"
  by (simp add: gate_check_def)

section \<open>Interface: a grant store\<close>

text \<open>
  What a client of an authorization component relies on: a right is held exactly when it
  was granted and not revoked since, and rights of other subjects are not touched.
\<close>

locale grant_store =
  fixes holds :: "'s \<Rightarrow> 'r \<Rightarrow> bool"
    and grant :: "'s \<Rightarrow> 'r \<Rightarrow> 's"
    and revoke :: "'s \<Rightarrow> 'r \<Rightarrow> 's"
    and fresh :: 's
  assumes holds_fresh: "\<not> holds fresh r"
    and holds_grant: "holds (grant s q) r \<longleftrightarrow> r = q \<or> holds s r"
    and holds_revoke: "holds (revoke s q) r \<longleftrightarrow> r \<noteq> q \<and> holds s r"
begin

text \<open>A history of operations: \<open>Inl\<close> grants, \<open>Inr\<close> revokes.\<close>

fun replay :: "'s \<Rightarrow> ('r + 'r) list \<Rightarrow> 's" where
  "replay s [] = s"
| "replay s (Inl q # ops) = replay (grant s q) ops"
| "replay s (Inr q # ops) = replay (revoke s q) ops"

fun last_word :: "bool \<Rightarrow> 'r \<Rightarrow> ('r + 'r) list \<Rightarrow> bool" where
  "last_word b r [] = b"
| "last_word b r (Inl q # ops) = last_word (r = q \<or> b) r ops"
| "last_word b r (Inr q # ops) = last_word (r \<noteq> q \<and> b) r ops"

lemma holds_replay: "holds (replay s ops) r \<longleftrightarrow> last_word (holds s r) r ops"
  by (induction s ops rule: replay.induct) (simp_all add: holds_grant holds_revoke)

lemma never_granted: "Inl r \<notin> set ops \<Longrightarrow> \<not> holds (replay fresh ops) r"
proof -
  assume "Inl r \<notin> set ops"
  then have "\<not> last_word False r ops"
    by (induction False r ops rule: last_word.induct) auto
  then show ?thesis by (simp add: holds_replay holds_fresh)
qed

end

definition gate_holds :: "capability_gate \<Rightarrow> string \<times> capability \<times> string \<Rightarrow> bool" where
  "gate_holds g r = (r \<in> gate_grants g)"

interpretation gate_store:
  grant_store gate_holds "\<lambda>g (a, c, w). gate_grant g a c w" "\<lambda>g (a, c, w). gate_revoke g a c w"
    gate_init
  by unfold_locales (auto simp: gate_holds_def gate_defs)

section \<open>Tool registry\<close>

record tool_manifest =
  tm_name :: string
  tm_version :: string
  tm_input_schema :: json
  tm_output_schema :: json
  tm_required_capabilities :: "capability list"
  tm_side_effects :: "string list"
  tm_execution_domain :: string
  tm_workspace_required :: bool
  tm_network_required :: bool

record 'h tool_registry =
  tr_tools :: "(string, tool_manifest \<times> 'h) dict"

definition tools_init :: "'h tool_registry" where
  "tools_init = \<lparr>tr_tools = []\<rparr>"

definition tools_register :: "'h tool_registry \<Rightarrow> tool_manifest \<times> 'h \<Rightarrow> 'h tool_registry" where
  "tools_register r e = r\<lparr>tr_tools := dict_set (tr_tools r) (tm_name (fst e)) e\<rparr>"

definition tools_get :: "'h tool_registry \<Rightarrow> string \<Rightarrow> (tool_manifest \<times> 'h) option" where
  "tools_get r name = dict_get (tr_tools r) name"

definition tools_list :: "'h tool_registry \<Rightarrow> tool_manifest list" where
  "tools_list r = map fst (dict_values (tr_tools r))"

fun all_capabilities_allowed ::
  "capability_gate \<Rightarrow> string \<Rightarrow> string \<Rightarrow> string \<Rightarrow> int \<Rightarrow> int \<Rightarrow> capability list \<Rightarrow> bool" where
  "all_capabilities_allowed g sid actor ws rg cg [] = True"
| "all_capabilities_allowed g sid actor ws rg cg (c # cs) =
     (if \<not> allowed (gate_check g sid actor c ws rg cg) then False
      else all_capabilities_allowed g sid actor ws rg cg cs)"

definition tools_validate_capabilities ::
  "'h tool_registry \<Rightarrow> string \<Rightarrow> string \<Rightarrow> capability_gate \<Rightarrow> string \<Rightarrow> string \<Rightarrow> int \<Rightarrow> int \<Rightarrow> bool" where
  "tools_validate_capabilities r name actor g sid ws rg cg =
     (case tools_get r name of
        None \<Rightarrow> False
      | Some (manifest, _) \<Rightarrow>
          all_capabilities_allowed g sid actor ws rg cg (tm_required_capabilities manifest))"

lemmas tools_defs [op_defs] =
  tools_init_def tools_register_def tools_get_def tools_list_def tools_validate_capabilities_def

interpretation tool_store:
  keyed_store tools_get tools_register "\<lambda>e. tm_name (fst e)"
  by unfold_locales (simp add: tools_get_def tools_register_def)

lemma all_capabilities_allowed_iff [simp]:
  "all_capabilities_allowed g sid actor ws rg cg cs \<longleftrightarrow>
     (\<forall>c \<in> set cs. rg = cg \<and> (gate_holds g (actor, c, ws) \<or> gate_holds g (actor, c, ''*'')))"
  by (induction cs) (auto simp: gate_holds_def)

section \<open>ExecutionOrchestrator\<close>

record tool_invocation =
  ti_name :: string
  ti_args :: "(string, json) dict"
  ti_session_id :: string
  ti_actor_id :: string
  ti_tenant_id :: string
  ti_workspace_id :: string

record 'a invocation_result =
  ir_success :: bool
  ir_data :: "'a option"
  ir_error :: string
  ir_execution_time_ms :: int

text \<open>
  \<open>session_validate\<close> is \<open>None\<close> when there is no session manager or it has no
  attribute \<open>validate\<close>; \<open>process_generation\<close> is \<open>process_manager.generation\<close>.
\<close>

record 'a execution_orchestrator =
  eo_tool_registry :: "((string, json) dict \<Rightarrow> 'a result) tool_registry"
  eo_gate :: capability_gate
  eo_session_validate :: "(string \<Rightarrow> bool) option"
  eo_process_generation :: int
  eo_generation :: int

definition denied :: "string \<Rightarrow> 'a invocation_result" where
  "denied e = \<lparr>ir_success = False, ir_data = None, ir_error = e, ir_execution_time_ms = 0\<rparr>"

definition orchestrator_execute ::
  "'a execution_orchestrator \<Rightarrow> tool_invocation \<Rightarrow> instant \<Rightarrow> instant \<Rightarrow> 'a invocation_result" where
  "orchestrator_execute eo iv start_time end_time =
     (if (case eo_session_validate eo of None \<Rightarrow> False | Some v \<Rightarrow> \<not> v (ti_session_id iv))
      then denied ''Invalid session''
      else if \<not> tools_validate_capabilities (eo_tool_registry eo) (ti_name iv) (ti_actor_id iv)
                 (eo_gate eo) (ti_session_id iv) (ti_workspace_id iv)
                 (eo_generation eo) (eo_generation eo)
      then denied ''Capabilities denied for tool''
      else if eo_process_generation eo \<noteq> eo_generation eo
      then denied ''Stale execution generation''
      else case tools_get (eo_tool_registry eo) (ti_name iv) of
        None \<Rightarrow> denied ''Tool not found''
      | Some (manifest, handler) \<Rightarrow>
          (case handler (ti_args iv) of
             Inr result_data \<Rightarrow>
               \<lparr>ir_success = True, ir_data = Some result_data, ir_error = [],
                ir_execution_time_ms = ms_between start_time end_time\<rparr>
           | Inl e \<Rightarrow>
               \<lparr>ir_success = False, ir_data = None, ir_error = str_exn e,
                ir_execution_time_ms = ms_between start_time end_time\<rparr>))"

section \<open>Properties\<close>

text \<open>
  Complete mediation: an invocation succeeds exactly when the session check (if one is
  installed) passes, the tool is registered, every capability its manifest requires was
  granted to the actor for this workspace or for all of them, the process manager is of the
  orchestrator's generation, and the handler returned; the result is then the handler's.
\<close>

theorem orchestrator_execute_mediated:
  "ir_success (orchestrator_execute eo iv t0 t1) \<and>
     ir_data (orchestrator_execute eo iv t0 t1) = Some d \<longleftrightarrow>
   (case eo_session_validate eo of None \<Rightarrow> True | Some v \<Rightarrow> v (ti_session_id iv)) \<and>
   eo_process_generation eo = eo_generation eo \<and>
   (\<exists>manifest handler.
      tools_get (eo_tool_registry eo) (ti_name iv) = Some (manifest, handler) \<and>
      set (tm_required_capabilities manifest) \<subseteq>
        {c. gate_holds (eo_gate eo) (ti_actor_id iv, c, ti_workspace_id iv) \<or>
            gate_holds (eo_gate eo) (ti_actor_id iv, c, ''*'')} \<and>
      handler (ti_args iv) = Inr d)"
  by (auto simp: orchestrator_execute_def denied_def tools_validate_capabilities_def
           split: option.splits sum.splits if_splits)

text \<open>
  Revocation is effective: after the workspace grant and the wildcard grant of a
  required capability are revoked, the tool is denied whatever else was granted, and its
  handler is not run (the result does not depend on it).
\<close>

theorem orchestrator_revoked_denied:
  assumes "tools_get (eo_tool_registry eo) (ti_name iv) = Some (manifest, handler)"
    and "c \<in> set (tm_required_capabilities manifest)"
    and "eo_session_validate eo = None"
  shows "orchestrator_execute
           (eo\<lparr>eo_gate := gate_revoke (gate_revoke (eo_gate eo) (ti_actor_id iv) c (ti_workspace_id iv))
                            (ti_actor_id iv) c ''*''\<rparr>) iv t0 t1
         = denied ''Capabilities denied for tool''"
  using assms
  by (auto simp: orchestrator_execute_def tools_validate_capabilities_def gate_holds_def gate_defs)

definition demo_manifest :: tool_manifest where
  "demo_manifest = \<lparr>tm_name = ''fs.read'', tm_version = ''1.0'', tm_input_schema = JObj [],
     tm_output_schema = JObj [], tm_required_capabilities = [FILE_READ], tm_side_effects = [],
     tm_execution_domain = ''LOCAL'', tm_workspace_required = True, tm_network_required = False\<rparr>"

definition demo_orchestrator :: "string execution_orchestrator" where
  "demo_orchestrator = \<lparr>eo_tool_registry = tools_register tools_init (demo_manifest, \<lambda>_. Inr ''text''),
     eo_gate = gate_grant gate_init ''anny'' FILE_READ ''ws1'', eo_session_validate = None,
     eo_process_generation = 1, eo_generation = 1\<rparr>"

definition demo_invocation :: tool_invocation where
  "demo_invocation = \<lparr>ti_name = ''fs.read'', ti_args = [], ti_session_id = ''s'',
     ti_actor_id = ''anny'', ti_tenant_id = ''t'', ti_workspace_id = ''ws1''\<rparr>"

lemmas demo_defs = demo_manifest_def demo_orchestrator_def demo_invocation_def

theorem orchestrator_revoked_denied_witness:
  "ir_success (orchestrator_execute demo_orchestrator demo_invocation 0 5000) \<and>
   orchestrator_execute
     (demo_orchestrator\<lparr>eo_gate := gate_revoke (gate_revoke (eo_gate demo_orchestrator) ''anny'' FILE_READ ''ws1'')
                      ''anny'' FILE_READ ''*''\<rparr>) demo_invocation 0 5000
   = denied ''Capabilities denied for tool''"
proof
  show "ir_success (orchestrator_execute demo_orchestrator demo_invocation 0 5000)"
    by (simp add: demo_defs orchestrator_execute_def tools_defs gate_holds_def gate_defs)
  have actor: "ti_actor_id demo_invocation = ''anny''" and ws: "ti_workspace_id demo_invocation = ''ws1''"
    by (simp_all add: demo_invocation_def)
  have "tools_get (eo_tool_registry demo_orchestrator) (ti_name demo_invocation)
          = Some (demo_manifest, \<lambda>_. Inr ''text'')"
    and "FILE_READ \<in> set (tm_required_capabilities demo_manifest)"
    and "eo_session_validate demo_orchestrator = None"
    by (simp_all add: demo_defs tools_defs)
  from orchestrator_revoked_denied [OF this, of 0 5000]
  show "orchestrator_execute
     (demo_orchestrator\<lparr>eo_gate := gate_revoke (gate_revoke (eo_gate demo_orchestrator) ''anny'' FILE_READ ''ws1'')
                      ''anny'' FILE_READ ''*''\<rparr>) demo_invocation 0 5000
   = denied ''Capabilities denied for tool''"
    by (simp only: actor ws)
qed

end
