(* ===== verification/Generation.thy ===== *)
theory Generation
  imports Prelude
begin

text \<open>
  Generation counters: \<open>RuntimeGeneration\<close> (runtime/core/generation.py), whose counter
  lives in a file shared by every process of the installation, and \<open>GenerationFence\<close>
  (runtime/security/generation_fence.py), its in-memory counterpart. Both provide the
  interface \<open>fencing_counter\<close>.
\<close>

section \<open>RuntimeGeneration\<close>

text \<open>
  The file \<open>generation.json\<close>: absent, not a JSON document (an empty file included), or a
  JSON object whose entry \<open>generation\<close> is an integer or missing.
\<close>

datatype generation_file = Absent | Malformed | Document "int option"

record runtime_generation =
  current_gen :: int

definition generation_load :: "generation_file \<Rightarrow> int" where
  "generation_load f =
     (case f of
        Absent \<Rightarrow> 0
      | Malformed \<Rightarrow> 0
      | Document g \<Rightarrow> (case g of None \<Rightarrow> 0 | Some n \<Rightarrow> n))"

definition generation_init :: "generation_file \<Rightarrow> runtime_generation" where
  "generation_init f = \<lparr>current_gen = generation_load f\<rparr>"

text \<open>
  \<open>increment\<close> reads the file under an exclusive lock, so it is one atomic step on the
  file; the value in memory is overwritten, never read.
\<close>

definition generation_increment ::
  "generation_file \<times> runtime_generation \<Rightarrow> (generation_file \<times> runtime_generation) \<times> int" where
  "generation_increment s =
     (let f = (case fst s of Absent \<Rightarrow> Malformed | f' \<Rightarrow> f');
          cur = (case f of Absent \<Rightarrow> 0 | Malformed \<Rightarrow> 0
                 | Document g \<Rightarrow> (case g of None \<Rightarrow> 0 | Some n \<Rightarrow> n));
          new = cur + 1
      in ((Document (Some new), (snd s)\<lparr>current_gen := new\<rparr>), new))"

definition generation_validate :: "runtime_generation \<Rightarrow> int \<Rightarrow> bool" where
  "generation_validate r g = (g = current_gen r)"

definition generation_fence :: "runtime_generation \<Rightarrow> int \<Rightarrow> unit result" where
  "generation_fence r g =
     (if \<not> generation_validate r g
      then Inl (StaleGenerationError
             (''Generation mismatch. Expected '' @ str_int (current_gen r) @ '', got '' @ str_int g))
      else Inr ())"

lemmas generation_defs [op_defs] =
  generation_load_def generation_init_def generation_increment_def
  generation_validate_def generation_fence_def

text \<open>The file agrees with the value a process holds in memory.\<close>

definition generation_inv :: "generation_file \<times> runtime_generation \<Rightarrow> bool" where
  "generation_inv s = (fst s = Document (Some (current_gen (snd s)))
                       \<or> fst s \<in> {Absent, Malformed} \<and> current_gen (snd s) = 0)"

lemma generation_increment_file:
  "fst (fst (generation_increment s)) = Document (Some (snd (generation_increment s)))"
  by (simp add: generation_increment_def Let_def)

lemma generation_increment_current:
  "current_gen (snd (fst (generation_increment s))) = snd (generation_increment s)"
  by (simp add: generation_increment_def Let_def)

lemma generation_increment_value:
  "snd (generation_increment (f, r)) = generation_load f + 1"
  by (auto simp: generation_increment_def generation_load_def Let_def
           split: generation_file.splits)

lemma generation_inv_init: "f \<noteq> Document None \<Longrightarrow> generation_inv (f, generation_init f)"
  by (auto simp: generation_inv_def generation_defs split: generation_file.splits option.splits)

lemma generation_inv_load: "generation_inv s \<Longrightarrow> generation_load (fst s) = current_gen (snd s)"
  by (auto simp: generation_inv_def generation_load_def)

interpretation runtime_fence:
  fencing_counter generation_inv "\<lambda>s. current_gen (snd s)"
    "\<lambda>s. fst (generation_increment s)" "\<lambda>s. generation_validate (snd s)"
proof unfold_locales
  fix s assume inv: "generation_inv s"
  show "generation_inv (fst (generation_increment s))"
    by (simp add: generation_inv_def generation_increment_file generation_increment_current)
  show "current_gen (snd (fst (generation_increment s))) = current_gen (snd s) + 1"
    using generation_increment_value [of "fst s" "snd s"] generation_inv_load [OF inv]
    by (simp add: generation_increment_current)
next
  fix s :: "generation_file \<times> runtime_generation" and g
  show "generation_validate (snd s) g \<longleftrightarrow> g = current_gen (snd s)"
    by (simp add: generation_validate_def)
qed

subsection \<open>Several processes on one file\<close>

text \<open>
  Processes are numbered; \<open>generation_run\<close> lets them increment in the given order and
  collects the generations handed out.
\<close>

fun generation_run ::
  "generation_file \<Rightarrow> (nat \<Rightarrow> runtime_generation) \<Rightarrow> nat list \<Rightarrow> int list" where
  "generation_run f ps [] = []"
| "generation_run f ps (i # is) =
     (let ((f', r'), g) = generation_increment (f, ps i) in g # generation_run f' (ps(i := r')) is)"

lemma generation_run_consecutive:
  "generation_run f ps is = map (\<lambda>k. generation_load f + 1 + int k) [0..<length is]"
proof (induction "is" arbitrary: f ps)
  case Nil
  then show ?case by simp
next
  case (Cons i "is")
  obtain f' r' g where step: "generation_increment (f, ps i) = ((f', r'), g)"
    by (metis prod.collapse)
  have "f' = Document (Some g)"
    using generation_increment_file [of "(f, ps i)"] by (simp add: step)
  moreover have "g = generation_load f + 1"
    using generation_increment_value [of f "ps i"] by (simp add: step)
  ultimately have "generation_load f' = generation_load f + 1" and "g = generation_load f + 1"
    by (simp_all add: generation_load_def)
  then show ?case
    by (simp add: step Cons.IH map_upt_Suc algebra_simps del: upt_Suc)
qed

section \<open>GenerationFence\<close>

record gen_fence =
  fence_current :: int

definition fence_init :: "int \<Rightarrow> gen_fence" where
  "fence_init g = \<lparr>fence_current = g\<rparr>"

definition fence_advance :: "gen_fence \<Rightarrow> gen_fence" where
  "fence_advance f = f\<lparr>fence_current := fence_current f + 1\<rparr>"

definition fence_validate :: "gen_fence \<Rightarrow> int \<Rightarrow> bool" where
  \<comment> \<open>the second argument is \<open>context.generation\<close>\<close>
  "fence_validate f g = (g = fence_current f)"

interpretation memory_fence:
  fencing_counter "\<lambda>_. True" fence_current fence_advance fence_validate
  by unfold_locales (simp_all add: fence_advance_def fence_validate_def)

section \<open>Properties\<close>

text \<open>
  Generations are never reissued: whatever the order in which processes sharing one
  \<open>generation.json\<close> call \<open>increment\<close>, the generations handed out are strictly
  increasing and each is larger than the value the file held at the start.
\<close>

theorem generation_run_strictly_increasing:
  "sorted_wrt (<) (generation_run f ps is) \<and>
   (\<forall>k < length is. generation_load f < generation_run f ps is ! k) \<and>
   length (generation_run f ps is) = length is"
  by (simp add: generation_run_consecutive sorted_wrt_map sorted_wrt_iff_nth_less)

theorem generation_run_strictly_increasing_witness:
  "generation_run (Document (Some 4)) (\<lambda>_. generation_init (Document (Some 4))) [0, 1, 0] = [5, 6, 7]
   \<and> sorted_wrt (<) (generation_run (Document (Some 4)) (\<lambda>_. generation_init (Document (Some 4))) [0, 1, 0])"
  using generation_run_strictly_increasing
    [of "Document (Some 4)" "\<lambda>_. generation_init (Document (Some 4))" "[0, 1, 0]"]
  by (simp add: generation_increment_def Let_def)

text \<open>
  Fencing: a generation that was current (or older) when a process last held the
  counter is refused by \<open>fence\<close> with \<open>StaleGenerationError\<close> after any positive
  number of further increments, provided the file and the process agreed at the start.
\<close>

theorem generation_fence_stale:
  assumes "generation_inv s" and "g \<le> current_gen (snd s)" and "0 < n"
  shows "\<exists>m. generation_fence (snd (((\<lambda>s. fst (generation_increment s)) ^^ n) s)) g
             = Inl (StaleGenerationError m)"
  using runtime_fence.stale_forever [OF assms] by (simp add: generation_fence_def)

theorem generation_fence_stale_witness:
  "\<exists>m. generation_fence (snd (((\<lambda>s. fst (generation_increment s)) ^^ 2)
          (Document (Some 3), \<lparr>current_gen = 3\<rparr>))) 3 = Inl (StaleGenerationError m)"
  by (rule generation_fence_stale) (simp_all add: generation_inv_def)

text \<open>
  Damage to \<open>generation.json\<close> defeats the fence: when the file is unreadable,
  \<open>increment\<close> restarts from 1 whatever generation the process had reached, so work of
  generation 1 is accepted again.
\<close>

theorem generation_reset_on_damage:
  "generation_fence (snd (fst (generation_increment (Malformed, \<lparr>current_gen = g\<rparr>)))) 1 = Inr ()"
  by (simp add: generation_increment_def generation_fence_def generation_validate_def)

end
