(* ===== verification/Security.thy ===== *)
theory Security
  imports CapGate Generation
begin

text \<open>
  The security layer (runtime/security): the execution context every physical operation
  carries, the authorization store and the authority validator, the context guard, the
  secure tool registry, the authorized execution pipeline and the per-thread active context.
\<close>

section \<open>ExecutionContext\<close>

record execution_context =
  ctx_tenant_id :: string
  ctx_account_id :: string
  ctx_project_id :: string
  ctx_anny_instance_id :: string
  ctx_runtime_id :: string
  ctx_session_id :: string
  ctx_actor_id :: string
  ctx_operation_id :: string
  ctx_execution_id :: string
  ctx_generation :: int
  ctx_issued_at :: instant
  ctx_expires_at :: instant
  ctx_workspace_id :: "string option"
  ctx_capabilities :: "string set"

definition has_capability :: "execution_context \<Rightarrow> string \<Rightarrow> bool" where
  "has_capability ctx cap = (cap \<in> ctx_capabilities ctx)"

definition context_is_valid :: "execution_context \<Rightarrow> instant \<Rightarrow> int \<Rightarrow> bool" where
  "context_is_valid ctx current_time current_generation =
     (if ctx_generation ctx \<noteq> current_generation then False
      else if current_time > ctx_expires_at ctx then False
      else if current_time < ctx_issued_at ctx then False
      else True)"

lemma context_is_valid_iff:
  "context_is_valid ctx t g \<longleftrightarrow>
     ctx_generation ctx = g \<and> ctx_issued_at ctx \<le> t \<and> t \<le> ctx_expires_at ctx"
  by (auto simp: context_is_valid_def)

section \<open>AuthorizationStore\<close>

record auth_grant =
  ag_tenant_id :: string
  ag_actor_id :: string
  ag_capability :: string
  ag_workspace_id :: string
  ag_generation :: int

record authorization_store =
  as_grants :: "(string, auth_grant) dict"

definition auth_init :: authorization_store where
  "auth_init = \<lparr>as_grants = []\<rparr>"

definition make_key :: "string \<Rightarrow> string \<Rightarrow> string \<Rightarrow> string \<Rightarrow> string" where
  "make_key tenant actor cap ws = tenant @ '':'' @ actor @ '':'' @ cap @ '':'' @ ws"

definition auth_grant_op ::
  "authorization_store \<Rightarrow> string \<Rightarrow> string \<Rightarrow> string \<Rightarrow> string \<Rightarrow> int \<Rightarrow> authorization_store" where
  "auth_grant_op s tenant actor cap ws gen =
     s\<lparr>as_grants := dict_set (as_grants s) (make_key tenant actor cap ws)
        \<lparr>ag_tenant_id = tenant, ag_actor_id = actor, ag_capability = cap,
         ag_workspace_id = ws, ag_generation = gen\<rparr>\<rparr>"

definition auth_revoke_op ::
  "authorization_store \<Rightarrow> string \<Rightarrow> string \<Rightarrow> string \<Rightarrow> string \<Rightarrow> authorization_store" where
  "auth_revoke_op s tenant actor cap ws =
     (let key = make_key tenant actor cap ws in
      if dict_get (as_grants s) key \<noteq> None
      then s\<lparr>as_grants := dict_del (as_grants s) key\<rparr> else s)"

text \<open>A workspace of \<open>None\<close> renders as \<open>None\<close> in the key.\<close>

definition auth_check :: "authorization_store \<Rightarrow> execution_context \<Rightarrow> string \<Rightarrow> bool" where
  "auth_check s ctx cap =
     (let key_specific = make_key (ctx_tenant_id ctx) (ctx_actor_id ctx) cap (str_opt (ctx_workspace_id ctx));
          key_wildcard = make_key (ctx_tenant_id ctx) (ctx_actor_id ctx) cap ''*'';
          grant = (case dict_get (as_grants s) key_specific of
                     Some g \<Rightarrow> Some g
                   | None \<Rightarrow> dict_get (as_grants s) key_wildcard)
      in case grant of
           None \<Rightarrow> False
         | Some g \<Rightarrow> ag_generation g = ctx_generation ctx)"

text \<open>The file holds the saved dictionary; \<open>None\<close> means no file.\<close>

definition auth_save :: "authorization_store \<Rightarrow> (string, auth_grant) dict option" where
  "auth_save s = Some (as_grants s)"

definition auth_load ::
  "(string, auth_grant) dict option \<Rightarrow> authorization_store \<Rightarrow> authorization_store" where
  "auth_load file s = (case file of None \<Rightarrow> s | Some d \<Rightarrow> s\<lparr>as_grants := d\<rparr>)"

lemmas auth_defs [op_defs] =
  auth_init_def auth_grant_op_def auth_revoke_op_def auth_check_def auth_save_def auth_load_def

subsection \<open>Keys are unambiguous without colons\<close>

definition plain :: "string \<Rightarrow> bool" where
  "plain s = (CHR '':'' \<notin> set s)"

lemma split_at_colon:
  assumes "plain xs" and "plain xs'" and "xs @ '':'' @ ys = xs' @ '':'' @ ys'"
  shows "xs = xs' \<and> ys = ys'"
  using assms
proof (induction xs arbitrary: xs')
  case Nil
  then show ?case by (cases xs') (auto simp: plain_def)
next
  case (Cons x xs)
  then show ?case by (cases xs') (auto simp: plain_def)
qed

lemma make_key_inject:
  assumes "plain t" "plain a" "plain c" "plain t'" "plain a'" "plain c'"
  shows "make_key t a c w = make_key t' a' c' w' \<longleftrightarrow> t = t' \<and> a = a' \<and> c = c' \<and> w = w'"
proof
  assume eq: "make_key t a c w = make_key t' a' c' w'"
  have "t = t' \<and> a @ '':'' @ c @ '':'' @ w = a' @ '':'' @ c' @ '':'' @ w'"
    using split_at_colon [OF assms(1,4)] eq unfolding make_key_def by blast
  moreover from this have "a = a' \<and> c @ '':'' @ w = c' @ '':'' @ w'"
    using split_at_colon [OF assms(2,5)] by blast
  moreover from this have "c = c' \<and> w = w'"
    using split_at_colon [OF assms(3,6)] by blast
  ultimately show "t = t' \<and> a = a' \<and> c = c' \<and> w = w'" by blast
qed simp

subsection \<open>Abstract specification: a partial map from rights to generations\<close>

type_synonym right = "string \<times> string \<times> string \<times> string"

definition abs_check :: "(right \<rightharpoonup> int) \<Rightarrow> execution_context \<Rightarrow> string \<Rightarrow> bool" where
  "abs_check m ctx cap =
     (case m (ctx_tenant_id ctx, ctx_actor_id ctx, cap, str_opt (ctx_workspace_id ctx)) of
        Some g \<Rightarrow> g = ctx_generation ctx
      | None \<Rightarrow> m (ctx_tenant_id ctx, ctx_actor_id ctx, cap, ''*'') = Some (ctx_generation ctx))"

text \<open>
  The store refines the map: every key that a colon-free right can produce holds the
  generation the map gives to that right.
\<close>

definition auth_refines :: "authorization_store \<Rightarrow> (right \<rightharpoonup> int) \<Rightarrow> bool" where
  "auth_refines s m \<longleftrightarrow>
     (\<forall>t a c w. plain t \<longrightarrow> plain a \<longrightarrow> plain c \<longrightarrow>
        map_option ag_generation (dict_get (as_grants s) (make_key t a c w)) = m (t, a, c, w))"

lemma auth_refinesD:
  "auth_refines s m \<Longrightarrow> plain t \<Longrightarrow> plain a \<Longrightarrow> plain c \<Longrightarrow>
   map_option ag_generation (dict_get (as_grants s) (make_key t a c w)) = m (t, a, c, w)"
  by (simp add: auth_refines_def)

lemma auth_refines_init: "auth_refines auth_init Map.empty"
  by (simp add: auth_refines_def auth_init_def)

lemma auth_refines_grant:
  assumes "auth_refines s m" and "plain t" "plain a" "plain c"
  shows "auth_refines (auth_grant_op s t a c w g) (m((t, a, c, w) \<mapsto> g))"
  using assms by (auto simp: auth_refines_def auth_grant_op_def make_key_inject)

lemma dict_get_revoke:
  "dict_get (as_grants (auth_revoke_op s t a c w)) k =
     (if k = make_key t a c w then None else dict_get (as_grants s) k)"
  by (auto simp: auth_revoke_op_def Let_def)

lemma auth_refines_revoke:
  assumes "auth_refines s m" and "plain t" "plain a" "plain c"
  shows "auth_refines (auth_revoke_op s t a c w) (m((t, a, c, w) := None))"
  using assms by (auto simp: auth_refines_def dict_get_revoke make_key_inject)

lemma auth_refines_check:
  assumes "auth_refines s m" and "plain (ctx_tenant_id ctx)" "plain (ctx_actor_id ctx)" "plain cap"
  shows "auth_check s ctx cap = abs_check m ctx cap"
proof -
  have gen: "map_option ag_generation
          (dict_get (as_grants s) (make_key (ctx_tenant_id ctx) (ctx_actor_id ctx) cap w))
        = m (ctx_tenant_id ctx, ctx_actor_id ctx, cap, w)" for w
    by (rule auth_refinesD [OF assms])
  show ?thesis
    using gen [of "str_opt (ctx_workspace_id ctx)"] gen [of "''*''"]
    by (auto simp: auth_check_def abs_check_def Let_def split: option.splits)
qed

text \<open>Operations of a client, concretely and on the map.\<close>

datatype auth_op = GrantOp string string string string int | RevokeOp string string string string

fun auth_run :: "authorization_store \<Rightarrow> auth_op list \<Rightarrow> authorization_store" where
  "auth_run s [] = s"
| "auth_run s (GrantOp t a c w g # ops) = auth_run (auth_grant_op s t a c w g) ops"
| "auth_run s (RevokeOp t a c w # ops) = auth_run (auth_revoke_op s t a c w) ops"

fun abs_run :: "(right \<rightharpoonup> int) \<Rightarrow> auth_op list \<Rightarrow> (right \<rightharpoonup> int)" where
  "abs_run m [] = m"
| "abs_run m (GrantOp t a c w g # ops) = abs_run (m((t, a, c, w) \<mapsto> g)) ops"
| "abs_run m (RevokeOp t a c w # ops) = abs_run (m((t, a, c, w) := None)) ops"

fun plain_op :: "auth_op \<Rightarrow> bool" where
  "plain_op (GrantOp t a c w g) = (plain t \<and> plain a \<and> plain c)"
| "plain_op (RevokeOp t a c w) = (plain t \<and> plain a \<and> plain c)"

lemma auth_refines_run:
  "auth_refines s m \<Longrightarrow> list_all plain_op ops \<Longrightarrow> auth_refines (auth_run s ops) (abs_run m ops)"
  by (induction s ops arbitrary: m rule: auth_run.induct)
     (auto intro: auth_refines_grant auth_refines_revoke)

section \<open>AuthorityValidator\<close>

definition validate_context ::
  "authorization_store \<Rightarrow> gen_fence \<Rightarrow> instant \<Rightarrow> execution_context \<Rightarrow> execution_context result" where
  "validate_context s fence now ctx =
     (if ctx_generation ctx \<noteq> fence_current fence
      then Inl (SecurityViolationError ''Context generation mismatch.'')
      else if now > ctx_expires_at ctx
      then Inl (SecurityViolationError ''Context has expired.'')
      else Inr (ctx\<lparr>ctx_capabilities := Set.filter (auth_check s ctx) (ctx_capabilities ctx)\<rparr>))"

lemma validate_context_iff:
  "validate_context s fence now ctx = Inr ctx' \<longleftrightarrow>
     fence_validate fence (ctx_generation ctx) \<and> now \<le> ctx_expires_at ctx \<and>
     ctx' = ctx\<lparr>ctx_capabilities := {c \<in> ctx_capabilities ctx. auth_check s ctx c}\<rparr>"
  by (auto simp: validate_context_def fence_validate_def Set.filter_eq)

section \<open>ContextGuard\<close>

definition assert_account :: "execution_context \<Rightarrow> string \<Rightarrow> unit result" where
  "assert_account ctx resource =
     raise_if (ctx_account_id ctx \<noteq> resource)
       (ContextAccessError (''CONTEXT_ACCESS_DENIED: Account mismatch. Context='' @ ctx_account_id ctx
          @ '', Resource='' @ resource))"

definition assert_project :: "execution_context \<Rightarrow> string \<Rightarrow> unit result" where
  "assert_project ctx resource =
     raise_if (ctx_project_id ctx \<noteq> resource)
       (ContextAccessError (''CONTEXT_ACCESS_DENIED: Project mismatch. Context='' @ ctx_project_id ctx
          @ '', Resource='' @ resource))"

text \<open>The second argument is the workspace's \<open>project_id\<close>.\<close>

definition assert_workspace :: "execution_context \<Rightarrow> string \<Rightarrow> unit result" where
  "assert_workspace ctx ws_project =
     raise_if (ws_project \<noteq> ctx_project_id ctx)
       (ContextAccessError (''CONTEXT_ACCESS_DENIED: Workspace project mismatch. Context=''
          @ ctx_project_id ctx @ '', Workspace Project='' @ ws_project))"

definition assert_credential_ref :: "execution_context \<Rightarrow> string \<Rightarrow> unit result" where
  "assert_credential_ref ctx ref =
     raise_if (\<not> starts_with ref (''acct-'' @ ctx_account_id ctx @ ''-''))
       (ContextAccessError (''CONTEXT_ACCESS_DENIED: Invalid credential namespace. Context=''
          @ ctx_account_id ctx @ '', Ref='' @ ref))"

definition assert_fabric_namespace :: "execution_context \<Rightarrow> string \<Rightarrow> unit result" where
  "assert_fabric_namespace ctx namespace =
     raise_if (\<not> starts_with namespace (ctx_project_id ctx @ ''/''))
       (ContextAccessError (''CONTEXT_ACCESS_DENIED: Fabric namespace mismatch. Context=''
          @ ctx_project_id ctx @ '', Namespace='' @ namespace))"

lemmas guard_defs [op_defs] =
  assert_account_def assert_project_def assert_workspace_def
  assert_credential_ref_def assert_fabric_namespace_def

section \<open>SecureToolRegistry\<close>

record secure_manifest =
  sm_name :: string
  sm_required_capabilities :: "string list"
  sm_workspace_required :: bool
  sm_effect_class :: string

type_synonym 'a handler = "execution_context \<Rightarrow> (string, json) dict \<Rightarrow> 'a result"

record 'a secure_tool_registry =
  str_tools :: "(string, secure_manifest \<times> 'a handler) dict"

definition secure_register ::
  "'a secure_tool_registry \<Rightarrow> secure_manifest \<times> 'a handler \<Rightarrow> 'a secure_tool_registry" where
  "secure_register r e = r\<lparr>str_tools := dict_set (str_tools r) (sm_name (fst e)) e\<rparr>"

definition secure_get ::
  "'a secure_tool_registry \<Rightarrow> string \<Rightarrow> (secure_manifest \<times> 'a handler) option" where
  "secure_get r name = dict_get (str_tools r) name"

fun missing_capability :: "execution_context \<Rightarrow> string list \<Rightarrow> string option" where
  "missing_capability ctx [] = None"
| "missing_capability ctx (c # cs) =
     (if c \<notin> ctx_capabilities ctx then Some c else missing_capability ctx cs)"

definition secure_execute ::
  "'a secure_tool_registry \<Rightarrow> execution_context \<Rightarrow> string \<Rightarrow> (string, json) dict \<Rightarrow> 'a result" where
  "secure_execute r ctx tool_name args =
     (case secure_get r tool_name of
        None \<Rightarrow> Inl (SecurityViolationError (''Tool '' @ [CHR 0x27] @ tool_name @ [CHR 0x27] @ '' is not registered.''))
      | Some (manifest, handler) \<Rightarrow>
          (case missing_capability ctx (sm_required_capabilities manifest) of
             Some c \<Rightarrow> Inl (SecurityViolationError (''Missing required capability: '' @ c))
           | None \<Rightarrow>
               if sm_workspace_required manifest \<and> \<not> truthy_str (ctx_workspace_id ctx)
               then Inl (SecurityViolationError
                      (''Tool '' @ [CHR 0x27] @ tool_name @ [CHR 0x27] @ '' requires a workspace.''))
               else handler ctx args))"

interpretation secure_store:
  keyed_store secure_get secure_register "\<lambda>e. sm_name (fst e)"
  by unfold_locales (simp add: secure_get_def secure_register_def)

lemma missing_capability_None_iff:
  "missing_capability ctx cs = None \<longleftrightarrow> set cs \<subseteq> ctx_capabilities ctx"
  by (induction cs) auto

lemma missing_capability_SomeD:
  "missing_capability ctx cs = Some c \<Longrightarrow> c \<in> set cs \<and> c \<notin> ctx_capabilities ctx"
  by (induction cs) (auto split: if_splits)

section \<open>AuthorizedExecutionPipeline\<close>

text \<open>
  The runtime identity service is an argument of the pipeline: the tenant, generation and
  runtime it reports. The tool registry is the one of runtime/tools, whose manifests name
  \<open>Capability\<close> members; \<open>required_cap.name\<close> is \<open>capability_name\<close>.
\<close>

record identity_service =
  is_tenant_id :: string
  is_current_generation :: int
  is_runtime_id :: string

record 'a pipeline_receipt =
  pr_execution_id :: string
  pr_tool_name :: string
  pr_status :: string
  pr_timestamp :: instant
  pr_result :: "string + 'a"

definition pipeline_execute ::
  "identity_service \<Rightarrow> 'a handler tool_registry \<Rightarrow> execution_context option \<Rightarrow> string
     \<Rightarrow> (string, json) dict \<Rightarrow> instant \<Rightarrow> instant \<Rightarrow> 'a pipeline_receipt result" where
  "pipeline_execute ident tools context tool_name tool_args now finished =
     (case context of
        None \<Rightarrow> Inl (SecurityViolationError ''ExecutionContext missing'')
      | Some ctx \<Rightarrow>
        if ctx_execution_id ctx = [] \<or> ctx_session_id ctx = []
        then Inl (SecurityViolationError ''ExecutionContext structurally invalid'')
        else if ctx_tenant_id ctx \<noteq> is_tenant_id ident
        then Inl (SecurityViolationError (''Tenant Binding failure: '' @ ctx_tenant_id ctx))
        else if \<not> context_is_valid ctx now (is_current_generation ident)
        then Inl (SecurityViolationError ''Session expired or generation stale'')
        else if ctx_runtime_id ctx \<noteq> is_runtime_id ident
        then Inl (SecurityViolationError ''Runtime Identity mismatch'')
        else (case tools_get tools tool_name of
          None \<Rightarrow> Inl (SecurityViolationError (''Tool '' @ tool_name @ '' not registered''))
        | Some (manifest, handler) \<Rightarrow>
          (case missing_capability ctx (map capability_name (tm_required_capabilities manifest)) of
             Some c \<Rightarrow> Inl (SecurityViolationError (''Capability Authorization failure: missing '' @ c))
           | None \<Rightarrow>
             if tm_workspace_required manifest \<and> \<not> truthy_str (ctx_workspace_id ctx)
             then Inl (SecurityViolationError
                    ''Resource Ownership failure: missing workspace_id in context'')
             else Inr \<lparr>pr_execution_id = ctx_execution_id ctx, pr_tool_name = tool_name,
                       pr_status = (case handler ctx tool_args of
                                      Inl _ \<Rightarrow> ''FAILED'' | Inr _ \<Rightarrow> ''SUCCESS''),
                       pr_timestamp = finished,
                       pr_result = (case handler ctx tool_args of
                                      Inl e \<Rightarrow> Inl (str_exn e) | Inr v \<Rightarrow> Inr v)\<rparr>)))"

section \<open>Active context per thread\<close>

record active_context =
  ac_account_id :: string
  ac_project_id :: string
  ac_workspace_id :: "string option"
  ac_repository_id :: "string option"

type_synonym context_manager = "nat \<rightharpoonup> active_context"

definition set_active_context :: "context_manager \<Rightarrow> nat \<Rightarrow> active_context \<Rightarrow> context_manager" where
  "set_active_context m thread ctx = m(thread \<mapsto> ctx)"

definition get_active_context :: "context_manager \<Rightarrow> nat \<Rightarrow> active_context option" where
  "get_active_context m thread = m thread"

definition clear_active_context :: "context_manager \<Rightarrow> nat \<Rightarrow> context_manager" where
  "clear_active_context m thread = (if m thread \<noteq> None then m(thread := None) else m)"

section \<open>Properties\<close>

text \<open>
  C6. The pipeline is the only way to a tool handler: a receipt is issued exactly when the
  context exists and is structurally valid, belongs to the runtime's tenant and runtime, is
  within its lifetime and of the current generation, the tool is registered, the context
  carries every capability its manifest requires, and a workspace is named where one is
  needed. Every other outcome is a \<open>SecurityViolationError\<close>.
\<close>

theorem pipeline_execute_mediated:
  "(\<exists>r. pipeline_execute ident tools mctx tool_name args now fin = Inr r) \<longleftrightarrow>
   (\<exists>ctx manifest handler.
      mctx = Some ctx \<and> ctx_execution_id ctx \<noteq> [] \<and> ctx_session_id ctx \<noteq> [] \<and>
      ctx_tenant_id ctx = is_tenant_id ident \<and> ctx_runtime_id ctx = is_runtime_id ident \<and>
      ctx_generation ctx = is_current_generation ident \<and>
      ctx_issued_at ctx \<le> now \<and> now \<le> ctx_expires_at ctx \<and>
      tools_get tools tool_name = Some (manifest, handler) \<and>
      capability_name ` set (tm_required_capabilities manifest) \<subseteq> ctx_capabilities ctx \<and>
      (tm_workspace_required manifest = False \<or> truthy_str (ctx_workspace_id ctx)))"
proof (cases mctx)
  case None
  then show ?thesis by (simp add: pipeline_execute_def)
next
  case (Some ctx)
  then show ?thesis
    by (auto simp: pipeline_execute_def context_is_valid_iff missing_capability_None_iff image_subset_iff
             dest!: missing_capability_SomeD
             split: option.splits prod.splits if_splits)
qed

text \<open>
  C28. The authorization store implements its specification, a partial map from
  (tenant, actor, capability, workspace) to generations: after any sequence of grants and
  revocations whose tenants, actors and capabilities contain no colon, \<open>check\<close> answers
  what the map says, the workspace entry taking precedence over the wildcard.
\<close>

theorem authorization_store_refines_map:
  assumes "list_all plain_op ops"
    and "plain (ctx_tenant_id ctx)" and "plain (ctx_actor_id ctx)" and "plain cap"
  shows "auth_check (auth_run auth_init ops) ctx cap = abs_check (abs_run Map.empty ops) ctx cap"
  by (rule auth_refines_check [OF auth_refines_run [OF auth_refines_init assms(1)] assms(2-4)])

definition demo_context :: execution_context where
  "demo_context = \<lparr>ctx_tenant_id = ''acme'', ctx_account_id = ''acct-1'', ctx_project_id = ''proj-1'',
     ctx_anny_instance_id = ''anny-1'', ctx_runtime_id = ''RT-1'', ctx_session_id = ''SES-1'',
     ctx_actor_id = ''kira'', ctx_operation_id = ''OP-1'', ctx_execution_id = ''EXEC-1'',
     ctx_generation = 2, ctx_issued_at = 0, ctx_expires_at = 100, ctx_workspace_id = Some ''ws1'',
     ctx_capabilities = {''FILE_READ'', ''FILE_WRITE''}\<rparr>"

definition demo_ops :: "auth_op list" where
  "demo_ops = [GrantOp ''acme'' ''kira'' ''FILE_READ'' ''*'' 2,
               GrantOp ''acme'' ''kira'' ''FILE_WRITE'' ''ws1'' 2,
               RevokeOp ''acme'' ''kira'' ''FILE_WRITE'' ''ws1'']"

theorem authorization_store_refines_map_witness:
  "auth_check (auth_run auth_init demo_ops) demo_context ''FILE_READ'' \<and>
   auth_check (auth_run auth_init demo_ops) demo_context ''FILE_READ''
     = abs_check (abs_run Map.empty demo_ops) demo_context ''FILE_READ''"
proof
  show "auth_check (auth_run auth_init demo_ops) demo_context ''FILE_READ''"
    by (simp add: demo_ops_def demo_context_def auth_defs make_key_def Let_def)
  show "auth_check (auth_run auth_init demo_ops) demo_context ''FILE_READ''
     = abs_check (abs_run Map.empty demo_ops) demo_context ''FILE_READ''"
    by (rule authorization_store_refines_map)
       (simp_all add: demo_ops_def demo_context_def plain_def)
qed

text \<open>
  Without that proviso tenants are not separated: the key joins its parts with colons,
  so a grant made to actor \<open>b:c\<close> of tenant \<open>a\<close> authorizes actor \<open>c\<close> of
  tenant \<open>a:b\<close>, for whatever parts, capability, workspace and generation.
\<close>

theorem authorization_key_collision:
  "auth_check
     (auth_grant_op auth_init t (b @ '':'' @ c) cap (str_opt (ctx_workspace_id ctx)) (ctx_generation ctx))
     (ctx\<lparr>ctx_tenant_id := t @ '':'' @ b, ctx_actor_id := c\<rparr>) cap"
  by (simp add: auth_defs make_key_def Let_def)

text \<open>
  The authority validator never widens a context: what it returns differs from its
  argument only in the capabilities, which are exactly those of the context for which the
  store holds a grant of the fence's current generation; it raises when the generation is
  not the fence's or the context has expired.
\<close>

theorem validate_context_sound:
  "validate_context s fence now ctx = Inr ctx' \<longleftrightarrow>
     fence_validate fence (ctx_generation ctx) \<and> now \<le> ctx_expires_at ctx \<and>
     ctx' = ctx\<lparr>ctx_capabilities := {c \<in> ctx_capabilities ctx. auth_check s ctx c}\<rparr>"
  by (rule validate_context_iff)

text \<open>
  Advancing the fence withdraws every capability at once: after any positive number of
  advances the validator rejects every context that it could accept before.
\<close>

theorem validate_context_fenced:
  assumes "validate_context s fence now ctx = Inr ctx'" and "0 < n"
  shows "validate_context s ((fence_advance ^^ n) fence) now' ctx
         = Inl (SecurityViolationError ''Context generation mismatch.'')"
proof -
  have "ctx_generation ctx = fence_current fence"
    using assms(1) by (simp add: validate_context_iff fence_validate_def)
  then have "\<not> fence_validate ((fence_advance ^^ n) fence) (ctx_generation ctx)"
    using memory_fence.stale_forever [where s = fence and g = "ctx_generation ctx" and n = n] assms(2) by simp
  then show ?thesis by (simp add: validate_context_def fence_validate_def)
qed

theorem validate_context_fenced_witness:
  "validate_context auth_init ((fence_advance ^^ 1) (fence_init 2)) 60 demo_context
     = Inl (SecurityViolationError ''Context generation mismatch.'')"
proof -
  have "validate_context auth_init (fence_init 2) 50 demo_context
          = Inr (demo_context\<lparr>ctx_capabilities := {c \<in> ctx_capabilities demo_context. auth_check auth_init demo_context c}\<rparr>)"
    by (simp add: validate_context_iff fence_validate_def fence_init_def demo_context_def)
  then show ?thesis by (rule validate_context_fenced) simp
qed

end
