(* ===== verification/Sessions.thy ===== *)
theory Sessions
  imports Enrollment Security
begin

text \<open>
  Session leases and their manager (runtime/session/lease.py, runtime/session/manager.py).
  Clock readings and generated identifiers are arguments of the operations that take them.
\<close>

section \<open>SessionLease\<close>

datatype session_status = S_PENDING | S_ACTIVE | S_EXPIRED | S_REVOKED | S_CLOSED

record session_lease =
  lease_session_id :: string
  lease_principal :: string
  lease_tenant_id :: string
  lease_account_id :: string
  lease_project_id :: string
  lease_anny_instance_id :: string
  lease_runtime_id :: string
  lease_scope :: string
  lease_provider_metadata :: json
  lease_created_at :: instant
  lease_expires_at :: instant
  lease_status :: session_status

definition lease_is_valid :: "session_lease \<Rightarrow> instant \<Rightarrow> bool" where
  "lease_is_valid l now = (lease_status l = S_ACTIVE \<and> now < lease_expires_at l)"

text \<open>\<open>remaining_seconds\<close>, in microseconds.\<close>

definition lease_remaining :: "session_lease \<Rightarrow> instant \<Rightarrow> int" where
  "lease_remaining l now = (if now > lease_expires_at l then 0 else lease_expires_at l - now)"

definition lease_extend :: "session_lease \<Rightarrow> int \<Rightarrow> session_lease" where
  "lease_extend l secs =
     (if lease_status l \<noteq> S_ACTIVE then l
      else l\<lparr>lease_expires_at := lease_expires_at l + seconds secs\<rparr>)"

definition lease_close :: "session_lease \<Rightarrow> session_lease" where
  "lease_close l = l\<lparr>lease_status := S_CLOSED\<rparr>"

definition lease_revoke :: "session_lease \<Rightarrow> session_lease" where
  "lease_revoke l = l\<lparr>lease_status := S_REVOKED\<rparr>"

definition lease_expire :: "session_lease \<Rightarrow> session_lease" where
  "lease_expire l = l\<lparr>lease_status := S_EXPIRED\<rparr>"

lemmas lease_defs [op_defs] =
  lease_is_valid_def lease_remaining_def lease_extend_def lease_close_def lease_revoke_def lease_expire_def

section \<open>SessionManager\<close>

record session_manager =
  ses_runtime_id :: string
  ses_enrollment :: enrollment_manager
  ses_sessions :: "(string, session_lease) dict"

definition session_attach ::
  "string \<Rightarrow> instant \<Rightarrow> string \<Rightarrow> string \<Rightarrow> string \<Rightarrow> string \<Rightarrow> string \<Rightarrow> string \<Rightarrow> json
     \<Rightarrow> session_manager \<Rightarrow> (session_manager \<times> session_lease) result" where
  "session_attach sid now princ tenant account project anny scope metadata m =
     (if em_state (ses_enrollment m) \<noteq> READY
      then Inl (RuntimeError ''Cannot attach session: Runtime is not enrolled and READY'')
      else if em_tenant_id (ses_enrollment m) \<noteq> Some tenant
      then Inl (ValueError ''Tenant ID mismatch: safety violation'')
      else let lease = \<lparr>lease_session_id = sid, lease_principal = princ, lease_tenant_id = tenant,
                 lease_account_id = account, lease_project_id = project,
                 lease_anny_instance_id = anny, lease_runtime_id = ses_runtime_id m,
                 lease_scope = scope, lease_provider_metadata = metadata,
                 lease_created_at = now, lease_expires_at = now + seconds 3600,
                 lease_status = S_ACTIVE\<rparr>
           in Inr (m\<lparr>ses_sessions := dict_set (ses_sessions m) sid lease\<rparr>, lease))"

definition session_get :: "session_manager \<Rightarrow> string \<Rightarrow> session_lease option" where
  "session_get m sid = dict_get (ses_sessions m) sid"

text \<open>Leases are shared objects: changing one is an update of the dictionary entry.\<close>

definition put_lease :: "session_manager \<Rightarrow> string \<Rightarrow> session_lease \<Rightarrow> session_manager" where
  "put_lease m sid l = m\<lparr>ses_sessions := dict_set (ses_sessions m) sid l\<rparr>"

definition session_detach :: "string \<Rightarrow> session_manager \<Rightarrow> session_manager" where
  "session_detach sid m =
     (case session_get m sid of None \<Rightarrow> m | Some l \<Rightarrow> put_lease m sid (lease_close l))"

definition validate_session :: "session_manager \<Rightarrow> string \<Rightarrow> instant \<Rightarrow> bool" where
  "validate_session m sid current_time =
     (case session_get m sid of
        None \<Rightarrow> False
      | Some l \<Rightarrow>
          if lease_status l \<noteq> S_ACTIVE then False
          else if current_time \<ge> lease_expires_at l then False
          else if Some (lease_tenant_id l) \<noteq> em_tenant_id (ses_enrollment m) then False
          else True)"

definition get_context_for_session ::
  "session_manager \<Rightarrow> string \<Rightarrow> string \<Rightarrow> string \<Rightarrow> instant \<Rightarrow> execution_context option" where
  "get_context_for_session m op_id exec_id sid current_time =
     (if \<not> validate_session m sid current_time then None
      else case session_get m sid of
        None \<Rightarrow> None
      | Some l \<Rightarrow> Some
          \<lparr>ctx_tenant_id = lease_tenant_id l, ctx_account_id = lease_account_id l,
           ctx_project_id = lease_project_id l, ctx_anny_instance_id = lease_anny_instance_id l,
           ctx_runtime_id = lease_runtime_id l, ctx_session_id = lease_session_id l,
           ctx_actor_id = lease_principal l, ctx_operation_id = op_id, ctx_execution_id = exec_id,
           ctx_generation = 1, ctx_issued_at = current_time, ctx_expires_at = lease_expires_at l,
           ctx_workspace_id = None, ctx_capabilities = {}\<rparr>)"

definition session_heartbeat :: "string \<Rightarrow> instant \<Rightarrow> int \<Rightarrow> session_manager \<Rightarrow> session_manager" where
  "session_heartbeat sid now secs m =
     (case session_get m sid of
        None \<Rightarrow> m
      | Some l \<Rightarrow> if lease_is_valid l now then put_lease m sid (lease_extend l secs) else m)"

definition active_sessions :: "session_manager \<Rightarrow> instant \<Rightarrow> session_lease list" where
  "active_sessions m now = filter (\<lambda>l. lease_is_valid l now) (dict_values (ses_sessions m))"

definition session_cleanup_expired :: "instant \<Rightarrow> session_manager \<Rightarrow> session_manager" where
  "session_cleanup_expired now m =
     m\<lparr>ses_sessions := map (\<lambda>(k, l).
         (k, if lease_status l = S_ACTIVE \<and> now \<ge> lease_expires_at l then lease_expire l else l))
       (ses_sessions m)\<rparr>"

lemmas session_defs [op_defs] =
  session_attach_def session_get_def put_lease_def session_detach_def session_heartbeat_def
  session_cleanup_expired_def

lemma session_get_put [simp]:
  "session_get (put_lease m sid l) k = (if k = sid then Some l else session_get m k)"
  by (simp add: session_get_def put_lease_def)

lemma session_get_cleanup:
  "session_get (session_cleanup_expired now m) k =
     map_option (\<lambda>l. if lease_status l = S_ACTIVE \<and> now \<ge> lease_expires_at l then lease_expire l else l)
       (session_get m k)"
  by (simp add: session_get_def session_cleanup_expired_def dict_get_map_values)

lemma enrollment_frame [simp]:
  "ses_enrollment (put_lease m sid l) = ses_enrollment m"
  "ses_enrollment (session_detach sid m) = ses_enrollment m"
  "ses_enrollment (session_heartbeat sid now secs m) = ses_enrollment m"
  "ses_enrollment (session_cleanup_expired now m) = ses_enrollment m"
  by (simp_all add: session_defs split: option.splits)

lemma validate_session_iff:
  "validate_session m sid t \<longleftrightarrow>
     (\<exists>l. session_get m sid = Some l \<and> lease_status l = S_ACTIVE \<and> t < lease_expires_at l \<and>
          em_tenant_id (ses_enrollment m) = Some (lease_tenant_id l))"
  by (auto simp: validate_session_def split: option.splits)

section \<open>Runs of the session manager\<close>

text \<open>
  One rule per operation; identifiers of new sessions are fresh, which is what
  \<open>uuid4\<close> provides. The enrollment behind the manager may change at any time.
\<close>

inductive session_step :: "session_manager \<Rightarrow> session_manager \<Rightarrow> bool" where
  attach: "session_get m sid = None \<Longrightarrow>
     session_attach sid now p t a pr an sc md m = Inr (m', l) \<Longrightarrow> session_step m m'"
| detach: "session_step m (session_detach sid m)"
| heartbeat: "session_step m (session_heartbeat sid now secs m)"
| cleanup: "session_step m (session_cleanup_expired now m)"
| enroll: "enrollment_step ver (ses_enrollment m) e \<Longrightarrow> session_step m (m\<lparr>ses_enrollment := e\<rparr>)"

inductive_cases session_stepE: "session_step m m'"

definition session_over :: "string \<Rightarrow> session_manager \<Rightarrow> bool" where
  "session_over sid m = (\<exists>l. session_get m sid = Some l \<and> lease_status l \<noteq> S_ACTIVE)"

lemma session_over_step:
  "session_over sid m \<Longrightarrow> session_step m m' \<Longrightarrow> session_over sid m'"
  by (erule session_stepE)
     (auto simp: session_over_def session_defs lease_defs dict_get_map_values Let_def
           split: if_splits option.splits)

interpretation session_life: one_way session_step "session_over sid" for sid
  by unfold_locales (rule session_over_step)

text \<open>Every lease is stored under its own id and was granted to the runtime of the manager.\<close>

definition session_inv :: "session_manager \<Rightarrow> bool" where
  "session_inv m \<longleftrightarrow>
     (\<forall>sid l. session_get m sid = Some l \<longrightarrow>
        lease_session_id l = sid \<and> lease_runtime_id l = ses_runtime_id m \<and> lease_status l \<noteq> S_PENDING)"

lemma session_inv_step: "session_step m m' \<Longrightarrow> session_inv m \<Longrightarrow> session_inv m'"
  by (erule session_stepE)
     (auto simp: session_inv_def session_defs lease_defs dict_get_map_values Let_def
           split: if_splits option.splits)

interpretation session_keeps: one_way session_step session_inv
  by unfold_locales (rule session_inv_step)

section \<open>Properties\<close>

text \<open>
  A session that was detached or expired never comes back: once its lease is not
  ACTIVE, no sequence of attaches (under fresh ids), detaches, heartbeats, cleanups and
  enrollment changes makes \<open>validate_session\<close> accept it again.
\<close>

theorem session_never_revives:
  assumes "session_over sid m" and "session_step\<^sup>*\<^sup>* m m'"
  shows "\<not> validate_session m' sid t"
  using session_life.over_forever [OF assms(2,1)]
  by (auto simp: session_over_def validate_session_iff)

definition demo_sessions :: session_manager where
  "demo_sessions = \<lparr>ses_runtime_id = ''RT-1'', ses_enrollment = demo_enrolled, ses_sessions = []\<rparr>"

definition demo_attached :: session_manager where
  "demo_attached = (case session_attach ''SES-1'' 0 ''kira'' ''acme'' ''acct-1'' ''proj-1'' ''anny-1'' ''ALL'' JNull
                       demo_sessions of Inr (m, l) \<Rightarrow> m | Inl _ \<Rightarrow> demo_sessions)"

lemmas demo_session_defs = demo_sessions_def demo_attached_def demo_enrolled_def Let_def

theorem session_never_revives_witness:
  "validate_session demo_attached ''SES-1'' 5 \<and>
   \<not> validate_session (session_heartbeat ''SES-1'' 7 3600 (session_detach ''SES-1'' demo_attached)) ''SES-1'' 5"
proof
  show "validate_session demo_attached ''SES-1'' 5"
    by (simp add: validate_session_iff demo_session_defs session_defs seconds_def)
  have "session_over ''SES-1'' (session_detach ''SES-1'' demo_attached)"
    by (simp add: session_over_def demo_session_defs session_defs lease_defs)
  moreover have "session_step\<^sup>*\<^sup>* (session_detach ''SES-1'' demo_attached)
      (session_heartbeat ''SES-1'' 7 3600 (session_detach ''SES-1'' demo_attached))"
    by (rule r_into_rtranclp, rule session_step.heartbeat)
  ultimately show "\<not> validate_session (session_heartbeat ''SES-1'' 7 3600 (session_detach ''SES-1'' demo_attached)) ''SES-1'' 5"
    by (rule session_never_revives)
qed

text \<open>
  Tenant isolation: a context handed out for a session belongs to the tenant the runtime
  is enrolled with at that moment, to the runtime of the manager and to the lease's
  principal, within the lease's lifetime; and resetting the enrollment stops every session
  from obtaining a context.
\<close>

theorem session_context_isolation:
  assumes "session_inv m"
  shows "(\<forall>ctx. get_context_for_session m op_id exec_id sid t = Some ctx \<longrightarrow>
            em_tenant_id (ses_enrollment m) = Some (ctx_tenant_id ctx) \<and>
            ctx_runtime_id ctx = ses_runtime_id m \<and> ctx_session_id ctx = sid \<and>
            ctx_issued_at ctx < ctx_expires_at ctx) \<and>
         get_context_for_session (m\<lparr>ses_enrollment := enrollment_reset (ses_enrollment m)\<rparr>)
            op_id exec_id sid t = None"
  using assms
  by (auto simp: get_context_for_session_def validate_session_iff session_inv_def session_get_def
                 enrollment_reset_def split: option.splits if_splits)

theorem session_context_isolation_witness:
  "session_inv demo_attached \<and>
   (\<exists>ctx. get_context_for_session demo_attached ''OP'' ''EX'' ''SES-1'' 5 = Some ctx \<and> ctx_tenant_id ctx = ''acme'') \<and>
   get_context_for_session (demo_attached\<lparr>ses_enrollment := enrollment_reset (ses_enrollment demo_attached)\<rparr>)
     ''OP'' ''EX'' ''SES-1'' 5 = None"
proof -
  have inv: "session_inv demo_attached"
    by (simp add: session_inv_def demo_session_defs session_defs)
  moreover have "\<exists>ctx. get_context_for_session demo_attached ''OP'' ''EX'' ''SES-1'' 5 = Some ctx \<and> ctx_tenant_id ctx = ''acme''"
    by (simp add: get_context_for_session_def validate_session_def demo_session_defs session_defs seconds_def)
  ultimately show ?thesis
    using session_context_isolation [OF inv, of "''OP''" "''EX''" "''SES-1''" 5] by blast
qed

text \<open>
  Contexts of sessions always carry generation 1, so the pipeline refuses every one of
  them as soon as the runtime has left its first generation, whatever tool is asked for.
\<close>

theorem session_context_generation_one:
  assumes "get_context_for_session m op_id exec_id sid t = Some ctx"
    and "is_current_generation ident \<noteq> 1"
  shows "\<exists>msg. pipeline_execute ident tools (Some ctx) tool args now fin = Inl (SecurityViolationError msg)"
proof -
  have "ctx_generation ctx = 1"
    using assms(1) by (auto simp: get_context_for_session_def split: option.splits if_splits)
  then show ?thesis
    using assms(2) by (simp add: pipeline_execute_def context_is_valid_iff)
qed

theorem session_context_generation_one_witness:
  "\<exists>ctx msg. get_context_for_session demo_attached ''OP'' ''EX'' ''SES-1'' 5 = Some ctx \<and>
     pipeline_execute \<lparr>is_tenant_id = ''acme'', is_current_generation = 2, is_runtime_id = ''RT-1''\<rparr>
       (tools_init :: string handler tool_registry) (Some ctx) ''fs.read'' [] 6 7
     = Inl (SecurityViolationError msg)"
proof -
  obtain ctx where ctx: "get_context_for_session demo_attached ''OP'' ''EX'' ''SES-1'' 5 = Some ctx"
    by (simp add: get_context_for_session_def validate_session_def demo_session_defs session_defs seconds_def)
  then show ?thesis
    using session_context_generation_one [OF ctx, of
        "\<lparr>is_tenant_id = ''acme'', is_current_generation = 2, is_runtime_id = ''RT-1''\<rparr>"
        "tools_init :: string handler tool_registry" "''fs.read''" "[]" 6 7]
    by auto
qed

end
