(* ===== verification/Paths.thy ===== *)
theory Paths
  imports Prelude
begin

text \<open>
  The part of \<open>os.path\<close> (POSIX) the runtime uses to decide containment: \<open>join\<close>,
  \<open>normpath\<close>, \<open>abspath\<close>, \<open>basename\<close>; and what a prefix test on
  normalized paths means for their components.
\<close>

section \<open>Operations\<close>

fun split_slash :: "string \<Rightarrow> string list" where
  "split_slash [] = [[]]"
| "split_slash (c # cs) =
     (if c = CHR ''/'' then [] # split_slash cs
      else case split_slash cs of [] \<Rightarrow> [[c]] | w # ws \<Rightarrow> (c # w) # ws)"

fun join_slash :: "string list \<Rightarrow> string" where
  "join_slash [] = []"
| "join_slash [w] = w"
| "join_slash (w # v # ws) = w @ ''/'' @ join_slash (v # ws)"

definition is_abs :: "string \<Rightarrow> bool" where
  "is_abs p = starts_with p ''/''"

definition path_join :: "string \<Rightarrow> string \<Rightarrow> string" where
  "path_join a b =
     (if is_abs b then b
      else if a = [] \<or> last a = CHR ''/'' then a @ b
      else a @ ''/'' @ b)"

text \<open>POSIX keeps two leading slashes and collapses three or more.\<close>

definition initial_slashes :: "string \<Rightarrow> nat" where
  "initial_slashes p =
     (if starts_with p ''/'' then
        (if starts_with p ''//'' \<and> \<not> starts_with p ''///'' then 2 else 1)
      else 0)"

definition norm_step :: "nat \<Rightarrow> string list \<Rightarrow> string \<Rightarrow> string list" where
  "norm_step n comps c =
     (if c = [] \<or> c = ''.'' then comps
      else if c \<noteq> ''..'' \<or> (n = 0 \<and> comps = []) \<or> (comps \<noteq> [] \<and> last comps = ''..'')
      then comps @ [c]
      else if comps \<noteq> [] then butlast comps
      else comps)"

definition normpath :: "string \<Rightarrow> string" where
  "normpath p =
     (if p = [] then ''.''
      else let n = initial_slashes p;
               path = replicate n (CHR ''/'') @ join_slash (foldl (norm_step n) [] (split_slash p))
           in if path = [] then ''.'' else path)"

definition abspath :: "string \<Rightarrow> string \<Rightarrow> string" where
  "abspath cwd p = normpath (if is_abs p then p else path_join cwd p)"

definition basename :: "string \<Rightarrow> string" where
  "basename p = last (split_slash p)"

section \<open>Splitting and joining\<close>

definition no_slash :: "string \<Rightarrow> bool" where
  "no_slash s = (CHR ''/'' \<notin> set s)"

text \<open>A component of a normalized absolute path.\<close>

definition proper :: "string \<Rightarrow> bool" where
  "proper c = (c \<noteq> [] \<and> c \<noteq> ''.'' \<and> c \<noteq> ''..'' \<and> no_slash c)"

lemma split_slash_nonempty [simp]: "split_slash p \<noteq> []"
  by (cases p) (auto split: list.splits)

lemma split_slash_no_slash: "no_slash p \<Longrightarrow> split_slash p = [p]"
  by (induction p) (auto simp: no_slash_def)

lemma split_slash_append: "split_slash (a @ CHR ''/'' # b) = split_slash a @ split_slash b"
proof (induction a)
  case Nil
  show ?case by simp
next
  case (Cons c a)
  then show ?case by (cases "split_slash a") auto
qed

lemma split_slash_join: "ws \<noteq> [] \<Longrightarrow> list_all no_slash ws \<Longrightarrow> split_slash (join_slash ws) = ws"
  by (induction ws rule: join_slash.induct)
     (auto simp: split_slash_no_slash split_slash_append)

lemma split_slash_parts: "list_all no_slash (split_slash p)"
  by (induction p) (auto simp: no_slash_def split: list.splits)

lemma no_slash_basename: "no_slash (basename p)"
  using split_slash_parts [of p] by (auto simp: basename_def list_all_iff)

section \<open>Normal forms\<close>

lemma norm_step_proper:
  assumes "0 < n" and "list_all proper comps" and "no_slash c"
  shows "list_all proper (norm_step n comps c)"
proof -
  have "comps \<noteq> [] \<Longrightarrow> last comps \<noteq> ''..''"
    using assms(2) by (metis last_in_set list_all_iff proper_def)
  then show ?thesis
    using assms by (auto simp: norm_step_def proper_def list_all_iff dest: in_set_butlastD)
qed

lemma foldl_norm_step_proper:
  "0 < n \<Longrightarrow> list_all proper comps \<Longrightarrow> list_all no_slash cs \<Longrightarrow>
     list_all proper (foldl (norm_step n) comps cs)"
  by (induction cs arbitrary: comps) (auto simp: norm_step_proper)

definition abs_form :: "nat \<Rightarrow> string list \<Rightarrow> string" where
  "abs_form n comps = replicate n (CHR ''/'') @ join_slash comps"

lemma normpath_abs:
  assumes "is_abs p"
  shows "\<exists>n comps. normpath p = abs_form n comps \<and> n = initial_slashes p \<and> 0 < n \<and> list_all proper comps"
proof -
  define n where "n = initial_slashes p"
  define comps where "comps = foldl (norm_step n) [] (split_slash p)"
  have "0 < n" using assms by (simp add: n_def initial_slashes_def is_abs_def)
  moreover have "list_all proper comps"
    unfolding comps_def by (rule foldl_norm_step_proper) (simp_all add: \<open>0 < n\<close> split_slash_parts)
  moreover have "normpath p = abs_form n comps"
    using assms \<open>0 < n\<close>
    by (auto simp: normpath_def abs_form_def n_def comps_def Let_def is_abs_def starts_with_def)
  ultimately show ?thesis unfolding n_def by blast
qed

lemma split_abs_form:
  assumes "0 < n" and "list_all proper comps"
  shows "split_slash (abs_form n comps) = replicate n [] @ (if comps = [] then [[]] else comps)"
proof -
  have "list_all no_slash comps" using assms(2) by (auto simp: list_all_iff proper_def)
  then show ?thesis
    unfolding abs_form_def by (induction n) (auto simp: split_slash_join)
qed

text \<open>
  Containment: a normalized path that extends a normalized base by the separator has the
  base's components as a strict prefix of its own.
\<close>

lemma under_base_components:
  assumes "0 < n" and "list_all proper bs" and "0 < m" and "list_all proper cs"
    and "starts_with (abs_form m cs) (abs_form n bs @ ''/'')" and "bs \<noteq> []"
  shows "m = n \<and> (\<exists>rest. rest \<noteq> [] \<and> cs = bs @ rest)"
proof -
  obtain r where r: "abs_form m cs = abs_form n bs @ CHR ''/'' # r"
    using assms(5) by (auto simp: starts_with_def prefix_def)
  have split: "replicate m [] @ (if cs = [] then [[]] else cs) = replicate n [] @ bs @ split_slash r"
    using arg_cong [OF r, of split_slash] assms
    by (simp add: split_slash_append split_abs_form)
  have bs: "hd bs \<noteq> []" "hd bs \<in> set bs"
    using assms(2,6) by (auto simp: list_all_iff proper_def)
  have "cs \<noteq> []"
  proof
    assume "cs = []"
    then have "replicate m [] @ [[]] = replicate n [] @ bs @ split_slash r" using split by simp
    then have "hd bs \<in> set (replicate m [] @ [[]])"
      using bs(2) by (metis Un_iff set_append)
    then show False using bs(1) by (auto split: if_splits)
  qed
  then have cs: "hd cs \<noteq> []" using assms(4) by (auto simp: list_all_iff proper_def)
  have lead: "takeWhile (\<lambda>w. w = []) (replicate k [] @ ws) = replicate k []" if "hd ws \<noteq> []" for k and ws :: "string list"
    using that by (induction k) (cases ws, auto)
  have "takeWhile (\<lambda>w. w = []) (replicate m [] @ cs) = takeWhile (\<lambda>w. w = []) (replicate n [] @ bs @ split_slash r)"
    using split \<open>cs \<noteq> []\<close> by simp
  moreover have h: "hd (bs @ split_slash r) \<noteq> []" using bs(1) assms(6) by simp
  ultimately have "replicate m ([] :: string) = replicate n []"
    by (simp only: lead [OF cs] lead [OF h])
  then have "m = n" by (metis length_replicate)
  with split \<open>cs \<noteq> []\<close> have "cs = bs @ split_slash r" by simp
  with \<open>m = n\<close> show ?thesis by auto
qed

end
