(* ===== verification/Workspaces.thy ===== *)
theory Workspaces
  imports Security Paths
begin

text \<open>
  Workspaces: the ephemeral workspace directories of executions
  (runtime/workspace/ephemeral.py) and the tenant-scoped workspace manager
  (runtime/workspace/manager.py). Directories are sets of absolute paths; generated ids,
  clock readings and the working directory are arguments.
\<close>

section \<open>Directory trees\<close>

type_synonym dirs = "string set"

definition path_prefixes :: "string \<Rightarrow> string list" where
  "path_prefixes p =
     map (\<lambda>i. take i p) (filter (\<lambda>i. 0 < i \<and> p ! i = CHR ''/'') [0..<length p]) @ [p]"

definition makedirs :: "string \<Rightarrow> dirs \<Rightarrow> dirs" where
  "makedirs p ds = ds \<union> set (path_prefixes p)"

text \<open>\<open>shutil.rmtree\<close>: the directory and everything below it.\<close>

definition rmtree :: "string \<Rightarrow> dirs \<Rightarrow> dirs" where
  "rmtree p ds = Set.filter (\<lambda>q. \<not> (q = p \<or> starts_with q (p @ ''/''))) ds"

section \<open>EphemeralWorkspaceManager\<close>

record ephemeral_manager =
  eph_base_dir :: string

definition ephemeral_init :: "string \<Rightarrow> string \<Rightarrow> dirs \<Rightarrow> ephemeral_manager \<times> dirs" where
  "ephemeral_init cwd base_dir ds =
     (let b = abspath cwd base_dir in (\<lparr>eph_base_dir = b\<rparr>, makedirs b ds))"

definition workspace_subdirs :: "string list" where
  "workspace_subdirs = [''input'', ''work'', ''output'', ''logs'', ''evidence'', ''result'', ''metadata'', ''cache'']"

text \<open>
  \<open>os.makedirs\<close> makes the missing directories from the top; \<open>refuse p\<close> is what the system raises for the directory
  \<open>p\<close>, and what was made before stays.
\<close>

fun make_dirs :: "(string \<Rightarrow> exn option) \<Rightarrow> string list \<Rightarrow> dirs \<Rightarrow> dirs \<times> unit result" where
  "make_dirs refuse [] ds = (ds, Inr ())"
| "make_dirs refuse (p # ps) ds =
     (if p \<in> ds then make_dirs refuse ps ds
      else case refuse p of
        Some e \<Rightarrow> (ds, Inl e)
      | None \<Rightarrow> make_dirs refuse ps (insert p ds))"

definition workspace_tree :: "string \<Rightarrow> string list" where
  "workspace_tree path = path_prefixes path @ map (path_join path) workspace_subdirs"

definition create_workspace ::
  "ephemeral_manager \<Rightarrow> string \<Rightarrow> (string \<Rightarrow> exn option) \<Rightarrow> string \<Rightarrow> string \<Rightarrow> dirs \<Rightarrow> dirs \<times> string result" where
  "create_workspace m cwd refuse execution_id project_id ds =
     (if execution_id = [] \<or> project_id = []
      then (ds, Inl (ValueError ''execution_id and project_id are required''))
      else let safe_project = basename project_id;
               workspace_path = abspath cwd (path_join (path_join (eph_base_dir m) safe_project) execution_id)
           in if \<not> starts_with workspace_path (eph_base_dir m @ ''/'')
              then (ds, Inl (ValueError ''Workspace path escapes ephemeral base''))
              else if workspace_path \<in> ds
              then (ds, Inl (FileExistsError (''Workspace '' @ workspace_path @ '' already exists'')))
              else (case make_dirs refuse (workspace_tree workspace_path) ds of
                      (ds', Inl e) \<Rightarrow> (ds', Inl e)
                    | (ds', Inr _) \<Rightarrow> (ds', Inr workspace_path)))"

definition destroy_workspace :: "ephemeral_manager \<Rightarrow> string \<Rightarrow> string \<Rightarrow> dirs \<Rightarrow> dirs result" where
  "destroy_workspace m cwd workspace_path ds =
     (let normalized = abspath cwd workspace_path in
      if \<not> starts_with normalized (eph_base_dir m @ ''/'')
      then Inl (ValueError (''Cannot destroy path outside ephemeral base: '' @ workspace_path))
      else Inr (if normalized \<in> ds then rmtree normalized ds else ds))"

text \<open>The walk of the tree yields each file with whether it is a link and its size.\<close>

definition get_workspace_size :: "(string \<times> bool \<times> int) list \<Rightarrow> int" where
  "get_workspace_size walk = sum_list (map (\<lambda>(_, _, n). n) (filter (\<lambda>(_, link, _). \<not> link) walk))"

definition get_workspace_paths ::
  "ephemeral_manager \<Rightarrow> string \<Rightarrow> string \<Rightarrow> (string, string) dict result" where
  "get_workspace_paths m cwd workspace_path =
     (let base = abspath cwd workspace_path in
      if \<not> starts_with base (eph_base_dir m @ ''/'')
      then Inl (ValueError ''Workspace path escapes ephemeral base'')
      else Inr ((''base'', base) # map (\<lambda>n. (n, path_join base n)) workspace_subdirs))"

lemmas ephemeral_defs [op_defs] =
  ephemeral_init_def create_workspace_def destroy_workspace_def get_workspace_paths_def

lemma is_abs_path_join: "is_abs cwd \<Longrightarrow> is_abs (path_join cwd p)"
  by (cases cwd) (auto simp: path_join_def is_abs_def starts_with_def)

lemma initial_slashes_le: "initial_slashes p \<le> 2"
  by (simp add: initial_slashes_def)

lemma abspath_form:
  assumes "is_abs cwd"
  shows "\<exists>n comps. abspath cwd p = abs_form n comps \<and> 0 < n \<and> n \<le> 2 \<and> list_all proper comps"
proof -
  have "is_abs (if is_abs p then p else path_join cwd p)"
    using is_abs_path_join [OF assms] by simp
  from normpath_abs [OF this] show ?thesis
    unfolding abspath_def using initial_slashes_le by metis
qed

text \<open>
  \<open>below b p\<close>: the components of \<open>p\<close> strictly extend those of \<open>b\<close>, both
  normalized, so \<open>p\<close> lies inside the directory \<open>b\<close>.
\<close>

definition below :: "string \<Rightarrow> string \<Rightarrow> bool" where
  "below b p \<longleftrightarrow> (\<exists>n bs rest. b = abs_form n bs \<and> p = abs_form n (bs @ rest) \<and> rest \<noteq> [] \<and>
                     list_all proper (bs @ rest))"

lemma abspath_below:
  assumes "is_abs cwd" and "abspath cwd d \<notin> {''/'', ''//''}"
    and "starts_with (abspath cwd p) (abspath cwd d @ ''/'')"
  shows "below (abspath cwd d) (abspath cwd p)"
proof -
  obtain n bs where b: "abspath cwd d = abs_form n bs" "0 < n" "n \<le> 2" "list_all proper bs"
    using abspath_form [OF assms(1)] by blast
  obtain m cs where p: "abspath cwd p = abs_form m cs" "0 < m" "list_all proper cs"
    using abspath_form [OF assms(1)] by blast
  have "n = 1 \<or> n = 2" using b(2,3) by arith
  then have "bs \<noteq> []"
    using assms(2) b(1) by (auto simp: abs_form_def numeral_2_eq_2)
  from under_base_components [OF b(2,4) p(2,3) _ this] assms(3) b(1) p(1)
  obtain rest where "m = n" "rest \<noteq> []" "cs = bs @ rest" by auto
  then show ?thesis unfolding below_def using b p by blast
qed

section \<open>WorkspaceManager\<close>

datatype workspace_state = W_CREATING | W_READY | W_ACTIVE | W_IDLE | W_RECOVERING | W_DESTROYING | W_DESTROYED

record workspace =
  ws_workspace_id :: string
  ws_tenant_id :: string
  ws_project_id :: string
  ws_actor_scope :: "string list"
  ws_repository :: string
  ws_source_revision :: string
  ws_state :: workspace_state
  ws_generation :: int
  ws_local_path :: string
  ws_created_at :: string
  ws_locked_by :: "string option"

record workspace_manager =
  wm_base_dir :: string
  wm_workspaces :: "(string, workspace) dict"
  wm_dirs :: dirs

definition validate_context_ownership ::
  "workspace_manager \<Rightarrow> execution_context \<Rightarrow> string \<Rightarrow> workspace option result" where
  "validate_context_ownership m ctx wid =
     (case dict_get (wm_workspaces m) wid of
        None \<Rightarrow> Inr None
      | Some ws \<Rightarrow>
          if ws_tenant_id ws \<noteq> ctx_tenant_id ctx
          then Inl (PermissionError ''Access denied: tenant mismatch'')
          else and_then (assert_workspace ctx (ws_project_id ws)) (\<lambda>_.
            if ctx_actor_id ctx \<notin> set (ws_actor_scope ws) \<and> ''*'' \<notin> set (ws_actor_scope ws)
            then Inl (PermissionError ''Access denied: actor mismatch'')
            else Inr (Some ws)))"

definition put_workspace :: "workspace_manager \<Rightarrow> string \<Rightarrow> workspace \<Rightarrow> workspace_manager" where
  "put_workspace m wid ws = m\<lparr>wm_workspaces := dict_set (wm_workspaces m) wid ws\<rparr>"

definition workspace_create ::
  "string \<Rightarrow> string \<Rightarrow> execution_context \<Rightarrow> string list \<Rightarrow> string \<Rightarrow> string \<Rightarrow> workspace_manager
     \<Rightarrow> (workspace_manager \<times> workspace) result" where
  "workspace_create wid created_at ctx actor_scope repository source_revision m =
     (if \<not> has_capability ctx ''WORKSPACE_CREATE''
      then Inl (PermissionError ''Access denied: missing WORKSPACE_CREATE'')
      else let path = path_join (wm_base_dir m) wid;
               ws = \<lparr>ws_workspace_id = wid, ws_tenant_id = ctx_tenant_id ctx,
                     ws_project_id = ctx_project_id ctx, ws_actor_scope = actor_scope,
                     ws_repository = repository, ws_source_revision = source_revision,
                     ws_state = W_READY, ws_generation = ctx_generation ctx, ws_local_path = path,
                     ws_created_at = created_at, ws_locked_by = None\<rparr>
           in Inr (put_workspace m wid ws\<lparr>wm_dirs := makedirs path (wm_dirs m)\<rparr>, ws))"

definition workspace_status ::
  "workspace_manager \<Rightarrow> execution_context \<Rightarrow> string \<Rightarrow> workspace option result" where
  "workspace_status m ctx wid = validate_context_ownership m ctx wid"

definition workspace_lock ::
  "execution_context \<Rightarrow> string \<Rightarrow> workspace_manager \<Rightarrow> (workspace_manager \<times> bool) result" where
  "workspace_lock ctx wid m =
     and_then (validate_context_ownership m ctx wid) (\<lambda>r. case r of
        Some ws \<Rightarrow>
          if ws_locked_by ws = None
          then Inr (put_workspace m wid (ws\<lparr>ws_locked_by := Some (ctx_actor_id ctx)\<rparr>), True)
          else Inr (m, False)
      | None \<Rightarrow> Inr (m, False))"

definition workspace_unlock ::
  "execution_context \<Rightarrow> string \<Rightarrow> workspace_manager \<Rightarrow> (workspace_manager \<times> bool) result" where
  "workspace_unlock ctx wid m =
     and_then (validate_context_ownership m ctx wid) (\<lambda>r. case r of
        Some ws \<Rightarrow>
          if ws_locked_by ws = Some (ctx_actor_id ctx)
          then Inr (put_workspace m wid (ws\<lparr>ws_locked_by := None\<rparr>), True)
          else Inr (m, False)
      | None \<Rightarrow> Inr (m, False))"

definition workspace_destroy ::
  "execution_context \<Rightarrow> string \<Rightarrow> workspace_manager \<Rightarrow> (workspace_manager \<times> bool) result" where
  "workspace_destroy ctx wid m =
     (if \<not> has_capability ctx ''WORKSPACE_DELETE''
      then Inl (PermissionError ''Access denied: missing WORKSPACE_DELETE'')
      else and_then (validate_context_ownership m ctx wid) (\<lambda>r. case r of
        Some ws \<Rightarrow>
          if ws_generation ws \<noteq> ctx_generation ctx
          then Inl (PermissionError ''Access denied: generation stale'')
          else Inr (m\<lparr>wm_workspaces := dict_del (wm_workspaces m) wid,
                      wm_dirs := rmtree (ws_local_path ws) (wm_dirs m)\<rparr>, True)
      | None \<Rightarrow> Inr (m, False)))"

definition workspace_recover ::
  "execution_context \<Rightarrow> string \<Rightarrow> workspace_manager \<Rightarrow> (workspace_manager \<times> bool) result" where
  "workspace_recover ctx wid m =
     and_then (validate_context_ownership m ctx wid) (\<lambda>r. case r of
        Some ws \<Rightarrow>
          if ws_state ws \<noteq> W_DESTROYED
          then Inr (put_workspace m wid (ws\<lparr>ws_state := W_READY\<rparr>), True)
          else Inr (m, False)
      | None \<Rightarrow> Inr (m, False))"

lemmas workspace_defs [op_defs] =
  put_workspace_def workspace_create_def workspace_lock_def workspace_unlock_def
  workspace_destroy_def workspace_recover_def

lemma validate_context_ownership_Some:
  "validate_context_ownership m ctx wid = Inr (Some ws) \<longleftrightarrow>
     dict_get (wm_workspaces m) wid = Some ws \<and> ws_tenant_id ws = ctx_tenant_id ctx \<and>
     ws_project_id ws = ctx_project_id ctx \<and>
     (ctx_actor_id ctx \<in> set (ws_actor_scope ws) \<or> ''*'' \<in> set (ws_actor_scope ws))"
  by (auto simp: validate_context_ownership_def assert_workspace_def split: option.splits if_splits)

text \<open>One operation requested with one context; an exception leaves the manager unchanged.\<close>

datatype workspace_op =
    OpCreate string string "string list" string string
  | OpLock string | OpUnlock string | OpDestroy string | OpRecover string

fun workspace_apply ::
  "execution_context \<Rightarrow> workspace_op \<Rightarrow> workspace_manager \<Rightarrow> workspace_manager" where
  "workspace_apply ctx (OpCreate wid ca scope repo rv) m =
     (case workspace_create wid ca ctx scope repo rv m of Inr (m', _) \<Rightarrow> m' | Inl _ \<Rightarrow> m)"
| "workspace_apply ctx (OpLock wid) m =
     (case workspace_lock ctx wid m of Inr (m', _) \<Rightarrow> m' | Inl _ \<Rightarrow> m)"
| "workspace_apply ctx (OpUnlock wid) m =
     (case workspace_unlock ctx wid m of Inr (m', _) \<Rightarrow> m' | Inl _ \<Rightarrow> m)"
| "workspace_apply ctx (OpDestroy wid) m =
     (case workspace_destroy ctx wid m of Inr (m', _) \<Rightarrow> m' | Inl _ \<Rightarrow> m)"
| "workspace_apply ctx (OpRecover wid) m =
     (case workspace_recover ctx wid m of Inr (m', _) \<Rightarrow> m' | Inl _ \<Rightarrow> m)"

fun creates :: "workspace_op \<Rightarrow> string option" where
  "creates (OpCreate wid _ _ _ _) = Some wid"
| "creates _ = None"

text \<open>What each operation does to a lookup.\<close>

definition lookup_ws :: "workspace_manager \<Rightarrow> string \<Rightarrow> workspace option" where
  "lookup_ws m wid = dict_get (wm_workspaces m) wid"

lemma lookup_create:
  "lookup_ws (workspace_apply ctx (OpCreate w ca sc re rv) m) wid \<noteq> lookup_ws m wid \<Longrightarrow> wid = w"
  by (auto simp: workspace_create_def lookup_ws_def put_workspace_def Let_def split: if_splits)

lemma lookup_lock:
  "lookup_ws (workspace_apply ctx (OpLock w) m) wid =
     (case validate_context_ownership m ctx w of
        Inr (Some ws) \<Rightarrow> if ws_locked_by ws = None \<and> wid = w
                         then Some (ws\<lparr>ws_locked_by := Some (ctx_actor_id ctx)\<rparr>) else lookup_ws m wid
      | _ \<Rightarrow> lookup_ws m wid)"
  by (cases "validate_context_ownership m ctx w")
     (auto simp: workspace_lock_def put_workspace_def lookup_ws_def split: option.splits)

lemma lookup_unlock:
  "lookup_ws (workspace_apply ctx (OpUnlock w) m) wid =
     (case validate_context_ownership m ctx w of
        Inr (Some ws) \<Rightarrow> if ws_locked_by ws = Some (ctx_actor_id ctx) \<and> wid = w
                         then Some (ws\<lparr>ws_locked_by := None\<rparr>) else lookup_ws m wid
      | _ \<Rightarrow> lookup_ws m wid)"
  by (cases "validate_context_ownership m ctx w")
     (auto simp: workspace_unlock_def put_workspace_def lookup_ws_def split: option.splits)

lemma lookup_recover:
  "lookup_ws (workspace_apply ctx (OpRecover w) m) wid =
     (case validate_context_ownership m ctx w of
        Inr (Some ws) \<Rightarrow> if ws_state ws \<noteq> W_DESTROYED \<and> wid = w
                         then Some (ws\<lparr>ws_state := W_READY\<rparr>) else lookup_ws m wid
      | _ \<Rightarrow> lookup_ws m wid)"
  by (cases "validate_context_ownership m ctx w")
     (auto simp: workspace_recover_def put_workspace_def lookup_ws_def split: option.splits)

lemma lookup_destroy:
  "lookup_ws (workspace_apply ctx (OpDestroy w) m) wid =
     (case validate_context_ownership m ctx w of
        Inr (Some ws) \<Rightarrow> if has_capability ctx ''WORKSPACE_DELETE'' \<and> ws_generation ws = ctx_generation ctx \<and> wid = w
                         then None else lookup_ws m wid
      | _ \<Rightarrow> lookup_ws m wid)"
  by (cases "validate_context_ownership m ctx w")
     (auto simp: workspace_destroy_def lookup_ws_def split: option.splits)

lemma ownership_Some:
  "validate_context_ownership m ctx w = Inr (Some ws) \<Longrightarrow>
     lookup_ws m w = Some ws \<and> ws_tenant_id ws = ctx_tenant_id ctx \<and> ws_project_id ws = ctx_project_id ctx"
  by (simp add: validate_context_ownership_Some lookup_ws_def)

lemmas lookup_ops = lookup_lock lookup_unlock lookup_recover lookup_destroy

text \<open>An operation with a foreign context does not touch a workspace.\<close>

lemma workspace_apply_foreign:
  assumes "lookup_ws m wid = Some ws" and "ctx_tenant_id ctx \<noteq> ws_tenant_id ws"
    and "creates op \<noteq> Some wid"
  shows "lookup_ws (workspace_apply ctx op m) wid = Some ws"
  using assms lookup_create [of ctx _ _ _ _ _ m wid]
  by (cases op) (fastforce simp: lookup_ops simp del: workspace_apply.simps dest: ownership_Some
                   split: sum.splits option.splits)+

text \<open>Only the holder releases a lock.\<close>

lemma workspace_apply_lock:
  assumes "lookup_ws m wid = Some ws" and "ws_locked_by ws = Some a"
    and "ctx_actor_id ctx \<noteq> a" and "creates op \<noteq> Some wid" and "op \<noteq> OpDestroy wid"
  shows "\<exists>ws'. lookup_ws (workspace_apply ctx op m) wid = Some ws' \<and> ws_locked_by ws' = Some a"
  using assms lookup_create [of ctx _ _ _ _ _ m wid]
  by (cases op) (fastforce simp: lookup_ops simp del: workspace_apply.simps dest: ownership_Some
                   split: sum.splits option.splits)+

text \<open>A run: each request comes with its own context.\<close>

fun workspace_run :: "(execution_context \<times> workspace_op) list \<Rightarrow> workspace_manager \<Rightarrow> workspace_manager" where
  "workspace_run [] m = m"
| "workspace_run ((ctx, op) # reqs) m = workspace_run reqs (workspace_apply ctx op m)"

section \<open>Creation and destruction stay below the base\<close>

lemma make_dirs_grows: "make_dirs refuse ps ds = (ds', r) \<Longrightarrow> ds \<subseteq> ds' \<and> ds' \<subseteq> ds \<union> set ps"
proof (induction refuse ps ds rule: make_dirs.induct)
  case (2 refuse p ps ds)
  then show ?case by (cases "p \<in> ds"; cases "refuse p") auto
qed simp

lemma make_dirs_all: "make_dirs refuse ps ds = (ds', Inr u) \<Longrightarrow> set ps \<subseteq> ds'"
proof (induction refuse ps ds rule: make_dirs.induct)
  case (2 refuse p ps ds)
  then show ?case using make_dirs_grows [of refuse ps _ ds' "Inr u"] by (cases "p \<in> ds"; cases "refuse p") auto
qed simp

lemma make_dirs_fine: "make_dirs (\<lambda>_. None) ps ds = (ds \<union> set ps, Inr ())"
  by (induction ps arbitrary: ds) auto

lemma workspace_tree_near:
  assumes "q \<in> set (workspace_tree p)"
  shows "starts_with p q \<or> starts_with q p"
proof -
  have "prefix (take i p) p" for i by (rule take_is_prefix)
  moreover have "prefix p (path_join p n)" if "n \<in> set workspace_subdirs" for n
    using that by (auto simp: path_join_def workspace_subdirs_def is_abs_def starts_with_def)
  ultimately show ?thesis using assms by (auto simp: workspace_tree_def path_prefixes_def starts_with_def)
qed

text \<open>Where a workspace is made: at a new path strictly inside the base; if that fails, only directories on the way to it
  or inside it are left.\<close>

lemma create_workspace_confined:
  assumes "is_abs cwd" and "eph_base_dir m = abspath cwd d" and "eph_base_dir m \<notin> {''/'', ''//''}"
    and "create_workspace m cwd refuse eid pid ds = (ds', Inr p)"
  shows "below (eph_base_dir m) p \<and> p \<notin> ds \<and> p \<in> ds' \<and> ds \<subseteq> ds'"
proof -
  have p: "p = abspath cwd (path_join (path_join (eph_base_dir m) (basename pid)) eid)" "starts_with p (eph_base_dir m @ ''/'')"
      "p \<notin> ds" and mk: "make_dirs refuse (workspace_tree p) ds = (ds', Inr ())"
    using assms(4) by (auto simp: create_workspace_def Let_def split: if_splits prod.splits sum.splits)
  have "p \<in> set (workspace_tree p)" by (simp add: workspace_tree_def path_prefixes_def)
  then have "p \<in> ds'" "ds \<subseteq> ds'" using make_dirs_all [OF mk] make_dirs_grows [OF mk] by auto
  then show ?thesis using p abspath_below [OF assms(1), of d] assms(2,3) by auto
qed

lemma create_workspace_leftovers:
  assumes "create_workspace m cwd refuse eid pid ds = (ds', r)"
  shows "ds \<subseteq> ds'"
    and "q \<in> ds' - ds \<Longrightarrow> \<exists>p. starts_with p (eph_base_dir m @ ''/'') \<and> p \<notin> ds \<and> (starts_with p q \<or> starts_with q p)"
proof -
  define p where "p = abspath cwd (path_join (path_join (eph_base_dir m) (basename pid)) eid)"
  have c: "ds' = ds \<or> starts_with p (eph_base_dir m @ ''/'') \<and> p \<notin> ds \<and> (\<exists>x. make_dirs refuse (workspace_tree p) ds = (ds', x))"
    using assms unfolding create_workspace_def Let_def p_def [symmetric] by (auto split: if_splits prod.splits sum.splits)
  then show "ds \<subseteq> ds'" using make_dirs_grows by blast
  assume q: "q \<in> ds' - ds"
  then obtain x where "make_dirs refuse (workspace_tree p) ds = (ds', x)" "starts_with p (eph_base_dir m @ ''/'')" "p \<notin> ds"
    using c by blast
  moreover from this have "q \<in> set (workspace_tree p)" using make_dirs_grows q by blast
  ultimately show "\<exists>p. starts_with p (eph_base_dir m @ ''/'') \<and> p \<notin> ds \<and> (starts_with p q \<or> starts_with q p)"
    using workspace_tree_near by blast
qed

lemma destroy_workspace_confined:
  assumes "destroy_workspace m cwd q ds = Inr ds'"
  shows "ds' \<subseteq> ds \<and> (\<forall>r \<in> ds - ds'. starts_with r (eph_base_dir m @ ''/''))"
proof -
  have ext: "prefix b (x :: string) \<Longrightarrow> prefix (x @ ''/'') r \<Longrightarrow> prefix b r" for b x r
    by (meson prefix_order.trans append_prefixD)
  show ?thesis
    using assms by (auto simp: destroy_workspace_def rmtree_def Let_def Set.filter_eq starts_with_def
                        split: if_splits intro: ext)
qed

section \<open>Properties\<close>

text \<open>
  Execution workspaces are confined: the directory \<open>create_workspace\<close> makes lies
  strictly inside the ephemeral base and did not exist before, whatever execution id and
  project id (absolute paths and parent references included) are given; and
  \<open>destroy_workspace\<close> removes nothing that is not inside the base. The base is any
  directory but the root.
\<close>

theorem ephemeral_confined:
  assumes "is_abs cwd" and "m = fst (ephemeral_init cwd d ds0)" and "eph_base_dir m \<notin> {''/'', ''//''}"
  shows "(\<forall>ds' p. create_workspace m cwd refuse eid pid ds = (ds', Inr p) \<longrightarrow>
            below (eph_base_dir m) p \<and> p \<notin> ds \<and> p \<in> ds' \<and> ds \<subseteq> ds') \<and>
         (\<forall>ds'. destroy_workspace m cwd q ds = Inr ds' \<longrightarrow>
            ds' \<subseteq> ds \<and> (\<forall>r \<in> ds - ds'. starts_with r (eph_base_dir m @ ''/'')))"
proof -
  have "eph_base_dir m = abspath cwd d"
    using assms(2) by (simp add: ephemeral_init_def Let_def)
  then show ?thesis
    using create_workspace_confined [OF assms(1) _ assms(3)] destroy_workspace_confined by blast
qed

definition demo_ephemeral :: ephemeral_manager where
  "demo_ephemeral = fst (ephemeral_init ''/srv'' ''/tmp/w'' {})"

theorem ephemeral_confined_witness:
  "(\<exists>ds'. create_workspace demo_ephemeral ''/srv'' (\<lambda>_. None) ''e1'' ''a/p1'' {''/tmp/w''} = (ds', Inr ''/tmp/w/p1/e1'')) \<and>
   below (eph_base_dir demo_ephemeral) ''/tmp/w/p1/e1''"
proof -
  have base: "eph_base_dir demo_ephemeral = ''/tmp/w''" by code_simp
  have abs: "is_abs ''/srv''" by code_simp
  have path: "abspath ''/srv'' (path_join (path_join ''/tmp/w'' (basename ''a/p1'')) ''e1'') = ''/tmp/w/p1/e1''"
    by code_simp
  have pre: "starts_with ''/tmp/w/p1/e1'' (''/tmp/w'' @ ''/'')" by code_simp
  obtain ds' where c: "create_workspace demo_ephemeral ''/srv'' (\<lambda>_. None) ''e1'' ''a/p1'' {''/tmp/w''} = (ds', Inr ''/tmp/w/p1/e1'')"
    using path pre by (simp add: create_workspace_def base Let_def make_dirs_fine)
  have nr: "eph_base_dir demo_ephemeral \<notin> {''/'', ''//''}" by (simp add: base)
  from ephemeral_confined [OF abs demo_ephemeral_def nr] c
  have "below (eph_base_dir demo_ephemeral) ''/tmp/w/p1/e1''" by blast
  with c show ?thesis by blast
qed

text \<open>
  C25. Workspaces of one tenant are out of reach of every other: no sequence of requests made
  with contexts of other tenants (creations, under fresh ids, locks, unlocks, destructions,
  recoveries, with any capabilities) changes or removes a workspace.
\<close>

theorem workspace_tenant_isolation:
  assumes "lookup_ws m wid = Some ws"
    and "\<forall>(ctx, op) \<in> set reqs. ctx_tenant_id ctx \<noteq> ws_tenant_id ws \<and> creates op \<noteq> Some wid"
  shows "lookup_ws (workspace_run reqs m) wid = Some ws"
  using assms
  by (induction reqs m rule: workspace_run.induct)
     (auto simp del: workspace_apply.simps intro: workspace_apply_foreign)

definition demo_workspace :: workspace where
  "demo_workspace = \<lparr>ws_workspace_id = ''w1'', ws_tenant_id = ''acme'', ws_project_id = ''proj-1'',
     ws_actor_scope = [''*''], ws_repository = ''r'', ws_source_revision = ''main'', ws_state = W_READY,
     ws_generation = 2, ws_local_path = ''/ws/w1'', ws_created_at = ''0'', ws_locked_by = Some ''anny''\<rparr>"

definition demo_workspaces :: workspace_manager where
  "demo_workspaces = \<lparr>wm_base_dir = ''/ws'', wm_workspaces = [(''w1'', demo_workspace)], wm_dirs = {''/ws/w1''}\<rparr>"

definition demo_intruder :: execution_context where
  "demo_intruder = demo_context\<lparr>ctx_tenant_id := ''evil'', ctx_capabilities := {''WORKSPACE_DELETE''}\<rparr>"

lemmas demo_workspace_defs =
  demo_workspace_def demo_workspaces_def demo_intruder_def demo_context_def lookup_ws_def

theorem workspace_tenant_isolation_witness:
  "lookup_ws (workspace_run [(demo_intruder, OpUnlock ''w1''), (demo_intruder, OpDestroy ''w1'')] demo_workspaces) ''w1''
     = Some demo_workspace"
  by (rule workspace_tenant_isolation) (simp_all add: demo_workspace_defs)

text \<open>
  A workspace lock is exclusive and sticky: while an actor holds it, requests of other
  actors other than destroying the workspace leave it held, and their own attempts to lock
  it never succeed.
\<close>

theorem workspace_lock_exclusive:
  assumes "lookup_ws m wid = Some ws" and "ws_locked_by ws = Some a"
    and "\<forall>(ctx, op) \<in> set reqs. ctx_actor_id ctx \<noteq> a \<and> creates op \<noteq> Some wid \<and> op \<noteq> OpDestroy wid"
  shows "(\<exists>ws'. lookup_ws (workspace_run reqs m) wid = Some ws' \<and> ws_locked_by ws' = Some a) \<and>
         (\<nexists>m'. workspace_lock ctx wid (workspace_run reqs m) = Inr (m', True))"
proof -
  have held: "\<exists>ws'. lookup_ws (workspace_run reqs m) wid = Some ws' \<and> ws_locked_by ws' = Some a"
    using assms
  proof (induction reqs m arbitrary: ws rule: workspace_run.induct)
    case (1 m)
    then show ?case by auto
  next
    case (2 ctx op reqs m)
    then obtain ws' where "lookup_ws (workspace_apply ctx op m) wid = Some ws'" "ws_locked_by ws' = Some a"
      using workspace_apply_lock [of m wid ws a ctx op] by auto
    then show ?case using "2.IH" "2.prems"(3) by auto
  qed
  then show ?thesis
    by (auto simp: workspace_lock_def validate_context_ownership_Some lookup_ws_def
             split: option.splits if_splits)
qed

theorem workspace_lock_exclusive_witness:
  "(\<exists>ws'. lookup_ws (workspace_run [(demo_context, OpUnlock ''w1'')] demo_workspaces) ''w1'' = Some ws'
          \<and> ws_locked_by ws' = Some ''anny'') \<and>
   (\<nexists>m'. workspace_lock demo_context ''w1'' (workspace_run [(demo_context, OpUnlock ''w1'')] demo_workspaces) = Inr (m', True))"
  by (rule workspace_lock_exclusive [where ws = demo_workspace]) (simp_all add: demo_workspace_defs)

end
