(* ===== verification/Filesystem.thy ===== *)
theory Filesystem
  imports Workspaces
begin

text \<open>
  File access inside workspaces (runtime/filesystem/service.py) and sandbox policies and
  their manager (runtime/sandbox). \<open>resolve\<close> is the path resolution of the host
  (\<open>Path.resolve\<close>: normalization and symbolic links), an argument of the operations;
  on a tree without symbolic links it is \<open>abspath\<close>.
\<close>

section \<open>FilesystemService\<close>

text \<open>Regular files with their contents, and directories.\<close>

record file_tree =
  ft_files :: "(string, string) dict"
  ft_dirs :: dirs

definition path_exists :: "file_tree \<Rightarrow> string \<Rightarrow> bool" where
  "path_exists t p = (dict_get (ft_files t) p \<noteq> None \<or> p \<in> ft_dirs t)"

definition resolve_safe_path ::
  "(string \<Rightarrow> string) \<Rightarrow> workspace_manager \<Rightarrow> execution_context \<Rightarrow> string \<Rightarrow> string result" where
  "resolve_safe_path resolve wm ctx path =
     (case ctx_workspace_id ctx of
        None \<Rightarrow> Inl (ValueError ''No workspace_id in context'')
      | Some wid \<Rightarrow>
          if wid = [] then Inl (ValueError ''No workspace_id in context'')
          else and_then (workspace_status wm ctx wid) (\<lambda>r. case r of
             None \<Rightarrow> Inl (ValueError ''Workspace not found'')
           | Some ws \<Rightarrow>
               let base = resolve (ws_local_path ws);
                   requested = resolve (path_join base path)
               in if \<not> starts_with requested base then Inl (ValueError ''OUTSIDE_WORKSPACE error'')
                  else Inr requested))"

definition fs_read ::
  "(string \<Rightarrow> string) \<Rightarrow> workspace_manager \<Rightarrow> file_tree \<Rightarrow> execution_context \<Rightarrow> string \<Rightarrow> string result" where
  "fs_read resolve wm t ctx path =
     (if \<not> has_capability ctx ''FILE_READ''
      then Inl (PermissionError ''Access denied: missing FILE_READ capability'')
      else if \<not> truthy_str (ctx_workspace_id ctx)
      then Inl (PermissionError ''Access denied: missing workspace scope'')
      else and_then (resolve_safe_path resolve wm ctx path) (\<lambda>p.
             case dict_get (ft_files t) p of
               None \<Rightarrow> Inl (FileNotFoundError ''File not found'')
             | Some content \<Rightarrow> Inr content))"

text \<open>\<open>p.parent\<close>: the path up to its last separator.\<close>

definition parent_path :: "string \<Rightarrow> string" where
  "parent_path p = join_slash (butlast (split_slash p))"

definition fs_write ::
  "(string \<Rightarrow> string) \<Rightarrow> workspace_manager \<Rightarrow> execution_context \<Rightarrow> string \<Rightarrow> string \<Rightarrow> file_tree
     \<Rightarrow> (file_tree \<times> bool) result" where
  "fs_write resolve wm ctx path content t =
     (if \<not> has_capability ctx ''FILE_WRITE''
      then Inl (PermissionError ''Access denied: missing FILE_WRITE capability'')
      else if \<not> truthy_str (ctx_workspace_id ctx)
      then Inl (PermissionError ''Access denied: missing workspace scope'')
      else and_then (resolve_safe_path resolve wm ctx path) (\<lambda>p.
             if p \<in> ft_dirs t then Inl (OSError ''Is a directory'')
             else Inr (t\<lparr>ft_files := dict_set (ft_files t) p content,
                         ft_dirs := makedirs (parent_path p) (ft_dirs t)\<rparr>, True)))"

text \<open>
  \<open>s.replace(old, new)\<close>: occurrences from left to right without overlap; an empty
  \<open>old\<close> matches before every character and at the end.
\<close>

function replace_all :: "string \<Rightarrow> string \<Rightarrow> string \<Rightarrow> string" where
  "replace_all old new s =
     (if old = [] then new @ concat (map (\<lambda>c. c # new) s)
      else if starts_with s old then new @ replace_all old new (drop (length old) s)
      else case s of [] \<Rightarrow> [] | c # cs \<Rightarrow> c # replace_all old new cs)"
  by pat_completeness auto
termination
  by (relation "measure (\<lambda>(old, new, s). length s)") (auto simp: starts_with_def prefix_def)

declare replace_all.simps [simp del]

definition fs_patch ::
  "(string \<Rightarrow> string) \<Rightarrow> workspace_manager \<Rightarrow> execution_context \<Rightarrow> string \<Rightarrow> string \<Rightarrow> string \<Rightarrow> file_tree
     \<Rightarrow> (file_tree \<times> bool) result" where
  "fs_patch resolve wm ctx path search repl t =
     (if \<not> has_capability ctx ''FILE_WRITE''
      then Inl (PermissionError ''Access denied: missing FILE_WRITE capability'')
      else and_then (fs_read resolve wm t ctx path) (\<lambda>content.
             let patched = replace_all search repl content in
             if patched = content then Inr (t, False)
             else fs_write resolve wm ctx path patched t))"

definition remove_tree :: "string \<Rightarrow> file_tree \<Rightarrow> file_tree" where
  "remove_tree p t =
     t\<lparr>ft_files := filter (\<lambda>(q, _). \<not> (q = p \<or> starts_with q (p @ ''/''))) (ft_files t),
       ft_dirs := rmtree p (ft_dirs t)\<rparr>"

definition fs_delete ::
  "(string \<Rightarrow> string) \<Rightarrow> workspace_manager \<Rightarrow> execution_context \<Rightarrow> string \<Rightarrow> file_tree
     \<Rightarrow> (file_tree \<times> bool) result" where
  "fs_delete resolve wm ctx path t =
     (if \<not> has_capability ctx ''FILE_WRITE''
      then Inl (PermissionError ''Access denied: missing FILE_WRITE capability'')
      else if \<not> truthy_str (ctx_workspace_id ctx)
      then Inl (PermissionError ''Access denied: missing workspace scope'')
      else and_then (resolve_safe_path resolve wm ctx path) (\<lambda>p.
             if \<not> path_exists t p then Inr (t, False)
             else if dict_get (ft_files t) p \<noteq> None
             then Inr (t\<lparr>ft_files := dict_del (ft_files t) p\<rparr>, True)
             else Inr (remove_tree p t, True)))"

lemmas fs_defs [op_defs] = fs_read_def fs_write_def fs_patch_def fs_delete_def

text \<open>
  What the path check guarantees: the path begins with the string of the resolved directory. A
  plain path, relative and without parent components, then leads into the directory where
  nothing is a symbolic link.
\<close>

definition in_directory :: "string \<Rightarrow> string \<Rightarrow> bool" where
  "in_directory base q \<longleftrightarrow> q = base \<or> starts_with q (base @ ''/'')"

definition plain_path :: "string \<Rightarrow> bool" where
  "plain_path path \<longleftrightarrow> \<not> is_abs path \<and> ''..'' \<notin> set (split_slash path)"

definition no_links :: "(string \<Rightarrow> string) \<Rightarrow> bool" where
  "no_links resolve \<longleftrightarrow> (\<exists>cwd. is_abs cwd \<and> resolve = abspath cwd)"

definition safe_for ::
  "(string \<Rightarrow> string) \<Rightarrow> workspace_manager \<Rightarrow> execution_context \<Rightarrow> string \<Rightarrow> string \<Rightarrow> bool" where
  "safe_for resolve wm ctx path q \<longleftrightarrow>
     (\<exists>wid ws base. ctx_workspace_id ctx = Some wid \<and> lookup_ws wm wid = Some ws \<and>
        ws_tenant_id ws = ctx_tenant_id ctx \<and> ws_project_id ws = ctx_project_id ctx \<and>
        base = resolve (ws_local_path ws) \<and> starts_with q base \<and>
        (no_links resolve \<and> plain_path path \<and> base \<notin> {''/'', ''//''} \<longrightarrow> in_directory base q))"

lemma norm_plain:
  assumes "list_all no_slash cs" and "''..'' \<notin> set cs"
  shows "foldl (norm_step n) comps cs = comps @ filter (\<lambda>c. c \<noteq> [] \<and> c \<noteq> ''.'') cs"
  using assms by (induction cs arbitrary: comps) (auto simp: norm_step_def)

lemma join_slash_append:
  "bs \<noteq> [] \<Longrightarrow> cs \<noteq> [] \<Longrightarrow> join_slash (bs @ cs) = join_slash bs @ ''/'' @ join_slash cs"
proof (induction bs rule: join_slash.induct)
  case (2 w)
  then show ?case by (cases cs) auto
qed auto

lemma initial_slashes_form:
  assumes "0 < n" and "n \<le> 2" and "list_all proper bs" and "bs \<noteq> []"
  shows "initial_slashes (abs_form n bs @ s) = n"
proof -
  obtain c cs where c: "bs = c # cs" using assms(4) by (cases bs) auto
  then obtain x xs where x: "c = x # xs" "x \<noteq> CHR ''/''"
    using assms(3) by (cases c) (auto simp: proper_def no_slash_def)
  have "join_slash bs \<noteq> [] \<and> hd (join_slash bs) = x" using c x by (cases cs) auto
  then obtain ys where "join_slash bs = x # ys" by (cases "join_slash bs") auto
  moreover have "n = 1 \<or> n = 2" using assms(1,2) by auto
  ultimately show ?thesis
    using x(2) by (auto simp: abs_form_def initial_slashes_def starts_with_def numeral_2_eq_2)
qed

text \<open>A plain path resolved against a directory stays in the directory.\<close>

lemma plain_inside:
  assumes "is_abs cwd" and "plain_path path" and "abspath cwd d \<notin> {''/'', ''//''}"
  shows "in_directory (abspath cwd d) (abspath cwd (path_join (abspath cwd d) path))"
proof -
  obtain n bs where b: "abspath cwd d = abs_form n bs" "0 < n" "n \<le> 2" "list_all proper bs"
    using abspath_form [OF assms(1)] by blast
  have bs: "bs \<noteq> []"
    using assms(3) b(1-3) by (auto simp: abs_form_def numeral_2_eq_2 le_Suc_eq)
  have "is_abs (abs_form n bs @ s)" for s
    using b(2) by (cases n) (auto simp: is_abs_def abs_form_def starts_with_def)
  note abs = this this [of "[]", simplified]
  have ends: "last (abs_form n bs) \<noteq> CHR ''/''"
  proof -
    have "last bs \<noteq> [] \<and> last (last bs) \<noteq> CHR ''/''"
      using b(4) bs by (metis last_in_set list_all_iff no_slash_def proper_def)
    moreover have "ws \<noteq> [] \<Longrightarrow> last ws \<noteq> [] \<Longrightarrow> join_slash ws \<noteq> [] \<and> last (join_slash ws) = last (last ws)" for ws
      by (induction ws rule: join_slash.induct) (auto split: if_splits)
    ultimately show ?thesis using bs by (simp add: abs_form_def)
  qed
  have join: "path_join (abs_form n bs) path = abs_form n bs @ ''/'' @ path"
    using assms(2) ends b(2) by (auto simp: path_join_def plain_path_def abs_form_def)
  define cs where "cs = filter (\<lambda>c. c \<noteq> [] \<and> c \<noteq> ''.'') (split_slash path)"
  have ns: "list_all no_slash bs" "''..'' \<notin> set bs" "filter (\<lambda>c. c \<noteq> [] \<and> c \<noteq> ''.'') bs = bs"
    using b(4) by (auto simp: list_all_iff proper_def filter_id_conv)
  have "split_slash (abs_form n bs @ ''/'' @ path) = replicate n [] @ bs @ split_slash path"
    using split_abs_form [OF b(2,4)] bs by (simp add: split_slash_append)
  moreover have "list_all no_slash (replicate n [] @ bs @ split_slash path)"
    using ns(1) split_slash_parts [of path] by (auto simp: list_all_iff no_slash_def)
  moreover have "''..'' \<notin> set (replicate n [] @ bs @ split_slash path)"
    using ns(2) assms(2) by (auto simp: plain_path_def)
  ultimately have "foldl (norm_step n) [] (split_slash (abs_form n bs @ ''/'' @ path)) = bs @ cs"
    using ns(3) norm_plain [of "replicate n [] @ bs @ split_slash path" n "[]"] by (simp add: cs_def del: foldl_append)
  then have "normpath (abs_form n bs @ ''/'' @ path) = abs_form n (bs @ cs)"
    using initial_slashes_form [OF b(2,3,4) bs, of "''/'' @ path"] b(2)
    by (simp add: normpath_def Let_def abs_form_def [of n "bs @ cs"])
  then have "abspath cwd (path_join (abs_form n bs) path) = abs_form n (bs @ cs)"
    using abs(1) [of "''/'' @ path"] by (simp add: abspath_def join)
  then show ?thesis
    using bs by (cases "cs = []") (auto simp: b(1) in_directory_def starts_with_def abs_form_def join_slash_append)
qed

lemma resolve_safe_path_safe:
  assumes "resolve_safe_path resolve wm ctx path = Inr p"
  shows "safe_for resolve wm ctx path p"
proof -
  obtain wid ws where ws: "ctx_workspace_id ctx = Some wid" "lookup_ws wm wid = Some ws"
      "ws_tenant_id ws = ctx_tenant_id ctx" "ws_project_id ws = ctx_project_id ctx"
    and p: "p = resolve (path_join (resolve (ws_local_path ws)) path)" "starts_with p (resolve (ws_local_path ws))"
    using assms
    by (auto simp: resolve_safe_path_def workspace_status_def lookup_ws_def Let_def
                 validate_context_ownership_Some split: option.splits if_splits)
  have "in_directory (resolve (ws_local_path ws)) p"
    if "no_links resolve \<and> plain_path path \<and> resolve (ws_local_path ws) \<notin> {''/'', ''//''}"
    using that plain_inside unfolding no_links_def p(1) by blast
  then show ?thesis unfolding safe_for_def using ws p(2) by blast
qed

lemma safe_for_inside:
  assumes "starts_with q (p @ ''/'')" and "safe_for resolve wm ctx path p"
  shows "safe_for resolve wm ctx path q"
proof -
  have "starts_with q b" if "starts_with p b" for b
    using assms(1) that by (auto simp: starts_with_def intro: prefix_order.trans dest: append_prefixD)
  moreover have "in_directory b q" if "in_directory b p" for b
    using assms(1) that by (auto simp: in_directory_def starts_with_def dest: append_prefixD intro: prefix_order.trans)
  ultimately show ?thesis using assms(2) unfolding safe_for_def by blast
qed

text \<open>One call by one context; an exception leaves the tree unchanged.\<close>

datatype fs_op = FsWrite string string | FsPatch string string string | FsDelete string

primrec op_path :: "fs_op \<Rightarrow> string" where
  "op_path (FsWrite path content) = path"
| "op_path (FsPatch path search repl) = path"
| "op_path (FsDelete path) = path"

fun fs_apply ::
  "(string \<Rightarrow> string) \<Rightarrow> workspace_manager \<Rightarrow> execution_context \<Rightarrow> fs_op \<Rightarrow> file_tree \<Rightarrow> (file_tree \<times> bool) result" where
  "fs_apply resolve wm ctx (FsWrite path content) t = fs_write resolve wm ctx path content t"
| "fs_apply resolve wm ctx (FsPatch path search repl) t = fs_patch resolve wm ctx path search repl t"
| "fs_apply resolve wm ctx (FsDelete path) t = fs_delete resolve wm ctx path t"

lemma dict_get_filter_keys:
  "dict_get (filter (\<lambda>(q, _). P q) d) k = (if P k then dict_get d k else None)"
  by (induction d) auto

lemma fs_write_effect:
  "fs_write resolve wm ctx path content t = Inr (t', b) \<Longrightarrow>
     dict_get (ft_files t') q \<noteq> dict_get (ft_files t) q \<Longrightarrow>
     has_capability ctx ''FILE_WRITE'' \<and> safe_for resolve wm ctx path q"
  by (auto simp: fs_write_def split: if_splits dest: resolve_safe_path_safe)

lemma fs_delete_effect:
  "fs_delete resolve wm ctx path t = Inr (t', b) \<Longrightarrow>
     dict_get (ft_files t') q \<noteq> dict_get (ft_files t) q \<Longrightarrow>
     has_capability ctx ''FILE_WRITE'' \<and> safe_for resolve wm ctx path q"
  by (auto simp: fs_delete_def remove_tree_def dict_get_filter_keys split: if_splits
           dest!: resolve_safe_path_safe intro: safe_for_inside)

lemma fs_patch_effect:
  "fs_patch resolve wm ctx path search repl t = Inr (t', b) \<Longrightarrow>
     dict_get (ft_files t') q \<noteq> dict_get (ft_files t) q \<Longrightarrow>
     has_capability ctx ''FILE_WRITE'' \<and> safe_for resolve wm ctx path q"
  by (auto simp: fs_patch_def Let_def split: if_splits dest!: fs_write_effect)

lemma fs_apply_effect:
  "fs_apply resolve wm ctx op t = Inr (t', b) \<Longrightarrow>
     dict_get (ft_files t') q \<noteq> dict_get (ft_files t) q \<Longrightarrow>
     has_capability ctx ''FILE_WRITE'' \<and> safe_for resolve wm ctx (op_path op) q"
  by (cases op) (auto dest!: fs_write_effect fs_delete_effect fs_patch_effect)

section \<open>Sandbox policies\<close>

datatype isolation_level = LEVEL_1 | LEVEL_2 | LEVEL_3

record sandbox_policy =
  sp_sandbox_id :: string
  sp_tenant_id :: string
  sp_actor_id :: string
  sp_workspace_id :: string
  sp_isolation_level :: isolation_level
  sp_filesystem_scope :: "string list"
  sp_process_scope :: "string list"
  sp_network_scope :: string
  sp_generation :: int
  sp_created_at :: instant
  sp_expires_at :: instant

fun allows_path_in :: "(string \<Rightarrow> string) \<Rightarrow> string \<Rightarrow> string list \<Rightarrow> bool" where
  "allows_path_in resolve target [] = False"
| "allows_path_in resolve target (a # as) =
     (if starts_with target (resolve a) then True else allows_path_in resolve target as)"

definition allows_path :: "(string \<Rightarrow> string) \<Rightarrow> sandbox_policy \<Rightarrow> string \<Rightarrow> bool" where
  "allows_path resolve p path = allows_path_in resolve (resolve path) (sp_filesystem_scope p)"

definition allows_executable :: "sandbox_policy \<Rightarrow> string \<Rightarrow> bool" where
  "allows_executable p e = (if sp_process_scope p = [] then True else e \<in> set (sp_process_scope p))"

definition allows_network :: "sandbox_policy \<Rightarrow> bool" where
  "allows_network p = (sp_network_scope p \<noteq> ''none'')"

definition select_level :: "string \<Rightarrow> string \<Rightarrow> isolation_level" where
  "select_level operation_risk trust =
     (if operation_risk = ''high'' \<or> trust = ''untrusted'' then LEVEL_3
      else if operation_risk = ''medium'' \<or> trust = ''limited'' then LEVEL_2
      else LEVEL_1)"

section \<open>SandboxManager\<close>

text \<open>
  The two backends keep the sandboxes they have created: LEVEL\_1 the workspace backend,
  LEVEL\_2 the restricted-process backend, which keeps its own list and drives a workspace
  backend of its own on the same directory tree.
\<close>

record sandbox_manager =
  sb_data_dir :: string
  sb_level1_active :: "(string, string) dict"
  sb_level2_active :: "(string, string) dict"
  sb_level2_workspace :: "(string, string) dict"
  sb_policies :: "(string, sandbox_policy) dict"

definition sandbox_path :: "sandbox_manager \<Rightarrow> string \<Rightarrow> string" where
  "sandbox_path m sid = path_join (sb_data_dir m @ ''/sandboxes'') sid"

definition backend_create :: "sandbox_policy \<Rightarrow> sandbox_manager \<Rightarrow> sandbox_manager result" where
  "backend_create p m =
     (let sid = sp_sandbox_id p; root = sandbox_path m sid in
      case sp_isolation_level p of
        LEVEL_1 \<Rightarrow> Inr (m\<lparr>sb_level1_active := dict_set (sb_level1_active m) sid root\<rparr>)
      | LEVEL_2 \<Rightarrow> Inr (m\<lparr>sb_level2_workspace := dict_set (sb_level2_workspace m) sid root,
                         sb_level2_active := dict_set (sb_level2_active m) sid root\<rparr>)
      | LEVEL_3 \<Rightarrow> Inl (ValueError ''No backend available for isolation level: IsolationLevel.LEVEL_3''))"

definition backend_destroy :: "isolation_level \<Rightarrow> string \<Rightarrow> sandbox_manager \<Rightarrow> sandbox_manager" where
  "backend_destroy lv sid m =
     (case lv of
        LEVEL_1 \<Rightarrow> m\<lparr>sb_level1_active := dict_del (sb_level1_active m) sid\<rparr>
      | LEVEL_2 \<Rightarrow> m\<lparr>sb_level2_active := dict_del (sb_level2_active m) sid,
                     sb_level2_workspace := dict_del (sb_level2_workspace m) sid\<rparr>
      | LEVEL_3 \<Rightarrow> m)"

definition create_sandbox ::
  "string \<Rightarrow> instant \<Rightarrow> string \<Rightarrow> string \<Rightarrow> string \<Rightarrow> isolation_level \<Rightarrow> string list \<Rightarrow> int \<Rightarrow> sandbox_manager
     \<Rightarrow> (sandbox_manager \<times> sandbox_policy) result" where
  "create_sandbox sid now tenant actor ws lv scope ttl m =
     (let p = \<lparr>sp_sandbox_id = sid, sp_tenant_id = tenant, sp_actor_id = actor, sp_workspace_id = ws,
               sp_isolation_level = lv, sp_filesystem_scope = scope, sp_process_scope = [],
               sp_network_scope = ''none'', sp_generation = 1, sp_created_at = now,
               sp_expires_at = now + seconds ttl\<rparr>
      in and_then (backend_create p m) (\<lambda>m'.
           Inr (m'\<lparr>sb_policies := dict_set (sb_policies m') sid p\<rparr>, p)))"

definition check_access :: "(string \<Rightarrow> string) \<Rightarrow> sandbox_manager \<Rightarrow> string \<Rightarrow> string \<Rightarrow> bool" where
  "check_access resolve m sid path =
     (case dict_get (sb_policies m) sid of None \<Rightarrow> False | Some p \<Rightarrow> allows_path resolve p path)"

definition destroy_sandbox :: "string \<Rightarrow> sandbox_manager \<Rightarrow> sandbox_manager" where
  "destroy_sandbox sid m =
     (case dict_get (sb_policies m) sid of
        None \<Rightarrow> m
      | Some p \<Rightarrow> backend_destroy (sp_isolation_level p) sid
                   (m\<lparr>sb_policies := dict_del (sb_policies m) sid\<rparr>))"

definition sandbox_list_active :: "sandbox_manager \<Rightarrow> string list" where
  "sandbox_list_active m = dict_keys (sb_policies m)"

lemmas sandbox_defs [op_defs] =
  backend_create_def backend_destroy_def create_sandbox_def check_access_def destroy_sandbox_def

section \<open>Properties\<close>

text \<open>
  C33. Writes, patches and deletions are authorized and scoped: if a call returns and the
  content at some path differs afterwards, the context held FILE\_WRITE and names a
  registered workspace of its own tenant and project, and the path begins with the string of
  the workspace's resolved directory; where nothing is a symbolic link, the directory is not the root and the
  path that was asked for is relative and without parent components, it is the directory or lies in it. Reads return only
  files under the same condition with FILE\_READ. Other paths that were asked for may lead into a
  sibling directory whose name begins with that of the workspace's.
\<close>

theorem filesystem_scoped:
  "(fs_apply resolve wm ctx op t = Inr (t', b) \<longrightarrow>
      dict_get (ft_files t') q \<noteq> dict_get (ft_files t) q \<longrightarrow>
      has_capability ctx ''FILE_WRITE'' \<and> safe_for resolve wm ctx (op_path op) q) \<and>
   (fs_read resolve wm t ctx path = Inr content \<longrightarrow>
      has_capability ctx ''FILE_READ'' \<and>
      (\<exists>p. dict_get (ft_files t) p = Some content \<and> safe_for resolve wm ctx path p))"
proof (intro conjI impI)
  assume "fs_apply resolve wm ctx op t = Inr (t', b)" and "dict_get (ft_files t') q \<noteq> dict_get (ft_files t) q"
  then show "has_capability ctx ''FILE_WRITE''" and "safe_for resolve wm ctx (op_path op) q"
    using fs_apply_effect by blast+
next
  assume "fs_read resolve wm t ctx path = Inr content"
  then obtain p where "has_capability ctx ''FILE_READ''" "resolve_safe_path resolve wm ctx path = Inr p"
      "dict_get (ft_files t) p = Some content"
    by (auto simp: fs_read_def split: if_splits option.splits)
  then show "has_capability ctx ''FILE_READ''"
    and "\<exists>p. dict_get (ft_files t) p = Some content \<and> safe_for resolve wm ctx path p"
    using resolve_safe_path_safe by blast+
qed

definition demo_fs_context :: execution_context where
  "demo_fs_context = demo_context\<lparr>ctx_workspace_id := Some ''w1''\<rparr>"

definition demo_tree :: file_tree where
  "demo_tree = \<lparr>ft_files = [(''/ws/w1/a'', ''mine''), (''/ws/w10/a'', ''theirs'')], ft_dirs = {''/ws/w1'', ''/ws/w10''}\<rparr>"

lemma demo_resolved:
  "resolve_safe_path (abspath ''/'') demo_workspaces demo_fs_context ''a'' = Inr ''/ws/w1/a''"
  "resolve_safe_path (abspath ''/'') demo_workspaces demo_fs_context ''../w10/a'' = Inr ''/ws/w10/a''"
  by (simp_all add: resolve_safe_path_def demo_fs_context_def workspace_status_def Let_def
        validate_context_ownership_def assert_workspace_def demo_workspace_defs)
     (code_simp+)

theorem filesystem_scoped_witness:
  "fs_read (abspath ''/'') demo_workspaces demo_tree demo_fs_context ''a'' = Inr ''mine'' \<and>
   (\<exists>p. dict_get (ft_files demo_tree) p = Some ''mine'' \<and> safe_for (abspath ''/'') demo_workspaces demo_fs_context ''a'' p)"
proof -
  have "fs_read (abspath ''/'') demo_workspaces demo_tree demo_fs_context ''a'' = Inr ''mine''"
    using demo_resolved(1)
    by (simp add: fs_read_def demo_tree_def) (simp add: demo_fs_context_def demo_context_def has_capability_def)
  then show ?thesis using filesystem_scoped by blast
qed

lemma split_w1: "split_slash ''/ws/w1'' = [[], ''ws'', ''w1'']"
  by code_simp

text \<open>
  The prefix is a prefix of the string, not of the path: a context confined to workspace
  \<open>w1\<close> reads and overwrites the files of a workspace whose directory name begins with
  the same characters (\<open>../w10/a\<close>), because the check does not end the base with a
  separator.
\<close>

theorem filesystem_sibling_escape:
  "fs_read (abspath ''/'') demo_workspaces demo_tree demo_fs_context ''../w10/a'' = Inr ''theirs'' \<and>
   (\<exists>t'. fs_write (abspath ''/'') demo_workspaces demo_fs_context ''../w10/a'' ''overwritten'' demo_tree = Inr (t', True)
      \<and> dict_get (ft_files t') ''/ws/w10/a'' = Some ''overwritten'') \<and>
   \<not> below ''/ws/w1'' ''/ws/w10/a''"
proof (intro conjI)
  have caps: "has_capability demo_fs_context ''FILE_READ''" "has_capability demo_fs_context ''FILE_WRITE''"
      "truthy_str (ctx_workspace_id demo_fs_context)"
    by (simp_all add: demo_fs_context_def demo_context_def has_capability_def)
  show "fs_read (abspath ''/'') demo_workspaces demo_tree demo_fs_context ''../w10/a'' = Inr ''theirs''"
    by (simp add: fs_read_def caps demo_resolved demo_tree_def)
  show "\<exists>t'. fs_write (abspath ''/'') demo_workspaces demo_fs_context ''../w10/a'' ''overwritten'' demo_tree = Inr (t', True)
      \<and> dict_get (ft_files t') ''/ws/w10/a'' = Some ''overwritten''"
    by (simp add: fs_write_def caps demo_resolved demo_tree_def)
  show "\<not> below ''/ws/w1'' ''/ws/w10/a''"
  proof
    assume "below ''/ws/w1'' ''/ws/w10/a''"
    then obtain n bs rest where b: "''/ws/w1'' = abs_form n bs" "''/ws/w10/a'' = abs_form n (bs @ rest)"
        "list_all proper (bs @ rest)" "rest \<noteq> []"
      unfolding below_def by blast
    have n: "0 < n"
    proof (rule ccontr)
      assume "\<not> 0 < n"
      then have j: "''/ws/w1'' = join_slash bs" using b(1) by (simp add: abs_form_def)
      then have "bs \<noteq> []" by auto
      then have "split_slash ''/ws/w1'' = bs"
        using j b(3) split_slash_join [of bs] by (auto simp: list_all_iff proper_def)
      then have "[] \<in> set bs" by (auto simp: split_w1)
      then show False using b(3) by (auto simp: list_all_iff proper_def)
    qed
    have "split_slash ''/ws/w1'' = replicate n [] @ (if bs = [] then [[]] else bs)"
      using split_abs_form [OF n, of bs] b(1,3) by simp
    moreover have "split_slash ''/ws/w10/a'' = replicate n [] @ bs @ rest"
      using split_abs_form [OF n b(3)] b(2,4) by simp
    ultimately show False using n by (cases n; cases "n - 1"; cases "bs = []") auto
  qed
qed

text \<open>
  High risk fails closed: the isolation level selected for a high-risk operation or an
  untrusted requester has no backend, so no sandbox is created for it; and a sandbox that
  was destroyed, or never existed, grants access to no path.
\<close>

theorem sandbox_fail_closed:
  "(risk = ''high'' \<or> trust = ''untrusted'' \<longrightarrow>
      (\<exists>msg. create_sandbox sid now tenant actor ws (select_level risk trust) scope ttl m = Inl (ValueError msg))) \<and>
   \<not> check_access resolve (destroy_sandbox sid m) sid path"
  by (auto simp: select_level_def sandbox_defs Let_def split: option.splits isolation_level.splits)

theorem sandbox_fail_closed_witness:
  "\<exists>msg. create_sandbox ''sbx-1'' 0 ''acme'' ''kira'' ''w1'' (select_level ''high'' ''trusted'') [''/ws/w1''] 60
     \<lparr>sb_data_dir = ''/d'', sb_level1_active = [], sb_level2_active = [], sb_level2_workspace = [], sb_policies = []\<rparr>
     = Inl (ValueError msg)"
  using sandbox_fail_closed by blast

end
