(* ===== verification/Journals.thy ===== *)
theory Journals
  imports Prelude
begin

text \<open>
  Append-only JSON-lines files, the operation and mission journals kept in them
  (runtime/journal/journal.py, runtime/journal/mission\_journal.py), and the event bus
  (runtime/events/bus.py).
\<close>

section \<open>JSON-lines files\<close>

text \<open>
  What a reader makes of a line: blank, a document the constructor accepts, or anything
  else. A process that dies while appending leaves a last line without its newline; the
  next append continues that line.
\<close>

datatype 'a line = Blank | Parsed 'a | Garbled

record 'a jsonl =
  jl_lines :: "'a line list"
  jl_tail :: "'a line option"

definition jl_empty :: "'a jsonl" where
  "jl_empty = \<lparr>jl_lines = [], jl_tail = None\<rparr>"

definition jl_read :: "'a jsonl \<Rightarrow> 'a line list" where
  "jl_read f = jl_lines f @ (case jl_tail f of None \<Rightarrow> [] | Some l \<Rightarrow> [l])"

text \<open>\<open>f.write(json.dumps(x) + newline)\<close> at the end of the file.\<close>

definition jl_append :: "'a \<Rightarrow> 'a jsonl \<Rightarrow> 'a jsonl" where
  "jl_append x f =
     \<lparr>jl_lines = jl_lines f @ [case jl_tail f of None \<Rightarrow> Parsed x | Some Blank \<Rightarrow> Parsed x | Some _ \<Rightarrow> Garbled],
      jl_tail = None\<rparr>"

text \<open>The same write, cut short.\<close>

definition jl_tear :: "'a jsonl \<Rightarrow> 'a jsonl" where
  "jl_tear f = f\<lparr>jl_tail := Some Garbled\<rparr>"

fun parsed :: "'a line list \<Rightarrow> 'a list" where
  "parsed [] = []"
| "parsed (Parsed x # ls) = x # parsed ls"
| "parsed (Blank # ls) = parsed ls"
| "parsed (Garbled # ls) = parsed ls"

lemma parsed_append [simp]: "parsed (ls @ ks) = parsed ls @ parsed ks"
  by (induction ls rule: parsed.induct) auto

lemma parsed_map_Parsed [simp]: "parsed (map Parsed xs) = xs"
  by (induction xs) auto

lemma jl_read_append:
  "jl_tail f = None \<Longrightarrow> jl_read (jl_append x f) = jl_read f @ [Parsed x]"
  by (simp add: jl_read_def jl_append_def)

lemma jl_tail_append [simp]: "jl_tail (jl_append x f) = None"
  by (simp add: jl_append_def)

lemma jl_append_torn:
  "parsed (jl_read (jl_append x (jl_tear f))) = parsed (jl_lines f)"
  by (simp add: jl_read_def jl_append_def jl_tear_def)

section \<open>OperationJournal\<close>

record journal_entry =
  je_entry_id :: string
  je_operation_id :: string
  je_execution_id :: string
  je_session_id :: string
  je_tenant_id :: string
  je_account_id :: string
  je_project_id :: string
  je_actor_id :: string
  je_workspace_id :: string
  je_tool :: string
  je_state :: string
  je_started_at :: string
  je_runtime_generation :: int
  je_finished_at :: "string option"
  je_metadata :: "(string \<times> json) list"

text \<open>The file belongs to the state: every operation that writes it is a method of the journal.\<close>

record operation_journal =
  oj_entries :: "journal_entry list"
  oj_file :: "journal_entry jsonl"

definition journal_load :: "operation_journal \<Rightarrow> operation_journal" where
  "journal_load j = j\<lparr>oj_entries := parsed (jl_read (oj_file j))\<rparr>"

definition journal_record :: "journal_entry \<Rightarrow> operation_journal \<Rightarrow> operation_journal" where
  "journal_record e j =
     j\<lparr>oj_entries := oj_entries j @ [e], oj_file := jl_append e (oj_file j)\<rparr>"

definition journal_get_entry :: "operation_journal \<Rightarrow> string \<Rightarrow> journal_entry option" where
  "journal_get_entry j eid = find (\<lambda>e. je_entry_id e = eid) (oj_entries j)"

definition journal_get_operation :: "operation_journal \<Rightarrow> string \<Rightarrow> journal_entry list" where
  "journal_get_operation j op = filter (\<lambda>e. je_operation_id e = op) (oj_entries j)"

definition journal_get_execution :: "operation_journal \<Rightarrow> string \<Rightarrow> journal_entry list" where
  "journal_get_execution j ex = filter (\<lambda>e. je_execution_id e = ex) (oj_entries j)"

definition journal_get_interrupted :: "operation_journal \<Rightarrow> int \<Rightarrow> journal_entry list" where
  "journal_get_interrupted j gen =
     filter (\<lambda>e. je_runtime_generation e < gen \<and> je_state e \<notin> {''COMPLETED'', ''FAILED''}) (oj_entries j)"

lemma journal_load_record:
  assumes "oj_entries j = parsed (jl_read (oj_file j))" and "jl_tail (oj_file j) = None"
  shows "journal_load (journal_record e j) = journal_record e j"
  using assms by (simp add: journal_load_def journal_record_def jl_read_append)

section \<open>MissionJournal\<close>

record mission_entry =
  mj_entry_id :: string
  mj_timestamp :: instant
  mj_event_type :: string
  mj_mission_id :: string
  mj_actor :: string
  mj_payload :: "(string \<times> json) list"

record mission_journal =
  mj_entries :: "mission_entry list"
  mj_file :: "mission_entry jsonl"

definition mission_load :: "mission_journal \<Rightarrow> mission_journal" where
  "mission_load j = j\<lparr>mj_entries := parsed (jl_read (mj_file j))\<rparr>"

definition mission_record ::
  "string \<Rightarrow> instant \<Rightarrow> string \<Rightarrow> string \<Rightarrow> string \<Rightarrow> (string \<times> json) list option \<Rightarrow> mission_journal
     \<Rightarrow> mission_journal \<times> mission_entry" where
  "mission_record eid now etype mission actor payload j =
     (let e = \<lparr>mj_entry_id = eid, mj_timestamp = now, mj_event_type = etype, mj_mission_id = mission,
               mj_actor = actor, mj_payload = (case payload of None \<Rightarrow> [] | Some p \<Rightarrow> p)\<rparr>
      in (j\<lparr>mj_entries := mj_entries j @ [e], mj_file := jl_append e (mj_file j)\<rparr>, e))"

definition mission_events :: "mission_journal \<Rightarrow> string \<Rightarrow> mission_entry list" where
  "mission_events j mission = filter (\<lambda>e. mj_mission_id e = mission) (mj_entries j)"

section \<open>EventBus\<close>

datatype event_type =
    SESSION_ATTACHED | SESSION_DETACHED | WORKSPACE_CREATED | WORKSPACE_READY
  | WORKSPACE_DESTROYED | PROCESS_STARTED | PROCESS_OUTPUT | PROCESS_EXITED
  | EXECUTION_STARTED | EXECUTION_COMPLETED | EXECUTION_FAILED | RUNTIME_HEALTH_CHANGED
  | UPDATE_AVAILABLE | UPDATE_COMPLETED | UPDATE_FAILED | RUNTIME_STARTED
  | RUNTIME_STOPPING | RUNTIME_RECOVERY | GENERATION_INCREMENTED | BOOTSTRAP_STARTED
  | GITHUB_DISCOVERED | ORGANIZATION_DISCOVERED | REPOSITORIES_DISCOVERED
  | OPERATIONAL_REPOSITORY_RESOLVED | CANONICAL_STATE_LOADED | CURRENT_MISSION_RESOLVED
  | BLOCKERS_LOADED | NEXT_ACTION_LOADED | CONTINUITY_RECONCILED | BOOTSTRAP_COMPLETED

record event =
  ev_type :: event_type
  ev_source :: string
  ev_tenant_id :: "string option"
  ev_account_id :: "string option"
  ev_project_id :: "string option"
  ev_payload :: "(string \<times> json) list"
  ev_timestamp :: instant

text \<open>
  Handlers are named by values of \<open>'h\<close>; what a handler does to the world \<open>'s\<close> and
  whether it raises is the argument \<open>run\<close> of \<open>bus_emit\<close>. A handler that changes
  the subscriptions of its own event while they are being called is not modelled.
\<close>

record 'h event_bus =
  bus_subscribers :: "(event_type, 'h list) dict"
  bus_history :: "event list"
  bus_history_limit :: nat

definition bus_init :: "'h event_bus" where
  "bus_init = \<lparr>bus_subscribers = [], bus_history = [], bus_history_limit = 100\<rparr>"

definition bus_subscribe :: "event_type \<Rightarrow> 'h \<Rightarrow> 'h event_bus \<Rightarrow> 'h event_bus" where
  "bus_subscribe t h b =
     (let hs = (case dict_get (bus_subscribers b) t of None \<Rightarrow> [] | Some hs \<Rightarrow> hs)
      in b\<lparr>bus_subscribers := dict_set (bus_subscribers b) t (if h \<in> set hs then hs else hs @ [h])\<rparr>)"

definition bus_unsubscribe :: "event_type \<Rightarrow> 'h \<Rightarrow> 'h event_bus \<Rightarrow> 'h event_bus" where
  "bus_unsubscribe t h b =
     (case dict_get (bus_subscribers b) t of
        None \<Rightarrow> b
      | Some hs \<Rightarrow>
          if h \<in> set hs then b\<lparr>bus_subscribers := dict_set (bus_subscribers b) t (remove1 h hs)\<rparr> else b)"

fun run_handlers :: "('h \<Rightarrow> event \<Rightarrow> 's \<Rightarrow> 's \<times> exn option) \<Rightarrow> event \<Rightarrow> 'h list \<Rightarrow> 's \<Rightarrow> 's" where
  "run_handlers run e [] s = s"
| "run_handlers run e (h # hs) s = run_handlers run e hs (fst (run h e s))"

text \<open>\<open>xs[-n:]\<close>\<close>

definition from_end :: "int \<Rightarrow> 'a list \<Rightarrow> 'a list" where
  "from_end n xs = (if n > 0 then drop (length xs - nat n) xs else drop (nat (- n)) xs)"

definition bus_emit ::
  "('h \<Rightarrow> event \<Rightarrow> 's \<Rightarrow> 's \<times> exn option) \<Rightarrow> event \<Rightarrow> 'h event_bus \<times> 's \<Rightarrow> 'h event_bus \<times> 's" where
  "bus_emit run e bs =
     (let b = fst bs; h = bus_history b @ [e];
          h' = (if length h > bus_history_limit b then from_end (int (bus_history_limit b)) h else h)
      in (b\<lparr>bus_history := h'\<rparr>,
          run_handlers run e (case dict_get (bus_subscribers b) (ev_type e) of None \<Rightarrow> [] | Some hs \<Rightarrow> hs) (snd bs)))"

definition bus_history_of :: "'h event_bus \<Rightarrow> event_type option \<Rightarrow> int \<Rightarrow> event list" where
  "bus_history_of b t limit =
     from_end limit (case t of None \<Rightarrow> bus_history b | Some t' \<Rightarrow> filter (\<lambda>e. ev_type e = t') (bus_history b))"

text \<open>The history is the last hundred events emitted.\<close>

lemma bus_emit_history:
  assumes "bus_history_limit b = 100" and "bus_history b = from_end 100 es"
  shows "bus_history (fst (bus_emit run e (b, s))) = from_end 100 (es @ [e])"
  using assms Suc_diff_le [of 100 "length es"]
  by (cases "100 \<le> length es") (auto simp: bus_emit_def from_end_def Let_def)

lemma bus_emit_limit [simp]:
  "bus_history_limit (fst (bus_emit run e bs)) = bus_history_limit (fst bs)"
  "bus_subscribers (fst (bus_emit run e bs)) = bus_subscribers (fst bs)"
  by (simp_all add: bus_emit_def Let_def)

lemma bus_history_run:
  "bus_history (fst (fold (bus_emit run) es (bus_init, s))) = from_end 100 es \<and>
   bus_history_limit (fst (fold (bus_emit run) es (bus_init, s))) = 100"
proof (induction es rule: rev_induct)
  case Nil
  then show ?case by (simp add: bus_init_def from_end_def)
next
  case (snoc e es)
  then show ?case
    using bus_emit_history [of "fst (fold (bus_emit run) es (bus_init, s))" es run e
        "snd (fold (bus_emit run) es (bus_init, s))"] by simp
qed

end
