(* ===== verification/Processes.thy ===== *)
theory Processes
  imports Security
begin

text \<open>
  The process manager (runtime/process/manager.py). What the operating system answers is an
  argument of the operations: \<open>Popen\<close> yields a pid or raises, \<open>communicate\<close>
  yields the outputs and the exit code or times out. What was spawned, in which directory and with which
  environment, and the signals sent are recorded in their order.
\<close>

section \<open>Records and state\<close>

datatype process_state = P_PENDING | P_RUNNING | P_COMPLETED | P_FAILED | P_TIMED_OUT | P_KILLED

record process_record =
  pr_process_id :: string
  pr_execution_id :: string
  pr_operation_id :: string
  pr_actor_id :: string
  pr_session_id :: string
  pr_tenant_id :: string
  pr_workspace_id :: "string option"
  pr_command :: "string list"
  pr_state :: process_state
  pr_pid :: "int option"
  pr_exit_code :: "int option"
  pr_stdout :: string
  pr_stderr :: string
  pr_started_at :: "instant option"
  pr_finished_at :: "instant option"
  pr_timeout_seconds :: int
  pr_runtime_generation :: int

text \<open>
  What \<open>Popen\<close> is asked for; without an environment the process gets that of the runtime.
  \<open>_handles\<close> maps a process id to its \<open>Popen\<close> object, here its pid.
\<close>

record process_call =
  pc_command :: "string list"
  pc_cwd :: string
  pc_env :: "(string \<times> string) list option"

record process_manager =
  pm_generation :: int
  pm_processes :: "(string, process_record) dict"
  pm_handles :: "(string, int) dict"
  pm_max_concurrent :: int
  pm_signals :: "(int \<times> int) list"
  pm_spawned :: "(process_call \<times> int) list"

definition process_init :: "int option \<Rightarrow> int \<Rightarrow> process_manager" where
  "process_init limit gen =
     \<lparr>pm_generation = gen, pm_processes = [], pm_handles = [],
      pm_max_concurrent = (case limit of None \<Rightarrow> 10 | Some n \<Rightarrow> n), pm_signals = [], pm_spawned = []\<rparr>"

definition active_processes :: "process_manager \<Rightarrow> process_record list" where
  "active_processes m = filter (\<lambda>p. pr_state p = P_RUNNING) (dict_values (pm_processes m))"

definition enforce_limits :: "process_manager \<Rightarrow> unit result" where
  "enforce_limits m =
     raise_if (int (length (active_processes m)) \<ge> pm_max_concurrent m)
       (RuntimeError ''Max concurrent executions reached'')"

definition validate_ownership ::
  "process_manager \<Rightarrow> execution_context \<Rightarrow> string \<Rightarrow> process_record option result" where
  "validate_ownership m ctx pid =
     (case dict_get (pm_processes m) pid of
        None \<Rightarrow> Inr None
      | Some r \<Rightarrow>
          if pr_tenant_id r \<noteq> ctx_tenant_id ctx
          then Inl (PermissionError ''Access denied: tenant mismatch'')
          else if pr_actor_id r \<noteq> ctx_actor_id ctx
          then Inl (PermissionError ''Access denied: actor mismatch'')
          else if pr_workspace_id r \<noteq> ctx_workspace_id ctx
          then Inl (PermissionError ''Access denied: workspace mismatch'')
          else if pr_runtime_generation r \<noteq> ctx_generation ctx
          then Inl (PermissionError ''Access denied: generation stale'')
          else Inr (Some r))"

section \<open>Operations\<close>

text \<open>Records are shared objects: changing one is an update of its dictionary entry.\<close>

definition put_process :: "process_manager \<Rightarrow> string \<Rightarrow> process_record \<Rightarrow> process_manager" where
  "put_process m pid r = m\<lparr>pm_processes := dict_set (pm_processes m) pid r\<rparr>"

definition process_start ::
  "string \<Rightarrow> instant \<Rightarrow> (process_call \<Rightarrow> int result) \<Rightarrow> instant \<Rightarrow> execution_context \<Rightarrow> string list \<Rightarrow> string
     \<Rightarrow> int \<Rightarrow> (string \<times> string) list option \<Rightarrow> process_manager \<Rightarrow> (process_manager \<times> process_record) result" where
  "process_start pid now popen later ctx command path timeout penv m =
     (if \<not> has_capability ctx ''PROCESS_EXECUTION''
      then Inl (PermissionError ''Access denied: missing PROCESS_EXECUTION capability'')
      else and_then (enforce_limits m) (\<lambda>_.
        let r = \<lparr>pr_process_id = pid, pr_execution_id = ctx_execution_id ctx,
                 pr_operation_id = ctx_operation_id ctx, pr_actor_id = ctx_actor_id ctx,
                 pr_session_id = ctx_session_id ctx, pr_tenant_id = ctx_tenant_id ctx,
                 pr_workspace_id = ctx_workspace_id ctx, pr_command = command,
                 pr_state = P_PENDING, pr_pid = None, pr_exit_code = None,
                 pr_stdout = [], pr_stderr = [], pr_started_at = Some now,
                 pr_finished_at = None, pr_timeout_seconds = timeout,
                 pr_runtime_generation = ctx_generation ctx\<rparr>;
            call = \<lparr>pc_command = command, pc_cwd = path, pc_env = penv\<rparr>
        in case popen call of
             Inr h \<Rightarrow>
               let r' = r\<lparr>pr_pid := Some h, pr_state := P_RUNNING\<rparr>
               in Inr ((put_process m pid r')\<lparr>pm_handles := dict_set (pm_handles m) pid h,
                         pm_spawned := pm_spawned m @ [(call, h)]\<rparr>, r')
           | Inl e \<Rightarrow>
               let r' = r\<lparr>pr_state := P_FAILED, pr_stderr := str_exn e, pr_finished_at := Some later\<rparr>
               in Inr (put_process m pid r', r')))"

definition process_status ::
  "process_manager \<Rightarrow> execution_context \<Rightarrow> string \<Rightarrow> process_record option result" where
  "process_status m ctx pid = validate_ownership m ctx pid"

definition process_stop ::
  "instant \<Rightarrow> execution_context \<Rightarrow> string \<Rightarrow> int \<Rightarrow> process_manager
     \<Rightarrow> (process_manager \<times> process_record option) result" where
  "process_stop now ctx pid sig m =
     (if \<not> has_capability ctx ''PROCESS_CONTROL''
      then Inl (PermissionError ''Access denied: missing PROCESS_CONTROL capability'')
      else and_then (validate_ownership m ctx pid) (\<lambda>rec. case rec of
        None \<Rightarrow> Inr (m, None)
      | Some r \<Rightarrow>
          (case dict_get (pm_handles m) pid of
             Some h \<Rightarrow>
               if pr_state r = P_RUNNING
               then let r' = r\<lparr>pr_state := P_KILLED, pr_finished_at := Some now\<rparr>
                    in Inr ((put_process m pid r')\<lparr>pm_signals := pm_signals m @ [(h, sig)]\<rparr>, Some r')
               else Inr (m, Some r)
           | None \<Rightarrow> Inr (m, Some r))))"

text \<open>What \<open>communicate\<close> reports; after a timeout the process is killed and read again.\<close>

datatype communicate = Finished string string int | TimeoutExpired string string

definition process_wait ::
  "instant \<Rightarrow> communicate \<Rightarrow> execution_context \<Rightarrow> string \<Rightarrow> process_manager
     \<Rightarrow> (process_manager \<times> process_record option) result" where
  "process_wait now outcome ctx pid m =
     and_then (validate_ownership m ctx pid) (\<lambda>rec. case rec of
       None \<Rightarrow> Inr (m, None)
     | Some r \<Rightarrow>
         (case dict_get (pm_handles m) pid of
            None \<Rightarrow> Inr (m, Some r)
          | Some h \<Rightarrow>
              if pr_state r \<noteq> P_RUNNING then Inr (m, Some r)
              else (case outcome of
                Finished out err code \<Rightarrow>
                  let r' = r\<lparr>pr_stdout := out, pr_stderr := err, pr_exit_code := Some code,
                             pr_state := (if code = 0 then P_COMPLETED else P_FAILED),
                             pr_finished_at := Some now\<rparr>
                  in Inr (put_process m pid r', Some r')
              | TimeoutExpired out err \<Rightarrow>
                  let r' = r\<lparr>pr_state := P_TIMED_OUT, pr_stdout := out, pr_stderr := err,
                             pr_finished_at := Some now\<rparr>
                  in Inr ((put_process m pid r')\<lparr>pm_signals := pm_signals m @ [(h, 9)]\<rparr>, Some r'))))"

definition process_stale :: "int \<Rightarrow> process_record \<Rightarrow> bool" where
  "process_stale gen r = (pr_runtime_generation r < gen \<and> pr_state r = P_RUNNING)"

definition process_mark_stale :: "int \<Rightarrow> process_manager \<Rightarrow> process_manager" where
  "process_mark_stale gen m =
     m\<lparr>pm_signals := pm_signals m @
          concat (map (\<lambda>r. if process_stale gen r
                           then (case dict_get (pm_handles m) (pr_process_id r) of
                                   None \<Rightarrow> [] | Some h \<Rightarrow> [(h, 9)]) else [])
                      (dict_values (pm_processes m))),
       pm_processes := map (\<lambda>(k, r). (k, if process_stale gen r then r\<lparr>pr_state := P_KILLED\<rparr> else r))
                         (pm_processes m)\<rparr>"

lemmas process_defs [op_defs] =
  process_start_def process_stop_def process_wait_def process_mark_stale_def put_process_def
  enforce_limits_def

lemma validate_ownership_Some:
  "validate_ownership m ctx pid = Inr (Some r) \<longleftrightarrow>
     dict_get (pm_processes m) pid = Some r \<and> pr_tenant_id r = ctx_tenant_id ctx \<and>
     pr_actor_id r = ctx_actor_id ctx \<and> pr_workspace_id r = ctx_workspace_id ctx \<and>
     pr_runtime_generation r = ctx_generation ctx"
  by (auto simp: validate_ownership_def split: option.splits)

section \<open>Runs of the process manager\<close>

inductive process_step :: "process_manager \<Rightarrow> process_manager \<Rightarrow> bool" where
  start: "dict_get (pm_processes m) pid = None \<Longrightarrow>
     process_start pid now popen later ctx command path timeout penv m = Inr (m', r) \<Longrightarrow> process_step m m'"
| stop: "process_stop now ctx pid sig m = Inr (m', r) \<Longrightarrow> process_step m m'"
| wait: "process_wait now outcome ctx pid m = Inr (m', r) \<Longrightarrow> process_step m m'"
| mark_stale: "process_step m (process_mark_stale gen m)"

inductive_cases process_stepE: "process_step m m'"

text \<open>
  Running processes never exceed the limit; every record is stored under its own id; a
  running process has a handle.
\<close>

definition process_inv :: "process_manager \<Rightarrow> bool" where
  "process_inv m \<longleftrightarrow>
     dict_wf (pm_processes m) \<and>
     int (length (active_processes m)) \<le> max 0 (pm_max_concurrent m) \<and>
     (\<forall>pid r. dict_get (pm_processes m) pid = Some r \<longrightarrow> pr_process_id r = pid \<and>
        (pr_state r = P_RUNNING \<longrightarrow> pr_pid r \<noteq> None \<and> dict_get (pm_handles m) pid = pr_pid r))"

lemma length_filter_dict_set_new:
  "dict_get d k = None \<Longrightarrow>
     length (filter (P \<circ> snd) (dict_set d k v)) = length (filter (P \<circ> snd) d) + (if P v then 1 else 0)"
  by (induction d) (auto split: if_splits)

lemma length_filter_dict_set_le:
  "\<not> P v \<Longrightarrow> length (filter (P \<circ> snd) (dict_set d k v)) \<le> length (filter (P \<circ> snd) d)"
  by (induction d) auto

lemma length_filter_map_le:
  "(\<And>k v. P (f k v) \<Longrightarrow> P v) \<Longrightarrow>
     length (filter (P \<circ> snd) (map (\<lambda>(k, v). (k, f k v)) d)) \<le> length (filter (P \<circ> snd) d)"
  by (induction d) auto

lemma length_active:
  "length (active_processes m) = length (filter ((\<lambda>r. pr_state r = P_RUNNING) \<circ> snd) (pm_processes m))"
  by (simp add: active_processes_def)

lemma active_put_over:
  "pr_state r \<noteq> P_RUNNING \<Longrightarrow> length (active_processes (put_process m pid r)) \<le> length (active_processes m)"
  unfolding length_active put_process_def
  using length_filter_dict_set_le [where P = "\<lambda>r. pr_state r = P_RUNNING" and d = "pm_processes m" and k = pid and v = r] by simp

lemma active_put_new:
  "dict_get (pm_processes m) pid = None \<Longrightarrow>
     length (active_processes (put_process m pid r)) \<le> Suc (length (active_processes m))"
  unfolding length_active put_process_def
  using length_filter_dict_set_new [where P = "\<lambda>r. pr_state r = P_RUNNING" and d = "pm_processes m" and k = pid and v = r] by simp

lemma active_frame [simp]:
  "active_processes (m\<lparr>pm_handles := h\<rparr>) = active_processes m"
  "active_processes (m\<lparr>pm_signals := s\<rparr>) = active_processes m"
  "active_processes (m\<lparr>pm_spawned := sp\<rparr>) = active_processes m"
  by (simp_all add: active_processes_def)

lemma active_mark_stale:
  "length (active_processes (process_mark_stale gen m)) \<le> length (active_processes m)"
proof -
  have "length (filter ((\<lambda>r. pr_state r = P_RUNNING) \<circ> snd)
      (map (\<lambda>(k, r). (k, if process_stale gen r then r\<lparr>pr_state := P_KILLED\<rparr> else r)) (pm_processes m)))
    \<le> length (filter ((\<lambda>r. pr_state r = P_RUNNING) \<circ> snd) (pm_processes m))"
    by (rule length_filter_map_le) (auto split: if_splits)
  then show ?thesis by (simp add: length_active process_mark_stale_def)
qed

lemma process_inv_put:
  assumes "process_inv m" and "pr_state r \<noteq> P_RUNNING" and "pr_process_id r = pid"
  shows "process_inv (put_process m pid r)"
  using assms active_put_over [OF assms(2), of m pid]
  by (auto simp: process_inv_def put_process_def)

lemma process_inv_signals: "process_inv (m\<lparr>pm_signals := s\<rparr>) = process_inv m"
  by (simp add: process_inv_def active_processes_def)

lemma process_inv_start:
  assumes "process_inv m" "dict_get (pm_processes m) pid = None"
    and "process_start pid now popen later ctx command path timeout penv m = Inr (m', r)"
  shows "process_inv m'"
proof (cases "popen \<lparr>pc_command = command, pc_cwd = path, pc_env = penv\<rparr>")
  case (Inl e)
  then show ?thesis using assms
    by (auto simp: process_start_def Let_def split: if_splits intro!: process_inv_put)
next
  case (Inr h)
  then obtain r' sp where m': "m' = (put_process m pid r')\<lparr>pm_handles := dict_set (pm_handles m) pid h, pm_spawned := sp\<rparr>"
      and r': "pr_process_id r' = pid" "pr_pid r' = Some h"
      and lim: "int (length (active_processes m)) < pm_max_concurrent m"
    using assms(3) by (auto simp: process_start_def enforce_limits_def Let_def split: if_splits)
  show ?thesis
    using assms(1) active_put_new [OF assms(2), of r'] lim r'
    by (auto simp: process_inv_def m') (auto simp: put_process_def split: if_splits)
qed

lemma process_inv_id:
  "process_inv m \<Longrightarrow> dict_get (pm_processes m) pid = Some r \<Longrightarrow> pr_process_id r = pid"
  by (simp add: process_inv_def)

text \<open>\<open>stop\<close> and \<open>wait\<close> leave the manager alone or end one running process they own.\<close>

definition ends_process :: "execution_context \<Rightarrow> string \<Rightarrow> process_manager \<Rightarrow> process_manager \<Rightarrow> bool" where
  "ends_process ctx pid m m' \<longleftrightarrow>
     (\<exists>r r' s. validate_ownership m ctx pid = Inr (Some r) \<and> pr_state r = P_RUNNING \<and>
        m' = (put_process m pid r')\<lparr>pm_signals := s\<rparr> \<and>
        pr_process_id r' = pr_process_id r \<and> pr_state r' \<noteq> P_RUNNING)"

lemma ends_processI:
  "validate_ownership m ctx pid = Inr (Some r) \<Longrightarrow> pr_state r = P_RUNNING \<Longrightarrow>
     pr_process_id r' = pr_process_id r \<Longrightarrow> pr_state r' \<noteq> P_RUNNING \<Longrightarrow>
     ends_process ctx pid m ((put_process m pid r')\<lparr>pm_signals := s\<rparr>)"
  "validate_ownership m ctx pid = Inr (Some r) \<Longrightarrow> pr_state r = P_RUNNING \<Longrightarrow>
     pr_process_id r' = pr_process_id r \<Longrightarrow> pr_state r' \<noteq> P_RUNNING \<Longrightarrow>
     ends_process ctx pid m (put_process m pid r')"
proof -
  assume *: "validate_ownership m ctx pid = Inr (Some r)" "pr_state r = P_RUNNING"
    "pr_process_id r' = pr_process_id r" "pr_state r' \<noteq> P_RUNNING"
  then show "ends_process ctx pid m ((put_process m pid r')\<lparr>pm_signals := s\<rparr>)"
    unfolding ends_process_def by blast
  have "(put_process m pid r')\<lparr>pm_signals := pm_signals m\<rparr> = put_process m pid r'"
    by (simp add: put_process_def)
  with * show "ends_process ctx pid m (put_process m pid r')"
    unfolding ends_process_def by metis
qed

lemma process_stop_cases:
  assumes "process_stop now ctx pid sig m = Inr (m', r)"
  shows "m' = m \<or> ends_process ctx pid m m'"
proof (cases "validate_ownership m ctx pid")
  case (Inr x)
  then show ?thesis using assms
    by (cases x; cases "dict_get (pm_handles m) pid")
       (auto simp: process_stop_def Let_def split: if_splits intro!: ends_processI)
qed (use assms in \<open>auto simp: process_stop_def split: if_splits\<close>)

lemma process_wait_cases:
  assumes "process_wait now outcome ctx pid m = Inr (m', r)"
  shows "m' = m \<or> ends_process ctx pid m m'"
proof (cases "validate_ownership m ctx pid")
  case (Inr x)
  then show ?thesis using assms
    by (cases x; cases "dict_get (pm_handles m) pid"; cases outcome)
       (auto simp: process_wait_def Let_def split: if_splits intro!: ends_processI)
qed (use assms in \<open>auto simp: process_wait_def split: if_splits\<close>)

lemma process_inv_ends: "process_inv m \<Longrightarrow> ends_process ctx pid m m' \<Longrightarrow> process_inv m'"
  by (auto simp: ends_process_def validate_ownership_Some process_inv_signals
           intro!: process_inv_put dest: process_inv_id)

lemma process_inv_mark_stale:
  assumes "process_inv m" shows "process_inv (process_mark_stale gen m)"
  using assms active_mark_stale [of gen m]
  by (auto simp: process_inv_def process_mark_stale_def dict_get_map_values)

lemma process_inv_step: "process_inv m \<Longrightarrow> process_step m m' \<Longrightarrow> process_inv m'"
  by (erule process_stepE)
     (auto intro: process_inv_start process_inv_ends process_inv_mark_stale
           dest!: process_stop_cases process_wait_cases)

interpretation process_keeps: one_way process_step process_inv
  by unfold_locales (rule process_inv_step)

end
