(* ===== verification/Recovery.thy ===== *)
theory Recovery
  imports Journals Processes
begin

text \<open>
  Recovery after a restart (runtime/core/recovery.py), over the operation journal, the
  process manager and the event bus; and the properties of the process manager.
\<close>

section \<open>RecoveryManager\<close>

text \<open>
  The workspace manager has no \<open>list_workspaces\<close>, so no workspace is reported, and
  \<open>mark_stale\<close> returns \<open>None\<close>, which is what the report carries. The order of
  \<open>list(set(...))\<close> is not specified by Python; \<open>remdups\<close> is one of them.
\<close>

record recovery_report =
  rep_previous_generation :: int
  rep_new_generation :: int
  rep_interrupted_operations :: "string list"
  rep_stale_processes :: "string list option"
  rep_recovered_workspaces :: "string list"
  rep_recovery_timestamp :: instant

record 'h recovery_manager =
  rm_journal :: operation_journal
  rm_processes :: process_manager
  rm_generation :: int
  rm_bus :: "'h event_bus"

definition report_json :: "recovery_report \<Rightarrow> json" where
  "report_json r = JObj
     [(''previous_generation'', JInt (rep_previous_generation r)),
      (''new_generation'', JInt (rep_new_generation r)),
      (''interrupted_operations'', JList (map JStr (rep_interrupted_operations r))),
      (''stale_processes'', case rep_stale_processes r of None \<Rightarrow> JNull | Some ps \<Rightarrow> JList (map JStr ps)),
      (''recovered_workspaces'', JList (map JStr (rep_recovered_workspaces r))),
      (''recovery_timestamp'', JInt (rep_recovery_timestamp r))]"

definition recovery_event :: "event_type \<Rightarrow> (string \<times> json) list \<Rightarrow> instant \<Rightarrow> event" where
  "recovery_event t payload now =
     \<lparr>ev_type = t, ev_source = ''RecoveryManager'', ev_tenant_id = None, ev_account_id = None,
      ev_project_id = None, ev_payload = payload, ev_timestamp = now\<rparr>"

definition recover ::
  "('h \<Rightarrow> event \<Rightarrow> 's \<Rightarrow> 's \<times> exn option) \<Rightarrow> instant \<Rightarrow> 'h recovery_manager \<times> 's
     \<Rightarrow> ('h recovery_manager \<times> 's) \<times> recovery_report" where
  "recover run now ms =
     (let m = fst ms;
          j = journal_load (rm_journal m);
          ops = remdups (map je_operation_id (journal_get_interrupted j (rm_generation m)));
          prev = rm_generation m;
          new = prev + 1;
          ps = process_mark_stale prev (rm_processes m);
          report = \<lparr>rep_previous_generation = prev, rep_new_generation = new,
                    rep_interrupted_operations = ops, rep_stale_processes = None,
                    rep_recovered_workspaces = [], rep_recovery_timestamp = now\<rparr>;
          bs = bus_emit run (recovery_event RUNTIME_RECOVERY [(''report'', report_json report)] now)
                 (rm_bus m, snd ms);
          bs' = bus_emit run (recovery_event GENERATION_INCREMENTED
                  [(''previous_generation'', JInt prev), (''new_generation'', JInt new)] now) bs
      in ((m\<lparr>rm_journal := j, rm_processes := ps, rm_generation := new, rm_bus := fst bs'\<rparr>, snd bs'), report))"

section \<open>Runs of the process manager\<close>

definition process_over :: "string \<Rightarrow> process_manager \<Rightarrow> bool" where
  "process_over pid m = (\<exists>r. dict_get (pm_processes m) pid = Some r \<and> pr_state r \<notin> {P_PENDING, P_RUNNING})"

lemma process_over_ends:
  "process_over pid m \<Longrightarrow> ends_process ctx pid' m m' \<Longrightarrow> process_over pid m'"
  by (auto simp: process_over_def ends_process_def put_process_def validate_ownership_Some)

lemma process_over_start:
  "process_over pid m \<Longrightarrow> dict_get (pm_processes m) pid' = None \<Longrightarrow>
     process_start pid' now popen later ctx command path timeout penv m = Inr (m', r) \<Longrightarrow> process_over pid m'"
  by (auto simp: process_over_def process_start_def put_process_def Let_def split: if_splits sum.splits)

lemma process_over_mark_stale: "process_over pid m \<Longrightarrow> process_over pid (process_mark_stale gen m)"
  by (auto simp: process_over_def process_mark_stale_def process_stale_def dict_get_map_values)

lemma process_over_step: "process_over pid m \<Longrightarrow> process_step m m' \<Longrightarrow> process_over pid m'"
  by (erule process_stepE)
     (auto intro: process_over_start process_over_ends process_over_mark_stale
           dest!: process_stop_cases process_wait_cases)

interpretation process_life: one_way process_step "process_over pid" for pid
  by unfold_locales (rule process_over_step)

lemma process_inv_init: "process_inv (process_init limit gen)"
  by (simp add: process_inv_def process_init_def active_processes_def)

lemma max_concurrent_step: "process_step m m' \<Longrightarrow> pm_max_concurrent m' = pm_max_concurrent m"
  by (erule process_stepE)
     (auto simp: ends_process_def put_process_def process_start_def process_mark_stale_def Let_def
           dest!: process_stop_cases process_wait_cases split: if_splits sum.splits)

interpretation process_limit: one_way process_step "\<lambda>m. pm_max_concurrent m = n" for n
  by unfold_locales (simp add: max_concurrent_step)

section \<open>Properties\<close>

text \<open>
  Over every run of the process manager from its creation, the running processes never
  exceed the configured limit, and a process that has ended (completed, failed, timed out or
  killed) never runs again.
\<close>

theorem process_runs_bounded:
  assumes "process_step\<^sup>*\<^sup>* (process_init (Some limit) gen) m" and "process_step\<^sup>*\<^sup>* m m'"
  shows "int (length (active_processes m)) \<le> max 0 limit \<and> (process_over pid m \<longrightarrow> process_over pid m')"
proof
  have "process_inv m"
    by (rule process_keeps.over_forever [OF assms(1) process_inv_init])
  moreover have "pm_max_concurrent m = limit"
    by (rule process_limit.over_forever [OF assms(1)]) (simp add: process_init_def)
  ultimately show "int (length (active_processes m)) \<le> max 0 limit"
    by (simp add: process_inv_def)
  show "process_over pid m \<longrightarrow> process_over pid m'"
    using process_life.over_forever [OF assms(2)] by blast
qed

definition demo_proc_context :: execution_context where
  "demo_proc_context = demo_context\<lparr>ctx_capabilities := {''PROCESS_EXECUTION'', ''PROCESS_CONTROL''}\<rparr>"

definition demo_processes :: process_manager where
  "demo_processes = (case process_start ''p1'' 0 (\<lambda>_. Inr 4711) 1 demo_proc_context [''sleep'', ''9''] ''/tmp'' 60 None
                       (process_init (Some 1) 1) of Inr (m, r) \<Rightarrow> m | Inl _ \<Rightarrow> process_init (Some 1) 1)"

lemma demo_started:
  "\<exists>r. process_start ''p1'' 0 (\<lambda>_. Inr 4711) 1 demo_proc_context [''sleep'', ''9''] ''/tmp'' 60 None (process_init (Some 1) 1)
     = Inr (demo_processes, r)"
  by (simp add: demo_processes_def demo_proc_context_def process_defs process_init_def active_processes_def
        raise_if_def has_capability_def Let_def)

theorem process_runs_bounded_witness:
  "length (active_processes demo_processes) = 1 \<and> int (length (active_processes demo_processes)) \<le> max 0 1"
proof
  show "length (active_processes demo_processes) = 1"
    by (simp add: demo_processes_def demo_proc_context_def process_defs process_init_def active_processes_def
          raise_if_def has_capability_def Let_def)
  have "process_step (process_init (Some 1) 1) demo_processes"
    using demo_started by (auto intro: process_step.start simp: process_init_def)
  then show "int (length (active_processes demo_processes)) \<le> max 0 1"
    using process_runs_bounded by blast
qed

text \<open>
  Only the owner ends a process: when \<open>stop\<close> or \<open>wait\<close> changes the manager, the
  process was running under the context's tenant, actor, workspace and generation, no other
  record changes, and \<open>stop\<close> needs PROCESS\_CONTROL.
\<close>

theorem process_control_owned:
  assumes "process_stop now ctx pid sig m = Inr (m', res) \<or> process_wait now outcome ctx pid m = Inr (m', res)"
    and "m' \<noteq> m"
  shows "\<exists>r. dict_get (pm_processes m) pid = Some r \<and> pr_state r = P_RUNNING \<and>
            pr_tenant_id r = ctx_tenant_id ctx \<and> pr_actor_id r = ctx_actor_id ctx \<and>
            pr_workspace_id r = ctx_workspace_id ctx \<and> pr_runtime_generation r = ctx_generation ctx \<and>
            (\<forall>q. q \<noteq> pid \<longrightarrow> dict_get (pm_processes m') q = dict_get (pm_processes m) q)"
proof -
  have "ends_process ctx pid m m'"
    using assms process_stop_cases process_wait_cases by blast
  then show ?thesis
    by (auto simp: ends_process_def validate_ownership_Some put_process_def)
qed

lemma demo_stop:
  "\<exists>m' res. process_stop 5 demo_proc_context ''p1'' 15 demo_processes = Inr (m', res) \<and>
     pm_signals m' = [(4711, 15)] \<and> pm_signals demo_processes = []"
  by (simp add: demo_processes_def demo_proc_context_def process_defs process_init_def active_processes_def
        raise_if_def has_capability_def validate_ownership_def demo_context_def Let_def)

theorem process_control_owned_witness:
  "\<exists>r. dict_get (pm_processes demo_processes) ''p1'' = Some r \<and> pr_tenant_id r = ctx_tenant_id demo_proc_context"
proof -
  obtain m' res where stop: "process_stop 5 demo_proc_context ''p1'' 15 demo_processes = Inr (m', res)"
      and s: "pm_signals m' = [(4711, 15)]" "pm_signals demo_processes = []"
    using demo_stop by blast
  then have "m' \<noteq> demo_processes" by auto
  then show ?thesis
    using process_control_owned [OF disjI1 [OF stop]] by blast
qed

text \<open>
  What recovery does: it reloads the journal, reports exactly the operations of earlier
  generations that neither completed nor failed, moves to the next generation and kills
  exactly the running processes of generations before the one that just ended. The running
  processes of the generation that just ended are therefore left running, although every
  context of that generation is stale from now on, and the report names no stale process.
\<close>

theorem recover_effect:
  assumes "recover run now (m, s) = ((m', s'), report)"
  shows "(\<forall>op. op \<in> set (rep_interrupted_operations report) \<longleftrightarrow>
            (\<exists>e \<in> set (parsed (jl_read (oj_file (rm_journal m)))). je_operation_id e = op \<and>
               je_runtime_generation e < rm_generation m \<and> je_state e \<notin> {''COMPLETED'', ''FAILED''})) \<and>
         rm_generation m' = rm_generation m + 1 \<and>
         (\<forall>pid r. dict_get (pm_processes (rm_processes m)) pid = Some r \<longrightarrow>
            dict_get (pm_processes (rm_processes m')) pid =
              Some (if pr_state r = P_RUNNING \<and> pr_runtime_generation r < rm_generation m
                    then r\<lparr>pr_state := P_KILLED\<rparr> else r)) \<and>
         rep_stale_processes report = None"
  using assms
  by (auto simp: recover_def journal_load_def journal_get_interrupted_def process_mark_stale_def
                 process_stale_def dict_get_map_values Let_def)

definition demo_recovery :: "string recovery_manager" where
  "demo_recovery = \<lparr>rm_journal = \<lparr>oj_entries = [], oj_file = jl_empty\<rparr>, rm_processes = demo_processes,
                    rm_generation = 2, rm_bus = bus_init\<rparr>"

theorem recover_effect_witness:
  "\<exists>m' r. fst (fst (recover (\<lambda>_ _ s. (s, None)) 9 (demo_recovery, ()))) = m' \<and> rm_generation m' = 3 \<and>
     dict_get (pm_processes (rm_processes m')) ''p1'' = Some r \<and> pr_state r = P_RUNNING"
proof -
  obtain m' u report where rec: "recover (\<lambda>_ _ s. (s, None)) 9 (demo_recovery, ()) = ((m', u), report)"
    by (metis prod.exhaust)
  have "\<exists>r. dict_get (pm_processes (rm_processes demo_recovery)) ''p1'' = Some r \<and>
      pr_state r = P_RUNNING \<and> pr_runtime_generation r = 2"
    by (simp add: demo_recovery_def demo_processes_def demo_proc_context_def process_defs process_init_def
          active_processes_def raise_if_def has_capability_def demo_context_def Let_def)
  then obtain r where r: "dict_get (pm_processes (rm_processes demo_recovery)) ''p1'' = Some r"
      "pr_state r = P_RUNNING" "pr_runtime_generation r = 2"
    by blast
  have "rm_generation demo_recovery = 2" by (simp add: demo_recovery_def)
  then show ?thesis
    using recover_effect [OF rec] r rec by force
qed

end
