(* ===== verification/Capabilities.thy ===== *)
theory Capabilities
  imports Prelude
begin

text \<open>
  The data model of execution (runtime/execution/models.py), the runtime policy
  (runtime/execution/policy.py) and the registry of governed capabilities
  (runtime/execution/capability.py).
\<close>

section \<open>Statuses and reasons\<close>

datatype execution_status =
  E_QUEUED | E_RUNNING | E_SUCCEEDED | E_FAILED | E_TIMED_OUT | E_CANCELLED | E_LIMIT_EXCEEDED

datatype failure_reason =
    TOOL_ERROR | EXECUTION_ERROR | R_TIMEOUT | R_LIMIT_EXCEEDED | AUTHORIZATION_DENIED
  | INVALID_TASK | UNSUPPORTED_EXECUTOR

datatype worker_state =
    W_CREATED | W_STARTING | W_RUNNING | W_SUCCEEDED | W_FAILED | W_TIMED_OUT | W_CANCELLED
  | W_LIMIT_EXCEEDED | W_TERMINATED

datatype executor_type = DETERMINISTIC | LOCAL_MODEL | REMOTE_MODEL

primrec executor_value :: "executor_type \<Rightarrow> string" where
  "executor_value DETERMINISTIC = ''DETERMINISTIC''"
| "executor_value LOCAL_MODEL = ''LOCAL_MODEL''"
| "executor_value REMOTE_MODEL = ''REMOTE_MODEL''"

primrec reason_value :: "failure_reason \<Rightarrow> string" where
  "reason_value TOOL_ERROR = ''TOOL_ERROR''"
| "reason_value EXECUTION_ERROR = ''EXECUTION_ERROR''"
| "reason_value R_TIMEOUT = ''TIMEOUT''"
| "reason_value R_LIMIT_EXCEEDED = ''LIMIT_EXCEEDED''"
| "reason_value AUTHORIZATION_DENIED = ''AUTHORIZATION_DENIED''"
| "reason_value INVALID_TASK = ''INVALID_TASK''"
| "reason_value UNSUPPORTED_EXECUTOR = ''UNSUPPORTED_EXECUTOR''"

primrec status_value :: "execution_status \<Rightarrow> string" where
  "status_value E_QUEUED = ''QUEUED''"
| "status_value E_RUNNING = ''RUNNING''"
| "status_value E_SUCCEEDED = ''SUCCEEDED''"
| "status_value E_FAILED = ''FAILED''"
| "status_value E_TIMED_OUT = ''TIMED_OUT''"
| "status_value E_CANCELLED = ''CANCELLED''"
| "status_value E_LIMIT_EXCEEDED = ''LIMIT_EXCEEDED''"

section \<open>Tasks\<close>

record task =
  tk_task_id :: string
  tk_capability_id :: string
  tk_account_id :: string
  tk_project_id :: string
  tk_input :: "(string \<times> json) list"
  tk_constraints :: "(string \<times> json) list"
  tk_deadline :: instant
  tk_workspace_policy :: string
  tk_evidence_policy :: string
  tk_requested_by :: string
  tk_created_at :: instant
  tk_department_id :: "string option"

record runtime_policy =
  pol_version :: string
  pol_allow_llm :: bool
  pol_enforce_strict_isolation :: bool

definition default_policy :: runtime_policy where
  "default_policy = \<lparr>pol_version = ''1.0.0'', pol_allow_llm = False, pol_enforce_strict_isolation = True\<rparr>"

section \<open>CapabilityRegistry\<close>

record capability_definition =
  cap_capability_id :: string
  cap_name :: string
  cap_description :: string
  cap_version :: string
  cap_risk_level :: string
  cap_inference_required :: bool
  cap_deterministic_allowed :: bool
  cap_network_policy :: string
  cap_filesystem_policy :: string
  cap_required_tools :: "string list"
  cap_max_runtime :: int
  cap_max_output :: int
  cap_evidence_required :: bool
  cap_preferred_executor :: executor_type
  cap_fallback_executor :: "executor_type option"
  cap_enabled :: bool
  cap_family :: string
  cap_side_effect :: string
  cap_cacheable :: bool
  cap_hermetic :: bool

record capability_registry =
  cr_capabilities :: "(string, capability_definition) dict"

definition capability_register :: "capability_registry \<Rightarrow> capability_definition \<Rightarrow> capability_registry" where
  "capability_register r c = r\<lparr>cr_capabilities := dict_set (cr_capabilities r) (cap_capability_id c) c\<rparr>"

definition capability_get :: "capability_registry \<Rightarrow> string \<Rightarrow> capability_definition option" where
  "capability_get r cid = dict_get (cr_capabilities r) cid"

definition capability_list_all :: "capability_registry \<Rightarrow> capability_definition list" where
  "capability_list_all r = dict_values (cr_capabilities r)"

type_synonym capability_row =
  "string \<times> string \<times> string \<times> bool \<times> executor_type \<times> string \<times> string \<times> bool \<times> bool"

definition initial_rows :: "capability_row list" where
  "initial_rows =
    [(''document.classify'', ''Document Classify'', ''Classifies a document.'', True, LOCAL_MODEL, ''document'', ''read'', False, False),
     (''filesystem.inspect'', ''Filesystem Inspect'', ''Inspects file metadata.'', False, DETERMINISTIC, ''filesystem'', ''read'', True, True),
     (''filesystem.list'', ''Filesystem List'', ''Lists directory contents.'', False, DETERMINISTIC, ''filesystem'', ''read'', True, True),
     (''filesystem.hash'', ''Filesystem Hash'', ''Hashes file contents.'', False, DETERMINISTIC, ''integrity'', ''read'', True, True),
     (''repository.inspect'', ''Repository Inspect'', ''Inspects repository metadata.'', False, DETERMINISTIC, ''repository'', ''read'', True, True),
     (''repository.search'', ''Repository Search'', ''Searches a local repository.'', False, DETERMINISTIC, ''repository'', ''read'', True, True),
     (''repository.read'', ''Repository Read'', ''Reads repository state and metadata.'', False, DETERMINISTIC, ''repository'', ''read'', True, True),
     (''repository.diff'', ''Repository Diff'', ''Computes a local repository diff.'', False, DETERMINISTIC, ''repository'', ''read'', True, True),
     (''artifact.metadata'', ''Artifact Metadata'', ''Gets local artifact metadata.'', False, DETERMINISTIC, ''artifact'', ''read'', True, True),
     (''schema.validate'', ''Schema Validate'', ''Validates structured data against an explicit schema contract.'', False, DETERMINISTIC, ''validation'', ''read'', True, True),
     (''fabric.read'', ''Fabric Read'', ''Reads operational fabric state.'', False, DETERMINISTIC, ''fabric'', ''read'', False, False),
     (''fabric.register'', ''Fabric Register'', ''Registers a fabric entry.'', False, DETERMINISTIC, ''fabric'', ''write'', False, False)]"

fun capability_of_row :: "capability_row \<Rightarrow> capability_definition" where
  "capability_of_row (cid, name, desc, inf_req, pref, family, side_effect, cacheable, hermetic) =
     \<lparr>cap_capability_id = cid, cap_name = name, cap_description = desc, cap_version = ''1.1.0'',
      cap_risk_level = (if side_effect = ''read'' then ''low'' else ''high''),
      cap_inference_required = inf_req,
      cap_deterministic_allowed = (pref = DETERMINISTIC),
      cap_network_policy = ''disabled'',
      cap_filesystem_policy = (if side_effect = ''read'' then ''read_only'' else ''workspace_only''),
      cap_required_tools = [cid], cap_max_runtime = 60, cap_max_output = 1024 * 1024,
      cap_evidence_required = True, cap_preferred_executor = pref, cap_fallback_executor = None,
      cap_enabled = (side_effect = ''read''), cap_family = family, cap_side_effect = side_effect,
      cap_cacheable = cacheable, cap_hermetic = hermetic\<rparr>"

definition capability_init :: capability_registry where
  "capability_init = foldl capability_register \<lparr>cr_capabilities = []\<rparr> (map capability_of_row initial_rows)"

interpretation capability_store: keyed_store capability_get capability_register cap_capability_id
  by unfold_locales (simp add: capability_get_def capability_register_def)

lemma initial_rows_distinct: "distinct (map cap_capability_id (map capability_of_row initial_rows))"
  by (simp add: initial_rows_def)

lemma capability_init_get:
  "row \<in> set initial_rows \<Longrightarrow> capability_get capability_init (fst row) = Some (capability_of_row row)"
  using capability_store.lookup_foldl_distinct [OF initial_rows_distinct, of "capability_of_row row"
      "\<lparr>cr_capabilities = []\<rparr>"]
  by (cases row) (simp add: capability_init_def image_iff, force)

lemma capability_init_None:
  "cid \<notin> fst ` set initial_rows \<Longrightarrow> capability_get capability_init cid = None"
proof -
  assume "cid \<notin> fst ` set initial_rows"
  moreover have "cap_capability_id (capability_of_row row) = fst row" for row
    by (cases row rule: capability_of_row.cases) simp
  ultimately have "map_of (map (\<lambda>v. (cap_capability_id v, v)) (rev (map capability_of_row initial_rows))) cid = None"
    by (auto simp: map_of_eq_None_iff image_iff)
  then show ?thesis
    unfolding capability_init_def capability_store.lookup_foldl by (simp add: capability_get_def)
qed

end
