(* ===== verification/Executor.thy ===== *)
theory Executor
  imports Capabilities Paths "HOL-Library.Char_ord" "HOL-Library.List_Lexorder"
begin

text \<open>
  The deterministic executor (runtime/execution/deterministic_executor.py) over the execution
  context of a task (runtime/execution/models.py). What the executor reads of the host (files,
  git, workspace size), the clock, the hash and the length of a JSON rendering are arguments.
\<close>

section \<open>TaskExecutionContext\<close>

text \<open>The three review fields, which no code reads or writes, are left out.\<close>

record task_context =
  tc_execution_id :: string
  tc_task_id :: string
  tc_account_id :: string
  tc_project_id :: string
  tc_capability_id :: string
  tc_workspace_path :: string
  tc_environment :: "(string \<times> string) list"
  tc_allowed_tools :: "string list"
  tc_deadline :: instant
  tc_resource_limits :: "(string \<times> int) list"
  tc_network_policy :: string
  tc_write_policy :: string
  tc_status :: execution_status
  tc_result :: "json option"
  tc_failure_reason :: "failure_reason option"
  tc_error_message :: "string option"
  tc_started_at :: "instant option"
  tc_completed_at :: "instant option"
  tc_duration_ms :: "int option"
  tc_executor_type :: "string option"
  tc_executor_id :: "string option"
  tc_executor_version :: "string option"
  tc_model_id :: "string option"
  tc_model_version :: "string option"
  tc_policy_version :: "string option"
  tc_input_hash :: "string option"
  tc_result_hash :: "string option"
  tc_evidence_ref :: "string option"
  tc_routing_class :: "string option"
  tc_capability_family :: "string option"
  tc_department_id :: "string option"
  tc_generation :: "int option"

section \<open>The host\<close>

text \<open>\<open>stat\<close> yields size, mode and modification time; \<open>h_chunks\<close> is the number of blocks read.\<close>

record host =
  h_cwd :: string
  h_exists :: "string \<Rightarrow> bool"
  h_isdir :: "string \<Rightarrow> bool"
  h_isfile :: "string \<Rightarrow> bool"
  h_stat :: "string \<Rightarrow> int \<times> string \<times> rat"
  h_listdir :: "string \<Rightarrow> string list"
  h_chunks :: "string \<Rightarrow> nat"
  h_sha256 :: "string \<Rightarrow> string"
  h_git :: "string \<Rightarrow> string list \<Rightarrow> (string \<times> int) result"

definition is_space :: "char \<Rightarrow> bool" where
  "is_space c = (c \<in> {CHR 0x09, CHR 0x0A, CHR 0x0B, CHR 0x0C, CHR 0x0D, CHR '' ''})"

definition strip :: "string \<Rightarrow> string" where
  "strip s = rev (dropWhile is_space (rev (dropWhile is_space s)))"

text \<open>\<open>splitlines\<close> for the line end git prints: no line after the last one.\<close>

fun split_newline :: "string \<Rightarrow> string list" where
  "split_newline [] = [[]]"
| "split_newline (c # cs) =
     (if c = CHR 0x0A then [] # split_newline cs
      else case split_newline cs of [] \<Rightarrow> [[c]] | l # ls \<Rightarrow> (c # l) # ls)"

definition splitlines :: "string \<Rightarrow> string list" where
  "splitlines s = (let ls = split_newline s in if last ls = [] then butlast ls else ls)"

section \<open>Checks\<close>

definition deadline_check :: "instant \<Rightarrow> task_context \<Rightarrow> unit result" where
  "deadline_check now cx = raise_if (now > tc_deadline cx) (TimeoutError ''Deadline exceeded'')"

definition forbidden_paths :: "string list" where
  "forbidden_paths = [''/var/lib/anny-runtime/secrets'', ''/home/anny/.ssh'', ''/root'']"

fun enforce_against :: "string \<Rightarrow> string \<Rightarrow> string list \<Rightarrow> unit result" where
  "enforce_against cwd path [] = Inr ()"
| "enforce_against cwd path (f # fs) =
     (if path = abspath cwd f \<or> starts_with path (abspath cwd f @ ''/'')
      then Inl (ExecutorSecurityError (''Access to '' @ f @ '' is explicitly denied''))
      else enforce_against cwd path fs)"

definition enforce_path :: "host \<Rightarrow> string \<Rightarrow> unit result" where
  "enforce_path h path = enforce_against (h_cwd h) path forbidden_paths"

definition limit_output :: "(json \<Rightarrow> int) \<Rightarrow> task_context \<Rightarrow> json \<Rightarrow> json result" where
  "limit_output json_len cx r =
     (let max_out = (case map_of (tc_resource_limits cx) ''max_output_size'' of
                       None \<Rightarrow> 1024 * 1024 | Some n \<Rightarrow> n)
      in if json_len r > max_out then Inl (ExecutorLimitsExceeded ''Output size exceeded maximum limit'')
         else Inr r)"

definition input_string :: "task \<Rightarrow> string \<Rightarrow> string \<Rightarrow> string result" where
  "input_string t key msg =
     (case map_of (tk_input t) key of
        Some (JStr s) \<Rightarrow> if s = [] then Inl (ValueError msg) else Inr s
      | _ \<Rightarrow> Inl (ValueError msg))"

text \<open>The path of the input, made absolute and checked.\<close>

definition checked_path :: "host \<Rightarrow> task \<Rightarrow> string \<Rightarrow> (string \<times> string) result" where
  "checked_path h t msg =
     and_then (input_string t ''path'' msg) (\<lambda>p.
       let a = abspath (h_cwd h) p in and_then (enforce_path h a) (\<lambda>_. Inr (p, a)))"

section \<open>Capability handlers\<close>

text \<open>
  Every handler begins with a deadline check at the clock reading \<open>clk 0\<close> and yields the
  value it hands to \<open>_limit_output\<close>; later readings of the clock are \<open>clk 1\<close>,
  \<open>clk 2\<close>, and so on.
\<close>

type_synonym handler_fn = "host \<Rightarrow> (nat \<Rightarrow> instant) \<Rightarrow> task \<Rightarrow> task_context \<Rightarrow> json result"

definition do_filesystem_inspect :: handler_fn where
  "do_filesystem_inspect h clk t cx =
     and_then (checked_path h t ''Missing 'path' in input'') (\<lambda>(p, a).
       Inr (if \<not> h_exists h a
            then JObj [(''error'', JStr ''Path does not exist''), (''path'', JStr p)]
            else let (size, mode, mtime) = h_stat h a in
              JObj [(''path'', JStr p), (''is_dir'', JBool (h_isdir h a)), (''is_file'', JBool (h_isfile h a)),
                    (''size_bytes'', JInt size), (''mode'', JStr mode), (''mtime'', JFloat mtime)]))"

definition list_entry :: "host \<Rightarrow> string \<Rightarrow> string \<Rightarrow> json" where
  "list_entry h a name =
     (let full = path_join a name in
      JObj [(''name'', JStr name), (''is_dir'', JBool (h_isdir h full)), (''is_file'', JBool (h_isfile h full)),
            (''size_bytes'', if h_isfile h full then JInt (fst (h_stat h full)) else JNull)])"

definition do_filesystem_list :: handler_fn where
  "do_filesystem_list h clk t cx =
     and_then (checked_path h t ''Missing 'path' in input'') (\<lambda>(p, a).
       Inr (if \<not> h_isdir h a
            then JObj [(''error'', JStr ''Directory does not exist''), (''path'', JStr p), (''entries'', JList [])]
            else JObj [(''path'', JStr p), (''entries'', JList (map (list_entry h a) (sort (h_listdir h a))))]))"

fun chunk_checks :: "(nat \<Rightarrow> instant) \<Rightarrow> task_context \<Rightarrow> nat \<Rightarrow> nat \<Rightarrow> unit result" where
  "chunk_checks clk cx k 0 = Inr ()"
| "chunk_checks clk cx k (Suc n) = and_then (deadline_check (clk k) cx) (\<lambda>_. chunk_checks clk cx (Suc k) n)"

definition do_filesystem_hash :: handler_fn where
  "do_filesystem_hash h clk t cx =
     and_then (checked_path h t ''Missing 'path' in input'') (\<lambda>(p, a).
       if \<not> h_exists h a
       then Inr (JObj [(''error'', JStr ''Path does not exist''), (''path'', JStr p)])
       else if h_isdir h a
       then Inr (JObj [(''error'', JStr ''Cannot hash a directory''), (''path'', JStr p)])
       else and_then (chunk_checks clk cx 1 (h_chunks h a)) (\<lambda>_.
         Inr (JObj [(''path'', JStr p), (''algorithm'', JStr ''sha256''), (''sha256'', JStr (h_sha256 h a))])))"

definition repository_path :: "host \<Rightarrow> task \<Rightarrow> string result" where
  "repository_path h t =
     and_then (checked_path h t ''Missing repository 'path' in input'') (\<lambda>(p, a).
       if \<not> h_exists h (path_join a ''.git'') then Inl (ValueError ''Path is not a Git repository'') else Inr a)"

definition do_repository_inspect :: handler_fn where
  "do_repository_inspect h clk t cx =
     and_then (checked_path h t ''Missing 'path' in input'') (\<lambda>(p, a).
       if \<not> h_exists h a
       then Inr (JObj [(''error'', JStr ''Repository path does not exist''), (''path'', JStr p)])
       else let is_git = h_exists h (path_join a ''.git'') in
         and_then (if is_git
                   then and_then (h_git h a [''rev-parse'', ''HEAD'']) (\<lambda>(out, _). Inr (JStr (strip out)))
                   else Inr JNull) (\<lambda>hd.
           Inr (JObj [(''path'', JStr p), (''is_git_repository'', JBool is_git), (''head'', hd)])))"

definition do_repository_search :: handler_fn where
  "do_repository_search h clk t cx =
     and_then (repository_path h t) (\<lambda>repo.
     and_then (input_string t ''pattern'' (''Missing search 'pattern'' @ [CHR 0x27])) (\<lambda>pat.
     and_then (h_git h repo [''grep'', ''-n'', ''-I'', ''--'', pat]) (\<lambda>(out, code).
       Inr (JObj [(''repository'', JStr repo), (''pattern'', JStr pat),
                  (''matches'', JList (map JStr (sort (filter (\<lambda>l. l \<noteq> []) (splitlines out))))),
                  (''exit_code'', JInt code)]))))"

definition do_repository_read :: handler_fn where
  "do_repository_read h clk t cx =
     and_then (repository_path h t) (\<lambda>repo.
     and_then (h_git h repo [''rev-parse'', ''HEAD'']) (\<lambda>(hd_out, _).
     and_then (h_git h repo [''branch'', ''--show-current'']) (\<lambda>(br_out, _).
     and_then (h_git h repo [''status'', ''--porcelain=v1'']) (\<lambda>(st_out, _).
       let status = splitlines st_out in
       Inr (JObj [(''repository'', JStr repo), (''head'', JStr (strip hd_out)), (''branch'', JStr (strip br_out)),
                  (''dirty'', JBool (status \<noteq> [])), (''status_entries'', JList (map JStr (sort status)))])))))"

text \<open>
  A \<open>head\<close> that is not a string is passed to git as it is and makes the call fail; only
  absent, false or string values are modelled.
\<close>

definition do_repository_diff :: handler_fn where
  "do_repository_diff h clk t cx =
     and_then (repository_path h t) (\<lambda>repo.
     and_then (input_string t ''base'' (''Missing diff 'base'' @ [CHR 0x27])) (\<lambda>base.
       let hd = (case map_of (tk_input t) ''head'' of Some (JStr s) \<Rightarrow> s | _ \<Rightarrow> []) in
       and_then (h_git h repo ([''diff'', ''--no-ext-diff'', ''--unified=3'', base] @ (if hd = [] then [] else [hd])))
         (\<lambda>(out, code).
            Inr (JObj [(''repository'', JStr repo), (''base'', JStr base), (''head'', JStr hd),
                       (''exit_code'', JInt code), (''diff'', JStr out)]))))"

definition do_artifact_metadata :: handler_fn where
  "do_artifact_metadata h clk t cx =
     and_then (checked_path h t ''Missing artifact 'path' in input'') (\<lambda>(p, a).
       Inr (if \<not> h_exists h a
            then JObj [(''error'', JStr ''Artifact does not exist''), (''path'', JStr p)]
            else let (size, mode, mtime) = h_stat h a in
              JObj [(''path'', JStr p), (''is_file'', JBool (h_isfile h a)), (''is_dir'', JBool (h_isdir h a)),
                    (''size_bytes'', JInt size), (''mtime'', JFloat mtime),
                    (''sha256'', if h_isfile h a then JStr (h_sha256 h a) else JNull)]))"

definition supported_handlers :: "(string \<times> handler_fn) list" where
  "supported_handlers =
    [(''filesystem.inspect'', do_filesystem_inspect), (''filesystem.list'', do_filesystem_list),
     (''filesystem.hash'', do_filesystem_hash), (''repository.inspect'', do_repository_inspect),
     (''repository.search'', do_repository_search), (''repository.read'', do_repository_read),
     (''repository.diff'', do_repository_diff), (''artifact.metadata'', do_artifact_metadata)]"

text \<open>
  A handler with its first deadline check and the output limit; \<open>filesystem.inspect\<close>
  alone checks the deadline once more after the result is stored.
\<close>

definition run_handler ::
  "(json \<Rightarrow> int) \<Rightarrow> host \<Rightarrow> (nat \<Rightarrow> instant) \<Rightarrow> string \<Rightarrow> handler_fn \<Rightarrow> task \<Rightarrow> task_context
     \<Rightarrow> json option \<times> unit result" where
  "run_handler json_len h clk cap f t cx =
     (case and_then (deadline_check (clk 0) cx) (\<lambda>_. and_then (f h clk t cx) (limit_output json_len cx)) of
        Inl e \<Rightarrow> (None, Inl e)
      | Inr r \<Rightarrow> (Some r, if cap = ''filesystem.inspect'' then deadline_check (clk 1) cx else Inr ()))"

section \<open>The workspace record of an execution\<close>

definition jopt_int :: "int option \<Rightarrow> json" where
  "jopt_int v = (case v of None \<Rightarrow> JNull | Some n \<Rightarrow> JInt n)"

definition result_json :: "task_context \<Rightarrow> json" where
  "result_json cx =
     JObj [(''status'', JStr (status_value (tc_status cx))),
           (''failure_reason'', case tc_failure_reason cx of None \<Rightarrow> JNull | Some r \<Rightarrow> JStr (reason_value r)),
           (''error_message'', jopt (tc_error_message cx)),
           (''data'', case tc_result cx of None \<Rightarrow> JNull | Some j \<Rightarrow> j)]"

definition observability_json :: "task \<Rightarrow> task_context \<Rightarrow> int \<Rightarrow> int \<Rightarrow> json" where
  "observability_json t cx ws_size result_size =
     JObj [(''execution_started'', jopt_int (tc_started_at cx)),
           (''execution_completed'', jopt_int (tc_completed_at cx)),
           (''duration_ms'', jopt_int (tc_duration_ms cx)),
           (''exit_code'', JInt (if tc_status cx = E_SUCCEEDED then 0 else 1)),
           (''workspace_size'', JInt ws_size), (''result_size'', JInt result_size),
           (''capability_id'', JStr (tk_capability_id t)),
           (''events'', JList [JStr ''execution_started'', JStr (''capability_invoked: '' @ tk_capability_id t),
                               JStr ''execution_completed''])]"

text \<open>
  \<open>_finalize_workspace\<close>: the files written and the context afterwards. \<open>present\<close> says
  whether the workspace directory exists, \<open>ws_size\<close> what \<open>get_workspace_size\<close>
  reports once the result file is written.
\<close>

definition finalize_workspace ::
  "(json \<Rightarrow> string) \<Rightarrow> (json \<Rightarrow> int) \<Rightarrow> bool \<Rightarrow> int \<Rightarrow> task \<Rightarrow> task_context
     \<Rightarrow> task_context \<times> (string \<times> json) list" where
  "finalize_workspace hash json_len present ws_size t cx =
     (if \<not> present then (cx, [])
      else let ws = tc_workspace_path cx;
               res = result_json cx;
               obs = observability_json t cx ws_size (json_len res);
               ev = path_join (path_join ws ''evidence'') ''evidence.json'';
               rep = JObj [(''task_id'', JStr (tk_task_id t)), (''execution_id'', JStr (tc_execution_id cx)),
                           (''runtime_version'', JStr ''1.1.0''), (''tool_version'', JStr ''1.1.0''),
                           (''capability_id'', JStr (tk_capability_id t)),
                           (''input_hash'', JStr (hash (JObj (tk_input t)))),
                           (''output_hash'', JStr (hash res)), (''evidence_hash'', JStr (hash obs))];
               cx1 = cx\<lparr>tc_input_hash := Some (hash (JObj (tk_input t))), tc_result_hash := Some (hash res),
                        tc_evidence_ref := Some ev\<rparr>;
               max_ws = (case map_of (tc_resource_limits cx) ''max_workspace_size'' of
                           None \<Rightarrow> 10 * 1024 * 1024 | Some n \<Rightarrow> n)
           in (if ws_size > max_ws
               then cx1\<lparr>tc_status := E_LIMIT_EXCEEDED, tc_failure_reason := Some R_LIMIT_EXCEEDED,
                        tc_error_message := Some ''Workspace size limit exceeded''\<rparr>
               else cx1,
               [(path_join (path_join ws ''result'') ''result.json'', res),
                (path_join (path_join ws ''logs'') ''observability.json'', obs),
                (path_join (path_join ws ''metadata'') ''reproducibility.json'', rep),
                (ev, JObj [(''observability'', obs), (''reproducibility'', rep)])]))"

section \<open>DeterministicExecutor.execute\<close>

definition classify_failure :: "exn \<Rightarrow> execution_status \<times> failure_reason" where
  "classify_failure e =
     (case e of
        ExecutorLimitsExceeded _ \<Rightarrow> (E_LIMIT_EXCEEDED, R_LIMIT_EXCEEDED)
      | ExecutorSecurityError _ \<Rightarrow> (E_FAILED, AUTHORIZATION_DENIED)
      | TimeoutError _ \<Rightarrow> (E_TIMED_OUT, R_TIMEOUT)
      | _ \<Rightarrow> (E_FAILED, EXECUTION_ERROR))"

definition deterministic_execute ::
  "(json \<Rightarrow> string) \<Rightarrow> (json \<Rightarrow> int) \<Rightarrow> host \<Rightarrow> (nat \<Rightarrow> instant) \<Rightarrow> instant \<Rightarrow> instant \<Rightarrow> bool \<Rightarrow> int
     \<Rightarrow> task \<Rightarrow> task_context \<Rightarrow> task_context \<times> (string \<times> json) list" where
  "deterministic_execute hash json_len h clk started completed present ws_size t cx =
     (if tc_status cx \<noteq> E_QUEUED
      then (cx\<lparr>tc_failure_reason := Some INVALID_TASK, tc_status := E_FAILED,
               tc_error_message := Some ''Execution context is not QUEUED''\<rparr>, [])
      else let cx1 = cx\<lparr>tc_status := E_RUNNING, tc_started_at := Some started\<rparr> in
        case map_of supported_handlers (tk_capability_id t) of
          None \<Rightarrow> (cx1\<lparr>tc_status := E_FAILED, tc_failure_reason := Some INVALID_TASK,
                     tc_error_message := Some (''Unsupported deterministic capability: '' @ tk_capability_id t)\<rparr>, [])
        | Some f \<Rightarrow>
            let (out, res) = run_handler json_len h clk (tk_capability_id t) f t cx1;
                cx2 = (case out of None \<Rightarrow> cx1 | Some r \<Rightarrow> cx1\<lparr>tc_result := Some r\<rparr>);
                cx3 = (case res of
                         Inr _ \<Rightarrow> cx2\<lparr>tc_status := E_SUCCEEDED\<rparr>
                       | Inl e \<Rightarrow> cx2\<lparr>tc_status := fst (classify_failure e),
                                     tc_failure_reason := Some (snd (classify_failure e)),
                                     tc_error_message := Some (str_exn e)\<rparr>);
                cx4 = cx3\<lparr>tc_completed_at := Some completed,
                          tc_duration_ms := Some (ms_between started completed)\<rparr>
            in finalize_workspace hash json_len present ws_size t cx4)"

section \<open>What a successful execution has passed\<close>

lemma enforce_against_Inr:
  "enforce_against cwd path fs = Inr u \<longleftrightarrow>
     (\<forall>f \<in> set fs. path \<noteq> abspath cwd f \<and> \<not> starts_with path (abspath cwd f @ ''/''))"
  by (induction fs) auto

definition path_allowed :: "host \<Rightarrow> task \<Rightarrow> bool" where
  "path_allowed h t \<longleftrightarrow>
     (\<exists>p. map_of (tk_input t) ''path'' = Some (JStr p) \<and> p \<noteq> [] \<and>
        (\<forall>f \<in> set forbidden_paths. abspath (h_cwd h) p \<noteq> abspath (h_cwd h) f \<and>
           \<not> starts_with (abspath (h_cwd h) p) (abspath (h_cwd h) f @ ''/'')))"

lemma input_string_Inr:
  "input_string t key msg = Inr s \<longleftrightarrow> map_of (tk_input t) key = Some (JStr s) \<and> s \<noteq> []"
  by (auto simp: input_string_def split: option.splits json.splits if_splits)

lemma checked_path_allowed: "checked_path h t msg = Inr pa \<Longrightarrow> path_allowed h t"
  by (auto simp: checked_path_def enforce_path_def enforce_against_Inr input_string_Inr path_allowed_def Let_def)

lemma repository_path_allowed: "repository_path h t = Inr a \<Longrightarrow> path_allowed h t"
  by (auto simp: repository_path_def dest: checked_path_allowed)

lemma handler_path_allowed:
  assumes "(cap, f) \<in> set supported_handlers" and "f h clk t cx = Inr r"
  shows "path_allowed h t"
proof -
  from assms(1) consider "f = do_filesystem_inspect" | "f = do_filesystem_list" | "f = do_filesystem_hash"
    | "f = do_repository_inspect" | "f = do_repository_search" | "f = do_repository_read"
    | "f = do_repository_diff" | "f = do_artifact_metadata"
    unfolding supported_handlers_def by auto
  then show ?thesis
  proof cases
    case 1 then show ?thesis using assms(2) by (auto simp: do_filesystem_inspect_def dest: checked_path_allowed)
  next
    case 2 then show ?thesis using assms(2) by (auto simp: do_filesystem_list_def dest: checked_path_allowed)
  next
    case 3 then show ?thesis using assms(2) by (auto simp: do_filesystem_hash_def dest: checked_path_allowed)
  next
    case 4 then show ?thesis using assms(2) by (auto simp: do_repository_inspect_def dest: checked_path_allowed)
  next
    case 5 then show ?thesis using assms(2) by (auto simp: do_repository_search_def dest: repository_path_allowed)
  next
    case 6 then show ?thesis using assms(2) by (auto simp: do_repository_read_def dest: repository_path_allowed)
  next
    case 7 then show ?thesis using assms(2) by (auto simp: do_repository_diff_def dest: repository_path_allowed)
  next
    case 8 then show ?thesis using assms(2) by (auto simp: do_artifact_metadata_def dest: checked_path_allowed)
  qed
qed

lemma run_handler_success:
  assumes "run_handler json_len h clk cap f t cx = (out, Inr u)"
  shows "\<exists>r. out = Some r \<and> f h clk t cx = Inr r \<and> clk 0 \<le> tc_deadline cx \<and> limit_output json_len cx r = Inr r"
  using assms
  by (auto simp: run_handler_def limit_output_def deadline_check_def Let_def split: sum.splits if_splits)

lemma finalize_status:
  "tc_status (fst (finalize_workspace hash json_len present ws_size t cx)) \<in> {tc_status cx, E_LIMIT_EXCEEDED} \<and>
   tc_result (fst (finalize_workspace hash json_len present ws_size t cx)) = tc_result cx"
  by (auto simp: finalize_workspace_def Let_def)

lemma classify_failure_status: "fst (classify_failure e) \<in> {E_FAILED, E_TIMED_OUT, E_LIMIT_EXCEEDED}"
  by (cases e) (simp_all add: classify_failure_def)

section \<open>Properties\<close>

text \<open>
  Every deterministic execution ends in a terminal status, and SUCCEEDED is earned: the
  context was QUEUED, the capability has a handler, the deadline had not passed, the path of
  the input is none of the forbidden directories and not below one of them, and the stored
  result is what the handler computed, within the output limit.
\<close>

theorem deterministic_execute_outcome:
  assumes "deterministic_execute hash json_len h clk started completed present ws_size t cx = (cx', files)"
  shows "tc_status cx' \<in> {E_SUCCEEDED, E_FAILED, E_TIMED_OUT, E_LIMIT_EXCEEDED} \<and>
         (tc_status cx' = E_SUCCEEDED \<longrightarrow>
            tc_status cx = E_QUEUED \<and> path_allowed h t \<and> clk 0 \<le> tc_deadline cx \<and>
            (\<exists>f r. map_of supported_handlers (tk_capability_id t) = Some f \<and> tc_result cx' = Some r \<and>
               f h clk t (cx\<lparr>tc_status := E_RUNNING, tc_started_at := Some started\<rparr>) = Inr r \<and>
               limit_output json_len cx r = Inr r))"
proof (cases "tc_status cx = E_QUEUED \<and> map_of supported_handlers (tk_capability_id t) \<noteq> None")
  case False
  then show ?thesis using assms by (auto simp: deterministic_execute_def Let_def split: if_splits)
next
  case True
  then obtain f where f: "map_of supported_handlers (tk_capability_id t) = Some f" and q: "tc_status cx = E_QUEUED"
    by auto
  define cx1 where "cx1 = cx\<lparr>tc_status := E_RUNNING, tc_started_at := Some started\<rparr>"
  obtain out res where run: "run_handler json_len h clk (tk_capability_id t) f t cx1 = (out, res)"
    by (metis prod.exhaust)
  show ?thesis
  proof (cases res)
    case (Inl e)
    define cx4 where "cx4 = (case out of None \<Rightarrow> cx1 | Some r \<Rightarrow> cx1\<lparr>tc_result := Some r\<rparr>)
       \<lparr>tc_status := fst (classify_failure e), tc_failure_reason := Some (snd (classify_failure e)),
        tc_error_message := Some (str_exn e), tc_completed_at := Some completed,
        tc_duration_ms := Some (ms_between started completed)\<rparr>"
    have "cx' = fst (finalize_workspace hash json_len present ws_size t cx4)"
      using assms f q run Inl
      by (simp add: deterministic_execute_def Let_def cx1_def [symmetric] cx4_def)
    moreover have "tc_status cx4 = fst (classify_failure e)"
      by (simp add: cx4_def)
    ultimately show ?thesis
      using finalize_status [of hash json_len present ws_size t cx4] classify_failure_status [of e] by auto
  next
    case (Inr u)
    then obtain r where r: "out = Some r" "f h clk t cx1 = Inr r" "clk 0 \<le> tc_deadline cx1"
        "limit_output json_len cx1 r = Inr r"
      using run_handler_success run by blast
    define cx4 where "cx4 = cx1\<lparr>tc_result := Some r, tc_status := E_SUCCEEDED, tc_completed_at := Some completed,
       tc_duration_ms := Some (ms_between started completed)\<rparr>"
    have "cx' = fst (finalize_workspace hash json_len present ws_size t cx4)"
      using assms f q run Inr r(1)
      by (simp add: deterministic_execute_def Let_def cx1_def [symmetric] cx4_def)
    moreover have "path_allowed h t"
      using handler_path_allowed [OF map_of_SomeD [OF f] r(2)] .
    moreover have "limit_output json_len cx r = Inr r" "clk 0 \<le> tc_deadline cx"
      using r(3,4) by (simp_all add: cx1_def limit_output_def)
    ultimately show ?thesis
      using finalize_status [of hash json_len present ws_size t cx4] f q r(2)
      by (auto simp: cx4_def cx1_def)
  qed
qed

definition demo_host :: host where
  "demo_host = \<lparr>h_cwd = ''/'', h_exists = (\<lambda>_. True), h_isdir = (\<lambda>_. False), h_isfile = (\<lambda>_. True),
     h_stat = (\<lambda>_. (3, ''0o100644'', 0)), h_listdir = (\<lambda>_. []), h_chunks = (\<lambda>_. 1),
     h_sha256 = (\<lambda>_. ''abc''), h_git = (\<lambda>_ _. Inr ([], 0))\<rparr>"

definition demo_task_context :: task_context where
  "demo_task_context = \<lparr>tc_execution_id = ''EX-1'', tc_task_id = ''T-1'', tc_account_id = ''acct-1'',
     tc_project_id = ''proj-1'', tc_capability_id = ''filesystem.hash'', tc_workspace_path = ''/ws/EX-1'',
     tc_environment = [], tc_allowed_tools = [], tc_deadline = 100, tc_resource_limits = [],
     tc_network_policy = ''disabled'', tc_write_policy = ''read_only'', tc_status = E_QUEUED, tc_result = None,
     tc_failure_reason = None, tc_error_message = None, tc_started_at = None, tc_completed_at = None,
     tc_duration_ms = None, tc_executor_type = None, tc_executor_id = None, tc_executor_version = None,
     tc_model_id = None, tc_model_version = None, tc_policy_version = None, tc_input_hash = None,
     tc_result_hash = None, tc_evidence_ref = None, tc_routing_class = None, tc_capability_family = None,
     tc_department_id = None, tc_generation = None\<rparr>"

definition demo_hash_task :: "string \<Rightarrow> task" where
  "demo_hash_task p = \<lparr>tk_task_id = ''T-1'', tk_capability_id = ''filesystem.hash'', tk_account_id = ''acct-1'',
     tk_project_id = ''proj-1'', tk_input = [(''path'', JStr p)], tk_constraints = [], tk_deadline = 100,
     tk_workspace_policy = ''keep'', tk_evidence_policy = ''required'', tk_requested_by = ''kira'',
     tk_created_at = 0, tk_department_id = None\<rparr>"

lemma demo_hash_succeeds:
  "enforce_path demo_host (abspath ''/'' p) = Inr () \<Longrightarrow> p \<noteq> [] \<Longrightarrow>
     tc_status (fst (deterministic_execute (\<lambda>_. ''h'') (\<lambda>_. 10) demo_host (\<lambda>_. 5) 1 9 True 10
        (demo_hash_task p) demo_task_context)) = E_SUCCEEDED"
  by (simp add: deterministic_execute_def supported_handlers_def demo_hash_task_def demo_task_context_def
        run_handler_def deadline_check_def do_filesystem_hash_def checked_path_def input_string_def
        demo_host_def limit_output_def finalize_workspace_def Let_def)

lemma demo_path_allowed: "enforce_path demo_host (abspath ''/'' ''/srv/x'') = Inr ()"
  by code_simp

theorem deterministic_execute_outcome_witness:
  "tc_status (fst (deterministic_execute (\<lambda>_. ''h'') (\<lambda>_. 10) demo_host (\<lambda>_. 5) 1 9 True 10
     (demo_hash_task ''/srv/x'') demo_task_context)) = E_SUCCEEDED \<and> path_allowed demo_host (demo_hash_task ''/srv/x'')"
proof -
  obtain cx' files where ex: "deterministic_execute (\<lambda>_. ''h'') (\<lambda>_. 10) demo_host (\<lambda>_. 5) 1 9 True 10
      (demo_hash_task ''/srv/x'') demo_task_context = (cx', files)"
    by (metis prod.exhaust)
  then have "tc_status cx' = E_SUCCEEDED"
    using demo_hash_succeeds [OF demo_path_allowed] by simp
  then show ?thesis using deterministic_execute_outcome [OF ex] ex by simp
qed

text \<open>
  The forbidden directories are compared as normalized strings, and normalization keeps two
  leading slashes, which name the same directory on the host: the root user's files are read
  through \<open>//root/...\<close>.
\<close>

lemma forbidden_path_bypass:
  "tc_status (fst (deterministic_execute (\<lambda>_. ''h'') (\<lambda>_. 10) demo_host (\<lambda>_. 5) 1 9 True 10
     (demo_hash_task ''//root/.ssh/id_rsa'') demo_task_context)) = E_SUCCEEDED"
proof -
  have "enforce_path demo_host (abspath ''/'' ''//root/.ssh/id_rsa'') = Inr ()" by code_simp
  then show ?thesis by (rule demo_hash_succeeds) simp
qed

text \<open>
  The record of the execution is written before the workspace limit is applied: an execution
  that ends LIMIT\_EXCEEDED leaves a result file that says SUCCEEDED.
\<close>

lemma evidence_contradicts_status:
  assumes "tc_status cx = E_SUCCEEDED" and "map_of (tc_resource_limits cx) ''max_workspace_size'' = Some m" and "m < ws_size"
  shows "tc_status (fst (finalize_workspace hash json_len True ws_size t cx)) = E_LIMIT_EXCEEDED \<and>
         (\<exists>path kvs. (path, JObj ((''status'', JStr ''SUCCEEDED'') # kvs))
            \<in> set (snd (finalize_workspace hash json_len True ws_size t cx)))"
  using assms by (auto simp: finalize_workspace_def result_json_def Let_def)

end
