(* ===== verification/McpGateway.thy ===== *)
theory McpGateway
  imports Capabilities Paths
begin

text \<open>
  The governed tool router (runtime/mcp): tool and policy registry, tool implementations and
  the gateway's pipeline. The GitHub client, the fabric client and the file system the tools
  talk to are arguments, gathered in the record \<open>tool_world\<close>, which may change the
  state \<open>'w\<close> outside; clock readings, the hash of a JSON value and the length of its
  rendering are arguments of \<open>gateway_invoke\<close>.
\<close>

section \<open>Domain model\<close>

datatype tool_state = T_REGISTERED | T_AVAILABLE | T_DISABLED | T_ERROR

datatype invocation_status =
  I_PENDING | I_AUTHORIZED | I_EXECUTING | I_SUCCEEDED | I_FAILED | I_DENIED | I_TIMED_OUT

primrec invocation_value :: "invocation_status \<Rightarrow> string" where
  "invocation_value I_PENDING = ''PENDING''"
| "invocation_value I_AUTHORIZED = ''AUTHORIZED''"
| "invocation_value I_EXECUTING = ''EXECUTING''"
| "invocation_value I_SUCCEEDED = ''SUCCEEDED''"
| "invocation_value I_FAILED = ''FAILED''"
| "invocation_value I_DENIED = ''DENIED''"
| "invocation_value I_TIMED_OUT = ''TIMED_OUT''"

record tool_definition =
  td_tool_id :: string
  td_required_capability :: string
  td_network_requirement :: string
  td_timeout :: int
  td_state :: tool_state

record tool_policy =
  tp_policy_id :: string
  tp_tool_id :: string
  tp_max_invocations :: int
  tp_max_input_size :: int
  tp_max_output_size :: int
  tp_require_evidence :: bool
  tp_allowed_callers :: "string list"
  tp_network_policy :: string
  tp_filesystem_policy :: string
  tp_audit_level :: string

record tool_request =
  tr_request_id :: string
  tr_tool_id :: string
  tr_capability_id :: string
  tr_worker_id :: string
  tr_execution_id :: string
  tr_input_data :: "(string \<times> json) list"
  tr_requested_at :: instant
  tr_deadline :: instant
  tr_caller_context :: "(string \<times> json) list"

definition request_create ::
  "string \<Rightarrow> instant \<Rightarrow> string \<Rightarrow> string \<Rightarrow> string \<Rightarrow> string \<Rightarrow> (string \<times> json) list \<Rightarrow> instant \<Rightarrow> tool_request" where
  "request_create hex now tool cap worker ex input deadline =
     \<lparr>tr_request_id = ''treq-'' @ hex, tr_tool_id = tool, tr_capability_id = cap, tr_worker_id = worker,
      tr_execution_id = ex, tr_input_data = input, tr_requested_at = now, tr_deadline = deadline,
      tr_caller_context = []\<rparr>"

record tool_result =
  ts_request_id :: string
  ts_tool_id :: string
  ts_status :: invocation_status
  ts_output_data :: "json option"
  ts_error_message :: "string option"
  ts_started_at :: instant
  ts_completed_at :: instant
  ts_duration_ms :: int
  ts_evidence :: "(string \<times> json) list"

definition tool_succeeded :: "tool_result \<Rightarrow> bool" where
  "tool_succeeded r = (ts_status r = I_SUCCEEDED)"

definition evidence_payload :: "tool_result \<Rightarrow> json" where
  "evidence_payload r = JObj
     [(''request_id'', JStr (ts_request_id r)), (''tool_id'', JStr (ts_tool_id r)),
      (''status'', JStr (invocation_value (ts_status r))),
      (''output_data'', case ts_output_data r of None \<Rightarrow> JNull | Some j \<Rightarrow> j)]"

section \<open>ToolRegistry\<close>

text \<open>The descriptive fields of a tool (name, description, schemas, version, tags) are left out.\<close>

record mcp_registry =
  reg_tools :: "(string, tool_definition) dict"
  reg_policies :: "(string, tool_policy) dict"

definition register_tool :: "mcp_registry \<Rightarrow> tool_definition \<Rightarrow> mcp_registry" where
  "register_tool r t = r\<lparr>reg_tools := dict_set (reg_tools r) (td_tool_id t) t\<rparr>"

definition register_policy :: "mcp_registry \<Rightarrow> tool_policy \<Rightarrow> mcp_registry" where
  "register_policy r p = r\<lparr>reg_policies := dict_set (reg_policies r) (tp_tool_id p) p\<rparr>"

definition get_tool :: "mcp_registry \<Rightarrow> string \<Rightarrow> tool_definition option" where
  "get_tool r tid = dict_get (reg_tools r) tid"

definition get_policy :: "mcp_registry \<Rightarrow> string \<Rightarrow> tool_policy option" where
  "get_policy r tid = dict_get (reg_policies r) tid"

definition list_available :: "mcp_registry \<Rightarrow> tool_definition list" where
  "list_available r = filter (\<lambda>t. td_state t = T_AVAILABLE) (dict_values (reg_tools r))"

definition set_tool_state :: "tool_state \<Rightarrow> string \<Rightarrow> mcp_registry \<Rightarrow> mcp_registry" where
  "set_tool_state st tid r =
     (case dict_get (reg_tools r) tid of
        None \<Rightarrow> r
      | Some t \<Rightarrow> r\<lparr>reg_tools := dict_set (reg_tools r) tid (t\<lparr>td_state := st\<rparr>)\<rparr>)"

definition disable_tool :: "string \<Rightarrow> mcp_registry \<Rightarrow> mcp_registry" where
  "disable_tool = set_tool_state T_DISABLED"

definition enable_tool :: "string \<Rightarrow> mcp_registry \<Rightarrow> mcp_registry" where
  "enable_tool = set_tool_state T_AVAILABLE"

definition initial_tools :: "tool_definition list" where
  "initial_tools =
    [\<lparr>td_tool_id = ''filesystem.inspect'', td_required_capability = ''filesystem.inspect'',
      td_network_requirement = ''none'', td_timeout = 30, td_state = T_AVAILABLE\<rparr>,
     \<lparr>td_tool_id = ''repository.read'', td_required_capability = ''repository.inspect'',
      td_network_requirement = ''none'', td_timeout = 30, td_state = T_AVAILABLE\<rparr>,
     \<lparr>td_tool_id = ''repository.search'', td_required_capability = ''repository.search'',
      td_network_requirement = ''none'', td_timeout = 60, td_state = T_AVAILABLE\<rparr>,
     \<lparr>td_tool_id = ''fabric.read'', td_required_capability = ''fabric.read'',
      td_network_requirement = ''local'', td_timeout = 30, td_state = T_AVAILABLE\<rparr>,
     \<lparr>td_tool_id = ''fabric.register'', td_required_capability = ''fabric.register'',
      td_network_requirement = ''local'', td_timeout = 60, td_state = T_AVAILABLE\<rparr>]"

definition initial_policies :: "tool_policy list" where
  "initial_policies =
    [\<lparr>tp_policy_id = ''pol-fs-inspect'', tp_tool_id = ''filesystem.inspect'', tp_max_invocations = 100,
      tp_max_input_size = 4096, tp_max_output_size = 1024 * 1024, tp_require_evidence = True,
      tp_allowed_callers = [''filesystem.inspect'', ''filesystem.list'', ''filesystem.hash''],
      tp_network_policy = ''disabled'', tp_filesystem_policy = ''read_only'', tp_audit_level = ''summary''\<rparr>,
     \<lparr>tp_policy_id = ''pol-repo-read'', tp_tool_id = ''repository.read'', tp_max_invocations = 50,
      tp_max_input_size = 4096, tp_max_output_size = 10 * 1024 * 1024, tp_require_evidence = True,
      tp_allowed_callers = [''repository.inspect'', ''repository.search'', ''repository.diff''],
      tp_network_policy = ''disabled'', tp_filesystem_policy = ''read_only'', tp_audit_level = ''summary''\<rparr>,
     \<lparr>tp_policy_id = ''pol-repo-search'', tp_tool_id = ''repository.search'', tp_max_invocations = 20,
      tp_max_input_size = 4096, tp_max_output_size = 10 * 1024 * 1024, tp_require_evidence = True,
      tp_allowed_callers = [''repository.search''],
      tp_network_policy = ''disabled'', tp_filesystem_policy = ''read_only'', tp_audit_level = ''summary''\<rparr>,
     \<lparr>tp_policy_id = ''pol-fabric-read'', tp_tool_id = ''fabric.read'', tp_max_invocations = 50,
      tp_max_input_size = 4096, tp_max_output_size = 1024 * 1024, tp_require_evidence = True,
      tp_allowed_callers = [''fabric.read'', ''repository.inspect''],
      tp_network_policy = ''local_only'', tp_filesystem_policy = ''none'', tp_audit_level = ''full''\<rparr>,
     \<lparr>tp_policy_id = ''pol-fabric-register'', tp_tool_id = ''fabric.register'', tp_max_invocations = 10,
      tp_max_input_size = 64 * 1024, tp_max_output_size = 1024 * 1024, tp_require_evidence = True,
      tp_allowed_callers = [''fabric.register''],
      tp_network_policy = ''local_only'', tp_filesystem_policy = ''none'', tp_audit_level = ''full''\<rparr>]"

definition mcp_registry_init :: mcp_registry where
  "mcp_registry_init =
     foldl register_policy (foldl register_tool \<lparr>reg_tools = [], reg_policies = []\<rparr> initial_tools) initial_policies"

interpretation mcp_tools: keyed_store get_tool register_tool td_tool_id
  by unfold_locales (simp add: get_tool_def register_tool_def)

interpretation mcp_policies: keyed_store get_policy register_policy tp_tool_id
  by unfold_locales (simp add: get_policy_def register_policy_def)

section \<open>Tool implementations\<close>

text \<open>
  The answers of the outside: file metadata, GitHub contents and code search, fabric
  resources. A missing client is \<open>None\<close>.
\<close>

datatype fabric_answer = Found json | NotFound | Unavailable string

record 'w github_client =
  gh_get_file :: "string \<Rightarrow> string \<Rightarrow> json \<Rightarrow> 'w \<Rightarrow> 'w \<times> string result"
  gh_search_code :: "string \<Rightarrow> json \<Rightarrow> 'w \<Rightarrow> 'w \<times> json list result"

record 'w fabric_client =
  fc_get_resource :: "json \<Rightarrow> 'w \<Rightarrow> 'w \<times> fabric_answer"
  fc_register_resource :: "json \<Rightarrow> json \<Rightarrow> json \<Rightarrow> json \<Rightarrow> json \<Rightarrow> 'w \<Rightarrow> 'w \<times> (string \<times> json) list result"

record 'w tool_world =
  tw_realpath :: "string \<Rightarrow> string"
  tw_stat :: "string \<Rightarrow> 'w \<Rightarrow> (string \<times> json) list option"
  tw_github :: "'w github_client option"
  tw_fabric :: "'w fabric_client option"
  tw_now :: instant

text \<open>A tool reads its input and the context of the call (its JSON entries).\<close>

type_synonym 'w tool_impl =
  "'w tool_world \<Rightarrow> (string \<times> json) list \<Rightarrow> (string \<times> json) list \<Rightarrow> 'w \<Rightarrow> 'w \<times> json result"

definition jget :: "(string \<times> json) list \<Rightarrow> string \<Rightarrow> json \<Rightarrow> json" where
  "jget d k v = (case map_of d k of None \<Rightarrow> v | Some j \<Rightarrow> j)"

definition impl_error :: "string \<Rightarrow> 'a result" where
  "impl_error m = Inl (ToolImplementationError m)"

definition filesystem_inspect :: "'w tool_impl" where
  "filesystem_inspect tw input cx w =
     (w, (case jget input ''path'' JNull of
            JStr path \<Rightarrow>
              if path = [] then impl_error ''Missing required field: path''
              else let resolved = tw_realpath tw path in
                (case jget cx ''workspace_path'' (JStr []) of
                   JStr workspace \<Rightarrow>
                     if workspace \<noteq> [] \<and> \<not> starts_with resolved (tw_realpath tw workspace)
                     then impl_error (''Path '' @ path @ '' is outside workspace boundary'')
                     else (case tw_stat tw resolved w of
                             None \<Rightarrow> Inr (JObj [(''exists'', JBool False), (''path'', JStr path)])
                           | Some st \<Rightarrow> Inr (JObj ([(''exists'', JBool True), (''path'', JStr path),
                                                   (''resolved_path'', JStr resolved)] @ st)))
                 | _ \<Rightarrow> Inl (Exception ''TypeError''))
          | j \<Rightarrow> if truthy j then Inl (Exception ''TypeError'') else impl_error ''Missing required field: path''))"

text \<open>\<open>repo_path.strip("/").split("/")\<close> and its last two parts.\<close>

definition strip_slash :: "string \<Rightarrow> string" where
  "strip_slash s = rev (dropWhile (\<lambda>c. c = CHR ''/'') (rev (dropWhile (\<lambda>c. c = CHR ''/'') s)))"

definition owner_repo :: "json \<Rightarrow> (string \<times> string) option" where
  "owner_repo j =
     (case j of
        JStr s \<Rightarrow> let parts = split_slash (strip_slash s); n = length parts in
                  if n < 2 then None else Some (parts ! (n - 2), parts ! (n - 1))
      | _ \<Rightarrow> None)"

definition repository_read :: "'w tool_impl" where
  "repository_read tw input cx w =
     (case tw_github tw of
        None \<Rightarrow> (w, impl_error ''GitHubClient not provided in context'')
      | Some gh \<Rightarrow>
          let repo_path = jget input ''repo_path'' (JStr []); file_path = jget input ''file_path'' (JStr []) in
          if \<not> truthy file_path \<or> \<not> truthy repo_path
          then (w, impl_error ''Missing required fields: repo_path, file_path'')
          else (case owner_repo repo_path of
                  None \<Rightarrow> (w, impl_error ''Invalid repo_path format. Expected owner/repo'')
                | Some (owner, repo) \<Rightarrow>
                    (case gh_get_file gh owner repo file_path w of
                       (w', Inl e) \<Rightarrow> (w', impl_error (''Failed to read file from GitHub: '' @ str_exn e))
                     | (w', Inr content) \<Rightarrow>
                         (w', Inr (JObj [(''content'', JStr content), (''size'', JInt (int (length content))),
                                         (''path'', file_path), (''encoding'', JStr ''utf-8'')])))))"

definition repository_search :: "'w tool_impl" where
  "repository_search tw input cx w =
     (case tw_github tw of
        None \<Rightarrow> (w, impl_error ''GitHubClient not provided in context'')
      | Some gh \<Rightarrow>
          let repo_path = jget input ''repo_path'' (JStr []); pat = jget input ''pattern'' (JStr []) in
          if \<not> truthy pat \<or> \<not> truthy repo_path
          then (w, impl_error ''Missing required fields: repo_path, pattern'')
          else (case owner_repo repo_path of
                  None \<Rightarrow> (w, impl_error ''Invalid repo_path format. Expected owner/repo'')
                | Some (owner, repo) \<Rightarrow>
                    (case gh_search_code gh (owner @ ''/'' @ repo) pat w of
                       (w', Inl e) \<Rightarrow> (w', impl_error (''Failed to search GitHub: '' @ str_exn e))
                     | (w', Inr matches) \<Rightarrow>
                         (w', Inr (JObj [(''pattern'', pat), (''repo_path'', repo_path),
                                         (''matches'', JList matches),
                                         (''count'', JInt (int (length matches)))])))))"

definition fabric_read :: "'w tool_impl" where
  "fabric_read tw input cx w =
     (case tw_fabric tw of
        None \<Rightarrow> (w, impl_error ''FabricClient not provided in context'')
      | Some fc \<Rightarrow>
          let rid = jget input ''resource_id'' (JStr []) in
          if \<not> truthy rid then (w, impl_error ''Missing required field: resource_id'')
          else let absent = Inr (JObj [(''resource_id'', rid), (''found'', JBool False)]) in
            (case fc_get_resource fc rid w of
               (w', NotFound) \<Rightarrow> (w', absent)
             | (w', Unavailable m) \<Rightarrow> (w', impl_error (''Failed to read fabric resource: '' @ m))
             | (w', Found data) \<Rightarrow>
                 (w', if \<not> truthy data then absent
                      else Inr (JObj [(''resource_id'', rid), (''found'', JBool True), (''resource'', data)]))))"

definition fabric_register :: "'w tool_impl" where
  "fabric_register tw input cx w =
     (case tw_fabric tw of
        None \<Rightarrow> (w, impl_error ''FabricClient not provided in context'')
      | Some fc \<Rightarrow>
          let rid = jget input ''resource_id'' (JStr []); rtype = jget input ''resource_type'' (JStr []) in
          if \<not> truthy rid \<or> \<not> truthy rtype
          then (w, impl_error ''Missing required fields: resource_id, resource_type'')
          else (case jget input ''metadata'' (JObj []) of
                  JObj md \<Rightarrow>
                    (case fc_register_resource fc rid (jget md ''name'' rid) rtype
                            (jget md ''source_revision'' (JStr ''HEAD''))
                            (jget cx ''caller_id'' (JStr ''mcp_gateway'')) w of
                       (w', Inl e) \<Rightarrow> (w', impl_error (''Failed to register fabric resource: '' @ str_exn e))
                     | (w', Inr res) \<Rightarrow>
                         (w', Inr (JObj [(''resource_id'', rid),
                                         (''provenance_id'', jget res ''provenance_id'' (JStr ''unknown'')),
                                         (''state'', JStr ''ACTIVE''), (''registered_at'', JInt (tw_now tw))])))
                | _ \<Rightarrow> (w, impl_error ''Failed to register fabric resource: AttributeError'')))"

definition tool_implementations :: "(string \<times> 'w tool_impl) list" where
  "tool_implementations =
    [(''filesystem.inspect'', filesystem_inspect), (''repository.read'', repository_read),
     (''repository.search'', repository_search), (''fabric.read'', fabric_read),
     (''fabric.register'', fabric_register)]"

section \<open>MCPGateway\<close>

record mcp_gateway =
  gw_tools :: mcp_registry
  gw_capabilities :: capability_registry
  gw_workspace_path :: string
  gw_fabric_data_dir :: string
  gw_counts :: "(string, (string, int) dict) dict"
  gw_audit :: "(string \<times> tool_request \<times> json) list option"

definition gateway_init :: "mcp_registry \<Rightarrow> capability_registry \<Rightarrow> bool \<Rightarrow> string \<Rightarrow> string \<Rightarrow> mcp_gateway" where
  "gateway_init tools caps audited ws fabric_dir =
     \<lparr>gw_tools = tools, gw_capabilities = caps, gw_workspace_path = ws, gw_fabric_data_dir = fabric_dir,
      gw_counts = [], gw_audit = (if audited then Some [] else None)\<rparr>"

definition validate_request :: "tool_request \<Rightarrow> unit result" where
  "validate_request q =
     (if tr_tool_id q = [] then Inl (MCPGatewayError ''Missing tool_id'')
      else if tr_capability_id q = [] then Inl (MCPGatewayError ''Missing capability_id'')
      else if tr_worker_id q = [] then Inl (MCPGatewayError ''Missing worker_id (Phase 6: worker boundary)'')
      else if tr_execution_id q = [] then Inl (MCPGatewayError ''Missing execution_id'')
      else Inr ())"

definition authorize :: "mcp_gateway \<Rightarrow> tool_request \<Rightarrow> unit result" where
  "authorize g q =
     (case get_tool (gw_tools g) (tr_tool_id q) of
        None \<Rightarrow> Inl (ToolNotFoundError (''Tool '' @ tr_tool_id q @ '' not registered''))
      | Some t \<Rightarrow>
          and_then
            (case get_policy (gw_tools g) (tr_tool_id q) of
               Some p \<Rightarrow>
                 if tr_capability_id q \<notin> set (tp_allowed_callers p)
                 then Inl (AuthorizationDeniedError (''Capability '' @ tr_capability_id q
                        @ '' is not authorized to invoke tool '' @ tr_tool_id q))
                 else Inr ()
             | None \<Rightarrow>
                 if tr_capability_id q \<noteq> td_required_capability t
                 then Inl (AuthorizationDeniedError (''Capability '' @ tr_capability_id q
                        @ '' does not match required '' @ td_required_capability t))
                 else Inr ())
            (\<lambda>_. case capability_get (gw_capabilities g) (tr_capability_id q) of
               None \<Rightarrow> Inl (AuthorizationDeniedError (''Capability '' @ tr_capability_id q @ '' not found in registry''))
             | Some c \<Rightarrow>
                 if \<not> cap_enabled c
                 then Inl (AuthorizationDeniedError (''Capability '' @ tr_capability_id q @ '' is disabled''))
                 else Inr ()))"

definition invocation_count :: "mcp_gateway \<Rightarrow> string \<Rightarrow> string \<Rightarrow> int" where
  "invocation_count g ex tool =
     (case dict_get (gw_counts g) ex of
        None \<Rightarrow> 0
      | Some cs \<Rightarrow> (case dict_get cs tool of None \<Rightarrow> 0 | Some n \<Rightarrow> n))"

definition enforce_policy :: "(json \<Rightarrow> int) \<Rightarrow> mcp_gateway \<Rightarrow> tool_request \<Rightarrow> unit result" where
  "enforce_policy json_len g q =
     (case get_policy (gw_tools g) (tr_tool_id q) of
        None \<Rightarrow> Inr ()
      | Some p \<Rightarrow>
          let current = invocation_count g (tr_execution_id q) (tr_tool_id q);
              input_size = json_len (JObj (tr_input_data q))
          in if current \<ge> tp_max_invocations p
             then Inl (PolicyViolationError (''Tool '' @ tr_tool_id q @ '' invocation limit exceeded: ''
                    @ str_int current @ ''/'' @ str_int (tp_max_invocations p)))
             else if input_size > tp_max_input_size p
             then Inl (PolicyViolationError (''Input size '' @ str_int input_size
                    @ '' exceeds policy limit '' @ str_int (tp_max_input_size p)))
             else Inr ())"

definition error_result ::
  "tool_request \<Rightarrow> string \<Rightarrow> invocation_status \<Rightarrow> instant \<Rightarrow> instant \<Rightarrow> tool_result" where
  "error_result q msg st started completed =
     \<lparr>ts_request_id = tr_request_id q, ts_tool_id = tr_tool_id q, ts_status = st, ts_output_data = None,
      ts_error_message = Some msg, ts_started_at = started, ts_completed_at = completed,
      ts_duration_ms = ms_between started completed,
      ts_evidence = [(''error'', JStr msg), (''status'', JStr (invocation_value st))]\<rparr>"

definition emit_audit :: "string \<Rightarrow> tool_request \<Rightarrow> json \<Rightarrow> mcp_gateway \<Rightarrow> mcp_gateway" where
  "emit_audit etype q details g =
     (case gw_audit g of None \<Rightarrow> g | Some es \<Rightarrow> g\<lparr>gw_audit := Some (es @ [(etype, q, details)])\<rparr>)"

definition count_invocation :: "string \<Rightarrow> string \<Rightarrow> mcp_gateway \<Rightarrow> mcp_gateway" where
  "count_invocation ex tool g =
     g\<lparr>gw_counts := dict_set (gw_counts g) ex
        (dict_set (case dict_get (gw_counts g) ex of None \<Rightarrow> [] | Some cs \<Rightarrow> cs) tool
           (invocation_count g ex tool + 1))\<rparr>"

text \<open>\<open>context.update(request.caller_context)\<close>: the caller's entries win.\<close>

definition call_context :: "mcp_gateway \<Rightarrow> tool_request \<Rightarrow> (string \<times> json) list" where
  "call_context g q =
     foldl (\<lambda>d (k, v). dict_set d k v)
       [(''workspace_path'', JStr (gw_workspace_path g)), (''fabric_data_dir'', JStr (gw_fabric_data_dir g)),
        (''max_output_size'', JInt (10 * 1024 * 1024)), (''caller_id'', JStr (tr_capability_id q))]
       (tr_caller_context q)"

definition success_result ::
  "(json \<Rightarrow> string) \<Rightarrow> tool_request \<Rightarrow> json \<Rightarrow> instant \<Rightarrow> instant \<Rightarrow> tool_result" where
  "success_result hash q out started completed =
     (let r = \<lparr>ts_request_id = tr_request_id q, ts_tool_id = tr_tool_id q, ts_status = I_SUCCEEDED,
               ts_output_data = Some out, ts_error_message = None, ts_started_at = started,
               ts_completed_at = completed, ts_duration_ms = ms_between started completed, ts_evidence = []\<rparr>
      in r\<lparr>ts_evidence :=
          [(''request_id'', JStr (tr_request_id q)), (''tool_id'', JStr (tr_tool_id q)),
           (''capability_id'', JStr (tr_capability_id q)), (''worker_id'', JStr (tr_worker_id q)),
           (''execution_id'', JStr (tr_execution_id q)), (''started_at'', JInt started),
           (''completed_at'', JInt completed), (''duration_ms'', JInt (ts_duration_ms r)),
           (''result_hash'', JStr (hash (evidence_payload r))),
           (''input_hash'', JStr (hash (JObj (tr_input_data q))))]\<rparr>)"

text \<open>
  The pipeline. \<open>t0\<close>, \<open>t1\<close> and \<open>t2\<close> are the clock at the start, at the deadline
  check and at the end.
\<close>

definition gateway_execute ::
  "(json \<Rightarrow> string) \<Rightarrow> 'w tool_world \<Rightarrow> instant \<Rightarrow> instant \<Rightarrow> tool_request \<Rightarrow> mcp_gateway \<times> 'w
     \<Rightarrow> (mcp_gateway \<times> 'w) \<times> tool_result" where
  "gateway_execute hash tw t0 t2 q gw =
     (let g = fst gw;
          crash = (\<lambda>e w. ((emit_audit ''TOOL_CRASH'' q (JStr (str_exn e)) g, w),
                        error_result q (''Tool crash: '' @ exn_class e) I_FAILED t0 t2))
      in case map_of tool_implementations (tr_tool_id q) of
           None \<Rightarrow> crash (ToolNotFoundError (''No implementation for tool '' @ tr_tool_id q)) (snd gw)
         | Some impl \<Rightarrow>
             (case impl tw (tr_input_data q) (call_context g q) (snd gw) of
                (w', Inl (ToolImplementationError m)) \<Rightarrow>
                  ((emit_audit ''TOOL_EXECUTION_ERROR'' q (JStr m) g, w'), error_result q m I_FAILED t0 t2)
              | (w', Inl e) \<Rightarrow> crash e w'
              | (w', Inr out) \<Rightarrow>
                  let r = success_result hash q out t0 t2;
                      g' = count_invocation (tr_execution_id q) (tr_tool_id q) g
                  in ((emit_audit ''TOOL_INVOCATION_SUCCESS'' q
                         (JObj [(''duration_ms'', JInt (ts_duration_ms r)),
                                (''result_hash'', jget (ts_evidence r) ''result_hash'' JNull)]) g', w'), r)))"

definition gateway_invoke ::
  "(json \<Rightarrow> string) \<Rightarrow> (json \<Rightarrow> int) \<Rightarrow> 'w tool_world \<Rightarrow> instant \<Rightarrow> instant \<Rightarrow> instant \<Rightarrow> tool_request
     \<Rightarrow> mcp_gateway \<times> 'w \<Rightarrow> (mcp_gateway \<times> 'w) \<times> tool_result" where
  "gateway_invoke hash json_len tw t0 t1 t2 q gw =
     (let g = fst gw; w = snd gw;
          stop = (\<lambda>g msg st. ((g, w), error_result q msg st t0 t2))
      in case validate_request q of
           Inl e \<Rightarrow> stop g (str_exn e) I_FAILED
         | Inr _ \<Rightarrow>
       (case authorize g q of
           Inl (AuthorizationDeniedError m) \<Rightarrow>
             stop (emit_audit ''TOOL_AUTHORIZATION_DENIED'' q (JStr m) g) m I_DENIED
         | Inl e \<Rightarrow> stop g (str_exn e) I_FAILED
         | Inr _ \<Rightarrow>
       (case get_tool (gw_tools g) (tr_tool_id q) of
           None \<Rightarrow> stop g (''Tool '' @ tr_tool_id q @ '' not available'') I_FAILED
         | Some t \<Rightarrow>
             if td_state t \<noteq> T_AVAILABLE then stop g (''Tool '' @ tr_tool_id q @ '' not available'') I_FAILED
             else (case enforce_policy json_len g q of
                Inl e \<Rightarrow> stop (emit_audit ''TOOL_POLICY_VIOLATION'' q (JStr (str_exn e)) g) (str_exn e) I_DENIED
              | Inr _ \<Rightarrow>
                  if t1 > tr_deadline q then stop g ''Deadline exceeded before execution'' I_TIMED_OUT
                  else gateway_execute hash tw t0 t2 q gw))))"

definition gateway_stats :: "mcp_gateway \<Rightarrow> int \<times> int \<times> int \<times> int" where
  "gateway_stats g =
     (int (length (reg_tools (gw_tools g))), int (length (list_available (gw_tools g))),
      sum_list (map (\<lambda>cs. sum_list (dict_values cs)) (dict_values (gw_counts g))),
      int (length (gw_counts g)))"

lemmas gateway_defs [op_defs] =
  gateway_invoke_def gateway_execute_def validate_request_def authorize_def enforce_policy_def

section \<open>When a call is permitted\<close>

definition call_permitted :: "(json \<Rightarrow> int) \<Rightarrow> mcp_gateway \<Rightarrow> instant \<Rightarrow> tool_request \<Rightarrow> bool" where
  "call_permitted json_len g t1 q \<longleftrightarrow>
     tr_worker_id q \<noteq> [] \<and> tr_execution_id q \<noteq> [] \<and> t1 \<le> tr_deadline q \<and>
     (\<exists>t c. get_tool (gw_tools g) (tr_tool_id q) = Some t \<and> td_state t = T_AVAILABLE \<and>
        capability_get (gw_capabilities g) (tr_capability_id q) = Some c \<and> cap_enabled c \<and>
        (case get_policy (gw_tools g) (tr_tool_id q) of
           None \<Rightarrow> tr_capability_id q = td_required_capability t
         | Some p \<Rightarrow> tr_capability_id q \<in> set (tp_allowed_callers p) \<and>
             invocation_count g (tr_execution_id q) (tr_tool_id q) < tp_max_invocations p \<and>
             json_len (JObj (tr_input_data q)) \<le> tp_max_input_size p))"

lemma authorize_Inr:
  "authorize g q = Inr u \<longleftrightarrow>
     (\<exists>t c. get_tool (gw_tools g) (tr_tool_id q) = Some t \<and>
        capability_get (gw_capabilities g) (tr_capability_id q) = Some c \<and> cap_enabled c \<and>
        (case get_policy (gw_tools g) (tr_tool_id q) of
           None \<Rightarrow> tr_capability_id q = td_required_capability t
         | Some p \<Rightarrow> tr_capability_id q \<in> set (tp_allowed_callers p)))"
  by (auto simp: authorize_def split: option.splits if_splits)

lemma enforce_policy_Inr:
  "enforce_policy json_len g q = Inr u \<longleftrightarrow>
     (\<forall>p. get_policy (gw_tools g) (tr_tool_id q) = Some p \<longrightarrow>
        invocation_count g (tr_execution_id q) (tr_tool_id q) < tp_max_invocations p \<and>
        json_len (JObj (tr_input_data q)) \<le> tp_max_input_size p)"
  by (auto simp: enforce_policy_def Let_def split: option.splits)

lemma emit_audit_frame [simp]:
  "gw_counts (emit_audit e q d g) = gw_counts g" "gw_tools (emit_audit e q d g) = gw_tools g"
  "gw_capabilities (emit_audit e q d g) = gw_capabilities g"
  "invocation_count (emit_audit e q d g) = invocation_count g"
  by (auto simp: emit_audit_def invocation_count_def fun_eq_iff split: option.splits)

text \<open>A refused call: nothing outside happened and nothing was counted.\<close>

definition refused :: "mcp_gateway \<times> 'w \<Rightarrow> mcp_gateway \<times> 'w \<Rightarrow> tool_result \<Rightarrow> bool" where
  "refused gw gw' r \<longleftrightarrow>
     snd gw' = snd gw \<and> gw_counts (fst gw') = gw_counts (fst gw) \<and> gw_tools (fst gw') = gw_tools (fst gw) \<and>
     gw_capabilities (fst gw') = gw_capabilities (fst gw) \<and>
     ts_status r \<in> {I_FAILED, I_DENIED, I_TIMED_OUT} \<and> ts_output_data r = None"

lemma refused_error [simp]:
  "refused (g, w) (g', w') (error_result q m st t0 t2) \<longleftrightarrow>
     w' = w \<and> gw_counts g' = gw_counts g \<and> gw_tools g' = gw_tools g \<and>
     gw_capabilities g' = gw_capabilities g \<and> st \<in> {I_FAILED, I_DENIED, I_TIMED_OUT}"
  by (auto simp: refused_def error_result_def)

lemma gateway_invoke_permitted:
  assumes "call_permitted json_len g t1 q" "tr_tool_id q \<noteq> []" "tr_capability_id q \<noteq> []"
  shows "gateway_invoke hash json_len tw t0 t1 t2 q (g, w) = gateway_execute hash tw t0 t2 q (g, w)"
proof -
  obtain t where t: "get_tool (gw_tools g) (tr_tool_id q) = Some t" "td_state t = T_AVAILABLE"
    using assms(1) by (auto simp: call_permitted_def)
  have "validate_request q = Inr ()" "authorize g q = Inr ()" "enforce_policy json_len g q = Inr ()"
    using assms by (auto simp: validate_request_def call_permitted_def authorize_Inr enforce_policy_Inr
        split: option.splits)
  then show ?thesis
    using t assms(1) by (simp add: gateway_invoke_def Let_def call_permitted_def)
qed

lemma gateway_invoke_refused:
  assumes "\<not> (call_permitted json_len g t1 q \<and> tr_tool_id q \<noteq> [] \<and> tr_capability_id q \<noteq> [])"
    and "gateway_invoke hash json_len tw t0 t1 t2 q (g, w) = (gw', r)"
  shows "refused (g, w) gw' r"
proof (cases "validate_request q")
  case (Inl e)
  then show ?thesis using assms(2) by (auto simp: gateway_invoke_def Let_def)
next
  case valid: (Inr u)
  then have fields: "tr_tool_id q \<noteq> []" "tr_capability_id q \<noteq> []" "tr_worker_id q \<noteq> []" "tr_execution_id q \<noteq> []"
    by (auto simp: validate_request_def split: if_splits)
  show ?thesis
  proof (cases "authorize g q")
    case (Inl e)
    then show ?thesis using assms(2) valid by (cases e) (auto simp: gateway_invoke_def Let_def)
  next
    case auth: (Inr u')
    then obtain t where t: "get_tool (gw_tools g) (tr_tool_id q) = Some t" by (auto simp: authorize_Inr)
    show ?thesis
    proof (cases "enforce_policy json_len g q")
      case (Inl e)
      then show ?thesis using assms(2) valid auth t by (auto simp: gateway_invoke_def Let_def split: if_splits)
    next
      case pol: (Inr u'')
      then have "td_state t \<noteq> T_AVAILABLE \<or> t1 > tr_deadline q"
        using assms(1) auth t fields
        by (auto simp: call_permitted_def authorize_Inr enforce_policy_Inr split: option.splits)
      then show ?thesis using assms(2) valid auth t pol
        by (auto simp: gateway_invoke_def Let_def split: if_splits)
    qed
  qed
qed

lemma invocation_count_count:
  "invocation_count (count_invocation ex tool g) ex' tool' =
     invocation_count g ex' tool' + (if ex' = ex \<and> tool' = tool then 1 else 0)"
  by (auto simp: invocation_count_def count_invocation_def split: option.splits)

lemma count_invocation_frame [simp]:
  "gw_tools (count_invocation ex tool g) = gw_tools g"
  "gw_capabilities (count_invocation ex tool g) = gw_capabilities g"
  by (simp_all add: count_invocation_def)

lemma gateway_execute_raises:
  assumes "map_of tool_implementations (tr_tool_id q) = Some impl"
    and "impl tw (tr_input_data q) (call_context g q) w = (w1, Inl e)"
  shows "\<exists>etype d m. gateway_execute hash tw t0 t2 q (g, w) =
           ((emit_audit etype q d g, w1), error_result q m I_FAILED t0 t2)"
proof (cases "\<exists>m. e = ToolImplementationError m")
  case True
  then obtain m where "e = ToolImplementationError m" by blast
  then have "gateway_execute hash tw t0 t2 q (g, w) =
      ((emit_audit ''TOOL_EXECUTION_ERROR'' q (JStr m) g, w1), error_result q m I_FAILED t0 t2)"
    using assms by (simp add: gateway_execute_def)
  then show ?thesis by blast
next
  case False
  then have "gateway_execute hash tw t0 t2 q (g, w) =
      ((emit_audit ''TOOL_CRASH'' q (JStr (str_exn e)) g, w1),
       error_result q (''Tool crash: '' @ exn_class e) I_FAILED t0 t2)"
    using assms by (simp add: gateway_execute_def Let_def split: exn.split)
  then show ?thesis by blast
qed

lemma gateway_execute_cases:
  obtains (raised) etype d m w1 where "gateway_execute hash tw t0 t2 q (g, w) =
      ((emit_audit etype q d g, w1), error_result q m I_FAILED t0 t2)"
    | (returned) out d w1 where "gateway_execute hash tw t0 t2 q (g, w) =
      ((emit_audit ''TOOL_INVOCATION_SUCCESS'' q d (count_invocation (tr_execution_id q) (tr_tool_id q) g), w1),
       success_result hash q out t0 t2)"
proof (cases "map_of tool_implementations (tr_tool_id q) :: 'a tool_impl option")
  case None
  then show ?thesis using raised by (simp add: gateway_execute_def)
next
  case (Some impl)
  obtain w1 out where run: "impl tw (tr_input_data q) (call_context g q) w = (w1, out)"
    by (cases "impl tw (tr_input_data q) (call_context g q) w")
  show ?thesis
  proof (cases out)
    case (Inl e)
    then show ?thesis using gateway_execute_raises [OF Some] run raised by blast
  next
    case (Inr j)
    then show ?thesis using returned Some run by (simp add: gateway_execute_def Let_def)
  qed
qed

lemma gateway_execute_effect:
  assumes "gateway_execute hash tw t0 t2 q (g, w) = ((g', w'), r)"
  shows "gw_tools g' = gw_tools g \<and> gw_capabilities g' = gw_capabilities g \<and>
     ts_request_id r = tr_request_id q \<and> ts_tool_id r = tr_tool_id q \<and>
     invocation_count g' ex tool = invocation_count g ex tool +
       (if ts_status r = I_SUCCEEDED \<and> ex = tr_execution_id q \<and> tool = tr_tool_id q then 1 else 0)"
  by (rule gateway_execute_cases [of hash tw t0 t2 q g w])
     (use assms in \<open>auto simp: error_result_def success_result_def invocation_count_count Let_def\<close>)

lemma gateway_invoke_effect:
  assumes "gateway_invoke hash json_len tw t0 t1 t2 q (g, w) = ((g', w'), r)"
  shows "gw_tools g' = gw_tools g \<and>
     invocation_count g' ex tool = invocation_count g ex tool +
       (if ts_status r = I_SUCCEEDED \<and> ex = tr_execution_id q \<and> tool = tr_tool_id q then 1 else 0) \<and>
     (ts_status r = I_SUCCEEDED \<longrightarrow> call_permitted json_len g t1 q)"
proof (cases "call_permitted json_len g t1 q \<and> tr_tool_id q \<noteq> [] \<and> tr_capability_id q \<noteq> []")
  case True
  then have "gateway_execute hash tw t0 t2 q (g, w) = ((g', w'), r)"
    using assms gateway_invoke_permitted [of json_len g t1 q hash tw t0 t2 w] by simp
  from gateway_execute_effect [OF this, of ex tool] show ?thesis using True by simp
next
  case False
  then have "refused (g, w) (g', w') r"
    using assms by (rule gateway_invoke_refused)
  then show ?thesis by (auto simp: refused_def invocation_count_def)
qed

section \<open>Runs of the gateway\<close>

text \<open>A run: one request after the other, each with its clock readings and its outside world.\<close>

fun gateway_run ::
  "(json \<Rightarrow> string) \<Rightarrow> (json \<Rightarrow> int) \<Rightarrow> ('w tool_world \<times> instant \<times> instant \<times> instant \<times> tool_request) list
     \<Rightarrow> mcp_gateway \<times> 'w \<Rightarrow> (mcp_gateway \<times> 'w) \<times> (tool_request \<times> tool_result) list" where
  "gateway_run hash json_len [] gw = (gw, [])"
| "gateway_run hash json_len ((tw, t0, t1, t2, q) # calls) gw =
     (let (gw', r) = gateway_invoke hash json_len tw t0 t1 t2 q gw;
          (gw'', rs) = gateway_run hash json_len calls gw'
      in (gw'', (q, r) # rs))"

definition successes :: "string \<Rightarrow> string \<Rightarrow> (tool_request \<times> tool_result) list \<Rightarrow> int" where
  "successes ex tool rs =
     int (length (filter (\<lambda>(q, r). tr_execution_id q = ex \<and> tr_tool_id q = tool \<and> tool_succeeded r) rs))"

lemma successes_Cons:
  "successes ex tool ((q, r) # rs) = successes ex tool rs +
     (if tr_execution_id q = ex \<and> tr_tool_id q = tool \<and> ts_status r = I_SUCCEEDED then 1 else 0)"
  by (simp add: successes_def tool_succeeded_def)

lemma gateway_run_counts:
  assumes "gateway_run hash json_len calls (g, w) = (gw', rs)"
    and "get_policy (gw_tools g) tool = Some p" and "invocation_count g ex tool \<le> max 0 (tp_max_invocations p)"
  shows "invocation_count g ex tool + successes ex tool rs \<le> max 0 (tp_max_invocations p)"
  using assms
proof (induction calls arbitrary: g w rs)
  case Nil
  then show ?case by (simp add: successes_def)
next
  case (Cons call calls)
  obtain tw t0 t1 t2 q where call: "call = (tw, t0, t1, t2, q)" by (cases call)
  obtain g1 w1 r where inv: "gateway_invoke hash json_len tw t0 t1 t2 q (g, w) = ((g1, w1), r)"
    by (metis prod.collapse)
  obtain gw2 rs2 where run: "gateway_run hash json_len calls (g1, w1) = (gw2, rs2)"
    by (metis prod.collapse)
  have rs: "rs = (q, r) # rs2" and gw: "gw2 = gw'"
    using Cons.prems(1) by (simp_all add: call inv run)
  note eff = gateway_invoke_effect [OF inv, of ex tool]
  have one: "invocation_count g1 ex tool \<le> max 0 (tp_max_invocations p)"
    using eff Cons.prems(2,3) by (auto simp: call_permitted_def split: option.splits)
  have "invocation_count g1 ex tool + successes ex tool rs2 \<le> max 0 (tp_max_invocations p)"
    using Cons.IH [OF run [unfolded gw] _ one] eff Cons.prems(2) by simp
  then show ?case using eff by (auto simp: rs successes_Cons)
qed

section \<open>Properties\<close>

text \<open>
  C1. Every tool call is mediated: when the gateway changes anything outside, counts an
  invocation or reports success, the request named a worker and an execution, the tool is
  registered and available, the calling capability is enabled and allowed by the tool's
  policy (or is the required one when there is no policy), the budget and the input size are
  within the policy, and the deadline had not passed.
\<close>

theorem gateway_mediated:
  assumes "gateway_invoke hash json_len tw t0 t1 t2 q (g, w) = ((g', w'), r)"
    and "w' \<noteq> w \<or> gw_counts g' \<noteq> gw_counts g \<or> tool_succeeded r"
  shows "call_permitted json_len g t1 q"
proof (rule ccontr)
  assume "\<not> call_permitted json_len g t1 q"
  then have "\<not> (call_permitted json_len g t1 q \<and> tr_tool_id q \<noteq> [] \<and> tr_capability_id q \<noteq> [])"
    by blast
  then have "refused (g, w) (g', w') r"
    using assms(1) by (rule gateway_invoke_refused)
  then show False using assms(2) by (auto simp: refused_def tool_succeeded_def)
qed

definition demo_gateway :: mcp_gateway where
  "demo_gateway = gateway_init mcp_registry_init capability_init True ''/ws'' ''/d''"

definition demo_world :: "nat tool_world" where
  "demo_world = \<lparr>tw_realpath = id, tw_stat = (\<lambda>_ _. None),
     tw_github = None,
     tw_fabric = Some \<lparr>fc_get_resource = (\<lambda>_ w. (w, Found (JStr ''res''))),
                       fc_register_resource = (\<lambda>_ _ _ _ _ w. (w + 1, Inr []))\<rparr>,
     tw_now = 0\<rparr>"

definition demo_request :: "string \<Rightarrow> string \<Rightarrow> tool_request" where
  "demo_request tool cap = request_create ''1'' 0 tool cap ''wrk-1'' ''EX-1'' [(''resource_id'', JStr ''r1'')] 100"

lemma demo_call:
  "tool_succeeded (snd (gateway_invoke (\<lambda>_. ''h'') (\<lambda>_. 10) demo_world 0 1 2
      (demo_request ''fabric.read'' ''fabric.read'') (demo_gateway, 0)))"
  by (simp add: gateway_defs demo_world_def demo_request_def demo_gateway_def
        gateway_init_def mcp_registry_init_def initial_tools_def initial_policies_def register_tool_def
        register_policy_def get_tool_def get_policy_def capability_init_def capability_register_def
        initial_rows_def capability_get_def request_create_def tool_implementations_def fabric_read_def
        invocation_count_def jget_def tool_succeeded_def success_result_def Let_def)

theorem gateway_mediated_witness:
  "call_permitted (\<lambda>_. 10) demo_gateway 1 (demo_request ''fabric.read'' ''fabric.read'')"
proof -
  obtain g' w' r where inv: "gateway_invoke (\<lambda>_. ''h'') (\<lambda>_. 10) demo_world 0 1 2
      (demo_request ''fabric.read'' ''fabric.read'') (demo_gateway, 0) = ((g', w'), r)"
    by (metis prod.collapse)
  then have "tool_succeeded r" using demo_call by simp
  then show ?thesis using gateway_mediated [OF inv] by blast
qed

text \<open>
  C32. Budgets hold over every run: starting from a gateway that has counted nothing, the calls
  of one execution to one tool that succeed never exceed the tool's
  \<open>max_invocations_per_execution\<close>, whatever else is called in between.
\<close>

theorem gateway_budget:
  assumes "gw_counts g = []" and "get_policy (gw_tools g) tool = Some p"
    and "gateway_run hash json_len calls (g, w) = (gw', rs)"
  shows "successes ex tool rs \<le> max 0 (tp_max_invocations p)"
  using gateway_run_counts [OF assms(3,2), of ex] assms(1) by (simp add: invocation_count_def)

theorem gateway_budget_witness:
  "\<exists>p gw' rs. get_policy (gw_tools demo_gateway) ''fabric.read'' = Some p \<and>
     gateway_run (\<lambda>_. ''h'') (\<lambda>_. 10)
       [(demo_world, 0, 1, 2, demo_request ''fabric.read'' ''fabric.read'')] (demo_gateway, 0) = (gw', rs) \<and>
     successes ''EX-1'' ''fabric.read'' rs \<le> max 0 (tp_max_invocations p)"
proof -
  obtain p where p: "get_policy (gw_tools demo_gateway) ''fabric.read'' = Some p"
    by (auto simp: demo_gateway_def gateway_init_def mcp_registry_init_def initial_policies_def
        initial_tools_def register_tool_def register_policy_def get_policy_def)
  have c: "gw_counts demo_gateway = []" by (simp add: demo_gateway_def gateway_init_def)
  obtain gw' rs where run: "gateway_run (\<lambda>_. ''h'') (\<lambda>_. 10)
      [(demo_world, 0, 1, 2, demo_request ''fabric.read'' ''fabric.read'')] (demo_gateway, 0) = (gw', rs)"
    by (metis prod.collapse)
  show ?thesis using gateway_budget [OF c p run] p run by blast
qed

end
