(* ===== verification/ModelRegistry.thy ===== *)
theory ModelRegistry
  imports Capabilities Paths
begin

text \<open>
  The model registry (runtime/execution/registry.py): models, bindings and performance
  profiles with their durable file, the recovery marker that blocks a corrupted registry and
  the restoration from an externally authorized attestation. SHA-256, the clock and the
  authority's verifier are arguments of the operations that use them.
\<close>

section \<open>Data\<close>

datatype model_state =
    M_REGISTERED | M_AVAILABLE | M_UNAVAILABLE | M_INSTALL_REQUIRED | M_DISABLED | M_DEPRECATED
  | M_QUARANTINED

record model_definition =
  md_model_id :: string
  md_display_name :: string
  md_provider :: string
  md_executor_type :: string
  md_version :: string
  md_status :: model_state
  md_capabilities_supported :: "string list"
  md_capabilities_forbidden :: "string list"
  md_hardware_requirements :: "(string \<times> json) list"
  md_memory_requirements :: "(string \<times> json) list"
  md_context_window :: int
  md_quantization :: string
  md_artifact_uri :: string
  md_artifact_sha256 :: string
  md_runtime_interface :: string
  md_max_concurrency :: int
  md_max_runtime :: int
  md_max_input_size :: int
  md_max_output_size :: int
  md_network_policy :: string
  md_evidence_policy :: string

record model_binding =
  mb_model_id :: string
  mb_capability_id :: string
  mb_authorization :: string
  mb_quality_profile :: string
  mb_risk_limit :: string
  mb_preferred :: bool
  mb_fallback :: bool
  mb_reason :: string

record hardware_profile =
  hw_cpu :: string
  hw_cores :: json
  hw_ram :: json
  hw_gpu_present :: json
  hw_gpu_vendor :: string
  hw_gpu_memory :: json
  hw_storage_available :: json
  hw_os :: string
  hw_python_version :: string

record performance_profile =
  pp_model_id :: string
  pp_capability_id :: string
  pp_executions :: int
  pp_successes :: int
  pp_failures :: int
  pp_timeouts :: int
  pp_average_latency :: rat
  pp_p95_latency :: rat
  pp_average_output_size :: rat
  pp_evaluation_score :: rat
  pp_last_evaluated_at :: "instant option"

definition unknown_hardware :: hardware_profile where
  "unknown_hardware =
     \<lparr>hw_cpu = ''UNKNOWN'', hw_cores = JStr ''UNKNOWN'', hw_ram = JStr ''UNKNOWN'',
      hw_gpu_present = JStr ''UNKNOWN'', hw_gpu_vendor = ''UNKNOWN'', hw_gpu_memory = JStr ''UNKNOWN'',
      hw_storage_available = JStr ''UNKNOWN'', hw_os = ''UNKNOWN'', hw_python_version = ''UNKNOWN''\<rparr>"

definition fresh_performance :: "string \<Rightarrow> performance_profile" where
  "fresh_performance mid =
     \<lparr>pp_model_id = mid, pp_capability_id = ''*'', pp_executions = 0, pp_successes = 0, pp_failures = 0,
      pp_timeouts = 0, pp_average_latency = 0, pp_p95_latency = 0, pp_average_output_size = 0,
      pp_evaluation_score = 0, pp_last_evaluated_at = None\<rparr>"

section \<open>Registry and disk\<close>

text \<open>
  What a registry file holds: the document \<open>_build_data\<close> produces, or bytes that JSON or
  one of the constructors refuses (with the text of the exception).
\<close>

record registry_document =
  rd_version :: string
  rd_models :: "model_definition list"
  rd_bindings :: "model_binding list"
  rd_hardware :: "hardware_profile option"
  rd_performance :: "(string, performance_profile) dict"

datatype registry_content = Readable registry_document | Unreadable string

record recovery_marker =
  mk_state :: string
  mk_original_registry_path :: string
  mk_quarantine_path :: string
  mk_original_sha256 :: string
  mk_recovery_timestamp :: instant
  mk_recovery_reason :: string

record recovery_record =
  rr_state :: string
  rr_recovery_id :: string
  rr_source_registry_hash :: string
  rr_quarantine_reference :: string
  rr_authority_ref :: string
  rr_authority_decision :: string
  rr_source_evidence_ids :: "string list"
  rr_verification_evidence_ids :: "string list"
  rr_reconstructed_digest :: string
  rr_recovery_timestamp :: string

text \<open>
  The files of one storage path: the registry, \<open><path>.recovery.json\<close>, the
  \<open><path>.quarantine.*\<close> files by absolute path and the recovery records by recovery id.
\<close>

record registry_disk =
  dk_registry :: "registry_content option"
  dk_marker :: "recovery_marker option"
  dk_quarantine :: "(string, registry_content) dict"
  dk_records :: "(string, recovery_record) dict"

record model_registry =
  mr_storage_path :: "string option"
  mr_models :: "(string, model_definition) dict"
  mr_bindings :: "model_binding list"
  mr_hardware :: hardware_profile
  mr_performance :: "(string, performance_profile) dict"

definition registry_blank :: "string option \<Rightarrow> model_registry" where
  "registry_blank path =
     \<lparr>mr_storage_path = path, mr_models = [], mr_bindings = [], mr_hardware = unknown_hardware,
      mr_performance = []\<rparr>"

type_synonym registry_state = "model_registry \<times> registry_disk"

definition build_data :: "model_registry \<Rightarrow> registry_document" where
  "build_data r =
     \<lparr>rd_version = ''1.0'', rd_models = dict_values (mr_models r), rd_bindings = mr_bindings r,
      rd_hardware = Some (mr_hardware r), rd_performance = mr_performance r\<rparr>"

text \<open>\<open>os.replace\<close> makes the write atomic. An empty path counts as none.\<close>

definition save_to_disk :: "registry_state \<Rightarrow> registry_state" where
  "save_to_disk s =
     (if truthy_str (mr_storage_path (fst s))
      then (fst s, (snd s)\<lparr>dk_registry := Some (Readable (build_data (fst s)))\<rparr>) else s)"

definition put_model :: "(string, model_definition) dict \<Rightarrow> model_definition \<Rightarrow> (string, model_definition) dict" where
  "put_model d m = dict_set d (md_model_id m) m"

definition load_data :: "registry_content \<Rightarrow> model_registry \<Rightarrow> model_registry result" where
  "load_data c r =
     (case c of
        Unreadable msg \<Rightarrow> Inl (ValueError msg)
      | Readable d \<Rightarrow>
          if rd_version d \<noteq> ''1.0'' then Inl (ValueError ''Unsupported registry schema version'')
          else Inr (r\<lparr>mr_models := foldl put_model [] (rd_models d),
                      mr_bindings := rd_bindings d,
                      mr_hardware := (case rd_hardware d of None \<Rightarrow> mr_hardware r | Some h \<Rightarrow> h),
                      mr_performance := foldl (\<lambda>p (k, v). dict_set p k v) [] (rd_performance d)\<rparr>))"

section \<open>Operations\<close>

definition register_model :: "model_definition \<Rightarrow> registry_state \<Rightarrow> registry_state result" where
  "register_model m s =
     (let r = fst s in
      if dict_get (mr_models r) (md_model_id m) \<noteq> None
      then Inl (ValueError (''Model '' @ md_model_id m @ '' is already registered''))
      else Inr (save_to_disk
             (r\<lparr>mr_models := put_model (mr_models r) m,
                mr_performance := dict_set (mr_performance r) (md_model_id m) (fresh_performance (md_model_id m))\<rparr>,
              snd s)))"

definition unregister_model :: "string \<Rightarrow> registry_state \<Rightarrow> registry_state" where
  "unregister_model mid s =
     (let r = fst s in
      if dict_get (mr_models r) mid \<noteq> None
      then save_to_disk (r\<lparr>mr_models := dict_del (mr_models r) mid,
                           mr_performance := dict_del (mr_performance r) mid\<rparr>, snd s)
      else s)"

definition set_availability :: "string \<Rightarrow> bool \<Rightarrow> registry_state \<Rightarrow> registry_state" where
  "set_availability mid available s =
     (let r = fst s in
      case dict_get (mr_models r) mid of
        None \<Rightarrow> s
      | Some m \<Rightarrow>
          save_to_disk (r\<lparr>mr_models := dict_set (mr_models r) mid
             (m\<lparr>md_status := (if available then M_AVAILABLE else M_UNAVAILABLE)\<rparr>)\<rparr>, snd s))"

definition add_binding :: "model_binding \<Rightarrow> registry_state \<Rightarrow> registry_state" where
  "add_binding b s = save_to_disk ((fst s)\<lparr>mr_bindings := mr_bindings (fst s) @ [b]\<rparr>, snd s)"

definition update_hardware_profile :: "hardware_profile \<Rightarrow> registry_state \<Rightarrow> registry_state" where
  "update_hardware_profile h s = save_to_disk ((fst s)\<lparr>mr_hardware := h\<rparr>, snd s)"

definition get_model :: "model_registry \<Rightarrow> string \<Rightarrow> model_definition option" where
  "get_model r mid = dict_get (mr_models r) mid"

definition is_available :: "model_registry \<Rightarrow> string \<Rightarrow> bool" where
  "is_available r mid =
     (case get_model r mid of
        None \<Rightarrow> False
      | Some m \<Rightarrow> if md_status m \<noteq> M_AVAILABLE then False
                  else if md_artifact_uri m = [] then False
                  else if md_runtime_interface m = [] then False
                  else True)"

definition bindings_for :: "model_registry \<Rightarrow> string \<Rightarrow> model_binding list" where
  "bindings_for r cid = filter (\<lambda>b. mb_capability_id b = cid) (mr_bindings r)"

section \<open>First bootstrap\<close>

definition qwen_model :: model_definition where
  "qwen_model =
     \<lparr>md_model_id = ''qwen3-8b'', md_display_name = ''Qwen3 8B Local'', md_provider = ''local'',
      md_executor_type = ''LOCAL_MODEL'', md_version = ''3.0'', md_status = M_INSTALL_REQUIRED,
      md_capabilities_supported = [''document.classify'', ''code.generation'', ''text.summarize''],
      md_capabilities_forbidden = [''architecture.analysis'', ''system.mutate''],
      md_hardware_requirements = [(''memory'', JStr ''REQUIREMENT_PROFILE''), (''gpu'', JStr ''REQUIREMENT_PROFILE'')],
      md_memory_requirements = [(''min_ram'', JStr ''16GB'')], md_context_window = 32000,
      md_quantization = ''int8'', md_artifact_uri = ''local://models/qwen3-8b'',
      md_artifact_sha256 = ''dummy_hash_for_now'', md_runtime_interface = ''llama.cpp'',
      md_max_concurrency = 1, md_max_runtime = 300, md_max_input_size = 20000, md_max_output_size = 4000,
      md_network_policy = ''none'', md_evidence_policy = ''required''\<rparr>"

definition luna_model :: model_definition where
  "luna_model =
     \<lparr>md_model_id = ''luna'', md_display_name = ''Luna Remote'', md_provider = ''remote'',
      md_executor_type = ''REMOTE_MODEL'', md_version = ''1.0'', md_status = M_AVAILABLE,
      md_capabilities_supported = [''architecture.analysis'', ''system.mutate'', ''repository.diff''],
      md_capabilities_forbidden = [], md_hardware_requirements = [], md_memory_requirements = [],
      md_context_window = 128000, md_quantization = ''fp16'', md_artifact_uri = ''remote://luna-api'',
      md_artifact_sha256 = [], md_runtime_interface = ''rest'', md_max_concurrency = 10,
      md_max_runtime = 600, md_max_input_size = 100000, md_max_output_size = 10000,
      md_network_policy = ''egress_only'', md_evidence_policy = ''required''\<rparr>"

definition initial_bindings :: "model_binding list" where
  "initial_bindings =
    [\<lparr>mb_model_id = ''qwen3-8b'', mb_capability_id = ''document.classify'', mb_authorization = ''allowed'',
      mb_quality_profile = ''standard'', mb_risk_limit = ''low'', mb_preferred = False, mb_fallback = True,
      mb_reason = ''Local processing preferred for privacy''\<rparr>,
     \<lparr>mb_model_id = ''qwen3-8b'', mb_capability_id = ''architecture.analysis'', mb_authorization = ''forbidden'',
      mb_quality_profile = ''none'', mb_risk_limit = ''none'', mb_preferred = False, mb_fallback = False,
      mb_reason = ''Insufficient reasoning capacity''\<rparr>,
     \<lparr>mb_model_id = ''luna'', mb_capability_id = ''architecture.analysis'', mb_authorization = ''allowed'',
      mb_quality_profile = ''high'', mb_risk_limit = ''high'', mb_preferred = True, mb_fallback = False,
      mb_reason = ''Advanced reasoning model''\<rparr>,
     \<lparr>mb_model_id = ''deterministic'', mb_capability_id = ''repository.diff'', mb_authorization = ''allowed'',
      mb_quality_profile = ''perfect'', mb_risk_limit = ''low'', mb_preferred = True, mb_fallback = True,
      mb_reason = ''Model not required''\<rparr>]"

definition register_initial_models :: "registry_state \<Rightarrow> registry_state result" where
  "register_initial_models s = and_then (register_model qwen_model s) (register_model luna_model)"

definition register_initial_bindings :: "registry_state \<Rightarrow> registry_state" where
  "register_initial_bindings s = foldl (\<lambda>s b. add_binding b s) s initial_bindings"

definition bootstrap_registry :: "registry_state \<Rightarrow> registry_state result" where
  "bootstrap_registry s =
     and_then (register_initial_models s) (\<lambda>s'. Inr (save_to_disk (register_initial_bindings s')))"

section \<open>Opening: fail-closed on corruption\<close>

definition marker_path :: "string \<Rightarrow> string" where
  "marker_path path = path @ ''.recovery.json''"

definition quarantine_path_of :: "string \<Rightarrow> int \<Rightarrow> string" where
  "quarantine_path_of path now_s = path @ ''.quarantine.'' @ str_int now_s"

text \<open>
  The two durable steps that follow an unreadable registry: the file moves to quarantine,
  then the marker is written. \<open>movable\<close> says whether the move succeeds.
\<close>

definition quarantine_move :: "(string \<Rightarrow> string) \<Rightarrow> string \<Rightarrow> int \<Rightarrow> registry_content \<Rightarrow> registry_disk \<Rightarrow> registry_disk" where
  "quarantine_move absp path now_s c d =
     d\<lparr>dk_registry := None, dk_quarantine := dict_set (dk_quarantine d) (absp (quarantine_path_of path now_s)) c\<rparr>"

definition write_marker ::
  "(registry_content \<Rightarrow> string) \<Rightarrow> string \<Rightarrow> instant \<Rightarrow> int \<Rightarrow> registry_content \<Rightarrow> exn \<Rightarrow> registry_disk \<Rightarrow> registry_disk" where
  "write_marker sha256 path now now_s c e d =
     d\<lparr>dk_marker := Some
        \<lparr>mk_state = ''BLOCKED_OR_UNKNOWN'', mk_original_registry_path = path,
         mk_quarantine_path = quarantine_path_of path now_s, mk_original_sha256 = sha256 c,
         mk_recovery_timestamp = now, mk_recovery_reason = ''CORRUPTED_REGISTRY: '' @ str_exn e\<rparr>\<rparr>"

text \<open>
  The constructor. \<open>sha256\<close> gives the digest of the bytes, or \<open>UNKNOWN\<close> where they cannot be
  read when the marker is written; that the marker itself can be written is assumed.
\<close>

definition registry_open ::
  "(registry_content \<Rightarrow> string) \<Rightarrow> (string \<Rightarrow> string) \<Rightarrow> instant \<Rightarrow> int \<Rightarrow> bool \<Rightarrow> string option \<Rightarrow> registry_disk
     \<Rightarrow> registry_disk \<times> model_registry result" where
  "registry_open sha256 absp now now_s movable path_opt d =
     (let blank = registry_blank path_opt;
          first = (case bootstrap_registry (blank, d) of
                     Inl e \<Rightarrow> (d, Inl e) | Inr (r, d') \<Rightarrow> (d', Inr r))
      in if \<not> truthy_str path_opt then first
         else let path = the path_opt in
           if dk_marker d \<noteq> None
           then (d, Inl (RegistryRecoveryRequired (''Model registry recovery is required: '' @ marker_path path)))
           else (case dk_registry d of
             None \<Rightarrow> first
           | Some c \<Rightarrow>
               (case load_data c blank of
                  Inr r \<Rightarrow> (d, Inr r)
                | Inl e \<Rightarrow>
                    if \<not> movable
                    then (d, Inl (RegistryRecoveryRequired ''Registry is corrupted and could not be quarantined''))
                    else (write_marker sha256 path now now_s c e (quarantine_move absp path now_s c d),
                          Inl (RegistryRecoveryRequired
                            (''Corrupted model registry quarantined; explicit recovery required: '' @ marker_path path))))))"

definition open_for_recovery :: "string option \<Rightarrow> registry_disk \<Rightarrow> model_registry result" where
  "open_for_recovery path d =
     (if \<not> truthy_str path then Inl (RecoveryAttestationError ''Recovery requires a durable registry path'')
      else if dk_marker d = None then Inl (RecoveryAttestationError ''No pending recovery marker exists'')
      else Inr (registry_blank path))"

section \<open>Restoration\<close>

text \<open>The payload is \<open>None\<close> when it is absent or the empty object.\<close>

record recovery_attestation =
  ra_recovery_id :: string
  ra_source_registry_hash :: string
  ra_quarantine_reference :: string
  ra_authority_ref :: string
  ra_authority_decision :: string
  ra_source_evidence_ids :: "string list"
  ra_reconstructed_digest :: string
  ra_registry_payload :: "registry_content option"
  ra_verification_evidence_ids :: "string list"
  ra_recovery_timestamp :: string

definition recovery_id_char :: "char \<Rightarrow> bool" where
  "recovery_id_char c =
     (c \<in> set (''ABCDEFGHIJKLMNOPQRSTUVWXYZ'' @ ''abcdefghijklmnopqrstuvwxyz'' @ ''0123456789'' @ ''._-''))"

definition recovery_id_ok :: "string \<Rightarrow> bool" where
  "recovery_id_ok s = (1 \<le> length s \<and> length s \<le> 128 \<and> list_all recovery_id_char s)"

definition attestation_complete :: "recovery_attestation \<Rightarrow> bool" where
  "attestation_complete a =
     (ra_recovery_id a \<noteq> [] \<and> ra_source_registry_hash a \<noteq> [] \<and> ra_quarantine_reference a \<noteq> [] \<and>
      ra_authority_ref a \<noteq> [] \<and> ra_authority_decision a \<noteq> [] \<and> ra_reconstructed_digest a \<noteq> [] \<and>
      ra_registry_payload a \<noteq> None \<and> ra_recovery_timestamp a \<noteq> [])"

text \<open>The checks of \<open>restore_from_attestation\<close> in the order of the code.\<close>

definition check_attestation ::
  "(registry_content \<Rightarrow> string) \<Rightarrow> (string \<Rightarrow> string) \<Rightarrow> (recovery_attestation \<Rightarrow> bool result)
     \<Rightarrow> recovery_attestation \<Rightarrow> registry_state \<Rightarrow> registry_content result" where
  "check_attestation sha256 absp verifier a s =
     (let err = (\<lambda>m. Inl (RecoveryAttestationError m)) in
      if \<not> truthy_str (mr_storage_path (fst s)) then err ''Recovery requires a durable registry path''
      else if \<not> recovery_id_ok (ra_recovery_id a) then err ''Recovery id contains invalid characters''
      else case dk_marker (snd s) of
        None \<Rightarrow> err ''No pending recovery marker exists''
      | Some mk \<Rightarrow>
          if \<not> attestation_complete a then err ''Recovery attestation is incomplete''
          else if ra_source_evidence_ids a = [] then err ''Recovery attestation has no source evidence''
          else if ra_verification_evidence_ids a = [] then err ''Recovery attestation has no verification evidence''
          else if ra_authority_decision a \<noteq> ''APPROVE_RESTORE''
          then err ''Recovery authority decision is not APPROVE_RESTORE''
          else if mk_state mk \<noteq> ''BLOCKED_OR_UNKNOWN''
          then err ''Recovery marker is not in BLOCKED_OR_UNKNOWN state''
          else if mk_original_sha256 mk \<noteq> ra_source_registry_hash a
          then err ''Source registry hash does not match recovery marker''
          else if absp (ra_quarantine_reference a) \<noteq> absp (mk_quarantine_path mk)
          then err ''Quarantine reference does not match recovery marker''
          else case dict_get (dk_quarantine (snd s)) (absp (ra_quarantine_reference a)) of
            None \<Rightarrow> err ''Quarantine evidence is missing''
          | Some q \<Rightarrow>
              if sha256 q \<noteq> ra_source_registry_hash a then err ''Quarantine evidence hash mismatch''
              else case verifier a of
                Inl _ \<Rightarrow> err ''Recovery authority verifier failed''
              | Inr False \<Rightarrow> err ''Recovery authority did not authorize restoration''
              | Inr True \<Rightarrow>
                  (let candidate = the (ra_registry_payload a) in
                   case load_data candidate (registry_blank None) of
                     Inl e \<Rightarrow> err (''Reconstructed registry payload is invalid: '' @ str_exn e)
                   | Inr _ \<Rightarrow>
                       if sha256 candidate \<noteq> ra_reconstructed_digest a
                       then err ''Reconstructed registry digest mismatch''
                       else Inr candidate))"

text \<open>The durable steps that follow the checks, in the order of the code.\<close>

definition restore_steps ::
  "(string \<Rightarrow> string) \<Rightarrow> recovery_attestation \<Rightarrow> registry_content \<Rightarrow> (registry_disk \<Rightarrow> registry_disk) list" where
  "restore_steps absp a c =
     [\<lambda>d. d\<lparr>dk_registry := Some c\<rparr>,
      \<lambda>d. d\<lparr>dk_records := dict_set (dk_records d) (ra_recovery_id a)
            \<lparr>rr_state = ''RESTORED_VERIFIED'', rr_recovery_id = ra_recovery_id a,
             rr_source_registry_hash = ra_source_registry_hash a,
             rr_quarantine_reference = absp (ra_quarantine_reference a),
             rr_authority_ref = ra_authority_ref a, rr_authority_decision = ra_authority_decision a,
             rr_source_evidence_ids = ra_source_evidence_ids a,
             rr_verification_evidence_ids = ra_verification_evidence_ids a,
             rr_reconstructed_digest = ra_reconstructed_digest a,
             rr_recovery_timestamp = ra_recovery_timestamp a\<rparr>\<rparr>,
      \<lambda>d. d\<lparr>dk_marker := None\<rparr>]"

definition restore_from_attestation ::
  "(registry_content \<Rightarrow> string) \<Rightarrow> (string \<Rightarrow> string) \<Rightarrow> (recovery_attestation \<Rightarrow> bool result)
     \<Rightarrow> recovery_attestation \<Rightarrow> registry_state \<Rightarrow> registry_state result" where
  "restore_from_attestation sha256 absp verifier a s =
     and_then (check_attestation sha256 absp verifier a s) (\<lambda>c.
       let d = foldl (\<lambda>d f. f d) (snd s) (restore_steps absp a c)
       in and_then (load_data c (fst s)) (\<lambda>r. Inr (r, d)))"

lemmas registry_defs [op_defs] =
  register_model_def unregister_model_def set_availability_def add_binding_def
  update_hardware_profile_def save_to_disk_def put_model_def

section \<open>Invariant: the disk mirrors the registry\<close>

definition registry_inv :: "string \<Rightarrow> registry_state \<Rightarrow> bool" where
  "registry_inv path s \<longleftrightarrow>
     path \<noteq> [] \<and> mr_storage_path (fst s) = Some path \<and> dk_marker (snd s) = None \<and>
     dk_registry (snd s) = Some (Readable (build_data (fst s))) \<and>
     dict_wf (mr_models (fst s)) \<and> (\<forall>(k, m) \<in> set (mr_models (fst s)). md_model_id m = k) \<and>
     dict_wf (mr_performance (fst s))"

text \<open>The same without the claim on the file: what holds before a save.\<close>

definition registry_pre :: "string \<Rightarrow> registry_state \<Rightarrow> bool" where
  "registry_pre path s \<longleftrightarrow>
     path \<noteq> [] \<and> mr_storage_path (fst s) = Some path \<and> dk_marker (snd s) = None \<and>
     dict_wf (mr_models (fst s)) \<and> (\<forall>(k, m) \<in> set (mr_models (fst s)). md_model_id m = k) \<and>
     dict_wf (mr_performance (fst s))"

lemma registry_inv_pre: "registry_inv path s \<Longrightarrow> registry_pre path s"
  by (simp add: registry_inv_def registry_pre_def)

lemma registry_inv_save: "registry_pre path s \<Longrightarrow> registry_inv path (save_to_disk s)"
  by (simp add: registry_inv_def registry_pre_def save_to_disk_def)

lemma keyed_set:
  "dict_wf d \<Longrightarrow> \<forall>(k, m) \<in> set d. f m = k \<Longrightarrow> \<forall>(k, m) \<in> set (dict_set d (f x) x). f m = k"
  by (auto simp: set_dict_set)



lemma register_model_inv:
  "registry_pre path s \<Longrightarrow> register_model m s = Inr s' \<Longrightarrow> registry_inv path s'"
  by (auto simp: register_model_def Let_def put_model_def registry_pre_def keyed_set
           split: if_splits intro!: registry_inv_save)

lemma register_model_ok:
  "registry_pre path s \<Longrightarrow> dict_get (mr_models (fst s)) (md_model_id m) = None \<Longrightarrow>
     \<exists>s'. register_model m s = Inr s' \<and> registry_inv path s' \<and>
       mr_models (fst s') = put_model (mr_models (fst s)) m"
  using register_model_inv [of path s m]
  by (simp add: register_model_def Let_def) (simp add: save_to_disk_def)



lemma add_binding_inv: "registry_pre path s \<Longrightarrow> registry_inv path (add_binding b s)"
  unfolding add_binding_def by (rule registry_inv_save) (simp add: registry_pre_def)






lemma bootstrap_inv:
  assumes "path \<noteq> []" "dk_marker d = None"
  shows "\<exists>s. bootstrap_registry (registry_blank (Some path), d) = Inr s \<and> registry_inv path s"
proof -
  have "registry_pre path (registry_blank (Some path), d)"
    using assms by (simp add: registry_pre_def registry_blank_def)
  then obtain s1 where s1: "register_model qwen_model (registry_blank (Some path), d) = Inr s1"
      "registry_inv path s1" "mr_models (fst s1) = put_model [] qwen_model"
    using register_model_ok [of path "(registry_blank (Some path), d)" qwen_model]
    by (auto simp: registry_blank_def)
  moreover obtain s2 where s2: "register_model luna_model s1 = Inr s2" "registry_inv path s2"
    using register_model_ok [OF registry_inv_pre [OF s1(2)], of luna_model]
    by (auto simp: s1(3) put_model_def qwen_model_def luna_model_def)
  moreover have "registry_inv path (foldl (\<lambda>s b. add_binding b s) s bs)" if "registry_inv path s" for s bs
    using that by (induction bs arbitrary: s) (simp_all add: add_binding_inv registry_inv_pre)
  then have "registry_inv path (save_to_disk (register_initial_bindings s2))"
    using s2(2) by (simp add: register_initial_bindings_def registry_inv_save registry_inv_pre)
  ultimately show ?thesis by (simp add: bootstrap_registry_def register_initial_models_def)
qed

section \<open>Properties\<close>


definition empty_disk :: registry_disk where
  "empty_disk = \<lparr>dk_registry = None, dk_marker = None, dk_quarantine = [], dk_records = []\<rparr>"


text \<open>
  C31. Corruption blocks the registry: opening a file that cannot be loaded raises, preserves
  the unreadable bytes in quarantine under the hash the marker records, and from then on
  every opening raises and changes nothing, whatever the clock and the file system answer.
\<close>

theorem registry_corruption_blocks:
  assumes "path \<noteq> []" and "dk_marker d = None" and "dk_registry d = Some c"
    and "load_data c (registry_blank (Some path)) = Inl e"
  shows "\<exists>d' msg mk. registry_open sha256 absp now now_s True (Some path) d = (d', Inl (RegistryRecoveryRequired msg)) \<and>
           dk_marker d' = Some mk \<and> mk_original_sha256 mk = sha256 c \<and>
           dict_get (dk_quarantine d') (absp (mk_quarantine_path mk)) = Some c \<and>
           (\<forall>now' now_s' movable. \<exists>msg'.
              registry_open sha256 absp now' now_s' movable (Some path) d' = (d', Inl (RegistryRecoveryRequired msg')))"
  using assms by (auto simp: registry_open_def write_marker_def quarantine_move_def Let_def)

theorem registry_corruption_blocks_witness:
  "\<exists>d' msg. registry_open (\<lambda>_. ''h'') (abspath ''/'') 0 0 True (Some ''/d/r.json'')
     (empty_disk\<lparr>dk_registry := Some (Unreadable ''Expecting value'')\<rparr>) = (d', Inl (RegistryRecoveryRequired msg)) \<and>
     dk_marker d' \<noteq> None"
proof -
  let ?d = "empty_disk\<lparr>dk_registry := Some (Unreadable ''Expecting value'')\<rparr>"
  have "''/d/r.json'' \<noteq> []" "dk_marker ?d = None" "dk_registry ?d = Some (Unreadable ''Expecting value'')"
      "load_data (Unreadable ''Expecting value'') (registry_blank (Some ''/d/r.json'')) = Inl (ValueError ''Expecting value'')"
    by (simp_all add: empty_disk_def load_data_def)
  then show ?thesis
    using registry_corruption_blocks [of "''/d/r.json''" ?d] by fastforce
qed

text \<open>
  C8. Restoration is authorized, evidence-backed and crash-safe: if it returns, the registry
  was blocked, the authority's verifier accepted the attestation, the quarantined bytes have
  the hash of the marker and of the attestation, and the restored file is the attested
  payload with the attested digest; and if the process dies before the last of its durable
  steps, the marker is still there, so the registry is still blocked.
\<close>

theorem registry_restore_authorized:
  assumes "restore_from_attestation sha256 absp verifier a (r, d) = Inr (r', d')"
  shows "verifier a = Inr True \<and>
         (\<exists>mk q c. dk_marker d = Some mk \<and> mk_original_sha256 mk = ra_source_registry_hash a \<and>
            dict_get (dk_quarantine d) (absp (mk_quarantine_path mk)) = Some q \<and>
            sha256 q = mk_original_sha256 mk \<and>
            ra_registry_payload a = Some c \<and> sha256 c = ra_reconstructed_digest a \<and>
            dk_registry d' = Some c \<and> load_data c r = Inr r' \<and>
            dict_get (dk_records d') (ra_recovery_id a) \<noteq> None \<and> dk_marker d' = None \<and>
            (\<forall>k < 3. dk_marker (foldl (\<lambda>d f. f d) d (take k (restore_steps absp a c))) = Some mk))"
proof -
  from assms obtain c where check: "check_attestation sha256 absp verifier a (r, d) = Inr c"
      and d': "d' = foldl (\<lambda>d f. f d) d (restore_steps absp a c)" and load: "load_data c r = Inr r'"
    by (auto simp: restore_from_attestation_def Let_def)
  have crash: "dk_marker (foldl (\<lambda>d f. f d) d (take k (restore_steps absp a c))) = dk_marker d" if "k < 3" for k
  proof -
    have "k = 0 \<or> k = 1 \<or> k = 2" using that by linarith
    then show ?thesis by (auto simp: restore_steps_def numeral_2_eq_2)
  qed
  show ?thesis
    using check load crash d'
    by (auto simp: check_attestation_def Let_def attestation_complete_def restore_steps_def
             split: if_splits option.splits sum.splits bool.splits)
qed

definition demo_document :: registry_document where
  "demo_document = \<lparr>rd_version = ''1.0'', rd_models = [luna_model], rd_bindings = [], rd_hardware = None,
                    rd_performance = []\<rparr>"

definition demo_sha :: "registry_content \<Rightarrow> string" where
  "demo_sha c = (case c of Readable _ \<Rightarrow> ''good'' | Unreadable _ \<Rightarrow> ''bad'')"

definition demo_blocked :: registry_disk where
  "demo_blocked = fst (registry_open demo_sha (abspath ''/'') 0 0 True (Some ''/d/r.json'')
     (empty_disk\<lparr>dk_registry := Some (Unreadable ''Expecting value'')\<rparr>))"

definition demo_attestation :: recovery_attestation where
  "demo_attestation = \<lparr>ra_recovery_id = ''rec-1'', ra_source_registry_hash = ''bad'',
     ra_quarantine_reference = ''/d/r.json.quarantine.0'', ra_authority_ref = ''board'',
     ra_authority_decision = ''APPROVE_RESTORE'', ra_source_evidence_ids = [''e1''],
     ra_reconstructed_digest = ''good'', ra_registry_payload = Some (Readable demo_document),
     ra_verification_evidence_ids = [''e2''], ra_recovery_timestamp = ''t''\<rparr>"

lemma demo_quarantine_path: "quarantine_path_of ''/d/r.json'' 0 = ''/d/r.json.quarantine.0''"
  by code_simp

lemma demo_blocked_eq:
  "demo_blocked = \<lparr>dk_registry = None,
     dk_marker = Some \<lparr>mk_state = ''BLOCKED_OR_UNKNOWN'', mk_original_registry_path = ''/d/r.json'',
        mk_quarantine_path = ''/d/r.json.quarantine.0'', mk_original_sha256 = ''bad'',
        mk_recovery_timestamp = 0, mk_recovery_reason = ''CORRUPTED_REGISTRY: Expecting value''\<rparr>,
     dk_quarantine = [(abspath ''/'' ''/d/r.json.quarantine.0'', Unreadable ''Expecting value'')], dk_records = []\<rparr>"
  by (simp add: demo_blocked_def registry_open_def write_marker_def quarantine_move_def empty_disk_def
        load_data_def demo_quarantine_path demo_sha_def Let_def)

lemma demo_recovery_id: "recovery_id_ok ''rec-1''"
  by (simp add: recovery_id_ok_def recovery_id_char_def)

lemma demo_restores:
  "\<exists>s. restore_from_attestation demo_sha (abspath ''/'') (\<lambda>_. Inr True) demo_attestation
     (registry_blank (Some ''/d/r.json''), demo_blocked) = Inr s"
  by (simp add: restore_from_attestation_def check_attestation_def demo_blocked_eq demo_attestation_def
        attestation_complete_def demo_recovery_id registry_blank_def load_data_def
        demo_document_def demo_sha_def Let_def)

theorem registry_restore_authorized_witness:
  "\<exists>r' d'. restore_from_attestation demo_sha (abspath ''/'') (\<lambda>_. Inr True) demo_attestation
     (registry_blank (Some ''/d/r.json''), demo_blocked) = Inr (r', d') \<and>
     dk_registry d' = Some (Readable demo_document) \<and> dk_marker d' = None"
proof -
  obtain r' d' where "restore_from_attestation demo_sha (abspath ''/'') (\<lambda>_. Inr True) demo_attestation
      (registry_blank (Some ''/d/r.json''), demo_blocked) = Inr (r', d')"
    using demo_restores by auto
  moreover have "ra_registry_payload demo_attestation = Some (Readable demo_document)"
    by (simp add: demo_attestation_def)
  ultimately show ?thesis
    using registry_restore_authorized [of demo_sha "abspath ''/''" "\<lambda>_. Inr True" demo_attestation] by fastforce
qed

text \<open>
  The quarantine is not crash-safe: the unreadable file is moved away before the marker is
  written, so a process that dies in between leaves neither, and the next opening takes the
  corrupted registry for a first bootstrap and synthesizes the initial trust.
\<close>

theorem registry_quarantine_crash:
  assumes "path \<noteq> []" and "dk_marker d = None"
  shows "\<exists>d' r. registry_open sha256 absp now now_s movable (Some path) (quarantine_move absp path now_s0 c d)
           = (d', Inr r)"
proof -
  have "dk_marker (quarantine_move absp path now_s0 c d) = None"
      "dk_registry (quarantine_move absp path now_s0 c d) = None"
    using assms(2) by (simp_all add: quarantine_move_def)
  moreover from this(1) obtain s where
    "bootstrap_registry (registry_blank (Some path), quarantine_move absp path now_s0 c d) = Inr s"
    using bootstrap_inv [OF assms(1)] by blast
  ultimately show ?thesis
    using assms(1) by (simp add: registry_open_def Let_def split: prod.split)
qed

theorem registry_quarantine_crash_witness:
  "\<exists>d' r. registry_open (\<lambda>_. ''h'') (abspath ''/'') 0 0 True (Some ''/d/r.json'')
     (quarantine_move (abspath ''/'') ''/d/r.json'' 0 (Unreadable ''Expecting value'') empty_disk) = (d', Inr r)"
  by (rule registry_quarantine_crash) (simp_all add: empty_disk_def)

end
