(* ===== verification/Intelligence.thy ===== *)
theory Intelligence
  imports Prelude "HOL-Library.Product_Lexorder"
begin

text \<open>
  The local intelligence layer (runtime/intelligence/layer.py and models.py): benchmark
  evidence, screening of implementations and the choice among them. Scores, confidences and
  latencies are rationals; how Python renders one in a message is the argument \<open>fmt\<close>.
\<close>

section \<open>Data\<close>

datatype capability_tier = L0 | L1 | L2 | L3 | L4

datatype delegation_decision = DELEGATE | SELF_EXECUTE | ESCALATE | DEFER | FAIL_CAPABILITY_INSUFFICIENT

datatype certification_status = CERTIFIED | STALE | REQUIRES_REBENCHMARK | REVOKED | VALID

primrec certification_value :: "certification_status \<Rightarrow> string" where
  "certification_value CERTIFIED = ''CERTIFIED''"
| "certification_value STALE = ''STALE''"
| "certification_value REQUIRES_REBENCHMARK = ''REQUIRES_REBENCHMARK''"
| "certification_value REVOKED = ''REVOKED''"
| "certification_value VALID = ''VALID''"

datatype resource_fit = FIT | PARTIAL | INSUFFICIENT | UNKNOWN

record implementation_profile =
  ip_implementation_id :: string
  ip_capability_ids :: "string list"
  ip_quality_profile :: string
  ip_resource_profile :: "(string \<times> json) list"
  ip_latency_profile :: "(string \<times> json) list"
  ip_cost_profile :: "(string \<times> json) list"
  ip_availability :: bool
  ip_certification :: certification_status
  ip_artifact_references :: "string list"
  ip_adapter_references :: "string list"
  ip_base_model_revision :: "string option"
  ip_adapter_revision :: "string option"
  ip_runtime_version :: "string option"
  ip_execution_class :: string

record implementation_candidate =
  ic_implementation_id :: string
  ic_execution_class :: string
  ic_availability :: bool
  ic_quality :: rat
  ic_confidence :: rat
  ic_latency :: rat
  ic_resource_fit :: resource_fit
  ic_policy_fit :: bool

text \<open>
  \<open>BenchmarkResult\<close> declares no \<open>adapter_revision\<close>; the field holds what
  \<open>getattr(result, 'adapter_revision', None)\<close> finds.
\<close>

record benchmark_result =
  br_benchmark_id :: string
  br_implementation_id :: string
  br_capability_id :: string
  br_dataset_version :: string
  br_score :: rat
  br_confidence :: rat
  br_latency :: rat
  br_resource_usage :: "(string \<times> json) list"
  br_timestamp :: instant
  br_certification_status :: certification_status
  br_adapter_revision :: "string option"

record assessment_request =
  ar_capability_id :: string
  ar_quality_required :: rat
  ar_latency_requirement :: "rat option"
  ar_resource_constraints :: "(string \<times> json) list option"
  ar_policy_constraints :: "(string \<times> json) list option"

record assessment_response =
  as_decision :: delegation_decision
  as_selected :: "implementation_candidate option"
  as_quality_score :: rat
  as_confidence :: rat
  as_tier :: capability_tier
  as_reason :: string
  as_eligible :: "string list"
  as_rejections :: "(string, string) dict"

section \<open>LocalIntelligenceLayer\<close>

text \<open>The assessment cache is cleared but never read, so it is left out.\<close>

record intelligence_layer =
  il_implementations :: "(string, implementation_profile) dict"
  il_benchmarks :: "(string, benchmark_result) dict"

definition layer_init :: intelligence_layer where
  "layer_init = \<lparr>il_implementations = [], il_benchmarks = []\<rparr>"

definition register_implementation :: "intelligence_layer \<Rightarrow> implementation_profile \<Rightarrow> intelligence_layer" where
  "register_implementation l p =
     l\<lparr>il_implementations := dict_set (il_implementations l) (ip_implementation_id p) p\<rparr>"

definition remove_implementation :: "string \<Rightarrow> intelligence_layer \<Rightarrow> intelligence_layer" where
  "remove_implementation i l =
     (if dict_get (il_implementations l) i \<noteq> None
      then l\<lparr>il_implementations := dict_del (il_implementations l) i\<rparr> else l)"

definition add_benchmark_result :: "intelligence_layer \<Rightarrow> benchmark_result \<Rightarrow> intelligence_layer" where
  "add_benchmark_result l b = l\<lparr>il_benchmarks := dict_set (il_benchmarks l) (br_benchmark_id b) b\<rparr>"

definition mean :: "rat list \<Rightarrow> rat" where
  "mean xs = sum_list xs / of_nat (length xs)"

definition benchmark_stats :: "intelligence_layer \<Rightarrow> string \<Rightarrow> string \<Rightarrow> rat \<times> rat \<times> rat" where
  "benchmark_stats l i c =
     (let relevant = filter (\<lambda>b. br_implementation_id b = i \<and> br_capability_id b = c) (dict_values (il_benchmarks l))
      in if relevant = [] then (0, 0, 0)
         else (mean (map br_score relevant), mean (map br_confidence relevant),
               sort (map br_latency relevant) ! (length relevant div 2)))"

definition determine_tier :: "rat \<Rightarrow> capability_tier" where
  "determine_tier s =
     (if s \<ge> 95/100 then L4 else if s \<ge> 90/100 then L3 else if s \<ge> 85/100 then L2
      else if s \<ge> 75/100 then L1 else L0)"

text \<open>The checks on one implementation, in order: a reason to reject it, or a candidate.\<close>

definition screen ::
  "intelligence_layer \<Rightarrow> assessment_request \<Rightarrow> implementation_profile \<Rightarrow> string + implementation_candidate" where
  "screen l q p =
     (if \<not> ip_availability p then Inl ''Not available''
      else if ar_capability_id q \<notin> set (ip_capability_ids p)
      then Inl (''Unsupported capability '' @ quoted (ar_capability_id q))
      else if ip_certification p \<in> {STALE, REQUIRES_REBENCHMARK, REVOKED}
      then Inl (''Certification status invalid: '' @ certification_value (ip_certification p))
      else let (score, conf, latency) = benchmark_stats l (ip_implementation_id p) (ar_capability_id q) in
        if score = 0 \<and> conf = 0 then Inl ''No valid benchmark evidence found''
        else let needs = (case ar_resource_constraints q of
                            None \<Rightarrow> False
                          | Some rc \<Rightarrow> (case map_of rc ''requires_gpu'' of None \<Rightarrow> False | Some j \<Rightarrow> truthy j));
                 has = (case map_of (ip_resource_profile p) ''gpu_present'' of None \<Rightarrow> False | Some j \<Rightarrow> truthy j) in
        if needs \<and> \<not> has then Inl ''Resource fit incompatible: missing GPU''
        else let closed = (case ar_policy_constraints q of
                             None \<Rightarrow> False
                           | Some pc \<Rightarrow> map_of pc ''network'' = Some (JStr ''disabled''));
                 net = (case map_of (ip_resource_profile p) ''requires_network'' of
                          None \<Rightarrow> False | Some j \<Rightarrow> truthy j) in
        if closed \<and> net
        then Inl ''Policy denial: Implementation requires network access but policy forbids it''
        else Inr \<lparr>ic_implementation_id = ip_implementation_id p, ic_execution_class = ip_execution_class p,
                  ic_availability = ip_availability p, ic_quality = score, ic_confidence = conf,
                  ic_latency = latency, ic_resource_fit = FIT, ic_policy_fit = True\<rparr>)"

fun screen_all ::
  "intelligence_layer \<Rightarrow> assessment_request \<Rightarrow> implementation_profile list
     \<Rightarrow> implementation_candidate list \<times> (string, string) dict" where
  "screen_all l q [] = ([], [])"
| "screen_all l q (p # ps) =
     (let (cs, rj) = screen_all l q ps in
      case screen l q p of
        Inl why \<Rightarrow> (cs, (ip_implementation_id p, why) # rj)
      | Inr c \<Rightarrow> (c # cs, rj))"

text \<open>
  Sorting by \<open>(quality, confidence)\<close> with \<open>reverse=True\<close> keeps the order of equal
  candidates: a stable ascending sort on the negated key.
\<close>

definition rank :: "implementation_candidate list \<Rightarrow> implementation_candidate list" where
  "rank cs = sort_key (\<lambda>c. (- ic_quality c, - ic_confidence c)) cs"

definition assess_capability ::
  "(rat \<Rightarrow> string) \<Rightarrow> intelligence_layer \<Rightarrow> assessment_request \<Rightarrow> string list option
     \<Rightarrow> assessment_response" where
  "assess_capability fmt l q available =
     (let impls = (case available of
                     None \<Rightarrow> dict_values (il_implementations l)
                   | Some ids \<Rightarrow> filter (\<lambda>p. ip_implementation_id p \<in> set ids) (dict_values (il_implementations l)));
          (candidates, rejections) = screen_all l q impls;
          eligible = map ic_implementation_id candidates;
          valid = filter (\<lambda>c. ic_policy_fit c \<and> ic_resource_fit c \<in> {FIT, PARTIAL}) candidates
      in case rank valid of
           [] \<Rightarrow> \<lparr>as_decision = FAIL_CAPABILITY_INSUFFICIENT, as_selected = None, as_quality_score = 0,
                 as_confidence = 0, as_tier = L0,
                 as_reason = ''No available implementations for capability met constraints'',
                 as_eligible = eligible, as_rejections = rejections\<rparr>
         | best # _ \<Rightarrow>
             let tier = determine_tier (ic_quality best) in
             if ic_quality best \<ge> ar_quality_required q
             then \<lparr>as_decision = DELEGATE, as_selected = Some best, as_quality_score = ic_quality best,
                   as_confidence = ic_confidence best, as_tier = tier,
                   as_reason = ''Candidate '' @ ic_implementation_id best @ '' meets required quality ('' @ fmt (ic_quality best)
                     @ '' >= '' @ fmt (ar_quality_required q) @ '')'',
                   as_eligible = eligible, as_rejections = rejections\<rparr>
             else \<lparr>as_decision = ESCALATE, as_selected = None, as_quality_score = ic_quality best,
                   as_confidence = ic_confidence best, as_tier = tier,
                   as_reason = ''Best candidate '' @ ic_implementation_id best @ '' below required quality ('' @ fmt (ic_quality best)
                     @ '' < '' @ fmt (ar_quality_required q) @ '')'',
                   as_eligible = eligible,
                   as_rejections = dict_set rejections ''all'' ''No candidate met required quality threshold''\<rparr>)"

text \<open>\<open>max(relevant, key=timestamp)\<close>: the first of the latest.\<close>

fun latest :: "benchmark_result \<Rightarrow> benchmark_result list \<Rightarrow> benchmark_result" where
  "latest b [] = b"
| "latest b (c # cs) = latest (if br_timestamp c > br_timestamp b then c else b) cs"

definition check_certification_drift :: "intelligence_layer \<Rightarrow> implementation_profile \<Rightarrow> certification_status" where
  "check_certification_drift l p =
     (case filter (\<lambda>b. br_implementation_id b = ip_implementation_id p) (dict_values (il_benchmarks l)) of
        [] \<Rightarrow> REQUIRES_REBENCHMARK
      | b # bs \<Rightarrow>
          let rev_b = br_adapter_revision (latest b bs) in
          if truthy_str (ip_adapter_revision p) \<and> truthy_str rev_b \<and> ip_adapter_revision p \<noteq> rev_b
          then STALE else ip_certification p)"

interpretation implementation_store:
  keyed_store "\<lambda>l i. dict_get (il_implementations l) i" register_implementation ip_implementation_id
  by unfold_locales (simp add: register_implementation_def)

interpretation benchmark_store:
  keyed_store "\<lambda>l i. dict_get (il_benchmarks l) i" add_benchmark_result br_benchmark_id
  by unfold_locales (simp add: add_benchmark_result_def)

section \<open>What an assessment guarantees\<close>

definition usable ::
  "intelligence_layer \<Rightarrow> assessment_request \<Rightarrow> implementation_profile \<Rightarrow> bool" where
  "usable l q p \<longleftrightarrow>
     ip_availability p \<and> ar_capability_id q \<in> set (ip_capability_ids p) \<and>
     ip_certification p \<in> {CERTIFIED, VALID} \<and>
     (\<exists>b \<in> set (dict_values (il_benchmarks l)).
        br_implementation_id b = ip_implementation_id p \<and> br_capability_id b = ar_capability_id q)"

lemma benchmark_stats_none:
  "\<forall>b \<in> set (dict_values (il_benchmarks l)). \<not> (br_implementation_id b = i \<and> br_capability_id b = c) \<Longrightarrow>
     benchmark_stats l i c = (0, 0, 0)"
  by (auto simp: benchmark_stats_def filter_empty_conv)

lemma screen_sound:
  assumes "screen l q p = Inr c"
  shows "usable l q p \<and> ic_implementation_id c = ip_implementation_id p \<and>
     ic_execution_class c = ip_execution_class p \<and>
     ic_quality c = fst (benchmark_stats l (ip_implementation_id p) (ar_capability_id q)) \<and>
     ic_policy_fit c \<and> ic_resource_fit c = FIT"
proof -
  obtain s f t where st: "benchmark_stats l (ip_implementation_id p) (ar_capability_id q) = (s, f, t)"
    by (cases "benchmark_stats l (ip_implementation_id p) (ar_capability_id q)") blast
  have checks: "ip_availability p" "ar_capability_id q \<in> set (ip_capability_ids p)"
      "ip_certification p \<notin> {STALE, REQUIRES_REBENCHMARK, REVOKED}" "\<not> (s = 0 \<and> f = 0)"
    using assms by (auto simp: screen_def st split: if_splits)
  have c: "ic_implementation_id c = ip_implementation_id p" "ic_execution_class c = ip_execution_class p"
      "ic_quality c = s" "ic_policy_fit c" "ic_resource_fit c = FIT"
    using assms checks by (auto simp: screen_def st Let_def split: if_splits)
  have "\<exists>b \<in> set (dict_values (il_benchmarks l)).
      br_implementation_id b = ip_implementation_id p \<and> br_capability_id b = ar_capability_id q"
    using benchmark_stats_none [of l "ip_implementation_id p" "ar_capability_id q"] st checks(4) by auto
  moreover have "ip_certification p \<in> {CERTIFIED, VALID}"
    using checks(3) by (cases "ip_certification p") auto
  ultimately show ?thesis using checks c by (simp add: usable_def st)
qed

lemma screen_all_candidates:
  "fst (screen_all l q ps) = concat (map (\<lambda>p. case screen l q p of Inl _ \<Rightarrow> [] | Inr c \<Rightarrow> [c]) ps)"
  by (induction ps) (auto simp: Let_def split: prod.splits sum.splits)

lemma screen_all_valid:
  "filter (\<lambda>c. ic_policy_fit c \<and> ic_resource_fit c \<in> {FIT, PARTIAL}) (fst (screen_all l q ps))
     = fst (screen_all l q ps)"
  unfolding filter_id_conv screen_all_candidates
  by (auto split: sum.splits dest: screen_sound [OF sym])

lemma rank_best:
  assumes "rank cs = best # rest" and "c \<in> set cs"
  shows "best \<in> set cs \<and> ic_quality c \<le> ic_quality best"
proof -
  have "sorted (map (\<lambda>c. (- ic_quality c, - ic_confidence c)) (rank cs))"
    unfolding rank_def by (rule sorted_sort_key)
  then have "sorted (map (\<lambda>c. (- ic_quality c, - ic_confidence c)) (best # rest))"
    unfolding assms(1) .
  moreover have "set (rank cs) = set cs"
    unfolding rank_def by simp
  then have set: "set (best # rest) = set cs"
    unfolding assms(1) .
  ultimately have "(- ic_quality best, - ic_confidence best) \<le> (- ic_quality c, - ic_confidence c)"
    using assms(2) by fastforce
  then have "ic_quality c \<le> ic_quality best" by (auto simp: less_eq_prod_def)
  then show ?thesis using set by auto
qed

lemma assess_delegate:
  assumes "assess_capability fmt l q (Some ids) = resp" and "as_decision resp = DELEGATE"
  shows "\<exists>c p. as_selected resp = Some c \<and> p \<in> set (dict_values (il_implementations l)) \<and>
           ic_implementation_id c = ip_implementation_id p \<and> ip_implementation_id p \<in> set ids \<and>
           usable l q p \<and>
           ic_quality c = fst (benchmark_stats l (ip_implementation_id p) (ar_capability_id q)) \<and>
           ar_quality_required q \<le> ic_quality c \<and>
           (\<forall>p' c'. p' \<in> set (dict_values (il_implementations l)) \<longrightarrow> ip_implementation_id p' \<in> set ids \<longrightarrow>
              screen l q p' = Inr c' \<longrightarrow> ic_quality c' \<le> ic_quality c)"
proof -
  let ?ps = "filter (\<lambda>p. ip_implementation_id p \<in> set ids) (dict_values (il_implementations l))"
  let ?cs = "fst (screen_all l q ?ps)"
  have resp: "resp = assess_capability fmt l q (Some ids)" using assms(1) by simp
  obtain best rest where rank: "rank ?cs = best # rest" and sel: "as_selected resp = Some best"
      and req: "ar_quality_required q \<le> ic_quality best"
    using assms(2) screen_all_valid [of l q ?ps]
    by (cases "screen_all l q ?ps"; cases "rank ?cs")
       (auto simp: resp assess_capability_def Let_def split: if_splits)
  have cand: "c' \<in> set ?cs \<longleftrightarrow> (\<exists>p' \<in> set ?ps. screen l q p' = Inr c')" for c'
    by (force simp: screen_all_candidates split: sum.splits)
  have "set (rank ?cs) = set ?cs" unfolding rank_def by simp
  then have "best \<in> set ?cs" using rank by auto
  then obtain p where p: "p \<in> set ?ps" "screen l q p = Inr best" using cand by blast
  have "ic_quality c' \<le> ic_quality best"
    if "p' \<in> set (dict_values (il_implementations l))" "ip_implementation_id p' \<in> set ids"
      "screen l q p' = Inr c'" for p' c'
    using rank_best [OF rank, of c'] cand that by auto
  then show ?thesis
    using sel req p screen_sound [OF p(2)] by auto
qed

section \<open>Properties\<close>

text \<open>
  Delegation is justified: when the layer decides DELEGATE, the chosen implementation is
  registered and among the available ones, is available, supports the capability, has a
  certification that is neither stale nor revoked and benchmark evidence for this very
  capability, its quality (the mean score of that evidence) reaches the required quality, and
  no other implementation that passes the screening has a higher quality.
\<close>

theorem assess_delegation_justified:
  assumes "assess_capability fmt l q (Some ids) = resp" and "as_decision resp = DELEGATE"
  shows "\<exists>c p. as_selected resp = Some c \<and> p \<in> set (dict_values (il_implementations l)) \<and>
           ic_implementation_id c = ip_implementation_id p \<and> ip_implementation_id p \<in> set ids \<and>
           usable l q p \<and>
           ic_quality c = fst (benchmark_stats l (ip_implementation_id p) (ar_capability_id q)) \<and>
           ar_quality_required q \<le> ic_quality c \<and>
           (\<forall>p' c'. p' \<in> set (dict_values (il_implementations l)) \<longrightarrow> ip_implementation_id p' \<in> set ids \<longrightarrow>
              screen l q p' = Inr c' \<longrightarrow> ic_quality c' \<le> ic_quality c)"
  using assms by (rule assess_delegate)

definition demo_profile :: "string \<Rightarrow> implementation_profile" where
  "demo_profile i = \<lparr>ip_implementation_id = i, ip_capability_ids = [''document.classify''],
     ip_quality_profile = ''high'', ip_resource_profile = [], ip_latency_profile = [], ip_cost_profile = [],
     ip_availability = True, ip_certification = CERTIFIED, ip_artifact_references = [],
     ip_adapter_references = [], ip_base_model_revision = None, ip_adapter_revision = None,
     ip_runtime_version = None, ip_execution_class = ''LOCAL_MODEL''\<rparr>"

definition demo_benchmark :: "string \<Rightarrow> string \<Rightarrow> rat \<Rightarrow> benchmark_result" where
  "demo_benchmark b i s = \<lparr>br_benchmark_id = b, br_implementation_id = i,
     br_capability_id = ''document.classify'', br_dataset_version = ''1'', br_score = s, br_confidence = 9/10,
     br_latency = 100, br_resource_usage = [], br_timestamp = 0, br_certification_status = CERTIFIED,
     br_adapter_revision = None\<rparr>"

definition demo_layer :: intelligence_layer where
  "demo_layer = add_benchmark_result (register_implementation layer_init (demo_profile ''qwen3-8b''))
                  (demo_benchmark ''b1'' ''qwen3-8b'' (9/10))"

definition demo_assessment :: assessment_request where
  "demo_assessment = \<lparr>ar_capability_id = ''document.classify'', ar_quality_required = 85/100,
     ar_latency_requirement = None, ar_resource_constraints = None, ar_policy_constraints = None\<rparr>"

lemma demo_stats:
  "benchmark_stats demo_layer ''qwen3-8b'' ''document.classify'' = (9/10, 9/10, 100)"
  by (simp add: benchmark_stats_def demo_layer_def add_benchmark_result_def register_implementation_def
        layer_init_def demo_benchmark_def mean_def)

lemma demo_delegates: "as_decision (assess_capability (\<lambda>_. ''0.9'') demo_layer demo_assessment (Some [''qwen3-8b''])) = DELEGATE"
proof -
  have "dict_values (il_implementations demo_layer) = [demo_profile ''qwen3-8b'']"
    by (simp add: demo_layer_def add_benchmark_result_def register_implementation_def layer_init_def)
  then show ?thesis
    using demo_stats
    by (simp add: assess_capability_def screen_def demo_profile_def demo_assessment_def rank_def Let_def)
qed

theorem assess_delegation_justified_witness:
  "\<exists>p. p \<in> set (dict_values (il_implementations demo_layer)) \<and> usable demo_layer demo_assessment p"
  using assess_delegation_justified [OF refl demo_delegates] by blast

text \<open>
  Evidence is keyed by benchmark alone: recording the result of one implementation on a
  benchmark erases what another implementation scored on the same benchmark. An
  implementation whose only evidence is that benchmark is rejected from then on.
\<close>

theorem benchmark_evidence_overwritten:
  assumes "br_benchmark_id b = bid" and "br_implementation_id b \<noteq> i"
    and "dict_wf (il_benchmarks l)"
    and "\<forall>(k, b') \<in> set (il_benchmarks l). br_implementation_id b' = i \<longrightarrow> k = bid"
    and "ip_implementation_id p = i"
  shows "\<exists>why. screen (add_benchmark_result l b) q p = Inl why"
proof -
  have "\<not> (br_implementation_id b' = i \<and> br_capability_id b' = ar_capability_id q)"
    if "b' \<in> set (dict_values (il_benchmarks (add_benchmark_result l b)))" for b'
  proof
    assume i: "br_implementation_id b' = i \<and> br_capability_id b' = ar_capability_id q"
    from that obtain k where k: "(k, b') \<in> set (il_benchmarks (add_benchmark_result l b))" by auto
    have "b' \<noteq> b" using i assms(2) by auto
    then have "(k, b') \<in> set (il_benchmarks l)" "k \<noteq> bid"
      using k assms(1,3) by (auto simp: add_benchmark_result_def set_dict_set)
    then show False using assms(4) i by auto
  qed
  then have "benchmark_stats (add_benchmark_result l b) i (ar_capability_id q) = (0, 0, 0)"
    by (intro benchmark_stats_none) blast
  then show ?thesis by (auto simp: screen_def assms(5))
qed

theorem benchmark_evidence_overwritten_witness:
  "screen demo_layer demo_assessment (demo_profile ''qwen3-8b'') \<noteq> Inl ''No valid benchmark evidence found'' \<and>
   (\<exists>why. screen (add_benchmark_result demo_layer (demo_benchmark ''b1'' ''luna'' 1)) demo_assessment
            (demo_profile ''qwen3-8b'') = Inl why)"
proof
  show "screen demo_layer demo_assessment (demo_profile ''qwen3-8b'') \<noteq> Inl ''No valid benchmark evidence found''"
    using demo_stats by (simp add: screen_def demo_profile_def demo_assessment_def Let_def)
  have "dict_wf (il_benchmarks demo_layer)"
      "\<forall>(k, b') \<in> set (il_benchmarks demo_layer). br_implementation_id b' = ''qwen3-8b'' \<longrightarrow> k = ''b1''"
    by (simp_all add: demo_layer_def add_benchmark_result_def register_implementation_def layer_init_def
          demo_benchmark_def)
  then show "\<exists>why. screen (add_benchmark_result demo_layer (demo_benchmark ''b1'' ''luna'' 1)) demo_assessment
      (demo_profile ''qwen3-8b'') = Inl why"
    by (intro benchmark_evidence_overwritten [of _ "''b1''" "''qwen3-8b''"])
       (simp_all add: demo_benchmark_def demo_profile_def)
qed

end
