(* ===== verification/Kernel.thy ===== *)
theory Kernel
  imports ModelRegistry Intelligence
begin

text \<open>
  The orchestration kernel: execution plans (runtime/orchestration/plan.py), the frontier
  executor (frontier.py), reconciliation of the registries and planning (kernel.py), and the
  selector built on it (runtime/execution/selector.py). The fabric contract is an argument:
  the revoked capabilities it lists, or \<open>None\<close> when there is no adapter or it cannot be
  read.
\<close>

section \<open>Plans\<close>

datatype routing_class = RC_DETERMINISTIC | RC_LOCAL_MODEL | RC_FRONTIER_MODEL | RC_BLOCKED | RC_ESCALATED | RC_DEFERRED

primrec routing_value :: "routing_class \<Rightarrow> string" where
  "routing_value RC_DETERMINISTIC = ''DETERMINISTIC''"
| "routing_value RC_LOCAL_MODEL = ''LOCAL_MODEL''"
| "routing_value RC_FRONTIER_MODEL = ''FRONTIER_MODEL''"
| "routing_value RC_BLOCKED = ''BLOCKED''"
| "routing_value RC_ESCALATED = ''ESCALATED''"
| "routing_value RC_DEFERRED = ''DEFERRED''"

record execution_plan =
  pl_task_id :: string
  pl_capability_id :: string
  pl_capability_version :: string
  pl_routing_class :: routing_class
  pl_executor_type :: string
  pl_executor_id :: string
  pl_model_id :: "string option"
  pl_model_version :: "string option"
  pl_policy_version :: string
  pl_authority :: string
  pl_workspace_policy :: string
  pl_decision_reason :: string
  pl_provenance :: "(string, json) dict"

text \<open>The dictionary \<open>to_dict\<close> yields, restricted to its provenance: secrets are dropped.\<close>

definition plan_provenance :: "execution_plan \<Rightarrow> (string, json) dict" where
  "plan_provenance p = dict_del (dict_del (pl_provenance p) ''secrets'') ''api_key''"

section \<open>DefaultFrontierExecutor\<close>

record frontier_executor =
  fe_enabled :: bool
  fe_available_models :: "string list"

definition frontier_init :: "bool \<Rightarrow> string list option \<Rightarrow> frontier_executor" where
  "frontier_init enabled models =
     \<lparr>fe_enabled = enabled,
      fe_available_models = (case models of None \<Rightarrow> [''frontier-gpt4'', ''frontier-claude-3-5-sonnet'']
                             | Some [] \<Rightarrow> [''frontier-gpt4'', ''frontier-claude-3-5-sonnet'']
                             | Some ms \<Rightarrow> ms)\<rparr>"

definition frontier_available :: "frontier_executor \<Rightarrow> string option \<Rightarrow> bool" where
  "frontier_available fe mid =
     (if \<not> fe_enabled fe then False
      else case mid of Some m \<Rightarrow> m \<in> set (fe_available_models fe) | None \<Rightarrow> fe_available_models fe \<noteq> [])"

definition frontier_execute_plan :: "frontier_executor \<Rightarrow> task \<Rightarrow> execution_plan \<Rightarrow> json result" where
  "frontier_execute_plan fe t p =
     (if \<not> frontier_available fe (pl_model_id p)
      then Inl (RuntimeError (''Frontier model '' @ str_opt (pl_model_id p) @ '' is unavailable or unauthorized''))
      else Inr (JObj [(''status'', JStr ''COMPLETED''), (''task_id'', JStr (tk_task_id t)),
                      (''plan_id'', JStr (tk_task_id t)), (''executor'', JStr ''DefaultFrontierExecutor''),
                      (''model_id'', jopt (pl_model_id p))]))"

section \<open>Reconciliation of the registries\<close>

record orchestrator =
  or_capabilities :: capability_registry
  or_models :: model_registry
  or_layer :: intelligence_layer
  or_frontier :: frontier_executor

definition model_reachable :: "orchestrator \<Rightarrow> model_definition \<Rightarrow> bool" where
  "model_reachable o' m =
     (let avail = is_available (or_models o') (md_model_id m) in
      if md_executor_type m \<in> {''REMOTE_MODEL'', ''FRONTIER_MODEL''}
      then avail \<and> frontier_available (or_frontier o') (Some (md_model_id m)) else avail)"

text \<open>Models carry no certification, score or GPU attribute of their own: the defaults apply.\<close>

definition reconcile_model :: "orchestrator \<Rightarrow> intelligence_layer \<Rightarrow> model_definition \<Rightarrow> intelligence_layer" where
  "reconcile_model o' l m =
     (let avail = model_reachable o' m;
          caps = (if md_capabilities_supported m = [] then [''document.classify''] else md_capabilities_supported m)
      in case dict_get (il_implementations l) (md_model_id m) of
           Some p \<Rightarrow> l\<lparr>il_implementations := dict_set (il_implementations l) (md_model_id m)
                       (p\<lparr>ip_availability := avail, ip_execution_class := md_executor_type m,
                          ip_capability_ids := caps\<rparr>)\<rparr>
         | None \<Rightarrow> register_implementation l
             \<lparr>ip_implementation_id = md_model_id m, ip_capability_ids = caps, ip_quality_profile = ''high'',
              ip_resource_profile = [(''gpu_present'', JBool False)],
              ip_latency_profile = [(''p50'', JInt 100)], ip_cost_profile = [(''token_cost'', JFloat 0)],
              ip_availability = avail, ip_certification = CERTIFIED, ip_artifact_references = [],
              ip_adapter_references = [], ip_base_model_revision = None, ip_adapter_revision = None,
              ip_runtime_version = None, ip_execution_class = md_executor_type m\<rparr>)"

definition reconcile_registries :: "orchestrator \<Rightarrow> orchestrator" where
  "reconcile_registries o' =
     (let ms = dict_values (mr_models (or_models o'));
          l1 = foldl (reconcile_model o') (or_layer o') ms;
          l2 = foldl (\<lambda>l i. if i \<in> set (map md_model_id ms) then l else remove_implementation i l)
                 l1 (dict_keys (il_implementations l1))
      in o'\<lparr>or_layer := l2\<rparr>)"

definition orchestrator_init ::
  "capability_registry \<Rightarrow> model_registry \<Rightarrow> intelligence_layer \<Rightarrow> frontier_executor \<Rightarrow> orchestrator" where
  "orchestrator_init caps models layer fe =
     reconcile_registries \<lparr>or_capabilities = caps, or_models = models, or_layer = layer, or_frontier = fe\<rparr>"

section \<open>Planning\<close>

text \<open>
  Attributes the kernel probes with \<open>getattr\<close> although \<open>Task\<close> and
  \<open>RuntimePolicy\<close> do not declare them.
\<close>

record task_flags =
  tf_requires_network :: bool
  tf_allow_frontier :: bool
  tf_preferred_frontier :: "string option"
  tf_policy_frontier :: bool

definition no_flags :: task_flags where
  "no_flags = \<lparr>tf_requires_network = False, tf_allow_frontier = False, tf_preferred_frontier = None,
               tf_policy_frontier = False\<rparr>"

definition blocked_plan ::
  "task \<Rightarrow> string \<Rightarrow> string \<Rightarrow> runtime_policy \<Rightarrow> string \<Rightarrow> (string, json) dict \<Rightarrow> execution_plan" where
  "blocked_plan t cid version pol reason prov =
     \<lparr>pl_task_id = tk_task_id t, pl_capability_id = cid, pl_capability_version = version,
      pl_routing_class = RC_BLOCKED, pl_executor_type = ''NONE'', pl_executor_id = ''none'',
      pl_model_id = None, pl_model_version = None, pl_policy_version = pol_version pol,
      pl_authority = ''anny-kernel'', pl_workspace_policy = ''workspace_only'',
      pl_decision_reason = reason, pl_provenance = prov\<rparr>"

definition routed_plan ::
  "task \<Rightarrow> capability_definition \<Rightarrow> runtime_policy \<Rightarrow> routing_class \<Rightarrow> executor_type \<Rightarrow> string
     \<Rightarrow> string option \<Rightarrow> string option \<Rightarrow> string \<Rightarrow> string \<Rightarrow> (string, json) dict \<Rightarrow> execution_plan" where
  "routed_plan t c pol rc et eid mid mv authority reason prov =
     \<lparr>pl_task_id = tk_task_id t, pl_capability_id = tk_capability_id t, pl_capability_version = cap_version c,
      pl_routing_class = rc, pl_executor_type = executor_value et, pl_executor_id = eid,
      pl_model_id = mid, pl_model_version = mv, pl_policy_version = pol_version pol,
      pl_authority = authority, pl_workspace_policy = ''workspace_only'',
      pl_decision_reason = reason, pl_provenance = prov\<rparr>"

definition strings_json :: "string list \<Rightarrow> json" where
  "strings_json xs = JList (map JStr xs)"

definition base_provenance :: "task \<Rightarrow> string \<Rightarrow> runtime_policy \<Rightarrow> (string, json) dict" where
  "base_provenance t cid pol =
     [(''task_id'', JStr (tk_task_id t)), (''requested_capability'', JStr cid),
      (''considered_implementations'', JList []), (''rejection_reasons'', JObj []),
      (''policy_applied'', JStr (pol_version pol))]"

text \<open>The checks that block a task before any executor is considered, in the order of the code.\<close>

definition planning_denial ::
  "string list option \<Rightarrow> task_flags \<Rightarrow> runtime_policy \<Rightarrow> string \<Rightarrow> capability_definition \<Rightarrow> string option" where
  "planning_denial contract fl pol cid c =
     (if (case contract of None \<Rightarrow> False | Some revoked \<Rightarrow> cid \<in> set revoked)
      then Some (''Fabric contract denial: Capability '' @ quoted cid @ '' is revoked by Fabric contract'')
      else if \<not> cap_enabled c then Some (''Capability '' @ quoted cid @ '' is disabled'')
      else if cap_inference_required c \<and> \<not> pol_allow_llm pol
      then Some ''Policy denial: LLM capabilities are disabled by runtime policy''
      else if cap_network_policy c = ''disabled'' \<and> tf_requires_network fl
      then Some (''Policy denial: Capability '' @ quoted cid @ '' forbids network access'')
      else None)"

text \<open>The inference path: assessment, delegation, frontier fallback, or blocked.\<close>

definition plan_inference ::
  "(rat \<Rightarrow> string) \<Rightarrow> task_flags \<Rightarrow> runtime_policy \<Rightarrow> task \<Rightarrow> capability_definition
     \<Rightarrow> (string, json) dict \<Rightarrow> orchestrator \<Rightarrow> execution_plan" where
  "plan_inference fmt fl pol t c prov o' =
     (let cid = tk_capability_id t;
          q = \<lparr>ar_capability_id = cid, ar_quality_required = 85/100, ar_latency_requirement = None,
               ar_resource_constraints = Some (tk_constraints t),
               ar_policy_constraints = Some [(''network'', JStr (cap_network_policy c))]\<rparr>;
          impls = map md_model_id (filter (\<lambda>m. is_available (or_models o') (md_model_id m))
                    (dict_values (mr_models (or_models o'))));
          resp = assess_capability fmt (or_layer o') q (Some impls);
          prov1 = dict_set (dict_set (dict_set prov ''available_registry_models'' (strings_json impls))
                    ''eligible_candidates'' (strings_json (as_eligible resp)))
                    ''rejection_reasons'' (JObj (map (\<lambda>(k, v). (k, JStr v)) (as_rejections resp)))
      in case (as_decision resp, as_selected resp) of
           (DELEGATE, Some cand) \<Rightarrow>
             let remote = (ic_execution_class cand \<in> {''REMOTE_MODEL'', ''FRONTIER_MODEL''});
                 eid = (if remote then ''frontier-executor'' else ''local-model-executor'')
             in routed_plan t c pol (if remote then RC_FRONTIER_MODEL else RC_LOCAL_MODEL)
                  (if remote then REMOTE_MODEL else LOCAL_MODEL) eid
                  (Some (ic_implementation_id cand)) (Some ''1.0.0'') (''anny-governed-'' @ eid) (as_reason resp)
                  (dict_set prov1 ''selected_implementation'' (JStr (ic_implementation_id cand)))
         | _ \<Rightarrow>
             if (cap_fallback_executor c = Some REMOTE_MODEL \<or> tf_policy_frontier fl \<or> tf_allow_frontier fl)
                \<and> frontier_available (or_frontier o') None
             then let mid = (case tf_preferred_frontier fl of None \<Rightarrow> ''frontier-gpt4'' | Some m \<Rightarrow> m)
                  in routed_plan t c pol RC_FRONTIER_MODEL REMOTE_MODEL ''frontier-executor'' (Some mid)
                       (Some ''1.0.0'') ''anny-governed-frontier''
                       (''Local model unavailable ('' @ as_reason resp @ ''); routed to authorized frontier model'')
                       (dict_set (dict_set prov1 ''selected_executor'' (JStr ''frontier-executor''))
                          ''frontier_model_id'' (JStr mid))
             else blocked_plan t cid (cap_version c) pol
                    (''No valid executor available for inference-required capability '' @ quoted cid
                       @ '' ('' @ as_reason resp @ '')'')
                    (dict_set prov1 ''downgrade_prevented'' (JBool True)))"

definition plan_task ::
  "(rat \<Rightarrow> string) \<Rightarrow> string list option \<Rightarrow> task_flags \<Rightarrow> runtime_policy \<Rightarrow> task \<Rightarrow> orchestrator
     \<Rightarrow> orchestrator \<times> execution_plan" where
  "plan_task fmt contract fl pol t0 o' =
     (let cid = (if tk_capability_id t0 = [] then ''unknown'' else tk_capability_id t0);
          t = t0\<lparr>tk_capability_id := cid\<rparr>;
          prov = base_provenance t cid pol
      in case capability_get (or_capabilities o') cid of
           None \<Rightarrow> (o', blocked_plan t cid ''0.0.0'' pol (''Unknown capability: '' @ quoted cid) prov)
         | Some c \<Rightarrow>
             let prov1 = dict_set (dict_set prov ''capability_version'' (JStr (cap_version c)))
                           ''risk_level'' (JStr (cap_risk_level c)) in
             (case planning_denial contract fl pol cid c of
                Some reason \<Rightarrow> (o', blocked_plan t cid (cap_version c) pol reason prov1)
              | None \<Rightarrow>
                  if \<not> cap_inference_required c
                  then (if cap_deterministic_allowed c
                        then (o', routed_plan t c pol RC_DETERMINISTIC DETERMINISTIC ''deterministic-v1'' None None
                                    ''anny-governed-deterministic''
                                    ''Non-inference capability routed to deterministic executor''
                                    (dict_set prov1 ''selected_executor'' (JStr ''deterministic-v1'')))
                        else (o', blocked_plan t cid (cap_version c) pol
                                    (''Capability '' @ quoted cid
                                       @ '' requires non-inference execution but deterministic_allowed is False'') prov1))
                  else let o2 = reconcile_registries o' in (o2, plan_inference fmt fl pol t c prov1 o2)))"

section \<open>ExecutorSelector\<close>

record executor_selection =
  es_executor_type :: executor_type
  es_executor_id :: string
  es_executor_version :: string
  es_model_id :: "string option"
  es_model_version :: "string option"
  es_reason :: string
  es_policy_version :: string
  es_risk_class :: string
  es_execution_mode :: "string option"

fun executor_of_value :: "string \<Rightarrow> executor_type result" where
  "executor_of_value v =
     (if v = ''DETERMINISTIC'' then Inr DETERMINISTIC else if v = ''LOCAL_MODEL'' then Inr LOCAL_MODEL
      else if v = ''REMOTE_MODEL'' then Inr REMOTE_MODEL
      else Inl (ValueError (quoted v @ '' is not a valid ExecutorType'')))"

definition selector_select ::
  "(rat \<Rightarrow> string) \<Rightarrow> string list option \<Rightarrow> task_flags \<Rightarrow> task \<Rightarrow> capability_definition \<Rightarrow> runtime_policy \<Rightarrow> orchestrator
     \<Rightarrow> orchestrator \<times> executor_selection result" where
  "selector_select fmt contract fl t c pol o' =
     (let t' = t\<lparr>tk_capability_id := cap_capability_id c\<rparr>;
          o1 = o'\<lparr>or_capabilities := capability_register (or_capabilities o') c\<rparr>;
          (o2, plan) = plan_task fmt contract fl pol t' o1
      in (o2, if pl_routing_class plan = RC_BLOCKED
              then Inl (ValueError (''Execution plan BLOCKED: '' @ pl_decision_reason plan))
              else and_then (executor_of_value (pl_executor_type plan)) (\<lambda>et.
                Inr \<lparr>es_executor_type = et, es_executor_id = pl_executor_id plan, es_executor_version = ''1.0.0'',
                     es_model_id = pl_model_id plan, es_model_version = pl_model_version plan,
                     es_reason = pl_decision_reason plan, es_policy_version = pl_policy_version plan,
                     es_risk_class = cap_risk_level c,
                     es_execution_mode = Some (routing_value (pl_routing_class plan))\<rparr>)))"

section \<open>What planning guarantees\<close>

lemma reconcile_frame [simp]:
  "or_capabilities (reconcile_registries o') = or_capabilities o'"
  "or_models (reconcile_registries o') = or_models o'"
  "or_frontier (reconcile_registries o') = or_frontier o'"
  by (simp_all add: reconcile_registries_def Let_def)

lemma planning_denial_None:
  "planning_denial contract fl pol cid c = None \<longleftrightarrow>
     (\<forall>revoked. contract = Some revoked \<longrightarrow> cid \<notin> set revoked) \<and> cap_enabled c \<and>
     (cap_inference_required c \<longrightarrow> pol_allow_llm pol) \<and>
     \<not> (cap_network_policy c = ''disabled'' \<and> tf_requires_network fl)"
  by (auto simp: planning_denial_def split: option.splits)

lemma routed_plan_sel [simp]:
  "pl_routing_class (routed_plan t c pol rc et eid mid mv au re pv) = rc"
  "pl_executor_type (routed_plan t c pol rc et eid mid mv au re pv) = executor_value et"
  "pl_model_id (routed_plan t c pol rc et eid mid mv au re pv) = mid"
  "pl_decision_reason (routed_plan t c pol rc et eid mid mv au re pv) = re"
  by (simp_all add: routed_plan_def)

lemma blocked_plan_sel [simp]:
  "pl_routing_class (blocked_plan t cid v pol re pv) = RC_BLOCKED"
  "pl_executor_type (blocked_plan t cid v pol re pv) = ''NONE''"
  "pl_model_id (blocked_plan t cid v pol re pv) = None"
  "pl_decision_reason (blocked_plan t cid v pol re pv) = re"
  by (simp_all add: blocked_plan_def)

text \<open>
  The model of a plan that comes from an assessment: available, certified for the capability, and with benchmark
  evidence for it whose mean score reaches 0.85; and the fallback.
\<close>

definition delegated_model :: "orchestrator \<Rightarrow> string \<Rightarrow> string \<Rightarrow> bool" where
  "delegated_model o' cid mid \<longleftrightarrow>
     is_available (or_models o') mid \<and>
     (\<exists>p \<in> set (dict_values (il_implementations (or_layer o'))).
        ip_implementation_id p = mid \<and> ip_availability p \<and> cid \<in> set (ip_capability_ids p) \<and>
        ip_certification p \<in> {CERTIFIED, VALID}) \<and>
     (\<exists>b \<in> set (dict_values (il_benchmarks (or_layer o'))). br_implementation_id b = mid \<and> br_capability_id b = cid) \<and>
     85/100 \<le> fst (benchmark_stats (or_layer o') mid cid)"

definition frontier_fallback :: "task_flags \<Rightarrow> capability_definition \<Rightarrow> orchestrator \<Rightarrow> bool" where
  "frontier_fallback fl c o' \<longleftrightarrow>
     (cap_fallback_executor c = Some REMOTE_MODEL \<or> tf_policy_frontier fl \<or> tf_allow_frontier fl) \<and>
     frontier_available (or_frontier o') None"

lemma plan_inference_routes:
  "(\<exists>mid rc. delegated_model o' (tk_capability_id t) mid \<and>
      pl_model_id P = Some mid \<and> pl_routing_class P = rc \<and>
      (rc = RC_LOCAL_MODEL \<and> pl_executor_type P = ''LOCAL_MODEL'' \<or>
       rc = RC_FRONTIER_MODEL \<and> pl_executor_type P = ''REMOTE_MODEL'')) \<or>
   (pl_routing_class P = RC_FRONTIER_MODEL \<and> pl_executor_type P = ''REMOTE_MODEL'' \<and> frontier_fallback fl c o') \<or>
   (pl_routing_class P = RC_BLOCKED \<and> pl_executor_type P = ''NONE'' \<and> pl_model_id P = None)"
  if "plan_inference fmt fl pol t c prov o' = P"
proof -
  define q where "q = \<lparr>ar_capability_id = tk_capability_id t, ar_quality_required = 85/100,
     ar_latency_requirement = None, ar_resource_constraints = Some (tk_constraints t),
     ar_policy_constraints = Some [(''network'', JStr (cap_network_policy c))]\<rparr>"
  define ids where "ids = map md_model_id (filter (\<lambda>m. is_available (or_models o') (md_model_id m))
      (dict_values (mr_models (or_models o'))))"
  define resp where "resp = assess_capability fmt (or_layer o') q (Some ids)"
  show ?thesis
  proof (cases "\<exists>cand. as_decision resp = DELEGATE \<and> as_selected resp = Some cand")
    case True
    then obtain cand where d: "as_decision resp = DELEGATE" and sel: "as_selected resp = Some cand" by blast
    obtain p where p: "p \<in> set (dict_values (il_implementations (or_layer o')))"
        "ic_implementation_id cand = ip_implementation_id p" "ip_implementation_id p \<in> set ids" "usable (or_layer o') q p"
        "ar_quality_required q \<le> fst (benchmark_stats (or_layer o') (ip_implementation_id p) (ar_capability_id q))"
      using assess_delegate [OF resp_def [symmetric] d] sel by (metis option.inject)
    have "is_available (or_models o') (ic_implementation_id cand)"
      using p(2,3) by (auto simp: ids_def)
    then have "delegated_model o' (tk_capability_id t) (ic_implementation_id cand)"
      using p by (auto simp: delegated_model_def usable_def q_def)
    moreover have "\<exists>eid re au pv. P = (if ic_execution_class cand \<in> {''REMOTE_MODEL'', ''FRONTIER_MODEL''}
        then routed_plan t c pol RC_FRONTIER_MODEL REMOTE_MODEL eid (Some (ic_implementation_id cand)) (Some ''1.0.0'') au re pv
        else routed_plan t c pol RC_LOCAL_MODEL LOCAL_MODEL eid (Some (ic_implementation_id cand)) (Some ''1.0.0'') au re pv)"
      unfolding that [symmetric] plan_inference_def Let_def q_def [symmetric] ids_def [symmetric]
        resp_def [symmetric] d sel prod.case delegation_decision.case option.case
      by (cases "ic_execution_class cand \<in> {''REMOTE_MODEL'', ''FRONTIER_MODEL''}") (simp_all, blast+)
    ultimately show ?thesis by (auto split: if_splits)
  next
    case False
    then have other: "(case (as_decision resp, as_selected resp) of (DELEGATE, Some cand) \<Rightarrow> f cand | _ \<Rightarrow> P0) = P0"
      for f and P0 :: execution_plan
      by (cases "as_decision resp"; cases "as_selected resp") simp_all
    show ?thesis
    proof (cases "frontier_fallback fl c o'")
      case True
      then show ?thesis
        using that
        unfolding plan_inference_def Let_def q_def [symmetric] ids_def [symmetric] resp_def [symmetric] other
        by (simp add: frontier_fallback_def) auto
    next
      case False
      then show ?thesis
        using that
        unfolding plan_inference_def Let_def q_def [symmetric] ids_def [symmetric] resp_def [symmetric] other
        by (simp add: frontier_fallback_def) auto
    qed
  qed
qed

section \<open>Properties\<close>

text \<open>
  C9. Routing follows the policy: a known capability is planned only if the contract does not
  revoke it, it is enabled, and the task needs no network the capability forbids; the deterministic executor only
  for capabilities that need no inference and allow it; a model only for capabilities that need inference and under a
  policy that allows it, namely an available, certified, registered model that supports the capability, with
  benchmark evidence for this very capability of a mean score of at least 0.85, or the authorized frontier fallback.
  Everything else is BLOCKED with no executor and no model; an inference capability is never downgraded to the
  deterministic executor.
\<close>

theorem plan_task_policy:
  assumes "plan_task fmt contract fl pol t o' = (o2, plan)" and "tk_capability_id t \<noteq> []"
  shows "pl_routing_class plan = RC_BLOCKED \<and> pl_executor_type plan = ''NONE'' \<and> pl_model_id plan = None \<or>
         (\<exists>c. capability_get (or_capabilities o') (tk_capability_id t) = Some c \<and> cap_enabled c \<and>
            (\<forall>revoked. contract = Some revoked \<longrightarrow> tk_capability_id t \<notin> set revoked) \<and>
            \<not> (cap_network_policy c = ''disabled'' \<and> tf_requires_network fl) \<and>
            (if pl_routing_class plan = RC_DETERMINISTIC
             then \<not> cap_inference_required c \<and> cap_deterministic_allowed c
             else cap_inference_required c \<and> pol_allow_llm pol \<and>
               ((\<exists>mid. pl_model_id plan = Some mid \<and> delegated_model o2 (tk_capability_id t) mid \<and>
                   pl_routing_class plan \<in> {RC_LOCAL_MODEL, RC_FRONTIER_MODEL}) \<or>
                frontier_fallback fl c o2 \<and> pl_routing_class plan = RC_FRONTIER_MODEL)))"
proof (cases "capability_get (or_capabilities o') (tk_capability_id t)")
  case None
  then show ?thesis using assms by (auto simp: plan_task_def Let_def)
next
  case (Some c)
  show ?thesis
  proof (cases "planning_denial contract fl pol (tk_capability_id t) c")
    case den: None
    show ?thesis
    proof (cases "cap_inference_required c")
      case False
      then show ?thesis using assms Some den
        by (auto simp: plan_task_def Let_def planning_denial_None split: if_splits)
    next
      case True
      then obtain prov where "o2 = reconcile_registries o'" "plan_inference fmt fl pol t c prov o2 = plan"
        using assms Some den by (auto simp: plan_task_def Let_def)
      then show ?thesis
        using plan_inference_routes [of fmt fl pol t c prov o2 plan] Some den True
        by (auto simp: planning_denial_None)
    qed
  next
    case (Some reason)
    then show ?thesis using assms \<open>capability_get _ _ = Some c\<close> by (auto simp: plan_task_def Let_def)
  qed
qed

definition demo_task :: "string \<Rightarrow> (string \<times> json) list \<Rightarrow> task" where
  "demo_task cap input = \<lparr>tk_task_id = ''T-1'', tk_capability_id = cap, tk_account_id = ''acct-1'',
     tk_project_id = ''proj-1'', tk_input = input, tk_constraints = [], tk_deadline = 100,
     tk_workspace_policy = ''destroy_on_complete'', tk_evidence_policy = ''required'',
     tk_requested_by = ''kira'', tk_created_at = 0, tk_department_id = None\<rparr>"

definition demo_kernel :: orchestrator where
  "demo_kernel = \<lparr>or_capabilities = capability_init, or_models = registry_blank None,
     or_layer = layer_init, or_frontier = frontier_init False None\<rparr>"

lemma demo_capability:
  "capability_get capability_init ''filesystem.hash'' =
     Some (capability_of_row (''filesystem.hash'', ''Filesystem Hash'', ''Hashes file contents.'', False,
       DETERMINISTIC, ''integrity'', ''read'', True, True))"
  using capability_init_get [of "(''filesystem.hash'', ''Filesystem Hash'', ''Hashes file contents.'', False,
       DETERMINISTIC, ''integrity'', ''read'', True, True)"] by (simp add: initial_rows_def)

theorem plan_task_policy_witness:
  "\<exists>o2 plan c. plan_task (\<lambda>_. ''0.9'') None no_flags default_policy (demo_task ''filesystem.hash'' []) demo_kernel = (o2, plan) \<and>
     pl_routing_class plan = RC_DETERMINISTIC \<and>
     capability_get (or_capabilities demo_kernel) ''filesystem.hash'' = Some c \<and> cap_deterministic_allowed c"
proof -
  obtain o2 plan where plan: "plan_task (\<lambda>_. ''0.9'') None no_flags default_policy (demo_task ''filesystem.hash'' []) demo_kernel = (o2, plan)"
    by (metis prod.collapse)
  have "pl_routing_class plan = RC_DETERMINISTIC"
    using plan demo_capability
    by (auto simp: plan_task_def demo_task_def demo_kernel_def planning_denial_def no_flags_def Let_def)
  moreover have "tk_capability_id (demo_task ''filesystem.hash'' []) = ''filesystem.hash''"
    by (simp add: demo_task_def)
  ultimately show ?thesis
    using plan_task_policy [OF plan] plan by auto
qed

end
