(* ===== verification/Worker.thy ===== *)
theory Worker
  imports Executor McpGateway Kernel
begin

text \<open>
  Workers (runtime/execution/worker.py): creation, the run of a worker through the
  deterministic executor, the tool gateway, the local model or the frontier executor,
  cancellation and termination. A run is split at the call into the executor, which other
  threads may interleave with; what the executors read of the outside is gathered in
  \<open>worker_env\<close>. The files an execution writes into its workspace are described in
  the theory Executor and not repeated here.
\<close>

section \<open>WorkerDefinition and WorkerManager\<close>

record worker_definition =
  wk_worker_id :: string
  wk_execution_id :: string
  wk_task_id :: string
  wk_account_id :: string
  wk_project_id :: string
  wk_capability_id :: string
  wk_executor_type :: string
  wk_executor_id :: string
  wk_model_id :: "string option"
  wk_workspace_id :: string
  wk_created_at :: instant
  wk_deadline :: instant
  wk_resource_limits :: "(string \<times> int) list"
  wk_network_policy :: string
  wk_filesystem_policy :: string
  wk_state :: worker_state
  wk_started_at :: "instant option"
  wk_finished_at :: "instant option"
  wk_department_id :: "string option"
  wk_routing_class :: "string option"
  wk_capability_family :: "string option"

record worker_manager =
  wm_workers :: "(string, worker_definition) dict"
  wm_gateway :: "mcp_gateway option"
  wm_frontier :: "frontier_executor option"
  wm_telemetry :: "(string \<times> worker_definition \<times> (string \<times> string) list) list option"

definition worker_routing_class :: "string \<Rightarrow> string" where
  "worker_routing_class et =
     (if et = ''DETERMINISTIC'' then ''DETERMINISTIC''
      else if et = ''LOCAL_MODEL'' then ''LOCAL_MODEL''
      else if et = ''REMOTE_MODEL'' then ''FRONTIER_MODEL''
      else ''UNKNOWN'')"

definition emit_telemetry ::
  "string \<Rightarrow> worker_definition \<Rightarrow> (string \<times> string) list \<Rightarrow> worker_manager \<Rightarrow> worker_manager" where
  "emit_telemetry etype w extra m =
     (case wm_telemetry m of None \<Rightarrow> m | Some es \<Rightarrow> m\<lparr>wm_telemetry := Some (es @ [(etype, w, extra)])\<rparr>)"

definition put_worker :: "worker_definition \<Rightarrow> worker_manager \<Rightarrow> worker_manager" where
  "put_worker w m = m\<lparr>wm_workers := dict_set (wm_workers m) (wk_worker_id w) w\<rparr>"

definition create_worker ::
  "string \<Rightarrow> instant \<Rightarrow> executor_selection \<Rightarrow> task \<Rightarrow> task_context \<Rightarrow> worker_manager
     \<Rightarrow> worker_manager \<times> task_context \<times> worker_definition" where
  "create_worker hex now sel t cx m =
     (let wid = ''wrk-'' @ hex;
          rc = worker_routing_class (executor_value (es_executor_type sel));
          fam = (case wm_gateway m of
                   None \<Rightarrow> ''unknown''
                 | Some g \<Rightarrow> (case capability_get (gw_capabilities g) (tk_capability_id t) of
                                None \<Rightarrow> ''unknown''
                              | Some c \<Rightarrow> if cap_family c = [] then ''unknown'' else cap_family c));
          cx' = cx\<lparr>tc_routing_class := Some rc, tc_capability_family := Some fam,
                   tc_department_id := tk_department_id t\<rparr>;
          w = \<lparr>wk_worker_id = wid, wk_execution_id = tc_execution_id cx, wk_task_id = tc_task_id cx,
               wk_account_id = tc_account_id cx, wk_project_id = tc_project_id cx,
               wk_capability_id = tc_capability_id cx, wk_executor_type = executor_value (es_executor_type sel),
               wk_executor_id = es_executor_id sel, wk_model_id = es_model_id sel,
               wk_workspace_id = tc_workspace_path cx, wk_created_at = now, wk_deadline = tc_deadline cx,
               wk_resource_limits = tc_resource_limits cx, wk_network_policy = tc_network_policy cx,
               wk_filesystem_policy = tc_write_policy cx, wk_state = W_CREATED, wk_started_at = None,
               wk_finished_at = None, wk_department_id = tk_department_id t, wk_routing_class = Some rc,
               wk_capability_family = Some fam\<rparr>
      in (emit_telemetry ''task.routed'' w [] (put_worker w m), cx', w))"

definition get_worker :: "worker_manager \<Rightarrow> string \<Rightarrow> worker_definition option" where
  "get_worker m wid = dict_get (wm_workers m) wid"

definition list_workers :: "worker_manager \<Rightarrow> worker_definition list" where
  "list_workers m = dict_values (wm_workers m)"

section \<open>The run of a worker\<close>

text \<open>
  What a run reads: hash and length of JSON values, the host and its clock, the start, check
  and finish readings of the worker's own clock, the three readings of the gateway, the state
  of the workspace, and the local model (absent without its artifact; else a result with the
  hash its telemetry reports, or an exception).
\<close>

record 'w worker_env =
  we_hash :: "json \<Rightarrow> string"
  we_json_len :: "json \<Rightarrow> int"
  we_host :: host
  we_clock :: "nat \<Rightarrow> instant"
  we_start :: instant
  we_check :: instant
  we_finish :: instant
  we_request_hex :: string
  we_gateway_times :: "instant \<times> instant \<times> instant"
  we_tools :: "'w tool_world"
  we_present :: bool
  we_ws_size :: int
  we_local :: "(task \<Rightarrow> capability_definition \<Rightarrow> (json \<times> string option) result) option"

definition external_caps :: "string list" where
  "external_caps = [''fabric.read'', ''repository.read'', ''repository.search'', ''fabric.register'']"

text \<open>How the part of \<open>start_worker\<close> inside the \<open>try\<close> ends.\<close>

datatype body_outcome = Finished_body | Stopped string | Raised exn

definition run_external ::
  "'w worker_env \<Rightarrow> string \<Rightarrow> task \<Rightarrow> task_context \<Rightarrow> mcp_gateway option \<times> 'w
     \<Rightarrow> (mcp_gateway option \<times> 'w) \<times> task_context \<times> body_outcome" where
  "run_external env wid t cx gw =
     (case fst gw of
        None \<Rightarrow> (gw, cx, Raised (ValueError ''MCP Gateway not configured for external capabilities''))
      | Some g \<Rightarrow>
          let q = (request_create (we_request_hex env) (we_check env) (tk_capability_id t) (tk_capability_id t)
                     wid (tc_execution_id cx) (tk_input t) (tc_deadline cx))
                    \<lparr>tr_caller_context := [(''workspace_path'', JStr (tc_workspace_path cx))]\<rparr>;
              (t0, t1, t2) = we_gateway_times env;
              ((g', w'), r) = gateway_invoke (we_hash env) (we_json_len env) (we_tools env) t0 t1 t2 q (g, snd gw)
          in if tool_succeeded r
             then ((Some g', w'),
                   fst (finalize_workspace (we_hash env) (we_json_len env) (we_present env) (we_ws_size env) t
                     (cx\<lparr>tc_status := E_SUCCEEDED, tc_result := ts_output_data r,
                         tc_result_hash := (case map_of (ts_evidence r) ''result_hash'' of
                                              Some (JStr s) \<Rightarrow> Some s | _ \<Rightarrow> None)\<rparr>)),
                   Finished_body)
             else ((Some g', w'), cx,
                   let m = (case ts_error_message r of None \<Rightarrow> [] | Some m \<Rightarrow> m) in
                   Raised (case ts_status r of
                             I_DENIED \<Rightarrow> ExecutorSecurityError m
                           | I_TIMED_OUT \<Rightarrow> TimeoutError m
                           | _ \<Rightarrow> Exception m)))"

definition run_local ::
  "'w worker_env \<Rightarrow> task \<Rightarrow> capability_definition \<Rightarrow> task_context \<Rightarrow> task_context \<times> body_outcome" where
  "run_local env t c cx =
     (case we_local env of
        None \<Rightarrow> (cx\<lparr>tc_status := E_FAILED, tc_failure_reason := Some EXECUTION_ERROR,
                    tc_error_message := Some ''Local model unavailable''\<rparr>, Stopped ''UNAVAILABLE'')
      | Some run \<Rightarrow>
          (case run t c of
             Inl e \<Rightarrow> (cx, Raised e)
           | Inr (res, h) \<Rightarrow> (cx\<lparr>tc_status := E_SUCCEEDED, tc_result := Some res, tc_result_hash := h\<rparr>, Finished_body)))"

definition worker_plan :: "task \<Rightarrow> worker_definition \<Rightarrow> execution_plan" where
  "worker_plan t w =
     \<lparr>pl_task_id = tk_task_id t, pl_capability_id = tk_capability_id t, pl_capability_version = ''1.0.0'',
      pl_routing_class = RC_FRONTIER_MODEL, pl_executor_type = ''REMOTE_MODEL'',
      pl_executor_id = (if wk_executor_id w = [] then ''frontier-executor'' else wk_executor_id w),
      pl_model_id = Some (case wk_model_id w of None \<Rightarrow> ''luna'' | Some [] \<Rightarrow> ''luna'' | Some m \<Rightarrow> m),
      pl_model_version = Some ''1.0.0'', pl_policy_version = ''v1.0'', pl_authority = ''anny-kernel'',
      pl_workspace_policy = ''workspace_only'', pl_decision_reason = [], pl_provenance = []\<rparr>"

definition run_frontier ::
  "frontier_executor option \<Rightarrow> task \<Rightarrow> worker_definition \<Rightarrow> task_context \<Rightarrow> task_context \<times> body_outcome" where
  "run_frontier fe_opt t w cx =
     (let p = worker_plan t w; fe = (case fe_opt of None \<Rightarrow> frontier_init True None | Some fe \<Rightarrow> fe)
      in if frontier_available fe (pl_model_id p)
         then (case frontier_execute_plan fe t p of
                 Inl e \<Rightarrow> (cx, Raised e)
               | Inr res \<Rightarrow> (cx\<lparr>tc_status := E_SUCCEEDED, tc_result := Some res,
                                tc_result_hash := Some ''frontier_exec_hash''\<rparr>, Finished_body))
         else (cx\<lparr>tc_status := E_FAILED, tc_failure_reason := Some EXECUTION_ERROR,
                  tc_error_message := Some (''Frontier model '' @ str_opt (pl_model_id p) @ '' unavailable'')\<rparr>,
               Stopped ''UNAVAILABLE''))"

definition worker_body ::
  "'w worker_env \<Rightarrow> worker_definition \<Rightarrow> task \<Rightarrow> capability_definition \<Rightarrow> task_context
     \<Rightarrow> frontier_executor option \<Rightarrow> mcp_gateway option \<times> 'w
     \<Rightarrow> (mcp_gateway option \<times> 'w) \<times> task_context \<times> body_outcome" where
  "worker_body env w t c cx fe gw =
     (if we_check env > wk_deadline w
      then (gw, cx, Raised (TimeoutError ''Deadline exceeded before execution''))
      else if wk_executor_type w = ''DETERMINISTIC''
      then (if tk_capability_id t \<in> set external_caps
            then run_external env (wk_worker_id w) t cx gw
            else (gw, fst (deterministic_execute (we_hash env) (we_json_len env) (we_host env) (we_clock env)
                            (we_start env) (we_finish env) (we_present env) (we_ws_size env) t cx), Finished_body))
      else if wk_executor_type w = ''LOCAL_MODEL''
      then (let (cx', o') = run_local env t c cx in (gw, cx', o'))
      else if wk_executor_type w \<in> {''REMOTE_MODEL'', ''FRONTIER_MODEL''}
      then (let (cx', o') = run_frontier fe t w cx in (gw, cx', o'))
      else (gw, cx\<lparr>tc_status := E_FAILED, tc_failure_reason := Some UNSUPPORTED_EXECUTOR\<rparr>,
            Stopped ''UNSUPPORTED_EXECUTOR''))"

text \<open>A state in an f-string, as Python 3.12 renders the members of a \<open>str\<close> enumeration.\<close>

primrec worker_state_str :: "worker_state \<Rightarrow> string" where
  "worker_state_str W_CREATED = ''WorkerState.CREATED''"
| "worker_state_str W_STARTING = ''WorkerState.STARTING''"
| "worker_state_str W_RUNNING = ''WorkerState.RUNNING''"
| "worker_state_str W_SUCCEEDED = ''WorkerState.SUCCEEDED''"
| "worker_state_str W_FAILED = ''WorkerState.FAILED''"
| "worker_state_str W_TIMED_OUT = ''WorkerState.TIMED_OUT''"
| "worker_state_str W_CANCELLED = ''WorkerState.CANCELLED''"
| "worker_state_str W_LIMIT_EXCEEDED = ''WorkerState.LIMIT_EXCEEDED''"
| "worker_state_str W_TERMINATED = ''WorkerState.TERMINATED''"

text \<open>Before the call: the worker leaves CREATED.\<close>

definition worker_begin :: "instant \<Rightarrow> string \<Rightarrow> worker_manager \<Rightarrow> (worker_manager \<times> worker_definition) result" where
  "worker_begin now wid m =
     (case get_worker m wid of
        None \<Rightarrow> Inl (ValueError (''Worker '' @ wid @ '' not found''))
      | Some w \<Rightarrow>
          if wk_state w \<noteq> W_CREATED
          then Inl (ValueError (''Worker '' @ wid @ '' is in state '' @ worker_state_str (wk_state w) @ '', cannot start''))
          else let w' = w\<lparr>wk_state := W_RUNNING, wk_started_at := Some now\<rparr>
               in Inr (emit_telemetry ''execution.started'' w' [] (put_worker w' m), w'))"

text \<open>
  After the call: the state of the worker, whether its finish time is set, and the context.
  An early return sets no finish time.
\<close>

definition settle :: "body_outcome \<Rightarrow> task_context \<Rightarrow> worker_state \<times> bool \<times> string \<times> task_context" where
  "settle o' cx =
     (case o' of
        Stopped _ \<Rightarrow> (W_FAILED, False, ''execution.failed'', cx)
      | Finished_body \<Rightarrow>
          (case tc_status cx of
             E_SUCCEEDED \<Rightarrow> (W_SUCCEEDED, True, ''execution.completed'', cx)
           | E_TIMED_OUT \<Rightarrow> (W_TIMED_OUT, True, ''execution.timeout'', cx)
           | E_LIMIT_EXCEEDED \<Rightarrow> (W_LIMIT_EXCEEDED, True, ''execution.blocked'', cx)
           | _ \<Rightarrow> (W_FAILED, True, ''execution.failed'', cx))
      | Raised e \<Rightarrow>
          (case e of
             TimeoutError _ \<Rightarrow>
               (W_TIMED_OUT, True, ''execution.timeout'',
                cx\<lparr>tc_status := E_TIMED_OUT, tc_failure_reason := Some R_TIMEOUT\<rparr>)
           | ExecutorLimitsExceeded msg \<Rightarrow>
               (W_LIMIT_EXCEEDED, True, ''execution.blocked'',
                cx\<lparr>tc_status := E_LIMIT_EXCEEDED, tc_failure_reason := Some R_LIMIT_EXCEEDED, tc_error_message := Some msg\<rparr>)
           | ExecutorSecurityError msg \<Rightarrow>
               (W_FAILED, True, ''execution.blocked'',
                cx\<lparr>tc_status := E_FAILED, tc_failure_reason := Some AUTHORIZATION_DENIED, tc_error_message := Some msg\<rparr>)
           | _ \<Rightarrow>
               (W_FAILED, True, ''execution.failed'',
                cx\<lparr>tc_status := E_FAILED, tc_failure_reason := Some EXECUTION_ERROR,
                   tc_error_message := Some (''Worker crash: '' @ str_exn e)\<rparr>)))"

definition worker_end ::
  "instant \<Rightarrow> string \<Rightarrow> worker_state \<times> bool \<times> string \<Rightarrow> worker_manager \<Rightarrow> worker_manager" where
  "worker_end now wid res m =
     (case get_worker m wid of
        None \<Rightarrow> m
      | Some w \<Rightarrow>
          let (st, fin, etype) = res;
              w' = w\<lparr>wk_state := st, wk_finished_at := (if fin then Some now else wk_finished_at w)\<rparr>
          in emit_telemetry etype w' [] (put_worker w' m))"

definition start_worker ::
  "'w worker_env \<Rightarrow> string \<Rightarrow> task \<Rightarrow> capability_definition \<Rightarrow> worker_manager \<times> task_context \<times> 'w
     \<Rightarrow> (worker_manager \<times> task_context \<times> 'w) result" where
  "start_worker env wid t c s =
     (let (m, cx, world) = s in
      and_then (worker_begin (we_start env) wid m) (\<lambda>(m1, w).
        let ((g, world'), cx1, o') = worker_body env w t c cx (wm_frontier m) (wm_gateway m, world);
            (st, fin, etype, cx2) = settle o' cx1
        in Inr (worker_end (we_finish env) wid (st, fin, etype) (m1\<lparr>wm_gateway := g\<rparr>), cx2, world')))"

definition cancel_worker :: "instant \<Rightarrow> string \<Rightarrow> worker_manager \<Rightarrow> worker_manager" where
  "cancel_worker now wid m =
     (case get_worker m wid of
        None \<Rightarrow> m
      | Some w \<Rightarrow>
          if wk_state w \<in> {W_CREATED, W_STARTING, W_RUNNING}
          then let w' = w\<lparr>wk_state := W_CANCELLED, wk_finished_at := Some now\<rparr>
               in emit_telemetry ''execution.cancelled'' w' [] (put_worker w' m)
          else m)"

definition terminate_worker :: "string \<Rightarrow> worker_manager \<Rightarrow> worker_manager" where
  "terminate_worker wid m =
     (case get_worker m wid of
        None \<Rightarrow> m
      | Some w \<Rightarrow>
          if wk_state w \<in> {W_CREATED, W_STARTING, W_RUNNING}
          then let w' = w\<lparr>wk_state := W_TERMINATED\<rparr>
               in emit_telemetry ''execution.terminated'' w' [] (put_worker w' m)
          else m)"

lemma emit_telemetry_frame [simp]:
  "get_worker (emit_telemetry e w x m) = get_worker m" "wm_gateway (emit_telemetry e w x m) = wm_gateway m"
  "wm_workers (emit_telemetry e w x m) = wm_workers m"
  by (auto simp: emit_telemetry_def get_worker_def fun_eq_iff split: option.splits)

lemma get_put_worker [simp]:
  "get_worker (put_worker w m) wid = (if wid = wk_worker_id w then Some w else get_worker m wid)"
  by (simp add: get_worker_def put_worker_def)

lemma get_worker_gateway [simp]: "get_worker (m\<lparr>wm_gateway := g\<rparr>) wid = get_worker m wid"
  by (simp add: get_worker_def)

section \<open>Worker state and execution status agree\<close>

fun agree :: "worker_state \<Rightarrow> execution_status \<Rightarrow> bool" where
  "agree W_SUCCEEDED st = (st = E_SUCCEEDED)"
| "agree W_TIMED_OUT st = (st = E_TIMED_OUT)"
| "agree W_LIMIT_EXCEEDED st = (st = E_LIMIT_EXCEEDED)"
| "agree W_FAILED st = (st \<notin> {E_SUCCEEDED, E_TIMED_OUT, E_LIMIT_EXCEEDED})"
| "agree _ st = False"

definition terminal :: "worker_state \<Rightarrow> bool" where
  "terminal st = (st \<notin> {W_CREATED, W_STARTING, W_RUNNING})"

lemma agree_terminal: "agree st e \<Longrightarrow> terminal st"
  by (cases st) (simp_all add: terminal_def)

text \<open>An early return leaves a context that did not succeed.\<close>

lemma worker_body_stopped:
  assumes "worker_body env w t c cx fe gw = (gw', cx', Stopped why)"
  shows "tc_status cx' = E_FAILED"
  using assms
  by (auto simp: worker_body_def run_external_def run_local_def run_frontier_def Let_def
           split: if_splits option.splits sum.splits prod.splits)

lemma settle_agree:
  assumes "settle o' cx = (st, fin, etype, cx')" and "\<And>why. o' = Stopped why \<Longrightarrow> tc_status cx = E_FAILED"
  shows "agree st (tc_status cx')"
proof (cases o')
  case Finished_body
  then show ?thesis using assms(1) by (cases "tc_status cx") (auto simp: settle_def)
next
  case (Stopped why)
  then show ?thesis using assms by (auto simp: settle_def)
next
  case (Raised e)
  then show ?thesis using assms(1) by (cases e) (auto simp: settle_def)
qed

lemma worker_begin_Inr:
  "worker_begin now wid m = Inr (m1, w') \<longleftrightarrow>
     (\<exists>w. get_worker m wid = Some w \<and> wk_state w = W_CREATED \<and>
        w' = w\<lparr>wk_state := W_RUNNING, wk_started_at := Some now\<rparr> \<and>
        m1 = emit_telemetry ''execution.started'' w' [] (put_worker w' m))"
  by (auto simp: worker_begin_def Let_def split: option.splits)

text \<open>Workers are stored under their own id.\<close>

definition workers_keyed :: "worker_manager \<Rightarrow> bool" where
  "workers_keyed m \<longleftrightarrow> (\<forall>wid w. get_worker m wid = Some w \<longrightarrow> wk_worker_id w = wid)"

lemma get_worker_end:
  assumes "workers_keyed m"
  shows "get_worker (worker_end now wid (st, fin, etype) m) wid' =
     (if wid' = wid then map_option (\<lambda>w. w\<lparr>wk_state := st, wk_finished_at := (if fin then Some now else wk_finished_at w)\<rparr>)
                           (get_worker m wid)
      else get_worker m wid')"
  using assms by (auto simp: worker_end_def workers_keyed_def Let_def split: option.splits)

lemma start_worker_result:
  assumes "workers_keyed m" and "start_worker env wid t c (m, cx, world) = Inr (m', cx', world')"
  shows "\<exists>w w'. get_worker m wid = Some w \<and> wk_state w = W_CREATED \<and> get_worker m' wid = Some w' \<and>
     wk_worker_id w' = wid \<and> agree (wk_state w') (tc_status cx') \<and>
     (\<forall>wid'. wid' \<noteq> wid \<longrightarrow> get_worker m' wid' = get_worker m wid')"
proof -
  obtain m1 w1 where started: "worker_begin (we_start env) wid m = Inr (m1, w1)"
    using assms(2) by (auto simp: start_worker_def)
  then obtain w where w: "get_worker m wid = Some w" "wk_state w = W_CREATED"
      "w1 = w\<lparr>wk_state := W_RUNNING, wk_started_at := Some (we_start env)\<rparr>"
      "m1 = emit_telemetry ''execution.started'' w1 [] (put_worker w1 m)"
    by (auto simp: worker_begin_Inr)
  have wid: "wk_worker_id w = wid" using assms(1) w(1) by (simp add: workers_keyed_def)
  obtain g wld cx1 o' where body: "worker_body env w1 t c cx (wm_frontier m) (wm_gateway m, world) = ((g, wld), cx1, o')"
    by (metis prod.exhaust)
  obtain st fin etype cx2 where settle: "settle o' cx1 = (st, fin, etype, cx2)"
    by (metis prod.exhaust)
  have ag: "agree st (tc_status cx2)"
    using settle by (rule settle_agree) (use body worker_body_stopped in blast)
  have keyed: "workers_keyed (m1\<lparr>wm_gateway := g\<rparr>)"
    using assms(1) wid by (auto simp: workers_keyed_def w(3,4))
  have "m' = worker_end (we_finish env) wid (st, fin, etype) (m1\<lparr>wm_gateway := g\<rparr>)" "cx' = cx2"
    using assms(2) by (simp_all add: start_worker_def started body settle)
  moreover have g1: "get_worker (m1\<lparr>wm_gateway := g\<rparr>) x = (if x = wid then Some w1 else get_worker m x)" for x
    using wid by (simp add: w(3,4))
  moreover have "wk_worker_id w1 = wid" using wid by (simp add: w(3))
  ultimately show ?thesis
    using w(1,2) ag by (simp add: get_worker_end [OF keyed] g1)
qed

text \<open>What a run keeps of its worker and of the store.\<close>

lemma start_worker_frame:
  assumes "workers_keyed m" and "start_worker env wid t c (m, cx, world) = Inr (m', cx', world')"
    and "get_worker m wid = Some w" and "get_worker m' wid = Some w'"
  shows "wk_execution_id w' = wk_execution_id w \<and> (dict_wf (wm_workers m) \<longrightarrow> dict_wf (wm_workers m'))"
proof -
  obtain m1 w1 where started: "worker_begin (we_start env) wid m = Inr (m1, w1)"
    using assms(2) by (auto simp: start_worker_def)
  then have w1: "w1 = w\<lparr>wk_state := W_RUNNING, wk_started_at := Some (we_start env)\<rparr>"
      "m1 = emit_telemetry ''execution.started'' w1 [] (put_worker w1 m)"
    using assms(3) by (auto simp: worker_begin_Inr)
  have wid: "wk_worker_id w1 = wid" using assms(1,3) by (simp add: workers_keyed_def w1(1))
  obtain gw cx1 o' where body: "worker_body env w1 t c cx (wm_frontier m) (wm_gateway m, world) = (gw, cx1, o')"
    by (metis prod.exhaust)
  obtain st fin etype cx2 where settle: "settle o' cx1 = (st, fin, etype, cx2)"
    by (metis prod.exhaust)
  have m': "m' = worker_end (we_finish env) wid (st, fin, etype) (m1\<lparr>wm_gateway := fst gw\<rparr>)"
    using assms(2) by (simp add: start_worker_def started body settle split_beta)
  have g1: "get_worker (m1\<lparr>wm_gateway := g\<rparr>) wid = Some w1" for g using wid by (simp add: w1(2))
  have "dict_wf (wm_workers m) \<longrightarrow> dict_wf (wm_workers m')"
    unfolding m' worker_end_def g1 by (auto simp: Let_def put_worker_def w1(2))
  moreover have "wk_execution_id w' = wk_execution_id w"
    using assms(4) wid unfolding m' worker_end_def g1 by (auto simp: Let_def w1(1))
  ultimately show ?thesis by blast
qed

section \<open>Lifecycle\<close>

text \<open>The state of the outside belongs to the state of a run.\<close>

inductive worker_step :: "worker_manager \<times> 'w \<Rightarrow> worker_manager \<times> 'w \<Rightarrow> bool" where
  create: "get_worker m (''wrk-'' @ hex) = None \<Longrightarrow>
     create_worker hex now sel t cx m = (m', cx', w) \<Longrightarrow> worker_step (m, world) (m', world)"
| start: "start_worker env wid t c (m, cx, world) = Inr (m', cx', world') \<Longrightarrow> worker_step (m, world) (m', world')"
| cancel: "worker_step (m, world) (cancel_worker now wid m, world)"
| terminate: "worker_step (m, world) (terminate_worker wid m, world)"

inductive_cases worker_stepE: "worker_step s s'"

definition worker_frozen :: "string \<Rightarrow> worker_definition \<Rightarrow> worker_manager \<Rightarrow> bool" where
  "worker_frozen wid w m \<longleftrightarrow> workers_keyed m \<and> get_worker m wid = Some w \<and> terminal (wk_state w)"

lemma workers_keyed_put: "workers_keyed m \<Longrightarrow> workers_keyed (put_worker w m)"
  by (simp add: workers_keyed_def)

lemma workers_keyed_emit [simp]: "workers_keyed (emit_telemetry e w x m) = workers_keyed m"
  by (simp add: workers_keyed_def)

lemma create_worker_frozen:
  assumes "worker_frozen wid w m" "get_worker m (''wrk-'' @ hex) = None"
    and "create_worker hex now sel t cx m = (m', cx', w')"
  shows "worker_frozen wid w m'"
proof -
  have "m' = emit_telemetry ''task.routed'' w' [] (put_worker w' m)" "wk_worker_id w' = ''wrk-'' @ hex"
    using assms(3) by (auto simp: create_worker_def Let_def)
  then show ?thesis using assms(1,2) by (auto simp: worker_frozen_def workers_keyed_put)
qed

lemma start_worker_frozen:
  assumes "worker_frozen wid w m" and "start_worker env wid' t c (m, cx, world) = Inr (m', cx', world')"
  shows "worker_frozen wid w m'"
proof -
  have keyed: "workers_keyed m" using assms(1) by (simp add: worker_frozen_def)
  obtain v v' where v: "get_worker m wid' = Some v" "wk_state v = W_CREATED" "get_worker m' wid' = Some v'"
      "wk_worker_id v' = wid'" "\<forall>x. x \<noteq> wid' \<longrightarrow> get_worker m' x = get_worker m x"
    using start_worker_result [OF keyed assms(2)] by blast
  then have "wid \<noteq> wid'" using assms(1) by (auto simp: worker_frozen_def terminal_def)
  moreover have "workers_keyed m'"
    using keyed v(3,4,5) unfolding workers_keyed_def by (metis option.inject)
  ultimately show ?thesis using assms(1) v(5) by (simp add: worker_frozen_def)
qed

lemma cancel_worker_frozen: "worker_frozen wid w m \<Longrightarrow> worker_frozen wid w (cancel_worker now wid' m)"
  by (auto simp: worker_frozen_def cancel_worker_def terminal_def Let_def workers_keyed_put
           split: option.splits) (auto simp: workers_keyed_def)

lemma terminate_worker_frozen: "worker_frozen wid w m \<Longrightarrow> worker_frozen wid w (terminate_worker wid' m)"
  by (auto simp: worker_frozen_def terminate_worker_def terminal_def Let_def workers_keyed_put
           split: option.splits) (auto simp: workers_keyed_def)

lemma worker_frozen_step: "worker_frozen wid w (fst s) \<Longrightarrow> worker_step s s' \<Longrightarrow> worker_frozen wid w (fst s')"
  by (erule worker_stepE)
     (auto intro: create_worker_frozen start_worker_frozen cancel_worker_frozen terminate_worker_frozen)

interpretation worker_life: one_way worker_step "\<lambda>s. worker_frozen wid w (fst s)" for wid w
  by unfold_locales (rule worker_frozen_step)

section \<open>Properties\<close>

text \<open>
  C27. Starting a worker is all or nothing and consistent: it is accepted only in state
  CREATED, and whatever executor runs and however it ends (result, early return, any
  exception), the worker ends in a terminal state that agrees with the status of the
  execution; no other worker changes.
\<close>

theorem start_worker_consistent:
  assumes "workers_keyed m" and "start_worker env wid t c (m, cx, world) = Inr (m', cx', world')"
  shows "\<exists>w w'. get_worker m wid = Some w \<and> wk_state w = W_CREATED \<and>
           get_worker m' wid = Some w' \<and> terminal (wk_state w') \<and> agree (wk_state w') (tc_status cx') \<and>
           (\<forall>wid'. wid' \<noteq> wid \<longrightarrow> get_worker m' wid' = get_worker m wid')"
  using start_worker_result [OF assms] agree_terminal by blast

text \<open>
  A worker that has ended is never touched again: over any sequence of creations (under
  fresh ids), starts, cancellations and terminations its definition stays exactly as it was.
\<close>

theorem worker_ends_once:
  assumes "workers_keyed m" and "get_worker m wid = Some w" and "terminal (wk_state w)"
    and "worker_step\<^sup>*\<^sup>* (m, world) (m', world')"
  shows "get_worker m' wid = Some w"
  using worker_life.over_forever [OF assms(4), of wid w] assms(1-3) by (simp add: worker_frozen_def)

definition demo_manager :: worker_manager where
  "demo_manager = \<lparr>wm_workers = [], wm_gateway = Some demo_gateway, wm_frontier = None, wm_telemetry = Some []\<rparr>"

definition demo_selection :: executor_selection where
  "demo_selection = \<lparr>es_executor_type = DETERMINISTIC, es_executor_id = ''deterministic-v1'',
     es_executor_version = ''1.0.0'', es_model_id = None, es_model_version = None, es_reason = [],
     es_policy_version = ''1.0.0'', es_risk_class = ''low'', es_execution_mode = Some ''DETERMINISTIC''\<rparr>"

definition demo_env :: "nat worker_env" where
  "demo_env = \<lparr>we_hash = (\<lambda>_. ''h''), we_json_len = (\<lambda>_. 10), we_host = demo_host, we_clock = (\<lambda>_. 5),
     we_start = 1, we_check = 2, we_finish = 9, we_request_hex = ''1'', we_gateway_times = (2, 3, 4),
     we_tools = demo_world, we_present = True, we_ws_size = 10, we_local = None\<rparr>"

definition demo_created :: worker_manager where
  "demo_created = fst (create_worker ''1'' 0 demo_selection (demo_hash_task ''/srv/x'') demo_task_context demo_manager)"

lemma demo_created_get:
  "get_worker demo_created wid = (if wid = ''wrk-1''
     then Some (snd (snd (create_worker ''1'' 0 demo_selection (demo_hash_task ''/srv/x'') demo_task_context demo_manager)))
     else None)"
  by (simp add: demo_created_def create_worker_def demo_manager_def get_worker_def put_worker_def
        emit_telemetry_def Let_def)

lemma demo_created_keyed: "workers_keyed demo_created"
  by (simp add: workers_keyed_def demo_created_get create_worker_def Let_def)

lemma demo_starts:
  "\<exists>s. start_worker demo_env ''wrk-1'' (demo_hash_task ''/srv/x'') cap (demo_created, demo_task_context, 0) = Inr s"
proof -
  have "\<exists>m1 w1. worker_begin (we_start demo_env) ''wrk-1'' demo_created = Inr (m1, w1)"
    by (simp add: worker_begin_def demo_created_get create_worker_def Let_def)
  then obtain m1 w1 where started: "worker_begin (we_start demo_env) ''wrk-1'' demo_created = Inr (m1, w1)"
    by blast
  obtain gw cx1 o' where "worker_body demo_env w1 (demo_hash_task ''/srv/x'') cap demo_task_context
      (wm_frontier demo_created) (wm_gateway demo_created, 0) = (gw, cx1, o')"
    by (metis prod.exhaust)
  then show ?thesis by (simp add: start_worker_def started split_beta)
qed

theorem start_worker_consistent_witness:
  "\<exists>m' cx' w'. start_worker demo_env ''wrk-1'' (demo_hash_task ''/srv/x'') (capability_of_row (hd initial_rows))
      (demo_created, demo_task_context, 0) = Inr (m', cx', w') \<and>
     (\<exists>v. get_worker m' ''wrk-1'' = Some v \<and> terminal (wk_state v))"
proof -
  obtain m' cx' w' where run: "start_worker demo_env ''wrk-1'' (demo_hash_task ''/srv/x'')
      (capability_of_row (hd initial_rows)) (demo_created, demo_task_context, 0) = Inr (m', cx', w')"
    using demo_starts by (metis prod.exhaust)
  then show ?thesis using start_worker_consistent [OF demo_created_keyed run] by blast
qed

theorem worker_ends_once_witness:
  "\<exists>w. get_worker (cancel_worker 3 ''wrk-1'' demo_created) ''wrk-1'' = Some w \<and> wk_state w = W_CANCELLED \<and>
     get_worker (terminate_worker ''wrk-1'' (cancel_worker 3 ''wrk-1'' demo_created)) ''wrk-1'' = Some w"
proof -
  have "\<exists>w. get_worker (cancel_worker 3 ''wrk-1'' demo_created) ''wrk-1'' = Some w \<and> wk_state w = W_CANCELLED"
    by (simp add: cancel_worker_def demo_created_get create_worker_def Let_def)
  then obtain w where w: "get_worker (cancel_worker 3 ''wrk-1'' demo_created) ''wrk-1'' = Some w" "wk_state w = W_CANCELLED"
    by blast
  have keyed: "workers_keyed (cancel_worker 3 ''wrk-1'' demo_created)"
    using demo_created_keyed by (simp add: cancel_worker_def demo_created_get create_worker_def Let_def workers_keyed_put)
  have "worker_step\<^sup>*\<^sup>* (cancel_worker 3 ''wrk-1'' demo_created, 0 :: nat)
      (terminate_worker ''wrk-1'' (cancel_worker 3 ''wrk-1'' demo_created), 0)"
    by (rule r_into_rtranclp) (rule worker_step.terminate)
  from worker_ends_once [OF keyed w(1) _ this] w show ?thesis by (simp add: terminal_def)
qed

section \<open>Two defects\<close>

text \<open>
  A cancellation that arrives while the executor runs is overwritten: the thread that runs the
  worker settles it without looking at its state again.
\<close>

lemma cancellation_lost:
  assumes "get_worker m wid = Some w" and "wk_state w = W_RUNNING" and "wk_worker_id w = wid"
  shows "\<exists>w'. get_worker (worker_end t2 wid (W_SUCCEEDED, True, ''execution.completed'') (cancel_worker t1 wid m)) wid = Some w' \<and>
     wk_state w' = W_SUCCEEDED"
  using assms by (simp add: cancel_worker_def worker_end_def Let_def)

text \<open>
  \<open>repository.read\<close> cannot be executed: the worker presents the capability under the name
  of the tool, which the policy of the initial registry does not list, so the gateway denies
  every call.
\<close>

lemma repository_read_policy:
  "\<exists>p. get_policy mcp_registry_init ''repository.read'' = Some p \<and> ''repository.read'' \<notin> set (tp_allowed_callers p)"
  by (simp add: mcp_registry_init_def initial_policies_def initial_tools_def register_tool_def register_policy_def
        get_policy_def)

lemma repository_read_unavailable:
  assumes "gw_tools g = mcp_registry_init" and "tk_capability_id t = ''repository.read''"
    and "run_external env wid t cx (Some g, world) = (gw', cx', o')"
  shows "snd gw' = world \<and> cx' = cx \<and> (\<exists>e. o' = Raised e)"
proof -
  obtain t0 t1 t2 where times: "we_gateway_times env = (t0, t1, t2)" by (metis prod.exhaust)
  define q where "q = (request_create (we_request_hex env) (we_check env) ''repository.read'' ''repository.read''
     wid (tc_execution_id cx) (tk_input t) (tc_deadline cx))
     \<lparr>tr_caller_context := [(''workspace_path'', JStr (tc_workspace_path cx))]\<rparr>"
  obtain g' w' r where inv: "gateway_invoke (we_hash env) (we_json_len env) (we_tools env) t0 t1 t2 q (g, world) = ((g', w'), r)"
    by (metis prod.exhaust)
  have "tr_tool_id q = ''repository.read''" "tr_capability_id q = ''repository.read''"
    by (simp_all add: q_def request_create_def)
  then have "\<not> call_permitted (we_json_len env) g t1 q"
    using repository_read_policy assms(1) by (auto simp: call_permitted_def)
  then have "refused (g, world) (g', w') r"
    using gateway_invoke_refused [OF _ inv] by blast
  then show ?thesis
    using assms(2,3) inv times by (auto simp: run_external_def q_def refused_def tool_succeeded_def Let_def)
qed

end
