(* ===== verification/Continuity.thy ===== *)
theory Continuity
  imports Journals
begin

text \<open>
  The continuity engine (runtime/continuity/engine.py, models.py and events.py): records and
  events in memory, their append-only files, loading with quarantine and renumbering, and the
  reconstruction of an execution. Generated identifiers and time stamps are arguments.
\<close>

section \<open>Data\<close>

datatype continuity_event_type =
    MISSION_CREATED | MISSION_STARTED | TASK_CREATED | TASK_STARTED | STEP_CREATED | STEP_STARTED
  | ACTION_STARTED | ACTION_COMPLETED | ACTION_FAILED
  | REPOSITORY_INSPECTED | REPOSITORY_MUTATED | MUTATION_PREPARED | MUTATION_FINALIZED | COMMIT_CREATED
  | TEST_STARTED | TEST_COMPLETED | EVIDENCE_CREATED | DECISION_RECORDED | STATE_CHANGED
  | BLOCKER_CREATED | BLOCKER_CLEARED | HANDOFF_CREATED | HANDOFF_ACCEPTED | STEP_PAUSED | STEP_RESUMED
  | MISSION_BLOCKED | MISSION_RESUMED | MISSION_VERIFIED | MISSION_CERTIFIED | MISSION_SUPERSEDED

record continuity_record =
  cn_continuity_id :: string
  cn_mission_id :: string
  cn_task_id :: string
  cn_parent_task_id :: "string option"
  cn_step_id :: string
  cn_parent_step_id :: "string option"
  cn_created_at :: string
  cn_started_at :: "string option"
  cn_updated_at :: string
  cn_completed_at :: "string option"
  cn_certified_at :: "string option"
  cn_actor_id :: string
  cn_actor_level :: string
  cn_parent_actor_id :: "string option"
  cn_status :: string
  cn_implementation_state :: string
  cn_verification_state :: string
  cn_certification_state :: string
  cn_objective :: string
  cn_reason :: string
  cn_repository :: "string option"
  cn_branch :: "string option"
  cn_commit_before :: "string option"
  cn_commit_after :: "string option"
  cn_files_changed :: "string list"
  cn_change_summary :: "string option"
  cn_actions :: "string list"
  cn_tools :: "string list"
  cn_tests :: "string list"
  cn_test_results :: "json list"
  cn_evidence_refs :: "string list"
  cn_artifact_refs :: "string list"
  cn_decision_refs :: "string list"
  cn_blocker_refs :: "string list"
  cn_fabric_node :: "string option"
  cn_fabric_tenant :: "string option"
  cn_fabric_project :: "string option"
  cn_resource_ids :: "string list"
  cn_state_before :: "string option"
  cn_state_after :: "string option"
  cn_current_step :: "string option"
  cn_last_completed_step :: "string option"
  cn_next_action :: "string option"
  cn_handoff_target :: "string option"
  cn_handoff_status :: "string option"
  cn_execution_id :: "string option"

definition record_create ::
  "string \<Rightarrow> string \<Rightarrow> string \<Rightarrow> string \<Rightarrow> string \<Rightarrow> string \<Rightarrow> string \<Rightarrow> string \<Rightarrow> string option \<Rightarrow> continuity_record" where
  "record_create hex now mission tsk step actor level objective ex =
     \<lparr>cn_continuity_id = hex, cn_mission_id = mission, cn_task_id = tsk, cn_parent_task_id = None,
      cn_step_id = step, cn_parent_step_id = None, cn_created_at = now, cn_started_at = None,
      cn_updated_at = now, cn_completed_at = None, cn_certified_at = None, cn_actor_id = actor,
      cn_actor_level = level, cn_parent_actor_id = None, cn_status = ''PENDING'',
      cn_implementation_state = ''PENDING'', cn_verification_state = ''PENDING'',
      cn_certification_state = ''NOT_CERTIFIED'', cn_objective = objective, cn_reason = [],
      cn_repository = None, cn_branch = None, cn_commit_before = None, cn_commit_after = None,
      cn_files_changed = [], cn_change_summary = None, cn_actions = [], cn_tools = [], cn_tests = [],
      cn_test_results = [], cn_evidence_refs = [], cn_artifact_refs = [], cn_decision_refs = [],
      cn_blocker_refs = [], cn_fabric_node = None, cn_fabric_tenant = None, cn_fabric_project = None,
      cn_resource_ids = [], cn_state_before = None, cn_state_after = None, cn_current_step = Some step,
      cn_last_completed_step = None, cn_next_action = None, cn_handoff_target = None,
      cn_handoff_status = None, cn_execution_id = ex\<rparr>"

record event_record =
  er_event_id :: string
  er_sequence :: int
  er_timestamp :: string
  er_mission_id :: string
  er_task_id :: string
  er_step_id :: string
  er_parent_event_id :: "string option"
  er_actor_id :: string
  er_actor_level :: string
  er_parent_actor_id :: "string option"
  er_event_type :: continuity_event_type
  er_target :: string
  er_intent :: string
  er_inputs :: "(string \<times> json) list"
  er_repository :: "string option"
  er_branch :: "string option"
  er_commit_before :: "string option"
  er_commit_after :: "string option"
  er_files_changed :: "string list"
  er_observation :: string
  er_result :: string
  er_evidence_refs :: "string list"
  er_test_results :: "json list"
  er_decision_ref :: "string option"
  er_state_change :: "string option"
  er_status :: string
  er_implementation_state :: string
  er_verification_state :: string
  er_certification_state :: string
  er_blocker_refs :: "string list"
  er_next_action :: "string option"
  er_fabric_node :: "string option"
  er_fabric_tenant :: "string option"
  er_fabric_project :: "string option"
  er_resource_ids :: "string list option"
  er_state_before :: "string option"
  er_state_after :: "string option"
  er_execution_id :: "string option"

section \<open>ContinuityEngine\<close>

datatype corruption_severity = C_CLEAN | C_RECOVERED | C_QUARANTINED | C_BLOCKED

text \<open>A quarantine entry names the file and the line (the raw text is left out).\<close>

type_synonym quarantine_entry = "string \<times> nat"

record continuity_engine =
  ce_records :: "(string, continuity_record) dict"
  ce_events :: "event_record list"
  ce_sequence :: int
  ce_quarantined :: "quarantine_entry list"
  ce_status :: corruption_severity
  ce_records_file :: "continuity_record jsonl"
  ce_events_file :: "event_record jsonl"
  ce_quarantine_file :: "quarantine_entry list"

definition quarantine_line :: "string \<Rightarrow> nat \<Rightarrow> continuity_engine \<Rightarrow> continuity_engine" where
  "quarantine_line file n s =
     s\<lparr>ce_quarantined := ce_quarantined s @ [(file, n)], ce_status := C_QUARANTINED,
       ce_quarantine_file := ce_quarantine_file s @ [(file, n)]\<rparr>"

definition put_record :: "(string, continuity_record) dict \<Rightarrow> continuity_record \<Rightarrow> (string, continuity_record) dict" where
  "put_record d r = dict_set d (cn_continuity_id r) r"

fun load_records :: "nat \<Rightarrow> continuity_record line list \<Rightarrow> continuity_engine \<Rightarrow> continuity_engine" where
  "load_records n [] s = s"
| "load_records n (Blank # ls) s = load_records (Suc n) ls s"
| "load_records n (Parsed r # ls) s = load_records (Suc n) ls (s\<lparr>ce_records := put_record (ce_records s) r\<rparr>)"
| "load_records n (Garbled # ls) s = load_records (Suc n) ls (quarantine_line ''continuity_records.jsonl'' n s)"

definition load_event :: "event_record \<Rightarrow> continuity_engine \<Rightarrow> continuity_engine" where
  "load_event e s =
     (let renumber = (er_sequence e \<le> ce_sequence s);
          e' = (if renumber then e\<lparr>er_sequence := ce_sequence s + 1\<rparr> else e)
      in s\<lparr>ce_status := (if renumber then C_RECOVERED else ce_status s),
           ce_events := ce_events s @ [e'],
           ce_sequence := (if er_sequence e' > ce_sequence s then er_sequence e' else ce_sequence s)\<rparr>)"

fun load_events :: "nat \<Rightarrow> event_record line list \<Rightarrow> continuity_engine \<Rightarrow> continuity_engine" where
  "load_events n [] s = s"
| "load_events n (Blank # ls) s = load_events (Suc n) ls s"
| "load_events n (Parsed e # ls) s = load_events (Suc n) ls (load_event e s)"
| "load_events n (Garbled # ls) s = load_events (Suc n) ls (quarantine_line ''event_records.jsonl'' n s)"

definition continuity_load :: "continuity_engine \<Rightarrow> continuity_engine" where
  "continuity_load s =
     load_events 1 (jl_read (ce_events_file s))
       (load_records 1 (jl_read (ce_records_file s))
         (s\<lparr>ce_records := [], ce_events := [], ce_sequence := 0, ce_quarantined := [], ce_status := C_CLEAN\<rparr>))"

text \<open>A new engine on a directory without files.\<close>

definition continuity_init :: continuity_engine where
  "continuity_init = continuity_load
     \<lparr>ce_records = [], ce_events = [], ce_sequence = 0, ce_quarantined = [], ce_status = C_CLEAN,
      ce_records_file = jl_empty, ce_events_file = jl_empty, ce_quarantine_file = []\<rparr>"

definition save_record :: "continuity_record \<Rightarrow> continuity_engine \<Rightarrow> continuity_engine" where
  "save_record r s =
     s\<lparr>ce_records := put_record (ce_records s) r, ce_records_file := jl_append r (ce_records_file s)\<rparr>"

definition number_event :: "continuity_engine \<Rightarrow> event_record \<Rightarrow> event_record" where
  "number_event s e = e\<lparr>er_sequence := ce_sequence s + 1\<rparr>"

definition append_event :: "event_record \<Rightarrow> continuity_engine \<Rightarrow> continuity_engine" where
  "append_event e s =
     (let e' = number_event s e
      in s\<lparr>ce_sequence := er_sequence e', ce_events := ce_events s @ [e'],
           ce_events_file := jl_append e' (ce_events_file s)\<rparr>)"

definition get_record :: "continuity_engine \<Rightarrow> string \<Rightarrow> continuity_record option" where
  "get_record s cid = dict_get (ce_records s) cid"

definition records_by_mission :: "continuity_engine \<Rightarrow> string \<Rightarrow> continuity_record list" where
  "records_by_mission s m = filter (\<lambda>r. cn_mission_id r = m) (dict_values (ce_records s))"

definition events_by_mission :: "continuity_engine \<Rightarrow> string \<Rightarrow> event_record list" where
  "events_by_mission s m = filter (\<lambda>e. er_mission_id e = m) (ce_events s)"

definition records_by_task :: "continuity_engine \<Rightarrow> string \<Rightarrow> continuity_record list" where
  "records_by_task s t = filter (\<lambda>r. cn_task_id r = t) (dict_values (ce_records s))"

definition events_by_task :: "continuity_engine \<Rightarrow> string \<Rightarrow> event_record list" where
  "events_by_task s t = filter (\<lambda>e. er_task_id e = t) (ce_events s)"

lemmas continuity_defs [op_defs] = save_record_def append_event_def number_event_def

section \<open>Reconstruction of an execution\<close>

record reconstruction =
  rx_execution_id :: string
  rx_task_id :: string
  rx_capability_id :: string
  rx_status :: string
  rx_events_count :: nat
  rx_latest_event_type :: "continuity_event_type option"
  rx_latest_sequence :: int
  rx_evidence_refs :: "string list"
  rx_files_changed :: "string list"
  rx_commit_before :: "string option"
  rx_commit_after :: "string option"
  rx_fabric_node :: "string option"
  rx_fabric_tenant :: "string option"
  rx_inputs :: "(string \<times> json) list"

definition last_opt :: "'a list \<Rightarrow> 'a option" where
  "last_opt xs = (if xs = [] then None else Some (last xs))"

text \<open>\<open>f(record) if record else (g(event) if event else default)\<close>\<close>

definition pick :: "('r \<Rightarrow> 'v) \<Rightarrow> ('e \<Rightarrow> 'v) \<Rightarrow> 'v \<Rightarrow> 'r option \<Rightarrow> 'e option \<Rightarrow> 'v" where
  "pick f g d r e = (case r of Some x \<Rightarrow> f x | None \<Rightarrow> (case e of Some y \<Rightarrow> g y | None \<Rightarrow> d))"

definition final_statuses :: "string list" where
  "final_statuses = [''COMPLETE'', ''SUCCESS'', ''FAILED'', ''VERIFIED'', ''SUCCEEDED'', ''TIMED_OUT'']"

definition reconstruct_execution :: "continuity_engine \<Rightarrow> string \<Rightarrow> reconstruction option" where
  "reconstruct_execution s x =
     (let recs = filter (\<lambda>r. cn_execution_id r = Some x \<or> cn_task_id r = x \<or> cn_continuity_id r = x)
                   (dict_values (ce_records s));
          evs = filter (\<lambda>e. er_execution_id e = Some x \<or> er_task_id e = x \<or>
                            map_of (er_inputs e) ''execution_id'' = Some (JStr x)) (ce_events s)
      in if recs = [] \<and> evs = [] then None
         else let r = last_opt recs; sorted = sort_key er_sequence evs; e = last_opt sorted in
           Some \<lparr>rx_execution_id = x,
             rx_task_id = pick cn_task_id er_task_id x r e,
             rx_capability_id = pick cn_step_id er_step_id ''unknown'' r e,
             rx_status = (case e of
                 Some e' \<Rightarrow> if er_status e' \<in> set final_statuses then er_status e'
                           else pick cn_status er_status ''UNKNOWN'' r e
               | None \<Rightarrow> pick cn_status er_status ''UNKNOWN'' r e),
             rx_events_count = length sorted,
             rx_latest_event_type = map_option er_event_type e,
             rx_latest_sequence = (case e of None \<Rightarrow> 0 | Some e' \<Rightarrow> er_sequence e'),
             rx_evidence_refs = pick cn_evidence_refs er_evidence_refs [] r e,
             rx_files_changed = pick cn_files_changed er_files_changed [] r e,
             rx_commit_before = pick cn_commit_before er_commit_before None r e,
             rx_commit_after = pick cn_commit_after er_commit_after None r e,
             rx_fabric_node = pick cn_fabric_node er_fabric_node None r e,
             rx_fabric_tenant = pick cn_fabric_tenant er_fabric_tenant None r e,
             rx_inputs = (case e of None \<Rightarrow> [] | Some e' \<Rightarrow> er_inputs e')\<rparr>)"

section \<open>Loading\<close>

lemma load_records_frame:
  "ce_events (load_records n ls s) = ce_events s \<and> ce_sequence (load_records n ls s) = ce_sequence s \<and>
   ce_records_file (load_records n ls s) = ce_records_file s \<and> ce_events_file (load_records n ls s) = ce_events_file s \<and>
   ce_records (load_records n ls s) = foldl put_record (ce_records s) (parsed ls)"
  by (induction n ls s rule: load_records.induct) (auto simp: quarantine_line_def)

lemma load_events_frame:
  "ce_records (load_events n ls s) = ce_records s \<and>
   ce_records_file (load_events n ls s) = ce_records_file s \<and> ce_events_file (load_events n ls s) = ce_events_file s"
  by (induction n ls s rule: load_events.induct) (auto simp: quarantine_line_def load_event_def Let_def)

definition clean :: "'a line list \<Rightarrow> bool" where
  "clean ls = (Garbled \<notin> set ls)"

lemma load_records_clean:
  "clean ls \<Longrightarrow> load_records n ls s = s\<lparr>ce_records := foldl put_record (ce_records s) (parsed ls)\<rparr>"
  by (induction n ls s rule: load_records.induct) (auto simp: clean_def)

text \<open>The sequence numbers of the loaded events increase strictly from the number before them.\<close>

definition numbered :: "continuity_engine \<Rightarrow> bool" where
  "numbered s \<longleftrightarrow> sorted_wrt (<) (map er_sequence (ce_events s)) \<and>
     (\<forall>e \<in> set (ce_events s). er_sequence e \<le> ce_sequence s)"

lemma numbered_load_event:
  assumes "numbered s" shows "numbered (load_event e s)"
  using assms
  by (cases "er_sequence e \<le> ce_sequence s")
     (fastforce simp: numbered_def load_event_def sorted_wrt_append Let_def)+

lemma numbered_quarantine [simp]: "numbered (quarantine_line f n s) = numbered s"
  by (simp add: numbered_def quarantine_line_def)

lemma numbered_load_events: "numbered s \<Longrightarrow> numbered (load_events n ls s)"
  by (induction n ls s rule: load_events.induct) (simp_all add: numbered_load_event)

text \<open>An event up to its sequence number.\<close>

definition unnumbered :: "event_record \<Rightarrow> event_record" where
  "unnumbered e = e\<lparr>er_sequence := 0\<rparr>"

lemma load_events_content:
  "map unnumbered (ce_events (load_events n ls s)) = map unnumbered (ce_events s @ parsed ls)"
  by (induction n ls s rule: load_events.induct)
     (auto simp: quarantine_line_def load_event_def unnumbered_def Let_def)

lemma load_events_clean:
  "clean ls \<Longrightarrow> sorted_wrt (<) (map er_sequence (parsed ls)) \<Longrightarrow>
     \<forall>e \<in> set (parsed ls). ce_sequence s < er_sequence e \<Longrightarrow>
     load_events n ls s = s\<lparr>ce_events := ce_events s @ parsed ls,
       ce_sequence := (if parsed ls = [] then ce_sequence s else er_sequence (last (parsed ls)))\<rparr>"
proof (induction n ls s rule: load_events.induct)
  case (3 n e ls s)
  have step: "load_event e s = s\<lparr>ce_events := ce_events s @ [e], ce_sequence := er_sequence e\<rparr>"
    using 3(4) by (auto simp: load_event_def Let_def)
  show ?case using 3 by (auto simp: step clean_def)
qed (auto simp: clean_def)

section \<open>Runs\<close>

text \<open>
  What happens to an engine: records saved, events appended, a restart (the files are loaded
  again), and a write of an event or a record cut short by a crash, which is followed by a
  restart.
\<close>

datatype continuity_op = SaveRecord continuity_record | AppendEvent event_record | Restart

fun continuity_apply :: "continuity_engine \<Rightarrow> continuity_op \<Rightarrow> continuity_engine" where
  "continuity_apply s (SaveRecord r) = save_record r s"
| "continuity_apply s (AppendEvent e) = append_event e s"
| "continuity_apply s Restart = continuity_load s"

definition tear_events :: "continuity_engine \<Rightarrow> continuity_engine" where
  "tear_events s = s\<lparr>ce_events_file := jl_tear (ce_events_file s)\<rparr>"

text \<open>Memory and files agree.\<close>

definition continuity_inv :: "continuity_engine \<Rightarrow> bool" where
  "continuity_inv s \<longleftrightarrow>
     jl_tail (ce_records_file s) = None \<and> clean (jl_lines (ce_records_file s)) \<and>
     ce_records s = foldl put_record [] (parsed (jl_lines (ce_records_file s))) \<and>
     jl_tail (ce_events_file s) = None \<and> clean (jl_lines (ce_events_file s)) \<and>
     ce_events s = parsed (jl_lines (ce_events_file s)) \<and>
     map er_sequence (ce_events s) = map (\<lambda>i. int i + 1) [0..<length (ce_events s)] \<and>
     ce_sequence s = int (length (ce_events s)) \<and> ce_quarantined s = [] \<and> ce_status s = C_CLEAN"

lemma clean_snoc [simp]: "clean (ls @ [Parsed x]) = clean ls"
  by (auto simp: clean_def)

lemma continuity_inv_save: "continuity_inv s \<Longrightarrow> continuity_inv (save_record r s)"
  unfolding continuity_inv_def by (auto simp: save_record_def jl_append_def)

lemma continuity_inv_append: "continuity_inv s \<Longrightarrow> continuity_inv (append_event e s)"
  unfolding continuity_inv_def by (auto simp: append_event_def number_event_def jl_append_def Let_def)

lemma numbered_from_one:
  assumes "map er_sequence es = map (\<lambda>i. int i + 1) [0..<length es]"
  shows "sorted_wrt (<) (map er_sequence es) \<and> (\<forall>e \<in> set es. 0 < er_sequence e) \<and>
         (es \<noteq> [] \<longrightarrow> er_sequence (last es) = int (length es))"
proof (intro conjI impI ballI)
  show "sorted_wrt (<) (map er_sequence es)"
    unfolding assms by (simp add: sorted_wrt_map sorted_wrt_iff_nth_less)
next
  fix e assume "e \<in> set es"
  then have "er_sequence e \<in> set (map er_sequence es)" by simp
  then show "0 < er_sequence e" unfolding assms by auto
next
  assume "es \<noteq> []"
  then have "er_sequence (last es) = last (map er_sequence es)" by (simp add: last_map)
  also have "\<dots> = int (length es)" unfolding assms using \<open>es \<noteq> []\<close> by (cases es) (simp_all add: last_map)
  finally show "er_sequence (last es) = int (length es)" .
qed

lemma continuity_load_inv:
  assumes "continuity_inv s" shows "continuity_load s = s"
proof -
  have rd: "jl_read (ce_records_file s) = jl_lines (ce_records_file s)"
      "jl_read (ce_events_file s) = jl_lines (ce_events_file s)"
    using assms by (simp_all add: continuity_inv_def jl_read_def)
  have cl: "clean (jl_lines (ce_records_file s))" "clean (jl_lines (ce_events_file s))"
    and ev: "ce_events s = parsed (jl_lines (ce_events_file s))"
    and sq: "ce_sequence s = int (length (ce_events s))"
    using assms by (simp_all add: continuity_inv_def)
  have nums: "sorted_wrt (<) (map er_sequence (ce_events s))" "\<forall>e \<in> set (ce_events s). 0 < er_sequence e"
      "ce_events s \<noteq> [] \<longrightarrow> er_sequence (last (ce_events s)) = ce_sequence s"
    using numbered_from_one [of "ce_events s"] assms by (auto simp: continuity_inv_def)
  let ?blank = "s\<lparr>ce_records := [], ce_events := [], ce_sequence := 0, ce_quarantined := [], ce_status := C_CLEAN\<rparr>"
  have "continuity_load s = load_events 1 (jl_lines (ce_events_file s)) (?blank\<lparr>ce_records := ce_records s\<rparr>)"
    using assms load_records_clean [OF cl(1), of 1 ?blank] by (simp add: continuity_load_def rd continuity_inv_def)
  also have "\<dots> = (?blank\<lparr>ce_records := ce_records s\<rparr>)
      \<lparr>ce_events := [] @ parsed (jl_lines (ce_events_file s)),
       ce_sequence := (if parsed (jl_lines (ce_events_file s)) = [] then 0
                       else er_sequence (last (parsed (jl_lines (ce_events_file s)))))\<rparr>"
    using load_events_clean [OF cl(2), of "?blank\<lparr>ce_records := ce_records s\<rparr>" 1] nums(1,2)
    unfolding ev by simp
  also have "\<dots> = (?blank\<lparr>ce_records := ce_records s\<rparr>)\<lparr>ce_events := ce_events s, ce_sequence := ce_sequence s\<rparr>"
    using nums(3) sq unfolding ev by auto
  also have "\<dots> = s"
    using assms by (simp add: continuity_inv_def)
  finally show ?thesis .
qed

lemma continuity_inv_apply: "continuity_inv s \<Longrightarrow> continuity_inv (continuity_apply s op)"
  by (cases op) (simp_all add: continuity_inv_save continuity_inv_append continuity_load_inv)

lemma continuity_inv_run: "continuity_inv s \<Longrightarrow> continuity_inv (foldl continuity_apply s ops)"
  by (induction ops arbitrary: s) (simp_all add: continuity_inv_apply)

lemma continuity_inv_init: "continuity_inv continuity_init"
  by (simp add: continuity_inv_def continuity_init_def continuity_load_def jl_empty_def jl_read_def clean_def)

fun appended :: "continuity_op list \<Rightarrow> event_record list" where
  "appended [] = []"
| "appended (AppendEvent e # ops) = e # appended ops"
| "appended (SaveRecord r # ops) = appended ops"
| "appended (Restart # ops) = appended ops"

lemma unnumbered_number [simp]: "unnumbered (number_event s e) = unnumbered e"
  by (simp add: unnumbered_def number_event_def)

lemma events_run:
  "continuity_inv s \<Longrightarrow>
     map unnumbered (ce_events (foldl continuity_apply s ops)) = map unnumbered (ce_events s @ appended ops)"
proof (induction ops arbitrary: s)
  case (Cons op ops)
  have "continuity_inv (continuity_apply s op)" using Cons.prems by (rule continuity_inv_apply)
  note Cons.IH [OF this]
  moreover have "map unnumbered (ce_events (continuity_apply s op) @ appended ops) =
      map unnumbered (ce_events s @ appended (op # ops))"
    by (cases op) (simp_all add: save_record_def append_event_def continuity_load_inv [OF Cons.prems] Let_def)
  ultimately show ?case by simp
qed simp

lemma continuity_load_numbered: "numbered (continuity_load s)"
  unfolding continuity_load_def
  by (rule numbered_load_events) (simp add: numbered_def load_records_frame)

lemma continuity_load_torn:
  assumes "continuity_inv s"
  shows "ce_events (continuity_load (append_event e (continuity_load (tear_events s)))) = ce_events s"
proof -
  let ?s1 = "continuity_load (tear_events s)"
  let ?s2 = "append_event e ?s1"
  have files: "ce_events_file ?s1 = jl_tear (ce_events_file s)" "ce_records_file ?s1 = ce_records_file s"
    by (simp_all add: continuity_load_def load_events_frame load_records_frame tear_events_def)
  have read: "jl_read (ce_events_file ?s2) = jl_lines (ce_events_file s) @ [Garbled]"
    by (simp add: append_event_def files jl_append_def jl_tear_def jl_read_def Let_def)
  have inv: "clean (jl_lines (ce_events_file s))" "ce_events s = parsed (jl_lines (ce_events_file s))"
      "sorted_wrt (<) (map er_sequence (ce_events s))" "\<forall>e \<in> set (ce_events s). 0 < er_sequence e"
    using assms numbered_from_one [of "ce_events s"] by (auto simp: continuity_inv_def)
  have split: "load_events n (ls @ [Garbled]) t = quarantine_line ''event_records.jsonl'' (n + length ls) (load_events n ls t)"
    for n ls t by (induction n ls t rule: load_events.induct) simp_all
  define t where "t = load_records 1 (jl_read (ce_records_file ?s2))
     (?s2\<lparr>ce_records := [], ce_events := [], ce_sequence := 0, ce_quarantined := [], ce_status := C_CLEAN\<rparr>)"
  have "ce_events t = []" "ce_sequence t = 0"
    by (simp_all add: t_def load_records_frame)
  then have "ce_events (load_events 1 (jl_lines (ce_events_file s)) t) = ce_events s"
    using load_events_clean [OF inv(1), of t 1] inv(3,4) unfolding inv(2) by simp
  moreover have "continuity_load ?s2 = load_events 1 (jl_lines (ce_events_file s) @ [Garbled]) t"
    unfolding continuity_load_def [of ?s2] read t_def by (rule refl)
  ultimately show ?thesis by (simp add: split quarantine_line_def)
qed

section \<open>Properties\<close>

text \<open>
  C7. The log is durable: after any sequence of saved records, appended events and restarts,
  the events are exactly those appended, in order and numbered 1, 2, 3, \<open>\<dots>\<close>, and
  another restart rebuilds the very same engine from the files: records, events, sequence and
  a clean status.
\<close>

theorem continuity_durable:
  "let s = foldl continuity_apply continuity_init ops in
     continuity_load s = s \<and>
     map unnumbered (ce_events s) = map unnumbered (appended ops) \<and>
     map er_sequence (ce_events s) = map (\<lambda>i. int i + 1) [0..<length (appended ops)]"
proof -
  let ?s = "foldl continuity_apply continuity_init ops"
  have inv: "continuity_inv ?s"
    using continuity_inv_run [OF continuity_inv_init] .
  have "ce_events continuity_init = []"
    by (simp add: continuity_init_def continuity_load_def jl_empty_def jl_read_def)
  then have ev: "map unnumbered (ce_events ?s) = map unnumbered (appended ops)"
    using events_run [OF continuity_inv_init, of ops] by simp
  then have "length (ce_events ?s) = length (appended ops)"
    by (metis length_map)
  moreover have "map er_sequence (ce_events ?s) = map (\<lambda>i. int i + 1) [0..<length (ce_events ?s)]"
    using inv unfolding continuity_inv_def by blast
  ultimately show ?thesis
    using continuity_load_inv [OF inv] ev by (simp add: Let_def)
qed

text \<open>
  Loading is total and loses nothing readable, whatever the files hold: every line that
  parses is loaded in the order of the file (the last record of an id wins), lines that do not
  parse go to quarantine, and the sequence numbers in memory increase strictly even when those
  in the file do not.
\<close>

theorem continuity_load_total:
  "ce_records (continuity_load s) = foldl put_record [] (parsed (jl_read (ce_records_file s))) \<and>
   map unnumbered (ce_events (continuity_load s)) = map unnumbered (parsed (jl_read (ce_events_file s))) \<and>
   sorted_wrt (<) (map er_sequence (ce_events (continuity_load s)))"
  using continuity_load_numbered [of s]
  by (simp add: continuity_load_def load_events_frame load_records_frame load_events_content numbered_def)

text \<open>
  A torn write costs the next event too: when the process dies while appending an event,
  the engine that restarts appends its next event to the unfinished line; the event is in
  memory and was reported as written, but the restart after that does not find it.
\<close>

theorem torn_write_loses_next_event:
  "let s = foldl continuity_apply continuity_init ops;
       s1 = continuity_load (tear_events s);
       s2 = append_event e s1
   in last (ce_events s2) = number_event s1 e \<and> ce_events (continuity_load s2) = ce_events s"
  using continuity_load_torn [OF continuity_inv_run [OF continuity_inv_init, of ops], of e]
  by (simp add: append_event_def Let_def)

text \<open>
  The severity of the last problem wins: a renumbered event after a quarantined line leaves
  RECOVERED, so the status no longer tells that data was set aside.
\<close>

lemma quarantine_status_masked:
  assumes "jl_read (ce_events_file s) = [Garbled, Parsed e]" and "er_sequence e \<le> 0"
  shows "ce_status (continuity_load s) = C_RECOVERED \<and>
         (''event_records.jsonl'', 1) \<in> set (ce_quarantined (continuity_load s))"
  using assms
  by (simp add: continuity_load_def load_event_def quarantine_line_def load_records_frame Let_def)

end
