(* ===== verification/Mutation.thy ===== *)
theory Mutation
  imports Continuity
begin

text \<open>
  The two-phase contract for repository mutations (runtime/continuity/mutation.py) and the
  reconciler that looks for mutations a crash left unfinished
  (runtime/continuity/reconciler.py). Identifiers, time stamps and the head of a repository
  (the stripped output of \<open>git rev-parse HEAD\<close>, empty when git fails) are arguments.
\<close>

section \<open>RepositoryMutationContract\<close>

definition step_records :: "continuity_engine \<Rightarrow> string \<Rightarrow> string \<Rightarrow> continuity_record list" where
  "step_records s mission step = filter (\<lambda>r. cn_step_id r = step) (records_by_mission s mission)"

text \<open>The arguments of \<open>prepare_mutation\<close>.\<close>

record mutation_request =
  mq_mission_id :: string
  mq_task_id :: string
  mq_step_id :: string
  mq_actor_id :: string
  mq_actor_level :: string
  mq_repository :: string
  mq_branch :: string
  mq_commit_before :: string
  mq_reason :: string
  mq_action :: string
  mq_next_action :: string
  mq_execution_id :: "string option"

definition prepared_record :: "string \<Rightarrow> mutation_request \<Rightarrow> continuity_record \<Rightarrow> continuity_record" where
  "prepared_record now q r =
     r\<lparr>cn_repository := Some (mq_repository q), cn_branch := Some (mq_branch q),
       cn_commit_before := Some (mq_commit_before q), cn_reason := mq_reason q,
       cn_next_action := Some (mq_next_action q),
       cn_execution_id := (if truthy_str (mq_execution_id q) then mq_execution_id q else cn_execution_id r),
       cn_implementation_state := ''ACTIVE'', cn_updated_at := now\<rparr>"

definition prepared_event ::
  "string \<Rightarrow> string \<Rightarrow> mutation_request \<Rightarrow> continuity_record \<Rightarrow> event_record" where
  "prepared_event eid now q r =
     \<lparr>er_event_id = eid, er_sequence = 0, er_timestamp = now, er_mission_id = mq_mission_id q,
      er_task_id = mq_task_id q, er_step_id = mq_step_id q, er_parent_event_id = None,
      er_actor_id = mq_actor_id q, er_actor_level = mq_actor_level q, er_parent_actor_id = None,
      er_event_type = MUTATION_PREPARED, er_target = mq_repository q, er_intent = mq_action q,
      er_inputs = (''branch'', JStr (mq_branch q)) #
        (if truthy_str (mq_execution_id q) then [(''execution_id'', jopt (mq_execution_id q))] else []),
      er_repository = Some (mq_repository q), er_branch = Some (mq_branch q),
      er_commit_before = Some (mq_commit_before q), er_commit_after = None, er_files_changed = [],
      er_observation = ''Prepared mutation for repository '' @ mq_repository q, er_result = ''PREPARED'',
      er_evidence_refs = [], er_test_results = [], er_decision_ref = None, er_state_change = Some ''ACTIVE'',
      er_status = ''ACTIVE'', er_implementation_state = ''ACTIVE'',
      er_verification_state = cn_verification_state r, er_certification_state = cn_certification_state r,
      er_blocker_refs = [], er_next_action = Some (mq_next_action q), er_fabric_node = None,
      er_fabric_tenant = None, er_fabric_project = None, er_resource_ids = None,
      er_state_before = None, er_state_after = None, er_execution_id = mq_execution_id q\<rparr>"

definition prepare_mutation ::
  "string \<Rightarrow> string \<Rightarrow> mutation_request \<Rightarrow> continuity_engine \<Rightarrow> (continuity_engine \<times> event_record) result" where
  "prepare_mutation eid now q s =
     (case step_records s (mq_mission_id q) (mq_step_id q) of
        [] \<Rightarrow> Inl (ValueError (''Cannot mutate repository: No active continuity record for step '' @ mq_step_id q))
      | rs \<Rightarrow>
          let r = prepared_record now q (last rs);
              s1 = save_record r s;
              e = prepared_event eid now q r
          in Inr (append_event e s1, number_event s1 e))"

definition finalized_record ::
  "string \<Rightarrow> string \<Rightarrow> string list \<Rightarrow> string list \<Rightarrow> string list \<Rightarrow> continuity_record \<Rightarrow> continuity_record" where
  "finalized_record now after files tests evidence r =
     r\<lparr>cn_commit_after := Some after, cn_files_changed := cn_files_changed r @ files,
       cn_tests := cn_tests r @ tests, cn_evidence_refs := cn_evidence_refs r @ evidence,
       cn_implementation_state := ''COMPLETE'', cn_updated_at := now\<rparr>"

text \<open>The FINALIZED event and the compatibility event differ in type, parent and observation.\<close>

definition outcome_event ::
  "continuity_event_type \<Rightarrow> string \<Rightarrow> string \<Rightarrow> string \<Rightarrow> string \<Rightarrow> event_record \<Rightarrow> string \<Rightarrow> string list
     \<Rightarrow> string list \<Rightarrow> continuity_record \<Rightarrow> event_record" where
  "outcome_event etype eid parent observation now pe after files evidence r =
     pe\<lparr>er_event_id := eid, er_sequence := 0, er_timestamp := now, er_parent_event_id := Some parent,
        er_parent_actor_id := None, er_event_type := etype, er_commit_after := Some after,
        er_files_changed := files, er_observation := observation @ str_opt (er_repository pe),
        er_result := ''SUCCESS'', er_evidence_refs := evidence, er_test_results := [],
        er_decision_ref := None, er_state_change := Some ''COMPLETE'', er_status := ''COMPLETE'',
        er_implementation_state := ''COMPLETE'', er_verification_state := cn_verification_state r,
        er_certification_state := cn_certification_state r, er_blocker_refs := [],
        er_fabric_node := None, er_fabric_tenant := None, er_fabric_project := None,
        er_resource_ids := None, er_state_before := None, er_state_after := None\<rparr>"

definition finalize_mutation ::
  "string \<Rightarrow> string \<Rightarrow> string \<Rightarrow> event_record \<Rightarrow> string \<Rightarrow> string list \<Rightarrow> string list \<Rightarrow> string list
     \<Rightarrow> continuity_engine \<Rightarrow> (continuity_engine \<times> event_record) result" where
  "finalize_mutation eid eid2 now pe after files tests evidence s =
     (case step_records s (er_mission_id pe) (er_step_id pe) of
        [] \<Rightarrow> Inl (ValueError (''Cannot finalize: No active continuity record for step '' @ er_step_id pe))
      | rs \<Rightarrow>
          let r = finalized_record now after files tests evidence (last rs);
              s1 = save_record r s;
              e = outcome_event MUTATION_FINALIZED eid (er_event_id pe) ''Finalized mutation for repository ''
                    now pe after files evidence r;
              s2 = append_event e s1;
              e2 = outcome_event REPOSITORY_MUTATED eid2 eid ''Mutated repository '' now pe after files evidence r
          in Inr (append_event e2 s2, number_event s1 e))"

section \<open>Reconciler\<close>

datatype bootstrap_status = COHERENT | B_DEGRADED | RECONCILIATION_REQUIRED | UNVERIFIED

definition gap_event :: "(int \<Rightarrow> string) \<Rightarrow> continuity_record \<Rightarrow> string \<Rightarrow> continuity_engine \<Rightarrow> event_record" where
  "gap_event gid r reason s =
     \<lparr>er_event_id = gid (ce_sequence s), er_sequence = 0, er_timestamp = gid (ce_sequence s),
      er_mission_id = cn_mission_id r, er_task_id = cn_task_id r, er_step_id = cn_step_id r,
      er_parent_event_id = None, er_actor_id = ''SYSTEM'', er_actor_level = ''L0'',
      er_parent_actor_id = None, er_event_type = BLOCKER_CREATED, er_target = ''CONTINUITY'',
      er_intent = ''RECONCILIATION'', er_inputs = [(''reason'', JStr reason)],
      er_repository = None, er_branch = None, er_commit_before = None, er_commit_after = None,
      er_files_changed = [], er_observation = ''CONTINUITY_GAP: '' @ reason, er_result = ''FAILED'',
      er_evidence_refs = [], er_test_results = [], er_decision_ref = None, er_state_change = Some ''BLOCKED'',
      er_status = ''BLOCKED'', er_implementation_state = ''PENDING'', er_verification_state = ''PENDING'',
      er_certification_state = ''NOT_CERTIFIED'', er_blocker_refs = [],
      er_next_action = Some ''RECONCILE_STATE'', er_fabric_node = None, er_fabric_tenant = None,
      er_fabric_project = None, er_resource_ids = None, er_state_before = None, er_state_after = None,
      er_execution_id = None\<rparr>"

definition create_gap_event ::
  "(int \<Rightarrow> string) \<Rightarrow> continuity_record \<Rightarrow> string \<Rightarrow> continuity_engine \<Rightarrow> continuity_engine" where
  "create_gap_event gid r reason s = append_event (gap_event gid r reason s) s"

definition step_events :: "continuity_engine \<Rightarrow> string \<Rightarrow> continuity_event_type set \<Rightarrow> event_record list" where
  "step_events s step types = filter (\<lambda>e. er_step_id e = step \<and> er_event_type e \<in> types) (ce_events s)"

text \<open>The check for a prepared mutation that was never finalized.\<close>

definition reconcile_prepared ::
  "(int \<Rightarrow> string) \<Rightarrow> (string option \<Rightarrow> string) \<Rightarrow> continuity_record \<Rightarrow> continuity_engine \<times> bootstrap_status
     \<Rightarrow> (continuity_engine \<times> bootstrap_status) \<times> continuity_record" where
  "reconcile_prepared gid head r ss =
     (let s = fst ss;
          prepared = step_events s (cn_step_id r) {MUTATION_PREPARED};
          finalized = step_events s (cn_step_id r) {MUTATION_FINALIZED}
      in if cn_implementation_state r = ''ACTIVE'' \<and> truthy_str (cn_repository r) \<and> prepared \<noteq> [] \<and> finalized = []
         then let prep = last prepared; current = head (er_repository prep) in
           if current \<noteq> [] \<and> truthy_str (er_commit_before prep) \<and> Some current \<noteq> er_commit_before prep
           then let r' = r\<lparr>cn_status := ''COMMITTED_UNFINALIZED''\<rparr> in
             ((create_gap_event gid r' (''COMMITTED_UNFINALIZED: Found unfinalized commit '' @ current
                 @ '' for prepared mutation from '' @ str_opt (er_commit_before prep)) (save_record r' s),
               RECONCILIATION_REQUIRED), r')
           else let r' = r\<lparr>cn_status := ''PREPARED_NO_COMMIT''\<rparr> in
             ((create_gap_event gid r' ''PREPARED_NO_COMMIT: Process died before git commit was executed.''
                 (save_record r' s), RECONCILIATION_REQUIRED), r')
         else (ss, r))"

text \<open>The check for a record that claims completion without a mutation event.\<close>

definition reconcile_complete ::
  "(int \<Rightarrow> string) \<Rightarrow> continuity_record \<Rightarrow> continuity_engine \<times> bootstrap_status \<Rightarrow> continuity_engine \<times> bootstrap_status" where
  "reconcile_complete gid r ss =
     (if cn_status r = ''COMPLETE'' \<and> truthy_str (cn_repository r) \<and>
         step_events (fst ss) (cn_step_id r) {REPOSITORY_MUTATED, MUTATION_FINALIZED} = []
      then (create_gap_event gid r ''Step marked COMPLETE with repository, but no MUTATION_FINALIZED or REPOSITORY_MUTATED event found.''
              (fst ss), RECONCILIATION_REQUIRED)
      else ss)"

definition reconcile_mission_002 ::
  "(int \<Rightarrow> string) \<Rightarrow> continuity_record \<Rightarrow> continuity_engine \<Rightarrow> continuity_engine" where
  "reconcile_mission_002 gid r s =
     (if cn_evidence_refs r = [] \<and> cn_status r = ''COMPLETE''
      then let r' = r\<lparr>cn_status := ''ORPHANED_REQUIRES_RECONCILIATION'',
                      cn_reason := ''Mission 002-R2-PHYSICAL marked as COMPLETE but missing physical evidence refs.''\<rparr>
           in create_gap_event gid r' ''MISSION-002-R2-PHYSICAL is missing required evidence.'' (save_record r' s)
      else s)"

definition reconcile_record ::
  "(int \<Rightarrow> string) \<Rightarrow> (string option \<Rightarrow> string) \<Rightarrow> continuity_engine \<times> bootstrap_status \<Rightarrow> continuity_record
     \<Rightarrow> continuity_engine \<times> bootstrap_status" where
  "reconcile_record gid head ss r =
     (let (ss1, r1) = reconcile_prepared gid head r ss;
          ss2 = reconcile_complete gid r1 ss1
      in if cn_mission_id r1 = ''MISSION-002-R2-PHYSICAL''
         then (reconcile_mission_002 gid r1 (fst ss2), snd ss2) else ss2)"

definition reconcile ::
  "(int \<Rightarrow> string) \<Rightarrow> (string option \<Rightarrow> string) \<Rightarrow> continuity_engine \<Rightarrow> continuity_engine \<times> bootstrap_status" where
  "reconcile gid head s = foldl (reconcile_record gid head) (s, COHERENT) (dict_values (ce_records s))"

section \<open>What reconciliation finds\<close>

definition orphaned :: "continuity_engine \<Rightarrow> continuity_record \<Rightarrow> bool" where
  "orphaned s r \<longleftrightarrow> cn_implementation_state r = ''ACTIVE'' \<and> truthy_str (cn_repository r) \<and>
     step_events s (cn_step_id r) {MUTATION_PREPARED} \<noteq> [] \<and> step_events s (cn_step_id r) {MUTATION_FINALIZED} = []"

definition unsupported_completion :: "continuity_engine \<Rightarrow> continuity_record \<Rightarrow> bool" where
  "unsupported_completion s r \<longleftrightarrow> cn_status r = ''COMPLETE'' \<and> truthy_str (cn_repository r) \<and>
     step_events s (cn_step_id r) {REPOSITORY_MUTATED, MUTATION_FINALIZED} = []"

lemma step_events_save [simp]: "step_events (save_record r s) = step_events s"
  by (simp add: step_events_def save_record_def fun_eq_iff)

lemma step_events_gap [simp]:
  "BLOCKER_CREATED \<notin> types \<Longrightarrow> step_events (create_gap_event gid r reason s) step types = step_events s step types"
  by (simp add: step_events_def create_gap_event_def append_event_def number_event_def gap_event_def Let_def)

lemma step_events_append:
  "step_events (append_event e s) step types =
     step_events s step types @
     (if er_step_id e = step \<and> er_event_type e \<in> types then [number_event s e] else [])"
  by (simp add: step_events_def append_event_def number_event_def Let_def)

definition mutation_types :: "continuity_event_type set" where
  "mutation_types = {MUTATION_PREPARED, MUTATION_FINALIZED, REPOSITORY_MUTATED}"

definition same_mutations :: "continuity_engine \<Rightarrow> continuity_engine \<Rightarrow> bool" where
  "same_mutations s s' \<longleftrightarrow> (\<forall>step types. types \<subseteq> mutation_types \<longrightarrow> step_events s' step types = step_events s step types)"

lemma same_mutations_sub:
  "same_mutations s s' \<Longrightarrow> orphaned s' = orphaned s \<and> unsupported_completion s' = unsupported_completion s"
  by (simp add: same_mutations_def orphaned_def unsupported_completion_def mutation_types_def fun_eq_iff)

lemma same_mutations_refl [simp]: "same_mutations s s"
  by (simp add: same_mutations_def)

lemma same_mutations_trans: "same_mutations s t \<Longrightarrow> same_mutations t u \<Longrightarrow> same_mutations s u"
  by (simp add: same_mutations_def)

lemma same_mutations_gap: "same_mutations s t \<Longrightarrow> same_mutations s (create_gap_event gid r reason t)"
  unfolding same_mutations_def
proof (intro allI impI)
  fix step types
  assume "\<forall>step types. types \<subseteq> mutation_types \<longrightarrow> step_events t step types = step_events s step types"
    and "types \<subseteq> mutation_types"
  then show "step_events (create_gap_event gid r reason t) step types = step_events s step types"
    by (subst step_events_gap) (auto simp: mutation_types_def)
qed

lemma same_mutations_save: "same_mutations s t \<Longrightarrow> same_mutations s (save_record r t)"
  by (simp add: same_mutations_def)

lemma reconcile_prepared_effect:
  assumes "reconcile_prepared gid head r (s, st) = ((s1, st1), r1)"
  shows "same_mutations s s1 \<and> st1 = (if orphaned s r then RECONCILIATION_REQUIRED else st) \<and>
     (if orphaned s r then cn_status r1 \<noteq> ''COMPLETE'' else r1 = r)"
proof (cases "orphaned s r")
  case True
  then have
    "\<exists>r' reason. (s1, st1, r1) = (create_gap_event gid r' reason (save_record r' s), RECONCILIATION_REQUIRED, r') \<and>
       cn_status r' \<noteq> ''COMPLETE''"
    using assms
    by (cases "head (er_repository (last (step_events s (cn_step_id r) {MUTATION_PREPARED}))) \<noteq> [] \<and>
               truthy_str (er_commit_before (last (step_events s (cn_step_id r) {MUTATION_PREPARED}))) \<and>
               Some (head (er_repository (last (step_events s (cn_step_id r) {MUTATION_PREPARED})))) \<noteq>
               er_commit_before (last (step_events s (cn_step_id r) {MUTATION_PREPARED}))")
       (auto simp: reconcile_prepared_def orphaned_def Let_def)
  then show ?thesis
    using True same_mutations_gap [OF same_mutations_save [OF same_mutations_refl]] by auto
next
  case False
  then show ?thesis
    using assms by (auto simp: reconcile_prepared_def orphaned_def Let_def)
qed

lemma reconcile_complete_effect:
  "same_mutations s (fst (reconcile_complete gid r (s, st))) \<and>
   snd (reconcile_complete gid r (s, st)) = (if unsupported_completion s r then RECONCILIATION_REQUIRED else st)"
  by (auto simp: reconcile_complete_def unsupported_completion_def intro: same_mutations_gap)

lemma reconcile_mission_002_same: "same_mutations s (reconcile_mission_002 gid r s)"
  by (auto simp: reconcile_mission_002_def Let_def intro!: same_mutations_gap same_mutations_save)

lemma reconcile_record_effect:
  "same_mutations s (fst (reconcile_record gid head (s, st) r)) \<and>
   snd (reconcile_record gid head (s, st) r) =
     (if orphaned s r \<or> unsupported_completion s r then RECONCILIATION_REQUIRED else st)"
proof -
  obtain s1 st1 r1 where one: "reconcile_prepared gid head r (s, st) = ((s1, st1), r1)"
    by (metis prod.exhaust)
  obtain s2 st2 where two: "reconcile_complete gid r1 (s1, st1) = (s2, st2)"
    by (metis prod.exhaust)
  note eff1 = reconcile_prepared_effect [OF one]
  have eff2: "same_mutations s1 s2" "st2 = (if unsupported_completion s1 r1 then RECONCILIATION_REQUIRED else st1)"
    using reconcile_complete_effect [of s1 gid r1 st1] two by auto
  have "unsupported_completion s1 r1 = (\<not> orphaned s r \<and> unsupported_completion s r)"
    using eff1 same_mutations_sub [of s s1] by (auto simp: unsupported_completion_def split: if_splits)
  then have "st2 = (if orphaned s r \<or> unsupported_completion s r then RECONCILIATION_REQUIRED else st)"
    using eff1 eff2(2) by auto
  moreover have "same_mutations s s2" using eff1 eff2(1) same_mutations_trans by blast
  moreover from this have "same_mutations s (reconcile_mission_002 gid r1 s2)"
    using reconcile_mission_002_same same_mutations_trans by blast
  ultimately show ?thesis
    by (simp add: reconcile_record_def one two Let_def)
qed

lemma reconcile_fold:
  "same_mutations s0 s \<Longrightarrow>
     snd (foldl (reconcile_record gid head) (s, st) rs) =
       (if \<exists>r \<in> set rs. orphaned s0 r \<or> unsupported_completion s0 r then RECONCILIATION_REQUIRED else st)"
proof (induction rs arbitrary: s st)
  case (Cons r rs)
  obtain s1 st1 where step: "reconcile_record gid head (s, st) r = (s1, st1)"
    by (metis prod.exhaust)
  have eff: "same_mutations s s1" "st1 = (if orphaned s0 r \<or> unsupported_completion s0 r then RECONCILIATION_REQUIRED else st)"
    using reconcile_record_effect [of s gid head st r] same_mutations_sub [OF Cons.prems] step by auto
  then have "same_mutations s0 s1"
    using Cons.prems by (simp add: same_mutations_def)
  from Cons.IH [OF this, of st1] show ?case by (auto simp: step eff(2))
qed simp

lemma reconcile_status:
  "snd (reconcile gid head s) =
     (if \<exists>r \<in> set (dict_values (ce_records s)). orphaned s r \<or> unsupported_completion s r
      then RECONCILIATION_REQUIRED else COHERENT)"
  unfolding reconcile_def by (rule reconcile_fold) simp

section \<open>Preparing and finalizing\<close>

lemma prepare_mutation_Inr:
  assumes "prepare_mutation eid now q s = Inr (s', pe)"
  shows "\<exists>r0. r0 \<in> set (dict_values (ce_records s)) \<and> cn_mission_id r0 = mq_mission_id q \<and> cn_step_id r0 = mq_step_id q \<and>
     (let r = prepared_record now q r0;
          e = prepared_event eid now q r
      in s' = append_event e (save_record r s) \<and> pe = number_event s e)"
proof (cases "step_records s (mq_mission_id q) (mq_step_id q)")
  case Nil
  then show ?thesis using assms by (simp add: prepare_mutation_def)
next
  case (Cons r1 rs)
  then have "last (step_records s (mq_mission_id q) (mq_step_id q)) \<in> set (step_records s (mq_mission_id q) (mq_step_id q))" by simp
  then have "last (step_records s (mq_mission_id q) (mq_step_id q)) \<in> set (dict_values (ce_records s))"
      "cn_mission_id (last (step_records s (mq_mission_id q) (mq_step_id q))) = mq_mission_id q"
      "cn_step_id (last (step_records s (mq_mission_id q) (mq_step_id q))) = mq_step_id q"
    by (auto simp: step_records_def records_by_mission_def)
  moreover have "number_event (save_record r t) e = number_event t e" for r t e
    by (simp add: number_event_def save_record_def)
  ultimately show ?thesis using assms Cons
    by (intro exI [of _ "last (step_records s (mq_mission_id q) (mq_step_id q))"]) (auto simp: prepare_mutation_def Let_def)
qed

lemma put_record_value: "r \<in> set (dict_values (put_record d r))"
  by (rule dict_get_values [of _ "cn_continuity_id r"]) (simp add: put_record_def)

section \<open>Properties\<close>

text \<open>
  C29. Reconciliation is exact: it reports RECONCILIATION\_REQUIRED if and only if some record
  is marked ACTIVE on a repository with a PREPARED event of its step and no FINALIZED event
  of that step, or is marked COMPLETE on a repository without any mutation event of its step;
  otherwise COHERENT. The answer of git decides only which status such a record gets, and the
  gap events the reconciler writes do not influence it.
\<close>

theorem reconcile_exact:
  "snd (reconcile gid head s) =
     (if \<exists>r \<in> set (dict_values (ce_records s)). orphaned s r \<or> unsupported_completion s r
      then RECONCILIATION_REQUIRED else COHERENT)"
  by (rule reconcile_status)

text \<open>
  A crash between the two phases is noticed: when a mutation was prepared on a step that
  has never been finalized, then after a restart, whatever git reports, reconciliation is
  required.
\<close>

theorem crash_after_prepare_detected:
  assumes "continuity_inv s" and "mq_repository q \<noteq> []"
    and "step_events s (mq_step_id q) {MUTATION_FINALIZED} = []"
    and "prepare_mutation eid now q s = Inr (s', pe)"
  shows "snd (reconcile gid head (continuity_load s')) = RECONCILIATION_REQUIRED"
proof -
  obtain r0 r e where r0: "cn_step_id r0 = mq_step_id q"
      and r: "r = prepared_record now q r0"
      and e: "e = prepared_event eid now q r"
      and s': "s' = append_event e (save_record r s)"
    using prepare_mutation_Inr [OF assms(4)] by (auto simp: Let_def)
  have load: "continuity_load s' = s'"
    unfolding s' by (intro continuity_load_inv continuity_inv_append continuity_inv_save assms(1))
  have "r \<in> set (dict_values (ce_records s'))"
    using put_record_value [of r "ce_records s"] by (simp add: s' append_event_def save_record_def Let_def)
  moreover have "orphaned s' r"
    using assms(2,3) r0 by (simp add: orphaned_def s' step_events_append e prepared_event_def r prepared_record_def)
  ultimately show ?thesis
    unfolding load reconcile_status by auto
qed

definition demo_engine :: continuity_engine where
  "demo_engine = save_record (record_create ''r1'' ''t0'' ''M-1'' ''T-1'' ''S-1'' ''kira'' ''L0'' ''fix'' None) continuity_init"

definition demo_prepare :: "string \<Rightarrow> continuity_engine \<Rightarrow> (continuity_engine \<times> event_record) result" where
  "demo_prepare before s = prepare_mutation ''e1'' ''t1''
     \<lparr>mq_mission_id = ''M-1'', mq_task_id = ''T-1'', mq_step_id = ''S-1'', mq_actor_id = ''kira'',
      mq_actor_level = ''L0'', mq_repository = ''/repo'', mq_branch = ''main'', mq_commit_before = before,
      mq_reason = ''why'', mq_action = ''edit'', mq_next_action = ''commit'', mq_execution_id = None\<rparr> s"

definition demo_finalize :: "continuity_engine \<times> event_record \<Rightarrow> (continuity_engine \<times> event_record) result" where
  "demo_finalize sp = finalize_mutation ''e2'' ''e3'' ''t2'' (snd sp) ''c1'' [''f''] [] [] (fst sp)"

lemma demo_engine_records:
  "ce_records demo_engine = [(''r1'', record_create ''r1'' ''t0'' ''M-1'' ''T-1'' ''S-1'' ''kira'' ''L0'' ''fix'' None)]"
  by (simp add: demo_engine_def save_record_def put_record_def continuity_init_def continuity_load_def
        jl_empty_def jl_read_def record_create_def)

lemma demo_engine_events: "ce_events demo_engine = []"
  by (simp add: demo_engine_def save_record_def continuity_init_def continuity_load_def jl_empty_def jl_read_def)

lemma demo_step_records:
  "step_records demo_engine ''M-1'' ''S-1'' = [record_create ''r1'' ''t0'' ''M-1'' ''T-1'' ''S-1'' ''kira'' ''L0'' ''fix'' None]"
  by (simp add: step_records_def records_by_mission_def demo_engine_records record_create_def)

theorem crash_after_prepare_detected_witness:
  "\<exists>s' pe. demo_prepare ''c0'' demo_engine = Inr (s', pe) \<and>
     snd (reconcile (\<lambda>_. ''g'') (\<lambda>_. ''c0'') (continuity_load s')) = RECONCILIATION_REQUIRED"
proof -
  have inv: "continuity_inv demo_engine"
    unfolding demo_engine_def by (rule continuity_inv_save [OF continuity_inv_init])
  have "\<exists>s' pe. demo_prepare ''c0'' demo_engine = Inr (s', pe)"
    by (simp add: demo_prepare_def prepare_mutation_def demo_step_records Let_def)
  then obtain s' pe where prep: "demo_prepare ''c0'' demo_engine = Inr (s', pe)" by blast
  have none: "step_events demo_engine ''S-1'' {MUTATION_FINALIZED} = []"
    by (simp add: step_events_def demo_engine_events)
  have "snd (reconcile (\<lambda>_. ''g'') (\<lambda>_. ''c0'') (continuity_load s')) = RECONCILIATION_REQUIRED"
    using crash_after_prepare_detected [OF inv _ _ prep [unfolded demo_prepare_def], of "\<lambda>_. ''g''" "\<lambda>_. ''c0''"] none by simp
  then show ?thesis using prep by blast
qed

text \<open>
  The reconciler pairs phases by step, not by event: once a step has one finalized mutation, a
  second mutation of that step that is prepared and never finalized passes for coherent.
\<close>

lemma second_prepare_undetected:
  "\<exists>s2 s3. and_then (demo_prepare ''c0'' demo_engine) demo_finalize = Inr s2 \<and>
     demo_prepare ''c1'' (fst s2) = Inr s3 \<and>
     (\<exists>r \<in> set (dict_values (ce_records (fst s3))). cn_implementation_state r = ''ACTIVE'') \<and>
     snd (reconcile (\<lambda>_. ''g'') (\<lambda>_. ''c2'') (fst s3)) = COHERENT"
  unfolding reconcile_status
  by (simp add: demo_prepare_def demo_finalize_def prepare_mutation_def finalize_mutation_def demo_step_records
        demo_engine_records step_records_def records_by_mission_def append_event_def number_event_def
        save_record_def put_record_def prepared_record_def finalized_record_def prepared_event_def
        outcome_event_def record_create_def orphaned_def unsupported_completion_def step_events_def
        demo_engine_events Let_def)

end
