(* ===== verification/Manager.thy ===== *)
theory Manager
  imports Worker Workspaces Mutation
begin

text \<open>
  The execution manager (runtime/execution/manager.py): admission of a task, its synchronous
  execution behind the generation fence, the record of its outcome in the continuity log and
  the reconstruction of executions of earlier runtimes. Identifiers, clocks and what the
  executors read of the outside are arguments.
\<close>

section \<open>ExecutionManager\<close>

text \<open>
  \<open>xm_announced\<close> holds the \<open>task.created\<close> telemetry, if there is a collector;
  \<open>xm_generation\<close> is the counter of the runtime engine, if there is one;
  \<open>xm_evidence\<close> lists the files preserved, by execution; \<open>xm_world\<close> is the outside.
\<close>

record 'w execution_manager =
  xm_executions :: "(string, task_context) dict"
  xm_tasks :: "(string, task) dict"
  xm_ephemeral :: ephemeral_manager
  xm_dirs :: dirs
  xm_capabilities :: capability_registry
  xm_policy :: runtime_policy
  xm_selector :: orchestrator
  xm_workers :: worker_manager
  xm_announced :: "(string \<times> task) list option"
  xm_generation :: "runtime_generation option"
  xm_continuity :: "continuity_engine option"
  xm_evidence :: "(string \<times> string) list"
  xm_world :: 'w

text \<open>The model registry is opened by the caller (\<open>registry_open\<close>).\<close>

definition manager_init ::
  "ephemeral_manager \<Rightarrow> dirs \<Rightarrow> model_registry \<Rightarrow> bool \<Rightarrow> bool \<Rightarrow> string \<Rightarrow> runtime_generation option
     \<Rightarrow> continuity_engine option \<Rightarrow> 'w \<Rightarrow> 'w execution_manager" where
  "manager_init eph ds models audited collected fabric_dir gen ce world =
     \<lparr>xm_executions = [], xm_tasks = [], xm_ephemeral = eph, xm_dirs = ds,
      xm_capabilities = capability_init, xm_policy = default_policy,
      xm_selector = orchestrator_init capability_init models layer_init (frontier_init False None),
      xm_workers = \<lparr>wm_workers = [],
        wm_gateway = Some (gateway_init mcp_registry_init capability_init audited [] fabric_dir),
        wm_frontier = None, wm_telemetry = (if collected then Some [] else None)\<rparr>,
      xm_announced = (if collected then Some [] else None), xm_generation = gen, xm_continuity = ce,
      xm_evidence = [], xm_world = world\<rparr>"

section \<open>Continuity events of an execution\<close>

definition execution_inputs :: "string \<Rightarrow> task_context \<Rightarrow> (string \<times> json) list" where
  "execution_inputs x cx =
     [(''execution_id'', JStr x), (''routing_class'', jopt (tc_routing_class cx)),
      (''executor_type'', jopt (tc_executor_type cx)), (''executor_id'', jopt (tc_executor_id cx)),
      (''model_id'', jopt (tc_model_id cx)), (''generation'', jopt_int (tc_generation cx))]"

definition failure_inputs :: "task_context \<Rightarrow> (string \<times> json) list" where
  "failure_inputs cx =
     [(''failure_reason'', case tc_failure_reason cx of None \<Rightarrow> JNull | Some r \<Rightarrow> JStr (reason_value r)),
      (''error_message'', jopt (tc_error_message cx))]"

text \<open>What the three events of an execution share; \<open>state\<close> is the status they report.\<close>

definition execution_event ::
  "string \<Rightarrow> string \<Rightarrow> task \<Rightarrow> string \<Rightarrow> continuity_event_type \<Rightarrow> string \<Rightarrow> (string \<times> json) list \<Rightarrow> string
     \<Rightarrow> string list \<Rightarrow> string \<Rightarrow> string \<Rightarrow> string option \<Rightarrow> event_record" where
  "execution_event hex stamp t x etype intent inputs observation refs state verification next_action =
     \<lparr>er_event_id = ''evt-'' @ hex, er_sequence = 0, er_timestamp = stamp,
      er_mission_id = ''DEFAULT_MISSION'', er_task_id = tk_task_id t, er_step_id = tk_capability_id t,
      er_parent_event_id = None, er_actor_id = tk_requested_by t, er_actor_level = ''L0'',
      er_parent_actor_id = None, er_event_type = etype, er_target = tk_capability_id t, er_intent = intent,
      er_inputs = inputs, er_repository = None, er_branch = None, er_commit_before = None,
      er_commit_after = None, er_files_changed = [], er_observation = observation, er_result = state,
      er_evidence_refs = refs, er_test_results = [], er_decision_ref = None, er_state_change = Some state,
      er_status = state, er_implementation_state = state, er_verification_state = verification,
      er_certification_state = ''NOT_CERTIFIED'', er_blocker_refs = [], er_next_action = next_action,
      er_fabric_node = None, er_fabric_tenant = None, er_fabric_project = None, er_resource_ids = None,
      er_state_before = None, er_state_after = None, er_execution_id = Some x\<rparr>"

lemma execution_event_sel [simp]:
  "er_execution_id (execution_event hex stamp t x etype intent inputs obs refs st ver nx) = Some x"
  "er_status (execution_event hex stamp t x etype intent inputs obs refs st ver nx) = st"
  "er_inputs (execution_event hex stamp t x etype intent inputs obs refs st ver nx) = inputs"
  by (simp_all add: execution_event_def)

section \<open>submit\_task\<close>

record submit_ids =
  si_execution :: string
  si_worker :: string
  si_record :: string
  si_event :: string
  si_now :: instant
  si_stamp :: string
  si_refuse :: "string \<Rightarrow> exn option"

definition announce :: "string \<Rightarrow> task \<Rightarrow> 'w execution_manager \<Rightarrow> 'w execution_manager" where
  "announce x t m = m\<lparr>xm_announced := map_option (\<lambda>es. es @ [(x, t)]) (xm_announced m)\<rparr>"

definition admit :: "'w execution_manager \<Rightarrow> task \<Rightarrow> capability_definition result" where
  "admit m t =
     (case capability_get (xm_capabilities m) (tk_capability_id t) of
        None \<Rightarrow> Inl (ValueError (''Unknown capability: '' @ tk_capability_id t))
      | Some c \<Rightarrow>
          if \<not> cap_enabled c then Inl (ValueError (''Capability is disabled: '' @ tk_capability_id t))
          else if cap_side_effect c \<noteq> ''read'' \<and> cap_deterministic_allowed c
          then Inl (ValueError (''Deterministic write capability requires a governed write executor: ''
                      @ tk_capability_id t))
          else Inr c)"

definition queued_context ::
  "string \<Rightarrow> string \<Rightarrow> int \<Rightarrow> task \<Rightarrow> capability_definition \<Rightarrow> executor_selection \<Rightarrow> task_context" where
  "queued_context x path gen t c sel =
     \<lparr>tc_execution_id = x, tc_task_id = tk_task_id t, tc_account_id = tk_account_id t,
      tc_project_id = tk_project_id t, tc_capability_id = tk_capability_id t, tc_workspace_path = path,
      tc_environment = [], tc_allowed_tools = cap_required_tools c, tc_deadline = tk_deadline t,
      tc_resource_limits = [(''max_output_size'', cap_max_output c), (''max_workspace_size'', 10 * 1024 * 1024)],
      tc_network_policy = cap_network_policy c, tc_write_policy = cap_filesystem_policy c,
      tc_status = E_QUEUED, tc_result = None, tc_failure_reason = None, tc_error_message = None,
      tc_started_at = None, tc_completed_at = None, tc_duration_ms = None,
      tc_executor_type = Some (executor_value (es_executor_type sel)), tc_executor_id = Some (es_executor_id sel),
      tc_executor_version = Some (es_executor_version sel), tc_model_id = es_model_id sel,
      tc_model_version = es_model_version sel, tc_policy_version = Some (es_policy_version sel),
      tc_input_hash = None, tc_result_hash = None, tc_evidence_ref = None,
      tc_routing_class = Some (worker_routing_class (executor_value (es_executor_type sel))),
      tc_capability_family = Some (cap_family c), tc_department_id = tk_department_id t,
      tc_generation = Some gen\<rparr>"

definition record_queued :: "submit_ids \<Rightarrow> task \<Rightarrow> task_context \<Rightarrow> continuity_engine \<Rightarrow> continuity_engine" where
  "record_queued ids t cx ce =
     (let x = si_execution ids;
          r = record_create (si_record ids) (si_stamp ids) ''DEFAULT_MISSION'' (tk_task_id t) (tk_capability_id t)
                (tk_requested_by t) ''L0'' (''Task queued: '' @ tk_task_id t) (Some x);
          e = execution_event (si_event ids) (si_stamp ids) t x TASK_CREATED (''Task queued: '' @ tk_task_id t)
                (execution_inputs x cx) (''Execution QUEUED ('' @ x @ '')'') [] ''QUEUED'' ''PENDING'' (Some ''EXECUTE'')
      in append_event e (save_record r ce))"

definition submit_task ::
  "(rat \<Rightarrow> string) \<Rightarrow> task_flags \<Rightarrow> string \<Rightarrow> submit_ids \<Rightarrow> task \<Rightarrow> 'w execution_manager
     \<Rightarrow> 'w execution_manager \<times> task_context result" where
  "submit_task fmt fl cwd ids t m =
     (let x = si_execution ids; m0 = announce x t m in
      case admit m t of
        Inl e \<Rightarrow> (m0, Inl e)
      | Inr c \<Rightarrow>
          let (sel', chosen) = selector_select fmt None fl t c (xm_policy m) (xm_selector m);
              m1 = m0\<lparr>xm_selector := sel'\<rparr>
          in case chosen of
               Inl e \<Rightarrow> (m1, Inl e)
             | Inr sel \<Rightarrow>
                 (case create_workspace (xm_ephemeral m) cwd (si_refuse ids) x (tk_project_id t) (xm_dirs m) of
                    (ds, Inl e) \<Rightarrow>
                      (m1\<lparr>xm_dirs := ds\<rparr>, Inl (RuntimeError (''Failed to create workspace: '' @ str_exn e)))
                  | (ds, Inr path) \<Rightarrow>
                      let gen = (case xm_generation m of None \<Rightarrow> 1 | Some g \<Rightarrow> current_gen g);
                          (wm, cx, w) = create_worker (si_worker ids) (si_now ids) sel t
                                          (queued_context x path gen t c sel) (xm_workers m)
                      in (m1\<lparr>xm_dirs := ds, xm_tasks := dict_set (xm_tasks m) x t,
                            xm_executions := dict_set (xm_executions m) x cx, xm_workers := wm,
                            xm_continuity := map_option (record_queued ids t cx) (xm_continuity m)\<rparr>,
                          Inr cx)))"

section \<open>execute\_sync\<close>

text \<open>What an execution needs besides the environment of the worker.\<close>

record outcome_env =
  xe_event :: string
  xe_stamp :: string
  xe_cwd :: string
  xe_exists :: "string \<Rightarrow> bool"

definition fence_error :: "'w execution_manager \<Rightarrow> task_context \<Rightarrow> exn option" where
  "fence_error m cx =
     (case (xm_generation m, tc_generation cx) of
        (Some g, Some n) \<Rightarrow> (case generation_fence g n of Inl e \<Rightarrow> Some e | Inr _ \<Rightarrow> None)
      | _ \<Rightarrow> None)"

definition execute_fenced ::
  "outcome_env \<Rightarrow> exn \<Rightarrow> string \<Rightarrow> task \<Rightarrow> task_context \<Rightarrow> worker_definition \<Rightarrow> 'w execution_manager
     \<Rightarrow> 'w execution_manager \<times> task_context" where
  "execute_fenced xe e x t cx w m =
     (let cx' = cx\<lparr>tc_status := E_FAILED, tc_failure_reason := Some AUTHORIZATION_DENIED,
                   tc_error_message := Some (str_exn e)\<rparr>;
          ev = execution_event (xe_event xe) (xe_stamp xe) t x ACTION_FAILED (''Execution fenced for '' @ x)
                 (execution_inputs x cx' @ failure_inputs cx') (''Fencing failed: '' @ str_exn e) []
                 ''FAILED'' ''FAILED'' None
      in (m\<lparr>xm_executions := dict_set (xm_executions m) x cx',
            xm_workers := put_worker (w\<lparr>wk_state := W_FAILED\<rparr>) (xm_workers m),
            xm_continuity := map_option (append_event ev) (xm_continuity m)\<rparr>, cx'))"

definition evidence_sources :: "string \<Rightarrow> (string \<times> string) list" where
  "evidence_sources ws =
     [(path_join ws ''evidence.json'', ''evidence.json''),
      (path_join ws ''reproducibility.json'', ''reproducibility.json''),
      (path_join (path_join ws ''logs'') ''observability.json'', ''observability.json'')]"

definition preserve_evidence :: "(string \<Rightarrow> bool) \<Rightarrow> string \<Rightarrow> string \<Rightarrow> (string \<times> string) list" where
  "preserve_evidence exists x ws = [(x, name). (p, name) \<leftarrow> evidence_sources ws, exists p]"

text \<open>The record of the execution is looked up by its id, then as the latest of the task.\<close>

definition record_outcome ::
  "outcome_env \<Rightarrow> string \<Rightarrow> task \<Rightarrow> task_context \<Rightarrow> continuity_engine \<Rightarrow> continuity_engine" where
  "record_outcome xe x t cx ce =
     (let st = status_value (tc_status cx);
          verdict = (if tc_status cx = E_SUCCEEDED then ''VERIFIED'' else ''FAILED'');
          refs = (case tc_result_hash cx of None \<Rightarrow> [] | Some h \<Rightarrow> if h = [] then [] else [h]);
          found = (case get_record ce x of
                     Some r \<Rightarrow> Some r | None \<Rightarrow> last_opt (records_by_task ce (tk_task_id t)));
          ce1 = (case found of
                   None \<Rightarrow> ce
                 | Some r \<Rightarrow> save_record (r\<lparr>cn_status := st, cn_completed_at := Some (xe_stamp xe),
                     cn_verification_state := verdict, cn_evidence_refs := cn_evidence_refs r @ refs\<rparr>) ce);
          ev = execution_event (xe_event xe) (xe_stamp xe) t x
                 (if tc_status cx = E_SUCCEEDED then ACTION_COMPLETED else ACTION_FAILED)
                 (''Execution completed for '' @ x) (execution_inputs x cx @ failure_inputs cx)
                 (''Execution status: '' @ st) refs st verdict None
      in append_event ev ce1)"

definition outcome_statuses :: "execution_status set" where
  "outcome_statuses = {E_SUCCEEDED, E_FAILED, E_TIMED_OUT, E_LIMIT_EXCEEDED}"

text \<open>
  After the worker: evidence, workspace, continuity. The normal path returns nothing
  (\<open>None\<close>); only a fenced execution returns its context.
\<close>

definition conclude ::
  "outcome_env \<Rightarrow> string \<Rightarrow> task \<Rightarrow> task_context \<Rightarrow> 'w execution_manager
     \<Rightarrow> 'w execution_manager \<times> task_context option result" where
  "conclude xe x t cx m =
     (let m1 = (if tc_status cx \<in> outcome_statuses
                then m\<lparr>xm_evidence := xm_evidence m @ preserve_evidence (xe_exists xe) x (tc_workspace_path cx)\<rparr>
                else m)
      in case (if tc_status cx \<in> outcome_statuses \<and> tk_workspace_policy t = ''destroy_on_complete''
               then destroy_workspace (xm_ephemeral m) (xe_cwd xe) (tc_workspace_path cx) (xm_dirs m)
               else Inr (xm_dirs m)) of
           Inl e \<Rightarrow> (m1, Inl e)
         | Inr ds \<Rightarrow> (m1\<lparr>xm_dirs := ds, xm_continuity := map_option (record_outcome xe x t cx) (xm_continuity m)\<rparr>,
                     Inr None))"

definition worker_of :: "'w execution_manager \<Rightarrow> string \<Rightarrow> worker_definition option" where
  "worker_of m x = find (\<lambda>w. wk_execution_id w = x) (list_workers (xm_workers m))"

definition execute_sync ::
  "'w worker_env \<Rightarrow> outcome_env \<Rightarrow> string \<Rightarrow> 'w execution_manager
     \<Rightarrow> 'w execution_manager \<times> task_context option result" where
  "execute_sync env xe x m =
     (case (dict_get (xm_executions m) x, dict_get (xm_tasks m) x) of
        (Some cx, Some t) \<Rightarrow>
          (case capability_get (xm_capabilities m) (tk_capability_id t) of
             None \<Rightarrow> (m, Inl (ValueError ''Capability not found for execution''))
           | Some c \<Rightarrow>
               (case worker_of m x of
                  None \<Rightarrow> (m, Inl (ValueError ''Worker not found for execution''))
                | Some w \<Rightarrow>
                    (case fence_error m cx of
                       Some e \<Rightarrow> (let (m', cx') = execute_fenced xe e x t cx w m in (m', Inr (Some cx')))
                     | None \<Rightarrow>
                         (case start_worker env (wk_worker_id w) t c (xm_workers m, cx, xm_world m) of
                            Inl e \<Rightarrow> (m, Inl e)
                          | Inr (wm, cx', world) \<Rightarrow>
                              conclude xe x t cx'
                                (m\<lparr>xm_workers := terminate_worker (wk_worker_id w) wm,
                                   xm_executions := dict_set (xm_executions m) x cx', xm_world := world\<rparr>)))))
      | _ \<Rightarrow> (m, Inl (ValueError ''Execution not found'')))"

section \<open>get\_execution\<close>

definition execution_status_list :: "execution_status list" where
  "execution_status_list =
     [E_QUEUED, E_RUNNING, E_SUCCEEDED, E_FAILED, E_TIMED_OUT, E_CANCELLED, E_LIMIT_EXCEEDED]"

definition status_of_value :: "string \<Rightarrow> execution_status" where
  "status_of_value v =
     (case find (\<lambda>s. status_value s = v) execution_status_list of None \<Rightarrow> E_FAILED | Some s \<Rightarrow> s)"

definition input_str :: "(string \<times> json) list \<Rightarrow> string \<Rightarrow> string option" where
  "input_str ins k = (case map_of ins k of Some (JStr s) \<Rightarrow> Some s | _ \<Rightarrow> None)"

definition input_int :: "(string \<times> json) list \<Rightarrow> string \<Rightarrow> int option" where
  "input_int ins k = (case map_of ins k of Some (JInt n) \<Rightarrow> Some n | _ \<Rightarrow> None)"

definition reconstructed_context :: "instant \<Rightarrow> string \<Rightarrow> reconstruction \<Rightarrow> task_context" where
  "reconstructed_context now x r =
     \<lparr>tc_execution_id = x, tc_task_id = rx_task_id r, tc_account_id = ''RECONSTRUCTED'',
      tc_project_id = ''RECONSTRUCTED'', tc_capability_id = rx_capability_id r, tc_workspace_path = [],
      tc_environment = [], tc_allowed_tools = [], tc_deadline = now, tc_resource_limits = [],
      tc_network_policy = ''none'', tc_write_policy = ''none'', tc_status = status_of_value (rx_status r),
      tc_result = None, tc_failure_reason = None, tc_error_message = None, tc_started_at = None,
      tc_completed_at = None, tc_duration_ms = None, tc_executor_type = input_str (rx_inputs r) ''executor_type'',
      tc_executor_id = input_str (rx_inputs r) ''executor_id'', tc_executor_version = None,
      tc_model_id = input_str (rx_inputs r) ''model_id'', tc_model_version = None, tc_policy_version = None,
      tc_input_hash = None, tc_result_hash = None, tc_evidence_ref = None,
      tc_routing_class = input_str (rx_inputs r) ''routing_class'', tc_capability_family = None,
      tc_department_id = None, tc_generation = input_int (rx_inputs r) ''generation''\<rparr>"

definition get_execution ::
  "instant \<Rightarrow> string \<Rightarrow> 'w execution_manager \<Rightarrow> 'w execution_manager \<times> task_context option" where
  "get_execution now x m =
     (case dict_get (xm_executions m) x of
        Some cx \<Rightarrow> (m, Some cx)
      | None \<Rightarrow>
          (case xm_continuity m of
             None \<Rightarrow> (m, None)
           | Some ce \<Rightarrow>
               (case reconstruct_execution ce x of
                  None \<Rightarrow> (m, None)
                | Some r \<Rightarrow>
                    let cx = reconstructed_context now x r
                    in (m\<lparr>xm_executions := dict_set (xm_executions m) x cx\<rparr>, Some cx))))"

definition get_all_executions :: "'w execution_manager \<Rightarrow> task_context list" where
  "get_all_executions m = sort_key tc_execution_id (dict_values (xm_executions m))"

section \<open>Invariant\<close>

text \<open>Every worker belongs to a known execution, and no execution has two.\<close>

definition manager_inv :: "'w execution_manager \<Rightarrow> bool" where
  "manager_inv m \<longleftrightarrow>
     dict_wf (wm_workers (xm_workers m)) \<and> workers_keyed (xm_workers m) \<and>
     (\<forall>wid w. get_worker (xm_workers m) wid = Some w \<longrightarrow> dict_get (xm_executions m) (wk_execution_id w) \<noteq> None) \<and>
     (\<forall>wid w wid' w'. get_worker (xm_workers m) wid = Some w \<longrightarrow> get_worker (xm_workers m) wid' = Some w' \<longrightarrow>
        wk_execution_id w = wk_execution_id w' \<longrightarrow> wid = wid')"

text \<open>The worker of an execution has ended.\<close>

definition execution_over :: "string \<Rightarrow> 'w execution_manager \<Rightarrow> bool" where
  "execution_over x m \<longleftrightarrow> manager_inv m \<and>
     (\<exists>wid w. get_worker (xm_workers m) wid = Some w \<and> wk_execution_id w = x \<and> terminal (wk_state w))"

inductive manager_step :: "'w execution_manager \<Rightarrow> 'w execution_manager \<Rightarrow> bool" where
  submit: "dict_get (xm_executions m) (si_execution ids) = None \<Longrightarrow>
     get_worker (xm_workers m) (''wrk-'' @ si_worker ids) = None \<Longrightarrow>
     manager_step m (fst (submit_task fmt fl cwd ids t m))"
| execute: "manager_step m (fst (execute_sync env xe x m))"
| lookup: "manager_step m (fst (get_execution now x m))"
| advance: "manager_step m (m\<lparr>xm_generation := g\<rparr>)"

inductive_cases manager_stepE: "manager_step m m'"

lemma worker_of_Some:
  assumes "manager_inv m" and "worker_of m x = Some w"
  shows "get_worker (xm_workers m) (wk_worker_id w) = Some w \<and> wk_execution_id w = x"
proof -
  have w: "w \<in> set (dict_values (wm_workers (xm_workers m)))" "wk_execution_id w = x"
    using assms(2) by (auto simp: worker_of_def list_workers_def find_Some_iff)
  then obtain wid where "(wid, w) \<in> set (wm_workers (xm_workers m))" by auto
  then have "get_worker (xm_workers m) wid = Some w"
    using assms(1) by (simp add: manager_inv_def get_worker_def map_of_is_SomeI)
  moreover from this have "wk_worker_id w = wid" using assms(1) by (simp add: manager_inv_def workers_keyed_def)
  ultimately show ?thesis using w(2) by simp
qed

lemma worker_of_unique:
  assumes "manager_inv m" and "worker_of m x = Some w" and "get_worker (xm_workers m) wid = Some w'"
    and "wk_execution_id w' = x"
  shows "w' = w"
proof -
  have "get_worker (xm_workers m) (wk_worker_id w) = Some w" "wk_execution_id w = x"
    using worker_of_Some [OF assms(1,2)] by auto
  moreover from this have "wid = wk_worker_id w" using assms unfolding manager_inv_def by metis
  ultimately show ?thesis using assms(3) by simp
qed

text \<open>Changing a worker in place, when the execution table only grows.\<close>

lemma manager_inv_update:
  assumes "manager_inv m" and "get_worker (xm_workers m) wid = Some w"
    and "get_worker (xm_workers m') wid = Some w'" and "wk_execution_id w' = wk_execution_id w"
    and "wk_worker_id w' = wid"
    and "\<forall>v. v \<noteq> wid \<longrightarrow> get_worker (xm_workers m') v = get_worker (xm_workers m) v"
    and "dict_wf (wm_workers (xm_workers m'))"
    and "\<forall>y. dict_get (xm_executions m) y \<noteq> None \<longrightarrow> dict_get (xm_executions m') y \<noteq> None"
  shows "manager_inv m'"
proof -
  have "get_worker (xm_workers m') v = (if v = wid then Some w' else get_worker (xm_workers m) v)" for v
    using assms(3,6) by simp
  then show ?thesis
    using assms(1,2,4,5,7,8) unfolding manager_inv_def workers_keyed_def
    by (auto split: if_splits)
qed

lemma manager_inv_cong:
  assumes "xm_workers m' = xm_workers m"
    and "\<forall>y. dict_get (xm_executions m) y \<noteq> None \<longrightarrow> dict_get (xm_executions m') y \<noteq> None"
  shows "manager_inv m \<Longrightarrow> manager_inv m'"
  using assms unfolding manager_inv_def by metis

section \<open>Effect of the operations\<close>

lemma submit_task_Inl:
  assumes "submit_task fmt fl cwd ids t m = (m', Inl e)"
  shows "xm_workers m' = xm_workers m \<and> xm_executions m' = xm_executions m \<and> xm_tasks m' = xm_tasks m \<and>
    xm_continuity m' = xm_continuity m \<and> xm_world m' = xm_world m"
    and "xm_dirs m' = xm_dirs m \<or>
      (\<exists>r. create_workspace (xm_ephemeral m) cwd (si_refuse ids) (si_execution ids) (tk_project_id t) (xm_dirs m) = (xm_dirs m', r))"
  using assms by (auto simp: submit_task_def announce_def Let_def split: sum.splits prod.splits)

lemma create_worker_result:
  assumes "create_worker hex now sel t cx m = (m', cx', w)"
  shows "wm_workers m' = dict_set (wm_workers m) (''wrk-'' @ hex) w \<and> wk_worker_id w = ''wrk-'' @ hex \<and>
    wk_execution_id w = tc_execution_id cx \<and> wk_state w = W_CREATED \<and>
    tc_execution_id cx' = tc_execution_id cx \<and> tc_status cx' = tc_status cx \<and>
    tc_generation cx' = tc_generation cx \<and> tc_workspace_path cx' = tc_workspace_path cx \<and>
    tc_deadline cx' = tc_deadline cx \<and> tc_resource_limits cx' = tc_resource_limits cx \<and>
    wk_executor_type w = executor_value (es_executor_type sel) \<and> wk_deadline w = tc_deadline cx"
  using assms by (auto simp: create_worker_def put_worker_def Let_def)

lemma queued_context_sel [simp]:
  "tc_execution_id (queued_context x path gen t c sel) = x" "tc_status (queued_context x path gen t c sel) = E_QUEUED"
  "tc_generation (queued_context x path gen t c sel) = Some gen"
  "tc_workspace_path (queued_context x path gen t c sel) = path"
  "tc_deadline (queued_context x path gen t c sel) = tk_deadline t"
  "tc_resource_limits (queued_context x path gen t c sel) =
     [(''max_output_size'', cap_max_output c), (''max_workspace_size'', 10 * 1024 * 1024)]"
  by (simp_all add: queued_context_def)

lemma submit_task_Inr:
  assumes "submit_task fmt fl cwd ids t m = (m', Inr cx)"
  shows "\<exists>c ds path w sel.
    admit m t = Inr c \<and> snd (selector_select fmt None fl t c (xm_policy m) (xm_selector m)) = Inr sel \<and>
    wk_executor_type w = executor_value (es_executor_type sel) \<and> wk_deadline w = tk_deadline t \<and>
    tc_deadline cx = tk_deadline t \<and>
    tc_resource_limits cx = [(''max_output_size'', cap_max_output c), (''max_workspace_size'', 10 * 1024 * 1024)] \<and> create_workspace (xm_ephemeral m) cwd (si_refuse ids) (si_execution ids) (tk_project_id t) (xm_dirs m) = (ds, Inr path) \<and>
    xm_dirs m' = ds \<and> tc_workspace_path cx = path \<and> tc_status cx = E_QUEUED \<and>
    tc_generation cx = Some (case xm_generation m of None \<Rightarrow> 1 | Some g \<Rightarrow> current_gen g) \<and>
    xm_executions m' = dict_set (xm_executions m) (si_execution ids) cx \<and>
    xm_tasks m' = dict_set (xm_tasks m) (si_execution ids) t \<and>
    xm_capabilities m' = xm_capabilities m \<and> xm_generation m' = xm_generation m \<and>
    wm_workers (xm_workers m') = dict_set (wm_workers (xm_workers m)) (''wrk-'' @ si_worker ids) w \<and>
    wk_worker_id w = ''wrk-'' @ si_worker ids \<and> wk_execution_id w = si_execution ids \<and> wk_state w = W_CREATED \<and>
    xm_world m' = xm_world m \<and> xm_continuity m' = map_option (record_queued ids t cx) (xm_continuity m)"
proof -
  obtain c where c: "admit m t = Inr c"
    using assms by (auto simp: submit_task_def Let_def split: sum.splits)
  obtain sel' chosen where sel: "selector_select fmt None fl t c (xm_policy m) (xm_selector m) = (sel', chosen)"
    by (metis prod.exhaust)
  then obtain s where chosen: "chosen = Inr s"
    using assms c by (cases chosen) (auto simp: submit_task_def Let_def)
  obtain ds path where ws: "create_workspace (xm_ephemeral m) cwd (si_refuse ids) (si_execution ids) (tk_project_id t) (xm_dirs m) = (ds, Inr path)"
    using assms c sel chosen
    by (cases "create_workspace (xm_ephemeral m) cwd (si_refuse ids) (si_execution ids) (tk_project_id t) (xm_dirs m)")
       (auto simp: submit_task_def Let_def split: sum.splits)
  obtain wm cx' w where worker: "create_worker (si_worker ids) (si_now ids) s t
      (queued_context (si_execution ids) path (case xm_generation m of None \<Rightarrow> 1 | Some g \<Rightarrow> current_gen g) t c s)
      (xm_workers m) = (wm, cx', w)"
    by (metis prod.exhaust)
  have "m' = (announce (si_execution ids) t m)\<lparr>xm_selector := sel', xm_dirs := ds,
      xm_tasks := dict_set (xm_tasks m) (si_execution ids) t,
      xm_executions := dict_set (xm_executions m) (si_execution ids) cx', xm_workers := wm,
      xm_continuity := map_option (record_queued ids t cx') (xm_continuity m)\<rparr> \<and> cx = cx'"
    using assms by (auto simp: submit_task_def Let_def c sel chosen ws worker)
  then show ?thesis
    using create_worker_result [OF worker] c ws sel chosen by (auto simp: announce_def)
qed

lemma terminate_terminal: "get_worker m wid = Some w \<Longrightarrow> terminal (wk_state w) \<Longrightarrow> terminate_worker wid m = m"
  by (auto simp: terminate_worker_def terminal_def)

lemma conclude_frame:
  "xm_workers (fst (conclude xe x t cx m)) = xm_workers m"
  "xm_executions (fst (conclude xe x t cx m)) = xm_executions m"
  "xm_world (fst (conclude xe x t cx m)) = xm_world m"
  "xm_tasks (fst (conclude xe x t cx m)) = xm_tasks m"
  by (auto simp: conclude_def Let_def split: sum.splits)

text \<open>
  An execution either leaves the manager as it was, or is fenced, or is run; in the last two
  cases its worker has ended and no other worker changed.
\<close>

lemma execute_sync_effect:
  assumes inv: "manager_inv m" and run: "execute_sync env xe x m = (m', res)"
  shows "m' = m \<and> (\<exists>e. res = Inl e) \<or>
    (\<exists>w w' cx t c cx'. worker_of m x = Some w \<and> dict_get (xm_executions m) x = Some cx \<and>
       dict_get (xm_tasks m) x = Some t \<and> capability_get (xm_capabilities m) (tk_capability_id t) = Some c \<and>
       get_worker (xm_workers m') (wk_worker_id w) = Some w' \<and> wk_worker_id w' = wk_worker_id w \<and>
       wk_execution_id w' = x \<and> terminal (wk_state w') \<and> dict_wf (wm_workers (xm_workers m')) \<and>
       (\<forall>v. v \<noteq> wk_worker_id w \<longrightarrow> get_worker (xm_workers m') v = get_worker (xm_workers m) v) \<and>
       xm_executions m' = dict_set (xm_executions m) x cx' \<and>
       ((\<exists>e. fence_error m cx = Some e \<and> (m', cx') = execute_fenced xe e x t cx w m \<and> res = Inr (Some cx')) \<or>
        (\<exists>wm world. fence_error m cx = None \<and> wk_state w = W_CREATED \<and> agree (wk_state w') (tc_status cx') \<and>
           start_worker env (wk_worker_id w) t c (xm_workers m, cx, xm_world m) = Inr (wm, cx', world) \<and>
           (m', res) = conclude xe x t cx' (m\<lparr>xm_workers := wm,
             xm_executions := dict_set (xm_executions m) x cx', xm_world := world\<rparr>))))"
    (is "?none \<or> ?some")
proof (cases "m' = m \<and> (\<exists>e. res = Inl e)")
  case False
  obtain cx t where cx: "dict_get (xm_executions m) x = Some cx" "dict_get (xm_tasks m) x = Some t"
    using run False by (auto simp: execute_sync_def split: option.splits)
  obtain c where c: "capability_get (xm_capabilities m) (tk_capability_id t) = Some c"
    using run False cx by (auto simp: execute_sync_def split: option.splits)
  obtain w where w: "worker_of m x = Some w"
    using run False cx c by (auto simp: execute_sync_def split: option.splits)
  note own = worker_of_Some [OF inv w]
  have wf: "dict_wf (wm_workers (xm_workers m))" and keyed: "workers_keyed (xm_workers m)"
    using inv by (simp_all add: manager_inv_def)
  show ?thesis
  proof (cases "fence_error m cx")
    case (Some e)
    obtain cx' where f: "execute_fenced xe e x t cx w m = (m', cx')" "res = Inr (Some cx')"
      using run cx c w Some by (auto simp: execute_sync_def split_beta Let_def) (metis prod.collapse)
    then have "xm_workers m' = put_worker (w\<lparr>wk_state := W_FAILED\<rparr>) (xm_workers m)"
        "xm_executions m' = dict_set (xm_executions m) x cx'"
      by (auto simp: execute_fenced_def Let_def)
    then have ?some
      using cx c w own wf f Some
      by (intro exI [of _ w] exI [of _ "w\<lparr>wk_state := W_FAILED\<rparr>"] exI [of _ cx] exI [of _ t] exI [of _ c] exI [of _ cx'])
         (simp add: terminal_def put_worker_def get_worker_def)
    then show ?thesis ..
  next
    case None
    obtain wm cx' world where start: "start_worker env (wk_worker_id w) t c (xm_workers m, cx, xm_world m) = Inr (wm, cx', world)"
      using run False cx c w None
      by (cases "start_worker env (wk_worker_id w) t c (xm_workers m, cx, xm_world m)") (auto simp: execute_sync_def)
    obtain w1 w' where w': "get_worker (xm_workers m) (wk_worker_id w) = Some w1" "wk_state w1 = W_CREATED"
        "get_worker wm (wk_worker_id w) = Some w'" "wk_worker_id w' = wk_worker_id w"
        "agree (wk_state w') (tc_status cx')"
        "\<forall>v. v \<noteq> wk_worker_id w \<longrightarrow> get_worker wm v = get_worker (xm_workers m) v"
      using start_worker_result [OF keyed start] by blast
    have frame: "wk_execution_id w' = x" "dict_wf (wm_workers wm)"
      using start_worker_frame [OF keyed start w'(1,3)] own w'(1) wf by auto
    have "terminal (wk_state w')" using w'(5) by (rule agree_terminal)
    then have ended: "terminate_worker (wk_worker_id w) wm = wm" using w'(3) by (rule terminate_terminal [rotated])
    have m': "(m', res) = conclude xe x t cx' (m\<lparr>xm_workers := wm,
        xm_executions := dict_set (xm_executions m) x cx', xm_world := world\<rparr>)"
      using run cx c w None start ended by (simp add: execute_sync_def)
    then have "xm_workers m' = wm" "xm_executions m' = dict_set (xm_executions m) x cx'"
      using conclude_frame(1,2) [of xe x t cx' "m\<lparr>xm_workers := wm,
        xm_executions := dict_set (xm_executions m) x cx', xm_world := world\<rparr>"] by (simp_all flip: m')
    then have ?some
      using cx c w own w' frame None start m' \<open>terminal (wk_state w')\<close>
      by (intro exI [of _ w] exI [of _ w'] exI [of _ cx] exI [of _ t] exI [of _ c] exI [of _ cx']) auto
    then show ?thesis ..
  qed
qed simp

text \<open>The same as an elimination rule, for what the worker store is concerned with.\<close>

lemma execute_sync_cases:
  assumes "manager_inv m" and "execute_sync env xe x m = (m', res)"
  obtains (none) e where "m' = m" "res = Inl e"
  | (some) w w' cx' where "worker_of m x = Some w" "get_worker (xm_workers m) (wk_worker_id w) = Some w"
      "wk_execution_id w = x" "get_worker (xm_workers m') (wk_worker_id w) = Some w'"
      "wk_worker_id w' = wk_worker_id w" "wk_execution_id w' = x" "terminal (wk_state w')"
      "dict_wf (wm_workers (xm_workers m'))"
      "\<forall>v. v \<noteq> wk_worker_id w \<longrightarrow> get_worker (xm_workers m') v = get_worker (xm_workers m) v"
      "xm_executions m' = dict_set (xm_executions m) x cx'"
      "xm_world m' = xm_world m \<and> xm_dirs m' = xm_dirs m \<and> xm_evidence m' = xm_evidence m \<or> wk_state w = W_CREATED"
proof -
  have fenced: "xm_world m' = xm_world m \<and> xm_dirs m' = xm_dirs m \<and> xm_evidence m' = xm_evidence m" if "(m', cx') = execute_fenced xe e x t cx w m" for cx' e t cx w
    using that by (simp add: execute_fenced_def Let_def)
  from execute_sync_effect [OF assms] show ?thesis
  proof (elim disjE exE conjE)
    fix e assume "m' = m" "res = Inl e" then show ?thesis by (rule none)
  next
    fix w w' cx t c cx' e
    assume w: "worker_of m x = Some w" "get_worker (xm_workers m') (wk_worker_id w) = Some w'"
      "wk_worker_id w' = wk_worker_id w" "wk_execution_id w' = x" "terminal (wk_state w')"
      "dict_wf (wm_workers (xm_workers m'))"
      "\<forall>v. v \<noteq> wk_worker_id w \<longrightarrow> get_worker (xm_workers m') v = get_worker (xm_workers m) v"
      "xm_executions m' = dict_set (xm_executions m) x cx'" "(m', cx') = execute_fenced xe e x t cx w m"
    show ?thesis
      by (rule some [of w w' cx']) (use w worker_of_Some [OF assms(1) w(1)] fenced [OF w(9)] in auto)
  next
    fix w w' cx' assume w: "worker_of m x = Some w" "get_worker (xm_workers m') (wk_worker_id w) = Some w'"
      "wk_worker_id w' = wk_worker_id w" "wk_execution_id w' = x" "terminal (wk_state w')"
      "dict_wf (wm_workers (xm_workers m'))"
      "\<forall>v. v \<noteq> wk_worker_id w \<longrightarrow> get_worker (xm_workers m') v = get_worker (xm_workers m) v"
      "xm_executions m' = dict_set (xm_executions m) x cx'" "wk_state w = W_CREATED"
    show ?thesis
      by (rule some [of w w' cx']) (use w worker_of_Some [OF assms(1) w(1)] in auto)
  qed
qed

section \<open>Preservation\<close>

lemma manager_inv_submit:
  assumes "manager_inv m" and "dict_get (xm_executions m) (si_execution ids) = None"
    and "get_worker (xm_workers m) (''wrk-'' @ si_worker ids) = None"
  shows "manager_inv (fst (submit_task fmt fl cwd ids t m))"
proof (cases "submit_task fmt fl cwd ids t m")
  case (Pair m' res)
  show ?thesis
  proof (cases res)
    case (Inl e)
    from submit_task_Inl(1) [OF Pair [unfolded Inl]] assms(1) show ?thesis
      unfolding Pair fst_conv by (elim manager_inv_cong [rotated 2]) auto
  next
    case (Inr cx)
    let ?wid = "''wrk-'' @ si_worker ids"
    obtain w where w: "wm_workers (xm_workers m') = dict_set (wm_workers (xm_workers m)) ?wid w"
        "wk_worker_id w = ?wid" "wk_execution_id w = si_execution ids"
        "xm_executions m' = dict_set (xm_executions m) (si_execution ids) cx"
      using submit_task_Inr [OF Pair [unfolded Inr]] by blast
    have get: "get_worker (xm_workers m') v = (if v = ?wid then Some w else get_worker (xm_workers m) v)" for v
      by (simp add: get_worker_def w(1))
    have new: "get_worker (xm_workers m) v = Some u \<Longrightarrow> wk_execution_id u \<noteq> si_execution ids" for v u
      using assms(1,2) by (force simp: manager_inv_def)
    have "dict_wf (wm_workers (xm_workers m'))" unfolding w(1) using assms(1) by (simp add: manager_inv_def)
    moreover have "workers_keyed (xm_workers m')"
      using assms(1) w(2) unfolding workers_keyed_def manager_inv_def get by auto
    moreover have "get_worker (xm_workers m') v = Some u \<Longrightarrow> dict_get (xm_executions m') (wk_execution_id u) \<noteq> None" for v u
      using assms(1) w(3) unfolding manager_inv_def get w(4) by (auto split: if_splits)
    moreover have "get_worker (xm_workers m') v = Some u \<Longrightarrow> get_worker (xm_workers m') v' = Some u' \<Longrightarrow>
        wk_execution_id u = wk_execution_id u' \<Longrightarrow> v = v'" for v u v' u'
      using assms(1) w(3) new [of v u] new [of v' u'] unfolding manager_inv_def get by (auto split: if_splits)
    ultimately show ?thesis unfolding Pair fst_conv manager_inv_def by blast
  qed
qed

lemma manager_inv_execute:
  assumes "manager_inv m"
  shows "manager_inv (fst (execute_sync env xe x m))"
proof -
  obtain m' res where run: "execute_sync env xe x m = (m', res)" by (metis prod.exhaust)
  from assms run have "manager_inv m'"
  proof (cases rule: execute_sync_cases)
    case (some w w' cx')
    then show ?thesis by (intro manager_inv_update [OF assms, of _ w m' w']) auto
  qed (use assms in simp)
  then show ?thesis by (simp add: run)
qed

lemma get_execution_frame:
  "xm_workers (fst (get_execution now x m)) = xm_workers m"
  "xm_world (fst (get_execution now x m)) = xm_world m"
  "dict_get (xm_executions m) y \<noteq> None \<Longrightarrow> dict_get (xm_executions (fst (get_execution now x m))) y \<noteq> None"
  by (auto simp: get_execution_def Let_def split: option.splits)

lemma manager_inv_step: "manager_step m m' \<Longrightarrow> manager_inv m \<Longrightarrow> manager_inv m'"
proof (induction rule: manager_step.induct)
  case (lookup m now x)
  show ?case
    by (rule manager_inv_cong [OF get_execution_frame(1) _ lookup]) (use get_execution_frame(3) in blast)
next
  case (advance m g)
  show ?case by (rule manager_inv_cong [OF _ _ advance]) simp_all
qed (auto intro: manager_inv_submit manager_inv_execute)

lemma manager_inv_init: "manager_inv (manager_init eph ds models au co fd gen ce world)"
  by (simp add: manager_inv_def manager_init_def get_worker_def workers_keyed_def)

text \<open>An ended execution stays ended.\<close>

lemma execution_over_step: "manager_step m m' \<Longrightarrow> execution_over x m \<Longrightarrow> execution_over x m'"
proof (induction rule: manager_step.induct)
  case (submit m ids fmt fl cwd t)
  then have inv: "manager_inv (fst (submit_task fmt fl cwd ids t m))"
    by (auto simp: execution_over_def intro: manager_inv_submit)
  obtain wid w where w: "get_worker (xm_workers m) wid = Some w" "wk_execution_id w = x" "terminal (wk_state w)"
    using submit.prems by (auto simp: execution_over_def)
  have "get_worker (xm_workers (fst (submit_task fmt fl cwd ids t m))) wid = Some w"
  proof (cases "submit_task fmt fl cwd ids t m")
    case (Pair m' res)
    show ?thesis
    proof (cases res)
      case (Inl e)
      then show ?thesis using submit_task_Inl [OF Pair [unfolded Inl]] Pair w(1) by simp
    next
      case (Inr cx)
      have "wid \<noteq> ''wrk-'' @ si_worker ids" using submit.hyps(2) w(1) by auto
      then show ?thesis
        using submit_task_Inr [OF Pair [unfolded Inr]] w(1) by (auto simp: Pair get_worker_def)
    qed
  qed
  then show ?case using inv w(2,3) by (auto simp: execution_over_def)
next
  case (execute m env xe y)
  then have inv: "manager_inv m" by (simp add: execution_over_def)
  obtain wid v where v: "get_worker (xm_workers m) wid = Some v" "wk_execution_id v = x" "terminal (wk_state v)"
    using execute.prems by (auto simp: execution_over_def)
  obtain m' res where run: "execute_sync env xe y m = (m', res)" by (metis prod.exhaust)
  from inv run have "\<exists>u. get_worker (xm_workers m') wid = Some u \<and> wk_execution_id u = x \<and> terminal (wk_state u)"
  proof (cases rule: execute_sync_cases)
    case (some w w' cx')
    then show ?thesis using v by (cases "wid = wk_worker_id w") auto
  qed (use v in auto)
  then show ?case using manager_inv_execute [OF inv, of env xe y] by (auto simp: execution_over_def run)
next
  case (lookup m now y)
  then show ?case
    using manager_inv_step [OF manager_step.lookup [of m now y]] by (simp add: execution_over_def get_execution_frame(1))
next
  case (advance m g)
  then show ?case using manager_inv_step [OF manager_step.advance [of m g]] by (simp add: execution_over_def)
qed

interpretation execution_life: one_way manager_step "execution_over x" for x
  by unfold_locales (rule execution_over_step)

lemma manager_inv_reachable: "manager_step\<^sup>*\<^sup>* m m' \<Longrightarrow> manager_inv m \<Longrightarrow> manager_inv m'"
  by (induction rule: rtranclp_induct) (auto intro: manager_inv_step)

text \<open>An ended execution does nothing when it is executed again.\<close>

lemma execute_over:
  assumes "execution_over x m" and run: "execute_sync env xe x m = (m', res)"
  shows "xm_world m' = xm_world m \<and> xm_dirs m' = xm_dirs m \<and> xm_evidence m' = xm_evidence m"
proof -
  have inv: "manager_inv m" using assms(1) by (simp add: execution_over_def)
  obtain wid v where v: "get_worker (xm_workers m) wid = Some v" "wk_execution_id v = x" "terminal (wk_state v)"
    using assms(1) by (auto simp: execution_over_def)
  from inv run show ?thesis
  proof (cases rule: execute_sync_cases)
    case (some w w' cx')
    then have "v = w" using worker_of_unique [OF inv some(1) v(1,2)] by simp
    then show ?thesis using some(11) v(3) by (simp add: terminal_def)
  qed simp
qed

lemma execute_ends:
  assumes "manager_inv m" and run: "execute_sync env xe x m = (m', Inr r)"
  shows "execution_over x m'"
proof -
  have "manager_inv m'" using manager_inv_execute [OF assms(1), of env xe x] by (simp add: run)
  moreover from assms have "\<exists>wid w. get_worker (xm_workers m') wid = Some w \<and> wk_execution_id w = x \<and> terminal (wk_state w)"
    by (cases rule: execute_sync_cases) auto
  ultimately show ?thesis by (simp add: execution_over_def)
qed

section \<open>The outcome in the continuity log\<close>

lemma continuity_events_sorted:
  assumes "continuity_inv ce"
  shows "sort_key er_sequence (filter P (ce_events ce)) = filter P (ce_events ce)"
proof -
  have "map er_sequence (ce_events ce) = map (\<lambda>i. int i + 1) [0..<length (ce_events ce)]"
    using assms unfolding continuity_inv_def by blast
  moreover have "sorted (map (\<lambda>i. int i + 1) [0..<n])" for n
    by (simp add: sorted_wrt_map sorted_wrt_iff_nth_less)
  ultimately have "sorted (map er_sequence (ce_events ce))" by metis
  then have "sorted (map er_sequence (filter P (ce_events ce)))"
    by (rule sorted_filter)
  then show ?thesis by (rule sort_key_id_if_sorted)
qed

lemma reconstruct_appended:
  assumes "continuity_inv ce" and "er_execution_id e = Some x" and "er_status e \<in> set final_statuses"
  shows "\<exists>r. reconstruct_execution (append_event e ce) x = Some r \<and> rx_status r = er_status e \<and> rx_inputs r = er_inputs e"
proof -
  define P where "P = (\<lambda>e :: event_record. er_execution_id e = Some x \<or> er_task_id e = x \<or>
                            map_of (er_inputs e) ''execution_id'' = Some (JStr x))"
  have "continuity_inv (append_event e ce)" using assms(1) by (rule continuity_inv_append)
  note sorted = continuity_events_sorted [OF this, of P]
  have evs: "filter P (ce_events (append_event e ce)) = filter P (ce_events ce) @ [number_event ce e]"
    using assms(2) by (simp add: append_event_def number_event_def P_def Let_def)
  note sorted' = sorted [unfolded evs]
  have fields: "er_status (number_event ce e) = er_status e" "er_inputs (number_event ce e) = er_inputs e"
    by (simp_all add: number_event_def)
  show ?thesis
    using assms(3) fields
    by (simp add: reconstruct_execution_def last_opt_def Let_def evs sorted' flip: P_def)
qed

text \<open>The log of an execution that ran: the outcome is its last event.\<close>

lemma record_outcome_append:
  "continuity_inv ce \<Longrightarrow> \<exists>ce1 ev. record_outcome xe x t cx ce = append_event ev ce1 \<and> continuity_inv ce1 \<and>
     er_execution_id ev = Some x \<and> er_status ev = status_value (tc_status cx) \<and>
     er_inputs ev = execution_inputs x cx @ failure_inputs cx"
  by (auto simp: record_outcome_def Let_def split: option.splits intro!: exI continuity_inv_save)

lemma status_of_value_inverse [simp]: "status_of_value (status_value s) = s"
  by (cases s) (simp_all add: status_of_value_def execution_status_list_def)

lemma execution_inputs_read:
  "input_str (execution_inputs x cx @ ys) ''routing_class'' = tc_routing_class cx"
  "input_str (execution_inputs x cx @ ys) ''executor_type'' = tc_executor_type cx"
  "input_str (execution_inputs x cx @ ys) ''executor_id'' = tc_executor_id cx"
  "input_str (execution_inputs x cx @ ys) ''model_id'' = tc_model_id cx"
  "input_int (execution_inputs x cx @ ys) ''generation'' = tc_generation cx"
  by (auto simp: execution_inputs_def input_str_def input_int_def jopt_def jopt_int_def split: option.splits)

text \<open>However the execution ends, its last event carries the outcome.\<close>

lemma outcome_logged:
  assumes "manager_inv m" and "xm_continuity m = Some ce" and "continuity_inv ce"
    and "execute_sync env xe x m = (m', Inr r)" and "dict_get (xm_executions m') x = Some cx"
  shows "\<exists>ce1 ev. xm_continuity m' = Some (append_event ev ce1) \<and> continuity_inv ce1 \<and>
     er_execution_id ev = Some x \<and> er_status ev = status_value (tc_status cx) \<and>
     er_inputs ev = execution_inputs x cx @ failure_inputs cx"
  using execute_sync_effect [OF assms(1,4)]
proof (elim disjE exE conjE)
  fix w w' cx0 t c cx' e
  assume "xm_executions m' = dict_set (xm_executions m) x cx'" "(m', cx') = execute_fenced xe e x t cx0 w m"
  then show ?thesis
    using assms(2,3,5) by (auto simp: execute_fenced_def Let_def intro!: exI)
next
  fix w w' cx0 t c cx' wm world
  assume "xm_executions m' = dict_set (xm_executions m) x cx'"
    and "(m', Inr r) = conclude xe x t cx' (m\<lparr>xm_workers := wm, xm_executions := dict_set (xm_executions m) x cx',
           xm_world := world\<rparr>)"
  then have "xm_continuity m' = Some (record_outcome xe x t cx ce)"
    using assms(2,5) by (auto simp: conclude_def Let_def split: sum.splits if_splits)
  then show ?thesis using record_outcome_append [OF assms(3), of xe x t cx] by metis
qed simp

section \<open>Properties\<close>

text \<open>
  C2. An execution acts at most once: after \<open>execute_sync\<close> returned for an execution, then
  whatever is submitted (under fresh ids), executed or looked up in between, and however the
  generation moves, executing it again touches neither the outside world nor any workspace or
  preserved evidence.
\<close>

theorem execution_acts_once:
  assumes "manager_step\<^sup>*\<^sup>* (manager_init eph ds models au co fd gen ce world) m"
    and "execute_sync env xe x m = (m1, Inr r)" and "manager_step\<^sup>*\<^sup>* m1 m2"
    and "execute_sync env' xe' x m2 = (m3, res)"
  shows "xm_world m3 = xm_world m2 \<and> xm_dirs m3 = xm_dirs m2 \<and> xm_evidence m3 = xm_evidence m2"
proof (rule execute_over [OF _ assms(4)])
  have "manager_inv m" using assms(1) manager_inv_init by (rule manager_inv_reachable)
  then have "execution_over x m1" using assms(2) by (rule execute_ends)
  then show "execution_over x m2" using assms(3) execution_life.over_forever by blast
qed

definition demo_ids :: submit_ids where
  "demo_ids = \<lparr>si_execution = ''x1'', si_worker = ''1'', si_record = ''r1'', si_event = ''e1'', si_now = 0,
     si_stamp = ''t0'', si_refuse = \<lambda>_. None\<rparr>"

definition demo_xe :: outcome_env where
  "demo_xe = \<lparr>xe_event = ''e2'', xe_stamp = ''t9'', xe_cwd = ''/'', xe_exists = (\<lambda>_. False)\<rparr>"

definition demo_execution_manager :: "nat execution_manager" where
  "demo_execution_manager = manager_init \<lparr>eph_base_dir = ''/ws''\<rparr> {''/'', ''/ws''} (registry_blank None) True True ''/fabric''
     (Some \<lparr>current_gen = 3\<rparr>) (Some continuity_init) 0"

abbreviation demo_submit :: "nat execution_manager \<times> task_context result" where
  "demo_submit \<equiv> submit_task (\<lambda>_. ''0.9'') no_flags ''/'' demo_ids (demo_hash_task ''/srv/x'') demo_execution_manager"

lemma demo_workspace_path: "abspath ''/'' (path_join (path_join ''/ws'' (basename ''proj-1'')) ''x1'') = ''/ws/proj-1/x1''"
  by code_simp

definition demo_cap :: capability_definition where
  "demo_cap = capability_of_row (''filesystem.hash'', ''Filesystem Hash'', ''Hashes file contents.'', False,
     DETERMINISTIC, ''integrity'', ''read'', True, True)"

lemma demo_selects:
  "\<exists>o2 sel. selector_select (\<lambda>_. ''0.9'') None no_flags (demo_hash_task ''/srv/x'')
     (demo_cap) default_policy orc = (o2, Inr sel) \<and> es_executor_type sel = DETERMINISTIC"
  by (simp add: selector_select_def plan_task_def demo_hash_task_def capability_get_def capability_register_def
        planning_denial_def no_flags_def routed_plan_def demo_cap_def Let_def)

lemma demo_hash_capability:
  "capability_get capability_init ''filesystem.hash'' = Some (demo_cap)"
  by code_simp

lemma demo_submits: "\<exists>m cx. demo_submit = (m, Inr cx)"
proof -
  obtain o2 sel where sel: "selector_select (\<lambda>_. ''0.9'') None no_flags (demo_hash_task ''/srv/x'')
     (demo_cap) default_policy (xm_selector demo_execution_manager) = (o2, Inr sel)"
    using demo_selects by blast
  have admit: "admit demo_execution_manager (demo_hash_task ''/srv/x'') = Inr (demo_cap)"
    using demo_hash_capability by (simp add: admit_def demo_execution_manager_def manager_init_def demo_hash_task_def demo_cap_def)
  have "\<exists>ds. create_workspace \<lparr>eph_base_dir = ''/ws''\<rparr> ''/'' (\<lambda>_. None) ''x1'' ''proj-1'' {''/'', ''/ws''} = (ds, Inr ''/ws/proj-1/x1'')"
    by (simp add: create_workspace_def demo_workspace_path [simplified] demo_workspace_path starts_with_def Let_def make_dirs_fine)
  then obtain ds where ds: "create_workspace (xm_ephemeral demo_execution_manager) ''/'' (si_refuse demo_ids) (si_execution demo_ids)
      (tk_project_id (demo_hash_task ''/srv/x'')) (xm_dirs demo_execution_manager) = (ds, Inr ''/ws/proj-1/x1'')"
    by (auto simp: demo_execution_manager_def manager_init_def demo_ids_def demo_hash_task_def)
  have "xm_policy demo_execution_manager = default_policy"
    by (simp add: demo_execution_manager_def manager_init_def)
  then show ?thesis
    using sel by (simp add: submit_task_def admit ds Let_def split_beta)
qed

lemma demo_steps:
  assumes "demo_submit = (m, Inr cx)"
  shows "manager_step\<^sup>*\<^sup>* demo_execution_manager m"
proof -
  have "manager_step demo_execution_manager (fst demo_submit)"
    by (rule manager_step.submit)
       (simp_all add: demo_execution_manager_def manager_init_def get_worker_def)
  then show ?thesis by (simp add: assms)
qed

lemma demo_hash_runs:
  assumes "tc_status cx = E_QUEUED" and "tc_deadline cx = 100"
    and "tc_resource_limits cx = [(''max_output_size'', 1048576), (''max_workspace_size'', 10 * 1024 * 1024)]"
  shows "tc_status (fst (deterministic_execute (\<lambda>_. ''h'') (\<lambda>_. 10) demo_host (\<lambda>_. 5) 1 9 True 10
           (demo_hash_task ''/srv/x'') cx)) = E_SUCCEEDED"
  using demo_path_allowed assms
  by (simp add: deterministic_execute_def supported_handlers_def demo_hash_task_def
        run_handler_def deadline_check_def do_filesystem_hash_def checked_path_def input_string_def
        demo_host_def limit_output_def finalize_workspace_def Let_def)

lemma demo_executes:
  assumes "demo_submit = (m, Inr cx)"
  shows "\<exists>m1 cx1. execute_sync demo_env demo_xe ''x1'' m = (m1, Inr None) \<and>
           dict_get (xm_executions m1) ''x1'' = Some cx1 \<and> tc_status cx1 = E_SUCCEEDED"
proof -
  let ?t = "demo_hash_task ''/srv/x''"
  have sel: "snd (selector_select (\<lambda>_. ''0.9'') None no_flags ?t demo_cap default_policy orc) = Inr s \<Longrightarrow>
      es_executor_type s = DETERMINISTIC" for orc s
    using demo_selects [of orc] by auto
  obtain c w s where m: "tc_generation cx = Some 3" "xm_executions m = dict_set [] ''x1'' cx"
      "xm_tasks m = dict_set [] ''x1'' ?t" "xm_capabilities m = capability_init"
      "xm_generation m = Some \<lparr>current_gen = 3\<rparr>"
      "wm_workers (xm_workers m) = dict_set [] ''wrk-1'' w" "wk_worker_id w = ''wrk-1''"
      "wk_execution_id w = ''x1''" "wk_state w = W_CREATED"
      "admit demo_execution_manager ?t = Inr c" "wk_executor_type w = executor_value (es_executor_type s)"
      "snd (selector_select (\<lambda>_. ''0.9'') None no_flags ?t c default_policy (xm_selector demo_execution_manager)) = Inr s"
      "tc_status cx = E_QUEUED" "tc_deadline cx = 100" "wk_deadline w = 100"
      "tc_resource_limits cx = [(''max_output_size'', cap_max_output c), (''max_workspace_size'', 10 * 1024 * 1024)]"
    using submit_task_Inr [OF assms]
    by (auto simp: demo_execution_manager_def manager_init_def demo_ids_def demo_hash_task_def)
  have c: "c = demo_cap" using m(10) demo_hash_capability
    by (simp add: admit_def demo_execution_manager_def manager_init_def demo_hash_task_def demo_cap_def)
  have det: "wk_executor_type w = ''DETERMINISTIC''" using m(11,12) sel by (simp add: c)
  define w1 where "w1 = w\<lparr>wk_state := W_RUNNING, wk_started_at := Some (we_start demo_env)\<rparr>"
  obtain m1 where began: "worker_begin (we_start demo_env) ''wrk-1'' (xm_workers m) = Inr (m1, w1)"
    using m(9) by (simp add: worker_begin_def get_worker_def m(6) w1_def Let_def)
  define cx1 where "cx1 = fst (deterministic_execute (\<lambda>_. ''h'') (\<lambda>_. 10) demo_host (\<lambda>_. 5) 1 9 True 10 ?t cx)"
  have "tc_status cx1 = E_SUCCEEDED"
    unfolding cx1_def using m(13,14,16) by (intro demo_hash_runs) (simp_all add: c demo_cap_def)
  moreover have "worker_body demo_env w1 ?t demo_cap cx (wm_frontier (xm_workers m)) gw = (gw, cx1, Finished_body)" for gw
    using det m(15) by (simp add: worker_body_def w1_def demo_env_def external_caps_def cx1_def demo_hash_task_def)
  ultimately obtain wm world where start:
      "start_worker demo_env ''wrk-1'' ?t demo_cap (xm_workers m, cx, xm_world m) = Inr (wm, cx1, world)"
    by (simp add: start_worker_def began settle_def)
  have "tk_workspace_policy ?t = ''keep''" "tk_capability_id ?t = ''filesystem.hash''" by (simp_all add: demo_hash_task_def)
  moreover have "worker_of m ''x1'' = Some w" using m(6,8) by (simp add: worker_of_def list_workers_def)
  moreover have "fence_error m cx = None" using m(1,5) by (simp add: fence_error_def generation_fence_def generation_validate_def)
  ultimately show ?thesis
    using demo_hash_capability start \<open>tc_status cx1 = E_SUCCEEDED\<close>
    by (simp add: execute_sync_def m(2,3,4,7) conclude_def Let_def)
qed

theorem execution_acts_once_witness:
  "\<exists>m cx m1 m3 res. demo_submit = (m, Inr cx) \<and> execute_sync demo_env demo_xe ''x1'' m = (m1, Inr None) \<and>
     execute_sync demo_env demo_xe ''x1'' m1 = (m3, res) \<and>
     (xm_world m3 = xm_world m1 \<and> xm_dirs m3 = xm_dirs m1 \<and> xm_evidence m3 = xm_evidence m1)"
proof -
  obtain m cx where m: "demo_submit = (m, Inr cx)" using demo_submits by blast
  obtain m1 where m1: "execute_sync demo_env demo_xe ''x1'' m = (m1, Inr None)" using demo_executes [OF m] by blast
  obtain m3 res where m3: "execute_sync demo_env demo_xe ''x1'' m1 = (m3, res)" by (metis prod.exhaust)
  show ?thesis
    using execution_acts_once [OF demo_steps [OF m, unfolded demo_execution_manager_def] m1 rtranclp.rtrancl_refl m3]
      m m1 m3 by blast
qed

text \<open>
  C3. Work of an earlier generation never runs: an execution that was submitted and not yet
  run when the runtime moved on by any number of generations is refused by
  \<open>execute_sync\<close> with AUTHORIZATION\_DENIED, and neither the outside world nor any workspace
  is touched.
\<close>

theorem stale_execution_never_runs:
  assumes "manager_step\<^sup>*\<^sup>* (manager_init eph ds models au co fd gen ce world) m"
    and "dict_get (xm_executions m) (si_execution ids) = None"
    and "get_worker (xm_workers m) (''wrk-'' @ si_worker ids) = None"
    and "submit_task fmt fl cwd ids t m = (m1, Inr cx)"
    and "xm_generation m = Some g" and "generation_inv (f, g)" and "0 < n"
  shows "\<exists>m' cx'. execute_sync env xe (si_execution ids)
             (m1\<lparr>xm_generation := Some (snd (((\<lambda>s. fst (generation_increment s)) ^^ n) (f, g)))\<rparr>) = (m', Inr (Some cx')) \<and>
           tc_status cx' = E_FAILED \<and> tc_failure_reason cx' = Some AUTHORIZATION_DENIED \<and>
           xm_world m' = xm_world m \<and> xm_dirs m' = xm_dirs m1"
proof -
  let ?x = "si_execution ids"
  define g' where "g' = snd (((\<lambda>s. fst (generation_increment s)) ^^ n) (f, g))"
  let ?m = "m1\<lparr>xm_generation := Some g'\<rparr>"
  have "manager_inv m" using assms(1) manager_inv_init by (rule manager_inv_reachable)
  then have "manager_inv (fst (submit_task fmt fl cwd ids t m))" using assms(2,3) by (rule manager_inv_submit)
  then have "manager_inv m1" by (simp add: assms(4))
  then have inv: "manager_inv ?m" by (rule manager_inv_cong [rotated 2]) simp_all
  obtain c w where m1: "admit m t = Inr c" "tc_generation cx = Some (current_gen g)"
      "xm_executions m1 = dict_set (xm_executions m) ?x cx" "xm_tasks m1 = dict_set (xm_tasks m) ?x t"
      "xm_capabilities m1 = xm_capabilities m"
      "wm_workers (xm_workers m1) = dict_set (wm_workers (xm_workers m)) (''wrk-'' @ si_worker ids) w"
      "wk_execution_id w = ?x" "xm_world m1 = xm_world m"
    using submit_task_Inr [OF assms(4)] assms(5) by auto
  have cap: "capability_get (xm_capabilities m) (tk_capability_id t) = Some c"
    using m1(1) by (auto simp: admit_def split: option.splits if_splits)
  have "w \<in> set (list_workers (xm_workers ?m))"
    unfolding list_workers_def using m1(6)
    by (intro dict_get_values [of _ "''wrk-'' @ si_worker ids"]) simp
  then obtain v where v: "worker_of ?m ?x = Some v"
    using m1(7) by (cases "worker_of ?m ?x") (auto simp: worker_of_def find_None_iff)
  have "\<not> generation_validate g' (current_gen g)"
    unfolding g'_def using runtime_fence.stale_forever [OF assms(6) _ assms(7), of "current_gen g"] by simp
  then obtain e where "fence_error ?m cx = Some e"
    using m1(2) by (simp add: fence_error_def generation_fence_def)
  then show ?thesis
    using cap v m1 by (auto simp: execute_sync_def execute_fenced_def Let_def simp flip: g'_def)
qed

theorem stale_execution_never_runs_witness:
  "\<exists>m1 cx m' cx'. demo_submit = (m1, Inr cx) \<and>
     execute_sync demo_env demo_xe ''x1''
       (m1\<lparr>xm_generation := Some (snd (((\<lambda>s. fst (generation_increment s)) ^^ 2) (Document (Some 3), \<lparr>current_gen = 3\<rparr>)))\<rparr>)
       = (m', Inr (Some cx')) \<and> tc_status cx' = E_FAILED \<and> xm_dirs m' = xm_dirs m1"
proof -
  obtain m1 cx where m1: "demo_submit = (m1, Inr cx)" using demo_submits by blast
  have ids: "si_execution demo_ids = ''x1''" "si_worker demo_ids = ''1''" by (simp_all add: demo_ids_def)
  have init: "dict_get (xm_executions demo_execution_manager) (si_execution demo_ids) = None"
      "get_worker (xm_workers demo_execution_manager) (''wrk-'' @ si_worker demo_ids) = None"
      "xm_generation demo_execution_manager = Some \<lparr>current_gen = 3\<rparr>"
    by (simp_all add: demo_execution_manager_def manager_init_def get_worker_def)
  have gen: "generation_inv (Document (Some 3), \<lparr>current_gen = 3\<rparr>)" by (simp add: generation_inv_def)
  have reach: "manager_step\<^sup>*\<^sup>* (manager_init \<lparr>eph_base_dir = ''/ws''\<rparr> {''/'', ''/ws''} (registry_blank None) True True
      ''/fabric'' (Some \<lparr>current_gen = 3\<rparr>) (Some continuity_init) 0) demo_execution_manager"
    by (simp add: demo_execution_manager_def)
  show ?thesis
    using stale_execution_never_runs [OF reach init(1,2) m1 init(3) gen, of 2 demo_env demo_xe] m1 unfolding ids
    by fastforce
qed



text \<open>
  C5. The outcome survives the runtime: when \<open>execute_sync\<close> has returned for an execution that
  ended SUCCEEDED, FAILED (fenced ones included) or TIMED\_OUT, a runtime that restarts on the
  same continuity files reports the same status, routing, executor, model and generation for it.
  (\<open>LIMIT_EXCEEDED\<close> ends an execution as well, but a restart does not take it from the last event;
  nothing is stated of it.)
\<close>

theorem outcome_survives_restart:
  assumes "manager_inv m" and "xm_continuity m = Some ce" and "continuity_inv ce"
    and "execute_sync env xe x m = (m', Inr r)" and "dict_get (xm_executions m') x = Some cx"
    and "tc_status cx \<in> {E_SUCCEEDED, E_FAILED, E_TIMED_OUT}"
    and "xm_continuity m2 = map_option continuity_load (xm_continuity m')" and "dict_get (xm_executions m2) x = None"
  shows "\<exists>cx2. snd (get_execution now x m2) = Some cx2 \<and> tc_status cx2 = tc_status cx \<and>
           tc_routing_class cx2 = tc_routing_class cx \<and> tc_executor_type cx2 = tc_executor_type cx \<and>
           tc_executor_id cx2 = tc_executor_id cx \<and> tc_model_id cx2 = tc_model_id cx \<and>
           tc_generation cx2 = tc_generation cx"
proof -
  obtain ce1 ev where log: "xm_continuity m' = Some (append_event ev ce1)" "continuity_inv ce1"
      "er_execution_id ev = Some x" "er_status ev = status_value (tc_status cx)"
      "er_inputs ev = execution_inputs x cx @ failure_inputs cx"
    using outcome_logged [OF assms(1-5)] by blast
  have "er_status ev \<in> set final_statuses" using assms(6) by (auto simp: log(4) final_statuses_def)
  then obtain rx where rx: "reconstruct_execution (append_event ev ce1) x = Some rx"
      "rx_status rx = status_value (tc_status cx)" "rx_inputs rx = execution_inputs x cx @ failure_inputs cx"
    using reconstruct_appended [OF log(2,3)] log(4,5) by auto
  have "continuity_load (append_event ev ce1) = append_event ev ce1"
    by (intro continuity_load_inv continuity_inv_append log(2))
  then show ?thesis
    using assms(7,8) log(1) rx
    by (simp add: get_execution_def reconstructed_context_def execution_inputs_read Let_def)
qed

theorem outcome_survives_restart_witness:
  "\<exists>m cx m1 cx1 cx2. demo_submit = (m, Inr cx) \<and> execute_sync demo_env demo_xe ''x1'' m = (m1, Inr None) \<and>
     dict_get (xm_executions m1) ''x1'' = Some cx1 \<and> tc_status cx1 = E_SUCCEEDED \<and>
     snd (get_execution 50 ''x1'' (demo_execution_manager\<lparr>xm_continuity := map_option continuity_load (xm_continuity m1)\<rparr>))
       = Some cx2 \<and> tc_status cx2 = E_SUCCEEDED"
proof -
  obtain m cx where m: "demo_submit = (m, Inr cx)" using demo_submits by blast
  obtain m1 cx1 where m1: "execute_sync demo_env demo_xe ''x1'' m = (m1, Inr None)"
      "dict_get (xm_executions m1) ''x1'' = Some cx1" "tc_status cx1 = E_SUCCEEDED"
    using demo_executes [OF m] by blast
  have inv: "manager_inv m"
    by (rule manager_inv_reachable [OF demo_steps [OF m]]) (simp add: demo_execution_manager_def manager_inv_init)
  have log: "xm_continuity m = Some (record_queued demo_ids (demo_hash_task ''/srv/x'') cx continuity_init)"
    using submit_task_Inr [OF m] by (auto simp: demo_execution_manager_def manager_init_def)
  have "continuity_inv (record_queued demo_ids (demo_hash_task ''/srv/x'') cx continuity_init)"
    by (simp add: record_queued_def Let_def continuity_inv_append continuity_inv_save continuity_inv_init)
  moreover have "dict_get (xm_executions (demo_execution_manager\<lparr>xm_continuity := ce\<rparr>)) ''x1'' = None" for ce
    by (simp add: demo_execution_manager_def manager_init_def)
  ultimately show ?thesis
    using outcome_survives_restart [OF inv log _ m1(1,2), of "demo_execution_manager\<lparr>xm_continuity :=
      map_option continuity_load (xm_continuity m1)\<rparr>" 50] m m1 by simp blast
qed

end
