(* ===== verification/Bridge.thy ===== *)
theory Bridge
  imports Manager Journals
begin

text \<open>
  The bridge API (runtime/api/bridge.py): authentication by a shared token, validation of a
  request, execution through the execution manager, the operation journal that answers later
  queries, and the replies. The secret backend is its answer for \<open>bridge_token\<close>;
  JSON decoding of a body, the rendering of instants and random identifiers are arguments.
\<close>

section \<open>Requests and replies\<close>

text \<open>
  \<open>br_provided\<close> is the body the server hands over; when it is empty the handler reads
  \<open>br_stream\<close>, if the content length (\<open>Inl\<close>: no number) is positive.
\<close>

record bridge_request =
  br_method :: string
  br_path :: string
  br_token :: "string option"
  br_provided :: string
  br_length :: "int result"
  br_stream :: string

datatype body_document = Undecodable exn | Malformed | Document json

datatype reply = Reply int json

definition error_body :: "string \<Rightarrow> string \<Rightarrow> json" where
  "error_body code message = JObj [(''error'', JStr code), (''message'', JStr message)]"

definition reply_error :: "string \<Rightarrow> string \<Rightarrow> int \<Rightarrow> reply" where
  "reply_error code message status = Reply status (error_body code message)"

definition allowed_capabilities :: "string list" where
  "allowed_capabilities = [''fabric.read'', ''repository.read'', ''repository.search'', ''fabric.register'']"

definition allowed_fields :: "string list" where
  "allowed_fields = [''intent'', ''requested_capability'', ''input'', ''constraints'']"

definition forbidden_constraints :: "string list" where
  "forbidden_constraints = [''network'', ''admin'']"

text \<open>
  What the admin context holds for the bridge: the secret backend (\<open>None\<close> if there is
  none) with its token, or the exception its retrieval or decoding raises.
\<close>

record bridge_env =
  be_secret :: "string option result option"
  be_loads :: "string \<Rightarrow> body_document"
  be_members :: "json \<Rightarrow> (string \<times> json) list"
  be_iso :: "instant \<Rightarrow> string"
  be_now :: instant
  be_finished :: instant
  be_task_hex :: string

record 'w bridge_state =
  bs_manager :: "'w execution_manager option"
  bs_journal :: "journal_entry jsonl"

text \<open>Every handler opens the journal anew.\<close>

definition open_journal :: "journal_entry jsonl \<Rightarrow> operation_journal" where
  "open_journal f = journal_load \<lparr>oj_entries = [], oj_file = f\<rparr>"

section \<open>Authentication\<close>

text \<open>\<open>Inl\<close> is an exception of the backend; \<open>Inr False\<close> is \<open>BridgeAuthError\<close>.\<close>

definition bridge_authenticate :: "bridge_env \<Rightarrow> bridge_request \<Rightarrow> bool result" where
  "bridge_authenticate env rq =
     (if \<not> truthy_str (br_token rq) then Inr False
      else case be_secret env of
             None \<Rightarrow> Inr False
           | Some (Inl e) \<Rightarrow> Inl e
           | Some (Inr expected) \<Rightarrow> Inr (truthy_str expected \<and> br_token rq = expected))"

section \<open>Creation of a task\<close>

definition request_body :: "bridge_request \<Rightarrow> string result" where
  "request_body rq =
     (if br_provided rq \<noteq> [] then Inr (br_provided rq)
      else and_then (br_length rq)
        (\<lambda>n. Inr (if 0 < n then take (nat n) (br_stream rq) else [])))"

text \<open>
  The checks of the decoded document, in the order of the code: \<open>Inl\<close> an exception,
  \<open>Inr (Inl r)\<close> a refusal, \<open>Inr (Inr _)\<close> the parts of an acceptable request.
\<close>

definition hashable :: "json \<Rightarrow> bool" where
  "hashable v = (case v of JList _ \<Rightarrow> False | JObj _ \<Rightarrow> False | _ \<Rightarrow> True)"

definition field :: "(string \<times> json) list \<Rightarrow> string \<Rightarrow> json \<Rightarrow> json" where
  "field data k d = (case map_of data k of None \<Rightarrow> d | Some v \<Rightarrow> v)"

definition check_document ::
  "json \<Rightarrow> (reply + (json \<times> string \<times> json \<times> (string \<times> json) list)) result" where
  "check_document doc =
     (case doc of
        JObj data \<Rightarrow>
          if \<not> set (map fst data) \<subseteq> set allowed_fields
          then Inr (Inl (reply_error ''BRIDGE_INVALID_REQUEST'' ''Prohibited fields in request'' 400))
          else
            let intent = field data ''intent'' JNull; cap = field data ''requested_capability'' JNull in
            if \<not> truthy intent \<or> \<not> truthy cap
            then Inr (Inl (reply_error ''BRIDGE_INVALID_REQUEST'' ''Missing intent or requested_capability'' 400))
            else
              (case field data ''constraints'' (JObj []) of
                 JObj cs \<Rightarrow>
                   if set (map fst cs) \<inter> set forbidden_constraints \<noteq> {}
                   then Inr (Inl (reply_error ''POLICY_DENIED'' ''Constraint override not permitted'' 403))
                   else if \<not> hashable cap then Inl (TypeError ''unhashable type'')
                   else (case cap of
                           JStr c \<Rightarrow>
                             if c \<in> set allowed_capabilities
                             then Inr (Inr (intent, c, field data ''input'' (JObj []), cs))
                             else Inr (Inl (reply_error ''CAPABILITY_NOT_FOUND'' ''Capability not available via bridge'' 404))
                         | _ \<Rightarrow> Inr (Inl (reply_error ''CAPABILITY_NOT_FOUND'' ''Capability not available via bridge'' 404)))
               | _ \<Rightarrow> Inl (AttributeError ''object has no attribute keys''))
      | _ \<Rightarrow> Inl (AttributeError ''object has no attribute keys''))"

definition bridge_task :: "bridge_env \<Rightarrow> string \<Rightarrow> json \<Rightarrow> (string \<times> json) list \<Rightarrow> task" where
  "bridge_task env c input cs =
     \<lparr>tk_task_id = ''tsk-'' @ be_task_hex env, tk_capability_id = c, tk_account_id = ''bridge-account'',
      tk_project_id = ''bridge-project'', tk_input = be_members env input, tk_constraints = cs,
      tk_deadline = be_now env + seconds 60, tk_workspace_policy = ''keep'', tk_evidence_policy = ''journal'',
      tk_requested_by = ''chatgpt_luna'', tk_created_at = be_now env, tk_department_id = None\<rparr>"

text \<open>The three journal entries of a task differ in id prefix, state and end.\<close>

definition bridge_entry ::
  "bridge_env \<Rightarrow> string \<Rightarrow> json \<Rightarrow> string \<Rightarrow> task_context \<Rightarrow> string \<Rightarrow> string option \<Rightarrow> journal_entry" where
  "bridge_entry env tag intent c cx state finished =
     \<lparr>je_entry_id = tag @ tc_execution_id cx, je_operation_id = ''tsk-'' @ be_task_hex env,
      je_execution_id = tc_execution_id cx, je_session_id = ''bridge_session'', je_tenant_id = ''test-tenant'',
      je_account_id = ''bridge-account'', je_project_id = ''bridge-project'', je_actor_id = ''chatgpt_luna'',
      je_workspace_id = tc_workspace_path cx, je_tool = c, je_state = state,
      je_started_at = be_iso env (be_now env), je_runtime_generation = 1, je_finished_at = finished,
      je_metadata = [(''intent'', intent), (''source'', JStr ''chatgpt_luna'')]\<rparr>"

record 'w bridge_run =
  bx_fmt :: "rat \<Rightarrow> string"
  bx_flags :: task_flags
  bx_cwd :: string
  bx_ids :: submit_ids
  bx_worker :: "'w worker_env"
  bx_outcome :: outcome_env

definition reply_failed :: reply where
  "reply_failed = reply_error ''EXECUTION_FAILED'' ''Task execution failed'' 500"

text \<open>
  The part under \<open>try\<close>: any exception, the attribute error on the \<open>None\<close> of a
  normal execution included, becomes \<open>reply_failed\<close>.
\<close>

definition run_task ::
  "bridge_env \<Rightarrow> 'w bridge_run \<Rightarrow> json \<Rightarrow> string \<Rightarrow> json \<Rightarrow> (string \<times> json) list
     \<Rightarrow> 'w execution_manager \<Rightarrow> journal_entry jsonl \<Rightarrow> 'w bridge_state \<times> reply" where
  "run_task env run intent c input cs m f =
     (let t = bridge_task env c input cs;
          j = open_journal f
      in case submit_task (bx_fmt run) (bx_flags run) (bx_cwd run) (bx_ids run) t m of
           (m1, Inl e) \<Rightarrow> (\<lparr>bs_manager = Some m1, bs_journal = oj_file j\<rparr>, reply_failed)
         | (m1, Inr cx) \<Rightarrow>
             let j1 = journal_record (bridge_entry env ''ev-q-'' intent c cx ''QUEUED'' None) j;
                 j2 = journal_record (bridge_entry env ''ev-r-'' intent c cx ''RUNNING'' None) j1
             in case execute_sync (bx_worker run) (bx_outcome run) (tc_execution_id cx) m1 of
                  (m2, Inr (Some cx')) \<Rightarrow>
                    let st = status_value (tc_status cx');
                        j3 = journal_record (bridge_entry env ''ev-t-'' intent c cx' st
                               (Some (be_iso env (be_finished env)))) j2
                    in (\<lparr>bs_manager = Some m2, bs_journal = oj_file j3\<rparr>,
                        Reply 201 (JObj [(''task_id'', JStr (tk_task_id t)),
                          (''execution_id'', JStr (tc_execution_id cx')), (''status'', JStr st),
                          (''source'', JStr ''chatgpt_luna'')]))
                | (m2, _) \<Rightarrow> (\<lparr>bs_manager = Some m2, bs_journal = oj_file j2\<rparr>, reply_failed))"

definition handle_create_task ::
  "bridge_env \<Rightarrow> 'w bridge_run \<Rightarrow> bridge_request \<Rightarrow> 'w bridge_state \<Rightarrow> 'w bridge_state \<times> reply result" where
  "handle_create_task env run rq s =
     (case request_body rq of
        Inl e \<Rightarrow> (s, Inl e)
      | Inr body \<Rightarrow>
          if body = [] then (s, Inr (reply_error ''BRIDGE_INVALID_REQUEST'' ''Empty request body'' 400))
          else case be_loads env body of
            Undecodable e \<Rightarrow> (s, Inl e)
          | Malformed \<Rightarrow> (s, Inr (reply_error ''BRIDGE_INVALID_REQUEST'' ''Invalid JSON'' 400))
          | Document doc \<Rightarrow>
              (case check_document doc of
                 Inl e \<Rightarrow> (s, Inl e)
               | Inr (Inl r) \<Rightarrow> (s, Inr r)
               | Inr (Inr (intent, c, input, cs)) \<Rightarrow>
                   (case bs_manager s of
                      None \<Rightarrow> (s, Inr (reply_error ''EXECUTION_FAILED'' ''Execution subsystem unavailable'' 503))
                    | Some m \<Rightarrow> (let (s', r) = run_task env run intent c input cs m (bs_journal s) in (s', Inr r)))))"

section \<open>Queries\<close>

definition handle_get_task :: "string \<Rightarrow> journal_entry jsonl \<Rightarrow> reply" where
  "handle_get_task task_id f =
     (let entries = journal_get_operation (open_journal f) task_id in
      if entries = [] then reply_error ''RESULT_UNAVAILABLE'' ''Task not found'' 404
      else let e = last entries in
        Reply 200 (JObj [(''task_id'', JStr (je_operation_id e)), (''execution_id'', JStr (je_execution_id e)),
          (''capability'', JStr (je_tool e)), (''state'', JStr (je_state e)),
          (''intent'', field (je_metadata e) ''intent'' (JStr [])),
          (''source'', field (je_metadata e) ''source'' (JStr ''chatgpt_luna''))]))"

definition handle_get_execution :: "string \<Rightarrow> journal_entry jsonl \<Rightarrow> reply" where
  "handle_get_execution exec_id f =
     (let entries = journal_get_execution (open_journal f) exec_id in
      if entries = [] then reply_error ''RESULT_UNAVAILABLE'' ''Execution not found'' 404
      else let e = last entries in
        Reply 200 (JObj [(''execution_id'', JStr (je_execution_id e)), (''task_id'', JStr (je_operation_id e)),
          (''capability'', JStr (je_tool e)), (''state'', JStr (je_state e)),
          (''source'', field (je_metadata e) ''source'' (JStr ''chatgpt_luna'')),
          (''evidence_durability'', JStr ''DURABLE'')]))"

text \<open>\<open>path.split("/")[-1]\<close>\<close>

definition last_segment :: "string \<Rightarrow> string" where
  "last_segment p = rev (takeWhile (\<lambda>c. c \<noteq> CHR ''/'') (rev p))"

definition bridge_dispatch ::
  "bridge_env \<Rightarrow> 'w bridge_run \<Rightarrow> bridge_request \<Rightarrow> 'w bridge_state \<Rightarrow> 'w bridge_state \<times> reply result" where
  "bridge_dispatch env run rq s =
     (case bridge_authenticate env rq of
        Inl e \<Rightarrow> (s, Inl e)
      | Inr False \<Rightarrow> (s, Inr (reply_error ''BRIDGE_AUTH_ERROR'' ''Invalid or missing credentials'' 401))
      | Inr True \<Rightarrow>
          if br_method rq = ''POST'' \<and> br_path rq = ''/api/v1/bridge/tasks'' then handle_create_task env run rq s
          else if br_method rq = ''GET'' \<and> starts_with (br_path rq) ''/api/v1/bridge/tasks/''
          then (s, Inr (handle_get_task (last_segment (br_path rq)) (bs_journal s)))
          else if br_method rq = ''GET'' \<and> starts_with (br_path rq) ''/api/v1/bridge/executions/''
          then (s, Inr (handle_get_execution (last_segment (br_path rq)) (bs_journal s)))
          else (s, Inr (reply_error ''NOT_FOUND'' ''Unknown bridge endpoint'' 404)))"


section \<open>Requests that reach the execution manager\<close>

lemma bridge_authenticate_True:
  "bridge_authenticate env rq = Inr True \<longleftrightarrow>
     (\<exists>tok. tok \<noteq> [] \<and> br_token rq = Some tok \<and> be_secret env = Some (Inr (Some tok)))"
  by (cases "br_token rq") (auto simp: bridge_authenticate_def split: option.splits sum.splits)

lemma check_document_accepts:
  "check_document doc = Inr (Inr (intent, c, input, cs)) \<longleftrightarrow>
     (\<exists>data. doc = JObj data \<and> set (map fst data) \<subseteq> set allowed_fields \<and>
        field data ''intent'' JNull = intent \<and> truthy intent \<and>
        field data ''requested_capability'' JNull = JStr c \<and> c \<in> set allowed_capabilities \<and>
        field data ''constraints'' (JObj []) = JObj cs \<and> set (map fst cs) \<inter> set forbidden_constraints = {} \<and>
        input = field data ''input'' (JObj []))"
proof -
  have "c \<in> set allowed_capabilities \<Longrightarrow> c \<noteq> []" for c by (auto simp: allowed_capabilities_def)
  then show ?thesis
    by (auto simp: check_document_def Let_def hashable_def split: json.splits if_splits)
qed

lemma check_document_refuses:
  "check_document doc = Inr (Inl (Reply st body)) \<Longrightarrow>
     (st, body) \<in> {(400, error_body ''BRIDGE_INVALID_REQUEST'' ''Prohibited fields in request''),
       (400, error_body ''BRIDGE_INVALID_REQUEST'' ''Missing intent or requested_capability''),
       (403, error_body ''POLICY_DENIED'' ''Constraint override not permitted''),
       (404, error_body ''CAPABILITY_NOT_FOUND'' ''Capability not available via bridge'')}"
  by (auto simp: check_document_def Let_def reply_error_def split: json.splits if_splits)

lemma open_journal_file [simp]: "oj_file (open_journal f) = f"
  by (simp add: open_journal_def journal_load_def)

lemma journal_record_file [simp]: "oj_file (journal_record e j) = jl_append e (oj_file j)"
  by (simp add: journal_record_def)

text \<open>The only handler that changes anything, on the only path to the manager.\<close>

lemma create_task_runs:
  assumes "handle_create_task env run rq s = (s', res)" and "s' \<noteq> s"
  shows "\<exists>body doc intent c input cs m r. request_body rq = Inr body \<and> be_loads env body = Document doc \<and>
    check_document doc = Inr (Inr (intent, c, input, cs)) \<and> bs_manager s = Some m \<and> res = Inr r \<and>
    run_task env run intent c input cs m (bs_journal s) = (s', r)"
proof -
  obtain body where body: "request_body rq = Inr body" "body \<noteq> []"
    using assms by (auto simp: handle_create_task_def split: sum.splits if_splits)
  obtain doc where doc: "be_loads env body = Document doc"
    using assms body by (cases "be_loads env body") (auto simp: handle_create_task_def)
  obtain p where p: "check_document doc = Inr (Inr p)"
    using assms body doc by (auto simp: handle_create_task_def split: sum.splits)
  obtain intent c input cs where q: "p = (intent, c, input, cs)" by (metis prod.exhaust)
  obtain m where m: "bs_manager s = Some m"
    using assms body doc p q by (cases "bs_manager s") (auto simp: handle_create_task_def)
  obtain s1 r where "run_task env run intent c input cs m (bs_journal s) = (s1, r)" by (metis prod.exhaust)
  then show ?thesis
    using assms body doc p q m by (auto simp: handle_create_task_def Let_def)
qed

lemma create_task_reply:
  assumes "handle_create_task env run rq s = (s', Inr r)"
  shows "r = reply_error ''BRIDGE_INVALID_REQUEST'' ''Empty request body'' 400 \<or>
    r = reply_error ''BRIDGE_INVALID_REQUEST'' ''Invalid JSON'' 400 \<or>
    r = reply_error ''EXECUTION_FAILED'' ''Execution subsystem unavailable'' 503 \<or>
    (\<exists>doc. check_document doc = Inr (Inl r)) \<or>
    (\<exists>intent c input cs m. run_task env run intent c input cs m (bs_journal s) = (s', r))"
  using assms
  by (auto simp: handle_create_task_def Let_def split: sum.splits if_splits body_document.splits option.splits prod.splits)

lemma dispatch_reply:
  assumes "bridge_dispatch env run rq s = (s', Inr r)"
  shows "r = reply_error ''BRIDGE_AUTH_ERROR'' ''Invalid or missing credentials'' 401 \<or>
    r = reply_error ''NOT_FOUND'' ''Unknown bridge endpoint'' 404 \<or>
    handle_create_task env run rq s = (s', Inr r) \<or>
    (\<exists>i f. handle_get_task i f = r) \<or> (\<exists>i f. handle_get_execution i f = r)"
  using assms by (auto simp: bridge_dispatch_def split: sum.splits bool.splits if_splits)

lemma dispatch_creates:
  assumes "bridge_dispatch env run rq s = (s', res)" and "s' \<noteq> s"
  shows "bridge_authenticate env rq = Inr True \<and> br_method rq = ''POST'' \<and> br_path rq = ''/api/v1/bridge/tasks'' \<and>
    handle_create_task env run rq s = (s', res)"
  using assms by (auto simp: bridge_dispatch_def split: sum.splits bool.splits if_splits)

lemma run_task_rejected:
  assumes "run_task env run intent c input cs m f = (s', r)"
    and "submit_task (bx_fmt run) (bx_flags run) (bx_cwd run) (bx_ids run) (bridge_task env c input cs) m = (m1, Inl e)"
  shows "s' = \<lparr>bs_manager = Some m1, bs_journal = f\<rparr> \<and> r = reply_failed"
  using assms by (auto simp: run_task_def Let_def)

text \<open>
  A task that was just submitted carries the current generation, so it is never fenced and
  \<open>execute_sync\<close> raises or returns nothing.
\<close>

lemma execute_submitted:
  assumes "submit_task fmt fl cwd ids t m = (m1, Inr cx)"
    and "execute_sync env xe (si_execution ids) m1 = (m2, res)"
  shows "\<forall>cx'. res \<noteq> Inr (Some cx')"
proof -
  have m1: "xm_executions m1 = dict_set (xm_executions m) (si_execution ids) cx"
      "xm_tasks m1 = dict_set (xm_tasks m) (si_execution ids) t" "xm_generation m1 = xm_generation m"
      "tc_generation cx = Some (case xm_generation m of None \<Rightarrow> 1 | Some g \<Rightarrow> current_gen g)"
    using submit_task_Inr [OF assms(1)] by blast+
  then have "fence_error m1 cx = None"
    by (auto simp: fence_error_def generation_fence_def generation_validate_def split: option.splits)
  moreover have "snd (conclude xe x t cx' m') \<noteq> Inr (Some cx'')" for x t cx' m' cx''
    by (auto simp: conclude_def Let_def split: sum.splits)
  then have "conclude xe x t cx' m' \<noteq> (m2, Inr (Some cx''))" for x t cx' m' cx''
    by (metis snd_conv)
  ultimately show ?thesis
    using assms(2) m1 by (auto simp: execute_sync_def split: option.splits sum.splits)
qed

lemma submitted_id: "submit_task fmt fl cwd ids t m = (m1, Inr cx) \<Longrightarrow> tc_execution_id cx = si_execution ids"
  by (auto simp: submit_task_def create_worker_def Let_def split: sum.splits prod.splits)

lemma run_task_accepted:
  assumes "run_task env run intent c input cs m f = (s', r)"
    and "submit_task (bx_fmt run) (bx_flags run) (bx_cwd run) (bx_ids run) (bridge_task env c input cs) m = (m1, Inr cx)"
  shows "r = reply_failed \<and> tc_execution_id cx = si_execution (bx_ids run) \<and>
    bs_journal s' = jl_append (bridge_entry env ''ev-r-'' intent c cx ''RUNNING'' None)
                      (jl_append (bridge_entry env ''ev-q-'' intent c cx ''QUEUED'' None) f)"
proof -
  have x: "tc_execution_id cx = si_execution (bx_ids run)" using assms(2) by (rule submitted_id)
  obtain m2 res where ex: "execute_sync (bx_worker run) (bx_outcome run) (si_execution (bx_ids run)) m1 = (m2, res)"
    by (metis prod.exhaust)
  have "\<forall>cx'. res \<noteq> Inr (Some cx')" using execute_submitted [OF assms(2) ex] .
  then show ?thesis
    using assms x ex by (auto simp: run_task_def Let_def split: sum.splits option.splits)
qed

section \<open>A concrete bridge\<close>

definition demo_bridge_env :: bridge_env where
  "demo_bridge_env = \<lparr>be_secret = Some (Inr (Some ''s3cret'')),
     be_loads = (\<lambda>b. if b = ''{}'' then Document (JObj [(''intent'', JStr ''find''),
        (''requested_capability'', JStr ''repository.search''), (''input'', JObj [(''pattern'', JStr ''x'')])])
       else Malformed),
     be_members = (\<lambda>v. case v of JObj kvs \<Rightarrow> kvs | _ \<Rightarrow> []), be_iso = (\<lambda>_. ''t''), be_now = 0, be_finished = 9,
     be_task_hex = ''7''\<rparr>"

definition demo_bridge_request :: bridge_request where
  "demo_bridge_request = \<lparr>br_method = ''POST'', br_path = ''/api/v1/bridge/tasks'', br_token = Some ''s3cret'',
     br_provided = [], br_length = Inr 2, br_stream = ''{}''\<rparr>"

definition demo_bridge_run :: "nat bridge_run" where
  "demo_bridge_run = \<lparr>bx_fmt = (\<lambda>_. ''0.9''), bx_flags = no_flags, bx_cwd = ''/'', bx_ids = demo_ids,
     bx_worker = demo_env, bx_outcome = demo_xe\<rparr>"

definition demo_bridge_state :: "nat bridge_state" where
  "demo_bridge_state = \<lparr>bs_manager = Some demo_execution_manager, bs_journal = jl_empty\<rparr>"

abbreviation demo_bridge_task :: task where
  "demo_bridge_task \<equiv> bridge_task demo_bridge_env ''repository.search'' (JObj [(''pattern'', JStr ''x'')]) []"

definition search_cap :: capability_definition where
  "search_cap = capability_of_row (''repository.search'', ''Repository Search'', ''Searches a local repository.'', False,
     DETERMINISTIC, ''repository'', ''read'', True, True)"

lemma demo_bridge_path:
  "abspath ''/'' (path_join (path_join ''/ws'' (basename ''bridge-project'')) ''x1'') = ''/ws/bridge-project/x1''"
  by code_simp

lemma search_capability: "capability_get capability_init ''repository.search'' = Some search_cap"
  by code_simp

lemma search_selects:
  "\<exists>o2 sel. selector_select (\<lambda>_. ''0.9'') None no_flags demo_bridge_task search_cap default_policy orc = (o2, Inr sel)"
  by (simp add: selector_select_def plan_task_def bridge_task_def capability_get_def capability_register_def
        planning_denial_def no_flags_def routed_plan_def search_cap_def Let_def)

lemma demo_bridge_submits:
  "\<exists>m cx. submit_task (\<lambda>_. ''0.9'') no_flags ''/'' demo_ids demo_bridge_task demo_execution_manager = (m, Inr cx)"
proof -
  obtain o2 sel where sel: "selector_select (\<lambda>_. ''0.9'') None no_flags demo_bridge_task search_cap default_policy
      (xm_selector demo_execution_manager) = (o2, Inr sel)"
    using search_selects by blast
  have admit: "admit demo_execution_manager demo_bridge_task = Inr search_cap"
    using search_capability
    by (simp add: admit_def demo_execution_manager_def manager_init_def bridge_task_def search_cap_def)
  have "\<exists>ds. create_workspace \<lparr>eph_base_dir = ''/ws''\<rparr> ''/'' (\<lambda>_. None) ''x1'' ''bridge-project'' {''/'', ''/ws''} =
      (ds, Inr ''/ws/bridge-project/x1'')"
    by (simp add: create_workspace_def demo_bridge_path [simplified] demo_bridge_path starts_with_def Let_def make_dirs_fine)
  then obtain ds where ds: "create_workspace (xm_ephemeral demo_execution_manager) ''/'' (si_refuse demo_ids) (si_execution demo_ids)
      (tk_project_id demo_bridge_task) (xm_dirs demo_execution_manager) = (ds, Inr ''/ws/bridge-project/x1'')"
    by (auto simp: demo_execution_manager_def manager_init_def demo_ids_def bridge_task_def)
  have "xm_policy demo_execution_manager = default_policy"
    by (simp add: demo_execution_manager_def manager_init_def)
  then show ?thesis using sel by (simp add: submit_task_def admit ds Let_def split_beta)
qed

lemma demo_bridge_runs:
  "\<exists>s' m1 cx. run_task demo_bridge_env demo_bridge_run (JStr ''find'') ''repository.search''
       (JObj [(''pattern'', JStr ''x'')]) [] demo_execution_manager jl_empty = (s', reply_failed) \<and>
     submit_task (\<lambda>_. ''0.9'') no_flags ''/'' demo_ids demo_bridge_task demo_execution_manager = (m1, Inr cx) \<and>
     bridge_dispatch demo_bridge_env demo_bridge_run demo_bridge_request demo_bridge_state = (s', Inr reply_failed) \<and>
     s' \<noteq> demo_bridge_state"
proof -
  let ?r = "run_task demo_bridge_env demo_bridge_run (JStr ''find'') ''repository.search'' (JObj [(''pattern'', JStr ''x'')]) []
      demo_execution_manager jl_empty"
  obtain m1 cx where sub: "submit_task (\<lambda>_. ''0.9'') no_flags ''/'' demo_ids demo_bridge_task demo_execution_manager = (m1, Inr cx)"
    using demo_bridge_submits by blast
  obtain s' r where run: "?r = (s', r)" by (metis prod.exhaust)
  have acc: "r = reply_failed" "bs_journal s' \<noteq> jl_empty"
    using run_task_accepted [OF run, of m1 cx] sub by (auto simp: demo_bridge_run_def jl_append_def jl_empty_def)
  have "check_document (JObj [(''intent'', JStr ''find''), (''requested_capability'', JStr ''repository.search''),
      (''input'', JObj [(''pattern'', JStr ''x'')])]) =
      Inr (Inr (JStr ''find'', ''repository.search'', JObj [(''pattern'', JStr ''x'')], []))"
    by (simp add: check_document_def field_def allowed_fields_def allowed_capabilities_def hashable_def Let_def)
  moreover have "bridge_authenticate demo_bridge_env demo_bridge_request = Inr True"
    by (simp add: bridge_authenticate_True demo_bridge_env_def demo_bridge_request_def)
  ultimately have "bridge_dispatch demo_bridge_env demo_bridge_run demo_bridge_request demo_bridge_state = (s', Inr r)"
    using run by (simp add: bridge_dispatch_def handle_create_task_def demo_bridge_request_def request_body_def
        demo_bridge_env_def demo_bridge_state_def)
  moreover have "s' \<noteq> demo_bridge_state" using acc(2) by (auto simp: demo_bridge_state_def)
  ultimately show ?thesis using run sub acc(1) by blast
qed

section \<open>Properties\<close>

text \<open>Of the allowlist, the registry of the runtime has three capabilities that read, and a write that is disabled.\<close>

lemma allowlist_reads:
  assumes "c \<in> set allowed_capabilities" and "capability_get capability_init c = Some cd" and "cap_enabled cd"
  shows "cap_side_effect cd = ''read'' \<and> c \<noteq> ''fabric.register''"
proof -
  have "list_all (\<lambda>c. case capability_get capability_init c of None \<Rightarrow> True
      | Some cd \<Rightarrow> cap_enabled cd \<longrightarrow> cap_side_effect cd = ''read'' \<and> c \<noteq> ''fabric.register'') allowed_capabilities"
    by code_simp
  then show ?thesis using assms by (auto simp: list_all_iff)
qed

text \<open>
  C10. The bridge mediates every change: when a request changes anything (an execution, a
  workspace, the journal), it is a POST to the task route with the shared token, a JSON object
  without foreign fields and forbidden constraints, and it names an allowlisted capability; and
  when it leaves a trace in the journal, the capability is an enabled one that reads or is not allowed
  deterministically, and one that reads under the registry the runtime starts with, so \<open>fabric.register\<close> of the
  allowlist never gets that far there.
\<close>

theorem bridge_mediated:
  assumes "bridge_dispatch env run rq s = (s', res)" and "s' \<noteq> s"
  shows "br_method rq = ''POST'' \<and> br_path rq = ''/api/v1/bridge/tasks'' \<and>
    (\<exists>tok. tok \<noteq> [] \<and> br_token rq = Some tok \<and> be_secret env = Some (Inr (Some tok))) \<and>
    (\<exists>body data c cs m. request_body rq = Inr body \<and> be_loads env body = Document (JObj data) \<and>
       set (map fst data) \<subseteq> set allowed_fields \<and> field data ''requested_capability'' JNull = JStr c \<and>
       c \<in> set allowed_capabilities \<and> field data ''constraints'' (JObj []) = JObj cs \<and>
       set (map fst cs) \<inter> set forbidden_constraints = {} \<and> bs_manager s = Some m \<and>
       (bs_journal s' \<noteq> bs_journal s \<longrightarrow>
          (\<exists>cd. capability_get (xm_capabilities m) c = Some cd \<and> cap_enabled cd \<and>
             (cap_side_effect cd = ''read'' \<or> \<not> cap_deterministic_allowed cd) \<and>
             (xm_capabilities m = capability_init \<longrightarrow> cap_side_effect cd = ''read'' \<and> c \<noteq> ''fabric.register''))))"
proof -
  note d = dispatch_creates [OF assms]
  obtain body doc intent c input cs m r where run: "request_body rq = Inr body" "be_loads env body = Document doc"
      "check_document doc = Inr (Inr (intent, c, input, cs))" "bs_manager s = Some m"
      "run_task env run intent c input cs m (bs_journal s) = (s', r)"
    using create_task_runs [of env run rq s s' res] d assms(2) by blast
  obtain data where data: "doc = JObj data" "set (map fst data) \<subseteq> set allowed_fields"
      "field data ''requested_capability'' JNull = JStr c" "c \<in> set allowed_capabilities"
      "field data ''constraints'' (JObj []) = JObj cs" "set (map fst cs) \<inter> set forbidden_constraints = {}"
    using run(3) by (auto simp: check_document_accepts)
  have "\<exists>cd. capability_get (xm_capabilities m) c = Some cd \<and> cap_enabled cd \<and>
          (cap_side_effect cd = ''read'' \<or> \<not> cap_deterministic_allowed cd)" if ch: "bs_journal s' \<noteq> bs_journal s"
  proof -
    obtain m1 sub where sub: "submit_task (bx_fmt run) (bx_flags run) (bx_cwd run) (bx_ids run)
        (bridge_task env c input cs) m = (m1, sub)" by (metis prod.exhaust)
    then obtain cx where "sub = Inr cx" using run_task_rejected [OF run(5)] ch by (cases sub) auto
    then obtain cd where "admit m (bridge_task env c input cs) = Inr cd" using submit_task_Inr sub by blast
    then show ?thesis by (auto simp: admit_def bridge_task_def split: option.splits if_splits)
  qed
  moreover have "cap_side_effect cd = ''read'' \<and> c \<noteq> ''fabric.register''"
    if "capability_get capability_init c = Some cd" "cap_enabled cd" for cd
    using data(4) that allowlist_reads [of c cd] by simp
  ultimately show ?thesis using d run data by (fastforce simp: bridge_authenticate_True)
qed

theorem bridge_mediated_witness:
  "\<exists>s'. bridge_dispatch demo_bridge_env demo_bridge_run demo_bridge_request demo_bridge_state = (s', Inr reply_failed) \<and>
     s' \<noteq> demo_bridge_state \<and> br_token demo_bridge_request = Some ''s3cret'' \<and>
     br_method demo_bridge_request = ''POST'' \<and> br_path demo_bridge_request = ''/api/v1/bridge/tasks''"
proof -
  obtain s' where s': "bridge_dispatch demo_bridge_env demo_bridge_run demo_bridge_request demo_bridge_state = (s', Inr reply_failed)"
      "s' \<noteq> demo_bridge_state"
    using demo_bridge_runs by blast
  have "be_secret demo_bridge_env = Some (Inr (Some ''s3cret''))" by (simp add: demo_bridge_env_def)
  then show ?thesis using bridge_mediated [OF s'] s' by auto
qed

text \<open>
  What the client learns: the reply to a request that reaches the manager is always the
  same error 500, and a task that was accepted is afterwards reported as RUNNING by both queries,
  whatever became of its execution.
\<close>

theorem bridge_outcome_unreported:
  assumes "run_task env run intent c input cs m f = (s', r)" and "jl_tail f = None"
    and "submit_task (bx_fmt run) (bx_flags run) (bx_cwd run) (bx_ids run) (bridge_task env c input cs) m = (m1, Inr cx)"
  shows "r = Reply 500 (error_body ''EXECUTION_FAILED'' ''Task execution failed'') \<and>
    handle_get_execution (si_execution (bx_ids run)) (bs_journal s') =
      Reply 200 (JObj [(''execution_id'', JStr (si_execution (bx_ids run))), (''task_id'', JStr (''tsk-'' @ be_task_hex env)),
        (''capability'', JStr c), (''state'', JStr ''RUNNING''), (''source'', JStr ''chatgpt_luna''),
        (''evidence_durability'', JStr ''DURABLE'')]) \<and>
    handle_get_task (''tsk-'' @ be_task_hex env) (bs_journal s') =
      Reply 200 (JObj [(''task_id'', JStr (''tsk-'' @ be_task_hex env)), (''execution_id'', JStr (si_execution (bx_ids run))),
        (''capability'', JStr c), (''state'', JStr ''RUNNING''), (''intent'', intent), (''source'', JStr ''chatgpt_luna'')])"
proof -
  note acc = run_task_accepted [OF assms(1,3)]
  have "oj_entries (open_journal (bs_journal s')) =
      parsed (jl_read f) @ [bridge_entry env ''ev-q-'' intent c cx ''QUEUED'' None, bridge_entry env ''ev-r-'' intent c cx ''RUNNING'' None]"
    using acc assms(2) by (simp add: open_journal_def journal_load_def jl_read_append)
  then show ?thesis
    using acc by (auto simp: handle_get_execution_def handle_get_task_def journal_get_execution_def
        journal_get_operation_def bridge_entry_def field_def reply_failed_def reply_error_def)
qed

theorem bridge_outcome_unreported_witness:
  "\<exists>s'. run_task demo_bridge_env demo_bridge_run (JStr ''find'') ''repository.search'' (JObj [(''pattern'', JStr ''x'')]) []
       demo_execution_manager jl_empty = (s', Reply 500 (error_body ''EXECUTION_FAILED'' ''Task execution failed'')) \<and>
     handle_get_execution ''x1'' (bs_journal s') =
      Reply 200 (JObj [(''execution_id'', JStr ''x1''), (''task_id'', JStr ''tsk-7''),
        (''capability'', JStr ''repository.search''), (''state'', JStr ''RUNNING''), (''source'', JStr ''chatgpt_luna''),
        (''evidence_durability'', JStr ''DURABLE'')])"
proof -
  obtain s' m1 cx where run: "run_task demo_bridge_env demo_bridge_run (JStr ''find'') ''repository.search''
       (JObj [(''pattern'', JStr ''x'')]) [] demo_execution_manager jl_empty = (s', reply_failed)"
     "submit_task (\<lambda>_. ''0.9'') no_flags ''/'' demo_ids demo_bridge_task demo_execution_manager = (m1, Inr cx)"
    using demo_bridge_runs by blast
  have "jl_tail jl_empty = None" "si_execution (bx_ids demo_bridge_run) = ''x1''" "be_task_hex demo_bridge_env = ''7''"
    by (simp_all add: jl_empty_def demo_bridge_run_def demo_ids_def demo_bridge_env_def)
  moreover have "submit_task (bx_fmt demo_bridge_run) (bx_flags demo_bridge_run) (bx_cwd demo_bridge_run)
      (bx_ids demo_bridge_run) demo_bridge_task demo_execution_manager = (m1, Inr cx)"
    using run(2) by (simp add: demo_bridge_run_def)
  ultimately show ?thesis
    using bridge_outcome_unreported [OF run(1)] run(1) by (auto simp: reply_failed_def reply_error_def)
qed

text \<open>
  Replies never carry internals: whatever exceptions the backend, the manager or the
  executors raise, a reply other than 200 or 201 is one of twelve fixed status and message pairs.
\<close>

theorem bridge_errors_sanitized:
  assumes "bridge_dispatch env run rq s = (s', Inr (Reply st body))" and "st \<notin> {200, 201}"
  shows "(st, body) \<in> {(401, error_body ''BRIDGE_AUTH_ERROR'' ''Invalid or missing credentials''),
    (404, error_body ''NOT_FOUND'' ''Unknown bridge endpoint''),
    (400, error_body ''BRIDGE_INVALID_REQUEST'' ''Empty request body''),
    (400, error_body ''BRIDGE_INVALID_REQUEST'' ''Invalid JSON''),
    (400, error_body ''BRIDGE_INVALID_REQUEST'' ''Prohibited fields in request''),
    (400, error_body ''BRIDGE_INVALID_REQUEST'' ''Missing intent or requested_capability''),
    (403, error_body ''POLICY_DENIED'' ''Constraint override not permitted''),
    (404, error_body ''CAPABILITY_NOT_FOUND'' ''Capability not available via bridge''),
    (503, error_body ''EXECUTION_FAILED'' ''Execution subsystem unavailable''),
    (500, error_body ''EXECUTION_FAILED'' ''Task execution failed''),
    (404, error_body ''RESULT_UNAVAILABLE'' ''Task not found''),
    (404, error_body ''RESULT_UNAVAILABLE'' ''Execution not found'')}"
    (is "_ \<in> ?known")
proof -
  have query: "handle_get_task i f = Reply st body \<Longrightarrow> (st, body) \<in> ?known"
      "handle_get_execution i f = Reply st body \<Longrightarrow> (st, body) \<in> ?known" for i f
    using assms(2) by (auto simp: handle_get_task_def handle_get_execution_def reply_error_def Let_def split: if_splits)
  have run: "run_task env run intent c input cs m f = (s1, Reply st body) \<Longrightarrow> (st, body) \<in> ?known"
    for intent c input cs m f s1
    using assms(2)
    by (auto simp: run_task_def reply_failed_def reply_error_def Let_def split: prod.splits sum.splits option.splits)
  have check: "check_document doc = Inr (Inl (Reply st body)) \<Longrightarrow> (st, body) \<in> ?known" for doc
    by (drule check_document_refuses, elim insertE emptyE) simp_all
  have create: "(st, body) \<in> ?known" if "handle_create_task env run rq s = (s', Inr (Reply st body))"
    using create_task_reply [OF that]
  proof (elim disjE exE)
    fix doc assume "check_document doc = Inr (Inl (Reply st body))"
    then show "(st, body) \<in> ?known" by (rule check)
  next
    fix intent c input cs m assume "run_task env run intent c input cs m (bs_journal s) = (s', Reply st body)"
    then show "(st, body) \<in> ?known" by (rule run)
  qed (simp_all add: reply_error_def)
  show ?thesis
    using dispatch_reply [OF assms(1)]
  proof (elim disjE exE)
    assume "handle_create_task env run rq s = (s', Inr (Reply st body))"
    then show "(st, body) \<in> ?known" by (rule create)
  next
    fix i f assume "handle_get_task i f = Reply st body"
    then show "(st, body) \<in> ?known" by (rule query(1))
  next
    fix i f assume "handle_get_execution i f = Reply st body"
    then show "(st, body) \<in> ?known" by (rule query(2))
  qed (simp_all add: reply_error_def)
qed

theorem bridge_errors_sanitized_witness:
  "bridge_dispatch demo_bridge_env demo_bridge_run (demo_bridge_request\<lparr>br_token := None\<rparr>) demo_bridge_state =
     (demo_bridge_state, Inr (Reply 401 (error_body ''BRIDGE_AUTH_ERROR'' ''Invalid or missing credentials''))) \<and>
   error_body ''BRIDGE_AUTH_ERROR'' ''Invalid or missing credentials'' \<noteq> error_body ''EXECUTION_FAILED'' ''internals''"
proof -
  have "bridge_dispatch demo_bridge_env demo_bridge_run (demo_bridge_request\<lparr>br_token := None\<rparr>) demo_bridge_state =
     (demo_bridge_state, Inr (Reply 401 (error_body ''BRIDGE_AUTH_ERROR'' ''Invalid or missing credentials'')))"
    by (simp add: bridge_dispatch_def bridge_authenticate_def demo_bridge_request_def reply_error_def)
  then show ?thesis using bridge_errors_sanitized [of _ _ _ _ _ 401] by (fastforce simp: error_body_def)
qed

end
