(* ===== verification/Admin.thy ===== *)
theory Admin
  imports Prelude
begin

text \<open>
  The admin panel's protection (runtime/admin/auth.py, csrf.py, middleware.py) and the way a
  request takes through the server and its router (runtime/admin/server.py, routes.py). Rendering
  of pages is not modelled: a request ends at the handler it reaches. Random identifiers and
  clocks are arguments; the cookie header is the value of its session cookie.
\<close>

section \<open>AdminSessionManager\<close>

record admin_session =
  ad_session_id :: string
  ad_issued_at :: instant
  ad_expires_at :: instant
  ad_runtime_id :: string
  ad_scope :: string
  ad_principal :: string
  ad_csrf_token :: string

text \<open>\<open>am_files\<close> are the files of the sessions directory, by session id.\<close>

record admin_auth =
  am_runtime_id :: string
  am_ttl_seconds :: int
  am_sessions :: "(string, admin_session) dict"
  am_files :: "(string, admin_session) dict"

definition admin_auth_init :: "string \<Rightarrow> int \<Rightarrow> admin_auth" where
  "admin_auth_init runtime_id ttl =
     \<lparr>am_runtime_id = runtime_id, am_ttl_seconds = ttl, am_sessions = [], am_files = []\<rparr>"

text \<open>What a new session takes from the outside.\<close>

record issue =
  is_now :: instant
  is_session_id :: string
  is_csrf :: string

definition create_admin_session :: "issue \<Rightarrow> string \<Rightarrow> admin_auth \<Rightarrow> admin_auth \<times> admin_session" where
  "create_admin_session i who m =
     (let s = \<lparr>ad_session_id = is_session_id i, ad_issued_at = is_now i,
               ad_expires_at = is_now i + seconds (am_ttl_seconds m), ad_runtime_id = am_runtime_id m,
               ad_scope = ''ADMIN'', ad_principal = who, ad_csrf_token = is_csrf i\<rparr>
      in (m\<lparr>am_sessions := dict_set (am_sessions m) (ad_session_id s) s,
            am_files := dict_set (am_files m) (ad_session_id s) s\<rparr>, s))"

definition create_first_run_session :: "issue \<Rightarrow> admin_auth \<Rightarrow> admin_auth \<times> admin_session" where
  "create_first_run_session i m =
     (let s = \<lparr>ad_session_id = is_session_id i, ad_issued_at = is_now i,
               ad_expires_at = is_now i + seconds 1800, ad_runtime_id = am_runtime_id m,
               ad_scope = ''ONBOARDING_ONLY'', ad_principal = ''local-first-run'', ad_csrf_token = is_csrf i\<rparr>
      in (m\<lparr>am_sessions := dict_set (am_sessions m) (ad_session_id s) s\<rparr>, s))"

definition destroy_admin_session :: "string \<Rightarrow> admin_auth \<Rightarrow> admin_auth" where
  "destroy_admin_session sid m =
     m\<lparr>am_sessions := dict_del (am_sessions m) sid, am_files := dict_del (am_files m) sid\<rparr>"

definition validate_admin_session :: "instant \<Rightarrow> string \<Rightarrow> admin_auth \<Rightarrow> admin_auth \<times> admin_session option" where
  "validate_admin_session now sid m =
     (case dict_get (am_sessions m) sid of
        None \<Rightarrow> (m, None)
      | Some s \<Rightarrow> if ad_expires_at s \<le> now then (destroy_admin_session sid m, None) else (m, Some s))"

definition cleanup_admin_sessions :: "instant \<Rightarrow> admin_auth \<Rightarrow> admin_auth \<times> nat" where
  "cleanup_admin_sessions now m =
     (let expired = [sid. (sid, s) \<leftarrow> am_sessions m, ad_expires_at s \<le> now]
      in (foldl (\<lambda>m sid. destroy_admin_session sid m) m expired, length expired))"

section \<open>CSRF\<close>

text \<open>\<open>hmac.compare_digest\<close> refuses strings with non-ASCII characters.\<close>

definition ascii :: "string \<Rightarrow> bool" where
  "ascii s = (\<forall>c \<in> set s. (of_char c :: nat) < 128)"

definition validate_csrf_token :: "string option \<Rightarrow> string option \<Rightarrow> bool result" where
  "validate_csrf_token session_token request_token =
     (case (session_token, request_token) of
        (Some t, Some r) \<Rightarrow>
          if t = [] \<or> r = [] then Inr False
          else if \<not> ascii t \<or> \<not> ascii r
          then Inl (TypeError ''comparing strings with non-ASCII characters is not supported'')
          else Inr (t = r)
      | _ \<Rightarrow> Inr False)"

section \<open>AdminMiddleware\<close>

definition onboarding_routes :: "string list" where
  "onboarding_routes =
     [''/'', ''/github/token'', ''/github/device/init'', ''/github/device/poll'', ''/api/status'',
      ''/api/bootstrap/verify'', ''/health/live'', ''/health/ready'']"

definition public_paths :: "string list" where
  "public_paths = [''/health/live'', ''/health/ready'']"

definition bridge_path :: "string \<Rightarrow> bool" where
  "bridge_path p = starts_with p ''/api/v1/bridge/''"

definition is_public :: "string \<Rightarrow> bool" where
  "is_public p \<longleftrightarrow> p \<in> set public_paths \<or> bridge_path p"

definition is_local_host :: "string \<Rightarrow> bool" where
  "is_local_host host =
     ((if starts_with host ''['' then takeWhile (\<lambda>c. c \<noteq> CHR '']'') host @ '']''
       else takeWhile (\<lambda>c. c \<noteq> CHR '':'') host) \<in> {''127.0.0.1'', ''localhost'', ''::1'', ''[::1]''})"

text \<open>
  The request target as received starts with one slash. \<open>split_query\<close> is
  \<open>path.split('?', 1)[0]\<close>; \<open>url_path\<close> is the path of \<open>urlparse\<close>, without the
  parameters of the last segment.
\<close>

definition split_query :: "string \<Rightarrow> string" where
  "split_query t = takeWhile (\<lambda>c. c \<noteq> CHR ''?'') t"

definition url_path :: "string \<Rightarrow> string" where
  "url_path t =
     (let p = takeWhile (\<lambda>c. c \<noteq> CHR ''?'' \<and> c \<noteq> CHR ''#'') t;
          seg = rev (takeWhile (\<lambda>c. c \<noteq> CHR ''/'') (rev p))
      in take (length p - length seg) p @ takeWhile (\<lambda>c. c \<noteq> CHR '';'') seg)"

text \<open>
  A request as the server sees it: the target, the Host header, the session cookie, the first
  \<open>csrf_token\<close> of a URL-encoded form (empty without one), and whether a GitHub manager
  without a token makes this a first run.
\<close>

record admin_request =
  aq_target :: string
  aq_host :: "string option"
  aq_cookie :: "string option"
  aq_csrf :: string
  aq_first_run :: bool
  aq_issue :: issue

definition aq_path :: "admin_request \<Rightarrow> string" where
  "aq_path q = url_path (aq_target q)"

text \<open>The part of the shared request context the middleware writes.\<close>

record admin_context =
  ax_secure_cookie :: bool
  ax_session :: "admin_session option"
  ax_new_session_id :: "string option"
  ax_destroy_session :: bool
  ax_redirect_to :: "string option"

definition host_is_local :: "admin_request \<Rightarrow> bool" where
  "host_is_local q = is_local_host (case aq_host q of None \<Rightarrow> [] | Some h \<Rightarrow> h)"

definition cookie_session :: "admin_request \<Rightarrow> admin_auth \<Rightarrow> admin_auth \<times> admin_session option" where
  "cookie_session q m =
     (case aq_cookie q of
        None \<Rightarrow> (m, None)
      | Some sid \<Rightarrow> if sid = [] then (m, None) else validate_admin_session (is_now (aq_issue q)) sid m)"

definition begin_onboarding :: "admin_request \<Rightarrow> admin_auth \<Rightarrow> admin_context \<Rightarrow> admin_auth \<times> admin_context" where
  "begin_onboarding q m cx =
     (if aq_first_run q \<and> ax_session cx = None
      then let (m', s) = create_first_run_session (aq_issue q) m
           in (m', cx\<lparr>ax_session := Some s, ax_new_session_id := Some (ad_session_id s)\<rparr>)
      else (m, cx))"

definition begin_local :: "admin_request \<Rightarrow> admin_auth \<Rightarrow> admin_context \<Rightarrow> admin_auth \<times> admin_context" where
  "begin_local q m cx =
     (if \<not> aq_first_run q \<and> ax_session cx = None \<and> host_is_local q
      then let (m', s) = create_admin_session (aq_issue q) ''local-admin'' m
           in (m', cx\<lparr>ax_session := Some s, ax_new_session_id := Some (ad_session_id s)\<rparr>)
      else (m, cx))"

definition onboarding :: "admin_context \<Rightarrow> bool" where
  "onboarding cx = (case ax_session cx of None \<Rightarrow> False | Some s \<Rightarrow> ad_scope s = ''ONBOARDING_ONLY'')"

definition fresh_context :: "admin_request \<Rightarrow> admin_session option \<Rightarrow> admin_context" where
  "fresh_context q session =
     \<lparr>ax_secure_cookie = \<not> host_is_local q, ax_session = session, ax_new_session_id = None,
      ax_destroy_session = False, ax_redirect_to = None\<rparr>"

definition blocked :: "admin_context \<Rightarrow> admin_context" where
  "blocked cx = cx\<lparr>ax_redirect_to := Some ''/''\<rparr>"

definition process_request :: "admin_request \<Rightarrow> admin_auth \<Rightarrow> admin_auth \<times> admin_context \<times> bool" where
  "process_request q m =
     (let (m1, session) = cookie_session q m; cx = fresh_context q session in
      if aq_first_run q \<and> session = None \<and> aq_path q \<notin> set onboarding_routes then (m1, blocked cx, False)
         else let (m2, cx2) = begin_onboarding q m1 cx in
           if onboarding cx2 \<and> aq_path q \<notin> set onboarding_routes then (m2, blocked cx2, False)
           else let (m3, cx3) = begin_local q m2 cx2 in
             if ax_session cx3 = None \<and> \<not> is_public (aq_path q) then (m3, blocked cx3, False)
             else (m3, cx3, True))"

definition process_post_body :: "string \<Rightarrow> string \<Rightarrow> admin_context \<Rightarrow> (admin_context \<times> bool) result" where
  "process_post_body p token cx =
     (if p \<in> set public_paths \<or> bridge_path p \<or> p = ''/api/bootstrap/verify'' then Inr (cx, True)
      else case ax_session cx of
             None \<Rightarrow> Inr (cx, False)
           | Some s \<Rightarrow>
               and_then (validate_csrf_token (Some (ad_csrf_token s)) (Some token)) (\<lambda>ok.
                 if ok then Inr (cx, True) else Inr (cx\<lparr>ax_redirect_to := Some ''/''\<rparr>, False)))"

definition revoke_onboarding_session :: "admin_context \<Rightarrow> admin_auth \<Rightarrow> admin_auth \<times> admin_context" where
  "revoke_onboarding_session cx m =
     (case ax_session cx of
        Some s \<Rightarrow>
          if ad_scope s = ''ONBOARDING_ONLY''
          then (destroy_admin_session (ad_session_id s) m, cx\<lparr>ax_destroy_session := True, ax_session := None\<rparr>)
          else (m, cx)
      | None \<Rightarrow> (m, cx))"

text \<open>A cookie of the response; all are HttpOnly, SameSite=Strict and for the whole site.\<close>

record set_cookie =
  sc_value :: string
  sc_max_age :: int
  sc_secure :: bool

definition response_cookies :: "int \<Rightarrow> admin_context \<Rightarrow> set_cookie list" where
  "response_cookies ttl cx =
     (if truthy_str (ax_new_session_id cx)
      then [\<lparr>sc_value = the (ax_new_session_id cx), sc_max_age = ttl, sc_secure = ax_secure_cookie cx\<rparr>] else []) @
     (if ax_destroy_session cx then [\<lparr>sc_value = [], sc_max_age = 0, sc_secure = ax_secure_cookie cx\<rparr>] else [])"

section \<open>Routes\<close>

text \<open>Where a request ends: refused with a redirect, or at a handler.\<close>

datatype admin_target =
    Redirected string
  | Sync_status | Sync_start | Sync_stage | Sync_activate | Sync_rollback
  | Dashboard bool
  | Bridge | Health_live | Health_ready | Bootstrap_api | Telemetry_stream
  | Worker_detail | Model_detail | Browser_detail | Account_detail
  | Handler string
  | Not_found

definition get_routes :: "(string \<times> string) list" where
  "get_routes =
     [(''/'', ''handle_dashboard''), (''/github'', ''handle_github''),
      (''/github/device/poll'', ''handle_github_device_poll''), (''/fabric'', ''handle_fabric''),
      (''/sessions'', ''handle_sessions''), (''/operations'', ''handle_operations''),
      (''/receipts'', ''handle_receipts''), (''/executions'', ''handle_executions''),
      (''/workers'', ''handle_workers''), (''/capabilities'', ''handle_capabilities''),
      (''/models'', ''handle_models''), (''/executors'', ''handle_executors''),
      (''/policies'', ''handle_policies''), (''/doctor'', ''handle_doctor''),
      (''/universe/accounts'', ''handle_universe_accounts''),
      (''/universe/organization'', ''handle_universe_organization''),
      (''/universe/projects'', ''handle_universe_projects''),
      (''/universe/repositories'', ''handle_universe_repositories''),
      (''/universe/resources'', ''handle_universe_resources''),
      (''/execution/missions'', ''handle_execution_missions''), (''/execution/tasks'', ''handle_execution_tasks''),
      (''/execution/workers'', ''handle_execution_workers''),
      (''/execution/executions'', ''handle_execution_executions''),
      (''/execution/workspaces'', ''handle_execution_workspaces''),
      (''/intelligence/capabilities'', ''handle_intelligence_capabilities''),
      (''/intelligence/executors'', ''handle_intelligence_executors''),
      (''/intelligence/performance'', ''handle_intelligence_performance''),
      (''/infrastructure/runtime'', ''handle_infrastructure_topology''),
      (''/continuity/timeline'', ''handle_continuity_timeline''), (''/audit/events'', ''handle_audit_events''),
      (''/audit/provenance'', ''handle_audit_provenance''), (''/audit/evidence'', ''handle_audit_evidence''),
      (''/search'', ''handle_search''), (''/api/status'', ''handle_api_status''),
      (''/api/v1/continuity/bootstrap'', ''handle_bootstrap_api''), (''/telemetry/live'', ''handle_telemetry_live''),
      (''/telemetry/timeline'', ''handle_telemetry_timeline''), (''/api/processing/matrix'', ''handle_processing_matrix''),
      (''/api/processing/events'', ''handle_processing_events''), (''/browser'', ''handle_browser_dashboard'')]"

definition post_routes :: "(string \<times> string) list" where
  "post_routes =
     [(''/logout'', ''handle_logout''), (''/github/token'', ''handle_github_token''),
      (''/github/device/init'', ''handle_github_device_init''), (''/github/disconnect'', ''handle_github_disconnect''),
      (''/fabric/setup'', ''handle_fabric_setup''), (''/admin/restart'', ''handle_admin_restart''),
      (''/admin/diagnostics'', ''handle_admin_diagnostics''), (''/admin/update-check'', ''handle_admin_update_check''),
      (''/api/bootstrap/verify'', ''handle_verify_bootstrap'')]"

definition routed :: "(string \<times> string) list \<Rightarrow> string \<Rightarrow> admin_target" where
  "routed table p = (case map_of table p of None \<Rightarrow> Not_found | Some h \<Rightarrow> Handler h)"

definition dispatch_get :: "string \<Rightarrow> admin_target" where
  "dispatch_get p =
     (if bridge_path p then Bridge
      else if p = ''/health/live'' then Health_live
      else if p = ''/health/ready'' then Health_ready
      else if p = ''/api/v1/continuity/bootstrap'' then Bootstrap_api
      else if p = ''/api/v1/telemetry/stream'' then Telemetry_stream
      else if starts_with p ''/workers/'' then Worker_detail
      else if starts_with p ''/models/'' then Model_detail
      else if starts_with p ''/browser/'' then Browser_detail
      else if starts_with p ''/universe/accounts/'' \<and> length ''/universe/accounts/'' < length p then Account_detail
      else routed get_routes p)"

definition dispatch_post :: "string \<Rightarrow> admin_target" where
  "dispatch_post p = (if bridge_path p then Bridge else routed post_routes p)"

definition get_target :: "string \<Rightarrow> admin_context \<Rightarrow> admin_target" where
  "get_target t cx =
     (if split_query t = ''/api/sync/status'' then Sync_status
      else if split_query t = ''/'' then Dashboard (onboarding cx)
      else dispatch_get (url_path t))"

definition post_target :: "string \<Rightarrow> admin_target" where
  "post_target t =
     (if split_query t = ''/api/sync'' then Sync_start
      else if split_query t = ''/api/sync/stage'' then Sync_stage
      else if split_query t = ''/api/sync/activate'' then Sync_activate
      else if split_query t = ''/api/sync/rollback'' then Sync_rollback
      else dispatch_post (url_path t))"

text \<open>
  What handlers do to the sessions: a logout ends the session, and a token that GitHub accepts
  (\<open>accepted\<close>) replaces an onboarding session by one of the administrator.
\<close>

definition handle_logout :: "admin_context \<Rightarrow> admin_auth \<Rightarrow> admin_auth \<times> admin_context" where
  "handle_logout cx m =
     (case ax_session cx of None \<Rightarrow> m | Some s \<Rightarrow> destroy_admin_session (ad_session_id s) m,
      cx\<lparr>ax_destroy_session := True\<rparr>)"

definition end_onboarding :: "issue \<Rightarrow> admin_context \<Rightarrow> admin_auth \<Rightarrow> admin_auth \<times> admin_context" where
  "end_onboarding i cx m =
     (case ax_session cx of
        Some s \<Rightarrow>
          if ad_scope s = ''ONBOARDING_ONLY''
          then let (m', s') = create_admin_session i ''admin'' (destroy_admin_session (ad_session_id s) m)
               in (m', cx\<lparr>ax_destroy_session := True, ax_new_session_id := Some (ad_session_id s')\<rparr>)
          else (m, cx)
      | None \<Rightarrow> (m, cx))"

definition handler_effect ::
  "admin_target \<Rightarrow> bool \<Rightarrow> issue \<Rightarrow> admin_context \<Rightarrow> admin_auth \<Rightarrow> admin_auth \<times> admin_context" where
  "handler_effect tgt accepted i cx m =
     (if tgt = Handler ''handle_logout'' then handle_logout cx m
      else if tgt \<in> {Handler ''handle_github_token'', Handler ''handle_github_device_poll''} \<and> accepted
      then end_onboarding i cx m
      else (m, cx))"

definition refused_to :: "string \<Rightarrow> admin_context \<Rightarrow> admin_target" where
  "refused_to fallback cx = Redirected (case ax_redirect_to cx of None \<Rightarrow> fallback | Some l \<Rightarrow> l)"

text \<open>
  The cookies of the response are those known when it is sent: for a GET before the handler
  runs, for a POST none, because the handler answers before they are prepared.
\<close>

definition do_get ::
  "bool \<Rightarrow> issue \<Rightarrow> admin_request \<Rightarrow> admin_auth \<Rightarrow> admin_auth \<times> admin_target \<times> set_cookie list" where
  "do_get accepted i q m =
     (let (m1, cx, ok) = process_request q m; cookies = response_cookies (am_ttl_seconds m) cx in
      if \<not> ok then (m1, refused_to ''/login'' cx, cookies)
      else let tgt = get_target (aq_target q) cx in (fst (handler_effect tgt accepted i cx m1), tgt, cookies))"

definition do_post ::
  "bool \<Rightarrow> issue \<Rightarrow> admin_request \<Rightarrow> admin_auth \<Rightarrow> admin_auth \<times> (admin_target \<times> set_cookie list) result" where
  "do_post accepted i q m =
     (let (m1, cx, ok) = process_request q m; cookies = response_cookies (am_ttl_seconds m) in
      if \<not> ok then (m1, Inr (refused_to ''/login'' cx, cookies cx))
      else case process_post_body (aq_path q) (aq_csrf q) cx of
             Inl e \<Rightarrow> (m1, Inl e)
           | Inr (cx2, False) \<Rightarrow> (m1, Inr (refused_to ''/'' cx2, cookies cx2))
           | Inr (cx2, True) \<Rightarrow>
               let tgt = post_target (aq_target q) in (fst (handler_effect tgt accepted i cx2 m1), Inr (tgt, [])))"

section \<open>Sessions of the manager\<close>

text \<open>Sessions are kept under their ids, and exactly those of the administrator have a file.\<close>

definition admin_inv :: "admin_auth \<Rightarrow> bool" where
  "admin_inv m \<longleftrightarrow> dict_wf (am_sessions m) \<and> 0 < am_ttl_seconds m \<and>
     (\<forall>sid s. dict_get (am_sessions m) sid = Some s \<longrightarrow>
        ad_session_id s = sid \<and> ad_scope s \<in> {''ADMIN'', ''ONBOARDING_ONLY''}) \<and>
     (\<forall>sid. dict_get (am_files m) sid = (case dict_get (am_sessions m) sid of
        None \<Rightarrow> None | Some s \<Rightarrow> if ad_scope s = ''ADMIN'' then Some s else None))"

lemma admin_inv_init: "0 < ttl \<Longrightarrow> admin_inv (admin_auth_init rid ttl)"
  by (simp add: admin_inv_def admin_auth_init_def)

lemma destroy_sessions [simp]:
  "dict_get (am_sessions (destroy_admin_session sid m)) k = (if k = sid then None else dict_get (am_sessions m) k)"
  "dict_get (am_files (destroy_admin_session sid m)) k = (if k = sid then None else dict_get (am_files m) k)"
  "am_ttl_seconds (destroy_admin_session sid m) = am_ttl_seconds m"
  "am_runtime_id (destroy_admin_session sid m) = am_runtime_id m"
  by (simp_all add: destroy_admin_session_def)

lemma admin_inv_destroy: "admin_inv m \<Longrightarrow> admin_inv (destroy_admin_session sid m)"
  by (auto simp: admin_inv_def destroy_admin_session_def split: if_splits)

lemma admin_inv_create:
  "admin_inv m \<Longrightarrow> admin_inv (fst (create_admin_session i who m))"
  by (auto simp: admin_inv_def create_admin_session_def Let_def split: if_splits)

lemma admin_inv_first_run:
  "admin_inv m \<Longrightarrow> dict_get (am_sessions m) (is_session_id i) = None \<Longrightarrow>
     admin_inv (fst (create_first_run_session i m))"
  by (auto simp: admin_inv_def create_first_run_session_def Let_def split: if_splits)

lemma validate_cases:
  assumes "validate_admin_session now sid m = (m', res)"
  shows "case res of
     Some s \<Rightarrow> m' = m \<and> dict_get (am_sessions m) sid = Some s \<and> now < ad_expires_at s
   | None \<Rightarrow> dict_get (am_sessions m') sid = None \<and> (m' = m \<or> m' = destroy_admin_session sid m)"
  using assms by (auto simp: validate_admin_session_def split: option.splits if_splits)

lemma foldl_destroy:
  "dict_get (am_sessions (foldl (\<lambda>m sid. destroy_admin_session sid m) m xs)) k =
     (if k \<in> set xs then None else dict_get (am_sessions m) k)"
  "dict_get (am_files (foldl (\<lambda>m sid. destroy_admin_session sid m) m xs)) k =
     (if k \<in> set xs then None else dict_get (am_files m) k)"
  by (induction xs arbitrary: m) auto

lemma cleanup_sessions:
  assumes "dict_wf (am_sessions m)"
  shows "dict_get (am_sessions (fst (cleanup_admin_sessions now m))) k =
     (case dict_get (am_sessions m) k of
        None \<Rightarrow> None | Some s \<Rightarrow> if ad_expires_at s \<le> now then None else Some s)"
proof -
  have "k \<in> set [sid. (sid, s) \<leftarrow> am_sessions m, ad_expires_at s \<le> now] \<longleftrightarrow>
      (\<exists>s. dict_get (am_sessions m) k = Some s \<and> ad_expires_at s \<le> now)"
    using assms by (fastforce split: if_splits)
  then show ?thesis
    by (simp add: cleanup_admin_sessions_def Let_def foldl_destroy del: set_concat) (auto split: option.splits)
qed

text \<open>Where the session of a request comes from.\<close>

definition live_session :: "instant \<Rightarrow> admin_auth \<Rightarrow> admin_session \<Rightarrow> bool" where
  "live_session now m s \<longleftrightarrow> dict_get (am_sessions m) (ad_session_id s) = Some s \<and> now < ad_expires_at s"

lemma cookie_session_result:
  assumes "cookie_session q m = (m', res)" and "admin_inv m"
  shows "admin_inv m' \<and> am_ttl_seconds m' = am_ttl_seconds m \<and>
    (\<forall>k. dict_get (am_sessions m') k = dict_get (am_sessions m) k \<or> dict_get (am_sessions m') k = None) \<and>
    (\<forall>s. res = Some s \<longrightarrow> aq_cookie q = Some (ad_session_id s) \<and> live_session (is_now (aq_issue q)) m' s)"
proof (cases "aq_cookie q = None \<or> aq_cookie q = Some []")
  case True
  then show ?thesis using assms by (auto simp: cookie_session_def)
next
  case False
  then obtain sid where sid: "aq_cookie q = Some sid" "sid \<noteq> []" by auto
  then have v: "validate_admin_session (is_now (aq_issue q)) sid m = (m', res)"
    using assms(1) by (simp add: cookie_session_def)
  show ?thesis
  proof (cases res)
    case None
    then have "m' = m \<or> m' = destroy_admin_session sid m" using validate_cases [OF v] by simp
    then show ?thesis using None assms(2) admin_inv_destroy [OF assms(2)] by (auto split: if_splits)
  next
    case (Some s)
    then have s: "m' = m" "dict_get (am_sessions m) sid = Some s" "is_now (aq_issue q) < ad_expires_at s"
      using validate_cases [OF v] by auto
    then have "ad_session_id s = sid" using assms(2) unfolding admin_inv_def by blast
    then show ?thesis using Some s sid assms(2) by (simp add: live_session_def)
  qed
qed

lemma admin_inv_ttl: "admin_inv m \<Longrightarrow> 0 < am_ttl_seconds m"
  by (simp add: admin_inv_def)

lemma begin_onboarding_result:
  assumes "begin_onboarding q m cx = (m', cx')" and "admin_inv m"
    and "dict_get (am_sessions m) (is_session_id (aq_issue q)) = None"
  shows "admin_inv m' \<and> am_ttl_seconds m' = am_ttl_seconds m \<and> ax_destroy_session cx' = ax_destroy_session cx \<and>
    (m' = m \<and> cx' = cx \<and> (ax_session cx = None \<longrightarrow> \<not> aq_first_run q) \<or>
     (\<exists>s. ax_session cx = None \<and> aq_first_run q \<and> ax_session cx' = Some s \<and> ad_scope s = ''ONBOARDING_ONLY'' \<and>
        live_session (is_now (aq_issue q)) m' s))"
  using assms admin_inv_first_run [OF assms(2,3)]
  by (auto simp: begin_onboarding_def create_first_run_session_def live_session_def seconds_def Let_def split: if_splits)

lemma begin_local_result:
  assumes "begin_local q m cx = (m', cx')" and "admin_inv m"
  shows "admin_inv m' \<and> am_ttl_seconds m' = am_ttl_seconds m \<and> ax_destroy_session cx' = ax_destroy_session cx \<and>
    (m' = m \<and> cx' = cx \<or>
     (\<exists>s. ax_session cx = None \<and> \<not> aq_first_run q \<and> host_is_local q \<and> ax_session cx' = Some s \<and>
        ad_scope s = ''ADMIN'' \<and> live_session (is_now (aq_issue q)) m' s))"
  using assms admin_inv_create [OF assms(2), of "aq_issue q"] admin_inv_ttl [OF assms(2)]
  by (auto simp: begin_local_def create_admin_session_def live_session_def seconds_def Let_def split: if_splits)

text \<open>What the middleware lets through.\<close>

lemma process_request_session:
  assumes "process_request q m = (m', cx, ok)" and "admin_inv m"
    and "dict_get (am_sessions m) (is_session_id (aq_issue q)) = None"
  shows "admin_inv m' \<and> am_ttl_seconds m' = am_ttl_seconds m \<and> \<not> ax_destroy_session cx \<and>
    (case ax_session cx of
       None \<Rightarrow> ok \<longrightarrow> \<not> aq_first_run q \<and> is_public (aq_path q)
     | Some s \<Rightarrow> live_session (is_now (aq_issue q)) m' s \<and>
         (ok \<longrightarrow> ad_scope s = ''ONBOARDING_ONLY'' \<longrightarrow> aq_path q \<in> set onboarding_routes) \<and>
         (aq_cookie q = Some (ad_session_id s) \<or>
          ad_scope s = ''ONBOARDING_ONLY'' \<and> aq_first_run q \<and> aq_path q \<in> set onboarding_routes \<or>
          ad_scope s = ''ADMIN'' \<and> \<not> aq_first_run q \<and> host_is_local q))"
proof -
  obtain m1 ses where ses: "cookie_session q m = (m1, ses)" by (metis prod.exhaust)
  let ?cx1 = "fresh_context q ses"
  note c = cookie_session_result [OF ses assms(2)]
  have m1: "admin_inv m1" "dict_get (am_sessions m1) (is_session_id (aq_issue q)) = None" using c assms(3) by metis+
  obtain m2 cx2 where b: "begin_onboarding q m1 ?cx1 = (m2, cx2)" by (metis prod.exhaust)
  note o' = begin_onboarding_result [OF b m1]
  obtain m3 cx3 where l: "begin_local q m2 cx2 = (m3, cx3)" by (metis prod.exhaust)
  have l': "admin_inv m3 \<and> am_ttl_seconds m3 = am_ttl_seconds m2 \<and> ax_destroy_session cx3 = ax_destroy_session cx2 \<and>
    (m3 = m2 \<and> cx3 = cx2 \<or>
     (\<exists>s. ax_session cx2 = None \<and> \<not> aq_first_run q \<and> host_is_local q \<and> ax_session cx3 = Some s \<and>
        ad_scope s = ''ADMIN'' \<and> live_session (is_now (aq_issue q)) m3 s))"
    using begin_local_result [OF l] o' by blast
  have sel: "ax_session ?cx1 = ses" "\<not> ax_destroy_session ?cx1" by (simp_all add: fresh_context_def)
  have "(m', cx, ok) =
      (if aq_first_run q \<and> ses = None \<and> aq_path q \<notin> set onboarding_routes then (m1, blocked ?cx1, False)
       else if onboarding cx2 \<and> aq_path q \<notin> set onboarding_routes then (m2, blocked cx2, False)
       else if ax_session cx3 = None \<and> \<not> is_public (aq_path q) then (m3, blocked cx3, False)
       else (m3, cx3, True))"
    unfolding assms(1) [symmetric] process_request_def by (simp add: ses b l Let_def)
  then show ?thesis
    using c o' l' sel
    by (auto simp: blocked_def onboarding_def split: if_splits option.splits)
qed

section \<open>Handlers are reached through the middleware\<close>

lemma validate_csrf_True:
  "validate_csrf_token (Some t) (Some r) = Inr True \<longleftrightarrow> t = r \<and> t \<noteq> [] \<and> ascii t"
  by (auto simp: validate_csrf_token_def)

lemma process_post_body_True:
  assumes "process_post_body p token cx = Inr (cx', True)"
  shows "cx' = cx \<and> (p \<in> set public_paths \<or> bridge_path p \<or> p = ''/api/bootstrap/verify'' \<or>
    (\<exists>s. ax_session cx = Some s \<and> token = ad_csrf_token s \<and> token \<noteq> []))"
  using assms by (auto simp: process_post_body_def validate_csrf_True split: if_splits option.splits)

lemma do_get_passes:
  assumes "do_get accepted i q m = (m', tgt, cs)" and "\<And>l. tgt \<noteq> Redirected l"
  shows "\<exists>m1 cx. process_request q m = (m1, cx, True) \<and> tgt = get_target (aq_target q) cx \<and>
    m' = fst (handler_effect tgt accepted i cx m1)"
  using assms by (auto simp: do_get_def refused_to_def Let_def split: prod.splits if_splits)

lemma do_post_passes:
  assumes "do_post accepted i q m = (m', Inr (tgt, cs))" and "\<And>l. tgt \<noteq> Redirected l"
  shows "\<exists>m1 cx. process_request q m = (m1, cx, True) \<and>
    process_post_body (aq_path q) (aq_csrf q) cx = Inr (cx, True) \<and> tgt = post_target (aq_target q) \<and> cs = [] \<and>
    m' = fst (handler_effect tgt accepted i cx m1)"
proof -
  obtain m1 cx ok where p: "process_request q m = (m1, cx, ok)" by (metis prod.exhaust)
  then have "ok" using assms by (auto simp: do_post_def refused_to_def Let_def split: if_splits)
  obtain cx2 ok2 where b: "process_post_body (aq_path q) (aq_csrf q) cx = Inr (cx2, ok2)"
    using assms(1) p \<open>ok\<close> by (cases "process_post_body (aq_path q) (aq_csrf q) cx") (auto simp: do_post_def Let_def)
  then have "ok2" using assms p \<open>ok\<close> by (cases ok2) (auto simp: do_post_def refused_to_def Let_def)
  with b have "cx2 = cx" using process_post_body_True [of "aq_path q" "aq_csrf q" cx cx2] by simp
  then show ?thesis using assms(1) p b \<open>ok\<close> \<open>ok2\<close> by (auto simp: do_post_def Let_def)
qed

lemma get_target_not_redirect: "get_target t cx \<noteq> Redirected l"
  by (simp add: get_target_def dispatch_get_def routed_def split: option.split)

lemma post_target_not_redirect: "post_target t \<noteq> Redirected l"
  by (simp add: post_target_def dispatch_post_def routed_def split: option.split)

text \<open>The sync operations are reached only under their own paths, which are never exempt.\<close>

lemma url_path_of_plain:
  assumes "split_query t = p" and "CHR ''#'' \<notin> set p" and "CHR '';'' \<notin> set p"
  shows "url_path t = p"
proof -
  have "takeWhile (\<lambda>c. c \<noteq> CHR ''?'' \<and> c \<noteq> CHR ''#'') t = takeWhile (\<lambda>c. c \<noteq> CHR ''#'') (split_query t)"
    unfolding split_query_def by (induction t) auto
  also have "\<dots> = p" using assms(1,2) by (auto simp: takeWhile_eq_all_conv)
  finally have p: "takeWhile (\<lambda>c. c \<noteq> CHR ''?'' \<and> c \<noteq> CHR ''#'') t = p" .
  define seg where "seg = rev (takeWhile (\<lambda>c. c \<noteq> CHR ''/'') (rev p))"
  have split: "p = rev (dropWhile (\<lambda>c. c \<noteq> CHR ''/'') (rev p)) @ seg"
    unfolding seg_def by (metis rev_append rev_rev_ident takeWhile_dropWhile_id)
  then have "set seg \<subseteq> set p" by (metis set_append sup_ge2)
  then have seg: "takeWhile (\<lambda>c. c \<noteq> CHR '';'') seg = seg" using assms(3) by (auto simp: takeWhile_eq_all_conv)
  have front: "take (length p - length seg) p = rev (dropWhile (\<lambda>c. c \<noteq> CHR ''/'') (rev p))"
    using split by (metis append_eq_conv_conj diff_add_inverse2 length_append)
  show ?thesis unfolding url_path_def p Let_def seg_def [symmetric] front seg by (rule split [symmetric])
qed

text \<open>
  C11. What an administrator's request needs: whenever a POST reaches a handler of the panel
  (starting, staging, activating and rolling back a sync included), either its path is one of the
  public or idempotent ones, or it carries the CSRF token of a session that is live in the manager,
  a session restricted to onboarding reaches only onboarding routes, and the session came with the
  request's cookie unless the runtime is in its first run or the Host header names this machine.
\<close>

theorem admin_post_protected:
  assumes "admin_inv m" and "dict_get (am_sessions m) (is_session_id (aq_issue q)) = None"
    and "do_post accepted i q m = (m', Inr (tgt, cs))" and "\<forall>l. tgt \<noteq> Redirected l"
  shows "(is_public (aq_path q) \<or> aq_path q = ''/api/bootstrap/verify'') \<and>
       tgt \<notin> {Sync_start, Sync_stage, Sync_activate, Sync_rollback} \<or>
    (\<exists>s. live_session (is_now (aq_issue q)) (fst (process_request q m)) s \<and> aq_csrf q = ad_csrf_token s \<and> aq_csrf q \<noteq> [] \<and>
       (ad_scope s = ''ONBOARDING_ONLY'' \<longrightarrow> aq_path q \<in> set onboarding_routes) \<and>
       (aq_cookie q = Some (ad_session_id s) \<or> aq_first_run q \<or> host_is_local q))"
proof -
  obtain m1 cx where p: "process_request q m = (m1, cx, True)"
      "process_post_body (aq_path q) (aq_csrf q) cx = Inr (cx, True)" "tgt = post_target (aq_target q)"
    using do_post_passes [OF assms(3)] assms(4) by blast
  note ses = process_request_session [OF p(1) assms(1,2)]
  have sync: "aq_path q \<in> {''/api/sync'', ''/api/sync/stage'', ''/api/sync/activate'', ''/api/sync/rollback''}"
    if "tgt \<in> {Sync_start, Sync_stage, Sync_activate, Sync_rollback}"
  proof -
    have "split_query (aq_target q) \<in> {''/api/sync'', ''/api/sync/stage'', ''/api/sync/activate'', ''/api/sync/rollback''}"
      using that p(3) by (auto simp: post_target_def dispatch_post_def routed_def split: if_splits option.splits)
    then show ?thesis by (auto simp: aq_path_def dest: url_path_of_plain)
  qed
  show ?thesis
  proof (cases "is_public (aq_path q) \<or> aq_path q = ''/api/bootstrap/verify''")
    case True
    then have "tgt \<notin> {Sync_start, Sync_stage, Sync_activate, Sync_rollback}"
      using sync by (auto simp: is_public_def public_paths_def bridge_path_def starts_with_def)
    then show ?thesis using True by simp
  next
    case False
    then obtain s where s: "ax_session cx = Some s" "aq_csrf q = ad_csrf_token s" "aq_csrf q \<noteq> []"
      using process_post_body_True [OF p(2)] by (auto simp: is_public_def)
    then show ?thesis using ses p(1) by auto
  qed
qed

definition demo_admin :: admin_auth where
  "demo_admin = fst (create_admin_session \<lparr>is_now = 0, is_session_id = ''s1'', is_csrf = ''t1''\<rparr> ''admin''
     (admin_auth_init ''r'' 1800))"

definition demo_admin_request :: admin_request where
  "demo_admin_request = \<lparr>aq_target = ''/api/sync'', aq_host = Some ''10.0.0.9:8080'', aq_cookie = Some ''s1'', aq_csrf = ''t1'',
     aq_first_run = False, aq_issue = \<lparr>is_now = 5, is_session_id = ''s2'', is_csrf = ''t2''\<rparr>\<rparr>"

lemma demo_admin_inv: "admin_inv demo_admin"
  unfolding demo_admin_def by (rule admin_inv_create) (simp add: admin_inv_init)

theorem admin_post_protected_witness:
  "do_post False (aq_issue demo_admin_request) demo_admin_request demo_admin = (demo_admin, Inr (Sync_start, [])) \<and>
   (\<exists>s. live_session 5 demo_admin s \<and> aq_csrf demo_admin_request = ad_csrf_token s)"
proof -
  have fresh: "dict_get (am_sessions demo_admin) (is_session_id (aq_issue demo_admin_request)) = None" by code_simp
  have post: "do_post False (aq_issue demo_admin_request) demo_admin_request demo_admin = (demo_admin, Inr (Sync_start, []))"
    by code_simp
  have "fst (process_request demo_admin_request demo_admin) = demo_admin" "is_now (aq_issue demo_admin_request) = 5"
    by code_simp+
  then show ?thesis using admin_post_protected [OF demo_admin_inv fresh post] post by auto
qed

section \<open>The first run\<close>

text \<open>Requests of a runtime without a GitHub token, as long as no token is accepted.\<close>

inductive first_run_step :: "admin_auth \<Rightarrow> admin_auth \<Rightarrow> bool" where
  first_get: "aq_first_run q \<Longrightarrow> dict_get (am_sessions m) (is_session_id (aq_issue q)) = None \<Longrightarrow>
     first_run_step m (fst (do_get False i q m))"
| first_post: "aq_first_run q \<Longrightarrow> dict_get (am_sessions m) (is_session_id (aq_issue q)) = None \<Longrightarrow>
     first_run_step m (fst (do_post False i q m))"
| first_cleanup: "first_run_step m (fst (cleanup_admin_sessions now m))"

definition only_onboarding :: "admin_auth \<Rightarrow> bool" where
  "only_onboarding m \<longleftrightarrow> admin_inv m \<and>
     (\<forall>sid s. dict_get (am_sessions m) sid = Some s \<longrightarrow> ad_scope s = ''ONBOARDING_ONLY'')"

lemma only_onboarding_files: "only_onboarding m \<Longrightarrow> dict_get (am_files m) sid = None"
  by (auto simp: only_onboarding_def admin_inv_def split: option.splits)

lemma only_onboarding_destroy: "only_onboarding m \<Longrightarrow> only_onboarding (destroy_admin_session sid m)"
  using admin_inv_destroy by (auto simp: only_onboarding_def split: if_splits)

lemma only_onboarding_foldl: "only_onboarding m \<Longrightarrow> only_onboarding (foldl (\<lambda>m sid. destroy_admin_session sid m) m xs)"
  by (induction xs arbitrary: m) (simp_all add: only_onboarding_destroy)

lemma only_onboarding_effect:
  "only_onboarding m \<Longrightarrow> only_onboarding (fst (handler_effect tgt False i cx m))"
  by (auto simp: handler_effect_def handle_logout_def only_onboarding_destroy split: option.splits)

lemma only_onboarding_request:
  assumes "process_request q m = (m', cx, ok)" and "only_onboarding m" and "aq_first_run q"
    and "dict_get (am_sessions m) (is_session_id (aq_issue q)) = None"
  shows "only_onboarding m' \<and> (ok \<longrightarrow> aq_path q \<in> set onboarding_routes)"
proof -
  obtain m1 ses where ses: "cookie_session q m = (m1, ses)" by (metis prod.exhaust)
  have m1: "only_onboarding m1" "dict_get (am_sessions m1) (is_session_id (aq_issue q)) = None"
    using cookie_session_result [OF ses] assms(2,4) unfolding only_onboarding_def by (metis option.distinct(1))+
  obtain m2 cx2 where b: "begin_onboarding q m1 (fresh_context q ses) = (m2, cx2)" by (metis prod.exhaust)
  have m2: "only_onboarding m2"
    using b m1 admin_inv_first_run [of m1 "aq_issue q"]
    by (auto simp: begin_onboarding_def create_first_run_session_def only_onboarding_def Let_def split: if_splits)
  have l: "begin_local q m2 cx2 = (m2, cx2)" using assms(3) by (simp add: begin_local_def)
  have "m' \<in> {m1, m2}" using assms(1) by (auto simp: process_request_def ses b l Let_def split: if_splits)
  moreover have "aq_path q \<in> set onboarding_routes" if "ok"
  proof -
    have inv: "admin_inv m" using assms(2) by (simp add: only_onboarding_def)
    note r = process_request_session [OF assms(1) inv assms(4)]
    show ?thesis
    proof (cases "ax_session cx")
      case (Some s)
      have "ad_scope s = ''ONBOARDING_ONLY''"
        using r Some calculation m1(1) m2 by (auto simp: live_session_def only_onboarding_def)
      then show ?thesis using r Some that by simp
    qed (use r that assms(3) in simp)
  qed
  ultimately show ?thesis using m1 m2 by auto
qed

lemma first_run_invariant: "first_run_step m m' \<Longrightarrow> only_onboarding m \<Longrightarrow> only_onboarding m'"
proof (induction rule: first_run_step.induct)
  case (first_get q m i)
  obtain m1 cx ok where p: "process_request q m = (m1, cx, ok)" by (metis prod.exhaust)
  then have "only_onboarding m1" using only_onboarding_request first_get by blast
  then show ?case using p only_onboarding_effect by (simp add: do_get_def Let_def)
next
  case (first_post q m i)
  obtain m1 cx ok where p: "process_request q m = (m1, cx, ok)" by (metis prod.exhaust)
  then have "only_onboarding m1" using only_onboarding_request first_post by blast
  then show ?case using p only_onboarding_effect by (auto simp: do_post_def Let_def split: sum.split bool.split)
next
  case (first_cleanup m now)
  then show ?case by (simp add: cleanup_admin_sessions_def Let_def only_onboarding_foldl)
qed

lemma first_run_reachable: "first_run_step\<^sup>*\<^sup>* m m' \<Longrightarrow> only_onboarding m \<Longrightarrow> only_onboarding m'"
  by (induction rule: rtranclp_induct) (auto intro: first_run_invariant)

text \<open>
  C21. The first run is confined: as long as no GitHub token is stored (which the device flow does
  before it validates one), no sequence of requests gives anyone a session of the administrator, none
  is written to disk, and every handler that is reached lies on an onboarding route.
\<close>

theorem first_run_confined:
  assumes "0 < ttl" and "first_run_step\<^sup>*\<^sup>* (admin_auth_init rid ttl) m"
    and "aq_first_run q" and "dict_get (am_sessions m) (is_session_id (aq_issue q)) = None"
  shows "(\<forall>sid s. dict_get (am_sessions m) sid = Some s \<longrightarrow> ad_scope s = ''ONBOARDING_ONLY'') \<and>
    (\<forall>sid. dict_get (am_files m) sid = None) \<and>
    (\<forall>accepted i. (\<exists>l. fst (snd (do_get accepted i q m)) = Redirected l) \<or> aq_path q \<in> set onboarding_routes) \<and>
    (\<forall>accepted i tgt cs. snd (do_post accepted i q m) = Inr (tgt, cs) \<longrightarrow>
       (\<exists>l. tgt = Redirected l) \<or> aq_path q \<in> set onboarding_routes)"
proof -
  have "only_onboarding (admin_auth_init rid ttl)"
    using assms(1) admin_inv_init by (simp add: only_onboarding_def admin_auth_init_def)
  then have m: "only_onboarding m" using assms(2) first_run_reachable by blast
  have path: "aq_path q \<in> set onboarding_routes" if "process_request q m = (m1, cx, True)" for m1 cx
    using only_onboarding_request [OF that m assms(3,4)] by blast
  have "(\<exists>l. fst (snd (do_get accepted i q m)) = Redirected l) \<or> aq_path q \<in> set onboarding_routes" for accepted i
    using do_get_passes path by (metis prod.collapse)
  moreover have "(\<exists>l. tgt = Redirected l) \<or> aq_path q \<in> set onboarding_routes"
    if "snd (do_post accepted i q m) = Inr (tgt, cs)" for accepted i tgt cs
    using do_post_passes [of accepted i q m "fst (do_post accepted i q m)" tgt cs] path that by (metis prod.collapse)
  ultimately show ?thesis using m only_onboarding_files by (auto simp: only_onboarding_def)
qed

theorem first_run_confined_witness:
  "\<exists>q m. first_run_step\<^sup>*\<^sup>* (admin_auth_init ''r'' 1800) m \<and> aq_first_run q \<and> am_sessions m \<noteq> [] \<and>
     aq_path q \<notin> set onboarding_routes \<and> (\<exists>l. fst (snd (do_get True (aq_issue q) q m)) = Redirected l)"
proof -
  define q1 where "q1 = demo_admin_request\<lparr>aq_target := ''/'', aq_cookie := None, aq_first_run := True\<rparr>"
  define m where "m = fst (do_get False (aq_issue q1) q1 (admin_auth_init ''r'' 1800))"
  define q where "q = demo_admin_request\<lparr>aq_first_run := True,
    aq_issue := \<lparr>is_now = 6, is_session_id = ''s3'', is_csrf = ''t3''\<rparr>\<rparr>"
  have steps: "first_run_step\<^sup>*\<^sup>* (admin_auth_init ''r'' 1800) m"
    unfolding m_def
    by (rule r_into_rtranclp, rule first_run_step.first_get) (simp_all add: q1_def admin_auth_init_def)
  have fresh: "dict_get (am_sessions m) (is_session_id (aq_issue q)) = None" "am_sessions m \<noteq> []"
    unfolding m_def q_def q1_def by code_simp+
  have "aq_first_run q" by (simp add: q_def)
  moreover have "aq_path q \<notin> set onboarding_routes" unfolding q_def by code_simp
  ultimately show ?thesis
    using first_run_confined [OF _ steps _ fresh(1)] steps fresh(2) by (metis zero_less_numeral)
qed

text \<open>
  C22. Expiry by request and expiry by sweep agree: a sweep at any earlier moment is not
  observable, for every session id and every later moment the validation answers the same, and
  after it the two managers hold the same sessions and files under that id.
\<close>

theorem cleanup_unobservable:
  assumes "admin_inv m" and "t \<le> now"
  shows "snd (validate_admin_session now sid (fst (cleanup_admin_sessions t m))) = snd (validate_admin_session now sid m) \<and>
    dict_get (am_sessions (fst (validate_admin_session now sid (fst (cleanup_admin_sessions t m))))) sid =
      dict_get (am_sessions (fst (validate_admin_session now sid m))) sid \<and>
    dict_get (am_files (fst (validate_admin_session now sid (fst (cleanup_admin_sessions t m))))) sid =
      dict_get (am_files (fst (validate_admin_session now sid m))) sid"
proof -
  let ?c = "fst (cleanup_admin_sessions t m)"
  have wf: "dict_wf (am_sessions m)" using assms(1) by (simp add: admin_inv_def)
  have files: "dict_get (am_files m) k = (case dict_get (am_sessions m) k of
      None \<Rightarrow> None | Some s \<Rightarrow> if ad_scope s = ''ADMIN'' then Some s else None)" for k
    using assms(1) by (simp add: admin_inv_def)
  have cfiles: "dict_get (am_files ?c) sid = (case dict_get (am_sessions m) sid of
      None \<Rightarrow> None | Some s \<Rightarrow> if ad_expires_at s \<le> t \<or> ad_scope s \<noteq> ''ADMIN'' then None else Some s)"
  proof -
    have "sid \<in> set [sid. (sid, s) \<leftarrow> am_sessions m, ad_expires_at s \<le> t] \<longleftrightarrow>
        (\<exists>s. dict_get (am_sessions m) sid = Some s \<and> ad_expires_at s \<le> t)"
      using wf by (fastforce split: if_splits)
    then show ?thesis
      by (simp add: cleanup_admin_sessions_def Let_def foldl_destroy files del: set_concat) (auto split: option.splits)
  qed
  show ?thesis
  proof (cases "dict_get (am_sessions m) sid")
    case None
    then show ?thesis
      using cleanup_sessions [OF wf, of t sid] cfiles by (simp add: validate_admin_session_def files)
  next
    case (Some s)
    then show ?thesis
      using cleanup_sessions [OF wf, of t sid] cfiles assms(2)
      by (auto simp: validate_admin_session_def files)
  qed
qed

theorem cleanup_unobservable_witness:
  "snd (validate_admin_session 2000000000 ''s1'' (fst (cleanup_admin_sessions 1900000000 demo_admin))) = None \<and>
   snd (validate_admin_session 5 ''s1'' (fst (cleanup_admin_sessions 0 demo_admin))) \<noteq> None"
proof -
  have "snd (validate_admin_session 2000000000 ''s1'' demo_admin) = None" "snd (validate_admin_session 5 ''s1'' demo_admin) \<noteq> None"
    by code_simp+
  then show ?thesis
    using cleanup_unobservable [OF demo_admin_inv, of 1900000000 2000000000 "''s1''"]
      cleanup_unobservable [OF demo_admin_inv, of 0 5 "''s1''"] by simp
qed

text \<open>The response to a POST that reached its handler carries no cookie, not even after a logout.\<close>

lemma post_sets_no_cookie:
  assumes "do_post accepted i q m = (m', Inr (tgt, cs))" and "\<forall>l. tgt \<noteq> Redirected l"
  shows "cs = []"
  using do_post_passes [OF assms(1)] assms(2) by blast

end
