(* ===== verification/Secrets.thy ===== *)
theory Secrets
  imports Security
begin

text \<open>
  Secrets (runtime/secrets/backend.py, runtime/secrets/broker.py): the encrypted file backend,
  the broker that checks an execution context, the broker that confines an account to its
  namespace, and the one-time handles. The interface \<open>SecretBackend\<close> of the code is
  the locale \<open>secret_backend\<close>. Fernet and SHA-256 are arguments; strings stand for
  byte strings, and references are ASCII.
\<close>

section \<open>FileSecretBackend\<close>

text \<open>\<open>fn_encrypt\<close> takes the key, the randomness of the call and the value.\<close>

record fernet =
  fn_encrypt :: "string \<Rightarrow> string \<Rightarrow> string \<Rightarrow> string"
  fn_decrypt :: "string \<Rightarrow> string \<Rightarrow> string option"

text \<open>The documented behaviour of the package: a token decrypts under its key.\<close>

definition fernet_sound :: "fernet \<Rightarrow> bool" where
  "fernet_sound fn \<longleftrightarrow> (\<forall>k n v. fn_decrypt fn k (fn_encrypt fn k n v) = Some v)"

text \<open>The regular files of the secrets directory, and the derived key.\<close>

record file_secrets =
  fs_key :: string
  fs_files :: "(string, string) dict"

definition derive_key :: "(string \<Rightarrow> string) \<Rightarrow> string \<Rightarrow> string" where
  "derive_key sha256 master_key = (if length master_key = 32 then master_key else sha256 master_key)"

definition file_secrets_init :: "(string \<Rightarrow> string) \<Rightarrow> string \<Rightarrow> (string, string) dict \<Rightarrow> file_secrets" where
  "file_secrets_init sha256 master_key files = \<lparr>fs_key = derive_key sha256 master_key, fs_files = files\<rparr>"

text \<open>\<open>[\w\-\.]\<close>\<close>

definition reference_char :: "char \<Rightarrow> bool" where
  "reference_char c \<longleftrightarrow>
     (let n = of_char c :: nat in
        48 \<le> n \<and> n \<le> 57 \<or> 65 \<le> n \<and> n \<le> 90 \<or> 97 \<le> n \<and> n \<le> 122 \<or> c \<in> {CHR ''_'', CHR ''-'', CHR ''.''})"

text \<open>In the pattern the dollar also matches before one newline at the end.\<close>

definition matches_reference :: "string \<Rightarrow> bool" where
  "matches_reference r \<longleftrightarrow>
     (let s = (if r \<noteq> [] \<and> last r = CHR 0x0A then butlast r else r) in s \<noteq> [] \<and> (\<forall>c \<in> set s. reference_char c))"

text \<open>
  A matching reference has no slash, so it resolves below the directory unless it is two dots;
  one dot is the directory itself.
\<close>

definition safe_reference :: "string \<Rightarrow> string result" where
  "safe_reference r =
     (if \<not> matches_reference r then Inl (ValueError ''UNSAFE_REFERENCE'')
      else if r = ''..'' then Inl (ValueError ''UNSAFE_REFERENCE'')
      else Inr r)"

definition directory_error :: exn where
  "directory_error = OSError ''Is a directory''"

definition file_store :: "fernet \<Rightarrow> string \<Rightarrow> string \<Rightarrow> string \<Rightarrow> file_secrets \<Rightarrow> file_secrets \<times> bool result" where
  "file_store fn nonce r v s =
     (case safe_reference r of
        Inl e \<Rightarrow> (s, Inl e)
      | Inr p \<Rightarrow>
          if p = ''.'' then (s, Inl directory_error)
          else (s\<lparr>fs_files := dict_set (fs_files s) p (fn_encrypt fn (fs_key s) nonce v)\<rparr>, Inr True))"

definition file_retrieve :: "fernet \<Rightarrow> file_secrets \<Rightarrow> string \<Rightarrow> string option result" where
  "file_retrieve fn s r =
     and_then (safe_reference r) (\<lambda>p.
       if p = ''.'' then Inl directory_error
       else case dict_get (fs_files s) p of
              None \<Rightarrow> Inr None
            | Some b \<Rightarrow> Inr (fn_decrypt fn (fs_key s) b))"

definition file_delete :: "string \<Rightarrow> file_secrets \<Rightarrow> file_secrets \<times> bool result" where
  "file_delete r s =
     (case safe_reference r of
        Inl e \<Rightarrow> (s, Inl e)
      | Inr p \<Rightarrow>
          if p = ''.'' then (s, Inl directory_error)
          else if dict_get (fs_files s) p \<noteq> None then (s\<lparr>fs_files := dict_del (fs_files s) p\<rparr>, Inr True)
          else (s, Inr False))"

definition file_exists :: "file_secrets \<Rightarrow> string \<Rightarrow> bool result" where
  "file_exists s r = and_then (safe_reference r) (\<lambda>p. Inr (p = ''.'' \<or> dict_get (fs_files s) p \<noteq> None))"

definition list_references :: "file_secrets \<Rightarrow> string list" where
  "list_references s = dict_keys (fs_files s)"

section \<open>Brokers\<close>

definition broker_access :: "execution_context \<Rightarrow> string \<Rightarrow> unit result" where
  "broker_access ctx tenant =
     (if \<not> has_capability ctx ''SECRET_USE'' then Inl (PermissionError ''Missing SECRET_USE capability'')
      else if ctx_tenant_id ctx \<noteq> tenant then Inl (PermissionError ''Tenant scope mismatch'')
      else Inr ())"

definition guarded :: "unit result \<Rightarrow> ('s \<Rightarrow> 's \<times> 'a result) \<Rightarrow> 's \<Rightarrow> 's \<times> 'a result" where
  "guarded g f s = (case g of Inl e \<Rightarrow> (s, Inl e) | Inr _ \<Rightarrow> f s)"

definition broker_store ::
  "fernet \<Rightarrow> string \<Rightarrow> execution_context \<Rightarrow> string \<Rightarrow> string \<Rightarrow> string \<Rightarrow> file_secrets \<Rightarrow> file_secrets \<times> bool result" where
  "broker_store fn nonce ctx tenant r v = guarded (broker_access ctx tenant) (file_store fn nonce r v)"

definition broker_retrieve ::
  "fernet \<Rightarrow> execution_context \<Rightarrow> string \<Rightarrow> file_secrets \<Rightarrow> string \<Rightarrow> string option result" where
  "broker_retrieve fn ctx tenant s r = and_then (broker_access ctx tenant) (\<lambda>_. file_retrieve fn s r)"

definition broker_delete ::
  "execution_context \<Rightarrow> string \<Rightarrow> string \<Rightarrow> file_secrets \<Rightarrow> file_secrets \<times> bool result" where
  "broker_delete ctx tenant r = guarded (broker_access ctx tenant) (file_delete r)"

definition broker_exists :: "execution_context \<Rightarrow> string \<Rightarrow> file_secrets \<Rightarrow> string \<Rightarrow> bool result" where
  "broker_exists ctx tenant s r = and_then (broker_access ctx tenant) (\<lambda>_. file_exists s r)"

definition broker_list :: "execution_context \<Rightarrow> string \<Rightarrow> file_secrets \<Rightarrow> string list result" where
  "broker_list ctx tenant s = and_then (broker_access ctx tenant) (\<lambda>_. Inr (list_references s))"

definition account_prefix :: "string \<Rightarrow> string" where
  "account_prefix account = ''acct-'' @ account @ ''-''"

definition check_namespace :: "string \<Rightarrow> string \<Rightarrow> unit result" where
  "check_namespace account r =
     (if \<not> starts_with r (account_prefix account)
      then Inl (ContextAccessError (''CONTEXT_ACCESS_DENIED: Invalid credential namespace. Expected prefix ''
             @ account_prefix account @ '', got '' @ r))
      else Inr ())"

definition credential_ref_for :: "string \<Rightarrow> string \<Rightarrow> string" where
  "credential_ref_for account service = account_prefix account @ service"

definition account_store ::
  "fernet \<Rightarrow> string \<Rightarrow> string \<Rightarrow> string \<Rightarrow> string \<Rightarrow> file_secrets \<Rightarrow> file_secrets \<times> bool result" where
  "account_store fn nonce account r v = guarded (check_namespace account r) (file_store fn nonce r v)"

definition account_retrieve :: "fernet \<Rightarrow> string \<Rightarrow> file_secrets \<Rightarrow> string \<Rightarrow> string option result" where
  "account_retrieve fn account s r = and_then (check_namespace account r) (\<lambda>_. file_retrieve fn s r)"

definition account_delete :: "string \<Rightarrow> string \<Rightarrow> file_secrets \<Rightarrow> file_secrets \<times> bool result" where
  "account_delete account r = guarded (check_namespace account r) (file_delete r)"

definition account_exists :: "string \<Rightarrow> file_secrets \<Rightarrow> string \<Rightarrow> bool result" where
  "account_exists account s r = and_then (check_namespace account r) (\<lambda>_. file_exists s r)"

definition account_list :: "string \<Rightarrow> file_secrets \<Rightarrow> string list" where
  "account_list account s = filter (\<lambda>r. starts_with r (account_prefix account)) (list_references s)"

section \<open>Handles\<close>

record secret_handle =
  sh_reference :: string
  sh_value :: string
  sh_released :: bool

definition handle_value :: "secret_handle \<Rightarrow> string result" where
  "handle_value h = (if sh_released h then Inl (RuntimeError ''Secret handle already released'') else Inr (sh_value h))"

definition handle_release :: "secret_handle \<Rightarrow> secret_handle" where
  "handle_release h = h\<lparr>sh_value := [], sh_released := True\<rparr>"

definition broker_use :: "fernet \<Rightarrow> file_secrets \<Rightarrow> string \<Rightarrow> secret_handle option result" where
  "broker_use fn s r =
     and_then (file_retrieve fn s r) (\<lambda>v. case v of
        None \<Rightarrow> Inr None
      | Some b \<Rightarrow> Inr (Some \<lparr>sh_reference = r, sh_value = b, sh_released = False\<rparr>))"

definition broker_revoke :: "string \<Rightarrow> file_secrets \<Rightarrow> file_secrets \<times> bool result" where
  "broker_revoke r s = file_delete r s"

section \<open>Interface: a secret backend\<close>

text \<open>
  What a backend promises for the references it accepts: what was stored last is what
  a retrieval reveals,
  what was deleted is gone, no other reference is touched, and a refused request changes nothing.
\<close>

locale secret_backend =
  fixes accepts :: "string \<Rightarrow> bool"
    and sstore :: "string \<Rightarrow> string \<Rightarrow> 's \<Rightarrow> 's \<times> bool result"
    and sretrieve :: "'s \<Rightarrow> string \<Rightarrow> string option result"
    and sdelete :: "string \<Rightarrow> 's \<Rightarrow> 's \<times> bool result"
    and reveal :: "'s \<Rightarrow> string \<Rightarrow> string option"
  assumes store_refused: "\<not> accepts r \<Longrightarrow> fst (sstore r v s) = s \<and> (\<exists>e. snd (sstore r v s) = Inl e)"
    and delete_refused: "\<not> accepts r \<Longrightarrow> fst (sdelete r s) = s \<and> (\<exists>e. snd (sdelete r s) = Inl e)"
    and retrieve_refused: "\<not> accepts r \<Longrightarrow> \<exists>e. sretrieve s r = Inl e"
    and store_accepted: "accepts r \<Longrightarrow> snd (sstore r v s) = Inr True"
    and store_retrieve: "accepts r \<Longrightarrow> accepts q \<Longrightarrow>
       sretrieve (fst (sstore r v s)) q = (if q = r then Inr (reveal s v) else sretrieve s q)"
    and delete_retrieve: "accepts r \<Longrightarrow> accepts q \<Longrightarrow>
       sretrieve (fst (sdelete r s)) q = (if q = r then Inr None else sretrieve s q)"
begin

lemma stored: "accepts r \<Longrightarrow> sretrieve (fst (sstore r v s)) r = Inr (reveal s v)"
  by (simp add: store_retrieve)

lemma deleted: "accepts r \<Longrightarrow> sretrieve (fst (sdelete r (fst (sstore r v s)))) r = Inr None"
  by (simp add: delete_retrieve)

lemma only_named:
  assumes "accepts q" and "sretrieve (fst (sstore r v s)) q \<noteq> sretrieve s q"
  shows "q = r"
  using assms store_refused [of r v s] store_retrieve [of r q v s] by (cases "accepts r") (auto split: if_splits)

lemma only_deleted:
  assumes "accepts q" and "sretrieve (fst (sdelete r s)) q \<noteq> sretrieve s q"
  shows "q = r"
  using assms delete_refused [of r s] delete_retrieve [of r q s] by (cases "accepts r") (auto split: if_splits)

end

definition file_accepts :: "string \<Rightarrow> bool" where
  "file_accepts r \<longleftrightarrow> matches_reference r \<and> r \<noteq> ''.'' \<and> r \<noteq> ''..''"

lemma safe_reference_cases:
  "safe_reference r = (if file_accepts r \<or> r = ''.'' then Inr r else Inl (ValueError ''UNSAFE_REFERENCE''))"
proof -
  have "matches_reference ''.''" by (simp add: matches_reference_def reference_char_def)
  then show ?thesis by (auto simp: safe_reference_def file_accepts_def)
qed

lemmas file_ops = file_store_def file_retrieve_def file_delete_def safe_reference_cases file_accepts_def

lemma file_key [simp]:
  "fs_key (fst (file_store fn nonce r v s)) = fs_key s" "fs_key (fst (file_delete r s)) = fs_key s"
  by (simp_all add: file_ops)

interpretation files: secret_backend file_accepts "file_store fn nonce" "file_retrieve fn" file_delete
  "\<lambda>s v. fn_decrypt fn (fs_key s) (fn_encrypt fn (fs_key s) nonce v)" for fn nonce
  by unfold_locales (auto simp: file_ops split: option.splits)

text \<open>A broker is the backend restricted to what its guard lets through.\<close>

lemma guarded_simps [simp]:
  "guarded (Inr u) f s = f s" "guarded (Inl e) f s = (s, Inl e)"
  by (simp_all add: guarded_def)

lemma broker_access_cases:
  "broker_access ctx tenant = (if has_capability ctx ''SECRET_USE'' \<and> ctx_tenant_id ctx = tenant then Inr ()
     else Inl (PermissionError (if has_capability ctx ''SECRET_USE'' then ''Tenant scope mismatch''
       else ''Missing SECRET_USE capability'')))"
  by (simp add: broker_access_def)

definition secure_accepts :: "execution_context \<Rightarrow> string \<Rightarrow> string \<Rightarrow> bool" where
  "secure_accepts ctx tenant r \<longleftrightarrow>
     has_capability ctx ''SECRET_USE'' \<and> ctx_tenant_id ctx = tenant \<and> file_accepts r"

definition account_accepts :: "string \<Rightarrow> string \<Rightarrow> bool" where
  "account_accepts account r \<longleftrightarrow> starts_with r (account_prefix account) \<and> file_accepts r"

interpretation secure: secret_backend "secure_accepts ctx tenant" "broker_store fn nonce ctx tenant"
  "broker_retrieve fn ctx tenant" "broker_delete ctx tenant"
  "\<lambda>s v. fn_decrypt fn (fs_key s) (fn_encrypt fn (fs_key s) nonce v)" for fn nonce ctx tenant
proof unfold_locales
  fix r v and s :: file_secrets
  assume "\<not> secure_accepts ctx tenant r"
  then show "fst (broker_store fn nonce ctx tenant r v s) = s \<and> (\<exists>e. snd (broker_store fn nonce ctx tenant r v s) = Inl e)"
    using files.store_refused [of r fn nonce v s]
    by (auto simp: broker_store_def secure_accepts_def broker_access_cases)
next
  fix r and s :: file_secrets
  assume "\<not> secure_accepts ctx tenant r"
  then show "fst (broker_delete ctx tenant r s) = s \<and> (\<exists>e. snd (broker_delete ctx tenant r s) = Inl e)"
      "\<exists>e. broker_retrieve fn ctx tenant s r = Inl e"
    using files.delete_refused [of r s] files.retrieve_refused [of r fn s]
    by (auto simp: broker_delete_def broker_retrieve_def secure_accepts_def broker_access_cases)
qed (auto simp: broker_store_def broker_delete_def broker_retrieve_def secure_accepts_def broker_access_cases
      files.store_accepted files.store_retrieve files.delete_retrieve)

interpretation account_secrets: secret_backend "account_accepts account" "account_store fn nonce account"
  "account_retrieve fn account" "account_delete account"
  "\<lambda>s v. fn_decrypt fn (fs_key s) (fn_encrypt fn (fs_key s) nonce v)" for fn nonce account
proof unfold_locales
  fix r v and s :: file_secrets
  assume "\<not> account_accepts account r"
  then show "fst (account_store fn nonce account r v s) = s \<and> (\<exists>e. snd (account_store fn nonce account r v s) = Inl e)"
    using files.store_refused [of r fn nonce v s]
    by (auto simp: account_store_def account_accepts_def check_namespace_def)
next
  fix r and s :: file_secrets
  assume "\<not> account_accepts account r"
  then show "fst (account_delete account r s) = s \<and> (\<exists>e. snd (account_delete account r s) = Inl e)"
      "\<exists>e. account_retrieve fn account s r = Inl e"
    using files.delete_refused [of r s] files.retrieve_refused [of r fn s]
    by (auto simp: account_delete_def account_retrieve_def account_accepts_def check_namespace_def)
qed (auto simp: account_store_def account_delete_def account_retrieve_def account_accepts_def check_namespace_def
      files.store_accepted files.store_retrieve files.delete_retrieve)

section \<open>Isolation of accounts\<close>

text \<open>Ids of one length, as generated, give prefixes that exclude each other.\<close>

lemma account_prefix_disjoint:
  assumes "length a = length b" and "starts_with r (account_prefix a)" and "starts_with r (account_prefix b)"
  shows "a = b"
  using assms by (auto simp: starts_with_def account_prefix_def prefix_def)

datatype account_request = Store string string string | Delete string

fun account_run :: "fernet \<Rightarrow> string \<Rightarrow> account_request list \<Rightarrow> file_secrets \<Rightarrow> file_secrets" where
  "account_run fn account [] s = s"
| "account_run fn account (Store nonce r v # qs) s = account_run fn account qs (fst (account_store fn nonce account r v s))"
| "account_run fn account (Delete r # qs) s = account_run fn account qs (fst (account_delete account r s))"

lemma account_frame:
  assumes "\<not> starts_with q (account_prefix account)"
  shows "dict_get (fs_files (fst (account_store fn nonce account r v s))) q = dict_get (fs_files s) q"
    and "dict_get (fs_files (fst (account_delete account r s))) q = dict_get (fs_files s) q"
    and "fs_key (fst (account_store fn nonce account r v s)) = fs_key s"
    and "fs_key (fst (account_delete account r s)) = fs_key s"
  using assms by (auto simp: account_store_def account_delete_def check_namespace_def file_ops)

lemma account_run_frame:
  "\<not> starts_with q (account_prefix account) \<Longrightarrow>
     dict_get (fs_files (account_run fn account qs s)) q = dict_get (fs_files s) q \<and>
     fs_key (account_run fn account qs s) = fs_key s"
  by (induction fn account qs s rule: account_run.induct) (simp_all add: account_frame)

text \<open>
  C23. Accounts are isolated: whatever an account stores and deletes through its broker, every
  other account whose id has the same length (generated ids do) retrieves, through its own
  broker, exactly what it retrieved before, for every reference; and what the owner stored is
  what the owner retrieves.
\<close>

theorem account_secrets_isolated:
  assumes "length account = length other" and "account \<noteq> other" and "fernet_sound fn"
    and "account_accepts other q"
  shows "account_retrieve fn other (account_run fn account qs (fst (account_store fn nonce other q v s))) q = Inr (Some v) \<and>
    account_retrieve fn other (account_run fn account qs s) r = account_retrieve fn other s r"
proof -
  have out: "\<not> starts_with r' (account_prefix account)" if "starts_with r' (account_prefix other)" for r'
    using that assms(1,2) account_prefix_disjoint by blast
  have frame: "account_retrieve fn other (account_run fn account qs s') r' = account_retrieve fn other s' r'" for r' s'
    using account_run_frame [OF out, of r'] 
    by (auto simp: account_retrieve_def check_namespace_def file_retrieve_def safe_reference_cases split: option.splits)
  have "account_retrieve fn other (fst (account_store fn nonce other q v s)) q = Inr (Some v)"
    using account_secrets.stored [OF assms(4), of fn nonce v s] assms(3) by (simp add: fernet_sound_def)
  then show ?thesis by (simp add: frame)
qed

definition demo_fernet :: fernet where
  "demo_fernet = \<lparr>fn_encrypt = (\<lambda>k n v. k @ v), fn_decrypt = (\<lambda>k b. Some (drop (length k) b))\<rparr>"

theorem account_secrets_isolated_witness:
  "account_retrieve demo_fernet ''b2''
     (account_run demo_fernet ''a1'' [Store ''n'' ''acct-a1-token'' ''x'', Delete ''acct-b2-token'']
       (fst (account_store demo_fernet ''n'' ''b2'' ''acct-b2-token'' ''s3'' \<lparr>fs_key = ''k'', fs_files = []\<rparr>)))
     ''acct-b2-token'' = Inr (Some ''s3'')"
proof -
  have "fernet_sound demo_fernet" by (simp add: fernet_sound_def demo_fernet_def)
  moreover have "account_accepts ''b2'' ''acct-b2-token''"
    by (simp add: account_accepts_def account_prefix_def starts_with_def file_accepts_def matches_reference_def
        reference_char_def)
  ultimately show ?thesis
    by (intro account_secrets_isolated [THEN conjunct1]) simp_all
qed

text \<open>The dot names the directory itself: it exists, and cannot be read.\<close>

lemma dot_exists:
  "file_exists s ''.'' = Inr True" "file_retrieve fn s ''.'' = Inl directory_error"
  by (simp_all add: file_exists_def file_retrieve_def safe_reference_cases)

text \<open>Ids of different lengths may share a namespace.\<close>

lemma account_prefix_nested: "starts_with (credential_ref_for ''a-b'' service) (account_prefix ''a'')"
  by (simp add: credential_ref_for_def account_prefix_def starts_with_def)

text \<open>Without the capability nothing is read, written, removed or listed.\<close>

lemma secure_requires_capability:
  assumes "\<not> has_capability ctx ''SECRET_USE'' \<or> ctx_tenant_id ctx \<noteq> tenant"
  shows "fst (broker_store fn nonce ctx tenant r v s) = s" "fst (broker_delete ctx tenant r s) = s"
    and "\<exists>e. broker_retrieve fn ctx tenant s r = Inl e" "\<exists>e. broker_list ctx tenant s = Inl e"
  using assms by (auto simp: broker_store_def broker_delete_def broker_retrieve_def broker_list_def broker_access_cases)

end
