(* ===== verification/Accounts.thy ===== *)
theory Accounts
  imports Secrets
begin

text \<open>
  Accounts and projects (runtime/accounts, runtime/projects): the two registries that keep one
  JSON file per entry in a directory, and how an account's credential reference meets the
  credential broker and the context guard. Writing and removing a file is taken to succeed; one that
  cannot be read back is met when the directory is loaded.
\<close>

section \<open>A directory of JSON files\<close>

text \<open>
  The files of a directory in the order in which it lists them; \<open>None\<close> is a file
  that cannot be read back. Entries are loaded under the id their content carries.
\<close>

type_synonym 'a json_dir = "(string, 'a option) dict"

definition json_name :: "string \<Rightarrow> string" where
  "json_name i = i @ ''.json''"

fun load_entries :: "('a \<Rightarrow> string) \<Rightarrow> (string, 'a) dict \<Rightarrow> 'a json_dir \<Rightarrow> (string, 'a) dict" where
  "load_entries key d [] = d"
| "load_entries key d ((name, None) # fs) = load_entries key d fs"
| "load_entries key d ((name, Some a) # fs) = load_entries key (dict_set d (key a) a) fs"

text \<open>The directory holds exactly one readable file per entry, named by its id.\<close>

definition dir_of :: "('a \<Rightarrow> string) \<Rightarrow> (string, 'a) dict \<Rightarrow> 'a json_dir \<Rightarrow> bool" where
  "dir_of key d fs \<longleftrightarrow> dict_wf d \<and> dict_wf fs \<and> (\<forall>i a. dict_get d i = Some a \<longrightarrow> key a = i) \<and>
     (\<forall>i. dict_get fs (json_name i) = map_option Some (dict_get d i)) \<and>
     (\<forall>n. dict_get fs n \<noteq> None \<longrightarrow> (\<exists>i. n = json_name i))"

lemma json_name_inject [simp]: "json_name i = json_name j \<longleftrightarrow> i = j"
  by (simp add: json_name_def)

lemma dir_of_init: "dir_of key [] []"
  by (simp add: dir_of_def)

lemma dir_of_set:
  "dir_of key d fs \<Longrightarrow> dir_of key (dict_set d (key a) a) (dict_set fs (json_name (key a)) (Some a))"
  by (auto simp: dir_of_def)

lemma dir_of_del: "dir_of key d fs \<Longrightarrow> dir_of key (dict_del d i) (dict_del fs (json_name i))"
  by (auto simp: dir_of_def split: if_splits)

lemma load_entries_get:
  assumes "\<forall>(n, x) \<in> set fs. \<exists>a. x = Some a \<and> dict_get d (key a) = Some a"
  shows "dict_get (load_entries key acc fs) i =
    (if \<exists>(n, x) \<in> set fs. \<exists>a. x = Some a \<and> key a = i then dict_get d i else dict_get acc i)"
  using assms by (induction key acc fs rule: load_entries.induct) (auto split: if_splits)

text \<open>Loading the directory, in whatever order it lists its files, restores the entries.\<close>

lemma load_dir_of:
  assumes "dir_of key d fs"
  shows "dict_get (load_entries key [] fs) i = dict_get d i"
proof -
  have entry: "\<exists>a. x = Some a \<and> n = json_name (key a) \<and> dict_get d (key a) = Some a" if "(n, x) \<in> set fs" for n x
  proof -
    have n: "dict_get fs n = Some x" using assms that by (simp add: dir_of_def)
    then obtain j where j: "n = json_name j" using assms unfolding dir_of_def by blast
    then obtain a where a: "dict_get d j = Some a" "x = Some a" using assms n by (auto simp: dir_of_def)
    then have "key a = j" using assms by (auto simp: dir_of_def)
    then show ?thesis using a j by auto
  qed
  have "dict_get d i = None" if none: "\<not> (\<exists>(n, x) \<in> set fs. \<exists>a. x = Some a \<and> key a = i)"
  proof (rule ccontr)
    assume "dict_get d i \<noteq> None"
    then obtain a where a: "dict_get d i = Some a" by auto
    then have "dict_get fs (json_name i) = Some (Some a)" "key a = i" using assms by (auto simp: dir_of_def)
    then show False using none map_of_SomeD by fastforce
  qed
  moreover have "\<forall>(n, x) \<in> set fs. \<exists>a. x = Some a \<and> dict_get d (key a) = Some a" using entry by blast
  note load_entries_get [OF this, of "[]" i]
  ultimately show ?thesis by (cases "\<exists>(n, x) \<in> set fs. \<exists>a. x = Some a \<and> key a = i") simp_all
qed

lemma load_entries_wf: "dict_wf acc \<Longrightarrow> dict_wf (load_entries key acc fs)"
  by (induction key acc fs rule: load_entries.induct) auto

lemma same_entries_length:
  assumes "dict_wf d" and "dict_wf e" and "\<And>i. dict_get d i = dict_get e i"
  shows "length d = length e"
proof -
  have "i \<in> set (dict_keys d) \<longleftrightarrow> i \<in> set (dict_keys e)" for i
    using assms(3) [of i] map_of_eq_None_iff [of d i] map_of_eq_None_iff [of e i] by simp
  then have "set (dict_keys d) = set (dict_keys e)" by blast
  then show ?thesis using assms(1,2) by (metis distinct_card length_map)
qed

lemma dir_of_load: "dir_of key d fs \<Longrightarrow> dir_of key (load_entries key [] fs) fs"
  using load_dir_of [of key d fs] load_entries_wf [of "[]" key fs] by (simp add: dir_of_def)

section \<open>AccountRegistry\<close>

datatype account_status = ACTIVE | SUSPENDED | DISCONNECTED

record account =
  ac_account_id :: string
  ac_github_principal :: string
  ac_account_type :: string
  ac_credential_ref :: string
  ac_status :: account_status
  ac_created_at :: instant

record account_registry =
  ar_accounts :: "(string, account) dict"
  ar_dir :: "account json_dir"

definition max_accounts :: nat where
  "max_accounts = 5"

definition accounts_load :: "account json_dir \<Rightarrow> account_registry" where
  "accounts_load fs = \<lparr>ar_accounts = load_entries ac_account_id [] fs, ar_dir = fs\<rparr>"

definition account_save :: "account \<Rightarrow> account_registry \<Rightarrow> account_registry" where
  "account_save a r = r\<lparr>ar_dir := dict_set (ar_dir r) (json_name (ac_account_id a)) (Some a)\<rparr>"

text \<open>\<open>str.lower\<close> on ASCII.\<close>

definition lower_char :: "char \<Rightarrow> char" where
  "lower_char c = (let n = of_char c :: nat in if 65 \<le> n \<and> n \<le> 90 then char_of (n + 32) else c)"

definition find_by_principal :: "account_registry \<Rightarrow> string \<Rightarrow> account option" where
  "find_by_principal r p =
     find (\<lambda>a. map lower_char (ac_github_principal a) = map lower_char p) (dict_values (ar_accounts r))"

definition create_account ::
  "string \<Rightarrow> instant \<Rightarrow> string \<Rightarrow> string \<Rightarrow> account_registry \<Rightarrow> account_registry \<times> account result" where
  "create_account hex now p atype r =
     (if max_accounts \<le> length (ar_accounts r) then (r, Inl (ValueError ''Maximum of 5 accounts reached''))
      else case find_by_principal r p of
             Some a \<Rightarrow> (r, Inr a)
           | None \<Rightarrow>
               let i = ''acct-'' @ hex;
                   a = \<lparr>ac_account_id = i, ac_github_principal = p, ac_account_type = atype,
                        ac_credential_ref = i @ ''-github-token'', ac_status = ACTIVE, ac_created_at = now\<rparr>
               in (account_save a (r\<lparr>ar_accounts := dict_set (ar_accounts r) i a\<rparr>), Inr a))"

definition get_account :: "account_registry \<Rightarrow> string \<Rightarrow> account option" where
  "get_account r i = dict_get (ar_accounts r) i"

definition list_accounts :: "account_registry \<Rightarrow> account list" where
  "list_accounts r = dict_values (ar_accounts r)"

definition delete_account :: "string \<Rightarrow> account_registry \<Rightarrow> account_registry \<times> bool" where
  "delete_account i r =
     (if dict_get (ar_accounts r) i \<noteq> None
      then (\<lparr>ar_accounts = dict_del (ar_accounts r) i, ar_dir = dict_del (ar_dir r) (json_name i)\<rparr>, True)
      else (r, False))"

section \<open>ProjectRegistry\<close>

datatype project_status = P_ACTIVE | P_ARCHIVED | P_SUSPENDED

record project =
  pj_project_id :: string
  pj_account_id :: string
  pj_name :: string
  pj_repository_id :: "string option"
  pj_status :: project_status
  pj_created_at :: instant

record project_registry =
  pr_projects :: "(string, project) dict"
  pr_dir :: "project json_dir"

definition projects_load :: "project json_dir \<Rightarrow> project_registry" where
  "projects_load fs = \<lparr>pr_projects = load_entries pj_project_id [] fs, pr_dir = fs\<rparr>"

definition project_save :: "project \<Rightarrow> project_registry \<Rightarrow> project_registry" where
  "project_save p r = r\<lparr>pr_dir := dict_set (pr_dir r) (json_name (pj_project_id p)) (Some p)\<rparr>"

definition create_project ::
  "string \<Rightarrow> instant \<Rightarrow> string \<Rightarrow> string \<Rightarrow> string option \<Rightarrow> project_registry \<Rightarrow> project_registry \<times> project" where
  "create_project hex now acc name repo r =
     (let i = ''proj-'' @ hex;
          p = \<lparr>pj_project_id = i, pj_account_id = acc, pj_name = name, pj_repository_id = repo,
               pj_status = P_ACTIVE, pj_created_at = now\<rparr>
      in (project_save p (r\<lparr>pr_projects := dict_set (pr_projects r) i p\<rparr>), p))"

definition get_project :: "project_registry \<Rightarrow> string \<Rightarrow> project option" where
  "get_project r i = dict_get (pr_projects r) i"

definition list_projects :: "project_registry \<Rightarrow> string option \<Rightarrow> project list" where
  "list_projects r acc =
     (if truthy_str acc then filter (\<lambda>p. Some (pj_account_id p) = acc) (dict_values (pr_projects r))
      else dict_values (pr_projects r))"

definition delete_project :: "string \<Rightarrow> project_registry \<Rightarrow> project_registry \<times> bool" where
  "delete_project i r =
     (if dict_get (pr_projects r) i \<noteq> None
      then (\<lparr>pr_projects = dict_del (pr_projects r) i, pr_dir = dict_del (pr_dir r) (json_name i)\<rparr>, True)
      else (r, False))"

section \<open>The life of a registry\<close>

text \<open>A restart reads the directory again; nothing fixes the order in which it is listed.\<close>

inductive accounts_step :: "account_registry \<Rightarrow> account_registry \<Rightarrow> bool" where
  create: "dict_get (ar_accounts r) (''acct-'' @ hex) = None \<Longrightarrow>
     accounts_step r (fst (create_account hex now p atype r))"
| delete: "accounts_step r (fst (delete_account i r))"
| restart: "dict_wf fs \<Longrightarrow> (\<And>n. dict_get fs n = dict_get (ar_dir r) n) \<Longrightarrow> accounts_step r (accounts_load fs)"

inductive_cases accounts_stepE: "accounts_step r r'"

definition same_principal :: "string \<Rightarrow> string \<Rightarrow> bool" where
  "same_principal p q \<longleftrightarrow> map lower_char p = map lower_char q"

definition accounts_inv :: "account_registry \<Rightarrow> bool" where
  "accounts_inv r \<longleftrightarrow> dir_of ac_account_id (ar_accounts r) (ar_dir r) \<and> length (ar_accounts r) \<le> max_accounts \<and>
     (\<forall>i a j b. get_account r i = Some a \<longrightarrow> get_account r j = Some b \<longrightarrow>
        same_principal (ac_github_principal a) (ac_github_principal b) \<longrightarrow> i = j)"

lemma find_by_principal_None:
  "find_by_principal r p = None \<longleftrightarrow> (\<forall>a \<in> set (list_accounts r). \<not> same_principal (ac_github_principal a) p)"
  by (auto simp: find_by_principal_def list_accounts_def find_None_iff same_principal_def)

lemma create_account_result:
  assumes "create_account hex now p atype r = (r', res)"
  shows "(case res of
     Inl e \<Rightarrow> r' = r \<and> max_accounts \<le> length (ar_accounts r)
   | Inr a \<Rightarrow> r' = r \<and> find_by_principal r p = Some a \<or>
       length (ar_accounts r) < max_accounts \<and> find_by_principal r p = None \<and> ac_github_principal a = p \<and>
       ac_account_id a = ''acct-'' @ hex \<and> ac_credential_ref a = ''acct-'' @ hex @ ''-github-token'' \<and>
       r' = \<lparr>ar_accounts = dict_set (ar_accounts r) (ac_account_id a) a,
             ar_dir = dict_set (ar_dir r) (json_name (ac_account_id a)) (Some a)\<rparr>)"
  using assms by (auto simp: create_account_def account_save_def Let_def split: if_splits option.splits)

lemma accounts_inv_init: "accounts_inv (accounts_load [])"
  by (simp add: accounts_inv_def accounts_load_def dir_of_init get_account_def max_accounts_def)

lemma accounts_inv_create:
  assumes "accounts_inv r" and "create_account hex now p atype r = (r', res)"
    and "dict_get (ar_accounts r) (''acct-'' @ hex) = None"
  shows "accounts_inv r'"
proof (cases "r' = r")
  case False
  then obtain a where a: "length (ar_accounts r) < max_accounts" "find_by_principal r p = None"
      "ac_github_principal a = p" "ac_account_id a = ''acct-'' @ hex"
      "r' = \<lparr>ar_accounts = dict_set (ar_accounts r) (ac_account_id a) a,
             ar_dir = dict_set (ar_dir r) (json_name (ac_account_id a)) (Some a)\<rparr>"
    using create_account_result [OF assms(2)] by (cases res) auto
  have "\<not> same_principal (ac_github_principal b) p" if "get_account r j = Some b" for j b
    using a(2) that dict_get_values unfolding find_by_principal_None list_accounts_def get_account_def by metis
  moreover have "same_principal q s \<Longrightarrow> same_principal s q" for q s by (simp add: same_principal_def)
  ultimately show ?thesis
    using assms(1,3) a dir_of_set [of ac_account_id "ar_accounts r" "ar_dir r" a]
    by (auto simp: accounts_inv_def get_account_def length_dict_set split: if_splits)
qed (use assms(1) in simp)

lemma length_dict_del_le: "length (dict_del d k) \<le> length d"
  by (induction d) auto

lemma accounts_inv_step: "accounts_step r r' \<Longrightarrow> accounts_inv r \<Longrightarrow> accounts_inv r'"
proof (induction rule: accounts_step.induct)
  case (create r hex now p atype)
  then show ?case using accounts_inv_create by (metis prod.collapse)
next
  case (delete r i)
  then show ?case
    using dir_of_del [of ac_account_id "ar_accounts r" "ar_dir r" i] length_dict_del_le [of i "ar_accounts r"]
    by (auto simp: accounts_inv_def delete_account_def get_account_def split: if_splits)
next
  case (restart fs r)
  then have dir: "dir_of ac_account_id (ar_accounts r) fs" by (auto simp: accounts_inv_def dir_of_def)
  note get = load_dir_of [OF dir]
  have "length (load_entries ac_account_id [] fs) = length (ar_accounts r)"
    using dir get by (intro same_entries_length load_entries_wf) (auto simp: dir_of_def)
  then show ?case
    using restart dir_of_load [OF dir] by (simp add: accounts_inv_def accounts_load_def get_account_def get)
qed

lemma accounts_inv_reachable: "accounts_step\<^sup>*\<^sup>* r r' \<Longrightarrow> accounts_inv r \<Longrightarrow> accounts_inv r'"
  by (induction rule: rtranclp_induct) (auto intro: accounts_inv_step)

text \<open>
  C24. The registry of accounts over any sequence of creations, deletions and restarts: never
  more than five accounts, one account per principal up to case, every account under its own id,
  and a restart finds exactly the accounts that were there.
\<close>

theorem accounts_bounded_unique:
  assumes "accounts_step\<^sup>*\<^sup>* (accounts_load []) r"
  shows "length (list_accounts r) \<le> 5 \<and>
    (\<forall>i a. get_account r i = Some a \<longrightarrow> ac_account_id a = i) \<and>
    (\<forall>i a j b. get_account r i = Some a \<and> get_account r j = Some b \<and>
       map lower_char (ac_github_principal a) = map lower_char (ac_github_principal b) \<longrightarrow> i = j) \<and>
    (\<forall>i. get_account (accounts_load (ar_dir r)) i = get_account r i)"
proof -
  have "accounts_inv r" using assms accounts_inv_init by (rule accounts_inv_reachable)
  then show ?thesis
    using load_dir_of [of ac_account_id "ar_accounts r" "ar_dir r"]
    by (auto simp: accounts_inv_def list_accounts_def max_accounts_def dir_of_def get_account_def accounts_load_def
        same_principal_def)
qed

theorem accounts_bounded_unique_witness:
  "length (list_accounts (fst (create_account ''2'' 5 ''bob'' ''personal'' (fst (create_account ''1'' 0 ''Ann'' ''personal'' (accounts_load [])))))) \<le> 5 \<and>
   get_account (accounts_load (ar_dir (fst (create_account ''2'' 5 ''bob'' ''personal''
     (fst (create_account ''1'' 0 ''Ann'' ''personal'' (accounts_load []))))))) ''acct-1'' \<noteq> None"
proof -
  let ?r1 = "fst (create_account ''1'' 0 ''Ann'' ''personal'' (accounts_load []))"
  let ?r2 = "fst (create_account ''2'' 5 ''bob'' ''personal'' ?r1)"
  have g: "get_account ?r2 ''acct-1'' \<noteq> None" "dict_get (ar_accounts ?r1) ''acct-2'' = None" by code_simp+
  have "accounts_step (accounts_load []) ?r1" by (rule accounts_step.create) (simp add: accounts_load_def)
  moreover have "accounts_step ?r1 ?r2" using g(2) by (intro accounts_step.create) simp
  ultimately have "accounts_step\<^sup>*\<^sup>* (accounts_load []) ?r2" by (meson converse_rtranclp_into_rtranclp r_into_rtranclp)
  from accounts_bounded_unique [OF this] show ?thesis using g(1) by auto
qed

section \<open>What the limit and the credential reference do\<close>

text \<open>With five accounts even the account of a known principal is not found.\<close>

lemma limit_hides_known_principal:
  assumes "length (ar_accounts r) = 5" and "find_by_principal r p = Some a"
  shows "create_account hex now p atype r = (r, Inl (ValueError ''Maximum of 5 accounts reached''))"
  using assms by (simp add: create_account_def max_accounts_def)

text \<open>
  The reference a new account carries is not in the namespace its own broker accepts, whose
  prefix repeats \<open>acct-\<close>; generated ids are eight hexadecimal digits.
\<close>

lemma credential_ref_outside_namespace:
  assumes "create_account hex now p atype r = (r', Inr a)" and "find_by_principal r p = None"
    and "4 \<le> length hex" and "CHR ''t'' \<notin> set hex"
  shows "account_retrieve fn (ac_account_id a) s (ac_credential_ref a) =
     Inl (ContextAccessError (''CONTEXT_ACCESS_DENIED: Invalid credential namespace. Expected prefix ''
       @ account_prefix (ac_account_id a) @ '', got '' @ ac_credential_ref a))"
proof -
  have a: "ac_account_id a = ''acct-'' @ hex" "ac_credential_ref a = ''acct-'' @ hex @ ''-github-token''"
    using create_account_result [OF assms(1)] assms(2) by auto
  obtain c1 h1 where h1: "hex = c1 # h1" "3 \<le> length h1" using assms(3) by (cases hex) auto
  then obtain c2 h2 where h2: "h1 = c2 # h2" "2 \<le> length h2" by (cases h1) auto
  then obtain c3 h3 where h3: "h2 = c3 # h3" "1 \<le> length h3" by (cases h2) auto
  then obtain c4 rest where hex: "hex = c1 # c2 # c3 # c4 # rest" using h1(1) h2(1) by (cases h3) auto
  then show ?thesis
    using assms(4) by (auto simp: account_retrieve_def check_namespace_def a account_prefix_def starts_with_def)
qed

end
