(* ===== verification/Sync.thy ===== *)
theory Sync
  imports Journals Executor
begin

text \<open>
  Governed SYNC (runtime/sync): release discovery, verification of a candidate, and the service
  with its transactions. A transaction is a call that starts a thread and a thread that ends it;
  the thread is two steps, its body outside the lock and its end under it, and any request may
  fall between them. The GitHub client, downloads, SHA-256 and identifiers are arguments.
\<close>

section \<open>Models\<close>

datatype sync_state =
    SY_IDLE | SY_SYNCING | SY_VERIFIED | SY_BLOCKED | SY_FAILED | SY_UNKNOWN | SY_STAGING | SY_STAGED
  | SY_ACTIVATING | SY_ROLLING_BACK | SY_ROLLED_BACK

primrec sync_value :: "sync_state \<Rightarrow> string" where
  "sync_value SY_IDLE = ''IDLE''"
| "sync_value SY_SYNCING = ''SYNCING''"
| "sync_value SY_VERIFIED = ''VERIFIED''"
| "sync_value SY_BLOCKED = ''BLOCKED''"
| "sync_value SY_FAILED = ''FAILED''"
| "sync_value SY_UNKNOWN = ''UNKNOWN''"
| "sync_value SY_STAGING = ''STAGING''"
| "sync_value SY_STAGED = ''STAGED''"
| "sync_value SY_ACTIVATING = ''ACTIVATING''"
| "sync_value SY_ROLLING_BACK = ''ROLLING_BACK''"
| "sync_value SY_ROLLED_BACK = ''ROLLED_BACK''"

datatype verification_state = VS_VERIFIED | VS_INVALID | VS_MISSING_PROOF | VS_UNSUPPORTED | VS_ERROR

primrec verification_value :: "verification_state \<Rightarrow> string" where
  "verification_value VS_VERIFIED = ''VERIFIED''"
| "verification_value VS_INVALID = ''INVALID''"
| "verification_value VS_MISSING_PROOF = ''MISSING_PROOF''"
| "verification_value VS_UNSUPPORTED = ''UNSUPPORTED''"
| "verification_value VS_ERROR = ''ERROR''"

record candidate_identity =
  ci_source :: string
  ci_candidate_version :: string
  ci_trace_id :: string
  ci_release_id :: "string option"
  ci_artifact_name :: "string option"
  ci_artifact_size :: "int option"
  ci_content_digest :: "string option"

record sync_result =
  sr_sync_id :: string
  sr_trace_id :: string
  sr_requested_at :: string
  sr_sync_state :: sync_state
  sr_stage :: string
  sr_source :: string
  sr_local_version :: string
  sr_candidate_version :: "string option"
  sr_discovered_revision :: json
  sr_comparison :: string
  sr_verification :: string
  sr_activation_performed :: bool
  sr_error_classification :: "string option"
  sr_evidence_id :: "string option"
  sr_candidate_identity :: "candidate_identity option"
  sr_digest_algorithm :: "string option"
  sr_digest :: "string option"
  sr_proof_reference :: "string option"
  sr_verifier_identity :: "string option"
  sr_details :: "(string \<times> json) list"

definition sync_result_init :: "string \<Rightarrow> string \<Rightarrow> string \<Rightarrow> string \<Rightarrow> sync_result" where
  "sync_result_init sync_id trace_id now local_version =
     \<lparr>sr_sync_id = sync_id, sr_trace_id = trace_id, sr_requested_at = now, sr_sync_state = SY_SYNCING,
      sr_stage = ''NONE'', sr_source = ''UNKNOWN'', sr_local_version = local_version, sr_candidate_version = None,
      sr_discovered_revision = JNull, sr_comparison = ''UNKNOWN'', sr_verification = ''UNKNOWN'',
      sr_activation_performed = False, sr_error_classification = None, sr_evidence_id = None,
      sr_candidate_identity = None, sr_digest_algorithm = None, sr_digest = None, sr_proof_reference = None,
      sr_verifier_identity = None, sr_details = []\<rparr>"

definition identity_json :: "candidate_identity \<Rightarrow> json" where
  "identity_json c =
     JObj [(''source'', JStr (ci_source c)), (''candidate_version'', JStr (ci_candidate_version c)),
           (''trace_id'', JStr (ci_trace_id c)), (''release_id'', jopt (ci_release_id c)),
           (''artifact_name'', jopt (ci_artifact_name c)), (''artifact_size'', jopt_int (ci_artifact_size c)),
           (''content_digest'', jopt (ci_content_digest c))]"

definition sync_json :: "sync_result \<Rightarrow> json" where
  "sync_json r =
     JObj [(''sync_id'', JStr (sr_sync_id r)), (''trace_id'', JStr (sr_trace_id r)),
           (''requested_at'', JStr (sr_requested_at r)), (''sync_state'', JStr (sync_value (sr_sync_state r))),
           (''stage'', JStr (sr_stage r)), (''source'', JStr (sr_source r)),
           (''local_version'', JStr (sr_local_version r)), (''candidate_version'', jopt (sr_candidate_version r)),
           (''discovered_revision'', sr_discovered_revision r), (''comparison'', JStr (sr_comparison r)),
           (''verification'', JStr (sr_verification r)), (''activation_performed'', JBool (sr_activation_performed r)),
           (''error_classification'', jopt (sr_error_classification r)), (''evidence_id'', jopt (sr_evidence_id r)),
           (''candidate_identity'', case sr_candidate_identity r of None \<Rightarrow> JNull | Some c \<Rightarrow> identity_json c),
           (''digest_algorithm'', jopt (sr_digest_algorithm r)), (''digest'', jopt (sr_digest r)),
           (''proof_reference'', jopt (sr_proof_reference r)), (''verifier_identity'', jopt (sr_verifier_identity r)),
           (''details'', JObj (sr_details r))]"

section \<open>GitHubReleaseSource\<close>

record release_asset =
  ra_name :: "string option"
  ra_size :: "int option"
  ra_url :: "string option"

text \<open>A release as GitHub answers; entries of the asset list that are no objects are \<open>None\<close>.\<close>

record github_release =
  gr_tag_name :: "string option"
  gr_id :: "int option"
  gr_target_commitish :: "string option"
  gr_draft :: bool
  gr_prerelease :: bool
  gr_assets :: "release_asset option list"

record discovery =
  ds_source :: string
  ds_revision :: json
  ds_candidate_version :: "string option"
  ds_authorized :: bool
  ds_release_id :: "int option"
  ds_assets :: "release_asset list"

definition validate_repository :: "string \<Rightarrow> string result" where
  "validate_repository repository =
     (let v = strip repository; parts = split_slash v in
      if length parts \<noteq> 2 \<or> [] \<in> set parts then Inl (ValueError ''Update source repository must be owner/name'')
      else Inr v)"

definition int_truthy :: "int option \<Rightarrow> bool" where
  "int_truthy v = (case v of None \<Rightarrow> False | Some n \<Rightarrow> n \<noteq> 0)"

definition release_revision :: "github_release \<Rightarrow> json" where
  "release_revision g = (if int_truthy (gr_id g) then jopt_int (gr_id g) else jopt (gr_target_commitish g))"

text \<open>\<open>Inr None\<close>: the client answered something that is no object.\<close>

definition discover_release :: "string \<Rightarrow> github_release option result \<Rightarrow> discovery result" where
  "discover_release repository answer =
     and_then answer (\<lambda>release. case release of
        None \<Rightarrow> Inl (RuntimeError ''Invalid GitHub release response'')
      | Some g \<Rightarrow>
          if \<not> truthy_str (gr_tag_name g)
          then Inr \<lparr>ds_source = ''github:'' @ repository, ds_revision = jopt_int (gr_id g), ds_candidate_version = None,
                    ds_authorized = False, ds_release_id = None, ds_assets = []\<rparr>
          else if gr_draft g \<or> gr_prerelease g
          then Inr \<lparr>ds_source = ''github:'' @ repository, ds_revision = release_revision g,
                    ds_candidate_version = gr_tag_name g, ds_authorized = False, ds_release_id = None, ds_assets = []\<rparr>
          else Inr \<lparr>ds_source = ''github:'' @ repository, ds_revision = release_revision g,
                    ds_candidate_version = gr_tag_name g, ds_authorized = True, ds_release_id = gr_id g,
                    ds_assets = List.map_filter id (gr_assets g)\<rparr>)"

section \<open>CandidateVerifier\<close>

record verification_result =
  vr_status :: verification_state
  vr_candidate_identity :: "candidate_identity option"
  vr_digest_algorithm :: "string option"
  vr_digest :: "string option"
  vr_proof_reference :: "string option"
  vr_verifier_identity :: string
  vr_error :: "string option"

definition verdict ::
  "verification_state \<Rightarrow> candidate_identity option \<Rightarrow> string option \<Rightarrow> string option \<Rightarrow> verification_result" where
  "verdict st ident digest error =
     \<lparr>vr_status = st, vr_candidate_identity = ident, vr_digest_algorithm = map_option (\<lambda>_. ''sha256'') digest,
      vr_digest = digest, vr_proof_reference = None, vr_verifier_identity = ''CandidateVerifier/1.0'', vr_error = error\<rparr>"

text \<open>
  \<open>fetch\<close> downloads a URL. With discoveries as above nothing else in \<open>verify\<close> raises,
  so its last handler is not reached.
\<close>

definition verify_candidate ::
  "(string \<Rightarrow> string) \<Rightarrow> (string \<Rightarrow> string result) \<Rightarrow> string option \<Rightarrow> discovery \<Rightarrow> string \<Rightarrow> string option
     \<Rightarrow> verification_result" where
  "verify_candidate sha256 fetch expected d trace given =
     (if \<not> truthy_str (ds_candidate_version d) then verdict VS_INVALID None None (Some ''MISSING_CANDIDATE_VERSION'')
      else
        let ident = \<lparr>ci_source = ds_source d, ci_candidate_version = the (ds_candidate_version d), ci_trace_id = trace,
                     ci_release_id = (if int_truthy (ds_release_id d) then map_option str_int (ds_release_id d) else None),
                     ci_artifact_name = None, ci_artifact_size = None, ci_content_digest = None\<rparr>
        in if \<not> truthy_str expected
           then verdict VS_MISSING_PROOF (Some ident) None (Some ''NO_PROVENANCE_AVAILABLE'')
           else
             let asset = (case ds_assets d of [] \<Rightarrow> None | a # _ \<Rightarrow> Some a);
                 ident1 = (case asset of None \<Rightarrow> ident
                           | Some a \<Rightarrow> ident\<lparr>ci_artifact_name := ra_name a, ci_artifact_size := ra_size a\<rparr>);
                 bytes = (case asset of
                            Some a \<Rightarrow> if \<not> truthy_str given \<and> truthy_str (ra_url a)
                                      then map_sum id Some (fetch (the (ra_url a))) else Inr given
                          | None \<Rightarrow> Inr given)
             in case bytes of
                  Inl e \<Rightarrow> verdict VS_ERROR (Some ident1) None (Some (''ARTIFACT_DOWNLOAD_FAILED: '' @ str_exn e))
                | Inr b \<Rightarrow>
                    if \<not> truthy_str b
                    then verdict VS_ERROR (Some ident1) None (Some ''NO_CANDIDATE_BYTES_AVAILABLE'')
                    else
                      let dg = sha256 (the b); ident2 = ident1\<lparr>ci_content_digest := Some dg\<rparr> in
                      if dg \<noteq> the expected then verdict VS_INVALID (Some ident2) (Some dg) (Some ''CHECKSUM_MISMATCH'')
                      else (verdict VS_VERIFIED (Some ident2) (Some dg) None)
                             \<lparr>vr_proof_reference := Some (''expected_digest:'' @ the expected)\<rparr>)"

lemma verdict_status [simp]: "vr_status (verdict st i d e) = st" "vr_digest (verdict st i d e) = d"
  by (simp_all add: verdict_def)

text \<open>Verified means: the bytes obtained hash to the expected digest.\<close>

lemma verify_candidate_sound:
  assumes "vr_status (verify_candidate sha256 fetch expected d trace given) = VS_VERIFIED"
  shows "\<exists>x b. expected = Some x \<and> sha256 b = x \<and> b \<noteq> [] \<and>
    vr_digest (verify_candidate sha256 fetch expected d trace given) = Some x \<and>
    (given = Some b \<or> (\<exists>a u. a \<in> set (ds_assets d) \<and> ra_url a = Some u \<and> fetch u = Inr b))"
proof -
  define asset where "asset = (case ds_assets d of [] \<Rightarrow> None | a # _ \<Rightarrow> Some a)"
  define bytes where "bytes = (case asset of
      Some a \<Rightarrow> if \<not> truthy_str given \<and> truthy_str (ra_url a)
                then map_sum id Some (fetch (the (ra_url a))) else Inr given
    | None \<Rightarrow> Inr given)"
  have ok: "truthy_str (ds_candidate_version d)" "truthy_str expected"
    using assms by (auto simp: verify_candidate_def Let_def split: if_splits)
  obtain b where b: "bytes = Inr b"
    using assms ok by (cases bytes) (simp_all add: verify_candidate_def Let_def bytes_def asset_def)
  then have b': "truthy_str b" "sha256 (the b) = the expected"
      "vr_digest (verify_candidate sha256 fetch expected d trace given) = Some (sha256 (the b))"
    using assms ok unfolding verify_candidate_def Let_def asset_def [symmetric] bytes_def [symmetric]
    by (auto split: if_splits)
  then obtain c where c: "b = Some c" "c \<noteq> []" by (cases b) auto
  have "given = Some c \<or> (\<exists>a u. a \<in> set (ds_assets d) \<and> ra_url a = Some u \<and> fetch u = Inr c)"
  proof (cases asset)
    case None
    then show ?thesis using b c by (simp add: bytes_def)
  next
    case (Some a)
    then have "a \<in> set (ds_assets d)" by (auto simp: asset_def split: list.splits)
    then show ?thesis
      using b c Some by (cases "ra_url a"; cases "fetch (the (ra_url a))") (auto simp: bytes_def split: if_splits)
  qed
  then show ?thesis using b' c ok by (cases expected) auto
qed

section \<open>SyncService\<close>

text \<open>
  Results are shared objects: the service and its threads refer to them by position in
  \<open>sy_results\<close>. A job is a running thread; \<open>jb_done\<close> says that its body has
  run and only the end under the lock is left.
\<close>

datatype job_kind = Run_sync | Run_stage | Run_activate | Run_rollback

record sync_job =
  jb_kind :: job_kind
  jb_result :: nat
  jb_done :: bool

record sync_service =
  sy_local_version :: string
  sy_results :: "sync_result list"
  sy_active :: "nat option"
  sy_latest :: "nat option"
  sy_jobs :: "sync_job list"
  sy_file :: "sync_result jsonl"

text \<open>
  A write to the record file is done, or raises; then the file has got nothing of the line,
  a part of it, all but its end, or the whole line (the error came when the file was closed).
\<close>

datatype write_cut = Cut_before | Cut_inside | Cut_newline | Cut_after

datatype write_outcome = Write_done | Write_broken exn write_cut

definition cut_append :: "write_cut \<Rightarrow> 'a \<Rightarrow> 'a jsonl \<Rightarrow> 'a jsonl" where
  "cut_append c x f =
     (case c of
        Cut_before \<Rightarrow> f
      | Cut_inside \<Rightarrow> jl_tear f
      | Cut_newline \<Rightarrow> f\<lparr>jl_tail := Some (case jl_tail f of None \<Rightarrow> Parsed x | Some Blank \<Rightarrow> Parsed x | Some _ \<Rightarrow> Garbled)\<rparr>
      | Cut_after \<Rightarrow> jl_append x f)"

text \<open>\<open>_persist\<close>: creating the directory, opening and writing may each raise.\<close>

definition persist_result :: "write_outcome \<Rightarrow> nat \<Rightarrow> sync_service \<Rightarrow> sync_service \<times> unit result" where
  "persist_result w i s =
     (case w of
        Write_done \<Rightarrow> (s\<lparr>sy_file := jl_append (sy_results s ! i) (sy_file s)\<rparr>, Inr ())
      | Write_broken e c \<Rightarrow> (s\<lparr>sy_file := cut_append c (sy_results s ! i) (sy_file s)\<rparr>, Inl e))"

text \<open>\<open>_load_latest\<close>: the last line that is not blank, if it can be read.\<close>

definition load_latest :: "sync_result jsonl \<Rightarrow> sync_result option" where
  "load_latest f =
     (case rev (filter (\<lambda>l. l \<noteq> Blank) (jl_read f)) of Parsed r # _ \<Rightarrow> Some r | _ \<Rightarrow> None)"

definition sync_init :: "string \<Rightarrow> sync_result jsonl \<Rightarrow> sync_service" where
  "sync_init version f =
     \<lparr>sy_local_version = version, sy_results = (case load_latest f of None \<Rightarrow> [] | Some r \<Rightarrow> [r]), sy_active = None,
      sy_latest = map_option (\<lambda>_. 0) (load_latest f), sy_jobs = [], sy_file = f\<rparr>"

definition idle_json :: "string \<Rightarrow> json" where
  "idle_json version =
     JObj [(''sync_id'', JNull), (''trace_id'', JNull), (''requested_at'', JNull), (''sync_state'', JStr ''IDLE''),
           (''stage'', JStr ''NONE''), (''source'', JStr ''UNKNOWN''), (''local_version'', JStr version),
           (''candidate_version'', JNull), (''discovered_revision'', JNull), (''comparison'', JStr ''UNKNOWN''),
           (''verification'', JStr ''UNKNOWN''), (''activation_performed'', JBool False),
           (''error_classification'', JNull), (''evidence_id'', JNull), (''details'', JObj [])]"

definition sync_status :: "sync_service \<Rightarrow> json" where
  "sync_status s =
     (case sy_active s of
        Some i \<Rightarrow> sync_json (sy_results s ! i)
      | None \<Rightarrow> (case sy_latest s of
          Some i \<Rightarrow> sync_json (sy_results s ! i)
        | None \<Rightarrow> idle_json (sy_local_version s)))"

definition busy_states :: "sync_state set" where
  "busy_states = {SY_SYNCING, SY_STAGING, SY_ACTIVATING, SY_ROLLING_BACK}"

definition state_of :: "sync_service \<Rightarrow> nat \<Rightarrow> sync_state" where
  "state_of s i = sr_sync_state (sy_results s ! i)"

text \<open>The answers of the four requests; \<open>Raised\<close> where the request ends in an exception.\<close>

datatype sync_reply =
    Already_running sync_state
  | Refused string
  | Accepted sync_state string
  | Raised exn

text \<open>What happens to the write of a request, and to the start of its thread.\<close>

record sync_io =
  si_write :: write_outcome
  si_thread :: "exn option"

definition io_fine :: sync_io where
  "io_fine = \<lparr>si_write = Write_done, si_thread = None\<rparr>"

definition launch :: "job_kind \<Rightarrow> nat \<Rightarrow> sync_service \<Rightarrow> sync_service" where
  "launch k i s = s\<lparr>sy_jobs := sy_jobs s @ [\<lparr>jb_kind = k, jb_result = i, jb_done = False\<rparr>]\<rparr>"

text \<open>
  The end of every request: \<open>_active\<close> is set, then the result is persisted, then, outside
  the lock, the thread is started. A failure of either leaves \<open>_active\<close> as it is.
\<close>

definition begin_thread :: "sync_io \<Rightarrow> job_kind \<Rightarrow> nat \<Rightarrow> sync_reply \<Rightarrow> sync_service \<Rightarrow> sync_service \<times> sync_reply" where
  "begin_thread io k i reply s =
     (case persist_result (si_write io) i (s\<lparr>sy_active := Some i\<rparr>) of
        (s1, Inl e) \<Rightarrow> (s1, Raised e)
      | (s1, Inr _) \<Rightarrow>
          (case si_thread io of
             Some e \<Rightarrow> (s1, Raised e)
           | None \<Rightarrow> (launch k i s1, reply)))"

definition begin_sync :: "sync_io \<Rightarrow> string \<Rightarrow> string \<Rightarrow> string \<Rightarrow> sync_service \<Rightarrow> sync_service \<times> sync_reply" where
  "begin_sync io hex trace now s =
     (let r = sync_result_init (''sync-'' @ hex) (''trace-'' @ trace) now (sy_local_version s)
      in begin_thread io Run_sync (length (sy_results s)) (Accepted SY_SYNCING (sr_sync_id r))
           (s\<lparr>sy_results := sy_results s @ [r]\<rparr>))"

definition sync_start :: "sync_io \<Rightarrow> string \<Rightarrow> string \<Rightarrow> string \<Rightarrow> sync_service \<Rightarrow> sync_service \<times> sync_reply" where
  "sync_start io hex trace now s =
     (case sy_active s of
        Some i \<Rightarrow> if state_of s i \<in> busy_states then (s, Already_running (state_of s i)) else begin_sync io hex trace now s
      | None \<Rightarrow> begin_sync io hex trace now s)"

text \<open>Staging, activation and rollback differ in what they demand and in what they write.\<close>

definition request_transition ::
  "job_kind \<Rightarrow> (sync_result \<Rightarrow> bool) \<Rightarrow> string \<Rightarrow> sync_state \<Rightarrow> string \<Rightarrow> sync_io \<Rightarrow> sync_service
     \<Rightarrow> sync_service \<times> sync_reply" where
  "request_transition k ready refusal st stage_name io s =
     (case sy_active s of
        Some i \<Rightarrow> (s, Already_running (state_of s i))
      | None \<Rightarrow>
          (case sy_latest s of
             None \<Rightarrow> (s, Refused refusal)
           | Some i \<Rightarrow>
               if \<not> ready (sy_results s ! i) then (s, Refused refusal)
               else let r = (sy_results s ! i)\<lparr>sr_sync_state := st, sr_stage := stage_name\<rparr> in
                 begin_thread io k i (Accepted st (sr_sync_id r)) (s\<lparr>sy_results := (sy_results s)[i := r]\<rparr>)))"

definition sync_stage :: "sync_io \<Rightarrow> sync_service \<Rightarrow> sync_service \<times> sync_reply" where
  "sync_stage = request_transition Run_stage (\<lambda>r. sr_sync_state r = SY_VERIFIED)
     ''Cannot stage without a VERIFIED candidate'' SY_STAGING ''STAGE''"

definition sync_activate :: "sync_io \<Rightarrow> sync_service \<Rightarrow> sync_service \<times> sync_reply" where
  "sync_activate = request_transition Run_activate (\<lambda>r. sr_sync_state r = SY_STAGED)
     ''Cannot activate without a STAGED candidate'' SY_ACTIVATING ''ACTIVATE''"

definition sync_rollback :: "sync_io \<Rightarrow> sync_service \<Rightarrow> sync_service \<times> sync_reply" where
  "sync_rollback = request_transition Run_rollback sr_activation_performed
     ''Cannot rollback when not activated'' SY_ROLLING_BACK ''ROLLBACK''"

section \<open>Threads\<close>

text \<open>
  What the providers answer while a body runs: \<open>None\<close> where none is configured,
  \<open>Inl\<close> where they raise.
\<close>

record sync_env =
  se_discover :: "discovery result option"
  se_verify :: "(discovery \<Rightarrow> string \<Rightarrow> verification_result result) option"

definition message_details :: "exn \<Rightarrow> (string \<times> json) list" where
  "message_details e = [(''message'', JStr (take 500 (str_exn e)))]"

definition report :: "sync_state \<Rightarrow> string option \<Rightarrow> (string \<times> json) list \<Rightarrow> sync_result \<Rightarrow> sync_result" where
  "report st error details r =
     r\<lparr>sr_sync_state := st, sr_error_classification := error, sr_stage := ''REPORT'', sr_details := details\<rparr>"

definition apply_verification :: "verification_result \<Rightarrow> sync_result \<Rightarrow> sync_result" where
  "apply_verification v r0 =
     (let r = r0\<lparr>sr_candidate_identity := vr_candidate_identity v, sr_digest_algorithm := vr_digest_algorithm v,
                 sr_digest := vr_digest v, sr_proof_reference := vr_proof_reference v,
                 sr_verifier_identity := Some (vr_verifier_identity v)\<rparr>;
          status = verification_value (vr_status v);
          details = [(''activation_performed'', JBool False)]
      in if vr_status v \<noteq> VS_VERIFIED
         then report (if status \<noteq> ''UNKNOWN'' then SY_BLOCKED else SY_UNKNOWN) (Some (str_opt (vr_error v))) details
                (r\<lparr>sr_verification := status\<rparr>)
         else report SY_VERIFIED (sr_error_classification r) details (r\<lparr>sr_verification := ''VERIFIED''\<rparr>))"

definition compare_verify ::
  "(discovery \<Rightarrow> string \<Rightarrow> verification_result result) option \<Rightarrow> string \<Rightarrow> discovery \<Rightarrow> sync_result \<Rightarrow> sync_result" where
  "compare_verify verify local_version d r =
     (if \<not> truthy_str (ds_candidate_version d) \<or> ds_candidate_version d = Some local_version
      then report SY_VERIFIED (sr_error_classification r)
             [(''reason'', JStr ''No verified candidate requiring change was discovered.'')]
             (r\<lparr>sr_comparison := ''NO_CHANGE'', sr_verification := ''NOT_REQUIRED''\<rparr>)
      else
        let r1 = r\<lparr>sr_comparison := ''CANDIDATE_AVAILABLE''\<rparr> in
        case verify of
          None \<Rightarrow> report SY_UNKNOWN (Some ''CANDIDATE_VERIFIER_UNAVAILABLE'') (sr_details r1) r1
        | Some f \<Rightarrow>
            (case f d (sr_trace_id r) of
               Inl e \<Rightarrow> report SY_FAILED (Some ''VERIFIER_EXCEPTION'')
                          (message_details e @ [(''activation_performed'', JBool False)]) (r1\<lparr>sr_verification := ''ERROR''\<rparr>)
             | Inr v \<Rightarrow> apply_verification v r1))"

definition discover_compare_verify :: "sync_env \<Rightarrow> string \<Rightarrow> sync_result \<Rightarrow> sync_result" where
  "discover_compare_verify env local_version r =
     (case se_discover env of
        None \<Rightarrow> report SY_BLOCKED (Some ''AUTHORITATIVE_SOURCE_UNAVAILABLE'')
                  [(''reason'', JStr ''No authoritative discovery provider is configured.'')] (r\<lparr>sr_source := ''UNKNOWN''\<rparr>)
      | Some (Inl e) \<Rightarrow> report SY_FAILED (Some (exn_class e)) (message_details e) r
      | Some (Inr d) \<Rightarrow>
          let r1 = r\<lparr>sr_source := ds_source d, sr_discovered_revision := ds_revision d,
                     sr_candidate_version := ds_candidate_version d\<rparr>
          in if \<not> ds_authorized d
             then report SY_BLOCKED (Some ''AUTHORITY_UNVERIFIED'')
                    [(''reason'', JStr ''Source was discovered without sufficient authority evidence.'')] r1
             else compare_verify (se_verify env) local_version d r1)"

definition job_result :: "sync_env \<Rightarrow> job_kind \<Rightarrow> string \<Rightarrow> sync_result \<Rightarrow> sync_result" where
  "job_result env k local_version r =
     (case k of
        Run_sync \<Rightarrow> discover_compare_verify env local_version r
      | Run_stage \<Rightarrow> r\<lparr>sr_sync_state := SY_STAGED\<rparr>
      | Run_activate \<Rightarrow> r\<lparr>sr_sync_state := SY_BLOCKED, sr_error_classification := Some ''ACTIVATION_NOT_IMPLEMENTED''\<rparr>
      | Run_rollback \<Rightarrow> r\<lparr>sr_sync_state := SY_ROLLED_BACK, sr_activation_performed := False\<rparr>)"

text \<open>The body of the \<open>n\<close>-th running thread, and its end.\<close>

definition run_body :: "sync_env \<Rightarrow> nat \<Rightarrow> sync_service \<Rightarrow> sync_service" where
  "run_body env n s =
     (let j = sy_jobs s ! n; i = jb_result j; r = sy_results s ! i in
      s\<lparr>sy_results := (sy_results s)[i := job_result env (jb_kind j) (sy_local_version s) r],
        sy_local_version := (if jb_kind j = Run_rollback \<and> sr_local_version r \<noteq> [] then sr_local_version r
                             else sy_local_version s),
        sy_jobs := (sy_jobs s)[n := j\<lparr>jb_done := True\<rparr>]\<rparr>)"

text \<open>
  The end under the lock: the service forgets the thread before it writes. When the write
  raises, so does the thread, which ends as well.
\<close>

definition run_end :: "write_outcome \<Rightarrow> nat \<Rightarrow> sync_service \<Rightarrow> sync_service" where
  "run_end w n s =
     (let j = sy_jobs s ! n; i = jb_result j in
      fst (persist_result w i
        (s\<lparr>sy_active := None, sy_latest := (if jb_kind j = Run_sync then Some i else sy_latest s),
           sy_jobs := take n (sy_jobs s) @ drop (Suc n) (sy_jobs s)\<rparr>)))"

inductive job_step :: "sync_service \<Rightarrow> sync_service \<Rightarrow> bool" where
  body: "n < length (sy_jobs s) \<Longrightarrow> \<not> jb_done (sy_jobs s ! n) \<Longrightarrow> job_step s (run_body env n s)"
| finish: "n < length (sy_jobs s) \<Longrightarrow> jb_done (sy_jobs s ! n) \<Longrightarrow> job_step s (run_end w n s)"

text \<open>
  Requests, threads and restarts in any order; \<open>allowed\<close> restricts what the configured
  providers answer, \<open>io_ok\<close> what happens to the writes and threads of requests. The writes
  of ending threads may always fail. A restart forgets everything but the file, whose last line
  may be torn.
\<close>

inductive sync_step ::
  "(sync_env \<Rightarrow> bool) \<Rightarrow> (sync_io \<Rightarrow> bool) \<Rightarrow> sync_service \<Rightarrow> sync_service \<Rightarrow> bool" for allowed io_ok where
  start: "io_ok io \<Longrightarrow> sync_step allowed io_ok s (fst (sync_start io hex trace now s))"
| stage: "io_ok io \<Longrightarrow> sync_step allowed io_ok s (fst (sync_stage io s))"
| activate: "io_ok io \<Longrightarrow> sync_step allowed io_ok s (fst (sync_activate io s))"
| rollback: "io_ok io \<Longrightarrow> sync_step allowed io_ok s (fst (sync_rollback io s))"
| body: "n < length (sy_jobs s) \<Longrightarrow> \<not> jb_done (sy_jobs s ! n) \<Longrightarrow> allowed env \<Longrightarrow>
    sync_step allowed io_ok s (run_body env n s)"
| finish: "n < length (sy_jobs s) \<Longrightarrow> jb_done (sy_jobs s ! n) \<Longrightarrow> sync_step allowed io_ok s (run_end w n s)"
| restart: "f \<in> {sy_file s, jl_tear (sy_file s)} \<Longrightarrow> sync_step allowed io_ok s (sync_init version f)"

inductive_cases job_stepE: "job_step s s'"

section \<open>Invariant\<close>

text \<open>
  \<open>genuine\<close> says of a digest that it is backed by bytes; \<open>cleared\<close> that the
  result may be staged: there was nothing to install, or its candidate was verified.
\<close>

definition cleared :: "(string option \<Rightarrow> bool) \<Rightarrow> sync_result \<Rightarrow> bool" where
  "cleared genuine r \<longleftrightarrow> sr_comparison r = ''NO_CHANGE'' \<or>
     sr_comparison r = ''CANDIDATE_AVAILABLE'' \<and> sr_verification r = ''VERIFIED'' \<and> genuine (sr_digest r)"

definition result_ok :: "(string option \<Rightarrow> bool) \<Rightarrow> sync_result \<Rightarrow> bool" where
  "result_ok genuine r \<longleftrightarrow> \<not> sr_activation_performed r \<and> sr_sync_state r \<notin> {SY_ROLLING_BACK, SY_ROLLED_BACK} \<and>
     (sr_sync_state r \<in> {SY_VERIFIED, SY_STAGING, SY_STAGED, SY_ACTIVATING} \<longrightarrow> cleared genuine r)"

definition honest :: "(string option \<Rightarrow> bool) \<Rightarrow> sync_env \<Rightarrow> bool" where
  "honest genuine env \<longleftrightarrow>
     (\<forall>f d t v. se_verify env = Some f \<longrightarrow> f d t = Inr v \<longrightarrow> vr_status v = VS_VERIFIED \<longrightarrow> genuine (vr_digest v))"

lemmas ok_defs = result_ok_def cleared_def

lemma discover_ok:
  assumes "honest genuine env" and "result_ok genuine r"
  shows "result_ok genuine (discover_compare_verify env local_version r)"
  using assms
  by (auto simp: discover_compare_verify_def compare_verify_def apply_verification_def report_def honest_def ok_defs
      Let_def split: option.splits sum.splits)

lemma job_result_ok:
  assumes "honest genuine env" and "result_ok genuine r" and "k \<noteq> Run_rollback"
    and "k = Run_stage \<or> k = Run_activate \<Longrightarrow> cleared genuine r"
  shows "result_ok genuine (job_result env k local_version r)"
    and "k \<noteq> Run_sync \<Longrightarrow> cleared genuine (job_result env k local_version r) = cleared genuine r"
  using assms discover_ok [OF assms(1,2)] by (cases k; auto simp: job_result_def ok_defs)+

definition sync_inv :: "(string option \<Rightarrow> bool) \<Rightarrow> sync_service \<Rightarrow> bool" where
  "sync_inv genuine s \<longleftrightarrow>
     (\<forall>r \<in> set (sy_results s). result_ok genuine r) \<and> (\<forall>r \<in> set (parsed (jl_read (sy_file s))). result_ok genuine r) \<and>
     (\<forall>i. sy_latest s = Some i \<longrightarrow> i < length (sy_results s)) \<and>
     (\<forall>j \<in> set (sy_jobs s). jb_result j < length (sy_results s) \<and> jb_kind j \<noteq> Run_rollback \<and>
        (jb_kind j \<noteq> Run_sync \<longrightarrow> cleared genuine (sy_results s ! jb_result j)) \<and>
        (jb_kind j = Run_sync \<longrightarrow> sy_latest s \<noteq> Some (jb_result j))) \<and>
     (\<forall>m n. m < length (sy_jobs s) \<longrightarrow> n < length (sy_jobs s) \<longrightarrow> m \<noteq> n \<longrightarrow> jb_kind (sy_jobs s ! n) = Run_sync \<longrightarrow>
        jb_result (sy_jobs s ! m) \<noteq> jb_result (sy_jobs s ! n))"

lemma parsed_append_line:
  "set (parsed (jl_read (jl_append x f))) \<subseteq> insert x (set (parsed (jl_read f)))"
  "set (parsed (jl_read (cut_append c x f))) \<subseteq> insert x (set (parsed (jl_read f)))"
  by (auto simp: jl_read_def jl_append_def jl_tear_def cut_append_def split: option.splits line.splits write_cut.splits)

lemma persist_result_sel [simp]:
  "sy_results (fst (persist_result w i s)) = sy_results s" "sy_active (fst (persist_result w i s)) = sy_active s"
  "sy_latest (fst (persist_result w i s)) = sy_latest s" "sy_jobs (fst (persist_result w i s)) = sy_jobs s"
  by (simp_all add: persist_result_def split: write_outcome.split)

lemma persist_result_file:
  "set (parsed (jl_read (sy_file (fst (persist_result w i s))))) \<subseteq> insert (sy_results s ! i) (set (parsed (jl_read (sy_file s))))"
  using parsed_append_line [where x = "sy_results s ! i" and f = "sy_file s"]
  by (auto simp: persist_result_def split: write_outcome.split)

text \<open>A request that gets to its thread leaves one of two states.\<close>

lemma begin_thread_cases:
  "fst (begin_thread io k i reply s) \<in>
     {fst (persist_result (si_write io) i (s\<lparr>sy_active := Some i\<rparr>)),
      launch k i (fst (persist_result (si_write io) i (s\<lparr>sy_active := Some i\<rparr>)))}"
  by (auto simp: begin_thread_def split: prod.split sum.split option.split)

lemma load_latest_mem: "load_latest f = Some r \<Longrightarrow> r \<in> set (parsed (jl_read f))"
proof -
  assume "load_latest f = Some r"
  then obtain ls where "rev (filter (\<lambda>l. l \<noteq> Blank) (jl_read f)) = Parsed r # ls"
    by (auto simp: load_latest_def split: list.splits line.splits)
  then have "Parsed r \<in> set (jl_read f)"
    by (metis (no_types, lifting) filter_is_subset in_set_conv_decomp_first set_rev list.set_intros(1) subsetD)
  then show ?thesis by (metis in_set_conv_decomp parsed.simps(2) parsed_append in_set_conv_decomp)
qed

lemma sync_inv_init:
  assumes "\<forall>r \<in> set (parsed (jl_read f)). result_ok genuine r"
  shows "sync_inv genuine (sync_init version f)"
  using assms load_latest_mem [of f] by (cases "load_latest f") (auto simp: sync_inv_def sync_init_def)

text \<open>A request writes one result, and may start one thread on it.\<close>

lemma sync_inv_saved:
  assumes "sync_inv genuine s" and "i < length rs"
    and "\<forall>r \<in> set rs. result_ok genuine r" and "length (sy_results s) \<le> length rs"
    and "\<forall>j \<in> set (sy_jobs s). jb_kind j \<noteq> Run_sync \<longrightarrow> cleared genuine (rs ! jb_result j)"
  shows "sync_inv genuine (fst (persist_result w i (s\<lparr>sy_results := rs, sy_active := Some i\<rparr>)))"
proof -
  have "\<forall>r \<in> set (parsed (jl_read (sy_file (fst (persist_result w i (s\<lparr>sy_results := rs, sy_active := Some i\<rparr>)))))).
      result_ok genuine r"
    using assms(1-3) persist_result_file [of w i "s\<lparr>sy_results := rs, sy_active := Some i\<rparr>"]
    by (auto simp: sync_inv_def)
  then show ?thesis using assms unfolding sync_inv_def by simp (metis less_le_trans)
qed

lemma sync_inv_launch:
  assumes "sync_inv genuine s" and "i < length (sy_results s)" and "k \<noteq> Run_rollback"
    and "k \<noteq> Run_sync \<Longrightarrow> cleared genuine (sy_results s ! i)"
    and "k = Run_sync \<Longrightarrow> sy_latest s \<noteq> Some i"
    and "\<And>j. j \<in> set (sy_jobs s) \<Longrightarrow> jb_kind j = Run_sync \<or> k = Run_sync \<Longrightarrow> jb_result j \<noteq> i"
  shows "sync_inv genuine (launch k i s)"
proof -
  have apart: "jb_result (sy_jobs s ! m) \<noteq> jb_result (sy_jobs s ! n)"
    if "m < length (sy_jobs s)" "n < length (sy_jobs s)" "m \<noteq> n" "jb_kind (sy_jobs s ! n) = Run_sync" for m n
    using assms(1) that by (simp add: sync_inv_def)
  have apart': "jb_result (sy_jobs (launch k i s) ! m) \<noteq> jb_result (sy_jobs (launch k i s) ! n)"
    if "m < length (sy_jobs (launch k i s))" "n < length (sy_jobs (launch k i s))" "m \<noteq> n"
      "jb_kind (sy_jobs (launch k i s) ! n) = Run_sync" for m n
    using that apart assms(6) nth_mem by (fastforce simp: launch_def nth_append less_Suc_eq)
  then show ?thesis using assms(1-5) unfolding sync_inv_def by (simp add: launch_def ball_Un)
qed

lemma sync_inv_thread:
  assumes "sync_inv genuine s" and "i < length rs"
    and "\<forall>r \<in> set rs. result_ok genuine r" and "length (sy_results s) \<le> length rs"
    and "\<forall>j \<in> set (sy_jobs s). jb_kind j \<noteq> Run_sync \<longrightarrow> cleared genuine (rs ! jb_result j)"
    and "k \<noteq> Run_rollback" and "k \<noteq> Run_sync \<Longrightarrow> cleared genuine (rs ! i) \<and> sy_latest s = Some i"
    and "k = Run_sync \<Longrightarrow> length (sy_results s) \<le> i"
  shows "sync_inv genuine (fst (begin_thread io k i reply (s\<lparr>sy_results := rs\<rparr>)))"
proof -
  let ?s = "fst (persist_result (si_write io) i (s\<lparr>sy_results := rs, sy_active := Some i\<rparr>))"
  have saved: "sync_inv genuine ?s" using assms(1-5) by (rule sync_inv_saved)
  have latest: "sy_latest s = Some l \<Longrightarrow> l < length (sy_results s)" for l using assms(1) by (simp add: sync_inv_def)
  have jobs: "j \<in> set (sy_jobs s) \<Longrightarrow> jb_result j < length (sy_results s) \<and>
      (jb_kind j = Run_sync \<longrightarrow> sy_latest s \<noteq> Some (jb_result j))" for j
    using assms(1) by (simp add: sync_inv_def)
  have i: "j \<in> set (sy_jobs s) \<Longrightarrow> jb_kind j = Run_sync \<or> k = Run_sync \<Longrightarrow> jb_result j \<noteq> i" for j
    using jobs [of j] assms(7,8) by (cases "k = Run_sync") auto
  have "k = Run_sync \<Longrightarrow> sy_latest s \<noteq> Some i" using latest assms(8) by fastforce
  then have "sync_inv genuine (launch k i ?s)"
    using assms(2,6,7) i by (intro sync_inv_launch [OF saved]) auto
  then show ?thesis using saved begin_thread_cases [of io k i reply "s\<lparr>sy_results := rs\<rparr>"] by auto
qed

lemma sync_inv_begin:
  assumes "sync_inv genuine s"
  shows "sync_inv genuine (fst (begin_sync io hex trace now s))"
proof -
  let ?r = "sync_result_init (''sync-'' @ hex) (''trace-'' @ trace) now (sy_local_version s)"
  have "result_ok genuine ?r" by (simp add: sync_result_init_def result_ok_def)
  then have "\<forall>r \<in> set (sy_results s @ [?r]). result_ok genuine r" using assms by (simp add: sync_inv_def)
  moreover have "\<forall>j \<in> set (sy_jobs s). jb_kind j \<noteq> Run_sync \<longrightarrow> cleared genuine ((sy_results s @ [?r]) ! jb_result j)"
    using assms by (auto simp: sync_inv_def nth_append)
  ultimately show ?thesis
    using sync_inv_thread [OF assms, of "length (sy_results s)" "sy_results s @ [?r]" Run_sync]
    by (simp add: begin_sync_def Let_def)
qed

lemma sync_inv_start: "sync_inv genuine s \<Longrightarrow> sync_inv genuine (fst (sync_start io hex trace now s))"
  using sync_inv_begin by (auto simp: sync_start_def split: option.split)

lemma sync_inv_transition:
  assumes "sync_inv genuine s" and "k \<in> {Run_stage, Run_activate}"
    and "\<And>r. result_ok genuine r \<Longrightarrow> ready r \<Longrightarrow>
       cleared genuine r \<and> result_ok genuine (r\<lparr>sr_sync_state := st, sr_stage := nm\<rparr>)"
  shows "sync_inv genuine (fst (request_transition k ready refusal st nm io s))"
proof (cases "\<exists>i. sy_active s = None \<and> sy_latest s = Some i \<and> ready (sy_results s ! i)")
  case True
  then obtain i where i: "sy_active s = None" "sy_latest s = Some i" "ready (sy_results s ! i)" by blast
  let ?r = "(sy_results s ! i)\<lparr>sr_sync_state := st, sr_stage := nm\<rparr>"
  have lt: "i < length (sy_results s)" using assms(1) i by (simp add: sync_inv_def)
  then have r: "cleared genuine (sy_results s ! i)" "result_ok genuine ?r"
    using assms(1,3) i(3) by (simp_all add: sync_inv_def)
  then have c: "cleared genuine ?r" by (simp add: cleared_def)
  have "\<forall>x \<in> set ((sy_results s)[i := ?r]). result_ok genuine x"
    using assms(1) r(2) set_update_subset_insert [of "sy_results s" i ?r] by (auto simp: sync_inv_def)
  moreover have "\<forall>j \<in> set (sy_jobs s). jb_kind j \<noteq> Run_sync \<longrightarrow> cleared genuine ((sy_results s)[i := ?r] ! jb_result j)"
    using assms(1) c lt by (auto simp: sync_inv_def nth_list_update)
  ultimately have "sync_inv genuine (fst (begin_thread io k i (Accepted st (sr_sync_id ?r)) (s\<lparr>sy_results := (sy_results s)[i := ?r]\<rparr>)))"
    using assms(2) lt i(2) c by (intro sync_inv_thread [OF assms(1)]) auto
  then show ?thesis using i by (simp add: request_transition_def Let_def)
next
  case False
  then have "fst (request_transition k ready refusal st nm io s) = s"
    by (auto simp: request_transition_def Let_def split: option.split)
  then show ?thesis using assms(1) by simp
qed

lemma sync_inv_stage: "sync_inv genuine s \<Longrightarrow> sync_inv genuine (fst (sync_stage io s))"
  unfolding sync_stage_def by (rule sync_inv_transition) (auto simp: result_ok_def cleared_def)

lemma sync_inv_activate: "sync_inv genuine s \<Longrightarrow> sync_inv genuine (fst (sync_activate io s))"
  unfolding sync_activate_def by (rule sync_inv_transition) (auto simp: result_ok_def cleared_def)

lemma sync_inv_rollback: "sync_inv genuine s \<Longrightarrow> fst (sync_rollback io s) = s"
  by (auto simp: sync_rollback_def request_transition_def sync_inv_def result_ok_def split: option.split)

lemma sync_inv_body:
  assumes "sync_inv genuine s" and "n < length (sy_jobs s)" and "honest genuine env"
  shows "sync_inv genuine (run_body env n s)"
proof -
  define j where "j = sy_jobs s ! n"
  define r' where "r' = job_result env (jb_kind j) (sy_local_version s) (sy_results s ! jb_result j)"
  have mem: "j \<in> set (sy_jobs s)" using assms(2) by (simp add: j_def)
  have j: "jb_result j < length (sy_results s)" "jb_kind j \<noteq> Run_rollback"
      "jb_kind j \<noteq> Run_sync \<Longrightarrow> cleared genuine (sy_results s ! jb_result j)"
    using assms(1) mem by (simp_all add: sync_inv_def)
  have ok: "result_ok genuine (sy_results s ! jb_result j)" using assms(1) j(1) by (simp add: sync_inv_def)
  have "result_ok genuine r'" unfolding r'_def using j by (intro job_result_ok [OF assms(3) ok]) auto
  then have results: "\<forall>x \<in> set ((sy_results s)[jb_result j := r']). result_ok genuine x"
    using assms(1) set_update_subset_insert [of "sy_results s" "jb_result j" r'] by (auto simp: sync_inv_def)
  have other: "jb_result q \<noteq> jb_result j \<or> q = j" if "q \<in> set (sy_jobs s)" "jb_kind j = Run_sync" for q
  proof -
    obtain m where m: "m < length (sy_jobs s)" "q = sy_jobs s ! m" using \<open>q \<in> set (sy_jobs s)\<close> by (auto simp: in_set_conv_nth)
    have "m \<noteq> n \<Longrightarrow> jb_result (sy_jobs s ! m) \<noteq> jb_result (sy_jobs s ! n)"
      using assms(1,2) m(1) \<open>jb_kind j = Run_sync\<close> by (simp add: sync_inv_def j_def)
    then show ?thesis using m(2) by (cases "m = n") (auto simp: j_def)
  qed
  have c: "cleared genuine ((sy_results s)[jb_result j := r'] ! jb_result q)"
    if q: "q \<in> set (sy_jobs s)" "jb_kind q \<noteq> Run_sync" for q
  proof (cases "jb_result q = jb_result j")
    case True
    then have "jb_kind j \<noteq> Run_sync" using other q by auto
    moreover from this have "cleared genuine r' = cleared genuine (sy_results s ! jb_result j)"
      unfolding r'_def using j by (intro job_result_ok(2) [OF assms(3) ok]) auto
    ultimately show ?thesis using True j by simp
  next
    case False
    then show ?thesis using assms(1) q by (simp add: sync_inv_def)
  qed
  have jobs: "sy_jobs (run_body env n s) = (sy_jobs s)[n := j\<lparr>jb_done := True\<rparr>]"
    and sel: "sy_results (run_body env n s) = (sy_results s)[jb_result j := r']" "sy_file (run_body env n s) = sy_file s"
      "sy_latest (run_body env n s) = sy_latest s" "sy_active (run_body env n s) = sy_active s"
    by (simp_all add: run_body_def Let_def j_def r'_def)
  have same: "\<exists>q \<in> set (sy_jobs s). jb_kind q = jb_kind p \<and> jb_result q = jb_result p" if "p \<in> set (sy_jobs (run_body env n s))" for p
    using that mem set_update_subset_insert [of "sy_jobs s" n "j\<lparr>jb_done := True\<rparr>"] by (fastforce simp: jobs)
  have nth: "jb_kind (sy_jobs (run_body env n s) ! m) = jb_kind (sy_jobs s ! m)"
      "jb_result (sy_jobs (run_body env n s) ! m) = jb_result (sy_jobs s ! m)" if "m < length (sy_jobs s)" for m
    using that assms(2) by (simp_all add: jobs nth_list_update j_def)
  have len: "length (sy_jobs (run_body env n s)) = length (sy_jobs s)" by (simp add: jobs)
  show ?thesis
    unfolding sync_inv_def sel len
  proof (intro conjI ballI allI impI)
    fix p assume "p \<in> set (sy_jobs (run_body env n s))"
    then obtain q where q: "q \<in> set (sy_jobs s)" "jb_kind q = jb_kind p" "jb_result q = jb_result p" using same by blast
    have "jb_result q < length (sy_results s) \<and> jb_kind q \<noteq> Run_rollback \<and>
        (jb_kind q = Run_sync \<longrightarrow> sy_latest s \<noteq> Some (jb_result q))"
      using assms(1) q(1) by (simp add: sync_inv_def)
    then show "jb_result p < length ((sy_results s)[jb_result j := r'])" "jb_kind p \<noteq> Run_rollback"
      "jb_kind p = Run_sync \<Longrightarrow> sy_latest s \<noteq> Some (jb_result p)"
      using q by simp_all
    show "cleared genuine ((sy_results s)[jb_result j := r'] ! jb_result p)" if "jb_kind p \<noteq> Run_sync"
      using c [OF q(1)] q that by simp
  qed (use assms(1) results nth in \<open>auto simp: sync_inv_def\<close>)
qed

lemma remove_nth:
  assumes "n < length xs"
  shows "set (take n xs @ drop (Suc n) xs) \<subseteq> set xs"
    and "m < length xs - 1 \<Longrightarrow> (take n xs @ drop (Suc n) xs) ! m = xs ! (if m < n then m else Suc m)"
  using assms by (auto simp: nth_append dest: in_set_takeD in_set_dropD)

lemma sync_inv_end:
  assumes "sync_inv genuine s" and "n < length (sy_jobs s)"
  shows "sync_inv genuine (run_end w n s)"
proof -
  define j where "j = sy_jobs s ! n"
  have j: "jb_result j < length (sy_results s)" using assms by (simp add: sync_inv_def j_def)
  have sel: "sy_results (run_end w n s) = sy_results s" "sy_active (run_end w n s) = None"
      "sy_latest (run_end w n s) = (if jb_kind j = Run_sync then Some (jb_result j) else sy_latest s)"
      "sy_jobs (run_end w n s) = take n (sy_jobs s) @ drop (Suc n) (sy_jobs s)"
    by (simp_all add: run_end_def Let_def j_def)
  have file_sub: "set (parsed (jl_read (sy_file (run_end w n s)))) \<subseteq>
      insert (sy_results s ! jb_result j) (set (parsed (jl_read (sy_file s))))"
    using persist_result_file [of w "jb_result j" "s\<lparr>sy_active := None,
        sy_latest := (if jb_kind j = Run_sync then Some (jb_result j) else sy_latest s),
        sy_jobs := take n (sy_jobs s) @ drop (Suc n) (sy_jobs s)\<rparr>"]
    by (simp add: run_end_def Let_def j_def [symmetric])
  have saved: "\<forall>r \<in> set (parsed (jl_read (sy_file (run_end w n s)))). result_ok genuine r"
    using assms(1) j file_sub by (auto simp: sync_inv_def)
  have latest: "sy_latest (run_end w n s) \<noteq> Some (jb_result p)" if p: "p \<in> set (sy_jobs (run_end w n s))" "jb_kind p = Run_sync" for p
  proof -
    have "length (sy_jobs (run_end w n s)) = length (sy_jobs s) - 1" using assms(2) by (simp add: sel)
    then obtain m where m: "m < length (sy_jobs s) - 1" "p = sy_jobs (run_end w n s) ! m"
      using p(1) unfolding in_set_conv_nth by auto
    define k where "k = (if m < n then m else Suc m)"
    have k: "k < length (sy_jobs s)" "k \<noteq> n" "p = sy_jobs s ! k"
      using m assms(2) remove_nth(2) [OF assms(2) m(1)] by (auto simp: sel k_def)
    then have "jb_result j \<noteq> jb_result p" "sy_latest s \<noteq> Some (jb_result p)"
      using assms p(2) unfolding sync_inv_def j_def by auto
    then show ?thesis by (simp add: sel)
  qed
  have apart: "jb_result (sy_jobs (run_end w n s) ! m) \<noteq> jb_result (sy_jobs (run_end w n s) ! q)"
    if "m < length (sy_jobs (run_end w n s))" "q < length (sy_jobs (run_end w n s))" "m \<noteq> q"
      "jb_kind (sy_jobs (run_end w n s) ! q) = Run_sync" for m q
  proof -
    have "m < length (sy_jobs s) - 1" "q < length (sy_jobs s) - 1" using that(1,2) assms(2) by (auto simp: sel)
    then show ?thesis
      using that(3,4) assms(1) remove_nth(2) [OF assms(2)] unfolding sel sync_inv_def by auto
  qed
  have sub: "set (sy_jobs (run_end w n s)) \<subseteq> set (sy_jobs s)" unfolding sel by (rule remove_nth [OF assms(2)])
  show ?thesis
    unfolding sync_inv_def
  proof (intro conjI ballI allI impI)
    fix p assume p: "p \<in> set (sy_jobs (run_end w n s))"
    then have "p \<in> set (sy_jobs s)" using sub by blast
    then show "jb_result p < length (sy_results (run_end w n s))" "jb_kind p \<noteq> Run_rollback"
      "jb_kind p \<noteq> Run_sync \<Longrightarrow> cleared genuine (sy_results (run_end w n s) ! jb_result p)"
      using assms(1) by (simp_all add: sync_inv_def sel)
    show "sy_latest (run_end w n s) \<noteq> Some (jb_result p)" if "jb_kind p = Run_sync" using latest p that by blast
  next
    fix m q assume "m < length (sy_jobs (run_end w n s))" "q < length (sy_jobs (run_end w n s))" "m \<noteq> q"
      "jb_kind (sy_jobs (run_end w n s) ! q) = Run_sync"
    then show "jb_result (sy_jobs (run_end w n s) ! m) \<noteq> jb_result (sy_jobs (run_end w n s) ! q)" by (rule apart)
  qed (use assms(1) saved j in \<open>auto simp: sync_inv_def sel split: if_splits\<close>)
qed

lemma sync_inv_step: "sync_step (honest genuine) io_ok s s' \<Longrightarrow> sync_inv genuine s \<Longrightarrow> sync_inv genuine s'"
proof (induction rule: sync_step.induct)
  case (restart f s version)
  then have "\<forall>r \<in> set (parsed (jl_read f)). result_ok genuine r"
    by (auto simp: sync_inv_def jl_tear_def jl_read_def split: option.splits)
  then show ?case by (rule sync_inv_init)
qed (simp_all add: sync_inv_start sync_inv_stage sync_inv_activate sync_inv_rollback sync_inv_body sync_inv_end)

lemma sync_inv_reachable: "(sync_step (honest genuine) io_ok)\<^sup>*\<^sup>* s s' \<Longrightarrow> sync_inv genuine s \<Longrightarrow> sync_inv genuine s'"
  by (induction rule: rtranclp_induct) (auto intro: sync_inv_step)

section \<open>Properties\<close>

lemma sync_step_mono: "sync_step P io_ok s s' \<Longrightarrow> (\<And>env. P env \<Longrightarrow> Q env) \<Longrightarrow> sync_step Q io_ok s s'"
  by (induction rule: sync_step.induct) (auto intro: sync_step.intros)

text \<open>The verifier of the repository, with the digest it was given, or none.\<close>

definition uses_verifier :: "(string \<Rightarrow> string) \<Rightarrow> string option \<Rightarrow> sync_env \<Rightarrow> bool" where
  "uses_verifier sha256 expected env \<longleftrightarrow> se_verify env = None \<or>
     (\<exists>fetch. se_verify env = Some (\<lambda>d t. Inr (verify_candidate sha256 fetch expected d t None)))"

definition expected_bytes :: "(string \<Rightarrow> string) \<Rightarrow> string option \<Rightarrow> string option \<Rightarrow> bool" where
  "expected_bytes sha256 expected dg \<longleftrightarrow> dg = expected \<and> (\<exists>b. b \<noteq> [] \<and> expected = Some (sha256 b))"

lemma verifier_honest: "uses_verifier sha256 expected env \<Longrightarrow> honest (expected_bytes sha256 expected) env"
  using verify_candidate_sound unfolding uses_verifier_def honest_def expected_bytes_def by fastforce

lemma sync_empty_inv: "sync_inv genuine (sync_init version jl_empty)"
  by (rule sync_inv_init) (simp add: jl_empty_def jl_read_def)

text \<open>
  C15. What a sync can lead to: over every interleaving of requests, threads, crashes and
  restarts, whatever writes and thread starts fail, no result in memory or on disk was ever activated or rolled back; and one that is
  verified, staging, staged or activating either found nothing to install or carries exactly the
  expected digest, which is the hash of bytes that were obtained.
\<close>

theorem sync_staged_verified:
  assumes "(sync_step (uses_verifier sha256 expected) io_ok)\<^sup>*\<^sup>* (sync_init version jl_empty) s"
    and "r \<in> set (sy_results s) \<union> set (parsed (jl_read (sy_file s)))"
  shows "\<not> sr_activation_performed r \<and> sr_sync_state r \<notin> {SY_ROLLING_BACK, SY_ROLLED_BACK} \<and>
    (sr_sync_state r \<in> {SY_VERIFIED, SY_STAGING, SY_STAGED, SY_ACTIVATING} \<longrightarrow>
       sr_comparison r = ''NO_CHANGE'' \<or>
       sr_verification r = ''VERIFIED'' \<and> (\<exists>b. b \<noteq> [] \<and> sr_digest r = Some (sha256 b) \<and> sr_digest r = expected))"
proof -
  have "(sync_step (honest (expected_bytes sha256 expected)) io_ok)\<^sup>*\<^sup>* (sync_init version jl_empty) s"
    using assms(1)
  proof (induction rule: rtranclp_induct)
    case (step y z)
    then show ?case by (meson rtranclp.rtrancl_into_rtrancl sync_step_mono verifier_honest)
  qed simp
  then have "sync_inv (expected_bytes sha256 expected) s" using sync_empty_inv by (rule sync_inv_reachable)
  then have "result_ok (expected_bytes sha256 expected) r" using assms(2) by (auto simp: sync_inv_def)
  then show ?thesis by (auto simp: result_ok_def cleared_def expected_bytes_def)
qed

definition demo_discovery :: discovery where
  "demo_discovery = \<lparr>ds_source = ''github:o/r'', ds_revision = JInt 7, ds_candidate_version = Some ''2.0'',
     ds_authorized = True, ds_release_id = Some 7,
     ds_assets = [\<lparr>ra_name = Some ''a.zip'', ra_size = Some 3, ra_url = Some ''https://x''\<rparr>]\<rparr>"

definition demo_sync_env :: sync_env where
  "demo_sync_env = \<lparr>se_discover = Some (Inr demo_discovery),
     se_verify = Some (\<lambda>d t. Inr (verify_candidate (\<lambda>b. ''h'' @ b) (\<lambda>u. Inr ''zip'') (Some ''hzip'') d t None))\<rparr>"

abbreviation demo_synced :: sync_service where
  "demo_synced \<equiv> run_end Write_done 0 (run_body demo_sync_env 0 (fst (sync_start io_fine ''1'' ''1'' ''t0'' (sync_init ''1.0'' jl_empty))))"

lemma demo_sync_steps:
  assumes "allowed demo_sync_env" and "io_ok io_fine"
  shows "(sync_step allowed io_ok)\<^sup>*\<^sup>* (sync_init ''1.0'' jl_empty) demo_synced"
proof -
  let ?s1 = "fst (sync_start io_fine ''1'' ''1'' ''t0'' (sync_init ''1.0'' jl_empty))"
  have "sync_step allowed io_ok (sync_init ''1.0'' jl_empty) ?s1" using assms(2) by (rule sync_step.start)
  moreover have "0 < length (sy_jobs ?s1)" "\<not> jb_done (sy_jobs ?s1 ! 0)" by code_simp+
  then have "sync_step allowed io_ok ?s1 (run_body demo_sync_env 0 ?s1)" using assms(1) by (rule sync_step.body)
  moreover have "0 < length (sy_jobs (run_body demo_sync_env 0 ?s1))" "jb_done (sy_jobs (run_body demo_sync_env 0 ?s1) ! 0)"
    by code_simp+
  then have "sync_step allowed io_ok (run_body demo_sync_env 0 ?s1) demo_synced" by (rule sync_step.finish)
  ultimately show ?thesis by (meson converse_rtranclp_into_rtranclp r_into_rtranclp)
qed

theorem sync_staged_verified_witness:
  "\<exists>r \<in> set (sy_results demo_synced). sr_sync_state r = SY_VERIFIED \<and> sr_comparison r \<noteq> ''NO_CHANGE'' \<and>
     (\<exists>b. b \<noteq> [] \<and> sr_digest r = Some (''h'' @ b) \<and> sr_digest r = Some ''hzip'')"
proof -
  let ?r = "hd (sy_results demo_synced)"
  have r: "?r \<in> set (sy_results demo_synced)" "sr_sync_state ?r = SY_VERIFIED" "sr_comparison ?r \<noteq> ''NO_CHANGE''"
    by code_simp+
  have "uses_verifier (\<lambda>b. ''h'' @ b) (Some ''hzip'') demo_sync_env"
    by (auto simp: uses_verifier_def demo_sync_env_def)
  then have "(sync_step (uses_verifier (\<lambda>b. ''h'' @ b) (Some ''hzip'')) (\<lambda>_. True))\<^sup>*\<^sup>* (sync_init ''1.0'' jl_empty) demo_synced"
    by (rule demo_sync_steps) simp
  from sync_staged_verified [OF this, of ?r] show ?thesis using r by auto
qed

definition weight :: "sync_service \<Rightarrow> nat" where
  "weight s = sum_list (map (\<lambda>j. if jb_done j then 1 else 2) (sy_jobs s))"

lemma weight_split:
  assumes "n < length (sy_jobs s)"
  shows "weight s = weight (s\<lparr>sy_jobs := take n (sy_jobs s)\<rparr>) + (if jb_done (sy_jobs s ! n) then 1 else 2) +
    weight (s\<lparr>sy_jobs := drop (Suc n) (sy_jobs s)\<rparr>)"
  using arg_cong [OF id_take_nth_drop [OF assms], of "\<lambda>xs. sum_list (map (\<lambda>j. if jb_done j then 1 else 2 :: nat) xs)"]
  by (simp add: weight_def)

lemma weight_decreases: "job_step s s' \<Longrightarrow> weight s' < weight s"
proof (induction rule: job_step.induct)
  case (body n s env)
  have "sy_jobs (run_body env n s) =
      take n (sy_jobs s) @ (sy_jobs s ! n)\<lparr>jb_done := True\<rparr> # drop (Suc n) (sy_jobs s)"
    using body(1) by (simp add: run_body_def Let_def upd_conv_take_nth_drop)
  then have "weight (run_body env n s) = weight (s\<lparr>sy_jobs := take n (sy_jobs s)\<rparr>) + 1 +
      weight (s\<lparr>sy_jobs := drop (Suc n) (sy_jobs s)\<rparr>)"
    by (simp add: weight_def)
  then show ?case using weight_split [OF body(1)] body(2) by simp
next
  case (finish n s w)
  have "weight (run_end w n s) = weight (s\<lparr>sy_jobs := take n (sy_jobs s)\<rparr>) + weight (s\<lparr>sy_jobs := drop (Suc n) (sy_jobs s)\<rparr>)"
    by (simp add: run_end_def Let_def weight_def)
  then show ?case using weight_split [OF finish(1)] by simp
qed

lemma stuck_idle: "\<not> (\<exists>t. job_step s t) \<Longrightarrow> sy_jobs s = []"
proof (rule ccontr)
  assume none: "\<not> (\<exists>t. job_step s t)" and "sy_jobs s \<noteq> []"
  then have "0 < length (sy_jobs s)" by simp
  then show False using none job_step.intros by (cases "jb_done (sy_jobs s ! 0)") blast+
qed

lemma threads_end: "\<exists>t. job_step\<^sup>*\<^sup>* s t \<and> \<not> (\<exists>u. job_step t u)"
proof (induction "weight s" arbitrary: s rule: less_induct)
  case less
  show ?case
  proof (cases "\<exists>u. job_step s u")
    case True
    then obtain u where u: "job_step s u" by blast
    then obtain t where "job_step\<^sup>*\<^sup>* u t" "\<not> (\<exists>v. job_step t v)" using less weight_decreases by blast
    then show ?thesis using u by (meson converse_rtranclp_into_rtranclp)
  qed blast
qed

lemma run_end_active [simp]: "sy_active (run_end w n s) = None"
  by (simp add: run_end_def Let_def)

text \<open>The last thread to end leaves nothing active.\<close>

lemma job_steps_release:
  "job_step\<^sup>*\<^sup>* s t \<Longrightarrow> sy_jobs s \<noteq> [] \<or> sy_active s = None \<Longrightarrow> sy_jobs t \<noteq> [] \<or> sy_active t = None"
proof (induction rule: rtranclp_induct)
  case (step t u)
  from step.hyps(2) show ?case by (cases rule: job_step.cases) (auto simp: run_body_def Let_def)
qed

text \<open>
  What is active is in a busy state unless a thread runs; and, as long as no request fails, a
  thread runs on it.
\<close>

definition active_busy :: "sync_service \<Rightarrow> bool" where
  "active_busy s \<longleftrightarrow>
     (\<forall>i. sy_active s = Some i \<longrightarrow> i < length (sy_results s) \<and> (sy_jobs s = [] \<longrightarrow> state_of s i \<in> busy_states))"

definition attended :: "sync_service \<Rightarrow> bool" where
  "attended s \<longleftrightarrow> (\<forall>i. sy_active s = Some i \<longrightarrow> (\<exists>j \<in> set (sy_jobs s). jb_result j = i))"

lemma begin_thread_busy:
  "i < length (sy_results s) \<Longrightarrow> state_of s i \<in> busy_states \<Longrightarrow> active_busy (fst (begin_thread io k i reply s))"
  using begin_thread_cases [of io k i reply s] by (auto simp: active_busy_def state_of_def launch_def)

lemma begin_thread_attended: "attended (fst (begin_thread io_fine k i reply s))"
  by (simp add: begin_thread_def persist_result_def io_fine_def attended_def launch_def)

lemma begin_sync_busy: "active_busy (fst (begin_sync io hex trace now s))"
  unfolding begin_sync_def Let_def
  by (rule begin_thread_busy) (simp_all add: state_of_def sync_result_init_def busy_states_def)

lemma request_busy:
  assumes "active_busy s" and "sync_inv genuine s" and "st \<in> busy_states"
  shows "active_busy (fst (request_transition k ready refusal st nm io s))"
proof (cases "\<exists>i. sy_active s = None \<and> sy_latest s = Some i \<and> ready (sy_results s ! i)")
  case True
  then obtain i where i: "sy_active s = None" "sy_latest s = Some i" "ready (sy_results s ! i)" by blast
  then have "i < length (sy_results s)" using assms(2) by (simp add: sync_inv_def)
  then show ?thesis
    using i assms(3) unfolding request_transition_def Let_def by (simp add: begin_thread_busy state_of_def)
next
  case False
  then have "fst (request_transition k ready refusal st nm io s) = s"
    by (auto simp: request_transition_def Let_def split: option.split)
  then show ?thesis using assms(1) by simp
qed

lemma request_attended:
  "attended s \<Longrightarrow> attended (fst (request_transition k ready refusal st nm io_fine s))"
  by (auto simp: request_transition_def Let_def begin_thread_attended split: option.split)

lemma active_busy_step:
  "sync_step allowed io_ok s s' \<Longrightarrow> sync_inv genuine s \<Longrightarrow> active_busy s \<Longrightarrow> active_busy s'"
proof (induction rule: sync_step.induct)
  case (start io s hex trace now)
  then show ?case by (auto simp: sync_start_def begin_sync_busy split: option.split)
next
  case (body n s env)
  then have "sy_jobs s \<noteq> []" by auto
  then show ?case using body(5) by (simp add: active_busy_def run_body_def Let_def)
next
  case (finish n s w)
  show ?case by (simp add: active_busy_def)
next
  case (restart f s version)
  show ?case by (simp add: active_busy_def sync_init_def)
qed (auto simp: sync_stage_def sync_activate_def sync_rollback_def busy_states_def intro: request_busy)

lemma attended_image: "attended s \<longleftrightarrow> (\<forall>i. sy_active s = Some i \<longrightarrow> i \<in> jb_result ` set (sy_jobs s))"
  by (auto simp: attended_def)

lemma body_attended:
  assumes "n < length (sy_jobs s)" and "attended s"
  shows "attended (run_body env n s)"
proof -
  have "map jb_result ((sy_jobs s)[n := (sy_jobs s ! n)\<lparr>jb_done := True\<rparr>]) = map jb_result (sy_jobs s)"
    using assms(1) by (simp add: map_update) (metis list_update_id nth_map)
  then have "jb_result ` set ((sy_jobs s)[n := (sy_jobs s ! n)\<lparr>jb_done := True\<rparr>]) = jb_result ` set (sy_jobs s)"
    by (metis list.set_map)
  then show ?thesis
    using assms(2) unfolding attended_image by (simp add: run_body_def Let_def)
qed

lemma attended_step:
  "sync_step allowed (\<lambda>io. io = io_fine) s s' \<Longrightarrow> attended s \<Longrightarrow> attended s'"
proof (induction rule: sync_step.induct)
  case (start io s hex trace now)
  then show ?case by (auto simp: sync_start_def begin_sync_def Let_def begin_thread_attended split: option.split)
next
  case (body n s env)
  then show ?case by (simp add: body_attended)
next
  case (finish n s w)
  show ?case by (simp add: attended_def)
next
  case (restart f s version)
  show ?case by (simp add: attended_def sync_init_def)
qed (auto simp: sync_stage_def sync_activate_def sync_rollback_def intro: request_attended)

lemma sync_step_io_mono: "sync_step P io_ok s s' \<Longrightarrow> (\<And>io. io_ok io \<Longrightarrow> io_ok' io) \<Longrightarrow> sync_step P io_ok' s s'"
  by (induction rule: sync_step.induct) (auto intro: sync_step.intros)

lemma reachable_busy:
  "(sync_step allowed io_ok)\<^sup>*\<^sup>* (sync_init version jl_empty) s \<Longrightarrow> sync_inv (\<lambda>_. True) s \<and> active_busy s"
proof (induction rule: rtranclp_induct)
  case base
  show ?case by (simp add: sync_empty_inv active_busy_def) (simp add: sync_init_def)
next
  case (step y z)
  have "sync_step (honest (\<lambda>_. True)) io_ok y z" using step.hyps(2) by (rule sync_step_mono) (simp add: honest_def)
  then show ?case using step.IH step.hyps(2) by (blast intro: sync_inv_step active_busy_step)
qed

lemma reachable_attended:
  "(sync_step allowed io_ok)\<^sup>*\<^sup>* (sync_init version jl_empty) s \<Longrightarrow> (\<And>io. io_ok io \<Longrightarrow> io = io_fine) \<Longrightarrow> attended s"
proof (induction rule: rtranclp_induct)
  case base
  show ?case by (simp add: attended_def sync_init_def)
next
  case (step y z)
  have "sync_step allowed (\<lambda>io. io = io_fine) y z" using step.hyps(2) by (rule sync_step_io_mono) (rule step.prems)
  then show ?case using step by (blast intro: attended_step)
qed

text \<open>A request that is turned away because something is active.\<close>

definition turned_away :: "sync_service \<Rightarrow> sync_service \<times> sync_reply \<Rightarrow> bool" where
  "turned_away s p \<longleftrightarrow> fst p = s \<and> (case snd p of Already_running _ \<Rightarrow> True | _ \<Rightarrow> False)"

lemma wedged_requests:
  assumes "active_busy s" and "sy_active s \<noteq> None" and "sy_jobs s = []"
  shows "turned_away s (sync_start io hex trace now s) \<and> turned_away s (sync_stage io s) \<and>
    turned_away s (sync_activate io s) \<and> turned_away s (sync_rollback io s)"
  using assms
  by (auto simp: active_busy_def turned_away_def sync_start_def sync_stage_def sync_activate_def sync_rollback_def
      request_transition_def)

text \<open>
  C16. Every transaction whose thread was started ends: from any reachable state the running
  threads can run to their ends, whatever the providers answer and even when the writes at
  those ends fail; once they have ended, the service is idle and accepts the next start, unless
  no thread was running while a result was active. That happens only after a request whose write
  or thread start failed: as long as these succeed, a thread runs on whatever is active. After
  such a failure with no thread running, every request is turned away and changes nothing, so
  that only a restart helps.
\<close>

theorem sync_quiesces:
  assumes "(sync_step allowed io_ok)\<^sup>*\<^sup>* (sync_init version jl_empty) s"
  shows "(\<exists>t. job_step\<^sup>*\<^sup>* s t \<and> \<not> (\<exists>u. job_step t u)) \<and>
    (\<forall>t. job_step\<^sup>*\<^sup>* s t \<and> \<not> (\<exists>u. job_step t u) \<and> (sy_active s = None \<or> sy_jobs s \<noteq> []) \<longrightarrow>
       sy_jobs t = [] \<and> sy_active t = None \<and>
       snd (sync_start io_fine hex trace now t) = Accepted SY_SYNCING (''sync-'' @ hex)) \<and>
    ((\<forall>io. io_ok io \<longrightarrow> io = io_fine) \<longrightarrow>
       (\<forall>i. sy_active s = Some i \<longrightarrow> (\<exists>j \<in> set (sy_jobs s). jb_result j = i))) \<and>
    (sy_active s \<noteq> None \<and> sy_jobs s = [] \<longrightarrow>
       (\<forall>io. turned_away s (sync_start io hex trace now s) \<and> turned_away s (sync_stage io s) \<and>
          turned_away s (sync_activate io s) \<and> turned_away s (sync_rollback io s)))"
proof (intro conjI allI impI)
  show "\<exists>t. job_step\<^sup>*\<^sup>* s t \<and> \<not> (\<exists>u. job_step t u)" by (rule threads_end)
next
  fix t assume t: "job_step\<^sup>*\<^sup>* s t \<and> \<not> (\<exists>u. job_step t u) \<and> (sy_active s = None \<or> sy_jobs s \<noteq> [])"
  show "sy_jobs t = []" using t stuck_idle by blast
  then show "sy_active t = None" using t job_steps_release by blast
  then show "snd (sync_start io_fine hex trace now t) = Accepted SY_SYNCING (''sync-'' @ hex)"
    by (simp add: sync_start_def begin_sync_def begin_thread_def persist_result_def io_fine_def sync_result_init_def Let_def)
next
  fix i assume "\<forall>io. io_ok io \<longrightarrow> io = io_fine" "sy_active s = Some i"
  then show "\<exists>j \<in> set (sy_jobs s). jb_result j = i" using reachable_attended [OF assms] by (simp add: attended_def)
qed (use reachable_busy [OF assms] wedged_requests in blast)+

text \<open>A run whose first start cannot write its record, and one whose first start succeeds.\<close>

definition io_broken :: sync_io where
  "io_broken = \<lparr>si_write = Write_broken (OSError ''No space left on device'') Cut_before, si_thread = None\<rparr>"

definition demo_wedged :: sync_service where
  "demo_wedged = fst (sync_start io_broken ''1'' ''1'' ''t0'' (sync_init ''1.0'' jl_empty))"

definition demo_started :: sync_service where
  "demo_started = fst (sync_start io_fine ''1'' ''1'' ''t0'' (sync_init ''1.0'' jl_empty))"

theorem sync_quiesces_witness:
  "(\<exists>t. job_step\<^sup>*\<^sup>* demo_started t \<and> sy_jobs t = [] \<and> sy_active t = None) \<and>
   (\<exists>j \<in> set (sy_jobs demo_started). jb_result j = 0) \<and>
   turned_away demo_wedged (sync_start io_fine ''2'' ''2'' ''t1'' demo_wedged)"
proof (intro conjI)
  have "sync_step (\<lambda>_. True) (\<lambda>io. io = io_fine) (sync_init ''1.0'' jl_empty) demo_started"
    unfolding demo_started_def by (rule sync_step.start) simp
  then have "(sync_step (\<lambda>_. True) (\<lambda>io. io = io_fine))\<^sup>*\<^sup>* (sync_init ''1.0'' jl_empty) demo_started" by blast
  note run = sync_quiesces [OF this, of "''2''" "''2''" "''t1''"]
  have live: "sy_jobs demo_started \<noteq> []" "sy_active demo_started = Some 0" by code_simp+
  show "\<exists>t. job_step\<^sup>*\<^sup>* demo_started t \<and> sy_jobs t = [] \<and> sy_active t = None" using run live(1) by blast
  show "\<exists>j \<in> set (sy_jobs demo_started). jb_result j = 0" using run live(2) by blast
next
  have "sync_step (\<lambda>_. True) (\<lambda>_. True) (sync_init ''1.0'' jl_empty) demo_wedged"
    unfolding demo_wedged_def by (rule sync_step.start) simp
  then have "(sync_step (\<lambda>_. True) (\<lambda>_. True))\<^sup>*\<^sup>* (sync_init ''1.0'' jl_empty) demo_wedged" by blast
  note run = sync_quiesces [OF this, of "''2''" "''2''" "''t1''"]
  have "sy_active demo_wedged \<noteq> None" "sy_jobs demo_wedged = []" by code_simp+
  then show "turned_away demo_wedged (sync_start io_fine ''2'' ''2'' ''t1'' demo_wedged)" using run by blast
qed

text \<open>A full disk at the wrong moment is enough.\<close>

lemma failed_write_wedges:
  assumes "sy_active s = None" and "sy_jobs s = []"
  shows "sy_active (fst (sync_start io_broken hex trace now s)) \<noteq> None \<and>
    sy_jobs (fst (sync_start io_broken hex trace now s)) = []"
  using assms by (simp add: sync_start_def begin_sync_def begin_thread_def persist_result_def io_broken_def Let_def)

section \<open>One transaction at a time\<close>

text \<open>
  Between the body of a thread and its end the service accepts another start, and the end of
  the first thread then makes it forget the second: two bodies can be running at once.
\<close>

lemma two_syncs_at_once:
  "\<exists>s. (sync_step (\<lambda>_. True) (\<lambda>_. True))\<^sup>*\<^sup>* (sync_init ''1.0'' jl_empty) s \<and> length (sy_jobs s) = 2 \<and>
     (\<forall>j \<in> set (sy_jobs s). jb_kind j = Run_sync \<and> \<not> jb_done j)"
proof -
  define s1 where "s1 = fst (sync_start io_fine ''1'' ''1'' ''t0'' (sync_init ''1.0'' jl_empty))"
  define s2 where "s2 = run_body demo_sync_env 0 s1"
  define s3 where "s3 = fst (sync_start io_fine ''2'' ''2'' ''t1'' s2)"
  define s4 where "s4 = run_end Write_done 0 s3"
  define s5 where "s5 = fst (sync_start io_fine ''3'' ''3'' ''t2'' s4)"
  have "0 < length (sy_jobs s1)" "\<not> jb_done (sy_jobs s1 ! 0)" "0 < length (sy_jobs s3)" "jb_done (sy_jobs s3 ! 0)"
    unfolding s3_def s2_def s1_def by code_simp+
  then have steps: "sync_step (\<lambda>_. True) (\<lambda>_. True) (sync_init ''1.0'' jl_empty) s1" "sync_step (\<lambda>_. True) (\<lambda>_. True) s1 s2"
      "sync_step (\<lambda>_. True) (\<lambda>_. True) s2 s3" "sync_step (\<lambda>_. True) (\<lambda>_. True) s3 s4" "sync_step (\<lambda>_. True) (\<lambda>_. True) s4 s5"
    by (auto simp: s1_def s2_def s3_def s4_def s5_def intro: sync_step.intros)
  have "(sync_step (\<lambda>_. True) (\<lambda>_. True))\<^sup>*\<^sup>* (sync_init ''1.0'' jl_empty) s5"
    by (intro converse_rtranclp_into_rtranclp [of "sync_step (\<lambda>_. True) (\<lambda>_. True)", OF steps(1)]
          converse_rtranclp_into_rtranclp [of "sync_step (\<lambda>_. True) (\<lambda>_. True)", OF steps(2)]
          converse_rtranclp_into_rtranclp [of "sync_step (\<lambda>_. True) (\<lambda>_. True)", OF steps(3)]
          converse_rtranclp_into_rtranclp [of "sync_step (\<lambda>_. True) (\<lambda>_. True)", OF steps(4)]
          r_into_rtranclp [of "sync_step (\<lambda>_. True) (\<lambda>_. True)", OF steps(5)])
  moreover have "length (sy_jobs s5) = 2" "\<forall>j \<in> set (sy_jobs s5). jb_kind j = Run_sync \<and> \<not> jb_done j"
    unfolding s5_def s4_def s3_def s2_def s1_def by code_simp+
  ultimately show ?thesis by blast
qed

text \<open>A sync that found nothing to install ends VERIFIED, and staging it is accepted.\<close>

lemma no_change_can_be_staged:
  assumes "sy_active s = None" and "sy_latest s = Some i" and "sr_sync_state (sy_results s ! i) = SY_VERIFIED"
    and "sr_candidate_version (sy_results s ! i) = None"
  shows "snd (sync_stage io_fine s) = Accepted SY_STAGING (sr_sync_id (sy_results s ! i))"
  using assms by (simp add: sync_stage_def request_transition_def begin_thread_def persist_result_def io_fine_def Let_def)

end
