(* ===== verification/Github.thy ===== *)
theory Github
  imports Secrets Executor
begin

text \<open>
  The GitHub authorization of the admin panel (runtime/admin/github.py): the device flow, the
  manual token, validation, disconnection and the persisted credential state, over the file
  backend of secrets. The answers of GitHub, the clock, the codec of the state file (JSON) and the
  cipher are arguments; telemetry is left out.
\<close>

section \<open>State\<close>

record device_flow =
  df_device_code :: string
  df_user_code :: string
  df_verification_uri :: string
  df_expires_in :: int
  df_interval :: int
  df_started_at :: instant

record credential_state =
  gc_principal :: "string option"
  gc_auth_status :: string
  gc_token_status :: string
  gc_token_expiry :: "string option"
  gc_scopes :: "string list"
  gc_last_validation :: "instant option"
  gc_last_failure :: "instant option"
  gc_last_failure_reason :: "string option"

definition credential_init :: credential_state where
  "credential_init =
     \<lparr>gc_principal = None, gc_auth_status = ''UNAUTHORIZED'', gc_token_status = ''MISSING'', gc_token_expiry = None,
      gc_scopes = [], gc_last_validation = None, gc_last_failure = None, gc_last_failure_reason = None\<rparr>"

text \<open>The state file: what \<open>json\<close> makes of a state and back (\<open>None\<close>: refused).\<close>

record state_codec =
  sc_dump :: "credential_state \<Rightarrow> string"
  sc_load :: "string \<Rightarrow> credential_state option"

definition codec_sound :: "state_codec \<Rightarrow> bool" where
  "codec_sound c \<longleftrightarrow> (\<forall>st. sc_load c (sc_dump c st) = Some st \<and> sc_dump c st \<noteq> [])"

text \<open>What the manager works with: the cipher and its randomness, and the codec.\<close>

record github_env =
  ge_fernet :: fernet
  ge_nonce :: string
  ge_codec :: state_codec

record github_manager =
  gm_secrets :: file_secrets
  gm_client_id :: string
  gm_account_id :: "string option"
  gm_state :: credential_state
  gm_flow :: "device_flow option"

definition token_ref :: "string option \<Rightarrow> string" where
  "token_ref account = (if truthy_str account then ''acct-'' @ the account @ ''-github-token'' else ''github-access-token'')"

definition state_ref :: "string option \<Rightarrow> string" where
  "state_ref account = (if truthy_str account then ''acct-'' @ the account @ ''-github-state'' else ''github-state'')"

text \<open>Loading and saving the state swallow every exception.\<close>

definition load_state :: "github_env \<Rightarrow> github_manager \<Rightarrow> github_manager" where
  "load_state env g =
     (case file_retrieve (ge_fernet env) (gm_secrets g) (state_ref (gm_account_id g)) of
        Inr (Some b) \<Rightarrow> (if b = [] then g else case sc_load (ge_codec env) b of None \<Rightarrow> g | Some st \<Rightarrow> g\<lparr>gm_state := st\<rparr>)
      | _ \<Rightarrow> g)"

definition github_init :: "github_env \<Rightarrow> string \<Rightarrow> string option \<Rightarrow> file_secrets \<Rightarrow> github_manager" where
  "github_init env client account secrets =
     load_state env \<lparr>gm_secrets = secrets, gm_client_id = client, gm_account_id = account, gm_state = credential_init,
                     gm_flow = None\<rparr>"

definition save_state :: "github_env \<Rightarrow> github_manager \<Rightarrow> github_manager" where
  "save_state env g =
     g\<lparr>gm_secrets := fst (file_store (ge_fernet env) (ge_nonce env) (state_ref (gm_account_id g))
         (sc_dump (ge_codec env) (gm_state g)) (gm_secrets g))\<rparr>"

definition has_token :: "github_manager \<Rightarrow> bool result" where
  "has_token g = file_exists (gm_secrets g) (token_ref (gm_account_id g))"

section \<open>Answers of GitHub\<close>

datatype 'a http_answer = Http_ok 'a | Http_error int string | Http_failed exn

record user_answer =
  ua_login :: "string option"
  ua_scopes :: string

record device_answer =
  da_device_code :: string
  da_user_code :: string
  da_verification_uri :: string
  da_expires_in :: "int option"
  da_interval :: "int option"

datatype token_answer = Access_token string | Token_error "string option"

fun split_comma :: "string \<Rightarrow> string list" where
  "split_comma [] = [[]]"
| "split_comma (c # cs) =
     (if c = CHR '','' then [] # split_comma cs
      else case split_comma cs of [] \<Rightarrow> [[c]] | w # ws \<Rightarrow> (c # w) # ws)"

definition parse_scopes :: "string \<Rightarrow> string list" where
  "parse_scopes header = filter (\<lambda>s. s \<noteq> []) (map strip (split_comma header))"

definition join_comma :: "string list \<Rightarrow> string" where
  "join_comma ws = concat (case ws of [] \<Rightarrow> [] | v # vs \<Rightarrow> v # map (\<lambda>u. '', '' @ u) vs)"

text \<open>\<open>REQUIRED_GITHUB_SCOPES\<close>, sorted.\<close>

definition required_scopes :: "string list" where
  "required_scopes = [''read:org'', ''repo'']"

definition login_of :: "user_answer \<Rightarrow> string" where
  "login_of u = (case ua_login u of None \<Rightarrow> ''unknown'' | Some l \<Rightarrow> l)"

text \<open>\<open>str(e)\<close> of an answer that is an error.\<close>

definition answer_error :: "'a http_answer \<Rightarrow> string" where
  "answer_error a =
     (case a of
        Http_ok _ \<Rightarrow> []
      | Http_error code reason \<Rightarrow> ''HTTP Error '' @ str_int code @ '': '' @ reason
      | Http_failed e \<Rightarrow> str_exn e)"

section \<open>Operations\<close>

definition initiate_device_flow ::
  "github_env \<Rightarrow> instant \<Rightarrow> device_answer http_answer \<Rightarrow> github_manager \<Rightarrow> github_manager \<times> device_flow option" where
  "initiate_device_flow env now ans g =
     (if gm_client_id g = [] then (g, None)
      else case ans of
        Http_ok a \<Rightarrow>
          let f = \<lparr>df_device_code = da_device_code a, df_user_code = da_user_code a,
                   df_verification_uri = da_verification_uri a,
                   df_expires_in = (case da_expires_in a of None \<Rightarrow> 900 | Some n \<Rightarrow> n),
                   df_interval = (case da_interval a of None \<Rightarrow> 5 | Some n \<Rightarrow> n), df_started_at = now\<rparr>
          in (g\<lparr>gm_flow := Some f\<rparr>, Some f)
      | _ \<Rightarrow>
          (save_state env (g\<lparr>gm_state := (gm_state g)\<lparr>gc_last_failure := Some now,
             gc_last_failure_reason := Some (answer_error ans)\<rparr>\<rparr>), None))"

text \<open>The state after a token was presented to the user API.\<close>

definition judge_token :: "instant \<Rightarrow> user_answer http_answer \<Rightarrow> credential_state \<Rightarrow> credential_state \<times> bool" where
  "judge_token now ans st =
     (case ans of
        Http_ok u \<Rightarrow>
          let scopes = parse_scopes (ua_scopes u);
              st1 = st\<lparr>gc_principal := Some (login_of u), gc_scopes := scopes, gc_last_validation := Some now\<rparr>;
              missing = filter (\<lambda>s. s \<notin> set scopes) required_scopes
          in if missing \<noteq> []
             then (st1\<lparr>gc_auth_status := ''DEGRADED'', gc_token_status := ''INSUFFICIENT_SCOPE'',
                     gc_last_failure := Some now,
                     gc_last_failure_reason := Some (''Missing required GitHub scopes: '' @ join_comma missing)\<rparr>, False)
             else (st1\<lparr>gc_auth_status := ''AUTHORIZED'', gc_token_status := ''VALID'', gc_last_failure := None,
                     gc_last_failure_reason := None\<rparr>, True)
      | Http_error code _ \<Rightarrow>
          (st\<lparr>gc_auth_status := (if code = 401 then ''EXPIRED'' else ''DEGRADED''),
              gc_token_status := (if code = 401 then ''EXPIRED'' else ''UNKNOWN''), gc_last_failure := Some now,
              gc_last_failure_reason := Some (''HTTP '' @ str_int code)\<rparr>, False)
      | Http_failed e \<Rightarrow>
          (st\<lparr>gc_auth_status := ''DEGRADED'', gc_token_status := ''UNKNOWN'', gc_last_failure := Some now,
              gc_last_failure_reason := Some (str_exn e)\<rparr>, False))"

definition validate_github ::
  "github_env \<Rightarrow> instant \<Rightarrow> user_answer http_answer \<Rightarrow> github_manager \<Rightarrow> github_manager \<times> bool result" where
  "validate_github env now ans g =
     (case file_retrieve (ge_fernet env) (gm_secrets g) (token_ref (gm_account_id g)) of
        Inl e \<Rightarrow> (g, Inl e)
      | Inr t \<Rightarrow>
          if \<not> truthy_str t
          then (save_state env (g\<lparr>gm_state := (gm_state g)\<lparr>gc_auth_status := ''UNAUTHORIZED'',
                  gc_token_status := ''MISSING'', gc_principal := None, gc_scopes := []\<rparr>\<rparr>), Inr False)
          else let (st, ok) = judge_token now ans (gm_state g) in (save_state env (g\<lparr>gm_state := st\<rparr>), Inr ok))"

datatype poll_status =
    NO_ACTIVE_FLOW | P_EXPIRED | P_AUTHORIZED | P_PENDING | P_SLOW_DOWN | P_DENIED | P_ERROR string

definition accept_token ::
  "github_env \<Rightarrow> instant \<Rightarrow> user_answer http_answer \<Rightarrow> string \<Rightarrow> github_manager \<Rightarrow> github_manager \<times> poll_status" where
  "accept_token env now ans tok g =
     (case file_store (ge_fernet env) (ge_nonce env) (token_ref (gm_account_id g)) tok (gm_secrets g) of
        (_, Inl e) \<Rightarrow> (g, P_ERROR (str_exn e))
      | (s1, Inr _) \<Rightarrow>
          (case validate_github env now ans (g\<lparr>gm_secrets := s1, gm_flow := None\<rparr>) of
             (g2, Inl e) \<Rightarrow> (g2, P_ERROR (str_exn e))
           | (g2, Inr True) \<Rightarrow> (g2, P_AUTHORIZED)
           | (g2, Inr False) \<Rightarrow>
               (case file_delete (token_ref (gm_account_id g)) (gm_secrets g2) of
                  (_, Inl e) \<Rightarrow> (g2, P_ERROR (str_exn e))
                | (s3, Inr _) \<Rightarrow> (g2\<lparr>gm_secrets := s3\<rparr>,
                     P_ERROR ''GitHub authorization did not satisfy required scopes''))))"

definition poll_device_flow ::
  "github_env \<Rightarrow> instant \<Rightarrow> token_answer http_answer \<Rightarrow> user_answer http_answer \<Rightarrow> github_manager
     \<Rightarrow> github_manager \<times> poll_status" where
  "poll_device_flow env now tans uans g =
     (case gm_flow g of
        None \<Rightarrow> (g, NO_ACTIVE_FLOW)
      | Some f \<Rightarrow>
          if seconds (df_expires_in f) < now - df_started_at f then (g\<lparr>gm_flow := None\<rparr>, P_EXPIRED)
          else case tans of
            Http_ok (Access_token tok) \<Rightarrow> accept_token env now uans tok g
          | Http_ok (Token_error e) \<Rightarrow>
              let err = (case e of None \<Rightarrow> ''unknown'' | Some x \<Rightarrow> x) in
              if err = ''authorization_pending'' then (g, P_PENDING)
              else if err = ''slow_down'' then (g\<lparr>gm_flow := Some (f\<lparr>df_interval := df_interval f + 5\<rparr>)\<rparr>, P_SLOW_DOWN)
              else if err = ''expired_token'' then (g\<lparr>gm_flow := None\<rparr>, P_EXPIRED)
              else if err = ''access_denied'' then (g\<lparr>gm_flow := None\<rparr>, P_DENIED)
              else (g, P_ERROR err)
          | _ \<Rightarrow> (g, P_ERROR (answer_error tans)))"

definition disconnect_github :: "github_env \<Rightarrow> github_manager \<Rightarrow> github_manager \<times> unit result" where
  "disconnect_github env g =
     (case file_delete (token_ref (gm_account_id g)) (gm_secrets g) of
        (_, Inl e) \<Rightarrow> (g, Inl e)
      | (s1, Inr _) \<Rightarrow>
          (case file_delete (state_ref (gm_account_id g)) s1 of
             (_, Inl e) \<Rightarrow> (g\<lparr>gm_secrets := s1\<rparr>, Inl e)
           | (s2, Inr _) \<Rightarrow> (save_state env (g\<lparr>gm_secrets := s2, gm_state := credential_init\<rparr>), Inr ())))"

record submission =
  sb_success :: bool
  sb_principal :: "string option"
  sb_scopes :: "string list"
  sb_error :: "string option"

definition store_and_validate_token ::
  "github_env \<Rightarrow> instant \<Rightarrow> user_answer http_answer \<Rightarrow> string \<Rightarrow> github_manager \<Rightarrow> github_manager \<times> submission" where
  "store_and_validate_token env now ans tok g =
     (case ans of
        Http_ok u \<Rightarrow>
          let scopes = parse_scopes (ua_scopes u); who = login_of u;
              missing = filter (\<lambda>s. s \<notin> set scopes) [''repo'', ''read:org'']
          in if missing \<noteq> []
             then (g, \<lparr>sb_success = False, sb_principal = Some who, sb_scopes = scopes,
                       sb_error = Some (''Missing required scopes: '' @ join_comma missing)\<rparr>)
             else (case file_store (ge_fernet env) (ge_nonce env) (token_ref (gm_account_id g)) tok (gm_secrets g) of
                     (_, Inl e) \<Rightarrow> (g, \<lparr>sb_success = False, sb_principal = None, sb_scopes = [],
                                       sb_error = Some (''Connection error: '' @ exn_class e)\<rparr>)
                   | (s1, Inr _) \<Rightarrow>
                       (save_state env (g\<lparr>gm_secrets := s1, gm_state := (gm_state g)\<lparr>gc_principal := Some who,
                          gc_auth_status := ''AUTHORIZED'', gc_token_status := ''VALID'', gc_scopes := scopes,
                          gc_last_validation := Some now, gc_last_failure := None, gc_last_failure_reason := None\<rparr>\<rparr>),
                        \<lparr>sb_success = True, sb_principal = Some who, sb_scopes = scopes, sb_error = None\<rparr>))
      | Http_error code _ \<Rightarrow>
          (g, \<lparr>sb_success = False, sb_principal = None, sb_scopes = [],
               sb_error = Some (if code \<in> {401, 403} then ''GitHub connection failed. Token may be invalid or expired.''
                                else ''HTTP '' @ str_int code)\<rparr>)
      | Http_failed e \<Rightarrow>
          (g, \<lparr>sb_success = False, sb_principal = None, sb_scopes = [], sb_error = Some (''Connection error: '' @ exn_class e)\<rparr>))"

section \<open>Invariant\<close>

text \<open>What the backend holds for the account: the token, and the state as it is in memory.\<close>

definition token_of :: "fernet \<Rightarrow> github_manager \<Rightarrow> string option result" where
  "token_of fn g = file_retrieve fn (gm_secrets g) (token_ref (gm_account_id g))"

definition saved_state :: "fernet \<Rightarrow> github_manager \<Rightarrow> string option result" where
  "saved_state fn g = file_retrieve fn (gm_secrets g) (state_ref (gm_account_id g))"

definition github_inv :: "fernet \<Rightarrow> state_codec \<Rightarrow> github_manager \<Rightarrow> bool" where
  "github_inv fn c g \<longleftrightarrow>
     file_accepts (token_ref (gm_account_id g)) \<and> file_accepts (state_ref (gm_account_id g)) \<and>
     (gc_auth_status (gm_state g) = ''AUTHORIZED'' \<longrightarrow>
        (\<exists>t. t \<noteq> [] \<and> token_of fn g = Inr (Some t)) \<and> set required_scopes \<subseteq> set (gc_scopes (gm_state g)) \<and>
        gc_token_status (gm_state g) = ''VALID'') \<and>
     (saved_state fn g = Inr None \<and> gm_state g = credential_init \<or>
      saved_state fn g = Inr (Some (sc_dump c (gm_state g))))"

lemma refs_distinct: "token_ref a \<noteq> state_ref a"
  by (auto simp: token_ref_def state_ref_def)

lemma save_state_sel [simp]:
  "gm_state (save_state env g) = gm_state g" "gm_flow (save_state env g) = gm_flow g"
  "gm_account_id (save_state env g) = gm_account_id g" "gm_client_id (save_state env g) = gm_client_id g"
  by (simp_all add: save_state_def)

lemma save_state_secrets:
  assumes "fernet_sound (ge_fernet env)" and "file_accepts (token_ref (gm_account_id g))"
    and "file_accepts (state_ref (gm_account_id g))"
  shows "token_of (ge_fernet env) (save_state env g) = token_of (ge_fernet env) g"
    and "saved_state (ge_fernet env) (save_state env g) = Inr (Some (sc_dump (ge_codec env) (gm_state g)))"
  using assms refs_distinct [of "gm_account_id g"]
  by (auto simp: token_of_def saved_state_def save_state_def files.store_retrieve fernet_sound_def)

text \<open>Everything that ends by saving a state that is not authorized without a token.\<close>

lemma github_inv_save:
  assumes "fernet_sound (ge_fernet env)" and "file_accepts (token_ref (gm_account_id g))"
    and "file_accepts (state_ref (gm_account_id g))"
    and "gc_auth_status (gm_state g) = ''AUTHORIZED'' \<Longrightarrow>
       (\<exists>t. t \<noteq> [] \<and> token_of (ge_fernet env) g = Inr (Some t)) \<and>
       set required_scopes \<subseteq> set (gc_scopes (gm_state g)) \<and> gc_token_status (gm_state g) = ''VALID''"
  shows "github_inv (ge_fernet env) (ge_codec env) (save_state env g)"
  using assms save_state_secrets [OF assms(1-3)] by (simp add: github_inv_def)

lemma judge_token_authorized:
  "judge_token now ans st = (st', ok) \<Longrightarrow>
     (ok \<longleftrightarrow> gc_auth_status st' = ''AUTHORIZED'') \<and>
     (ok \<longrightarrow> set required_scopes \<subseteq> set (gc_scopes st') \<and> gc_token_status st' = ''VALID'')"
  by (auto simp: judge_token_def Let_def filter_empty_conv split: http_answer.splits if_splits)

lemma validate_github_result:
  assumes "validate_github env now ans g = (g', res)" and "fernet_sound (ge_fernet env)"
    and "file_accepts (token_ref (gm_account_id g))" and "file_accepts (state_ref (gm_account_id g))"
  shows "github_inv (ge_fernet env) (ge_codec env) g'"
    and "token_of (ge_fernet env) g' = token_of (ge_fernet env) g" and "gm_account_id g' = gm_account_id g"
    and "res = Inr (gc_auth_status (gm_state g') = ''AUTHORIZED'')"
    and "gm_flow g' = gm_flow g"
proof -
  obtain t where t: "token_of (ge_fernet env) g = Inr t"
    using assms(3) by (cases "token_of (ge_fernet env) g")
      (auto simp: token_of_def file_retrieve_def safe_reference_cases file_accepts_def split: option.splits)
  obtain st1 ok1 where j: "judge_token now ans (gm_state g) = (st1, ok1)" by (metis prod.exhaust)
  define st where "st = (if truthy_str t then st1
    else (gm_state g)\<lparr>gc_auth_status := ''UNAUTHORIZED'', gc_token_status := ''MISSING'', gc_principal := None, gc_scopes := []\<rparr>)"
  have g': "g' = save_state env (g\<lparr>gm_state := st\<rparr>)" and res: "res = Inr (truthy_str t \<and> ok1)"
    using assms(1) t by (auto simp: validate_github_def token_of_def st_def j Let_def split: if_splits)
  note J = judge_token_authorized [OF j]
  have judged: "gc_auth_status st = ''AUTHORIZED'' \<longleftrightarrow> truthy_str t \<and> ok1"
    "gc_auth_status st = ''AUTHORIZED'' \<Longrightarrow> set required_scopes \<subseteq> set (gc_scopes st) \<and> gc_token_status st = ''VALID''"
    using J unfolding st_def by (cases "truthy_str t"; simp)+
  have tok: "token_of (ge_fernet env) (g\<lparr>gm_state := st\<rparr>) = Inr t" using t by (simp add: token_of_def)
  show "github_inv (ge_fernet env) (ge_codec env) g'"
    unfolding g'
  proof (rule github_inv_save [OF assms(2)])
    assume "gc_auth_status (gm_state (g\<lparr>gm_state := st\<rparr>)) = ''AUTHORIZED''"
    then show "(\<exists>t. t \<noteq> [] \<and> token_of (ge_fernet env) (g\<lparr>gm_state := st\<rparr>) = Inr (Some t)) \<and>
        set required_scopes \<subseteq> set (gc_scopes (gm_state (g\<lparr>gm_state := st\<rparr>))) \<and>
        gc_token_status (gm_state (g\<lparr>gm_state := st\<rparr>)) = ''VALID''"
      using judged tok by (cases t) auto
  qed (use assms(3,4) in simp_all)
  show "token_of (ge_fernet env) g' = token_of (ge_fernet env) g"
    unfolding g' using save_state_secrets(1) [OF assms(2), of "g\<lparr>gm_state := st\<rparr>"] assms(3,4) tok t by simp
  show "gm_account_id g' = gm_account_id g" "gm_flow g' = gm_flow g" by (simp_all add: g')
  show "res = Inr (gc_auth_status (gm_state g') = ''AUTHORIZED'')" using res judged by (simp add: g')
qed

lemma file_delete_ok: "file_accepts r \<Longrightarrow> \<exists>b. snd (file_delete r s) = Inr b"
  by (auto simp: file_ops)

lemma accept_token_inv:
  assumes "accept_token env now ans tok g = (g', p)" and "fernet_sound (ge_fernet env)"
    and "github_inv (ge_fernet env) (ge_codec env) g"
  shows "github_inv (ge_fernet env) (ge_codec env) g' \<and> gm_account_id g' = gm_account_id g \<and> gm_flow g' = None \<and>
    (p = P_AUTHORIZED \<longleftrightarrow> gc_auth_status (gm_state g') = ''AUTHORIZED'') \<and>
    token_of (ge_fernet env) g' = Inr (if p = P_AUTHORIZED then Some tok else None)"
proof -
  let ?r = "token_ref (gm_account_id g)"
  have acc: "file_accepts ?r" "file_accepts (state_ref (gm_account_id g))" using assms(3) by (simp_all add: github_inv_def)
  define s1 where "s1 = fst (file_store (ge_fernet env) (ge_nonce env) ?r tok (gm_secrets g))"
  have st: "file_store (ge_fernet env) (ge_nonce env) ?r tok (gm_secrets g) = (s1, Inr True)"
    using files.store_accepted [OF acc(1), of "ge_fernet env" "ge_nonce env" tok "gm_secrets g"] by (simp add: s1_def prod_eq_iff)
  have r1: "file_retrieve (ge_fernet env) s1 ?r = Inr (Some tok)"
    unfolding s1_def using files.stored [OF acc(1)] assms(2) by (simp add: fernet_sound_def)
  obtain g2 res where v: "validate_github env now ans (g\<lparr>gm_secrets := s1, gm_flow := None\<rparr>) = (g2, res)" by (metis prod.exhaust)
  note v2 = validate_github_result [OF v assms(2)]
  have g2: "github_inv (ge_fernet env) (ge_codec env) g2" "token_of (ge_fernet env) g2 = Inr (Some tok)"
      "gm_account_id g2 = gm_account_id g" "res = Inr (gc_auth_status (gm_state g2) = ''AUTHORIZED'')" "gm_flow g2 = None"
    using v2 acc r1 by (simp_all add: token_of_def)
  show ?thesis
  proof (cases "gc_auth_status (gm_state g2) = ''AUTHORIZED''")
    case True
    then show ?thesis using assms(1) g2 by (simp add: accept_token_def st v)
  next
    case False
    define s3 where "s3 = fst (file_delete ?r (gm_secrets g2))"
    obtain b where d: "file_delete ?r (gm_secrets g2) = (s3, Inr b)"
      unfolding s3_def using file_delete_ok [OF acc(1), of "gm_secrets g2"] by (metis prod.collapse)
    have "file_retrieve (ge_fernet env) s3 ?r = Inr None"
      "file_retrieve (ge_fernet env) s3 (state_ref (gm_account_id g)) = saved_state (ge_fernet env) g2"
      unfolding s3_def using files.delete_retrieve [OF acc(1) acc(1)] files.delete_retrieve [OF acc(1) acc(2)]
        refs_distinct [of "gm_account_id g"] g2(3) by (auto simp: saved_state_def)
    then show ?thesis
      using assms(1) g2 False by (auto simp: accept_token_def st v d github_inv_def token_of_def saved_state_def)
  qed
qed

section \<open>The life of an authorization\<close>

text \<open>Operations in any order, each with its own randomness, clock and answers, and restarts.\<close>

inductive github_step :: "fernet \<Rightarrow> state_codec \<Rightarrow> github_manager \<Rightarrow> github_manager \<Rightarrow> bool" for fn c where
  init_flow: "env = \<lparr>ge_fernet = fn, ge_nonce = nonce, ge_codec = c\<rparr> \<Longrightarrow>
     github_step fn c g (fst (initiate_device_flow env now dans g))"
| poll: "env = \<lparr>ge_fernet = fn, ge_nonce = nonce, ge_codec = c\<rparr> \<Longrightarrow>
     github_step fn c g (fst (poll_device_flow env now tans uans g))"
| validate: "env = \<lparr>ge_fernet = fn, ge_nonce = nonce, ge_codec = c\<rparr> \<Longrightarrow>
     github_step fn c g (fst (validate_github env now uans g))"
| submit: "env = \<lparr>ge_fernet = fn, ge_nonce = nonce, ge_codec = c\<rparr> \<Longrightarrow> tok \<noteq> [] \<Longrightarrow>
     github_step fn c g (fst (store_and_validate_token env now uans tok g))"
| disconnect: "env = \<lparr>ge_fernet = fn, ge_nonce = nonce, ge_codec = c\<rparr> \<Longrightarrow>
     github_step fn c g (fst (disconnect_github env g))"
| restart: "env = \<lparr>ge_fernet = fn, ge_nonce = nonce, ge_codec = c\<rparr> \<Longrightarrow>
     github_step fn c g (github_init env (gm_client_id g) (gm_account_id g) (gm_secrets g))"

lemma github_inv_flow [simp]: "github_inv fn c (g\<lparr>gm_flow := f\<rparr>) = github_inv fn c g"
  by (simp add: github_inv_def token_of_def saved_state_def)

lemma load_state_inv:
  assumes "github_inv fn c g" and "codec_sound c" and "ge_fernet env = fn" and "ge_codec env = c"
  shows "load_state env (g\<lparr>gm_state := credential_init, gm_flow := None\<rparr>) = g\<lparr>gm_flow := None\<rparr>"
  using assms
  by (auto simp: load_state_def github_inv_def saved_state_def codec_sound_def split: option.splits)

lemma restart_same:
  assumes "github_inv fn c g" and "codec_sound c" and "ge_fernet env = fn" and "ge_codec env = c"
  shows "github_init env (gm_client_id g) (gm_account_id g) (gm_secrets g) = g\<lparr>gm_flow := None\<rparr>"
proof -
  have "\<lparr>gm_secrets = gm_secrets g, gm_client_id = gm_client_id g, gm_account_id = gm_account_id g,
      gm_state = credential_init, gm_flow = None\<rparr> = g\<lparr>gm_state := credential_init, gm_flow := None\<rparr>"
    by (cases g) simp
  then show ?thesis unfolding github_init_def by (simp only: load_state_inv [OF assms])
qed

lemma initiate_inv:
  assumes "github_inv (ge_fernet env) (ge_codec env) g" and "fernet_sound (ge_fernet env)"
  shows "github_inv (ge_fernet env) (ge_codec env) (fst (initiate_device_flow env now ans g))"
proof -
  have "github_inv (ge_fernet env) (ge_codec env) (save_state env (g\<lparr>gm_state := (gm_state g)\<lparr>gc_last_failure := l,
      gc_last_failure_reason := r\<rparr>\<rparr>))" for l r
    using assms by (intro github_inv_save) (auto simp: github_inv_def token_of_def)
  then show ?thesis using assms(1) by (auto simp: initiate_device_flow_def Let_def split: http_answer.split)
qed

lemma poll_inv:
  assumes "github_inv (ge_fernet env) (ge_codec env) g" and "fernet_sound (ge_fernet env)"
  shows "github_inv (ge_fernet env) (ge_codec env) (fst (poll_device_flow env now tans uans g))"
proof -
  have "github_inv (ge_fernet env) (ge_codec env) (fst (accept_token env now uans tok g))" for tok
    using accept_token_inv [OF _ assms(2,1)] by (metis prod.collapse)
  then show ?thesis
    using assms(1) by (auto simp: poll_device_flow_def Let_def split: option.split http_answer.split token_answer.split)
qed

lemma submit_inv:
  assumes "github_inv (ge_fernet env) (ge_codec env) g" and "fernet_sound (ge_fernet env)" and "tok \<noteq> []"
  shows "github_inv (ge_fernet env) (ge_codec env) (fst (store_and_validate_token env now uans tok g))"
proof (cases "\<exists>u. uans = Http_ok u \<and> filter (\<lambda>s. s \<notin> set (parse_scopes (ua_scopes u))) [''repo'', ''read:org''] = []")
  case True
  then obtain u where u: "uans = Http_ok u" "filter (\<lambda>s. s \<notin> set (parse_scopes (ua_scopes u))) [''repo'', ''read:org''] = []"
    by blast
  let ?r = "token_ref (gm_account_id g)"
  have acc: "file_accepts ?r" "file_accepts (state_ref (gm_account_id g))" using assms(1) by (simp_all add: github_inv_def)
  define s1 where "s1 = fst (file_store (ge_fernet env) (ge_nonce env) ?r tok (gm_secrets g))"
  have st: "file_store (ge_fernet env) (ge_nonce env) ?r tok (gm_secrets g) = (s1, Inr True)"
    using files.store_accepted [OF acc(1), of "ge_fernet env" "ge_nonce env" tok "gm_secrets g"] by (simp add: s1_def prod_eq_iff)
  have "file_retrieve (ge_fernet env) s1 ?r = Inr (Some tok)"
    unfolding s1_def using files.stored [OF acc(1)] assms(2) by (simp add: fernet_sound_def)
  moreover have "set required_scopes \<subseteq> set (parse_scopes (ua_scopes u))"
    using u(2) by (simp add: required_scopes_def split: if_splits)
  ultimately show ?thesis
    using u assms acc st
    by (auto simp: store_and_validate_token_def Let_def token_of_def intro!: github_inv_save simp del: filter.simps)
next
  case False
  then have "fst (store_and_validate_token env now uans tok g) = g"
    by (auto simp: store_and_validate_token_def Let_def simp del: filter.simps split: http_answer.split)
  then show ?thesis using assms(1) by simp
qed

lemma disconnect_inv:
  assumes "github_inv (ge_fernet env) (ge_codec env) g" and "fernet_sound (ge_fernet env)"
  shows "github_inv (ge_fernet env) (ge_codec env) (fst (disconnect_github env g))"
proof -
  have acc: "file_accepts (token_ref (gm_account_id g))" "file_accepts (state_ref (gm_account_id g))"
    using assms(1) by (simp_all add: github_inv_def)
  obtain s1 b1 where d1: "file_delete (token_ref (gm_account_id g)) (gm_secrets g) = (s1, Inr b1)"
    using file_delete_ok [OF acc(1)] by (metis prod.collapse)
  obtain s2 b2 where d2: "file_delete (state_ref (gm_account_id g)) s1 = (s2, Inr b2)"
    using file_delete_ok [OF acc(2)] by (metis prod.collapse)
  have "github_inv (ge_fernet env) (ge_codec env) (save_state env (g\<lparr>gm_secrets := s2, gm_state := credential_init\<rparr>))"
    using assms(2) acc by (intro github_inv_save) (simp_all add: credential_init_def)
  then show ?thesis by (simp add: disconnect_github_def d1 d2)
qed

lemma github_inv_step:
  assumes "github_step fn c g g'" and "fernet_sound fn" and "codec_sound c" and "github_inv fn c g"
  shows "github_inv fn c g'"
  using assms
proof (induction rule: github_step.induct)
  case (init_flow env nonce g now dans)
  then show ?case using initiate_inv [of env g now dans] by simp
next
  case (poll env nonce g now tans uans)
  then show ?case using poll_inv [of env g now tans uans] by simp
next
  case (validate env nonce g now uans)
  then have acc: "file_accepts (token_ref (gm_account_id g))" "file_accepts (state_ref (gm_account_id g))"
    by (simp_all add: github_inv_def)
  then show ?case
    using validate_github_result(1) [of env now uans g "fst (validate_github env now uans g)"
        "snd (validate_github env now uans g)"] validate by simp
next
  case (submit env nonce tok g now uans)
  then show ?case using submit_inv [of env g tok now uans] by simp
next
  case (disconnect env nonce g)
  then show ?case using disconnect_inv [of env g] by simp
next
  case (restart env nonce g)
  then show ?case using restart_same [of fn c g env] by simp
qed

text \<open>
  C17. An authorization is backed: over any sequence of device flows, polls, validations, manual
  tokens, disconnections and restarts, whatever GitHub answers, AUTHORIZED means that a token is
  stored and readable, that its last scopes include the required ones and that it counts as valid;
  and a restart finds exactly the credential state that was in memory.
\<close>

theorem github_authorized_backed:
  assumes "fernet_sound fn" and "codec_sound c"
    and "file_accepts (token_ref account)" and "file_accepts (state_ref account)"
    and "file_retrieve fn secrets (state_ref account) = Inr None"
    and "(github_step fn c)\<^sup>*\<^sup>* (github_init \<lparr>ge_fernet = fn, ge_nonce = n, ge_codec = c\<rparr> client account secrets) g"
  shows "(gc_auth_status (gm_state g) = ''AUTHORIZED'' \<longrightarrow>
       (\<exists>t. t \<noteq> [] \<and> file_retrieve fn (gm_secrets g) (token_ref (gm_account_id g)) = Inr (Some t)) \<and>
       {''repo'', ''read:org''} \<subseteq> set (gc_scopes (gm_state g)) \<and> gc_token_status (gm_state g) = ''VALID'') \<and>
    gm_state (github_init \<lparr>ge_fernet = fn, ge_nonce = n', ge_codec = c\<rparr> (gm_client_id g) (gm_account_id g) (gm_secrets g)) =
      gm_state g"
proof -
  let ?g0 = "github_init \<lparr>ge_fernet = fn, ge_nonce = n, ge_codec = c\<rparr> client account secrets"
  have "?g0 = \<lparr>gm_secrets = secrets, gm_client_id = client, gm_account_id = account, gm_state = credential_init, gm_flow = None\<rparr>"
    using assms(5) by (simp add: github_init_def load_state_def)
  then have "github_inv fn c ?g0" using assms(3-5) by (simp add: github_inv_def saved_state_def credential_init_def)
  with assms(6) have g: "github_inv fn c g"
    by (induction rule: rtranclp_induct) (auto intro: github_inv_step [OF _ assms(1,2)])
  show ?thesis
    using g restart_same [OF g assms(2)] by (auto simp: github_inv_def token_of_def required_scopes_def)
qed

definition demo_secrets :: file_secrets where
  "demo_secrets = \<lparr>fs_key = ''k'', fs_files = []\<rparr>"

text \<open>A codec, with lengths in unary, that meets what is asked of the JSON one.\<close>

definition put_nat :: "nat \<Rightarrow> string" where
  "put_nat n = replicate n (CHR ''1'') @ ''0''"

fun take_nat :: "string \<Rightarrow> nat \<times> string" where
  "take_nat [] = (0, [])"
| "take_nat (c # cs) = (if c = CHR ''1'' then (case take_nat cs of (n, r) \<Rightarrow> (Suc n, r)) else (0, cs))"

definition put_str :: "string \<Rightarrow> string" where
  "put_str s = put_nat (length s) @ s"

definition take_str :: "string \<Rightarrow> string \<times> string" where
  "take_str b = (case take_nat b of (n, r) \<Rightarrow> (take n r, drop n r))"

definition put_int :: "int \<Rightarrow> string" where
  "put_int i = (if i < 0 then CHR ''-'' # put_nat (nat (- i)) else CHR ''+'' # put_nat (nat i))"

definition take_int :: "string \<Rightarrow> int \<times> string" where
  "take_int b = (case take_nat (tl b) of (n, r) \<Rightarrow> (if hd b = CHR ''-'' then - int n else int n, r))"

definition put_opt :: "('a \<Rightarrow> string) \<Rightarrow> 'a option \<Rightarrow> string" where
  "put_opt f v = (case v of None \<Rightarrow> ''0'' | Some x \<Rightarrow> CHR ''1'' # f x)"

definition take_opt :: "(string \<Rightarrow> 'a \<times> string) \<Rightarrow> string \<Rightarrow> 'a option \<times> string" where
  "take_opt f b = (if hd b = CHR ''1'' then (case f (tl b) of (x, r) \<Rightarrow> (Some x, r)) else (None, tl b))"

fun take_strs :: "nat \<Rightarrow> string \<Rightarrow> string list \<times> string" where
  "take_strs 0 b = ([], b)"
| "take_strs (Suc n) b = (case take_str b of (s, r) \<Rightarrow> (case take_strs n r of (ss, r') \<Rightarrow> (s # ss, r')))"

definition put_strs :: "string list \<Rightarrow> string" where
  "put_strs ss = put_nat (length ss) @ concat (map put_str ss)"

definition take_list :: "string \<Rightarrow> string list \<times> string" where
  "take_list b = (case take_nat b of (n, r) \<Rightarrow> take_strs n r)"

lemma take_put_nat [simp]: "take_nat (put_nat n @ r) = (n, r)"
  by (induction n) (simp_all add: put_nat_def)

lemma take_put_str [simp]: "take_str (put_str s @ r) = (s, r)"
  by (simp add: take_str_def put_str_def)

lemma take_put_int [simp]: "take_int (put_int i @ r) = (i, r)"
  by (simp add: take_int_def put_int_def)

lemma take_put_opt: "(\<And>x r. g (f x @ r) = (x, r)) \<Longrightarrow> take_opt g (put_opt f v @ r) = (v, r)"
  by (cases v) (simp_all add: take_opt_def put_opt_def)

lemma take_put_strs: "take_strs (length ss) (concat (map put_str ss) @ r) = (ss, r)"
  by (induction ss) simp_all

lemma take_put_list [simp]: "take_list (put_strs ss @ r) = (ss, r)"
  by (simp add: take_list_def put_strs_def take_put_strs)

definition unary_dump :: "credential_state \<Rightarrow> string" where
  "unary_dump st =
     put_opt put_str (gc_principal st) @ put_str (gc_auth_status st) @ put_str (gc_token_status st) @
     put_opt put_str (gc_token_expiry st) @ put_strs (gc_scopes st) @ put_opt put_int (gc_last_validation st) @
     put_opt put_int (gc_last_failure st) @ put_opt put_str (gc_last_failure_reason st)"

definition unary_load :: "string \<Rightarrow> credential_state option" where
  "unary_load b =
     (case take_opt take_str b of (who, b1) \<Rightarrow> case take_str b1 of (auth, b2) \<Rightarrow> case take_str b2 of (tok, b3) \<Rightarrow>
      case take_opt take_str b3 of (expiry, b4) \<Rightarrow> case take_list b4 of (scopes, b5) \<Rightarrow>
      case take_opt take_int b5 of (valid, b6) \<Rightarrow> case take_opt take_int b6 of (failed, b7) \<Rightarrow>
      case take_opt take_str b7 of (reason, _) \<Rightarrow>
        Some \<lparr>gc_principal = who, gc_auth_status = auth, gc_token_status = tok, gc_token_expiry = expiry,
              gc_scopes = scopes, gc_last_validation = valid, gc_last_failure = failed, gc_last_failure_reason = reason\<rparr>)"

definition unary_codec :: state_codec where
  "unary_codec = \<lparr>sc_dump = unary_dump, sc_load = unary_load\<rparr>"

lemma unary_sound: "codec_sound unary_codec"
proof -
  have "unary_load (unary_dump st @ []) = Some st" for st
    by (cases st) (simp add: unary_load_def unary_dump_def take_put_opt del: append_Nil2)
  moreover have "unary_dump st \<noteq> []" for st by (simp add: unary_dump_def put_opt_def split: option.split)
  ultimately show ?thesis by (simp add: codec_sound_def unary_codec_def)
qed

definition demo_github_env :: github_env where
  "demo_github_env = \<lparr>ge_fernet = demo_fernet, ge_nonce = ''n'', ge_codec = unary_codec\<rparr>"

definition demo_github :: github_manager where
  "demo_github = fst (store_and_validate_token demo_github_env 9
     (Http_ok \<lparr>ua_login = Some ''ann'', ua_scopes = ''repo, read:org''\<rparr>) ''ghp''
     (github_init demo_github_env ''cid'' None demo_secrets))"

theorem github_authorized_backed_witness:
  "gc_auth_status (gm_state demo_github) = ''AUTHORIZED'' \<and>
   (\<exists>t. t \<noteq> [] \<and> file_retrieve demo_fernet (gm_secrets demo_github) (token_ref (gm_account_id demo_github)) = Inr (Some t)) \<and>
   gm_state (github_init demo_github_env ''cid'' None (gm_secrets demo_github)) = gm_state demo_github"
proof -
  have refs: "file_accepts (token_ref None)" "file_accepts (state_ref None)"
    by (simp_all add: token_ref_def state_ref_def file_accepts_def matches_reference_def reference_char_def)
  have empty: "file_retrieve demo_fernet demo_secrets (state_ref None) = Inr None"
    using refs(2) by (simp add: file_retrieve_def safe_reference_cases demo_secrets_def file_accepts_def)
  have fs: "fernet_sound demo_fernet" by (simp add: fernet_sound_def demo_fernet_def)
  have "github_step demo_fernet unary_codec (github_init demo_github_env ''cid'' None demo_secrets) demo_github"
    unfolding demo_github_def by (rule github_step.submit) (simp_all add: demo_github_env_def)
  then have steps: "(github_step demo_fernet unary_codec)\<^sup>*\<^sup>*
      (github_init \<lparr>ge_fernet = demo_fernet, ge_nonce = ''n'', ge_codec = unary_codec\<rparr> ''cid'' None demo_secrets) demo_github"
    unfolding demo_github_env_def by blast
  have auth: "gc_auth_status (gm_state demo_github) = ''AUTHORIZED''" "gm_account_id demo_github = None"
      "gm_client_id demo_github = ''cid''"
    by code_simp+
  show ?thesis
    using github_authorized_backed [OF fs unary_sound refs empty steps, of "''n''"] auth
    unfolding demo_github_env_def by auto
qed

section \<open>What becomes of a token GitHub granted\<close>

text \<open>
  When the user API cannot be reached right after GitHub granted a token, the token is deleted
  and the reason given is its scopes.
\<close>

lemma granted_token_lost:
  assumes "github_inv (ge_fernet env) (ge_codec env) g" and "fernet_sound (ge_fernet env)"
    and "gm_flow g = Some f" and "now - df_started_at f \<le> seconds (df_expires_in f)"
    and "poll_device_flow env now (Http_ok (Access_token tok)) (Http_failed e) g = (g', p)"
  shows "token_of (ge_fernet env) g' = Inr None \<and> p \<noteq> P_AUTHORIZED"
proof -
  have a: "accept_token env now (Http_failed e) tok g = (g', p)"
    using assms(3-5) by (simp add: poll_device_flow_def)
  have "p \<noteq> P_AUTHORIZED"
    using a by (auto simp: accept_token_def validate_github_def judge_token_def Let_def
        split: sum.splits prod.splits if_splits bool.splits)
  then show ?thesis using accept_token_inv [OF a assms(2,1)] by simp
qed

text \<open>A stored token that cannot be decrypted still counts as a token.\<close>

lemma unreadable_token_counts:
  assumes "file_accepts (token_ref (gm_account_id g))" and "dict_get (fs_files (gm_secrets g)) (token_ref (gm_account_id g)) = Some b"
    and "fn_decrypt fn (fs_key (gm_secrets g)) b = None"
  shows "has_token g = Inr True \<and> token_of fn g = Inr None"
  using assms by (auto simp: has_token_def token_of_def file_exists_def file_retrieve_def safe_reference_cases file_accepts_def)

end
