(* ===== verification/Fabric.thy ===== *)
theory Fabric
  imports Executor
begin

text \<open>
  The read-only GitHub client (runtime/github/client.py), the organization discovery
  (runtime/github/discovery.py) and the Repository Fabric read over it (runtime/fabric/models.py,
  runtime/fabric/github_adapter.py). GitHub itself is an argument: the reply to a request, as a
  function of the token and the URL. The codecs of the Python library (UTF-8, base64,
  \<open>json.loads\<close>, HMAC) are arguments too. Logging, timeouts and the extra headers no
  caller passes are left out.
\<close>

section \<open>Values read from JSON\<close>

text \<open>The name of the Python class of a value, as it appears in the messages of exceptions.\<close>

fun py_class :: "json \<Rightarrow> string" where
  "py_class JNull = ''NoneType''"
| "py_class (JBool _) = ''bool''"
| "py_class (JInt _) = ''int''"
| "py_class (JFloat _) = ''float''"
| "py_class (JStr _) = ''str''"
| "py_class (JList _) = ''list''"
| "py_class (JObj _) = ''dict''"

definition no_attribute :: "string \<Rightarrow> string \<Rightarrow> exn" where
  "no_attribute cls a = AttributeError (quoted cls @ '' object has no attribute '' @ quoted a)"

text \<open>\<open>v[k]\<close> for a string key, and \<open>v.get(k, default)\<close>.\<close>

fun item_of :: "json \<Rightarrow> string \<Rightarrow> json result" where
  "item_of (JObj kvs) k = (case dict_get kvs k of Some v \<Rightarrow> Inr v | None \<Rightarrow> Inl (KeyError (quoted k)))"
| "item_of (JStr _) k = Inl (TypeError ''string indices must be integers'')"
| "item_of (JList _) k = Inl (TypeError ''list indices must be integers or slices, not str'')"
| "item_of v k = Inl (TypeError (quoted (py_class v) @ '' object is not subscriptable''))"

fun get_of :: "json \<Rightarrow> string \<Rightarrow> json \<Rightarrow> json result" where
  "get_of (JObj kvs) k d = Inr (case dict_get kvs k of Some v \<Rightarrow> v | None \<Rightarrow> d)"
| "get_of v k d = Inl (no_attribute (py_class v) ''get'')"

text \<open>\<open>str.upper\<close> and \<open>str.lower\<close> on ASCII.\<close>

definition upper_char :: "char \<Rightarrow> char" where
  "upper_char c = (let n = of_char c :: nat in if 97 \<le> n \<and> n \<le> 122 then char_of (n - 32) else c)"

definition to_lower_char :: "char \<Rightarrow> char" where
  "to_lower_char c = (let n = of_char c :: nat in if 65 \<le> n \<and> n \<le> 90 then char_of (n + 32) else c)"

definition mentions :: "string \<Rightarrow> string \<Rightarrow> bool" where
  "mentions s p = sublist p s"

fun upper_of :: "json \<Rightarrow> string result" where
  "upper_of (JStr s) = Inr (map upper_char s)"
| "upper_of v = Inl (no_attribute (py_class v) ''upper'')"

section \<open>GitHubClient\<close>

text \<open>The exceptions of the client; \<open>Foreign\<close> is any other one.\<close>

datatype gh_exn =
    GitHubClientError string
  | GitHubAuthError string
  | GitHubNotFoundError string
  | GitHubTimeoutError string
  | GitHubRateLimitError string
  | Foreign exn

fun gh_str :: "gh_exn \<Rightarrow> string" where
  "gh_str (GitHubClientError m) = m"
| "gh_str (GitHubAuthError m) = m"
| "gh_str (GitHubNotFoundError m) = m"
| "gh_str (GitHubTimeoutError m) = m"
| "gh_str (GitHubRateLimitError m) = m"
| "gh_str (Foreign e) = str_exn e"

text \<open>Every class of the client derives from \<open>GitHubClientError\<close>.\<close>

fun is_client_error :: "gh_exn \<Rightarrow> bool" where
  "is_client_error (Foreign _) = False"
| "is_client_error _ = True"

type_synonym 'a gh = "gh_exn + 'a"

text \<open>What \<open>urlopen\<close> does with a request: a body, or one of the exceptions it raises.\<close>

datatype http_reply =
    Http_body string
  | Http_status int string
  | Url_timeout
  | Url_failed string
  | Socket_timeout
  | Http_raised exn

text \<open>
  GitHub and the codecs. \<open>we_loads\<close> gives the message of the \<open>JSONDecodeError\<close>, or the
  value; \<open>we_str\<close> is \<open>str(v)\<close> of a value that is not a string.
\<close>

record web_env =
  we_net :: "string \<Rightarrow> string \<Rightarrow> http_reply"
  we_utf8 :: "string \<Rightarrow> string result"
  we_loads :: "string \<Rightarrow> string + json"
  we_b64 :: "string \<Rightarrow> string result"
  we_str :: "json \<Rightarrow> string"

text \<open>The backend of secrets is known by its \<open>retrieve\<close>.\<close>

record rest_client =
  rc_backend :: "(string \<Rightarrow> string result) option"
  rc_token :: "string option"
  rc_account_id :: "string option"

definition fmt :: "web_env \<Rightarrow> json \<Rightarrow> string" where
  "fmt env v = (case v of JStr s \<Rightarrow> s | _ \<Rightarrow> we_str env v)"

definition client_token_ref :: "rest_client \<Rightarrow> string" where
  "client_token_ref c =
     (if truthy_str (rc_account_id c) then ''acct-'' @ the (rc_account_id c) @ ''-github-token''
      else ''github-access-token'')"

definition client_token :: "web_env \<Rightarrow> rest_client \<Rightarrow> string gh" where
  "client_token env c =
     (let none = Inl (GitHubAuthError ''No GitHub access token available'')
      in if truthy_str (rc_token c) then Inr (the (rc_token c))
         else case rc_backend c of
             None \<Rightarrow> none
           | Some retrieve \<Rightarrow>
               (case retrieve (client_token_ref c) of
                  Inl _ \<Rightarrow> none
                | Inr b \<Rightarrow>
                    if b = [] then none
                    else (case we_utf8 env b of Inl _ \<Rightarrow> none | Inr s \<Rightarrow> Inr (strip s))))"

text \<open>\<open>urllib.parse.urlencode\<close> of string values.\<close>

definition hex_digit :: "nat \<Rightarrow> char" where
  "hex_digit n = (if n < 10 then char_of (48 + n) else char_of (55 + n))"

definition unreserved :: "char \<Rightarrow> bool" where
  "unreserved c =
     (let n = of_char c :: nat
      in (48 \<le> n \<and> n \<le> 57) \<or> (65 \<le> n \<and> n \<le> 90) \<or> (97 \<le> n \<and> n \<le> 122) \<or> c \<in> set ''_.-~'')"

definition quote_char :: "char \<Rightarrow> string" where
  "quote_char c =
     (if unreserved c then [c] else if c = CHR '' '' then ''+''
      else let n = of_char c :: nat in [CHR ''%'', hex_digit (n div 16), hex_digit (n mod 16)])"

definition quote_plus :: "string \<Rightarrow> string" where
  "quote_plus s = concat (map quote_char s)"

fun urlencode :: "(string \<times> string) list \<Rightarrow> string" where
  "urlencode [] = []"
| "urlencode [(k, v)] = quote_plus k @ ''='' @ quote_plus v"
| "urlencode ((k, v) # ps) = quote_plus k @ ''='' @ quote_plus v @ ''&'' @ urlencode ps"

definition request_url :: "string \<Rightarrow> (string \<times> string) list \<Rightarrow> string" where
  "request_url endpoint params =
     ''https://api.github.com'' @ endpoint @ (if params = [] then [] else ''?'' @ urlencode params)"

definition status_error :: "string \<Rightarrow> int \<Rightarrow> string \<Rightarrow> gh_exn" where
  "status_error endpoint code reason =
     (if code = 401 then GitHubAuthError (''GitHub API Unauthorized (401): '' @ reason)
      else if code = 404 then GitHubNotFoundError (''GitHub API Resource Not Found (404): '' @ endpoint)
      else if code = 403 \<and> mentions (map to_lower_char reason) ''rate limit''
      then GitHubRateLimitError (''GitHub API Rate Limit Exceeded (403): '' @ reason)
      else GitHubClientError (''GitHub API HTTP Error ('' @ str_int code @ ''): '' @ reason))"

definition client_request :: "web_env \<Rightarrow> rest_client \<Rightarrow> string \<Rightarrow> (string \<times> string) list \<Rightarrow> json gh" where
  "client_request env c endpoint params =
     (case client_token env c of
        Inl e \<Rightarrow> Inl e
      | Inr tok \<Rightarrow>
          let url = request_url endpoint params
          in case we_net env tok url of
              Http_body b \<Rightarrow>
                (case we_utf8 env b of
                   Inl e \<Rightarrow> Inl (Foreign e)
                 | Inr raw \<Rightarrow>
                     if raw = [] then Inr (JObj [])
                     else (case we_loads env raw of
                             Inl m \<Rightarrow> Inl (GitHubClientError (''Failed to decode GitHub API JSON response: '' @ m))
                           | Inr v \<Rightarrow> Inr v))
            | Http_status code reason \<Rightarrow> Inl (status_error endpoint code reason)
            | Url_timeout \<Rightarrow> Inl (GitHubTimeoutError (''GitHub API Request timed out: '' @ url))
            | Url_failed m \<Rightarrow> Inl (GitHubClientError (''GitHub API Network Error: '' @ m))
            | Socket_timeout \<Rightarrow> Inl (GitHubTimeoutError (''GitHub API Socket timed out: '' @ url))
            | Http_raised e \<Rightarrow> Inl (Foreign e))"

definition get_authenticated_principal :: "web_env \<Rightarrow> rest_client \<Rightarrow> json gh" where
  "get_authenticated_principal env c = client_request env c ''/user'' []"

definition list_organizations :: "web_env \<Rightarrow> rest_client \<Rightarrow> json gh" where
  "list_organizations env c = client_request env c ''/user/orgs'' [(''per_page'', ''100'')]"

definition list_repositories :: "web_env \<Rightarrow> rest_client \<Rightarrow> string option \<Rightarrow> json list gh" where
  "list_repositories env c org =
     (let res = (if truthy_str org
                 then client_request env c (''/orgs/'' @ the org @ ''/repos'') [(''per_page'', ''100''), (''type'', ''all'')]
                 else client_request env c ''/user/repos''
                        [(''per_page'', ''100''), (''affiliation'', ''owner,collaborator,organization_member'')])
      in case res of Inl e \<Rightarrow> Inl e | Inr (JList rs) \<Rightarrow> Inr rs | Inr _ \<Rightarrow> Inr [])"

definition get_repository :: "web_env \<Rightarrow> rest_client \<Rightarrow> string \<Rightarrow> string \<Rightarrow> json gh" where
  "get_repository env c owner repo = client_request env c (''/repos/'' @ owner @ ''/'' @ repo) []"

definition contents_endpoint :: "string \<Rightarrow> string \<Rightarrow> string \<Rightarrow> string" where
  "contents_endpoint owner repo path = ''/repos/'' @ owner @ ''/'' @ repo @ ''/contents/'' @ path"

definition ref_params :: "string option \<Rightarrow> (string \<times> string) list" where
  "ref_params ref = (if truthy_str ref then [(''ref'', the ref)] else [])"

text \<open>No exception of the client carries a \<open>status_code\<close>: the second handler re-raises.\<close>

definition remote_file_exists :: "web_env \<Rightarrow> rest_client \<Rightarrow> string \<Rightarrow> string \<Rightarrow> string \<Rightarrow> string option \<Rightarrow> bool gh" where
  "remote_file_exists env c owner repo path ref =
     (case client_request env c (contents_endpoint owner repo path) (ref_params ref) of
        Inr _ \<Rightarrow> Inr True
      | Inl (GitHubNotFoundError _) \<Rightarrow> Inr False
      | Inl e \<Rightarrow> Inl e)"

text \<open>
  The content of a file. \<open>we_b64\<close> is \<open>base64.b64decode\<close> of a string, which raises on
  other values; so does the decoding of the bytes.
\<close>

definition decode_content :: "web_env \<Rightarrow> json \<Rightarrow> json gh" where
  "decode_content env content =
     (case content of
        JStr s \<Rightarrow> (case and_then (we_b64 env s) (we_utf8 env) of Inl e \<Rightarrow> Inl (Foreign e) | Inr t \<Rightarrow> Inr (JStr t))
      | v \<Rightarrow> Inl (Foreign (TypeError
          (''argument should be a bytes-like object or ASCII string, not '' @ quoted (py_class v)))))"

definition get_file :: "web_env \<Rightarrow> rest_client \<Rightarrow> string \<Rightarrow> string \<Rightarrow> string \<Rightarrow> string option \<Rightarrow> json gh" where
  "get_file env c owner repo path ref =
     (case client_request env c (contents_endpoint owner repo path) (ref_params ref) of
        Inl e \<Rightarrow> Inl e
      | Inr res \<Rightarrow>
          let unexpected = Inl (GitHubClientError (''Unexpected response format for file '' @ path))
          in (case res of
                JObj kvs \<Rightarrow>
                  (case dict_get kvs ''content'' of
                     None \<Rightarrow> unexpected
                   | Some content \<Rightarrow>
                       let encoding = (case dict_get kvs ''encoding'' of Some v \<Rightarrow> v | None \<Rightarrow> JStr ''base64'')
                       in if encoding = JStr ''base64'' then decode_content env content else Inr content)
              | JStr s \<Rightarrow> Inr (JStr s)
              | _ \<Rightarrow> unexpected))"

definition search_code :: "web_env \<Rightarrow> rest_client \<Rightarrow> string \<Rightarrow> string \<Rightarrow> json gh" where
  "search_code env c repo query =
     client_request env c ''/search/code'' [(''q'', ''repo:'' @ repo @ '' '' @ query)]"

definition get_commit :: "web_env \<Rightarrow> rest_client \<Rightarrow> string \<Rightarrow> string \<Rightarrow> string \<Rightarrow> json gh" where
  "get_commit env c owner repo sha =
     client_request env c (''/repos/'' @ owner @ ''/'' @ repo @ ''/commits/'' @ sha) []"

definition is_commit_ancestor ::
  "web_env \<Rightarrow> rest_client \<Rightarrow> string \<Rightarrow> string \<Rightarrow> string \<Rightarrow> string \<Rightarrow> bool gh" where
  "is_commit_ancestor env c owner repo ancestor head =
     (if ancestor = head then Inr True
      else case client_request env c (''/repos/'' @ owner @ ''/'' @ repo @ ''/compare/'' @ ancestor @ ''...'' @ head) [] of
          Inr (JObj kvs) \<Rightarrow> Inr (dict_get kvs ''status'' \<in> {Some (JStr ''ahead''), Some (JStr ''identical'')})
        | Inr _ \<Rightarrow> Inr False
        | Inl e \<Rightarrow> if is_client_error e then Inr False else Inl e)"

definition validate_github_sha :: "web_env \<Rightarrow> rest_client \<Rightarrow> string \<Rightarrow> string \<Rightarrow> string \<Rightarrow> bool gh" where
  "validate_github_sha env c owner repo sha =
     (case get_commit env c owner repo sha of
        Inr (JObj kvs) \<Rightarrow> Inr (case dict_get kvs ''sha'' of Some v \<Rightarrow> truthy v | None \<Rightarrow> False)
      | Inr _ \<Rightarrow> Inr False
      | Inl e \<Rightarrow> if is_client_error e then Inr False else Inl e)"

section \<open>OrganizationDiscoveryService\<close>

record discovered_principal =
  dp_login :: json
  dp_identity_type :: json
  dp_authorization_state :: string
  dp_raw_metadata :: "(string \<times> json) list"

record discovered_organization =
  do_login :: json
  do_display_name :: json
  do_repository_count :: json
  do_raw_metadata :: "(string \<times> json) list"

record discovered_repository =
  dr_full_name :: json
  dr_name :: json
  dr_owner :: json
  dr_visibility :: string
  dr_archived :: json
  dr_default_branch :: json
  dr_latest_metadata :: "(string \<times> json) list"

definition jfield :: "(string \<times> json) list \<Rightarrow> string \<Rightarrow> json \<Rightarrow> json" where
  "jfield kvs k d = (case dict_get kvs k of Some v \<Rightarrow> v | None \<Rightarrow> d)"

definition fields_of :: "(string \<times> json) list \<Rightarrow> string list \<Rightarrow> (string \<times> json) list" where
  "fields_of kvs ks = map (\<lambda>k. (k, jfield kvs k JNull)) ks"

definition discover_principal :: "web_env \<Rightarrow> rest_client \<Rightarrow> discovered_principal gh" where
  "discover_principal env c =
     (case get_authenticated_principal env c of
        Inl e \<Rightarrow> Inl e
      | Inr (JObj kvs) \<Rightarrow>
          Inr \<lparr>dp_login = jfield kvs ''login'' (JStr ''unknown''), dp_identity_type = jfield kvs ''type'' (JStr ''User''),
               dp_authorization_state = ''AUTHORIZED'',
               dp_raw_metadata = fields_of kvs [''id'', ''name'', ''email'']\<rparr>
      | Inr v \<Rightarrow> Inl (Foreign (no_attribute (py_class v) ''get'')))"

fun organization_of :: "json \<Rightarrow> discovered_organization gh" where
  "organization_of (JObj kvs) =
     (let description = jfield kvs ''description'' JNull
      in Inr \<lparr>do_login = jfield kvs ''login'' (JStr []),
              do_display_name = (if truthy description then description else jfield kvs ''login'' JNull),
              do_repository_count = jfield kvs ''public_repos'' (JInt 0),
              do_raw_metadata = fields_of kvs [''id'', ''url'']\<rparr>)"
| "organization_of v = Inl (Foreign (no_attribute (py_class v) ''get''))"

fun gh_all :: "('a \<Rightarrow> 'b gh) \<Rightarrow> 'a list \<Rightarrow> 'b list gh" where
  "gh_all f [] = Inr []"
| "gh_all f (x # xs) =
     (case f x of Inl e \<Rightarrow> Inl e | Inr y \<Rightarrow> (case gh_all f xs of Inl e \<Rightarrow> Inl e | Inr ys \<Rightarrow> Inr (y # ys)))"

text \<open>The items a \<open>for\<close> loop takes from a value: the keys of a dict, the characters of a string.\<close>

fun items_of :: "json \<Rightarrow> json list gh" where
  "items_of (JList xs) = Inr xs"
| "items_of (JObj kvs) = Inr (map (JStr \<circ> fst) kvs)"
| "items_of (JStr s) = Inr (map (\<lambda>ch. JStr [ch]) s)"
| "items_of v = Inl (Foreign (TypeError (quoted (py_class v) @ '' object is not iterable'')))"

definition discover_organizations :: "web_env \<Rightarrow> rest_client \<Rightarrow> discovered_organization list gh" where
  "discover_organizations env c =
     (case list_organizations env c of
        Inl e \<Rightarrow> Inl e
      | Inr v \<Rightarrow> (case items_of v of Inl e \<Rightarrow> Inl e | Inr orgs \<Rightarrow> gh_all organization_of orgs))"

fun repository_of :: "json \<Rightarrow> discovered_repository gh" where
  "repository_of (JObj kvs) =
     Inr \<lparr>dr_full_name = jfield kvs ''full_name'' (JStr []), dr_name = jfield kvs ''name'' (JStr []),
          dr_owner = (case jfield kvs ''owner'' JNull of JObj ow \<Rightarrow> jfield ow ''login'' (JStr []) | _ \<Rightarrow> JStr []),
          dr_visibility = (if truthy (jfield kvs ''private'' (JBool False)) then ''private'' else ''public''),
          dr_archived = jfield kvs ''archived'' (JBool False),
          dr_default_branch = jfield kvs ''default_branch'' (JStr ''main''),
          dr_latest_metadata =
            fields_of kvs [''description'', ''pushed_at'', ''updated_at''] @
            [(''stargazers_count'', jfield kvs ''stargazers_count'' (JInt 0))]\<rparr>"
| "repository_of v = Inl (Foreign (no_attribute (py_class v) ''get''))"

definition discover_repositories :: "web_env \<Rightarrow> rest_client \<Rightarrow> string option \<Rightarrow> discovered_repository list gh" where
  "discover_repositories env c org =
     (case list_repositories env c org of Inl e \<Rightarrow> Inl e | Inr rs \<Rightarrow> gh_all repository_of rs)"

section \<open>Fabric models\<close>

text \<open>The fields hold whatever the documents of the Fabric hold.\<close>

record fabric_node =
  fn_node_id :: json
  fn_org :: json
  fn_repo :: json
  fn_purpose :: json
  fn_created_at :: json
  fn_status :: string

record fabric_tenant =
  ft_tenant_id :: json
  ft_runtime_id :: json
  ft_project_ids :: json
  ft_enrolled_at :: json
  ft_public_key_fingerprint :: json

record fabric_policy =
  fp_revision :: json
  fp_require_admission :: json
  fp_allow_local_models :: json
  fp_allow_remote_models :: json
  fp_max_workspace_size_mb :: json

record fabric_contract =
  fk_contract_id :: json
  fk_tenant_id :: json
  fk_granted_capabilities :: json
  fk_revoked_capabilities :: json

record trust_token =
  tt_runtime_id :: json
  tt_node_id :: json
  tt_issued_at :: string
  tt_expires_at :: string
  tt_signature :: string
  tt_verified :: bool

definition node_from_dict :: "json \<Rightarrow> fabric_node result" where
  "node_from_dict d =
     and_then (item_of d ''node_id'') (\<lambda>n. and_then (item_of d ''org'') (\<lambda>org.
     and_then (item_of d ''repo'') (\<lambda>repo. and_then (get_of d ''purpose'' (JStr ''REPOSITORY_FABRIC'')) (\<lambda>p.
     and_then (get_of d ''created_at'' (JStr [])) (\<lambda>c.
       Inr \<lparr>fn_node_id = n, fn_org = org, fn_repo = repo, fn_purpose = p, fn_created_at = c,
            fn_status = ''CONNECTED''\<rparr>)))))"

definition tenant_from_dict :: "json \<Rightarrow> fabric_tenant result" where
  "tenant_from_dict d =
     and_then (item_of d ''tenant_id'') (\<lambda>t. and_then (item_of d ''runtime_id'') (\<lambda>r.
     and_then (get_of d ''project_ids'' (JList [])) (\<lambda>ps. and_then (get_of d ''enrolled_at'' (JStr [])) (\<lambda>e.
     and_then (get_of d ''public_key_fingerprint'' JNull) (\<lambda>f.
       Inr \<lparr>ft_tenant_id = t, ft_runtime_id = r, ft_project_ids = ps, ft_enrolled_at = e,
            ft_public_key_fingerprint = f\<rparr>)))))"

definition policy_from_dict :: "json \<Rightarrow> fabric_policy result" where
  "policy_from_dict d =
     and_then (get_of d ''revision'' (JStr ''UNKNOWN'')) (\<lambda>r.
     and_then (get_of d ''require_admission'' (JBool True)) (\<lambda>a.
     and_then (get_of d ''allow_local_models'' (JBool True)) (\<lambda>l.
     and_then (get_of d ''allow_remote_models'' (JBool True)) (\<lambda>m.
     and_then (get_of d ''max_workspace_size_mb'' (JInt 1024)) (\<lambda>w.
       Inr \<lparr>fp_revision = r, fp_require_admission = a, fp_allow_local_models = l,
            fp_allow_remote_models = m, fp_max_workspace_size_mb = w\<rparr>)))))"

definition contract_from_dict :: "json \<Rightarrow> fabric_contract result" where
  "contract_from_dict d =
     and_then (get_of d ''contract_id'' (JStr ''UNKNOWN'')) (\<lambda>c.
     and_then (get_of d ''tenant_id'' (JStr ''UNKNOWN'')) (\<lambda>t.
     and_then (get_of d ''granted_capabilities'' (JList [])) (\<lambda>g.
     and_then (get_of d ''revoked_capabilities'' (JList [])) (\<lambda>r.
       Inr \<lparr>fk_contract_id = c, fk_tenant_id = t, fk_granted_capabilities = g,
            fk_revoked_capabilities = r\<rparr>))))"

section \<open>GitHubFabricAdapter\<close>

datatype fabric_exn = Fabric_error string string | Client_error gh_exn

type_synonym 'a fabric = "fabric_exn + 'a"

fun fabric_str :: "fabric_exn \<Rightarrow> string" where
  "fabric_str (Fabric_error code m) = ''['' @ code @ ''] '' @ m"
| "fabric_str (Client_error e) = gh_str e"

record fabric_adapter =
  fa_client :: rest_client
  fa_org :: string
  fa_repo :: string

text \<open>The two attributes of the configuration the constructor reads.\<close>

definition adapter_init ::
  "rest_client \<Rightarrow> string option \<Rightarrow> string option \<Rightarrow> (string option \<times> string option) option \<Rightarrow> fabric_adapter fabric" where
  "adapter_init c org repo config =
     (if truthy_str org \<and> truthy_str repo
      then Inr \<lparr>fa_client = c, fa_org = the org, fa_repo = the repo\<rparr>
      else case config of
          Some (corg, crepo) \<Rightarrow>
            (if truthy_str corg \<and> truthy_str crepo
             then Inr \<lparr>fa_client = c, fa_org = the corg, fa_repo = the crepo\<rparr>
             else Inl (Fabric_error ''FABRIC_CONFIG_MISSING''
                    ''fabric_org and fabric_repo must be provided explicitly or via config.''))
        | None \<Rightarrow> Inl (Fabric_error ''FABRIC_CONFIG_MISSING''
                    ''fabric_org and fabric_repo must be provided explicitly or via config.''))"

text \<open>The latency is an argument: the clock is read before and after the request.\<close>

definition probe_reachability :: "web_env \<Rightarrow> rat \<Rightarrow> fabric_adapter \<Rightarrow> bool \<times> rat \<times> string" where
  "probe_reachability env latency fa =
     (case get_repository env (fa_client fa) (fa_org fa) (fa_repo fa) of
        Inr _ \<Rightarrow> (True, latency, ''SUCCESS'')
      | Inl (GitHubNotFoundError _) \<Rightarrow> (False, 0, ''NOT_FOUND'')
      | Inl e \<Rightarrow>
          if is_client_error e
          then let m = map to_lower_char (gh_str e)
               in if mentions m ''401'' \<or> mentions m ''403'' \<or> mentions m ''unauthorized'' \<or> mentions m ''forbidden''
                  then (False, 0, ''AUTH_ERROR'') else (False, 0, ''NETWORK_ERROR: '' @ gh_str e)
          else (False, 0, ''UNKNOWN: '' @ gh_str e))"

record health_result =
  hr_reachable :: bool
  hr_node_id :: "string option"
  hr_latency_ms :: rat
  hr_error :: string

definition probe_health :: "web_env \<Rightarrow> rat \<Rightarrow> fabric_adapter \<Rightarrow> health_result" where
  "probe_health env latency fa =
     (case probe_reachability env latency fa of
        (r, l, e) \<Rightarrow> \<lparr>hr_reachable = r, hr_node_id = None, hr_latency_ms = l, hr_error = e\<rparr>)"

text \<open>
  \<open>json.loads\<close> of what \<open>get_file\<close> returned; a value that is not a string is
  refused. The left value tells a \<open>JSONDecodeError\<close> from the other exceptions.
\<close>

definition loads_content :: "web_env \<Rightarrow> json \<Rightarrow> (string + exn) + json" where
  "loads_content env content =
     (case content of
        JStr s \<Rightarrow> (case we_loads env s of Inl m \<Rightarrow> Inl (Inl m) | Inr v \<Rightarrow> Inr v)
      | v \<Rightarrow> Inl (Inr (TypeError (''the JSON object must be str, bytes or bytearray, not '' @ py_class v))))"

definition fabric_file :: "web_env \<Rightarrow> fabric_adapter \<Rightarrow> string \<Rightarrow> json gh" where
  "fabric_file env fa path = get_file env (fa_client fa) (fa_org fa) (fa_repo fa) path None"

text \<open>The three documents read alike, each with its own error codes.\<close>

definition read_document :: "web_env \<Rightarrow> string \<Rightarrow> string \<Rightarrow> string \<Rightarrow> fabric_adapter \<Rightarrow> json fabric" where
  "read_document env name malformed path fa =
     (case fabric_file env fa path of
        Inl (GitHubNotFoundError _) \<Rightarrow> Inl (Fabric_error (name @ ''_MISSING'') (path @ '' not found in Fabric repo''))
      | Inl e \<Rightarrow> Inl (Fabric_error (name @ ''_ERROR'') (''Could not read '' @ path @ '': '' @ gh_str e))
      | Inr content \<Rightarrow>
          (case loads_content env content of
             Inr v \<Rightarrow> Inr v
           | Inl (Inl m) \<Rightarrow> Inl (Fabric_error (name @ ''_MALFORMED'') (path @ malformed @ m))
           | Inl (Inr e) \<Rightarrow> Inl (Fabric_error (name @ ''_ERROR'') (''Could not read '' @ path @ '': '' @ str_exn e))))"

definition read_fabric_state :: "web_env \<Rightarrow> fabric_adapter \<Rightarrow> json fabric" where
  "read_fabric_state env = read_document env ''FABRIC_STATE'' '' is malformed: '' ''fabric/state.json''"

definition read_policy :: "web_env \<Rightarrow> fabric_adapter \<Rightarrow> json fabric" where
  "read_policy env = read_document env ''FABRIC_POLICY'' '' is malformed JSON: '' ''fabric/policy.json''"

definition read_contract :: "web_env \<Rightarrow> fabric_adapter \<Rightarrow> json fabric" where
  "read_contract env = read_document env ''FABRIC_CONTRACT'' '' is malformed JSON: '' ''fabric/contract.json''"

definition read_node_config :: "web_env \<Rightarrow> fabric_adapter \<Rightarrow> fabric_node fabric" where
  "read_node_config env fa =
     (case read_document env ''FABRIC_NODE'' '' is malformed JSON: '' ''fabric/node.json'' fa of
        Inl e \<Rightarrow> Inl e
      | Inr d \<Rightarrow>
          (case node_from_dict d of
             Inr n \<Rightarrow> Inr n
           | Inl e \<Rightarrow> Inl (Fabric_error ''FABRIC_NODE_ERROR'' (''Could not read fabric/node.json: '' @ str_exn e))))"

text \<open>The parsed reply of the contents endpoint; a reply that is a JSON string is parsed again.\<close>

definition reparse :: "web_env \<Rightarrow> json \<Rightarrow> (string + exn) + json" where
  "reparse env v = (case v of JStr s \<Rightarrow> loads_content env v | _ \<Rightarrow> Inr v)"

definition node_json_exists_at_remote_head :: "web_env \<Rightarrow> fabric_adapter \<Rightarrow> bool \<times> json" where
  "node_json_exists_at_remote_head env fa =
     (case client_request env (fa_client fa) (contents_endpoint (fa_org fa) (fa_repo fa) ''fabric/node.json'') [] of
        Inl _ \<Rightarrow> (False, JNull)
      | Inr v \<Rightarrow>
          (case reparse env v of
             Inl _ \<Rightarrow> (False, JNull)
           | Inr (JObj kvs) \<Rightarrow> (True, jfield kvs ''sha'' JNull)
           | Inr _ \<Rightarrow> (True, JNull)))"

definition read_tenant_binding :: "web_env \<Rightarrow> json \<Rightarrow> fabric_adapter \<Rightarrow> fabric_tenant fabric" where
  "read_tenant_binding env rid fa =
     (let path = ''fabric/tenants/'' @ fmt env rid @ ''.json'';
          failed = (\<lambda>m. Inl (Fabric_error ''FABRIC_TENANT_ERROR'' (''Could not read '' @ path @ '': '' @ m)))
      in case fabric_file env fa path of
          Inl (GitHubNotFoundError _) \<Rightarrow>
            Inl (Fabric_error ''TENANT_UNBOUND'' (''No tenant binding found for '' @ fmt env rid))
        | Inl e \<Rightarrow> failed (gh_str e)
        | Inr content \<Rightarrow>
            (case loads_content env content of
               Inl (Inl m) \<Rightarrow> failed m
             | Inl (Inr e) \<Rightarrow> failed (str_exn e)
             | Inr d \<Rightarrow>
                 (case tenant_from_dict d of
                    Inl e \<Rightarrow> failed (str_exn e)
                  | Inr t \<Rightarrow>
                      if ft_runtime_id t \<noteq> rid
                      then Inl (Fabric_error ''TENANT_MISMATCH''
                             (''Tenant record runtime_id '' @ quoted (fmt env (ft_runtime_id t)) @
                              '' != expected '' @ quoted (fmt env rid)))
                      else Inr t)))"

record admission =
  ad_verdict :: string
  ad_reason :: json
  ad_raw :: json

definition is_admitted :: "admission \<Rightarrow> bool" where
  "is_admitted a \<longleftrightarrow> ad_verdict a = ''ALLOW''"

text \<open>\<open>json.loads\<close> and the two \<open>get\<close>s with the \<open>upper\<close> of a verdict.\<close>

definition verdict_of :: "web_env \<Rightarrow> json \<Rightarrow> string \<Rightarrow> string \<Rightarrow> string + (string \<times> json)" where
  "verdict_of env content k default_value =
     (case loads_content env content of
        Inl (Inl m) \<Rightarrow> Inl m
      | Inl (Inr e) \<Rightarrow> Inl (str_exn e)
      | Inr d \<Rightarrow>
          (case and_then (get_of d k (JStr default_value)) upper_of of
             Inl e \<Rightarrow> Inl (str_exn e)
           | Inr v \<Rightarrow> Inr (v, d)))"

definition default_admission :: "web_env \<Rightarrow> fabric_adapter \<Rightarrow> admission" where
  "default_admission env fa =
     (let evaluation_failed = (\<lambda>m. \<lparr>ad_verdict = ''ERROR'',
            ad_reason = JStr (''Admission policy evaluation failed: '' @ m), ad_raw = JObj []\<rparr>)
      in case fabric_file env fa ''fabric/node.json'' of
          Inl (GitHubNotFoundError _) \<Rightarrow>
            \<lparr>ad_verdict = ''DENY'',
             ad_reason = JStr ''fabric/node.json not found: cannot determine admission policy'', ad_raw = JObj []\<rparr>
        | Inl e \<Rightarrow> evaluation_failed (gh_str e)
        | Inr content \<Rightarrow>
            (case verdict_of env content ''default_admission_policy'' ''DENY'' of
               Inl m \<Rightarrow> evaluation_failed m
             | Inr (v, d) \<Rightarrow>
                 \<lparr>ad_verdict = v, ad_reason = JStr (''No explicit record: default policy from node.json: '' @ v),
                  ad_raw = d\<rparr>))"

definition check_admission :: "web_env \<Rightarrow> json \<Rightarrow> fabric_adapter \<Rightarrow> admission" where
  "check_admission env rid fa =
     (let check_failed = (\<lambda>m. \<lparr>ad_verdict = ''ERROR'', ad_reason = JStr (''Admission check failed: '' @ m), ad_raw = JObj []\<rparr>)
      in case fabric_file env fa (''fabric/admissions/'' @ fmt env rid @ ''.json'') of
          Inl (GitHubNotFoundError _) \<Rightarrow> default_admission env fa
        | Inl e \<Rightarrow> check_failed (gh_str e)
        | Inr content \<Rightarrow>
            (case verdict_of env content ''verdict'' ''UNKNOWN'' of
               Inl m \<Rightarrow> check_failed m
             | Inr (v, d) \<Rightarrow>
                 \<lparr>ad_verdict = v, ad_reason = (case get_of d ''reason'' (JStr []) of Inr r \<Rightarrow> r | Inl _ \<Rightarrow> JNull), ad_raw = d\<rparr>))"

definition validate_provenance ::
  "web_env \<Rightarrow> string option \<Rightarrow> string option \<Rightarrow> string option \<Rightarrow> fabric_adapter \<Rightarrow> bool \<times> string option" where
  "validate_provenance env sha_opt expected_org expected_repo fa =
     (if \<not> truthy_str sha_opt \<or> length (the sha_opt) < 7 then (False, Some ''Invalid commit SHA'')
      else let sha = the sha_opt;
               org = (if truthy_str expected_org then the expected_org else fa_org fa);
               repo = (if truthy_str expected_repo then the expected_repo else fa_repo fa);
               here = fa_org fa @ ''/'' @ fa_repo fa
           in if org \<noteq> fa_org fa \<or> repo \<noteq> fa_repo fa
              then (False, Some (''Commit repository mismatch: '' @ org @ ''/'' @ repo @ '' != '' @ here))
              else case get_commit env (fa_client fa) (fa_org fa) (fa_repo fa) sha of
                  Inl (GitHubNotFoundError _) \<Rightarrow> (False, Some (''Commit '' @ take 7 sha @ '' not found in '' @ here))
                | Inl e \<Rightarrow> (False, Some (''Provenance check error: '' @ gh_str e))
                | Inr v \<Rightarrow>
                    (case reparse env v of
                       Inl (Inl m) \<Rightarrow> (False, Some (''Provenance check error: '' @ m))
                     | Inl (Inr e) \<Rightarrow> (False, Some (''Provenance check error: '' @ str_exn e))
                     | Inr (JObj kvs) \<Rightarrow>
                         if truthy (jfield kvs ''sha'' JNull) then (True, None) else (False, Some ''Commit object malformed'')
                     | Inr _ \<Rightarrow> (False, Some ''Commit object malformed'')))"

text \<open>
  Only a missing record falls through to the commit; an unreadable one raises. Whatever else the
  client raises while the commit is read means that nothing was found.
\<close>

definition get_provenance :: "web_env \<Rightarrow> string \<Rightarrow> fabric_adapter \<Rightarrow> json fabric" where
  "get_provenance env pid fa =
     (let missing = Inl (Fabric_error ''PROVENANCE_NOT_FOUND'' (''Provenance '' @ pid @ '' not found''))
      in case fabric_file env fa (''fabric/provenance/'' @ pid @ ''.json'') of
          Inr content \<Rightarrow>
            (case loads_content env content of
               Inr v \<Rightarrow> Inr v
             | Inl (Inl m) \<Rightarrow> Inl (Client_error (Foreign (ValueError m)))
             | Inl (Inr e) \<Rightarrow> Inl (Client_error (Foreign e)))
        | Inl (GitHubNotFoundError _) \<Rightarrow>
            (case get_commit env (fa_client fa) (fa_org fa) (fa_repo fa) pid of
               Inr (JObj kvs) \<Rightarrow>
                 if kvs = [] then missing
                 else Inr (JObj [(''provenance_id'', JStr pid), (''org'', JStr (fa_org fa)),
                        (''repo'', JStr (fa_repo fa)), (''commit_sha'', jfield kvs ''sha'' JNull),
                        (''verified'', JBool True), (''raw'', JObj kvs)])
             | Inr _ \<Rightarrow> missing
             | Inl e \<Rightarrow> if is_client_error e then missing else Inl (Client_error e))
        | Inl e \<Rightarrow> Inl (Client_error e))"

text \<open>The clock is read once: \<open>issued\<close> and \<open>expires\<close> are its renderings, an hour apart.\<close>

definition issue_trust_token ::
  "web_env \<Rightarrow> (string \<Rightarrow> string \<Rightarrow> string) \<Rightarrow> string \<Rightarrow> string \<Rightarrow> json \<Rightarrow> string \<Rightarrow> fabric_adapter
     \<Rightarrow> trust_token fabric" where
  "issue_trust_token env hmac issued expires rid private_key fa =
     (case client_token env (fa_client fa) of
        Inl _ \<Rightarrow> Inl (Fabric_error ''FABRIC_AUTH_ERROR'' ''No GitHub token available for trust generation'')
      | Inr tok \<Rightarrow>
          let node_id = (case read_node_config env fa of Inr n \<Rightarrow> fn_node_id n | Inl _ \<Rightarrow> JStr ''UNKNOWN-NODE'')
          in Inr \<lparr>tt_runtime_id = rid, tt_node_id = node_id, tt_issued_at = issued, tt_expires_at = expires,
                  tt_signature = hmac private_key
                    (fmt env rid @ '':'' @ fmt env node_id @ '':'' @ issued @ '':'' @ tok),
                  tt_verified = True\<rparr>)"

section \<open>What the client sends\<close>

lemma request_unauthenticated:
  assumes "client_token env c = Inl e"
  shows "client_request env c endpoint params = Inl e"
  using assms by (simp add: client_request_def)

text \<open>
  The client talks to the API host only, with its own token: replies to any other request
  make no difference to what it returns.
\<close>

definition same_api :: "string \<Rightarrow> web_env \<Rightarrow> web_env \<Rightarrow> bool" where
  "same_api tok env env' \<longleftrightarrow>
     env' = env\<lparr>we_net := we_net env'\<rparr> \<and>
     (\<forall>endpoint params. we_net env' tok (request_url endpoint params) = we_net env tok (request_url endpoint params))"

lemma client_token_cong:
  assumes "we_utf8 env' = we_utf8 env"
  shows "client_token env' c = client_token env c"
  unfolding client_token_def assms ..

lemma request_confined:
  assumes tok: "client_token env c = Inr tok" and same: "same_api tok env env'"
  shows "client_request env' c endpoint params = client_request env c endpoint params"
proof -
  obtain n where n: "env' = env\<lparr>we_net := n\<rparr>"
    using same by (auto simp: same_api_def)
  then have "client_token env' c = Inr tok"
    using tok client_token_cong [of env' env c] by simp
  moreover have "we_net env' tok (request_url endpoint params) = we_net env tok (request_url endpoint params)"
    using same by (simp add: same_api_def)
  moreover have "we_utf8 env' = we_utf8 env" "we_loads env' = we_loads env"
    by (simp_all add: n)
  ultimately show ?thesis
    unfolding client_request_def tok by (simp only: sum.case Let_def)
qed

section \<open>What the Fabric answers\<close>

lemma read_document_error:
  "read_document env name malformed path fa = Inl e \<Longrightarrow>
     \<exists>code m. e = Fabric_error (name @ code) m \<and> code \<in> {''_MISSING'', ''_ERROR'', ''_MALFORMED''}"
  by (auto simp: read_document_def split: sum.splits gh_exn.splits)

lemma read_node_config_error: "read_node_config env fa = Inl e \<Longrightarrow> \<exists>code m. e = Fabric_error code m"
  by (auto simp: read_node_config_def dest: read_document_error split: sum.splits)

lemma tenant_bound_to_runtime:
  "read_tenant_binding env rid fa = Inr t \<Longrightarrow> ft_runtime_id t = rid"
  by (auto simp: read_tenant_binding_def Let_def split: sum.splits gh_exn.splits if_splits)

lemma read_tenant_binding_error:
  "read_tenant_binding env rid fa = Inl e \<Longrightarrow> \<exists>code m. e = Fabric_error code m"
  by (auto simp: read_tenant_binding_def Let_def split: sum.splits gh_exn.splits if_splits)

lemma trust_token_self_issued:
  "(\<exists>t. issue_trust_token env hmac issued expires rid key fa = Inr t) \<longleftrightarrow>
     (\<exists>tok. client_token env (fa_client fa) = Inr tok)"
  by (auto simp: issue_trust_token_def Let_def split: sum.splits)

text \<open>An admission comes from a document that says so, read from the Fabric.\<close>

definition document_allows :: "web_env \<Rightarrow> fabric_adapter \<Rightarrow> string \<Rightarrow> string \<Rightarrow> bool" where
  "document_allows env fa path k \<longleftrightarrow>
     (\<exists>text kvs v. fabric_file env fa path = Inr (JStr text) \<and> we_loads env text = Inr (JObj kvs) \<and>
        dict_get kvs k = Some (JStr v) \<and> map upper_char v = ''ALLOW'')"

definition document_absent :: "web_env \<Rightarrow> fabric_adapter \<Rightarrow> string \<Rightarrow> bool" where
  "document_absent env fa path \<longleftrightarrow> (\<exists>m. fabric_file env fa path = Inl (GitHubNotFoundError m))"

lemma upper_of_Inr: "upper_of v = Inr s \<longleftrightarrow> (\<exists>t. v = JStr t \<and> s = map upper_char t)"
  by (cases v) auto

lemma get_of_Inr:
  "get_of d k dv = Inr v \<longleftrightarrow> (\<exists>kvs. d = JObj kvs \<and> v = (case dict_get kvs k of Some w \<Rightarrow> w | None \<Rightarrow> dv))"
  by (cases d) auto

lemma loads_content_Inr:
  "loads_content env c = Inr d \<longleftrightarrow> (\<exists>t. c = JStr t \<and> we_loads env t = Inr d)"
  by (auto simp: loads_content_def split: json.splits sum.splits)

lemma verdict_of_Inr:
  "verdict_of env content k dv = Inr (s, d) \<longleftrightarrow>
     (\<exists>t kvs v. content = JStr t \<and> we_loads env t = Inr (JObj kvs) \<and> d = JObj kvs \<and>
        (case dict_get kvs k of Some w \<Rightarrow> w | None \<Rightarrow> JStr dv) = JStr v \<and> s = map upper_char v)"
proof -
  have "verdict_of env content k dv = Inr (s, d) \<longleftrightarrow>
      loads_content env content = Inr d \<and> and_then (get_of d k (JStr dv)) upper_of = Inr s"
    by (auto simp: verdict_of_def split: sum.splits)
  also have "\<dots> \<longleftrightarrow> loads_content env content = Inr d \<and>
      (\<exists>kvs v. d = JObj kvs \<and> (case dict_get kvs k of Some w \<Rightarrow> w | None \<Rightarrow> JStr dv) = JStr v \<and> s = map upper_char v)"
    by (auto simp: get_of_Inr upper_of_Inr)
  finally show ?thesis by (auto simp: loads_content_Inr)
qed

lemma verdict_allows:
  assumes "map upper_char dv \<noteq> ''ALLOW''"
  shows "(\<exists>content d. fabric_file env fa path = Inr content \<and> verdict_of env content k dv = Inr (''ALLOW'', d)) \<longleftrightarrow>
     document_allows env fa path k" (is "?l \<longleftrightarrow> ?r")
proof
  assume ?l
  then obtain t kvs v where *: "fabric_file env fa path = Inr (JStr t)" "we_loads env t = Inr (JObj kvs)"
      "(case dict_get kvs k of Some w \<Rightarrow> w | None \<Rightarrow> JStr dv) = JStr v" "map upper_char v = ''ALLOW''"
    unfolding verdict_of_Inr by metis
  then have "dict_get kvs k = Some (JStr v)"
    using assms by (auto split: option.splits)
  then show ?r using * by (auto simp: document_allows_def)
next
  assume ?r
  then show ?l by (force simp: document_allows_def verdict_of_Inr)
qed

lemma default_admission_iff:
  "is_admitted (default_admission env fa) \<longleftrightarrow>
     document_allows env fa ''fabric/node.json'' ''default_admission_policy''"
proof -
  have deny: "map upper_char ''DENY'' \<noteq> ''ALLOW''" by code_simp
  have "is_admitted (default_admission env fa) \<longleftrightarrow>
      (\<exists>content d. fabric_file env fa ''fabric/node.json'' = Inr content \<and>
         verdict_of env content ''default_admission_policy'' ''DENY'' = Inr (''ALLOW'', d))"
    by (simp add: default_admission_def is_admitted_def Let_def split: sum.splits gh_exn.splits prod.splits)
  then show ?thesis by (simp only: verdict_allows [OF deny])
qed

lemma admission_iff:
  "is_admitted (check_admission env rid fa) \<longleftrightarrow>
     document_allows env fa (''fabric/admissions/'' @ fmt env rid @ ''.json'') ''verdict'' \<or>
     document_absent env fa (''fabric/admissions/'' @ fmt env rid @ ''.json'') \<and>
     document_allows env fa ''fabric/node.json'' ''default_admission_policy''"
proof -
  let ?p = "''fabric/admissions/'' @ fmt env rid @ ''.json''"
  have unknown: "map upper_char ''UNKNOWN'' \<noteq> ''ALLOW''" by code_simp
  have "is_admitted (check_admission env rid fa) \<longleftrightarrow>
      (\<exists>content d. fabric_file env fa ?p = Inr content \<and> verdict_of env content ''verdict'' ''UNKNOWN'' = Inr (''ALLOW'', d)) \<or>
      document_absent env fa ?p \<and> is_admitted (default_admission env fa)"
  proof (cases "fabric_file env fa ?p")
    case (Inl e)
    then show ?thesis
      by (cases e) (simp_all add: check_admission_def is_admitted_def document_absent_def Let_def)
  next
    case (Inr c)
    then show ?thesis
      by (auto simp: check_admission_def is_admitted_def document_absent_def Let_def split: sum.splits)
  qed
  then show ?thesis by (simp only: verdict_allows [OF unknown] default_admission_iff)
qed

end
