(* ===== verification/Identity.thy ===== *)
theory Identity
  imports Enrollment Fabric
begin

text \<open>
  The identity of the runtime (runtime/identity/runtime_identity.py): its key pair, its public
  manifest and the two files it is kept in. The key material (PEM, Ed25519 signatures) belongs
  to a third-party package and is the argument \<open>ed25519\<close>; random identifiers, the
  version and the clock are arguments of \<open>identity_generate\<close>. The fields hold JSON
  values: \<open>load\<close> takes what the document holds.
\<close>

record runtime_identity =
  ri_runtime_id :: json
  ri_installation_id :: json
  ri_private_key :: string
  ri_public_key :: json
  ri_platform :: json
  ri_runtime_version :: json
  ri_protocol_version :: json
  ri_generation :: json
  ri_created_at :: json

text \<open>
  The package: a new pair (PEM bytes and hexadecimal public key), a signature under a PEM key, the
  check of a signature (\<open>None\<close> where the key bytes are refused with \<open>ValueError\<close>).
\<close>

record ed25519 =
  ed_generate :: "string \<times> string"
  ed_sign :: "string \<Rightarrow> nat list \<Rightarrow> nat list result"
  ed_verify :: "nat list \<Rightarrow> nat list \<Rightarrow> nat list \<Rightarrow> bool option"

definition identity_generate ::
  "ed25519 \<Rightarrow> string \<Rightarrow> string \<Rightarrow> string \<Rightarrow> string \<Rightarrow> string \<Rightarrow> runtime_identity" where
  "identity_generate ed hex1 hex2 version now_iso platform =
     \<lparr>ri_runtime_id = JStr (''RT-'' @ hex1), ri_installation_id = JStr (''INST-'' @ hex2),
      ri_private_key = fst (ed_generate ed), ri_public_key = JStr (snd (ed_generate ed)),
      ri_platform = JStr platform, ri_runtime_version = JStr version, ri_protocol_version = JStr ''0.1'',
      ri_generation = JInt 1, ri_created_at = JStr now_iso\<rparr>"

definition public_manifest :: "runtime_identity \<Rightarrow> (string \<times> json) list" where
  "public_manifest i =
     [(''runtime_id'', ri_runtime_id i), (''installation_id'', ri_installation_id i),
      (''public_key'', ri_public_key i), (''platform'', ri_platform i),
      (''runtime_version'', ri_runtime_version i), (''protocol_version'', ri_protocol_version i),
      (''generation'', ri_generation i), (''created_at'', ri_created_at i)]"

text \<open>The directory \<open>identity/\<close>: the parsed manifest (the left value is what parsing raises),
  the key and its mode.\<close>

record identity_dir =
  id_manifest :: "json result option"
  id_key :: "(string \<times> int) option"

definition identity_save :: "runtime_identity \<Rightarrow> identity_dir \<Rightarrow> identity_dir" where
  "identity_save i d =
     d\<lparr>id_manifest := Some (Inr (JObj (public_manifest i))),
       id_key := Some (ri_private_key i, 384)\<rparr>"

definition no_file :: "string \<Rightarrow> exn" where
  "no_file path = FileNotFoundError (''[Errno 2] No such file or directory: '' @ quoted path)"

definition identity_load :: "string \<Rightarrow> identity_dir \<Rightarrow> runtime_identity result" where
  "identity_load data_dir d =
     and_then (case id_manifest d of Some m \<Rightarrow> m
                 | None \<Rightarrow> Inl (no_file (data_dir @ ''/identity/runtime_identity.json''))) (\<lambda>m.
     and_then (case id_key d of Some (k, _) \<Rightarrow> Inr k
                 | None \<Rightarrow> Inl (no_file (data_dir @ ''/identity/private_key.pem''))) (\<lambda>key.
     and_then (item_of m ''runtime_id'') (\<lambda>rid. and_then (item_of m ''installation_id'') (\<lambda>inst.
     and_then (item_of m ''public_key'') (\<lambda>pub. and_then (item_of m ''platform'') (\<lambda>plat.
     and_then (item_of m ''runtime_version'') (\<lambda>rv. and_then (item_of m ''protocol_version'') (\<lambda>pv.
     and_then (item_of m ''generation'') (\<lambda>g. and_then (item_of m ''created_at'') (\<lambda>c.
       Inr \<lparr>ri_runtime_id = rid, ri_installation_id = inst, ri_private_key = key, ri_public_key = pub,
            ri_platform = plat, ri_runtime_version = rv, ri_protocol_version = pv, ri_generation = g,
            ri_created_at = c\<rparr>))))))))))"

definition identity_sign :: "ed25519 \<Rightarrow> runtime_identity \<Rightarrow> nat list \<Rightarrow> nat list result" where
  "identity_sign ed i message = ed_sign ed (ri_private_key i) message"

text \<open>\<open>bytes.fromhex\<close> raises \<open>ValueError\<close> on a bad string and \<open>TypeError\<close> on another value.\<close>

definition identity_verify :: "ed25519 \<Rightarrow> runtime_identity \<Rightarrow> nat list \<Rightarrow> nat list \<Rightarrow> bool result" where
  "identity_verify ed i message signature =
     (case ri_public_key i of
        JStr s \<Rightarrow>
          (case from_hex s of
             None \<Rightarrow> Inr False
           | Some key \<Rightarrow> Inr (ed_verify ed key signature message = Some True))
      | v \<Rightarrow> Inl (TypeError (''fromhex() argument must be str, not '' @ py_class v)))"

section \<open>The files keep the identity\<close>

lemma identity_save_load: "identity_load data_dir (identity_save i d) = Inr i"
  by (simp add: identity_load_def identity_save_def public_manifest_def)

lemma manifest_hides_key:
  "public_manifest (i\<lparr>ri_private_key := k\<rparr>) = public_manifest i"
  by (simp add: public_manifest_def)

lemma load_needs_both_files:
  "identity_load data_dir d = Inr i \<Longrightarrow> \<exists>kvs key mode.
     id_manifest d = Some (Inr (JObj kvs)) \<and> id_key d = Some (key, mode) \<and>
     dict_get kvs ''runtime_id'' = Some (ri_runtime_id i) \<and> ri_private_key i = key"
proof -
  assume *: "identity_load data_dir d = Inr i"
  obtain m where m: "id_manifest d = Some (Inr m)"
    using * by (auto simp: identity_load_def split: option.splits)
  obtain key mode where key: "id_key d = Some (key, mode)"
    using * m by (auto simp: identity_load_def split: option.splits)
  obtain rid where rid: "item_of m ''runtime_id'' = Inr rid"
    using * m key by (auto simp: identity_load_def)
  have i: "ri_runtime_id i = rid" "ri_private_key i = key"
    using * m key rid by (auto simp: identity_load_def)
  obtain kvs where "m = JObj kvs" "dict_get kvs ''runtime_id'' = Some rid"
    using rid by (cases m) (auto split: option.splits)
  then show ?thesis using m key i by auto
qed

end
