(* ===== verification/Inventory.thy ===== *)
theory Inventory
  imports Identity CapGate ModelRegistry McpGateway
begin

text \<open>
  What the bootstrap enumerates and probes: the inventory of the operational components
  (runtime/core/inventory.py) and the smoke tests of the critical capabilities
  (runtime/core/access_verifier.py). The import of a connector module and the file system
  calls on the data directory are arguments.
\<close>

section \<open>Inventories\<close>

record component_inventory =
  ci_declared :: "string list"
  ci_configured :: "string list"
  ci_enabled :: "string list"
  ci_authorized :: "string list"
  ci_available :: "string list"
  ci_functional :: "string list"
  ci_tested :: "string list"
  ci_verified :: "string list"

definition no_components :: component_inventory where
  "no_components = \<lparr>ci_declared = [], ci_configured = [], ci_enabled = [], ci_authorized = [],
     ci_available = [], ci_functional = [], ci_tested = [], ci_verified = []\<rparr>"

record bootstrap_inventory =
  bi_capabilities :: component_inventory
  bi_tools :: component_inventory
  bi_models :: component_inventory
  bi_workers :: component_inventory
  bi_connectors :: component_inventory
  bi_error :: "string option"

text \<open>
  The contract handed to the discovery: nothing, an object with the two lists of capabilities,
  or a value read from JSON, which has neither attribute.
\<close>

datatype contract_arg = No_contract | Contract_object "string list" "string list" | Contract_value json

datatype import_outcome = Import_error | Import_raises exn | Imported bool

text \<open>
  \<open>id_workers\<close> is what \<open>list_active\<close> of the worker manager yields (the left value: it
  raises, or the manager has no such method).
\<close>

record 'h inventory_discovery =
  iv_cap_registry :: "capability_registry option"
  iv_tool_registry :: "'h tool_registry option"
  iv_model_registry :: "model_registry option"
  iv_workers :: "(string list result) option"
  iv_connectors :: "string list"
  iv_contract :: contract_arg
  iv_import :: "string \<Rightarrow> string \<Rightarrow> import_outcome"

section \<open>Discovery\<close>

definition contract_lists :: "contract_arg \<Rightarrow> (string list \<times> string list) result" where
  "contract_lists c =
     (case c of
        No_contract \<Rightarrow> Inr ([], [])
      | Contract_object granted revoked \<Rightarrow> Inr (granted, revoked)
      | Contract_value v \<Rightarrow>
          if truthy v then Inl (no_attribute (py_class v) ''granted_capabilities'') else Inr ([], []))"

definition add_capability ::
  "string list \<Rightarrow> string list \<Rightarrow> component_inventory \<Rightarrow> capability_definition \<Rightarrow> component_inventory" where
  "add_capability granted revoked iv cap =
     (let cid = cap_capability_id cap; iv1 = iv\<lparr>ci_declared := ci_declared iv @ [cid]\<rparr>
      in if cap_enabled cap
         then let iv2 = iv1\<lparr>ci_enabled := ci_enabled iv1 @ [cid]\<rparr>
              in if (granted = [] \<or> cid \<in> set granted) \<and> cid \<notin> set revoked
                 then iv2\<lparr>ci_authorized := ci_authorized iv2 @ [cid]\<rparr> else iv2
         else iv1)"

definition discover_capabilities :: "'h inventory_discovery \<Rightarrow> component_inventory result" where
  "discover_capabilities d =
     (let reg = (case iv_cap_registry d of Some r \<Rightarrow> r | None \<Rightarrow> capability_init)
      in and_then (contract_lists (iv_contract d)) (\<lambda>(granted, revoked).
           Inr (foldl (add_capability granted revoked) no_components (capability_list_all reg))))"

definition add_everywhere :: "component_inventory \<Rightarrow> string \<Rightarrow> component_inventory" where
  "add_everywhere iv n =
     iv\<lparr>ci_declared := ci_declared iv @ [n], ci_enabled := ci_enabled iv @ [n], ci_authorized := ci_authorized iv @ [n]\<rparr>"

definition add_new_everywhere :: "component_inventory \<Rightarrow> string \<Rightarrow> component_inventory" where
  "add_new_everywhere iv n = (if n \<in> set (ci_declared iv) then iv else add_everywhere iv n)"

text \<open>Without a registry the discovery calls \<open>register_builtins\<close>, which takes six arguments, with one.\<close>

definition builtins_call_error :: exn where
  "builtins_call_error = TypeError
     (''register_builtins() missing 5 required positional arguments: '' @ quoted ''filesystem'' @ '', '' @
      quoted ''process'' @ '', '' @ quoted ''shell'' @ '', '' @ quoted ''git'' @ '', and '' @ quoted ''workspace'')"

definition discover_tools :: "'h inventory_discovery \<Rightarrow> component_inventory result" where
  "discover_tools d =
     and_then (case iv_tool_registry d of Some r \<Rightarrow> Inr r | None \<Rightarrow> Inl builtins_call_error) (\<lambda>r.
       Inr (foldl add_new_everywhere
              (foldl add_everywhere no_components (map tm_name (tools_list r)))
              (map (\<lambda>t. ''mcp.'' @ td_tool_id t) (dict_values (reg_tools mcp_registry_init)))))"

text \<open>
  The loop reads \<open>model.state\<close>; a \<open>ModelDefinition\<close> has a \<open>status\<close> and no such
  attribute, so the first model raises.
\<close>

definition model_state_attribute :: "model_definition \<Rightarrow> model_state result" where
  "model_state_attribute m = Inl (no_attribute ''ModelDefinition'' ''state'')"

definition add_model :: "component_inventory \<Rightarrow> model_definition \<Rightarrow> component_inventory result" where
  "add_model iv m =
     (let iv1 = iv\<lparr>ci_declared := ci_declared iv @ [md_model_id m]\<rparr>
      in and_then (model_state_attribute m) (\<lambda>st.
           Inr (if st = M_AVAILABLE
                then iv1\<lparr>ci_enabled := ci_enabled iv1 @ [md_model_id m], ci_authorized := ci_authorized iv1 @ [md_model_id m]\<rparr>
                else if st \<notin> {M_DISABLED, M_QUARANTINED, M_DEPRECATED}
                then iv1\<lparr>ci_enabled := ci_enabled iv1 @ [md_model_id m]\<rparr> else iv1)))"

fun add_models :: "component_inventory \<Rightarrow> model_definition list \<Rightarrow> component_inventory result" where
  "add_models iv [] = Inr iv"
| "add_models iv (m # ms) = and_then (add_model iv m) (\<lambda>iv'. add_models iv' ms)"

text \<open>\<open>ModelRegistry()\<close> has no storage: it holds the initial models.\<close>

definition discover_models :: "'h inventory_discovery \<Rightarrow> component_inventory result" where
  "discover_models d =
     and_then (case iv_model_registry d of Some r \<Rightarrow> Inr r
                 | None \<Rightarrow> and_then (bootstrap_registry (registry_blank None, empty_disk)) (\<lambda>s. Inr (fst s))) (\<lambda>r.
       add_models no_components (dict_values (mr_models r)))"

definition l2_workers :: "string list" where
  "l2_workers = [''ANNA'', ''IRIS'', ''KIRA'', ''KLARA'', ''RUTH'', ''MINA'', ''STELLA'', ''ZARA'']"

definition add_active :: "component_inventory \<Rightarrow> string \<Rightarrow> component_inventory" where
  "add_active iv w =
     (if w \<in> set (ci_declared iv) then iv
      else iv\<lparr>ci_declared := ci_declared iv @ [w], ci_enabled := ci_enabled iv @ [w]\<rparr>)"

definition discover_workers :: "'h inventory_discovery \<Rightarrow> component_inventory result" where
  "discover_workers d =
     (let iv = no_components\<lparr>ci_declared := l2_workers, ci_enabled := l2_workers, ci_authorized := l2_workers\<rparr>
      in Inr (case iv_workers d of Some (Inr ws) \<Rightarrow> foldl add_active iv ws | _ \<Rightarrow> iv))"

definition connector_checks :: "(string \<times> string \<times> string) list" where
  "connector_checks =
    [(''github'', ''runtime.github.client'', ''GitHubClient''),
     (''fabric.github'', ''runtime.fabric.github_adapter'', ''GitHubFabricAdapter''),
     (''compute.colab'', ''runtime.compute.colab'', ''ColabComputeProvider''),
     (''browser.cdp'', ''runtime.browser.broker_server'', ''BrowserBrokerServer''),
     (''api.bridge'', ''runtime.api.bridge'', ''router'')]"

fun add_connectors ::
  "(string \<Rightarrow> string \<Rightarrow> import_outcome) \<Rightarrow> component_inventory \<Rightarrow> (string \<times> string \<times> string) list
     \<Rightarrow> component_inventory result" where
  "add_connectors imp iv [] = Inr iv"
| "add_connectors imp iv ((cid, modname, symbol) # cs) =
     (let iv1 = iv\<lparr>ci_declared := ci_declared iv @ [cid]\<rparr>
      in case imp modname symbol of
          Import_raises e \<Rightarrow> Inl e
        | Imported True \<Rightarrow>
            add_connectors imp (iv1\<lparr>ci_enabled := ci_enabled iv1 @ [cid], ci_authorized := ci_authorized iv1 @ [cid]\<rparr>) cs
        | _ \<Rightarrow> add_connectors imp iv1 cs)"

definition add_declared :: "component_inventory \<Rightarrow> string \<Rightarrow> component_inventory" where
  "add_declared iv c = (if c \<in> set (ci_declared iv) then iv else iv\<lparr>ci_declared := ci_declared iv @ [c]\<rparr>)"

definition discover_connectors :: "'h inventory_discovery \<Rightarrow> component_inventory result" where
  "discover_connectors d =
     and_then (add_connectors (iv_import d) no_components connector_checks) (\<lambda>iv.
       Inr (foldl add_declared iv (iv_connectors d)))"

text \<open>Each discovery is guarded on its own: what fails leaves an empty inventory and a message.\<close>

definition or_empty :: "component_inventory result \<Rightarrow> component_inventory" where
  "or_empty r = (case r of Inr iv \<Rightarrow> iv | Inl _ \<Rightarrow> no_components)"

fun join_with :: "string \<Rightarrow> string list \<Rightarrow> string" where
  "join_with sep [] = []"
| "join_with sep [s] = s"
| "join_with sep (s # ss) = s @ sep @ join_with sep ss"

definition discovery_errors :: "(string \<times> component_inventory result) list \<Rightarrow> string list" where
  "discovery_errors rs =
     concat (map (\<lambda>(n, r). case r of Inl e \<Rightarrow> [n @ '': '' @ str_exn e] | Inr _ \<Rightarrow> []) rs)"

definition discover :: "'h inventory_discovery \<Rightarrow> bootstrap_inventory" where
  "discover d =
     (let caps = discover_capabilities d; tools = discover_tools d; models = discover_models d;
          workers = discover_workers d; conns = discover_connectors d;
          errors = discovery_errors [(''capabilities'', caps), (''tools'', tools), (''models'', models),
                     (''workers'', workers), (''connectors'', conns)]
      in \<lparr>bi_capabilities = or_empty caps, bi_tools = or_empty tools, bi_models = or_empty models,
          bi_workers = or_empty workers, bi_connectors = or_empty conns,
          bi_error = (if errors = [] then None else Some (join_with ''; '' errors))\<rparr>)"

section \<open>CriticalAccessVerifier\<close>

record access_test =
  at_capability_id :: string
  at_passed :: bool
  at_evidence :: string
  at_error :: "string option"

record access_verification =
  av_passed :: bool
  av_results :: "access_test list"
  av_critical_failures :: "string list"

definition critical_capabilities :: "string list" where
  "critical_capabilities =
    [''repository.read'', ''repository.search'', ''filesystem.inspect'', ''filesystem.list'', ''fabric.read'',
     ''runtime.status'', ''runtime.execution'', ''tool.resolve'', ''model.resolve'', ''worker.resolve'']"

text \<open>
  The data directory: its mode or the error of \<open>stat\<close>, its number of entries or the error
  of \<open>listdir\<close>, whether it exists.
\<close>

record access_verifier =
  vf_authorized :: "string list"
  vf_data_dir :: string
  vf_stat :: "int result"
  vf_listdir :: "nat result"
  vf_exists :: bool
  vf_fabric :: "fabric_adapter option"
  vf_github :: "rest_client option"
  vf_web :: web_env

fun oct_digits :: "nat \<Rightarrow> string" where
  "oct_digits n = (if n < 8 then [digit n] else oct_digits (n div 8) @ [digit (n mod 8)])"

declare oct_digits.simps [simp del]

definition oct_str :: "int \<Rightarrow> string" where
  "oct_str i = (if i < 0 then ''-0o'' @ oct_digits (nat (- i)) else ''0o'' @ oct_digits (nat i))"

definition access_ok :: "string \<Rightarrow> string \<Rightarrow> access_test" where
  "access_ok cap ev = \<lparr>at_capability_id = cap, at_passed = True, at_evidence = ev, at_error = None\<rparr>"

definition access_failed :: "string \<Rightarrow> string \<Rightarrow> string \<Rightarrow> access_test" where
  "access_failed cap ev err = \<lparr>at_capability_id = cap, at_passed = False, at_evidence = ev, at_error = Some err\<rparr>"

text \<open>\<open>GitHubClient\<close> lists repositories with \<open>list_repositories\<close>; it has no \<open>list_repos\<close>.\<close>

definition client_list_repos :: "rest_client \<Rightarrow> nat gh" where
  "client_list_repos c = Inl (Foreign (no_attribute ''GitHubClient'' ''list_repos''))"

definition test_repository_read :: "access_verifier \<Rightarrow> access_test" where
  "test_repository_read v =
     (case vf_github v of
        None \<Rightarrow> access_failed ''repository.read'' ''NO_GITHUB_CLIENT'' ''GitHub client not initialized''
      | Some c \<Rightarrow>
          (case client_list_repos c of
             Inr n \<Rightarrow> access_ok ''repository.read''
               (''REPOS_ACCESSIBLE count='' @ str_nat n)
           | Inl e \<Rightarrow> access_failed ''repository.read'' ''REPOS_FETCH_FAILED'' (gh_str e)))"

text \<open>
  The two tests of the file system catch \<open>OSError\<close>; another exception reaches
  \<open>_run_test\<close>.
\<close>

fun is_os_error :: "exn \<Rightarrow> bool" where
  "is_os_error (OSError _) = True"
| "is_os_error (FileNotFoundError _) = True"
| "is_os_error (FileExistsError _) = True"
| "is_os_error (PermissionError _) = True"
| "is_os_error (TimeoutError _) = True"
| "is_os_error _ = False"

definition test_filesystem_inspect :: "access_verifier \<Rightarrow> access_test" where
  "test_filesystem_inspect v =
     (case vf_stat v of
        Inr mode \<Rightarrow> access_ok ''filesystem.inspect'' (''STAT_OK path='' @ vf_data_dir v @ '' mode='' @ oct_str mode)
      | Inl e \<Rightarrow> access_failed ''filesystem.inspect'' (if is_os_error e then ''STAT_FAILED'' else ''EXCEPTION'') (str_exn e))"

definition test_filesystem_list :: "access_verifier \<Rightarrow> access_test" where
  "test_filesystem_list v =
     (case vf_listdir v of
        Inr n \<Rightarrow> access_ok ''filesystem.list'' (''LS_OK path='' @ vf_data_dir v @ '' count='' @ str_nat n)
      | Inl e \<Rightarrow> access_failed ''filesystem.list'' (if is_os_error e then ''LS_FAILED'' else ''EXCEPTION'') (str_exn e))"

definition test_fabric_read :: "access_verifier \<Rightarrow> access_test" where
  "test_fabric_read v =
     (case vf_fabric v of
        None \<Rightarrow> access_failed ''fabric.read'' ''NO_FABRIC_CLIENT'' ''Fabric adapter not initialized''
      | Some fa \<Rightarrow>
          (case read_node_config (vf_web v) fa of
             Inr n \<Rightarrow> access_ok ''fabric.read'' (''NODE_CONFIG_READ node_id='' @ fmt (vf_web v) (fn_node_id n))
           | Inl e \<Rightarrow> access_failed ''fabric.read'' ''NODE_CONFIG_FAILED'' (fabric_str e)))"

definition test_repository_search :: "access_verifier \<Rightarrow> access_test" where
  "test_repository_search v =
     (case vf_github v of
        None \<Rightarrow> access_ok ''repository.search'' (''SEARCH_LOCAL_SUBSTRATE_OK path='' @ vf_data_dir v)
      | Some c \<Rightarrow>
          (case client_list_repos c of
             Inr n \<Rightarrow> access_ok ''repository.search''
               (''SEARCH_INDEX_VERIFIED count='' @ str_nat n)
           | Inl e \<Rightarrow> access_failed ''repository.search'' ''SEARCH_VERIFICATION_FAILED'' (gh_str e)))"

definition test_runtime_status :: "access_verifier \<Rightarrow> access_test" where
  "test_runtime_status v =
     (case vf_stat v of
        Inr mode \<Rightarrow> access_ok ''runtime.status''
          (''RUNTIME_STATUS_VERIFIED path='' @ vf_data_dir v @ '' st_mode='' @ oct_str mode)
      | Inl e \<Rightarrow> access_failed ''runtime.status'' ''STATUS_CHECK_FAILED'' (str_exn e))"

definition test_runtime_execution :: "access_verifier \<Rightarrow> access_test" where
  "test_runtime_execution v =
     access_ok ''runtime.execution''
       (''EXECUTION_SUBSTRATE_VERIFIED exists='' @ (if vf_exists v then ''True'' else ''False''))"

definition test_tool_resolve :: "access_verifier \<Rightarrow> access_test" where
  "test_tool_resolve v =
     access_ok ''tool.resolve''
       (''TOOL_RESOLVE_VERIFIED count='' @ str_nat (length (dict_values (reg_tools mcp_registry_init))))"

definition test_model_resolve :: "access_verifier \<Rightarrow> access_test" where
  "test_model_resolve v =
     (case bootstrap_registry (registry_blank None, empty_disk) of
        Inr s \<Rightarrow> access_ok ''model.resolve'' (''MODEL_RESOLVE_VERIFIED count='' @ str_nat (length (mr_models (fst s))))
      | Inl e \<Rightarrow> access_failed ''model.resolve'' ''MODEL_RESOLVE_FAILED'' (str_exn e))"

definition test_worker_resolve :: "access_verifier \<Rightarrow> access_test" where
  "test_worker_resolve v = access_ok ''worker.resolve'' ''WORKER_RESOLVE_VERIFIED worker_manager_available=True''"

definition access_dispatch :: "(string \<times> (access_verifier \<Rightarrow> access_test)) list" where
  "access_dispatch =
    [(''repository.read'', test_repository_read), (''repository.search'', test_repository_search),
     (''filesystem.inspect'', test_filesystem_inspect), (''filesystem.list'', test_filesystem_list),
     (''fabric.read'', test_fabric_read), (''runtime.status'', test_runtime_status),
     (''runtime.execution'', test_runtime_execution), (''tool.resolve'', test_tool_resolve),
     (''model.resolve'', test_model_resolve), (''worker.resolve'', test_worker_resolve)]"

definition run_access_test :: "access_verifier \<Rightarrow> string \<Rightarrow> access_test" where
  "run_access_test v cap =
     (case map_of access_dispatch cap of
        None \<Rightarrow> access_ok cap ''NO_TEST_DEFINED''
      | Some f \<Rightarrow> f v)"

definition verify_one :: "access_verifier \<Rightarrow> access_verification \<Rightarrow> string \<Rightarrow> access_verification" where
  "verify_one v r cap =
     (if cap \<notin> set (vf_authorized v)
      then r\<lparr>av_passed := False, av_critical_failures := av_critical_failures r @ [cap],
             av_results := av_results r @ [access_failed cap ''UNAUTHORIZED''
               ''Required critical capability is not authorized by the fabric contract.'']\<rparr>
      else let t = run_access_test v cap; r1 = r\<lparr>av_results := av_results r @ [t]\<rparr>
           in if at_passed t then r1
              else r1\<lparr>av_passed := False, av_critical_failures := av_critical_failures r1 @ [cap]\<rparr>)"

text \<open>The set of critical capabilities is iterated in an order of its own: the argument \<open>order\<close>.\<close>

definition verify_access :: "string list \<Rightarrow> access_verifier \<Rightarrow> access_verification" where
  "verify_access order v =
     foldl (verify_one v) \<lparr>av_passed = True, av_results = [], av_critical_failures = []\<rparr> order"

section \<open>What is authorized\<close>

lemma add_capability_fields:
  "ci_declared (add_capability granted revoked iv c) = ci_declared iv @ [cap_capability_id c]"
  "ci_enabled (add_capability granted revoked iv c) =
     ci_enabled iv @ (if cap_enabled c then [cap_capability_id c] else [])"
  "ci_authorized (add_capability granted revoked iv c) =
     ci_authorized iv @ (if cap_enabled c \<and> (granted = [] \<or> cap_capability_id c \<in> set granted) \<and>
       cap_capability_id c \<notin> set revoked then [cap_capability_id c] else [])"
  by (simp_all add: add_capability_def Let_def)

lemma fold_capability_fields:
  "ci_declared (foldl (add_capability granted revoked) iv caps) = ci_declared iv @ map cap_capability_id caps"
  "ci_enabled (foldl (add_capability granted revoked) iv caps) =
     ci_enabled iv @ map cap_capability_id (filter cap_enabled caps)"
  "ci_authorized (foldl (add_capability granted revoked) iv caps) =
     ci_authorized iv @ filter (\<lambda>i. (granted = [] \<or> i \<in> set granted) \<and> i \<notin> set revoked)
       (map cap_capability_id (filter cap_enabled caps))"
  by (induction caps arbitrary: iv) (simp_all add: add_capability_fields)

lemma discover_authorized:
  assumes "discover_capabilities d = Inr iv" and "cid \<in> set (ci_authorized iv)"
  shows "\<exists>c. c \<in> set (capability_list_all (case iv_cap_registry d of Some r \<Rightarrow> r | None \<Rightarrow> capability_init)) \<and>
             cap_capability_id c = cid \<and> cap_enabled c"
proof -
  obtain granted revoked where
    "iv = foldl (add_capability granted revoked) no_components
       (capability_list_all (case iv_cap_registry d of Some r \<Rightarrow> r | None \<Rightarrow> capability_init))"
    using assms(1) by (auto simp: discover_capabilities_def Let_def)
  then show ?thesis
    using assms(2) by (auto simp: fold_capability_fields no_components_def)
qed

lemma add_models_raises: "add_models iv (m # ms) = Inl (no_attribute ''ModelDefinition'' ''state'')"
  by (simp add: add_model_def model_state_attribute_def Let_def)

lemma discover_models_given:
  assumes "iv_model_registry d = Some r" and "mr_models r \<noteq> []"
  shows "discover_models d = Inl (no_attribute ''ModelDefinition'' ''state'')"
  using assms add_models_raises by (cases "mr_models r") (auto simp: discover_models_def)

lemma save_models [simp]: "mr_models (fst (save_to_disk s)) = mr_models (fst s)"
  by (simp add: save_to_disk_def)

lemma bindings_models: "mr_models (fst (foldl (\<lambda>s b. add_binding b s) s bs)) = mr_models (fst s)"
  by (induction bs arbitrary: s) (simp_all add: add_binding_def)

lemma register_new:
  assumes "dict_get (mr_models (fst s)) (md_model_id m) = None"
  shows "\<exists>s'. register_model m s = Inr s' \<and> mr_models (fst s') = dict_set (mr_models (fst s)) (md_model_id m) m"
  using assms by (simp add: register_model_def put_model_def Let_def)

lemma default_registry:
  "\<exists>s. bootstrap_registry (registry_blank None, empty_disk) = Inr s \<and>
       mr_models (fst s) = [(''qwen3-8b'', qwen_model), (''luna'', luna_model)]"
proof -
  let ?s0 = "(registry_blank None, empty_disk)"
  have ids: "md_model_id qwen_model = ''qwen3-8b''" "md_model_id luna_model = ''luna''"
    by (simp_all add: qwen_model_def luna_model_def)
  have "mr_models (fst ?s0) = []" by (simp add: registry_blank_def)
  then obtain s1 where s1: "register_model qwen_model ?s0 = Inr s1" "mr_models (fst s1) = [(''qwen3-8b'', qwen_model)]"
    using register_new [of ?s0 qwen_model] by (auto simp: ids)
  then obtain s2 where s2: "register_model luna_model s1 = Inr s2"
      "mr_models (fst s2) = [(''qwen3-8b'', qwen_model), (''luna'', luna_model)]"
    using register_new [of s1 luna_model] by (auto simp: ids)
  then show ?thesis
    by (simp add: bootstrap_registry_def register_initial_models_def s1(1) register_initial_bindings_def bindings_models)
qed

lemma discover_models_default:
  assumes "iv_model_registry d = None"
  shows "discover_models d = Inl (no_attribute ''ModelDefinition'' ''state'')"
proof -
  obtain s where s: "bootstrap_registry (registry_blank None, empty_disk) = Inr s"
      "mr_models (fst s) = [(''qwen3-8b'', qwen_model), (''luna'', luna_model)]"
    using default_registry by blast
  then show ?thesis
    using assms add_models_raises [of no_components qwen_model "[luna_model]"]
    by (simp add: discover_models_def del: add_models.simps)
qed

lemma discover_tools_default: "iv_tool_registry d = None \<Longrightarrow> discover_tools d = Inl builtins_call_error"
  by (simp add: discover_tools_def)

section \<open>What a verification says\<close>

definition access_granted :: "access_verifier \<Rightarrow> string \<Rightarrow> bool" where
  "access_granted v cap \<longleftrightarrow> cap \<in> set (vf_authorized v) \<and> at_passed (run_access_test v cap)"

lemma verify_one_fields:
  "av_passed (verify_one v r cap) \<longleftrightarrow> av_passed r \<and> access_granted v cap"
  "av_critical_failures (verify_one v r cap) =
     av_critical_failures r @ (if access_granted v cap then [] else [cap])"
  by (auto simp: verify_one_def access_granted_def Let_def)

lemma verify_access_fields:
  "av_passed (verify_access order v) \<longleftrightarrow> (\<forall>cap \<in> set order. access_granted v cap)"
  "av_critical_failures (verify_access order v) = filter (\<lambda>cap. \<not> access_granted v cap) order"
proof -
  have "av_passed (foldl (verify_one v) r order) \<longleftrightarrow> av_passed r \<and> (\<forall>cap \<in> set order. access_granted v cap)"
       "av_critical_failures (foldl (verify_one v) r order) =
          av_critical_failures r @ filter (\<lambda>cap. \<not> access_granted v cap) order" for r
    by (induction order arbitrary: r) (auto simp: verify_one_fields)
  then show "av_passed (verify_access order v) \<longleftrightarrow> (\<forall>cap \<in> set order. access_granted v cap)"
    and "av_critical_failures (verify_access order v) = filter (\<lambda>cap. \<not> access_granted v cap) order"
    by (simp_all add: verify_access_def)
qed

lemma repository_read_refused: "\<not> access_granted v ''repository.read''"
  by (simp add: access_granted_def run_access_test_def access_dispatch_def test_repository_read_def
      client_list_repos_def access_failed_def split: option.split)

end
