(* ===== verification/Bootstrap.thy ===== *)
theory Bootstrap
  imports Inventory
begin

text \<open>
  The three-plane bootstrap: its readiness gates (runtime/bootstrap/gates.py), the report
  (runtime/bootstrap/report.py) and the orchestrator that evaluates every gate
  (runtime/bootstrap/planes.py). GitHub may answer differently to each gate: the replies are a
  function of the gate being evaluated. The texts in \<open>GateResult.detail\<close>, which no code of the
  runtime reads, are left out.
\<close>

section \<open>Gates\<close>

datatype readiness_gate =
    RUNTIME_IDENTITY
  | GITHUB_CONNECTED
  | GITHUB_ORG_BOUND
  | FABRIC_REACHABLE
  | FABRIC_IDENTITY_VERIFIED
  | FABRIC_TRUST_VERIFIED
  | FABRIC_TENANT_BOUND
  | FABRIC_STATE_READABLE
  | FABRIC_PROVENANCE_VALID
  | FABRIC_NODE_AT_REMOTE_HEAD
  | RUNTIME_REACHABLE
  | RUNTIME_HEALTH_VERIFIED
  | RUNTIME_BINDING_VERIFIED
  | RUNTIME_ADMITTED
  | PLANE_RECONCILIATION
  | POLICY_SNAPSHOT_FRESH
  | CONTRACTS_DISCOVERED
  | CAPABILITIES_INVENTORIED
  | TOOLS_INVENTORIED
  | MODELS_INVENTORIED
  | WORKERS_INVENTORIED
  | CONNECTORS_INVENTORIED
  | CRITICAL_ACCESS_VERIFIED
  | DELEGATION_CONTEXT_BUILT
  | CONTINUITY_COHERENT

definition mandatory_gates :: "readiness_gate list" where
  "mandatory_gates =
    [RUNTIME_IDENTITY, GITHUB_CONNECTED, GITHUB_ORG_BOUND, FABRIC_REACHABLE, FABRIC_IDENTITY_VERIFIED,
     FABRIC_TRUST_VERIFIED, FABRIC_TENANT_BOUND, FABRIC_STATE_READABLE, FABRIC_PROVENANCE_VALID,
     FABRIC_NODE_AT_REMOTE_HEAD, RUNTIME_REACHABLE, RUNTIME_HEALTH_VERIFIED, RUNTIME_BINDING_VERIFIED,
     RUNTIME_ADMITTED, PLANE_RECONCILIATION, POLICY_SNAPSHOT_FRESH, CONTRACTS_DISCOVERED,
     CAPABILITIES_INVENTORIED, TOOLS_INVENTORIED, MODELS_INVENTORIED, WORKERS_INVENTORIED,
     CONNECTORS_INVENTORIED, CRITICAL_ACCESS_VERIFIED, DELEGATION_CONTEXT_BUILT, CONTINUITY_COHERENT]"

text \<open>The evidence is \<open>JNull\<close> when none is given.\<close>

record gate_result =
  gr_gate :: readiness_gate
  gr_passed :: bool
  gr_evidence :: json

section \<open>BootstrapReport\<close>

record bootstrap_report =
  rp_anny_ready :: bool
  rp_runtime_id :: json
  rp_fabric_node :: json
  rp_started_at :: string
  rp_completed_at :: "string option"
  rp_gates :: "gate_result list"
  rp_policy_revision :: json
  rp_admission_status :: string
  rp_reconciliation_status :: string
  rp_limits_verified :: bool
  rp_capabilities :: component_inventory
  rp_tools :: component_inventory
  rp_models :: component_inventory
  rp_workers :: component_inventory
  rp_connectors :: component_inventory

definition report_init :: "string \<Rightarrow> bootstrap_report" where
  "report_init now =
     \<lparr>rp_anny_ready = False, rp_runtime_id = JStr ''UNKNOWN'', rp_fabric_node = JStr ''UNKNOWN'',
      rp_started_at = now, rp_completed_at = None, rp_gates = [], rp_policy_revision = JStr ''UNKNOWN'',
      rp_admission_status = ''UNKNOWN'', rp_reconciliation_status = ''UNKNOWN'', rp_limits_verified = False,
      rp_capabilities = no_components, rp_tools = no_components, rp_models = no_components,
      rp_workers = no_components, rp_connectors = no_components\<rparr>"

definition add_result :: "readiness_gate \<Rightarrow> bool \<times> json \<Rightarrow> bootstrap_report \<Rightarrow> bootstrap_report" where
  "add_result g v r =
     r\<lparr>rp_gates := rp_gates r @ [\<lparr>gr_gate = g, gr_passed = fst v, gr_evidence = snd v\<rparr>]\<rparr>"

definition finish :: "bool \<Rightarrow> string \<Rightarrow> bootstrap_report \<Rightarrow> bootstrap_report" where
  "finish ready now r = r\<lparr>rp_anny_ready := ready, rp_completed_at := Some now\<rparr>"

definition get_gate :: "bootstrap_report \<Rightarrow> readiness_gate \<Rightarrow> gate_result" where
  "get_gate r g =
     (case find (\<lambda>x. gr_gate x = g) (rp_gates r) of
        Some x \<Rightarrow> x
      | None \<Rightarrow> \<lparr>gr_gate = g, gr_passed = False, gr_evidence = JNull\<rparr>)"

text \<open>\<open>ChatGPTBootstrapFormatter.format\<close>.\<close>

definition str_bool :: "bool \<Rightarrow> string" where
  "str_bool b = (if b then ''True'' else ''False'')"

definition falsy_or :: "json \<Rightarrow> string \<Rightarrow> json" where
  "falsy_or v d = (if truthy v then v else JStr d)"

definition format_gate :: "bootstrap_report \<Rightarrow> string \<times> readiness_gate \<Rightarrow> string" where
  "format_gate r lg = ''  '' @ fst lg @ '': '' @ (if gr_passed (get_gate r (snd lg)) then ''PASS'' else ''FAIL'')"

definition format_component :: "string \<Rightarrow> component_inventory \<Rightarrow> string" where
  "format_component name c =
     ''  '' @ name @ '': '' @
     join_with '', '' (map (\<lambda>(xs, k). str_nat (length xs) @ '' '' @ k)
       [(ci_declared c, ''DEC''), (ci_configured c, ''CFG''), (ci_enabled c, ''ENA''), (ci_authorized c, ''AUT''),
        (ci_available c, ''AVL''), (ci_functional c, ''FNC''), (ci_tested c, ''TST''), (ci_verified c, ''VRF'')])"

definition format_phases :: "(string \<times> (string \<times> readiness_gate) list) list" where
  "format_phases =
    [(''PHASE A (LOCAL RUNTIME):'',
       [(''RUNTIME_IDENTITY'', RUNTIME_IDENTITY), (''RUNTIME_REACHABLE'', RUNTIME_REACHABLE),
        (''RUNTIME_HEALTH'', RUNTIME_HEALTH_VERIFIED)]),
     (''PHASE B (GITHUB):'',
       [(''GITHUB_CONNECTED'', GITHUB_CONNECTED), (''GITHUB_ORG_BOUND'', GITHUB_ORG_BOUND)]),
     (''PHASE C (FABRIC):'',
       [(''FABRIC_REACHABLE'', FABRIC_REACHABLE), (''FABRIC_STATE_READABLE'', FABRIC_STATE_READABLE),
        (''FABRIC_NODE_HEAD'', FABRIC_NODE_AT_REMOTE_HEAD)]),
     (''PHASE D (TRUST & ADMISSION):'',
       [(''FABRIC_IDENTITY'', FABRIC_IDENTITY_VERIFIED), (''FABRIC_TRUST'', FABRIC_TRUST_VERIFIED),
        (''FABRIC_TENANT'', FABRIC_TENANT_BOUND), (''RUNTIME_BINDING'', RUNTIME_BINDING_VERIFIED),
        (''RUNTIME_ADMITTED'', RUNTIME_ADMITTED)]),
     (''PHASE E (POLICY):'', [(''POLICY_SNAPSHOT_FRESH'', POLICY_SNAPSHOT_FRESH)]),
     (''PHASE F (RECONCILIATION):'', [(''PLANE_RECONCILIATION'', PLANE_RECONCILIATION)]),
     (''PHASE G (INVENTORY):'',
       [(''CAPABILITIES_INVENTORIED'', CAPABILITIES_INVENTORIED), (''TOOLS_INVENTORIED'', TOOLS_INVENTORIED),
        (''MODELS_INVENTORIED'', MODELS_INVENTORIED), (''WORKERS_INVENTORIED'', WORKERS_INVENTORIED),
        (''CONNECTORS_INVENTORIED'', CONNECTORS_INVENTORIED)]),
     (''PHASE H (ACCESS):'', [(''CRITICAL_ACCESS_VERIFIED'', CRITICAL_ACCESS_VERIFIED)]),
     (''PHASE I (CONTRACTS):'', [(''CONTRACTS_DISCOVERED'', CONTRACTS_DISCOVERED)]),
     (''PHASE J (CONTEXT):'', [(''DELEGATION_CONTEXT_BUILT'', DELEGATION_CONTEXT_BUILT)]),
     (''PHASE K (CONTINUITY):'', [(''CONTINUITY_COHERENT'', CONTINUITY_COHERENT)])]"

definition format_report :: "web_env \<Rightarrow> bootstrap_report \<Rightarrow> string" where
  "format_report env r =
     join_with [CHR 0x0A]
       ([''ANNY BOOTSTRAP: '' @ (if rp_anny_ready r then ''READY'' else ''BLOCKED''), ''---''] @
        concat (map (\<lambda>(h, gs). h # map (format_gate r) gs) format_phases) @
        [''---'', ''INVENTORY SUMMARY:'', format_component ''Capabilities'' (rp_capabilities r),
         format_component ''Tools'' (rp_tools r), format_component ''Models'' (rp_models r),
         format_component ''Workers'' (rp_workers r), format_component ''Connectors'' (rp_connectors r), ''---'',
         ''RUNTIME_ID: '' @ fmt env (falsy_or (rp_runtime_id r) ''UNKNOWN''),
         ''FABRIC_NODE: '' @ fmt env (falsy_or (rp_fabric_node r) ''UNKNOWN''),
         ''FABRIC_TENANT: '' @ fmt env (falsy_or (gr_evidence (get_gate r FABRIC_TENANT_BOUND)) ''UNBOUND''),
         ''POLICY_REVISION: '' @ fmt env (rp_policy_revision r),
         ''LIMITS_VERIFIED: '' @ str_bool (rp_limits_verified r)])"

section \<open>The orchestrator\<close>

text \<open>
  The attributes read of the configuration (\<open>None\<close>: absent or \<open>None\<close>). A
  \<open>RuntimeConfig\<close> has no \<open>version_commit\<close>.
\<close>

record boot_config =
  bc_admin_host :: json
  bc_admin_port :: json
  bc_fabric_org :: "string option"
  bc_fabric_repo :: "string option"
  bc_version_commit :: "string option"

text \<open>\<open>pb_continuity\<close>: what reading \<open>status\<close> of the continuity engine yields, if there is one.\<close>

record 'h plane_bootstrap =
  pb_data_dir :: string
  pb_github :: "rest_client option"
  pb_fabric :: "fabric_adapter option"
  pb_continuity :: "(json result) option"
  pb_config :: "boot_config option"
  pb_admin_host :: string
  pb_admin_port :: int
  pb_cap_registry :: "capability_registry option"
  pb_tool_registry :: "'h tool_registry option"
  pb_model_registry :: "model_registry option"
  pb_worker_manager :: "(string list result) option"

text \<open>\<open>int(s)\<close>: optional sign, digits with single underscores between them.\<close>

fun digits_value :: "bool \<Rightarrow> int \<Rightarrow> string \<Rightarrow> int option" where
  "digits_value after n [] = (if after then Some n else None)"
| "digits_value after n (c # cs) =
     (let k = of_char c :: int
      in if 48 \<le> k \<and> k \<le> 57 then digits_value True (n * 10 + (k - 48)) cs
         else if c = CHR ''_'' \<and> after \<and> cs \<noteq> [] then digits_value False n cs
         else None)"

definition py_int :: "string \<Rightarrow> int option" where
  "py_int s =
     (case strip s of
        [] \<Rightarrow> None
      | c # cs \<Rightarrow>
          if c = CHR ''-'' then map_option uminus (digits_value False 0 cs)
          else if c = CHR ''+'' then digits_value False 0 cs
          else digits_value False 0 (c # cs))"

text \<open>\<open>get_admin_port\<close>: the environment variable when it is all digits.\<close>

definition get_admin_port :: "string option \<Rightarrow> int" where
  "get_admin_port env_port =
     (case env_port of
        None \<Rightarrow> 3643
      | Some s \<Rightarrow>
          if s \<noteq> [] \<and> list_all (\<lambda>c. 48 \<le> (of_char c :: nat) \<and> (of_char c :: nat) \<le> 57) s
          then (case py_int s of Some n \<Rightarrow> n | None \<Rightarrow> 3643) else 3643)"

definition configured_port :: "string option \<Rightarrow> json \<Rightarrow> int" where
  "configured_port env_port v =
     (case v of
        JInt i \<Rightarrow> i
      | JBool b \<Rightarrow> (if b then 1 else 0)
      | JStr s \<Rightarrow> (case py_int s of Some n \<Rightarrow> n | None \<Rightarrow> get_admin_port env_port)
      | _ \<Rightarrow> get_admin_port env_port)"

definition plane_init ::
  "string option \<Rightarrow> string \<Rightarrow> rest_client option \<Rightarrow> fabric_adapter option \<Rightarrow> (json result) option
     \<Rightarrow> boot_config option \<Rightarrow> capability_registry option \<Rightarrow> 'h tool_registry option \<Rightarrow> model_registry option
     \<Rightarrow> (string list result) option \<Rightarrow> 'h plane_bootstrap" where
  "plane_init env_port data_dir github fabric continuity config caps tools models workers =
     (let host = (case config of Some c \<Rightarrow> bc_admin_host c | None \<Rightarrow> JNull);
          port = (case config of Some c \<Rightarrow> bc_admin_port c | None \<Rightarrow> JNull)
      in \<lparr>pb_data_dir = data_dir, pb_github = github, pb_fabric = fabric, pb_continuity = continuity,
          pb_config = config,
          pb_admin_host = (case host of JStr h \<Rightarrow> if h = [] then ''127.0.0.1'' else h | _ \<Rightarrow> ''127.0.0.1''),
          pb_admin_port = configured_port env_port port,
          pb_cap_registry = caps, pb_tool_registry = tools, pb_model_registry = models,
          pb_worker_manager = workers\<rparr>)"

definition admin_url :: "'h plane_bootstrap \<Rightarrow> string \<Rightarrow> string" where
  "admin_url b path =
     ''http://'' @ pb_admin_host b @ '':'' @ str_int (pb_admin_port b) @
     (if starts_with path ''/'' then path else ''/'' @ path)"

text \<open>
  What the bootstrap meets: GitHub at each gate (\<open>Between\<close> is the read of the node that belongs
  to no gate), the local admin API at each probe, the files, the clock, the hash, the imports, and
  the order in which the set of critical capabilities is iterated.
\<close>

datatype boot_phase = At readiness_gate | Between

datatype admin_reply = Admin_reply int string | Admin_error string

record boot_world =
  bw_web :: web_env
  bw_net :: "boot_phase \<Rightarrow> string \<Rightarrow> string \<Rightarrow> http_reply"
  bw_admin :: "readiness_gate \<Rightarrow> string \<Rightarrow> admin_reply"
  bw_identity :: identity_dir
  bw_latency :: rat
  bw_hmac :: "string \<Rightarrow> string \<Rightarrow> string"
  bw_issued :: string
  bw_expires :: string
  bw_stat :: "int result"
  bw_listdir :: "nat result"
  bw_exists :: bool
  bw_import :: "string \<Rightarrow> string \<Rightarrow> import_outcome"
  bw_order :: "string list"
  bw_started :: string
  bw_completed :: string

definition web_at :: "boot_world \<Rightarrow> boot_phase \<Rightarrow> web_env" where
  "web_at w p = (bw_web w)\<lparr>we_net := bw_net w p\<rparr>"

section \<open>The gates of the three planes\<close>

abbreviation failed :: "bool \<times> json" where
  "failed \<equiv> (False, JNull)"

definition gate_runtime_identity :: "boot_world \<Rightarrow> 'h plane_bootstrap \<Rightarrow> runtime_identity option \<times> bool \<times> json" where
  "gate_runtime_identity w b =
     (case identity_load (pb_data_dir b) (bw_identity w) of
        Inr i \<Rightarrow> (Some i, True, ri_runtime_id i)
      | Inl _ \<Rightarrow> (None, failed))"

definition gate_github_connected :: "boot_world \<Rightarrow> 'h plane_bootstrap \<Rightarrow> bool \<times> json" where
  "gate_github_connected w b =
     (case pb_github b of
        None \<Rightarrow> failed
      | Some c \<Rightarrow>
          (case get_authenticated_principal (web_at w (At GITHUB_CONNECTED)) c of
             Inl _ \<Rightarrow> failed
           | Inr v \<Rightarrow> (case get_of v ''login'' (JStr ''UNKNOWN'') of Inr l \<Rightarrow> (True, l) | Inl _ \<Rightarrow> failed)))"

definition required_org :: "'h plane_bootstrap \<Rightarrow> string option" where
  "required_org b =
     (let configured = (case pb_config b of Some c \<Rightarrow> bc_fabric_org c | None \<Rightarrow> None)
      in if truthy_str configured then configured
         else case pb_fabric b of Some fa \<Rightarrow> Some (fa_org fa) | None \<Rightarrow> configured)"

text \<open>\<open>{org["login"] for org in orgs}\<close>; \<open>None\<close> when an element cannot be read or hashed.\<close>

definition is_hashable :: "json \<Rightarrow> bool" where
  "is_hashable v \<longleftrightarrow> (case v of JList _ \<Rightarrow> False | JObj _ \<Rightarrow> False | _ \<Rightarrow> True)"

fun org_logins :: "json list \<Rightarrow> json list option" where
  "org_logins [] = Some []"
| "org_logins (v # vs) =
     (case item_of v ''login'' of
        Inl _ \<Rightarrow> None
      | Inr l \<Rightarrow> if is_hashable l then map_option ((#) l) (org_logins vs) else None)"

definition gate_github_org_bound :: "boot_world \<Rightarrow> 'h plane_bootstrap \<Rightarrow> bool \<Rightarrow> bool \<times> json" where
  "gate_github_org_bound w b gh_ok =
     (case pb_github b of
        None \<Rightarrow> failed
      | Some c \<Rightarrow>
          if \<not> gh_ok \<or> \<not> truthy_str (required_org b) then failed
          else let org = the (required_org b)
               in case list_organizations (web_at w (At GITHUB_ORG_BOUND)) c of
                   Inl _ \<Rightarrow> failed
                 | Inr v \<Rightarrow>
                     (case items_of v of
                        Inl _ \<Rightarrow> failed
                      | Inr orgs \<Rightarrow>
                          (case org_logins orgs of
                             None \<Rightarrow> failed
                           | Some names \<Rightarrow> if JStr org \<in> set names then (True, JStr org) else failed)))"

text \<open>The gates that need the Fabric share the guard.\<close>

definition with_fabric ::
  "bool \<Rightarrow> 'h plane_bootstrap \<Rightarrow> (fabric_adapter \<Rightarrow> bool \<times> json) \<Rightarrow> bool \<times> json" where
  "with_fabric can b f = (case pb_fabric b of Some fa \<Rightarrow> if can then f fa else failed | None \<Rightarrow> failed)"

definition gate_fabric_reachable :: "boot_world \<Rightarrow> 'h plane_bootstrap \<Rightarrow> bool \<Rightarrow> bool \<times> json" where
  "gate_fabric_reachable w b can =
     with_fabric can b (\<lambda>fa.
       case probe_reachability (web_at w (At FABRIC_REACHABLE)) (bw_latency w) fa of
         (reachable, _, _) \<Rightarrow>
           if reachable then (True, JStr (fa_org fa @ ''/'' @ fa_repo fa)) else failed)"

definition gate_fabric_identity_verified :: "boot_world \<Rightarrow> 'h plane_bootstrap \<Rightarrow> bool \<Rightarrow> bool \<times> json" where
  "gate_fabric_identity_verified w b can =
     with_fabric can b (\<lambda>fa.
       case read_node_config (web_at w (At FABRIC_IDENTITY_VERIFIED)) fa of
         Inr n \<Rightarrow> (True, fn_node_id n) | Inl _ \<Rightarrow> failed)"

definition gate_fabric_node_at_remote_head :: "boot_world \<Rightarrow> 'h plane_bootstrap \<Rightarrow> bool \<Rightarrow> bool \<times> json" where
  "gate_fabric_node_at_remote_head w b can =
     with_fabric can b (\<lambda>fa.
       case node_json_exists_at_remote_head (web_at w (At FABRIC_NODE_AT_REMOTE_HEAD)) fa of
         (present, sha) \<Rightarrow> if present then (True, sha) else failed)"

definition gate_fabric_trust_verified ::
  "boot_world \<Rightarrow> 'h plane_bootstrap \<Rightarrow> bool \<Rightarrow> runtime_identity option \<Rightarrow> bool \<times> json" where
  "gate_fabric_trust_verified w b can ident =
     with_fabric can b (\<lambda>fa.
       case ident of
         None \<Rightarrow> failed
       | Some i \<Rightarrow>
           (case issue_trust_token (web_at w (At FABRIC_TRUST_VERIFIED)) (bw_hmac w) (bw_issued w) (bw_expires w)
                   (ri_runtime_id i) (ri_private_key i) fa of
              Inr t \<Rightarrow> (True, JStr (take 8 (tt_signature t) @ ''...'')) | Inl _ \<Rightarrow> failed))"

definition gate_fabric_tenant_bound ::
  "boot_world \<Rightarrow> 'h plane_bootstrap \<Rightarrow> bool \<Rightarrow> runtime_identity option \<Rightarrow> bool \<times> json" where
  "gate_fabric_tenant_bound w b can ident =
     with_fabric can b (\<lambda>fa.
       case ident of
         None \<Rightarrow> failed
       | Some i \<Rightarrow>
           (case read_tenant_binding (web_at w (At FABRIC_TENANT_BOUND)) (ri_runtime_id i) fa of
              Inr t \<Rightarrow> (True, ft_tenant_id t) | Inl _ \<Rightarrow> failed))"

definition repr_strings :: "string list \<Rightarrow> string" where
  "repr_strings ss = ''['' @ join_with '', '' (map quoted ss) @ '']''"

definition gate_fabric_state_readable :: "boot_world \<Rightarrow> 'h plane_bootstrap \<Rightarrow> bool \<Rightarrow> bool \<times> json" where
  "gate_fabric_state_readable w b can =
     with_fabric can b (\<lambda>fa.
       case read_fabric_state (web_at w (At FABRIC_STATE_READABLE)) fa of
         Inr (JObj kvs) \<Rightarrow>
           if kvs \<noteq> [] then (True, JStr (''keys='' @ repr_strings (take 5 (dict_keys kvs)))) else failed
       | _ \<Rightarrow> failed)"

text \<open>\<open>hasattr(ident, 'origin_commit')\<close> is false: the class has no such attribute.\<close>

definition origin_commit :: "runtime_identity option \<Rightarrow> string option" where
  "origin_commit ident = None"

definition gate_fabric_provenance ::
  "boot_world \<Rightarrow> 'h plane_bootstrap \<Rightarrow> bool \<Rightarrow> runtime_identity option \<Rightarrow> bool \<times> json" where
  "gate_fabric_provenance w b can ident =
     with_fabric can b (\<lambda>fa.
       let from_identity = origin_commit ident;
           commit = (if truthy_str from_identity then from_identity
                     else case pb_config b of Some c \<Rightarrow> bc_version_commit c | None \<Rightarrow> from_identity)
       in if \<not> truthy_str commit then failed
          else if fst (validate_provenance (web_at w (At FABRIC_PROVENANCE_VALID)) commit None None fa)
          then (True, JStr (take 7 (the commit))) else failed)"

section \<open>The probes of the runtime\<close>

definition gate_runtime_reachable :: "boot_world \<Rightarrow> 'h plane_bootstrap \<Rightarrow> bool \<times> json" where
  "gate_runtime_reachable w b =
     (let url = admin_url b ''/api/status''
      in case bw_admin w RUNTIME_REACHABLE url of
          Admin_reply code _ \<Rightarrow> if code = 200 then (True, JStr url) else failed
        | Admin_error _ \<Rightarrow> failed)"

text \<open>The body of a reply, decoded and parsed.\<close>

definition admin_json :: "boot_world \<Rightarrow> readiness_gate \<Rightarrow> 'h plane_bootstrap \<Rightarrow> json option" where
  "admin_json w g b =
     (case bw_admin w g (admin_url b ''/api/status'') of
        Admin_error _ \<Rightarrow> None
      | Admin_reply _ body \<Rightarrow>
          (case we_utf8 (bw_web w) body of
             Inl _ \<Rightarrow> None
           | Inr t \<Rightarrow> (case we_loads (bw_web w) t of Inl _ \<Rightarrow> None | Inr v \<Rightarrow> Some v)))"

definition gate_runtime_health :: "boot_world \<Rightarrow> 'h plane_bootstrap \<Rightarrow> bool \<Rightarrow> bool \<times> json" where
  "gate_runtime_health w b reachable =
     (if \<not> reachable then failed
      else case admin_json w RUNTIME_HEALTH_VERIFIED b of
          None \<Rightarrow> failed
        | Some v \<Rightarrow>
            (case get_of v ''state'' (JStr ''UNKNOWN'') of
               Inl _ \<Rightarrow> failed
             | Inr st \<Rightarrow> if st \<in> {JStr ''STOPPED'', JStr ''ERROR''} then failed else (True, st)))"

definition expected_binding :: "'h plane_bootstrap \<Rightarrow> string option \<times> string option" where
  "expected_binding b =
     (case pb_fabric b of
        Some fa \<Rightarrow> (Some (fa_org fa), Some (fa_repo fa))
      | None \<Rightarrow> (case pb_config b of Some c \<Rightarrow> (bc_fabric_org c, bc_fabric_repo c) | None \<Rightarrow> (None, None)))"

definition gate_runtime_binding :: "boot_world \<Rightarrow> 'h plane_bootstrap \<Rightarrow> bool \<Rightarrow> bool \<times> json" where
  "gate_runtime_binding w b reachable =
     (case expected_binding b of
        (org, repo) \<Rightarrow>
          if \<not> reachable \<or> \<not> truthy_str org \<or> \<not> truthy_str repo then failed
          else case admin_json w RUNTIME_BINDING_VERIFIED b of
              Some (JObj kvs) \<Rightarrow>
                if jfield kvs ''fabric_org'' JNull = JStr (the org) \<and> jfield kvs ''fabric_repo'' JNull = JStr (the repo)
                then (True, JStr (the org @ ''/'' @ the repo)) else failed
            | _ \<Rightarrow> failed)"

definition gate_runtime_admitted ::
  "boot_world \<Rightarrow> 'h plane_bootstrap \<Rightarrow> bool \<Rightarrow> runtime_identity option \<Rightarrow> bool \<times> json" where
  "gate_runtime_admitted w b can ident =
     with_fabric can b (\<lambda>fa.
       case ident of
         None \<Rightarrow> failed
       | Some i \<Rightarrow>
           let a = check_admission (web_at w (At RUNTIME_ADMITTED)) (ri_runtime_id i) fa
           in if is_admitted a then (True, JStr (ad_verdict a)) else failed)"

section \<open>Reconciliation\<close>

datatype reconciliation_issue =
    Runtime_id_missing | Fabric_not_reachable | Runtime_not_reachable | Not_registered
  | Org_mismatch | Repo_mismatch | State_unreadable

text \<open>\<open>x in container\<close>.\<close>

definition py_in :: "json \<Rightarrow> json \<Rightarrow> bool result" where
  "py_in x container =
     (case container of
        JList xs \<Rightarrow> Inr (x \<in> set xs)
      | JObj kvs \<Rightarrow>
          if is_hashable x then Inr (x \<in> JStr ` set (dict_keys kvs))
          else Inl (TypeError (''unhashable type: '' @ quoted (py_class x)))
      | JStr s \<Rightarrow>
          (case x of
             JStr p \<Rightarrow> Inr (mentions s p)
           | v \<Rightarrow> Inl (TypeError (quoted ''in <string>'' @ '' requires string as left operand, not '' @ py_class v)))
      | v \<Rightarrow> Inl (TypeError (''argument of type '' @ quoted (py_class v) @ '' is not iterable'')))"

text \<open>What the state of the Fabric contradicts; a state that is not a dict raises out of the gate.\<close>

definition state_issues :: "json \<Rightarrow> fabric_adapter \<Rightarrow> json \<Rightarrow> reconciliation_issue list result" where
  "state_issues rid fa state =
     and_then (get_of state ''registered_runtimes'' (JList [])) (\<lambda>registered.
     and_then (py_in rid registered) (\<lambda>known.
     and_then (get_of state ''fabric_org'' JNull) (\<lambda>org.
     and_then (get_of state ''fabric_repo'' JNull) (\<lambda>repo.
       Inr ((if known then [] else [Not_registered]) @
            (if truthy org \<and> org \<noteq> JStr (fa_org fa) then [Org_mismatch] else []) @
            (if truthy repo \<and> repo \<noteq> JStr (fa_repo fa) then [Repo_mismatch] else []))))))"

definition fabric_issues ::
  "boot_world \<Rightarrow> 'h plane_bootstrap \<Rightarrow> runtime_identity option \<Rightarrow> bool \<Rightarrow> bool \<Rightarrow> reconciliation_issue list result" where
  "fabric_issues w b ident fab_reachable rt_reachable =
     (case (ident, pb_fabric b) of
        (Some i, Some fa) \<Rightarrow>
          if fab_reachable \<and> rt_reachable
          then (case read_fabric_state (web_at w (At PLANE_RECONCILIATION)) fa of
                  Inl _ \<Rightarrow> Inr [State_unreadable]
                | Inr state \<Rightarrow> state_issues (ri_runtime_id i) fa state)
          else Inr []
      | _ \<Rightarrow> Inr [])"

definition reconciliation_issues ::
  "boot_world \<Rightarrow> 'h plane_bootstrap \<Rightarrow> runtime_identity option \<Rightarrow> bool \<Rightarrow> bool \<Rightarrow> reconciliation_issue list result" where
  "reconciliation_issues w b ident fab_reachable rt_reachable =
     and_then (fabric_issues w b ident fab_reachable rt_reachable) (\<lambda>issues.
       Inr ((case ident of Some i \<Rightarrow> if truthy (ri_runtime_id i) then [] else [Runtime_id_missing]
              | None \<Rightarrow> [Runtime_id_missing]) @
            (if fab_reachable then [] else [Fabric_not_reachable]) @
            (if rt_reachable then [] else [Runtime_not_reachable]) @ issues))"

definition gate_plane_reconciliation ::
  "boot_world \<Rightarrow> 'h plane_bootstrap \<Rightarrow> bool \<Rightarrow> runtime_identity option \<Rightarrow> bool \<Rightarrow> bool \<Rightarrow> (bool \<times> json) result" where
  "gate_plane_reconciliation w b can ident fab_reachable rt_reachable =
     (if \<not> can then Inr failed
      else and_then (reconciliation_issues w b ident fab_reachable rt_reachable) (\<lambda>issues.
        Inr (if issues = []
             then (True, case ident of Some i \<Rightarrow> ri_runtime_id i | None \<Rightarrow> JStr ''UNKNOWN'') else failed)))"

section \<open>Policy, inventories, access, contracts, context, continuity\<close>

text \<open>
  The policy gate also gives the contract found in the same document (\<open>JNull\<close> when there is
  none), and the revision it recorded.
\<close>

definition gate_policy_snapshot :: "boot_world \<Rightarrow> fabric_adapter \<Rightarrow> (bool \<times> json) \<times> json \<times> json option" where
  "gate_policy_snapshot w fa =
     (case read_policy (web_at w (At POLICY_SNAPSHOT_FRESH)) fa of
        Inl _ \<Rightarrow> (failed, JNull, None)
      | Inr raw \<Rightarrow>
          (case policy_from_dict raw of
             Inl _ \<Rightarrow> (failed, JNull, None)
           | Inr p \<Rightarrow>
               ((True, fp_revision p), (case raw of JObj kvs \<Rightarrow> jfield kvs ''_contract'' JNull | _ \<Rightarrow> JNull),
                Some (fp_revision p))))"

definition boot_discovery :: "boot_world \<Rightarrow> 'h plane_bootstrap \<Rightarrow> json \<Rightarrow> 'h inventory_discovery" where
  "boot_discovery w b contract =
     \<lparr>iv_cap_registry = pb_cap_registry b, iv_tool_registry = pb_tool_registry b,
      iv_model_registry = pb_model_registry b, iv_workers = pb_worker_manager b, iv_connectors = [],
      iv_contract = (if contract = JNull then No_contract else Contract_value contract),
      iv_import = bw_import w\<rparr>"

definition inventory_verdict :: "component_inventory \<Rightarrow> bool \<times> json" where
  "inventory_verdict c =
     (ci_declared c \<noteq> [],
      JStr (str_nat (length (ci_declared c)) @ ''/'' @ str_nat (length (ci_authorized c))))"

definition gate_inventory :: "bootstrap_inventory \<Rightarrow> bootstrap_report \<Rightarrow> bootstrap_report" where
  "gate_inventory iv r =
     add_result CONNECTORS_INVENTORIED (inventory_verdict (bi_connectors iv))
      (add_result WORKERS_INVENTORIED (inventory_verdict (bi_workers iv))
       (add_result MODELS_INVENTORIED (inventory_verdict (bi_models iv))
        (add_result TOOLS_INVENTORIED (inventory_verdict (bi_tools iv))
         (add_result CAPABILITIES_INVENTORIED (inventory_verdict (bi_capabilities iv)) r))))"

definition record_inventory :: "bootstrap_inventory \<Rightarrow> bootstrap_report \<Rightarrow> bootstrap_report" where
  "record_inventory iv r =
     r\<lparr>rp_capabilities := bi_capabilities iv, rp_tools := bi_tools iv, rp_models := bi_models iv,
       rp_workers := bi_workers iv, rp_connectors := bi_connectors iv\<rparr>"

definition boot_verifier :: "boot_world \<Rightarrow> 'h plane_bootstrap \<Rightarrow> string list \<Rightarrow> access_verifier" where
  "boot_verifier w b authorized =
     \<lparr>vf_authorized = authorized, vf_data_dir = pb_data_dir b, vf_stat = bw_stat w, vf_listdir = bw_listdir w,
      vf_exists = bw_exists w, vf_fabric = pb_fabric b, vf_github = pb_github b,
      vf_web = web_at w (At CRITICAL_ACCESS_VERIFIED)\<rparr>"

definition gate_critical_access :: "boot_world \<Rightarrow> 'h plane_bootstrap \<Rightarrow> string list \<Rightarrow> bool \<times> json" where
  "gate_critical_access w b authorized =
     (let res = verify_access (bw_order w) (boot_verifier w b authorized);
          evidence = join_with '', '' (map at_evidence (filter at_passed (av_results res)))
      in (av_passed res, if evidence = [] then JNull else JStr evidence))"

text \<open>A contract read from JSON has no \<open>contract_id\<close> attribute: the default is used.\<close>

definition gate_contracts :: "boot_world \<Rightarrow> 'h plane_bootstrap \<Rightarrow> json \<Rightarrow> bool \<times> json" where
  "gate_contracts w b contract =
     (if contract \<noteq> JNull then (True, JStr ''INLINED'')
      else case pb_fabric b of
          None \<Rightarrow> failed
        | Some fa \<Rightarrow>
            (case read_contract (web_at w (At CONTRACTS_DISCOVERED)) fa of
               Inl _ \<Rightarrow> failed
             | Inr raw \<Rightarrow>
                 (case contract_from_dict raw of Inl _ \<Rightarrow> failed | Inr c \<Rightarrow> (True, fk_contract_id c))))"

definition gate_delegation_context ::
  "boot_world \<Rightarrow> runtime_identity option \<Rightarrow> bootstrap_report \<Rightarrow> bool \<times> json" where
  "gate_delegation_context w ident r =
     (let tenant = get_gate r FABRIC_TENANT_BOUND; show = fmt (bw_web w)
      in case ident of
          None \<Rightarrow> failed
        | Some i \<Rightarrow>
            if truthy (ri_runtime_id i) \<and> gr_passed tenant \<and> truthy (gr_evidence tenant) \<and>
               rp_fabric_node r \<noteq> JStr ''UNKNOWN''
            then (True, JStr (''runtime_id='' @ show (ri_runtime_id i) @ '' | tenant_id='' @ show (gr_evidence tenant) @
                              '' | fabric_node='' @ show (rp_fabric_node r)))
            else failed)"

definition gate_continuity_coherent :: "'h plane_bootstrap \<Rightarrow> bool \<times> json" where
  "gate_continuity_coherent b =
     (case pb_continuity b of
        Some (Inr status) \<Rightarrow>
          (case get_of status ''state'' (JStr ''UNKNOWN'') of
             Inl _ \<Rightarrow> failed
           | Inr st \<Rightarrow> if st = JStr ''COHERENT'' then (True, st) else failed)
      | _ \<Rightarrow> failed)"

section \<open>The sequence\<close>

text \<open>What the later phases need of the first ones.\<close>

record boot_progress =
  bp_report :: bootstrap_report
  bp_identity :: "runtime_identity option"
  bp_can_proceed :: bool
  bp_fab_reachable :: bool
  bp_rt_reachable :: bool

definition set_runtime_id :: "runtime_identity option \<Rightarrow> bootstrap_report \<Rightarrow> bootstrap_report" where
  "set_runtime_id ident r = (case ident of Some i \<Rightarrow> r\<lparr>rp_runtime_id := ri_runtime_id i\<rparr> | None \<Rightarrow> r)"

definition set_fabric_node :: "boot_world \<Rightarrow> 'h plane_bootstrap \<Rightarrow> bool \<Rightarrow> bootstrap_report \<Rightarrow> bootstrap_report" where
  "set_fabric_node w b verified r =
     (case pb_fabric b of
        Some fa \<Rightarrow>
          if verified
          then (case read_node_config (web_at w Between) fa of
                  Inr n \<Rightarrow> r\<lparr>rp_fabric_node := fn_node_id n\<rparr> | Inl _ \<Rightarrow> r)
          else r
      | None \<Rightarrow> r)"

definition boot_planes :: "boot_world \<Rightarrow> 'h plane_bootstrap \<Rightarrow> boot_progress" where
  "boot_planes w b =
     (let (ident, v1) = gate_runtime_identity w b;
          gh = gate_github_connected w b;
          org_ok = gate_github_org_bound w b (fst gh);
          can = (ident \<noteq> None \<and> fst gh \<and> fst org_ok);
          reachable = gate_fabric_reachable w b can;
          verified = gate_fabric_identity_verified w b can;
          can_read = (can \<and> fst reachable);
          probed = gate_runtime_reachable w b;
          r1 = add_result GITHUB_ORG_BOUND org_ok (add_result GITHUB_CONNECTED gh
                 (set_runtime_id ident (add_result RUNTIME_IDENTITY v1 (report_init (bw_started w)))));
          r2 = add_result FABRIC_TENANT_BOUND (gate_fabric_tenant_bound w b can ident)
                (add_result FABRIC_TRUST_VERIFIED (gate_fabric_trust_verified w b can ident)
                 (add_result FABRIC_NODE_AT_REMOTE_HEAD (gate_fabric_node_at_remote_head w b can)
                  (add_result FABRIC_IDENTITY_VERIFIED verified (add_result FABRIC_REACHABLE reachable r1))));
          r3 = add_result FABRIC_PROVENANCE_VALID (gate_fabric_provenance w b can_read ident)
                (add_result FABRIC_STATE_READABLE (gate_fabric_state_readable w b can_read)
                 (set_fabric_node w b (fst verified) r2));
          r4 = add_result RUNTIME_ADMITTED (gate_runtime_admitted w b can_read ident)
                (add_result RUNTIME_BINDING_VERIFIED (gate_runtime_binding w b (fst probed))
                 (add_result RUNTIME_HEALTH_VERIFIED (gate_runtime_health w b (fst probed))
                  (add_result RUNTIME_REACHABLE probed r3)))
      in \<lparr>bp_report = r4, bp_identity = ident, bp_can_proceed = can, bp_fab_reachable = fst reachable,
          bp_rt_reachable = fst probed\<rparr>)"

definition boot_policy :: "boot_world \<Rightarrow> 'h plane_bootstrap \<Rightarrow> boot_progress \<Rightarrow> bootstrap_report \<times> json" where
  "boot_policy w b p =
     (case pb_fabric b of
        Some fa \<Rightarrow>
          if bp_can_proceed p \<and> bp_fab_reachable p
          then let (v, contract, rev) = gate_policy_snapshot w fa; r = bp_report p
               in (add_result POLICY_SNAPSHOT_FRESH v
                     (r\<lparr>rp_policy_revision := (case rev of Some x \<Rightarrow> x | None \<Rightarrow> rp_policy_revision r)\<rparr>), contract)
          else (add_result POLICY_SNAPSHOT_FRESH failed (bp_report p), JNull)
      | None \<Rightarrow> (add_result POLICY_SNAPSHOT_FRESH failed (bp_report p), JNull))"

definition boot_phases ::
  "boot_world \<Rightarrow> 'h plane_bootstrap \<Rightarrow> runtime_identity option \<Rightarrow> json \<Rightarrow> bootstrap_report \<Rightarrow> bootstrap_report" where
  "boot_phases w b ident contract r =
     (let iv = discover (boot_discovery w b contract);
          r1 = record_inventory iv (gate_inventory iv r);
          r2 = add_result CRITICAL_ACCESS_VERIFIED
                 (gate_critical_access w b (ci_authorized (rp_capabilities r1))) r1;
          contracts = gate_contracts w b contract;
          r3 = add_result CONTRACTS_DISCOVERED contracts (r2\<lparr>rp_limits_verified := fst contracts\<rparr>);
          r4 = add_result DELEGATION_CONTEXT_BUILT (gate_delegation_context w ident r3) r3
      in add_result CONTINUITY_COHERENT (gate_continuity_coherent b) r4)"

text \<open>The last result of a gate counts; a gate without a result has not passed.\<close>

definition gate_map :: "bootstrap_report \<Rightarrow> (readiness_gate, bool) dict" where
  "gate_map r = foldl (\<lambda>d g. dict_set d (gr_gate g) (gr_passed g)) [] (rp_gates r)"

definition all_mandatory_pass :: "bootstrap_report \<Rightarrow> bool" where
  "all_mandatory_pass r \<longleftrightarrow> list_all (\<lambda>g. dict_get (gate_map r) g = Some True) mandatory_gates"

definition boot_resolve :: "boot_world \<Rightarrow> 'h plane_bootstrap \<Rightarrow> bootstrap_report result" where
  "boot_resolve w b =
     (let p = boot_planes w b; (r, contract) = boot_policy w b p
      in and_then (gate_plane_reconciliation w b (bp_can_proceed p) (bp_identity p) (bp_fab_reachable p)
                     (bp_rt_reachable p)) (\<lambda>v.
           let r' = boot_phases w b (bp_identity p) contract (add_result PLANE_RECONCILIATION v r)
           in Inr (finish (all_mandatory_pass r') (bw_completed w) r')))"

section \<open>Which results a report holds\<close>

definition gates_of :: "bootstrap_report \<Rightarrow> readiness_gate list" where
  "gates_of r = map gr_gate (rp_gates r)"

lemma gates_add [simp]: "gates_of (add_result g v r) = gates_of r @ [g]"
  by (simp add: gates_of_def add_result_def)

lemma gates_unchanged [simp]:
  "gates_of (set_runtime_id ident r) = gates_of r"
  "gates_of (set_fabric_node w b ok r) = gates_of r"
  "gates_of (record_inventory iv r) = gates_of r"
  "gates_of (finish ready now r) = gates_of r"
  "gates_of (r\<lparr>rp_limits_verified := l\<rparr>) = gates_of r"
  "gates_of (r\<lparr>rp_policy_revision := v\<rparr>) = gates_of r"
  "gates_of (report_init now) = []"
  by (simp_all add: gates_of_def set_runtime_id_def set_fabric_node_def record_inventory_def finish_def
      report_init_def split: option.split sum.split)

lemma planes_gates:
  "gates_of (bp_report (boot_planes w b)) =
     [RUNTIME_IDENTITY, GITHUB_CONNECTED, GITHUB_ORG_BOUND, FABRIC_REACHABLE, FABRIC_IDENTITY_VERIFIED,
      FABRIC_NODE_AT_REMOTE_HEAD, FABRIC_TRUST_VERIFIED, FABRIC_TENANT_BOUND, FABRIC_STATE_READABLE,
      FABRIC_PROVENANCE_VALID, RUNTIME_REACHABLE, RUNTIME_HEALTH_VERIFIED, RUNTIME_BINDING_VERIFIED,
      RUNTIME_ADMITTED]"
  by (simp add: boot_planes_def Let_def split: prod.split)

lemma policy_gates: "gates_of (fst (boot_policy w b p)) = gates_of (bp_report p) @ [POLICY_SNAPSHOT_FRESH]"
  by (simp add: boot_policy_def Let_def split: option.split prod.split)

lemma phases_gates:
  "gates_of (boot_phases w b ident contract r) = gates_of r @
     [CAPABILITIES_INVENTORIED, TOOLS_INVENTORIED, MODELS_INVENTORIED, WORKERS_INVENTORIED,
      CONNECTORS_INVENTORIED, CRITICAL_ACCESS_VERIFIED, CONTRACTS_DISCOVERED, DELEGATION_CONTEXT_BUILT,
      CONTINUITY_COHERENT]"
  by (simp add: boot_phases_def gate_inventory_def Let_def)

lemma resolve_shape:
  assumes "boot_resolve w b = Inr r"
  obtains p q contract v r' where "p = boot_planes w b" and "boot_policy w b p = (q, contract)"
    and "gate_plane_reconciliation w b (bp_can_proceed p) (bp_identity p) (bp_fab_reachable p)
           (bp_rt_reachable p) = Inr v"
    and "r' = boot_phases w b (bp_identity p) contract (add_result PLANE_RECONCILIATION v q)"
    and "r = finish (all_mandatory_pass r') (bw_completed w) r'"
proof -
  obtain q contract where "boot_policy w b (boot_planes w b) = (q, contract)" by (metis prod.exhaust)
  then show thesis using assms that by (auto simp: boot_resolve_def Let_def)
qed

lemma resolve_gates:
  assumes "boot_resolve w b = Inr r"
  shows "distinct (gates_of r)" and "set (gates_of r) = UNIV"
proof -
  obtain p q contract v r' where *: "p = boot_planes w b" "boot_policy w b p = (q, contract)"
      "r' = boot_phases w b (bp_identity p) contract (add_result PLANE_RECONCILIATION v q)"
      "r = finish (all_mandatory_pass r') (bw_completed w) r'"
    using assms by (rule resolve_shape)
  have "gates_of q = gates_of (bp_report p) @ [POLICY_SNAPSHOT_FRESH]"
    using policy_gates [of w b p] *(2) by simp
  then have gates: "gates_of r = [RUNTIME_IDENTITY, GITHUB_CONNECTED, GITHUB_ORG_BOUND, FABRIC_REACHABLE,
      FABRIC_IDENTITY_VERIFIED, FABRIC_NODE_AT_REMOTE_HEAD, FABRIC_TRUST_VERIFIED, FABRIC_TENANT_BOUND,
      FABRIC_STATE_READABLE, FABRIC_PROVENANCE_VALID, RUNTIME_REACHABLE, RUNTIME_HEALTH_VERIFIED,
      RUNTIME_BINDING_VERIFIED, RUNTIME_ADMITTED, POLICY_SNAPSHOT_FRESH, PLANE_RECONCILIATION,
      CAPABILITIES_INVENTORIED, TOOLS_INVENTORIED, MODELS_INVENTORIED, WORKERS_INVENTORIED,
      CONNECTORS_INVENTORIED, CRITICAL_ACCESS_VERIFIED, CONTRACTS_DISCOVERED, DELEGATION_CONTEXT_BUILT,
      CONTINUITY_COHERENT]"
    by (simp add: *(1,3,4) phases_gates planes_gates)
  then show "distinct (gates_of r)" by simp
  have "g \<in> set (gates_of r)" for g
    by (cases g) (simp_all add: gates)
  then show "set (gates_of r) = UNIV" by blast
qed

lemma mandatory_all: "set mandatory_gates = UNIV"
proof -
  have "g \<in> set mandatory_gates" for g
    by (cases g) (simp_all add: mandatory_gates_def)
  then show ?thesis by blast
qed

text \<open>With one result per gate, the dictionary of the verdict and \<open>get_gate\<close> agree.\<close>

lemma gate_map_distinct:
  assumes "distinct (gates_of r)"
  shows "gate_map r = map (\<lambda>g. (gr_gate g, gr_passed g)) (rp_gates r)"
proof -
  have fold: "foldl (\<lambda>d g. dict_set d (gr_gate g) (gr_passed g)) d gs =
      foldl (\<lambda>p (k, v). dict_set p k v) d (map (\<lambda>g. (gr_gate g, gr_passed g)) gs)" for d gs
    by (induction gs arbitrary: d) simp_all
  have "dict_wf (map (\<lambda>g. (gr_gate g, gr_passed g)) (rp_gates r))"
    using assms by (simp add: gates_of_def comp_def)
  then show ?thesis
    using dict_rebuild [of "[]" "map (\<lambda>g. (gr_gate g, gr_passed g)) (rp_gates r)"]
    by (simp add: gate_map_def fold)
qed

lemma find_gate:
  assumes "g \<in> gr_gate ` set gs"
  shows "map_of (map (\<lambda>x. (gr_gate x, gr_passed x)) gs) g =
         map_option gr_passed (find (\<lambda>x. gr_gate x = g) gs)"
  using assms by (induction gs) auto

lemma find_gate_exists: "g \<in> gr_gate ` set gs \<Longrightarrow> \<exists>x. find (\<lambda>x. gr_gate x = g) gs = Some x"
  by (induction gs) auto

lemma gate_map_get:
  assumes "distinct (gates_of r)" and "g \<in> set (gates_of r)"
  shows "dict_get (gate_map r) g = Some (gr_passed (get_gate r g))"
proof -
  have g: "g \<in> gr_gate ` set (rp_gates r)" using assms(2) by (simp add: gates_of_def)
  then obtain x where "find (\<lambda>x. gr_gate x = g) (rp_gates r) = Some x"
    using find_gate_exists by blast
  then show ?thesis
    using find_gate [OF g] by (simp add: gate_map_distinct [OF assms(1)] get_gate_def)
qed

lemma resolve_ready_iff:
  assumes "boot_resolve w b = Inr r"
  shows "rp_anny_ready r \<longleftrightarrow> (\<forall>g. gr_passed (get_gate r g))"
proof -
  obtain r' where r: "r = finish (all_mandatory_pass r') (bw_completed w) r'"
    using assms by (rule resolve_shape)
  have same: "gates_of r' = gates_of r" "rp_gates r' = rp_gates r"
    by (simp_all add: r) (simp add: finish_def)
  have "dict_get (gate_map r') g = Some (gr_passed (get_gate r g))" for g
    using gate_map_get [of r' g] resolve_gates [OF assms] same by (simp add: get_gate_def)
  then have "all_mandatory_pass r' \<longleftrightarrow> (\<forall>g. gr_passed (get_gate r g))"
    by (simp add: all_mandatory_pass_def list_all_iff mandatory_all)
  then show ?thesis by (simp add: r finish_def)
qed

section \<open>Reading a gate in the final report\<close>

lemma find_snoc:
  "find P (xs @ [y]) = (case find P xs of Some x \<Rightarrow> Some x | None \<Rightarrow> if P y then Some y else None)"
  by (induction xs) auto

lemma get_gate_add:
  "get_gate (add_result g v r) h =
     (if h \<in> set (gates_of r) then get_gate r h
      else if h = g then \<lparr>gr_gate = g, gr_passed = fst v, gr_evidence = snd v\<rparr>
      else \<lparr>gr_gate = h, gr_passed = False, gr_evidence = JNull\<rparr>)"
proof (cases "find (\<lambda>x. gr_gate x = h) (rp_gates r)")
  case None
  then have "h \<notin> set (gates_of r)" by (auto simp: find_None_iff gates_of_def)
  then show ?thesis using None by (auto simp: get_gate_def add_result_def find_snoc)
next
  case (Some x)
  then have "x \<in> set (rp_gates r)" "gr_gate x = h" by (auto simp: find_Some_iff)
  then have "h \<in> set (gates_of r)" by (auto simp: gates_of_def)
  then show ?thesis using Some by (simp add: get_gate_def add_result_def find_snoc)
qed

lemma get_gate_same: "rp_gates r = rp_gates r' \<Longrightarrow> get_gate r g = get_gate r' g"
  by (simp add: get_gate_def)

lemma get_gate_unchanged [simp]:
  "get_gate (set_runtime_id ident r) g = get_gate r g"
  "get_gate (set_fabric_node w b ok r) g = get_gate r g"
  "get_gate (record_inventory iv r) g = get_gate r g"
  "get_gate (finish ready now r) g = get_gate r g"
  "get_gate (r\<lparr>rp_limits_verified := l\<rparr>) g = get_gate r g"
  "get_gate (r\<lparr>rp_policy_revision := v\<rparr>) g = get_gate r g"
  by (simp_all add: get_gate_def set_runtime_id_def set_fabric_node_def record_inventory_def finish_def
      split: option.split sum.split)

lemma phases_keep_gate: "g \<in> set (gates_of r) \<Longrightarrow> get_gate (boot_phases w b ident contract r) g = get_gate r g"
  by (simp add: boot_phases_def gate_inventory_def Let_def get_gate_add)

lemma policy_keeps_gate:
  "g \<in> set (gates_of (bp_report p)) \<Longrightarrow> get_gate (fst (boot_policy w b p)) g = get_gate (bp_report p) g"
  by (simp add: boot_policy_def Let_def get_gate_add split: option.split prod.split)

lemma resolve_plane_gate:
  assumes "boot_resolve w b = Inr r" and "g \<in> set (gates_of (bp_report (boot_planes w b)))"
  shows "get_gate r g = get_gate (bp_report (boot_planes w b)) g"
proof -
  obtain p q contract v r' where *: "p = boot_planes w b" "boot_policy w b p = (q, contract)"
      "r' = boot_phases w b (bp_identity p) contract (add_result PLANE_RECONCILIATION v q)"
      "r = finish (all_mandatory_pass r') (bw_completed w) r'"
    using assms(1) by (rule resolve_shape)
  have q: "q = fst (boot_policy w b p)" by (simp add: *(2))
  then have "g \<in> set (gates_of q)" "get_gate q g = get_gate (bp_report p) g"
    using assms(2) policy_keeps_gate [of g p w b] by (simp_all add: policy_gates *(1))
  then show ?thesis by (simp add: *(1,3,4) phases_keep_gate get_gate_add)
qed

lemma planes_fields:
  "bp_identity (boot_planes w b) = fst (gate_runtime_identity w b)"
  "bp_can_proceed (boot_planes w b) \<longleftrightarrow> fst (gate_runtime_identity w b) \<noteq> None \<and>
     fst (gate_github_connected w b) \<and> fst (gate_github_org_bound w b (fst (gate_github_connected w b)))"
  "bp_fab_reachable (boot_planes w b) \<longleftrightarrow>
     fst (gate_fabric_reachable w b (bp_can_proceed (boot_planes w b)))"
  "bp_rt_reachable (boot_planes w b) \<longleftrightarrow> fst (gate_runtime_reachable w b)"
  by (simp_all add: boot_planes_def Let_def split: prod.split)

lemma planes_admitted:
  "gr_passed (get_gate (bp_report (boot_planes w b)) RUNTIME_ADMITTED) \<longleftrightarrow>
     fst (gate_runtime_admitted w b (bp_can_proceed (boot_planes w b) \<and> bp_fab_reachable (boot_planes w b))
            (bp_identity (boot_planes w b)))"
  by (simp add: boot_planes_def Let_def get_gate_add split: prod.split)

lemma identity_gate_Some:
  "fst (gate_runtime_identity w b) = Some i \<longleftrightarrow> identity_load (pb_data_dir b) (bw_identity w) = Inr i"
  by (auto simp: gate_runtime_identity_def split: sum.split)

lemma org_gate_passed:
  assumes "fst (gate_github_org_bound w b ok)"
  obtains c org v orgs names where "pb_github b = Some c" and "required_org b = Some org" and "org \<noteq> []"
    and "list_organizations (web_at w (At GITHUB_ORG_BOUND)) c = Inr v" and "items_of v = Inr orgs"
    and "org_logins orgs = Some names" and "JStr org \<in> set names"
proof -
  obtain c where c: "pb_github b = Some c" and t: "truthy_str (required_org b)"
    using assms by (auto simp: gate_github_org_bound_def split: option.splits if_splits)
  obtain org where org: "required_org b = Some org" "org \<noteq> []"
    using t by (cases "required_org b") auto
  obtain v where v: "list_organizations (web_at w (At GITHUB_ORG_BOUND)) c = Inr v"
    using assms c by (auto simp: gate_github_org_bound_def Let_def split: if_splits sum.splits)
  obtain orgs where orgs: "items_of v = Inr orgs"
    using assms c v by (auto simp: gate_github_org_bound_def Let_def split: if_splits sum.splits)
  obtain names where "org_logins orgs = Some names" "JStr org \<in> set names"
    using assms c v orgs org by (auto simp: gate_github_org_bound_def Let_def split: if_splits option.splits)
  then show thesis using that c org v orgs by blast
qed

lemma connected_gate_passed:
  assumes "fst (gate_github_connected w b)"
  obtains c v where "pb_github b = Some c"
    and "get_authenticated_principal (web_at w (At GITHUB_CONNECTED)) c = Inr v"
  using assms by (auto simp: gate_github_connected_def split: option.splits sum.splits)

lemma admitted_gate_passed:
  assumes "fst (gate_runtime_admitted w b can ident)"
  obtains fa i where "can" and "pb_fabric b = Some fa" and "ident = Some i"
    and "is_admitted (check_admission (web_at w (At RUNTIME_ADMITTED)) (ri_runtime_id i) fa)"
  using assms by (auto simp: gate_runtime_admitted_def with_fabric_def Let_def split: option.splits if_splits)

section \<open>Properties\<close>

text \<open>
  C26. Every bootstrap that ends evaluates each of the 25 gates exactly once, and the report is
  ready if and only if every gate passed: no gate can be skipped, overwritten or counted twice.
\<close>

theorem bootstrap_report_complete:
  assumes "boot_resolve w b = Inr r"
  shows "distinct (map gr_gate (rp_gates r)) \<and> set (map gr_gate (rp_gates r)) = UNIV \<and>
         (rp_anny_ready r \<longleftrightarrow> list_all gr_passed (rp_gates r))"
proof -
  have d: "distinct (gates_of r)" and u: "set (gates_of r) = UNIV"
    using resolve_gates [OF assms] by simp_all
  have get: "x \<in> set (rp_gates r) \<Longrightarrow> get_gate r (gr_gate x) = x" for x
  proof -
    assume x: "x \<in> set (rp_gates r)"
    then obtain y where y: "find (\<lambda>z. gr_gate z = gr_gate x) (rp_gates r) = Some y"
      using find_gate_exists [of "gr_gate x" "rp_gates r"] by blast
    then have "y \<in> set (rp_gates r)" "gr_gate y = gr_gate x"
      by (auto simp: find_Some_iff)
    then show "get_gate r (gr_gate x) = x"
      using d x y by (auto simp: gates_of_def distinct_map inj_on_def get_gate_def)
  qed
  have all: "(\<forall>g. Q g) \<longleftrightarrow> (\<forall>x \<in> set (rp_gates r). Q (gr_gate x))" for Q
    using u by (metis UNIV_I gates_of_def imageE image_set)
  have "rp_anny_ready r \<longleftrightarrow> list_all gr_passed (rp_gates r)"
    by (simp add: resolve_ready_iff [OF assms] all list_all_iff get cong: ball_cong)
  then show ?thesis using d u by (simp add: gates_of_def)
qed

text \<open>The organization whose membership is required is that of the Fabric, unless the configuration names another one.\<close>

lemma required_org_fabric:
  assumes "required_org b = Some org" and "pb_fabric b = Some fa"
  shows "org = fa_org fa \<or> (\<exists>cfg. pb_config b = Some cfg \<and> bc_fabric_org cfg = Some org \<and> org \<noteq> [])"
    and "pb_config b = Some cfg \<Longrightarrow> adapter_init c None None (Some (bc_fabric_org cfg, bc_fabric_repo cfg)) = Inr fa \<Longrightarrow>
      org = fa_org fa"
  using assms by (auto simp: required_org_def adapter_init_def Let_def split: option.splits if_splits)

text \<open>
  C12. The runtime is admitted only with the Fabric's explicit consent: when the gate
  \<open>RUNTIME_ADMITTED\<close> passes, an identity was loaded, GitHub authenticated the token, the required
  organization was among those of the user, the Fabric repository was reached, and the answers given
  to this very gate hold an admission record for this runtime id whose verdict is ALLOW, or no
  such record and a node document whose default policy is ALLOW, for any runtime. The required organization is that of
  the Fabric that was reached, or another one that the configuration names; it is that of the Fabric whenever the client
  of the Fabric was built from the same configuration.
\<close>

theorem runtime_admitted_sound:
  assumes "boot_resolve w b = Inr r" and "gr_passed (get_gate r RUNTIME_ADMITTED)"
  shows "\<exists>i c fa org v orgs names.
     identity_load (pb_data_dir b) (bw_identity w) = Inr i \<and> pb_github b = Some c \<and> pb_fabric b = Some fa \<and>
     required_org b = Some org \<and> list_organizations (web_at w (At GITHUB_ORG_BOUND)) c = Inr v \<and>
     items_of v = Inr orgs \<and> org_logins orgs = Some names \<and> JStr org \<in> set names \<and>
     (org = fa_org fa \<or> (\<exists>cfg. pb_config b = Some cfg \<and> bc_fabric_org cfg = Some org)) \<and>
     (\<forall>cfg k. pb_config b = Some cfg \<longrightarrow>
        adapter_init k None None (Some (bc_fabric_org cfg, bc_fabric_repo cfg)) = Inr fa \<longrightarrow> org = fa_org fa) \<and>
     fst (probe_reachability (web_at w (At FABRIC_REACHABLE)) (bw_latency w) fa) \<and>
     (let env = web_at w (At RUNTIME_ADMITTED);
          record_path = ''fabric/admissions/'' @ fmt env (ri_runtime_id i) @ ''.json''
      in document_allows env fa record_path ''verdict'' \<or>
         document_absent env fa record_path \<and>
         document_allows env fa ''fabric/node.json'' ''default_admission_policy'')"
proof -
  let ?p = "boot_planes w b"
  have gate: "fst (gate_runtime_admitted w b (bp_can_proceed ?p \<and> bp_fab_reachable ?p) (bp_identity ?p))"
    using assms(2) resolve_plane_gate [OF assms(1), of RUNTIME_ADMITTED] planes_admitted [of w b]
    by (simp add: planes_gates)
  obtain fa i where can: "bp_can_proceed ?p" "bp_fab_reachable ?p" and fa: "pb_fabric b = Some fa"
      and ident: "bp_identity ?p = Some i"
      and adm: "is_admitted (check_admission (web_at w (At RUNTIME_ADMITTED)) (ri_runtime_id i) fa)"
    using admitted_gate_passed [OF gate] by metis
  have "fst (gate_runtime_identity w b) = Some i" using ident by (simp add: planes_fields(1))
  then have i: "identity_load (pb_data_dir b) (bw_identity w) = Inr i"
    by (simp only: identity_gate_Some)
  have "fst (gate_github_org_bound w b (fst (gate_github_connected w b)))"
    using can(1) unfolding planes_fields(2) by blast
  then obtain c org v orgs names where org: "pb_github b = Some c" "required_org b = Some org"
      "list_organizations (web_at w (At GITHUB_ORG_BOUND)) c = Inr v" "items_of v = Inr orgs"
      "org_logins orgs = Some names" "JStr org \<in> set names"
    by (rule org_gate_passed)
  have "fst (probe_reachability (web_at w (At FABRIC_REACHABLE)) (bw_latency w) fa)"
    using can(2) fa by (simp add: planes_fields(3) gate_fabric_reachable_def with_fabric_def
        split: prod.splits if_splits)
  moreover have "org = fa_org fa \<or> (\<exists>cfg. pb_config b = Some cfg \<and> bc_fabric_org cfg = Some org)"
      "\<forall>cfg k. pb_config b = Some cfg \<longrightarrow>
        adapter_init k None None (Some (bc_fabric_org cfg, bc_fabric_repo cfg)) = Inr fa \<longrightarrow> org = fa_org fa"
    using required_org_fabric [OF org(2) fa] by blast+
  ultimately show ?thesis
    using i fa org adm unfolding admission_iff Let_def by blast
qed

definition demo_net :: "boot_phase \<Rightarrow> string \<Rightarrow> string \<Rightarrow> http_reply" where
  "demo_net p tok url =
     (if url = ''https://api.github.com/user'' then Http_body ''user''
      else if url = ''https://api.github.com/user/orgs?per_page=100'' then Http_body ''orgs''
      else if url = ''https://api.github.com/repos/acme/ops'' then Http_body ''user''
      else if url = ''https://api.github.com/repos/acme/ops/contents/fabric/admissions/RT-1.json''
      then Http_body ''file'' else Http_status 404 ''Not Found'')"

definition demo_loads :: "string \<Rightarrow> string + json" where
  "demo_loads t =
     (if t = ''user'' then Inr (JObj [(''login'', JStr ''ada'')])
      else if t = ''orgs'' then Inr (JList [JObj [(''login'', JStr ''acme'')]])
      else if t = ''file'' then Inr (JObj [(''content'', JStr ''adm''), (''encoding'', JStr ''base64'')])
      else if t = ''adm'' then Inr (JObj [(''verdict'', JStr ''allow'')])
      else Inl ''Expecting value'')"

definition demo_web :: web_env where
  "demo_web = \<lparr>we_net = demo_net Between, we_utf8 = Inr, we_loads = demo_loads, we_b64 = Inr, we_str = (\<lambda>_. ''?'')\<rparr>"

definition demo_identity :: runtime_identity where
  "demo_identity = identity_generate \<lparr>ed_generate = (''pem'', ''ab''), ed_sign = (\<lambda>_ m. Inr m),
     ed_verify = (\<lambda>_ s m. Some (s = m))\<rparr> ''1'' ''2'' ''0.1'' ''now'' ''linux''"

definition demo_boot_world :: boot_world where
  "demo_boot_world =
     \<lparr>bw_web = demo_web, bw_net = demo_net, bw_admin = (\<lambda>_ _. Admin_error ''refused''),
      bw_identity = identity_save demo_identity \<lparr>id_manifest = None, id_key = None\<rparr>, bw_latency = 0,
      bw_hmac = (\<lambda>_ _. ''00''), bw_issued = ''t'', bw_expires = ''u'', bw_stat = Inr 16877, bw_listdir = Inr 0,
      bw_exists = True, bw_import = (\<lambda>_ _. Imported True), bw_order = critical_capabilities,
      bw_started = ''t'', bw_completed = ''u''\<rparr>"

definition demo_plane :: "nat plane_bootstrap" where
  "demo_plane =
     plane_init None ''/d'' (Some \<lparr>rc_backend = None, rc_token = Some ''tok'', rc_account_id = None\<rparr>)
       (Some \<lparr>fa_client = \<lparr>rc_backend = None, rc_token = Some ''tok'', rc_account_id = None\<rparr>,
              fa_org = ''acme'', fa_repo = ''ops''\<rparr>)
       None None (Some \<lparr>cr_capabilities = []\<rparr>) (Some tools_init) (Some (registry_blank None)) None"

lemma demo_gates:
  "fst (gate_runtime_identity demo_boot_world demo_plane) = Some demo_identity"
  "fst (gate_github_connected demo_boot_world demo_plane)"
  "fst (gate_github_org_bound demo_boot_world demo_plane True)"
  "fst (gate_fabric_reachable demo_boot_world demo_plane True)"
  "fst (gate_runtime_admitted demo_boot_world demo_plane True (Some demo_identity))"
  by code_simp+

lemma unreached_runtime_resolves:
  assumes "\<not> fst (gate_runtime_reachable w b)"
  shows "\<exists>r. boot_resolve w b = Inr r"
proof -
  have "fabric_issues w b ident ok False = Inr []" for ident ok
    by (simp add: fabric_issues_def split: option.split)
  then have "\<exists>l. reconciliation_issues w b ident ok False = Inr l" for ident ok
    by (simp add: reconciliation_issues_def)
  then have "\<exists>v. gate_plane_reconciliation w b can ident ok False = Inr v" for can ident ok
    by (cases can) (auto simp: gate_plane_reconciliation_def, metis and_then.simps(2))
  then have "\<exists>v. gate_plane_reconciliation w b can ident ok (fst (gate_runtime_reachable w b)) = Inr v"
    for can ident ok using assms by simp
  then obtain v where "gate_plane_reconciliation w b (bp_can_proceed (boot_planes w b)) (bp_identity (boot_planes w b))
      (bp_fab_reachable (boot_planes w b)) (bp_rt_reachable (boot_planes w b)) = Inr v"
    unfolding planes_fields(4) by blast
  then show ?thesis by (simp add: boot_resolve_def Let_def split: prod.split)
qed

lemma demo_resolves:
  obtains r where "boot_resolve demo_boot_world demo_plane = Inr r" and "gr_passed (get_gate r RUNTIME_ADMITTED)"
proof -
  have "\<not> fst (gate_runtime_reachable demo_boot_world demo_plane)"
    by (simp add: gate_runtime_reachable_def demo_boot_world_def Let_def)
  then obtain r where r: "boot_resolve demo_boot_world demo_plane = Inr r"
    using unreached_runtime_resolves by blast
  have can: "bp_can_proceed (boot_planes demo_boot_world demo_plane)"
    using demo_gates by (simp add: planes_fields(2))
  then have "bp_fab_reachable (boot_planes demo_boot_world demo_plane)"
    using demo_gates by (simp add: planes_fields(3))
  then have "gr_passed (get_gate (bp_report (boot_planes demo_boot_world demo_plane)) RUNTIME_ADMITTED)"
    using can demo_gates by (simp add: planes_admitted planes_fields(1))
  then show thesis
    using that [OF r] resolve_plane_gate [OF r, of RUNTIME_ADMITTED] by (simp add: planes_gates)
qed

theorem runtime_admitted_sound_witness:
  "\<exists>r i c fa org v orgs names.
     boot_resolve demo_boot_world demo_plane = Inr r \<and> gr_passed (get_gate r RUNTIME_ADMITTED) \<and>
     identity_load (pb_data_dir demo_plane) (bw_identity demo_boot_world) = Inr i \<and>
     pb_github demo_plane = Some c \<and> pb_fabric demo_plane = Some fa \<and>
     required_org demo_plane = Some org \<and>
     list_organizations (web_at demo_boot_world (At GITHUB_ORG_BOUND)) c = Inr v \<and>
     items_of v = Inr orgs \<and> org_logins orgs = Some names \<and> JStr org \<in> set names \<and>
     fst (probe_reachability (web_at demo_boot_world (At FABRIC_REACHABLE)) (bw_latency demo_boot_world) fa) \<and>
     (let env = web_at demo_boot_world (At RUNTIME_ADMITTED);
          record_path = ''fabric/admissions/'' @ fmt env (ri_runtime_id i) @ ''.json''
      in document_allows env fa record_path ''verdict'' \<or>
         document_absent env fa record_path \<and>
         document_allows env fa ''fabric/node.json'' ''default_admission_policy'')"
proof -
  obtain r where r: "boot_resolve demo_boot_world demo_plane = Inr r" "gr_passed (get_gate r RUNTIME_ADMITTED)"
    by (rule demo_resolves)
  show ?thesis using runtime_admitted_sound [OF r] r by blast
qed

theorem bootstrap_report_complete_witness:
  "\<exists>r. boot_resolve demo_boot_world demo_plane = Inr r \<and>
       distinct (map gr_gate (rp_gates r)) \<and> set (map gr_gate (rp_gates r)) = UNIV \<and>
       (rp_anny_ready r \<longleftrightarrow> list_all gr_passed (rp_gates r))"
proof -
  obtain r where r: "boot_resolve demo_boot_world demo_plane = Inr r" by (rule demo_resolves)
  show ?thesis using bootstrap_report_complete [OF r] r by blast
qed

section \<open>What the classes of the runtime allow\<close>

lemma phases_critical:
  "CRITICAL_ACCESS_VERIFIED \<notin> set (gates_of r) \<Longrightarrow>
     \<exists>authorized. gr_passed (get_gate (boot_phases w b ident contract r) CRITICAL_ACCESS_VERIFIED) =
       fst (gate_critical_access w b authorized)"
  by (simp add: boot_phases_def gate_inventory_def Let_def get_gate_add) blast

text \<open>
  \<open>repository.read\<close> is critical and its test calls \<open>list_repos\<close>, which the client does not have:
  no bootstrap over \<open>GitHubClient\<close> is ever ready.
\<close>

lemma never_ready:
  assumes "boot_resolve w b = Inr r" and "''repository.read'' \<in> set (bw_order w)"
  shows "\<not> rp_anny_ready r"
proof -
  obtain p q contract v r' where *: "p = boot_planes w b" "boot_policy w b p = (q, contract)"
      "r' = boot_phases w b (bp_identity p) contract (add_result PLANE_RECONCILIATION v q)"
      "r = finish (all_mandatory_pass r') (bw_completed w) r'"
    using assms(1) by (rule resolve_shape)
  have "gates_of q = gates_of (bp_report p) @ [POLICY_SNAPSHOT_FRESH]"
    using policy_gates [of w b p] *(2) by simp
  then have "CRITICAL_ACCESS_VERIFIED \<notin> set (gates_of (add_result PLANE_RECONCILIATION v q))"
    by (simp add: *(1) planes_gates)
  then obtain authorized where "gr_passed (get_gate r CRITICAL_ACCESS_VERIFIED) = fst (gate_critical_access w b authorized)"
    using phases_critical *(3,4) by fastforce
  moreover have "\<not> fst (gate_critical_access w b authorized)"
    using assms(2) repository_read_refused by (auto simp: gate_critical_access_def Let_def verify_access_fields)
  ultimately show ?thesis using resolve_ready_iff [OF assms(1)] by blast
qed

end
