(* ===== verification/Config.thy ===== *)
theory Config
  imports Bootstrap
begin

text \<open>
  The configuration of the runtime (runtime/core/config.py) and the choice of the admin port
  (runtime/admin/port.py). The environment variables, the home directory and the rendering of a
  path are arguments; PyYAML is a third-party package: its \<open>dump\<close> and \<open>safe_load\<close> are arguments
  too. A configuration is the \<open>__dict__\<close> of the dataclass: its fields in order, with the JSON
  values a YAML document holds.
\<close>

section \<open>Directories and ports\<close>

record config_env =
  cv_var :: "string \<Rightarrow> string option"
  cv_home :: string
  cv_system :: string
  cv_path :: "string \<Rightarrow> string"

definition install_mode :: "config_env \<Rightarrow> string" where
  "install_mode env =
     map to_lower_char (case cv_var env ''ANNY_INSTALL_MODE'' of Some m \<Rightarrow> m | None \<Rightarrow> ''user'')"

definition data_dir_of :: "config_env \<Rightarrow> string" where
  "data_dir_of env =
     (if truthy_str (cv_var env ''ANNY_DATA_DIR'') then cv_path env (the (cv_var env ''ANNY_DATA_DIR''))
      else if install_mode env = ''system'' then ''/var/lib/anny-runtime''
      else cv_home env @ ''/.anny-runtime'')"

definition runtime_dir_of :: "config_env \<Rightarrow> string" where
  "runtime_dir_of env =
     (if install_mode env = ''system'' then ''/opt/anny-runtime''
      else cv_home env @ ''/.local/share/anny-runtime'')"

text \<open>\<open>port.py\<close>: the ports that can be bound are an argument.\<close>

definition select_admin_port :: "(int \<Rightarrow> bool) \<Rightarrow> int \<Rightarrow> int set \<Rightarrow> int result" where
  "select_admin_port free preferred extra =
     (let forbidden = extra \<union> {3434}
      in if preferred \<in> forbidden
         then Inl (ValueError (''Preferred port '' @ str_int preferred @ '' is in the forbidden list''))
         else if free preferred then Inr preferred
         else case find (\<lambda>p. p \<notin> forbidden \<and> free p) [3644, 3645, 3646, 3647, 3648, 3650, 3700, 3800, 3900, 4643] of
             Some p \<Rightarrow> Inr p
           | None \<Rightarrow> Inl (RuntimeError ''No available admin port found''))"

section \<open>RuntimeConfig\<close>

type_synonym runtime_config = "(string \<times> json) list"

definition default_config :: "config_env \<Rightarrow> runtime_config" where
  "default_config env =
    [(''data_dir'', JStr (data_dir_of env)),
     (''max_concurrent_executions'', JInt 10),
     (''max_process_duration_seconds'', JInt 3600),
     (''max_workspace_disk_mb'', JInt 10240),
     (''max_memory_mb'', JInt 4096),
     (''session_lease_ttl_seconds'', JInt 3600),
     (''health_check_interval_seconds'', JInt 30),
     (''update_check_interval_seconds'', JInt 86400),
     (''update_channel'', JStr ''dev''),
     (''log_level'', JStr ''INFO''),
     (''github_client_id'', JStr (case cv_var env ''ANNY_GITHUB_CLIENT_ID'' of Some v \<Rightarrow> v | None \<Rightarrow> [])),
     (''fabric_org'', JNull),
     (''fabric_repo'', JNull),
     (''admin_enabled'', JBool True),
     (''admin_host'', JStr ''127.0.0.1''),
     (''admin_port'', JInt (get_admin_port (cv_var env ''ANNY_ADMIN_PORT''))),
     (''admin_session_ttl_seconds'', JInt 1800),
     (''platform'', JStr (map to_lower_char (cv_system env)))]"

definition config_keys :: "string list" where
  "config_keys =
    [''data_dir'', ''max_concurrent_executions'', ''max_process_duration_seconds'', ''max_workspace_disk_mb'',
     ''max_memory_mb'', ''session_lease_ttl_seconds'', ''health_check_interval_seconds'',
     ''update_check_interval_seconds'', ''update_channel'', ''log_level'', ''github_client_id'', ''fabric_org'',
     ''fabric_repo'', ''admin_enabled'', ''admin_host'', ''admin_port'', ''admin_session_ttl_seconds'', ''platform'']"

text \<open>\<open>cls(**data)\<close> for data that holds fields only: a missing field takes its default.\<close>

definition config_of :: "config_env \<Rightarrow> (string \<times> json) list \<Rightarrow> runtime_config" where
  "config_of env data =
     map (\<lambda>(k, d). (k, case dict_get data k of Some v \<Rightarrow> v | None \<Rightarrow> d)) (default_config env)"

text \<open>\<open>config.yaml\<close>: absent, unreadable (the text of the error), or what it parses to.\<close>

datatype config_file = No_config | Bad_config string | Config_text string

record yaml =
  ya_installed :: bool
  ya_dump :: "json \<Rightarrow> string"
  ya_safe_load :: "string \<Rightarrow> string + json"

definition config_error :: "string \<Rightarrow> 'a result" where
  "config_error m = Inl (RuntimeError m)"

text \<open>\<open>RuntimeConfigError\<close> is a \<open>RuntimeError\<close>.\<close>

definition read_config :: "yaml \<Rightarrow> string \<Rightarrow> config_file \<Rightarrow> (string \<times> json) list result" where
  "read_config y path f =
     (case f of
        No_config \<Rightarrow> Inr []
      | _ \<Rightarrow>
          if \<not> ya_installed y then config_error ''PyYAML is required to load Runtime configuration''
          else let invalid = (\<lambda>m. config_error (''Invalid Runtime configuration at '' @ path @ '': '' @ m))
               in (case f of
                     Config_text t \<Rightarrow>
                       (case ya_safe_load y t of
                          Inl m \<Rightarrow> invalid m
                        | Inr JNull \<Rightarrow> Inr []
                        | Inr (JObj kvs) \<Rightarrow> Inr kvs
                        | Inr _ \<Rightarrow> config_error (''Runtime configuration at '' @ path @ '' must be a YAML mapping''))
                   | Bad_config m \<Rightarrow> invalid m
                   | No_config \<Rightarrow> Inr []))"

definition merge_admin :: "(string \<times> json) list \<Rightarrow> (string \<times> json) list" where
  "merge_admin data =
     (case dict_get data ''admin'' of
        Some (JObj kvs) \<Rightarrow>
          foldl (\<lambda>d (k, v). let flat = ''admin_'' @ k in if flat \<in> set config_keys then dict_set d flat v else d)
            data kvs
      | _ \<Rightarrow> data)"

definition config_load :: "yaml \<Rightarrow> config_env \<Rightarrow> config_file \<Rightarrow> runtime_config result" where
  "config_load y env f =
     and_then (read_config y (data_dir_of env @ ''/config.yaml'') f) (\<lambda>data.
       let merged = merge_admin data;
           client = cv_var env ''ANNY_GITHUB_CLIENT_ID'';
           overridden = (if truthy_str client then dict_set merged ''github_client_id'' (JStr (the client)) else merged)
       in Inr (config_of env (filter (\<lambda>(k, _). k \<in> set config_keys) overridden)))"

text \<open>\<open>k.replace(p, "")\<close>: every occurrence is removed.\<close>

function remove_all :: "string \<Rightarrow> string \<Rightarrow> string" where
  "remove_all p s =
     (if p = [] \<or> s = [] then s
      else if prefix p s then remove_all p (drop (length p) s)
      else hd s # remove_all p (tl s))"
  by pat_completeness auto

termination by (relation "measure (\<lambda>(p, s). length s)") auto

declare remove_all.simps [simp del]

text \<open>No field starts with an underscore; the admin fields move into a block of their own.\<close>

definition config_save :: "yaml \<Rightarrow> runtime_config \<Rightarrow> config_file" where
  "config_save y c =
     (let data = filter (\<lambda>(k, _). \<not> starts_with k ''_'') c;
          admin = filter (\<lambda>(k, _). starts_with k ''admin_'') data;
          rest = filter (\<lambda>(k, _). \<not> starts_with k ''admin_'') data
      in Config_text (ya_dump y (JObj
           (if admin = [] then data
            else rest @ [(''admin'', JObj (map (\<lambda>(k, v). (remove_all ''admin_'' k, v)) admin))]))))"

text \<open>What the bootstrap and the adapters read of a configuration.\<close>

definition config_string :: "runtime_config \<Rightarrow> string \<Rightarrow> string option" where
  "config_string c k = (case dict_get c k of Some (JStr s) \<Rightarrow> Some s | _ \<Rightarrow> None)"

definition boot_config_of :: "runtime_config \<Rightarrow> boot_config" where
  "boot_config_of c =
     \<lparr>bc_admin_host = jfield c ''admin_host'' JNull, bc_admin_port = jfield c ''admin_port'' JNull,
      bc_fabric_org = config_string c ''fabric_org'', bc_fabric_repo = config_string c ''fabric_repo'',
      bc_version_commit = None\<rparr>"

section \<open>What a loaded configuration is\<close>

lemma default_config_keys: "dict_keys (default_config env) = config_keys"
  by (simp add: default_config_def config_keys_def)

lemma config_of_keys: "dict_keys (config_of env data) = config_keys"
proof -
  have "dict_keys (config_of env data) = dict_keys (default_config env)"
    by (simp add: config_of_def)
  then show ?thesis by (simp add: default_config_keys)
qed

lemma config_load_keys: "config_load y env f = Inr c \<Longrightarrow> dict_keys c = config_keys"
  by (auto simp: config_load_def Let_def config_of_keys)

lemma config_of_self:
  assumes "dict_keys c = config_keys"
  shows "config_of env c = c"
proof -
  have wf: "dict_wf c" using assms by (simp add: config_keys_def)
  have "map (\<lambda>(k, d). (k, case dict_get c k of Some v \<Rightarrow> v | None \<Rightarrow> d)) ds = e"
    if "dict_keys ds = dict_keys e" "set e \<subseteq> set c" for ds e
    using that
  proof (induction ds e rule: list_induct2')
    case (4 d ds x e)
    then have "dict_get c (fst x) = Some (snd x)"
      using wf by (cases x) auto
    then show ?case using 4 by (cases d; cases x) auto
  qed simp_all
  then show ?thesis
    using assms default_config_keys [of env] by (simp add: config_of_def)
qed

section \<open>What is saved\<close>

lemma admin_names:
  "remove_all ''admin_'' ''admin_enabled'' = ''enabled''"
  "remove_all ''admin_'' ''admin_host'' = ''host''"
  "remove_all ''admin_'' ''admin_port'' = ''port''"
  "remove_all ''admin_'' ''admin_session_ttl_seconds'' = ''session_ttl_seconds''"
  by code_simp+

definition saved_fields :: "runtime_config \<Rightarrow> (string \<times> json) list" where
  "saved_fields c =
     filter (\<lambda>(k, _). \<not> starts_with k ''admin_'') c @
     [(''admin'', JObj [(''enabled'', jfield c ''admin_enabled'' JNull), (''host'', jfield c ''admin_host'' JNull),
        (''port'', jfield c ''admin_port'' JNull), (''session_ttl_seconds'', jfield c ''admin_session_ttl_seconds'' JNull)])]"

lemma keys_Cons: "map fst c = k # ks \<longleftrightarrow> (\<exists>v c'. c = (k, v) # c' \<and> map fst c' = ks)"
  by (cases c) auto

lemma config_values:
  assumes "dict_keys c = config_keys"
  obtains v1 v2 v3 v4 v5 v6 v7 v8 v9 v10 v11 v12 v13 v14 v15 v16 v17 v18 where
    "c = [(''data_dir'', v1), (''max_concurrent_executions'', v2), (''max_process_duration_seconds'', v3),
      (''max_workspace_disk_mb'', v4), (''max_memory_mb'', v5), (''session_lease_ttl_seconds'', v6),
      (''health_check_interval_seconds'', v7), (''update_check_interval_seconds'', v8), (''update_channel'', v9),
      (''log_level'', v10), (''github_client_id'', v11), (''fabric_org'', v12),
      (''fabric_repo'', v13), (''admin_enabled'', v14), (''admin_host'', v15),
      (''admin_port'', v16), (''admin_session_ttl_seconds'', v17), (''platform'', v18)]"
proof -
  have "\<exists>v1 v2 v3 v4 v5 v6 v7 v8 v9 v10 v11 v12 v13 v14 v15 v16 v17 v18. c = [(''data_dir'', v1), (''max_concurrent_executions'', v2), (''max_process_duration_seconds'', v3),
      (''max_workspace_disk_mb'', v4), (''max_memory_mb'', v5), (''session_lease_ttl_seconds'', v6),
      (''health_check_interval_seconds'', v7), (''update_check_interval_seconds'', v8), (''update_channel'', v9),
      (''log_level'', v10), (''github_client_id'', v11), (''fabric_org'', v12),
      (''fabric_repo'', v13), (''admin_enabled'', v14), (''admin_host'', v15),
      (''admin_port'', v16), (''admin_session_ttl_seconds'', v17), (''platform'', v18)]"
    using assms unfolding config_keys_def keys_Cons by blast
  then show thesis using that by blast
qed

lemma config_save_text:
  assumes "dict_keys c = config_keys"
  shows "config_save y c = Config_text (ya_dump y (JObj (saved_fields c)))"
  using assms
  by (rule config_values)
     (simp add: config_save_def saved_fields_def config_keys_def starts_with_def jfield_def admin_names)

lemma config_of_cong:
  assumes "\<And>k. k \<in> set config_keys \<Longrightarrow> dict_get data k = dict_get c k"
  shows "config_of env data = config_of env c"
proof -
  have "fst x \<in> set config_keys" if "x \<in> set (default_config env)" for x
    using that default_config_keys [of env] by (metis image_eqI set_map)
  then show ?thesis using assms by (auto simp: config_of_def)
qed

lemma filter_get: "k \<in> K \<Longrightarrow> dict_get (filter (\<lambda>(k, _). k \<in> K) d) k = dict_get d k"
  by (induction d) auto

lemma merge_saved:
  assumes "dict_keys c = config_keys" and "k \<in> set config_keys"
  shows "dict_get (merge_admin (saved_fields c)) k = dict_get c k"
  using assms(1)
proof (rule config_values)
  fix v1 v2 v3 v4 v5 v6 v7 v8 v9 v10 v11 v12 v13 v14 v15 v16 v17 v18
  assume c: "c = [(''data_dir'', v1), (''max_concurrent_executions'', v2), (''max_process_duration_seconds'', v3),
      (''max_workspace_disk_mb'', v4), (''max_memory_mb'', v5), (''session_lease_ttl_seconds'', v6),
      (''health_check_interval_seconds'', v7), (''update_check_interval_seconds'', v8), (''update_channel'', v9),
      (''log_level'', v10), (''github_client_id'', v11), (''fabric_org'', v12),
      (''fabric_repo'', v13), (''admin_enabled'', v14), (''admin_host'', v15),
      (''admin_port'', v16), (''admin_session_ttl_seconds'', v17), (''platform'', v18)]"
  have block: "saved_fields c = filter (\<lambda>(k, _). \<not> starts_with k ''admin_'') c @
      [(''admin'', JObj [(''enabled'', v14), (''host'', v15), (''port'', v16), (''session_ttl_seconds'', v17)])]"
    by (simp add: saved_fields_def c jfield_def)
  have rest: "filter (\<lambda>(k, _). \<not> starts_with k ''admin_'') c =
      [(''data_dir'', v1), (''max_concurrent_executions'', v2), (''max_process_duration_seconds'', v3), (''max_workspace_disk_mb'', v4), (''max_memory_mb'', v5),
       (''session_lease_ttl_seconds'', v6), (''health_check_interval_seconds'', v7), (''update_check_interval_seconds'', v8), (''update_channel'', v9), (''log_level'', v10),
       (''github_client_id'', v11), (''fabric_org'', v12), (''fabric_repo'', v13), (''platform'', v18)]"
    by (simp add: c starts_with_def)
  have admin: "dict_get (saved_fields c) ''admin'' =
      Some (JObj [(''enabled'', v14), (''host'', v15), (''port'', v16), (''session_ttl_seconds'', v17)])"
    by (simp add: block rest)
  have keys: "''admin_enabled'' \<in> set config_keys" "''admin_host'' \<in> set config_keys"
      "''admin_port'' \<in> set config_keys" "''admin_session_ttl_seconds'' \<in> set config_keys"
    by (simp_all add: config_keys_def)
  have merged: "merge_admin (saved_fields c) =
      dict_set (dict_set (dict_set (dict_set (saved_fields c) ''admin_enabled'' v14) ''admin_host'' v15)
        ''admin_port'' v16) ''admin_session_ttl_seconds'' v17"
    using keys by (simp add: merge_admin_def admin)
  show "dict_get (merge_admin (saved_fields c)) k = dict_get c k"
    using assms(2) unfolding merged unfolding dict_get_set unfolding block rest
    unfolding config_keys_def list.set insert_iff empty_iff
    by (elim disjE FalseE) (simp_all add: c)
qed

text \<open>
  A saved configuration is read back unchanged, the admin block included, whenever YAML
  gives back the document that was dumped and the environment does not override the client id.
\<close>

theorem config_roundtrip:
  assumes "ya_installed y"
    and "ya_safe_load y (ya_dump y (JObj (saved_fields c))) = Inr (JObj (saved_fields c))"
    and "dict_keys c = config_keys"
    and "\<not> truthy_str (cv_var env ''ANNY_GITHUB_CLIENT_ID'')"
  shows "config_load y env (config_save y c) = Inr c"
proof -
  have "config_of env (filter (\<lambda>(k, _). k \<in> set config_keys) (merge_admin (saved_fields c))) = config_of env c"
    using merge_saved [OF assms(3)] by (intro config_of_cong) (simp add: filter_get)
  also have "\<dots> = c" using assms(3) by (rule config_of_self)
  finally show ?thesis
    using assms(1,2,4) by (simp add: config_load_def config_save_text [OF assms(3)] read_config_def Let_def)
qed

definition demo_config_env :: config_env where
  "demo_config_env = \<lparr>cv_var = (\<lambda>_. None), cv_home = ''/home/a'', cv_system = ''Linux'', cv_path = id\<rparr>"

definition demo_config :: runtime_config where
  "demo_config = dict_set (default_config demo_config_env) ''fabric_org'' (JStr ''acme'')"

definition demo_yaml :: yaml where
  "demo_yaml = \<lparr>ya_installed = True, ya_dump = (\<lambda>_. ''doc''),
     ya_safe_load = (\<lambda>_. Inr (JObj (saved_fields demo_config)))\<rparr>"

theorem config_roundtrip_witness:
  "config_load demo_yaml demo_config_env (config_save demo_yaml demo_config) = Inr demo_config \<and>
   config_string demo_config ''fabric_org'' = Some ''acme''"
proof -
  have "dict_keys demo_config = config_keys"
    by (simp add: demo_config_def default_config_def config_keys_def)
  then have "config_load demo_yaml demo_config_env (config_save demo_yaml demo_config) = Inr demo_config"
    by (rule config_roundtrip [rotated 2]) (simp_all add: demo_yaml_def demo_config_env_def)
  then show ?thesis by (simp add: config_string_def demo_config_def)
qed

end
