(* ===== verification/Engine.thy ===== *)
theory Engine
  imports Config Continuity Generation
begin

text \<open>
  The engine of the runtime (runtime/core/engine.py): startup, verification and shutdown over the
  generation counter, the continuity engine, the bootstrap and the persisted
  \<open>engine_state.json\<close>. Writing that file is atomic; failures of the disk are left out, and so
  are the stubs that only log (active executions, sessions, event channels).
\<close>

datatype runtime_state =
  RS_STARTING | RS_VERIFYING | RS_READY | RS_WAITING_FOR_SESSION | RS_DRAINING | RS_STOPPED | RS_ERROR | RS_ADMIN_MODE

record persisted_state =
  ps_generation :: int
  ps_state :: runtime_state
  ps_clean_shutdown :: bool

record runtime_engine =
  en_config :: runtime_config
  en_state :: runtime_state
  en_generation :: runtime_generation
  en_continuity :: "continuity_engine option"
  en_report :: "bootstrap_report option"

text \<open>The files: the left value of the state file is what reading it raises.\<close>

record engine_disk =
  dk_generation :: generation_file
  dk_engine_state :: "(persisted_state result) option"
  dk_continuity :: continuity_engine

type_synonym engine = "runtime_engine \<times> engine_disk"

definition engine_init :: "runtime_config \<Rightarrow> engine_disk \<Rightarrow> engine" where
  "engine_init c d =
     (\<lparr>en_config = c, en_state = RS_STOPPED, en_generation = generation_init (dk_generation d),
       en_continuity = None, en_report = None\<rparr>, d)"

definition persist_state :: "bool \<Rightarrow> engine \<Rightarrow> engine" where
  "persist_state cleanly s =
     (fst s, (snd s)\<lparr>dk_engine_state := Some (Inr
        \<lparr>ps_generation = current_gen (en_generation (fst s)), ps_state = en_state (fst s), ps_clean_shutdown = cleanly\<rparr>)\<rparr>)"

definition set_state :: "runtime_state \<Rightarrow> engine \<Rightarrow> engine" where
  "set_state st s = ((fst s)\<lparr>en_state := st\<rparr>, snd s)"

definition advance_generation :: "engine \<Rightarrow> engine" where
  "advance_generation s =
     (case generation_increment (dk_generation (snd s), en_generation (fst s)) of
        ((f, g), _) \<Rightarrow> ((fst s)\<lparr>en_generation := g\<rparr>, (snd s)\<lparr>dk_generation := f\<rparr>))"

text \<open>The constructor of the continuity engine loads its files, and \<open>startup\<close> loads them again.\<close>

definition init_continuity :: "engine \<Rightarrow> engine" where
  "init_continuity s =
     (let c = continuity_load (continuity_load (dk_continuity (snd s)))
      in ((fst s)\<lparr>en_continuity := Some c\<rparr>, (snd s)\<lparr>dk_continuity := c\<rparr>))"

definition previous_clean :: "engine \<Rightarrow> bool" where
  "previous_clean s =
     (case dk_engine_state (snd s) of
        None \<Rightarrow> True
      | Some (Inl _) \<Rightarrow> False
      | Some (Inr p) \<Rightarrow> ps_clean_shutdown p)"

text \<open>\<open>ContinuityEngine\<close> has no attribute \<open>status\<close>.\<close>

definition continuity_status :: "continuity_engine \<Rightarrow> json result" where
  "continuity_status c = Inl (no_attribute ''ContinuityEngine'' ''status'')"

definition engine_bootstrap ::
  "string option \<Rightarrow> rest_client option \<Rightarrow> fabric_adapter option \<Rightarrow> runtime_engine \<Rightarrow> unit plane_bootstrap" where
  "engine_bootstrap env_port github fabric en =
     plane_init env_port (case config_string (en_config en) ''data_dir'' of Some d \<Rightarrow> d | None \<Rightarrow> [])
       github fabric (map_option continuity_status (en_continuity en)) (Some (boot_config_of (en_config en)))
       None None None None"

text \<open>The verdict of the bootstrap becomes the state, which is persisted; what it raises is raised again.\<close>

definition run_bootstrap ::
  "string option \<Rightarrow> boot_world \<Rightarrow> rest_client option \<Rightarrow> fabric_adapter option \<Rightarrow> engine \<Rightarrow> engine \<times> unit result" where
  "run_bootstrap env_port w github fabric s =
     (case boot_resolve w (engine_bootstrap env_port github fabric (fst s)) of
        Inl e \<Rightarrow> (persist_state False (set_state RS_ERROR s), Inl e)
      | Inr r \<Rightarrow>
          let s1 = ((fst s)\<lparr>en_report := Some r\<rparr>, snd s)
          in (persist_state False
                (set_state (if rp_anny_ready r then RS_WAITING_FOR_SESSION else RS_ADMIN_MODE) s1), Inr ()))"

text \<open>Besides the engine, whether the previous termination was taken for an abnormal one.\<close>

definition engine_startup ::
  "string option \<Rightarrow> boot_world \<Rightarrow> rest_client option \<Rightarrow> fabric_adapter option \<Rightarrow> engine
     \<Rightarrow> engine \<times> bool \<times> unit result" where
  "engine_startup env_port w github fabric s =
     (let s1 = persist_state False (advance_generation (set_state RS_STARTING s));
          s2 = init_continuity s1;
          (s3, outcome) = run_bootstrap env_port w github fabric s2
      in (s3, \<not> previous_clean s2, outcome))"

definition engine_verify ::
  "string option \<Rightarrow> boot_world \<Rightarrow> rest_client option \<Rightarrow> fabric_adapter option \<Rightarrow> engine \<Rightarrow> engine \<times> unit result" where
  "engine_verify env_port w github fabric s =
     run_bootstrap env_port w github fabric (persist_state False (set_state RS_VERIFYING s))"

definition engine_shutdown :: "engine \<Rightarrow> engine" where
  "engine_shutdown s = persist_state True (set_state RS_STOPPED (set_state RS_DRAINING s))"

definition engine_health :: "runtime_engine \<Rightarrow> json" where
  "engine_health en =
     JObj [(''status'', JStr ''ok''), (''generation'', JInt (current_gen (en_generation en))),
           (''subsystems'', JObj [(''identity'', JStr ''ok''), (''journal'', JStr ''ok''), (''execution'', JStr ''ok'')])]"

lemmas engine_defs [op_defs] =
  persist_state_def set_state_def advance_generation_def init_continuity_def engine_shutdown_def

section \<open>Runs\<close>

datatype engine_op =
    Startup boot_world "rest_client option" "fabric_adapter option"
  | Verify boot_world "rest_client option" "fabric_adapter option"
  | Shutdown

fun engine_apply :: "string option \<Rightarrow> engine \<Rightarrow> engine_op \<Rightarrow> engine" where
  "engine_apply port s (Startup w gh fab) = fst (engine_startup port w gh fab s)"
| "engine_apply port s (Verify w gh fab) = fst (engine_verify port w gh fab s)"
| "engine_apply port s Shutdown = engine_shutdown s"

definition engine_run :: "string option \<Rightarrow> engine \<Rightarrow> engine_op list \<Rightarrow> engine" where
  "engine_run port = foldl (engine_apply port)"

text \<open>The file tells the state of the engine, its generation, and whether it was shut down.\<close>

definition persisted :: "engine \<Rightarrow> bool" where
  "persisted s \<longleftrightarrow> (\<exists>p. dk_engine_state (snd s) = Some (Inr p) \<and> ps_state p = en_state (fst s) \<and>
     ps_generation p = current_gen (en_generation (fst s)) \<and>
     (ps_clean_shutdown p \<longleftrightarrow> en_state (fst s) = RS_STOPPED))"

lemma persisted_False: "en_state (fst s) \<noteq> RS_STOPPED \<Longrightarrow> persisted (persist_state False s)"
  by (simp add: persisted_def persist_state_def)

lemma run_bootstrap_persisted: "persisted (fst (run_bootstrap port w gh fab s))"
proof (cases "boot_resolve w (engine_bootstrap port gh fab (fst s))")
  case (Inl e)
  then show ?thesis by (simp add: run_bootstrap_def persisted_False set_state_def)
next
  case (Inr r)
  then show ?thesis by (auto simp: run_bootstrap_def Let_def set_state_def intro!: persisted_False)
qed

lemma startup_apply:
  "engine_apply port s (Startup w gh fab) = fst (run_bootstrap port w gh fab
     (init_continuity (persist_state False (advance_generation (set_state RS_STARTING s)))))"
  by (simp add: engine_startup_def Let_def case_prod_beta)

lemma engine_apply_persisted: "persisted (engine_apply port s op)"
proof (cases op)
  case (Startup w gh fab)
  then show ?thesis using run_bootstrap_persisted by (simp only: startup_apply)
next
  case (Verify w gh fab)
  then show ?thesis by (simp add: engine_verify_def run_bootstrap_persisted)
next
  case Shutdown
  then show ?thesis by (simp add: engine_shutdown_def persist_state_def set_state_def persisted_def)
qed

text \<open>\<open>WAITING_FOR_SESSION\<close> is never reached: no bootstrap over the classes of the runtime is ready.\<close>

definition real_world :: "boot_world \<Rightarrow> bool" where
  "real_world w \<longleftrightarrow> set (bw_order w) = set critical_capabilities"

fun op_real :: "engine_op \<Rightarrow> bool" where
  "op_real (Startup w gh fab) = real_world w"
| "op_real (Verify w gh fab) = real_world w"
| "op_real Shutdown = True"

lemma run_bootstrap_state:
  assumes "real_world w"
  shows "en_state (fst (fst (run_bootstrap port w gh fab s))) \<in> {RS_ERROR, RS_ADMIN_MODE}"
proof -
  have "''repository.read'' \<in> set (bw_order w)"
    using assms by (simp add: real_world_def critical_capabilities_def)
  then show ?thesis
    using never_ready [of w "engine_bootstrap port gh fab (fst s)"]
    by (auto simp: run_bootstrap_def persist_state_def set_state_def Let_def split: sum.split)
qed

lemma engine_apply_state:
  assumes "op_real op"
  shows "en_state (fst (engine_apply port s op)) \<in> (if op = Shutdown then {RS_STOPPED} else {RS_ERROR, RS_ADMIN_MODE})"
proof (cases op)
  case (Startup w gh fab)
  then have "real_world w" using assms by simp
  then show ?thesis using run_bootstrap_state by (simp add: Startup startup_apply del: engine_apply.simps)
next
  case (Verify w gh fab)
  then show ?thesis using assms run_bootstrap_state [of w port gh fab "persist_state False (set_state RS_VERIFYING s)"]
    by (simp add: engine_verify_def)
next
  case Shutdown
  then show ?thesis by (simp add: engine_shutdown_def persist_state_def set_state_def)
qed

lemma startup_generation:
  "current_gen (en_generation (fst (engine_apply port s (Startup w gh fab)))) =
     generation_load (dk_generation (snd s)) + 1"
proof -
  have keep: "en_generation (fst (fst (run_bootstrap port w gh fab t))) = en_generation (fst t)" for t
    by (simp add: run_bootstrap_def persist_state_def set_state_def Let_def split: sum.split)
  show ?thesis
    by (simp add: startup_apply keep engine_defs case_prod_beta del: engine_apply.simps)
       (simp add: generation_increment_def generation_load_def Let_def split: generation_file.split)
qed

lemma bootstrap_not_stopped: "en_state (fst (fst (run_bootstrap port w gh fab s))) \<noteq> RS_STOPPED"
  by (simp add: run_bootstrap_def persist_state_def set_state_def Let_def split: sum.split)

lemma stopped_iff: "en_state (fst (engine_apply port s op)) = RS_STOPPED \<longleftrightarrow> op = Shutdown"
  by (cases op)
     (simp_all add: startup_apply engine_verify_def bootstrap_not_stopped engine_shutdown_def persist_state_def
       set_state_def del: engine_apply.simps(1))

lemma engine_run_snoc: "engine_run port s (ops @ [op]) = engine_apply port (engine_run port s ops) op"
  by (simp add: engine_run_def)

lemma startup_always_abnormal: "fst (snd (engine_startup port w gh fab s))"
  by (simp add: engine_startup_def engine_defs previous_clean_def Let_def case_prod_beta)

section \<open>Properties\<close>

text \<open>
  After any run of startups, verifications and shutdowns, \<open>engine_state.json\<close> holds the
  state and the generation of the engine, and says that the shutdown was clean exactly when the last
  operation was a shutdown: whenever the process dies, the file tells how it died.
\<close>

theorem engine_file_truthful:
  assumes "ops \<noteq> []"
  shows "\<exists>p. dk_engine_state (snd (engine_run port s ops)) = Some (Inr p) \<and>
     ps_state p = en_state (fst (engine_run port s ops)) \<and>
     ps_generation p = current_gen (en_generation (fst (engine_run port s ops))) \<and>
     (ps_clean_shutdown p \<longleftrightarrow> last ops = Shutdown)"
proof -
  obtain ops' op where "ops = ops' @ [op]" using assms by (metis rev_exhaust)
  then show ?thesis
    using engine_apply_persisted [of port "engine_run port s ops'" op] stopped_iff
    by (auto simp: engine_run_snoc persisted_def)
qed

theorem engine_file_truthful_witness:
  "\<exists>p. dk_engine_state (snd (engine_run None (engine_init demo_config
       \<lparr>dk_generation = Absent, dk_engine_state = None, dk_continuity = continuity_init\<rparr>)
       [Startup demo_boot_world None None, Shutdown])) = Some (Inr p) \<and> ps_clean_shutdown p"
  using engine_file_truthful [of "[Startup demo_boot_world None None, Shutdown]" None
      "engine_init demo_config \<lparr>dk_generation = Absent, dk_engine_state = None, dk_continuity = continuity_init\<rparr>"]
  by auto

text \<open>
  The runtime never becomes ready: whatever GitHub, the Fabric, the configuration and the files
  say, no run of startups, verifications and shutdowns reaches \<open>READY\<close> or
  \<open>WAITING_FOR_SESSION\<close>. The critical smoke test of \<open>repository.read\<close> calls a method the GitHub
  client does not have, so its gate always fails.
\<close>

theorem runtime_never_ready:
  assumes "list_all op_real ops"
  shows "en_state (fst (engine_run port (engine_init c d) ops)) \<notin> {RS_READY, RS_WAITING_FOR_SESSION}"
proof (cases ops rule: rev_cases)
  case Nil
  then show ?thesis by (simp add: engine_run_def engine_init_def)
next
  case (snoc ops' op)
  then show ?thesis
    using assms engine_apply_state [of op port "engine_run port (engine_init c d) ops'"]
    by (auto simp: engine_run_snoc split: if_splits)
qed

theorem runtime_never_ready_witness:
  "en_state (fst (engine_run None (engine_init demo_config
     \<lparr>dk_generation = Absent, dk_engine_state = None, dk_continuity = continuity_init\<rparr>)
     [Startup demo_boot_world (pb_github demo_plane) (pb_fabric demo_plane)])) \<notin> {RS_READY, RS_WAITING_FOR_SESSION}"
  by (rule runtime_never_ready) (simp add: real_world_def demo_boot_world_def)

end
