(* ===== verification/Operational.thy ===== *)
theory Operational
  imports Bootstrap Journals
begin

text \<open>
  The operational repository (runtime/continuity/operational.py) and the resolver that reads the
  canonical state from it in fourteen stages (runtime/continuity/bootstrap.py, with the objects of
  runtime/continuity/state.py). GitHub, the local directory of controlled tests and the YAML parser
  are arguments. Reads that follow the resolution may get other answers from GitHub than the
  resolution did, so each stage has its own environment.
\<close>

section \<open>OperationalRepositoryProvider\<close>

datatype op_exn =
    Repository_ambiguous string
  | Repository_not_found string
  | Op_raised gh_exn

fun op_str :: "op_exn \<Rightarrow> string" where
  "op_str (Repository_ambiguous m) = m"
| "op_str (Repository_not_found m) = m"
| "op_str (Op_raised e) = gh_str e"

type_synonym 'a op = "op_exn + 'a"

datatype repo_info = Local_repo string | Github_repo json json json

text \<open>
  The local directory: which paths exist, and the text of a file (\<open>None\<close> when reading it
  raises). \<open>lo_yaml\<close> is \<open>yaml.safe_load\<close>, \<open>None\<close> when it raises.
\<close>

record local_files =
  lo_exists :: "string \<Rightarrow> bool"
  lo_read :: "string \<Rightarrow> string option"
  lo_yaml :: "string \<Rightarrow> json option"

record operational_provider =
  opp_github :: "rest_client option"
  opp_local :: "string option"
  opp_environment :: string
  opp_resolved :: "repo_info option"

definition provider_init :: "rest_client option \<Rightarrow> string option \<Rightarrow> string \<Rightarrow> operational_provider" where
  "provider_init c path env =
     \<lparr>opp_github = c, opp_local = path, opp_environment = env, opp_resolved = None\<rparr>"

text \<open>The branch of a repository and a file of it; the parameter is dropped when it is falsy.\<close>

definition ref_of :: "web_env \<Rightarrow> json \<Rightarrow> string option" where
  "ref_of env v = (if truthy v then Some (fmt env v) else None)"

definition marker_exists :: "web_env \<Rightarrow> rest_client \<Rightarrow> json \<Rightarrow> json \<Rightarrow> json \<Rightarrow> string \<Rightarrow> bool gh" where
  "marker_exists env c owner repo branch path =
     remote_file_exists env c (fmt env owner) (fmt env repo) path (ref_of env branch)"

text \<open>
  One repository of the list: not a candidate, a candidate, or an exception. No exception of the
  client has a \<open>status_code\<close>, so a failed marker check is always \<open>UNKNOWN_ERROR\<close>.
\<close>

definition op_lift :: "'a result \<Rightarrow> 'a op" where
  "op_lift r = (case r of Inl e \<Rightarrow> Inl (Op_raised (Foreign e)) | Inr v \<Rightarrow> Inr v)"

fun op_bind :: "'a op \<Rightarrow> ('a \<Rightarrow> 'b op) \<Rightarrow> 'b op" where
  "op_bind (Inl e) f = Inl e"
| "op_bind (Inr v) f = f v"

definition marker_error :: "gh_exn \<Rightarrow> op_exn" where
  "marker_error e = (if is_client_error e then Repository_not_found ''UNKNOWN_ERROR'' else Op_raised e)"

definition marked :: "web_env \<Rightarrow> rest_client \<Rightarrow> json \<Rightarrow> json \<Rightarrow> json \<Rightarrow> bool op" where
  "marked env c owner name branch =
     (case marker_exists env c owner name branch ''.anny/operational.yaml'' of
        Inl e \<Rightarrow> Inl (marker_error e)
      | Inr True \<Rightarrow> Inr True
      | Inr False \<Rightarrow>
          (case marker_exists env c owner name branch ''BOOTSTRAP.md'' of
             Inl e \<Rightarrow> Inl (marker_error e)
           | Inr m \<Rightarrow> Inr m))"

definition candidate_of :: "web_env \<Rightarrow> rest_client \<Rightarrow> json \<Rightarrow> repo_info option op" where
  "candidate_of env c repo =
     (if \<not> truthy repo then Inr None
      else op_bind (op_lift (and_then (get_of repo ''owner'' (JObj [])) (\<lambda>ow. get_of ow ''login'' JNull))) (\<lambda>owner.
        op_bind (op_lift (get_of repo ''name'' JNull)) (\<lambda>name.
        if \<not> truthy owner \<or> \<not> truthy name then Inr None
        else op_bind (op_lift (get_of repo ''topics'' (JList []))) (\<lambda>topics.
          op_bind (op_lift (py_in (JStr ''anny-operational'') topics)) (\<lambda>tagged.
          op_bind (op_lift (get_of repo ''default_branch'' (JStr ''main''))) (\<lambda>branch.
          if tagged then Inr (Some (Github_repo owner name branch))
          else op_bind (marked env c owner name branch) (\<lambda>m.
            Inr (if m then Some (Github_repo owner name branch) else None))))))))"

fun candidates_of :: "web_env \<Rightarrow> rest_client \<Rightarrow> json list \<Rightarrow> repo_info list op" where
  "candidates_of env c [] = Inr []"
| "candidates_of env c (r # rs) =
     op_bind (candidate_of env c r) (\<lambda>x. op_bind (candidates_of env c rs) (\<lambda>xs.
       Inr (case x of None \<Rightarrow> xs | Some i \<Rightarrow> i # xs)))"

definition full_name :: "web_env \<Rightarrow> repo_info \<Rightarrow> string" where
  "full_name env i =
     (case i of
        Local_repo _ \<Rightarrow> ''LOCAL_CONTROLLED_TEST''
      | Github_repo owner name _ \<Rightarrow> fmt env owner @ ''/'' @ fmt env name)"

definition resolve_remote :: "web_env \<Rightarrow> rest_client \<Rightarrow> repo_info op" where
  "resolve_remote env c =
     (case list_repositories env c None of
        Inl e \<Rightarrow> Inl (if is_client_error e then Repository_not_found ''NETWORK_ERROR'' else Op_raised e)
      | Inr repos \<Rightarrow>
          op_bind (candidates_of env c repos) (\<lambda>cs.
            case cs of
              [] \<Rightarrow> Inl (Repository_not_found ''OPERATIONAL_REPOSITORY_NOT_FOUND'')
            | [i] \<Rightarrow> Inr i
            | _ \<Rightarrow> Inl (Repository_ambiguous
                (''OPERATIONAL_REPOSITORY_AMBIGUOUS: '' @ repr_strings (map (full_name env) cs)))))"

definition local_allowed :: "local_files \<Rightarrow> operational_provider \<Rightarrow> bool" where
  "local_allowed lo p \<longleftrightarrow>
     truthy_str (opp_local p) \<and> opp_environment p \<noteq> ''PRODUCTION'' \<and>
     opp_environment p \<in> {''CONTROLLED_TEST'', ''CUSTOMER_ZERO_TEST''} \<and> lo_exists lo (the (opp_local p))"

definition resolve_repository ::
  "web_env \<Rightarrow> local_files \<Rightarrow> operational_provider \<Rightarrow> operational_provider \<times> repo_info option op" where
  "resolve_repository env lo p =
     (case opp_resolved p of
        Some i \<Rightarrow> (p, Inr (Some i))
      | None \<Rightarrow>
          if local_allowed lo p
          then let i = Local_repo (the (opp_local p)) in (p\<lparr>opp_resolved := Some i\<rparr>, Inr (Some i))
          else case opp_github p of
              None \<Rightarrow> (p, Inr None)
            | Some c \<Rightarrow>
                (case resolve_remote env c of
                   Inl e \<Rightarrow> (p, Inl e)
                 | Inr i \<Rightarrow> (p\<lparr>opp_resolved := Some i\<rparr>, Inr (Some i))))"

text \<open>The content of a file; on GitHub only a missing file is \<open>None\<close>, other errors are raised.\<close>

definition content_in :: "web_env \<Rightarrow> local_files \<Rightarrow> operational_provider \<Rightarrow> repo_info \<Rightarrow> string \<Rightarrow> json op" where
  "content_in env lo p i path =
     (case i of
        Local_repo base \<Rightarrow>
          let full = path_join base path
          in Inr (if lo_exists lo full then (case lo_read lo full of Some t \<Rightarrow> JStr t | None \<Rightarrow> JNull) else JNull)
      | Github_repo owner name branch \<Rightarrow>
          (case opp_github p of
             None \<Rightarrow> Inl (Op_raised (Foreign (no_attribute ''NoneType'' ''get_file'')))
           | Some c \<Rightarrow>
               (case get_file env c (fmt env owner) (fmt env name) path (ref_of env branch) of
                  Inl (GitHubNotFoundError _) \<Rightarrow> Inr JNull
                | Inl e \<Rightarrow> Inl (Op_raised e)
                | Inr v \<Rightarrow> Inr v)))"

definition read_content ::
  "web_env \<Rightarrow> local_files \<Rightarrow> string \<Rightarrow> operational_provider \<Rightarrow> operational_provider \<times> json op" where
  "read_content env lo path p =
     (case resolve_repository env lo p of
        (p', Inl e) \<Rightarrow> (p', Inl e)
      | (p', Inr None) \<Rightarrow> (p', Inr JNull)
      | (p', Inr (Some i)) \<Rightarrow> (p', content_in env lo p' i path))"

definition provider_path_exists ::
  "web_env \<Rightarrow> local_files \<Rightarrow> string \<Rightarrow> operational_provider \<Rightarrow> operational_provider \<times> bool op" where
  "provider_path_exists env lo path p =
     (case resolve_repository env lo p of
        (p', Inl e) \<Rightarrow> (p', Inl e)
      | (p', Inr None) \<Rightarrow> (p', Inr False)
      | (p', Inr (Some (Local_repo base))) \<Rightarrow> (p', Inr (lo_exists lo (path_join base path)))
      | (p', Inr (Some (Github_repo owner name branch))) \<Rightarrow>
          (p', case opp_github p' of
                 None \<Rightarrow> Inl (Op_raised (Foreign (no_attribute ''NoneType'' ''file_exists'')))
               | Some c \<Rightarrow>
                   (case marker_exists env c owner name branch path of
                      Inl e \<Rightarrow> Inl (Op_raised e) | Inr b \<Rightarrow> Inr b)))"

text \<open>YAML, then JSON; \<open>JNull\<close> when neither parses. Only text can be parsed.\<close>

definition parse_document :: "web_env \<Rightarrow> local_files \<Rightarrow> json \<Rightarrow> json" where
  "parse_document env lo content =
     (case content of
        JStr t \<Rightarrow>
          if t = [] then JNull
          else (case lo_yaml lo t of
                  Some v \<Rightarrow> v
                | None \<Rightarrow> (case we_loads env t of Inr v \<Rightarrow> v | Inl _ \<Rightarrow> JNull))
      | _ \<Rightarrow> JNull)"

text \<open>\<open>read_current_state\<close>, \<open>read_blockers\<close> and \<open>read_next_action\<close> differ in the path.\<close>

definition read_dict ::
  "web_env \<Rightarrow> local_files \<Rightarrow> string \<Rightarrow> operational_provider \<Rightarrow> operational_provider \<times> (string \<times> json) list option op" where
  "read_dict env lo path p =
     (case read_content env lo path p of
        (p', Inl e) \<Rightarrow> (p', Inl e)
      | (p', Inr content) \<Rightarrow>
          (p', Inr (if truthy content
                    then (case parse_document env lo content of JObj kvs \<Rightarrow> Some kvs | _ \<Rightarrow> None) else None)))"

definition read_bootstrap_md where
  "read_bootstrap_md env lo p = read_content env lo ''BOOTSTRAP.md'' p"

definition read_current_mission ::
  "web_env \<Rightarrow> local_files \<Rightarrow> operational_provider \<Rightarrow> operational_provider \<times> (string \<times> json) list option op" where
  "read_current_mission env lo p =
     (case read_content env lo ''state/CURRENT_MISSION.yaml'' p of
        (p', Inl e) \<Rightarrow> (p', Inl e)
      | (p', Inr content) \<Rightarrow>
          (p', Inr (if truthy content
                    then (case parse_document env lo content of
                            JObj kvs \<Rightarrow> Some (dict_set kvs ''_raw_content'' content) | _ \<Rightarrow> None)
                    else None)))"

text \<open>The first registry file that holds a list, or a dict with the workers.\<close>

fun read_l2_files ::
  "web_env \<Rightarrow> local_files \<Rightarrow> string list \<Rightarrow> operational_provider \<Rightarrow> operational_provider \<times> json op" where
  "read_l2_files env lo [] p = (p, Inr (JList []))"
| "read_l2_files env lo (path # paths) p =
     (case read_content env lo path p of
        (p', Inl e) \<Rightarrow> (p', Inl e)
      | (p', Inr content) \<Rightarrow>
          if truthy content
          then (case parse_document env lo content of
                  JList xs \<Rightarrow> (p', Inr (JList xs))
                | JObj kvs \<Rightarrow>
                    (case dict_get kvs ''workers'' of
                       Some v \<Rightarrow> (p', Inr v) | None \<Rightarrow> read_l2_files env lo paths p')
                | _ \<Rightarrow> read_l2_files env lo paths p')
          else read_l2_files env lo paths p')"

definition read_l2_registry where
  "read_l2_registry env lo p =
     read_l2_files env lo [''state/OFFICE_REGISTRY_001.json'', ''state/L2_WORKER_REGISTRY.yaml''] p"

text \<open>What is resolved is the only candidate, and stays the answer.\<close>

lemma resolve_remote_unique:
  "resolve_remote env c = Inr i \<Longrightarrow>
     \<exists>repos. list_repositories env c None = Inr repos \<and> candidates_of env c repos = Inr [i]"
proof -
  assume r: "resolve_remote env c = Inr i"
  then obtain repos where repos: "list_repositories env c None = Inr repos"
    by (auto simp: resolve_remote_def split: sum.splits)
  obtain cs where cs: "candidates_of env c repos = Inr cs"
    using r repos by (cases "candidates_of env c repos") (auto simp: resolve_remote_def)
  have "cs = [i]"
    using r repos cs by (auto simp: resolve_remote_def split: list.splits)
  then show ?thesis using repos cs by blast
qed

lemma resolve_sticky:
  "resolve_repository env lo p = (p', Inr (Some i)) \<Longrightarrow> resolve_repository env' lo' p' = (p', Inr (Some i))"
  by (auto simp: resolve_repository_def Let_def split: option.splits sum.splits if_splits)

lemma production_never_local:
  assumes "opp_environment p = ''PRODUCTION''" and "opp_resolved p = None"
  shows "snd (resolve_repository env lo p) \<noteq> Inr (Some (Local_repo base))"
proof
  assume "snd (resolve_repository env lo p) = Inr (Some (Local_repo base))"
  then obtain c where "resolve_remote env c = Inr (Local_repo base)"
    using assms by (auto simp: resolve_repository_def local_allowed_def Let_def split: option.splits sum.splits)
  then obtain repos where r: "candidates_of env c repos = Inr [Local_repo base]"
    using resolve_remote_unique by blast
  have "candidate_of env c x \<noteq> Inr (Some (Local_repo base))" for x
  proof
    assume c: "candidate_of env c x = Inr (Some (Local_repo base))"
    have bind: "op_bind m f = Inr v \<longleftrightarrow> (\<exists>y. m = Inr y \<and> f y = Inr v)" for m :: "'x op" and f :: "'x \<Rightarrow> 'y op" and v
      by (cases m) auto
    show False using c
      by (auto simp: candidate_of_def bind split: if_splits)
  qed
  then have "Local_repo base \<notin> set cs" if "candidates_of env c repos = Inr cs" for cs
    using that
  proof (induction repos arbitrary: cs)
    case (Cons x xs)
    then obtain y ys where "candidate_of env c x = Inr y" "candidates_of env c xs = Inr ys"
        "cs = (case y of None \<Rightarrow> ys | Some i \<Rightarrow> i # ys)"
      by (cases "candidate_of env c x"; cases "candidates_of env c xs") auto
    then show ?case using Cons by (auto split: option.splits)
  qed simp
  then show False using r by auto
qed

end
