(* ===== verification/Resolver.thy ===== *)
theory Resolver
  imports Operational
begin

text \<open>
  The bootstrap resolver of the canonical state (runtime/continuity/bootstrap.py, with the objects
  of runtime/continuity/state.py): fourteen stages that stop at the first missing document. The
  events go to the event bus, whose handlers cannot fail the resolver; here they are the list of
  what was emitted.
\<close>

datatype canonical_status = CS_CONSISTENT | CS_DEGRADED | CS_CONFLICTED | CS_UNKNOWN | CS_BLOCKED

primrec canonical_value :: "canonical_status \<Rightarrow> string" where
  "canonical_value CS_CONSISTENT = ''CONSISTENT''"
| "canonical_value CS_DEGRADED = ''DEGRADED''"
| "canonical_value CS_CONFLICTED = ''CONFLICTED''"
| "canonical_value CS_UNKNOWN = ''UNKNOWN''"
| "canonical_value CS_BLOCKED = ''BLOCKED''"

text \<open>The fields nothing sets are left out (source and created_at of a blocker, description and
  assigned_worker of a task, referenced_evidence), and so are the constant versions of the state; its
  metadata is the type of the repository.\<close>

record blocker =
  bl_id :: json
  bl_description :: json
  bl_severity :: json

record current_task =
  ct_id :: json
  ct_name :: json
  ct_status :: json

record current_mission =
  cm_id :: json
  cm_title :: json
  cm_status :: json
  cm_description :: json
  cm_tasks :: "current_task list"
  cm_raw_content :: json

record next_action =
  na_action :: json
  na_actor :: json
  na_target :: json
  na_rationale :: json

record canonical_state =
  cs_repository_name :: string
  cs_revision :: json
  cs_current_mission :: current_mission
  cs_current_task :: "current_task option"
  cs_next_action :: next_action
  cs_blockers :: "blocker list"
  cs_l2_workers :: json
  cs_repo_type :: string

record resolver_result =
  rr_status :: canonical_status
  rr_state :: "canonical_state option"
  rr_stages :: "string list"
  rr_blockers :: "blocker list"
  rr_error :: "string option"

type_synonym emission = "event_type \<times> (string \<times> json) list"

text \<open>Where the resolver stands: the provider, the completed stages and the emitted events.\<close>

record resolver_progress =
  pg_provider :: operational_provider
  pg_stages :: "string list"
  pg_events :: "emission list"

text \<open>A stage raises, stops the resolution with a result, or goes on with a value.\<close>

datatype 'a stage = Raised op_exn | Stopped resolver_progress resolver_result | Continue resolver_progress 'a

fun stage_bind :: "'a stage \<Rightarrow> (resolver_progress \<Rightarrow> 'a \<Rightarrow> 'b stage) \<Rightarrow> 'b stage" where
  "stage_bind (Raised e) f = Raised e"
| "stage_bind (Stopped g r) f = Stopped g r"
| "stage_bind (Continue g v) f = f g v"

definition emit :: "event_type \<Rightarrow> (string \<times> json) list \<Rightarrow> resolver_progress \<Rightarrow> resolver_progress" where
  "emit t payload g = g\<lparr>pg_events := pg_events g @ [(t, payload)]\<rparr>"

definition complete :: "string list \<Rightarrow> resolver_progress \<Rightarrow> resolver_progress" where
  "complete names g = g\<lparr>pg_stages := pg_stages g @ names\<rparr>"

definition critical_blocker :: "string \<Rightarrow> string \<Rightarrow> blocker" where
  "critical_blocker i d = \<lparr>bl_id = JStr i, bl_description = JStr d, bl_severity = JStr ''CRITICAL''\<rparr>"

definition stop :: "canonical_status \<Rightarrow> blocker list \<Rightarrow> string \<Rightarrow> resolver_progress \<Rightarrow> 'a stage" where
  "stop st bs m g =
     Stopped g \<lparr>rr_status = st, rr_state = None, rr_stages = pg_stages g, rr_blockers = bs, rr_error = Some m\<rparr>"

definition stop_blocked :: "string \<Rightarrow> string \<Rightarrow> string \<Rightarrow> resolver_progress \<Rightarrow> 'a stage" where
  "stop_blocked i d m g = stop CS_BLOCKED [critical_blocker i d] m g"

text \<open>A read of the provider: what it raises leaves the resolver.\<close>

definition reading ::
  "(operational_provider \<Rightarrow> operational_provider \<times> 'a op) \<Rightarrow> resolver_progress \<Rightarrow> 'a stage" where
  "reading f g =
     (case f (pg_provider g) of
        (p, Inl e) \<Rightarrow> Raised e
      | (p, Inr v) \<Rightarrow> Continue (g\<lparr>pg_provider := p\<rparr>) v)"

section \<open>Stages 1 to 6\<close>

definition resolution_status :: "string \<Rightarrow> canonical_status" where
  "resolution_status m =
     (if mentions m ''UNAUTHORIZED'' \<or> mentions m ''FORBIDDEN'' \<or> mentions m ''NETWORK_ERROR'' \<or>
         mentions m ''RATE_LIMITED''
      then CS_UNKNOWN else CS_BLOCKED)"

definition stage_repository ::
  "web_env \<Rightarrow> local_files \<Rightarrow> resolver_progress \<Rightarrow> repo_info stage" where
  "stage_repository env lo g0 =
     (let g = emit BOOTSTRAP_STARTED [(''status'', JStr ''STARTING'')] g0
      in case resolve_repository env lo (pg_provider g) of
          (p, Inl e) \<Rightarrow>
            stop (resolution_status (op_str e))
              [critical_blocker ''BLK-BOOTSTRAP-001'' (''Operational repository inaccessible: '' @ op_str e)]
              (''Operational repository resolution failed: '' @ op_str e) (g\<lparr>pg_provider := p\<rparr>)
        | (p, Inr None) \<Rightarrow>
            stop_blocked ''BLK-BOOTSTRAP-001'' ''Operational repository unresolved''
              ''Operational repository could not be resolved.'' (g\<lparr>pg_provider := p\<rparr>)
        | (p, Inr (Some i)) \<Rightarrow>
            Continue (emit OPERATIONAL_REPOSITORY_RESOLVED [(''full_name'', JStr (full_name env i))]
                (complete [''OPERATIONAL_REPOSITORY_RESOLVED''] (g\<lparr>pg_provider := p\<rparr>))) i)"

definition stage_contract :: "web_env \<Rightarrow> local_files \<Rightarrow> resolver_progress \<Rightarrow> unit stage" where
  "stage_contract env lo g =
     stage_bind (reading (read_bootstrap_md env lo) g) (\<lambda>g md.
       if \<not> truthy md
       then stop_blocked ''BLK-BOOTSTRAP-002'' ''BOOTSTRAP.md contract missing from operational repository''
              ''BOOTSTRAP.md is missing from operational repository.'' g
       else Continue (complete [''1.BOOTSTRAP''] g) ())"

definition stage_directory ::
  "web_env \<Rightarrow> local_files \<Rightarrow> string \<Rightarrow> string \<Rightarrow> string \<Rightarrow> string \<Rightarrow> string \<Rightarrow> resolver_progress \<Rightarrow> unit stage" where
  "stage_directory env lo path name i d m g =
     stage_bind (reading (provider_path_exists env lo path) g) (\<lambda>g present.
       if \<not> present then stop_blocked i d m g else Continue (complete [name] g) ())"

text \<open>\<open>not d\<close> for a dict that may be missing: the empty dict counts as missing.\<close>

definition stage_state :: "web_env \<Rightarrow> local_files \<Rightarrow> resolver_progress \<Rightarrow> (string \<times> json) list stage" where
  "stage_state env lo g =
     stage_bind (reading (read_dict env lo ''state/CURRENT_STATE.yaml'') g) (\<lambda>g st.
       case st of
         Some (kv # kvs) \<Rightarrow>
           Continue (emit CANONICAL_STATE_LOADED [(''schema_version'', jfield (kv # kvs) ''schema_version'' JNull)]
             (complete [''4.SHARED_ORG_STATE'', ''6.CURRENT_STATE''] g)) (kv # kvs)
       | _ \<Rightarrow> stop_blocked ''BLK-BOOTSTRAP-004'' ''state/CURRENT_STATE.yaml missing or invalid''
                ''state/CURRENT_STATE.yaml is missing or invalid.'' g)"

definition stage_workers :: "web_env \<Rightarrow> local_files \<Rightarrow> resolver_progress \<Rightarrow> json stage" where
  "stage_workers env lo g =
     stage_bind (reading (read_l2_registry env lo) g) (\<lambda>g ws.
       Continue (complete [''5.L2_WORKER_REGISTRY''] g) (if truthy ws then ws else JList []))"

section \<open>Stage 7: the mission\<close>

text \<open>The tasks of the scope; the left value is the blocker of the first bad item with its message.\<close>

fun mission_tasks :: "web_env \<Rightarrow> json list \<Rightarrow> (blocker \<times> string) + current_task list" where
  "mission_tasks env [] = Inr []"
| "mission_tasks env (JObj kvs # items) =
     (let tid = jfield kvs ''id'' JNull; name = jfield kvs ''name'' JNull; st = jfield kvs ''status'' JNull
      in if \<not> truthy tid \<or> \<not> truthy st
         then Inl (critical_blocker ''BLK-BOOTSTRAP-007b''
                (''SCHEMA_MISMATCH: CURRENT_MISSION scope task missing id or status: '' @ fmt env (JObj kvs)),
              ''CURRENT_MISSION scope task SCHEMA_MISMATCH.'')
         else (case mission_tasks env items of
                 Inl b \<Rightarrow> Inl b
               | Inr ts \<Rightarrow> Inr (\<lparr>ct_id = tid, ct_name = (if truthy name then name else JStr []), ct_status = st\<rparr> # ts)))"
| "mission_tasks env (v # items) =
     Inl (critical_blocker ''BLK-BOOTSTRAP-007c''
            (''SCHEMA_MISMATCH: CURRENT_MISSION scope item is not dict: '' @ fmt env v),
          ''CURRENT_MISSION scope item SCHEMA_MISMATCH.'')"

definition json_or :: "json \<Rightarrow> json \<Rightarrow> json" where
  "json_or a b = (if truthy a then a else b)"

definition stage_mission :: "web_env \<Rightarrow> local_files \<Rightarrow> resolver_progress \<Rightarrow> current_mission stage" where
  "stage_mission env lo g =
     stage_bind (reading (read_current_mission env lo) g) (\<lambda>g md.
       case md of
         Some (kv # kvs) \<Rightarrow>
           (let d = kv # kvs; mid = jfield d ''mission_id'' JNull; st = jfield d ''status'' JNull;
                scope = json_or (jfield d ''scope'' JNull) (JList [])
            in if \<not> truthy mid \<or> \<not> truthy st
               then stop_blocked ''BLK-BOOTSTRAP-007a'' ''SCHEMA_MISMATCH: CURRENT_MISSION missing mission_id or status''
                      ''CURRENT_MISSION SCHEMA_MISMATCH.'' g
               else case mission_tasks env (case scope of JList items \<Rightarrow> items | _ \<Rightarrow> []) of
                   Inl (b, m) \<Rightarrow> stop CS_BLOCKED [b] m g
                 | Inr tasks \<Rightarrow>
                     Continue (emit CURRENT_MISSION_RESOLVED [(''mission_id'', mid), (''status'', st)]
                         (complete [''7.CURRENT_MISSION''] g))
                       \<lparr>cm_id = mid, cm_title = jfield d ''title'' JNull, cm_status = st,
                        cm_description = json_or (jfield d ''objective'' JNull) (jfield d ''description'' JNull),
                        cm_tasks = tasks, cm_raw_content = jfield d ''_raw_content'' JNull\<rparr>)
       | _ \<Rightarrow> stop_blocked ''BLK-BOOTSTRAP-007'' ''state/CURRENT_MISSION.yaml missing or invalid''
                ''state/CURRENT_MISSION.yaml is missing or invalid.'' g)"

section \<open>Stage 8: the blockers\<close>

definition parse_blocker :: "web_env \<Rightarrow> string \<Rightarrow> string \<Rightarrow> json \<Rightarrow> blocker" where
  "parse_blocker env missing not_dict item =
     (case item of
        JObj kvs \<Rightarrow>
          (let i = jfield kvs ''id'' JNull; d = jfield kvs ''description'' JNull; s = jfield kvs ''severity'' JNull
           in if \<not> truthy i \<or> \<not> truthy d \<or> \<not> truthy s
              then critical_blocker ''SCHEMA_MISMATCH'' (missing @ fmt env item)
              else \<lparr>bl_id = i, bl_description = d, bl_severity = s\<rparr>)
      | _ \<Rightarrow> critical_blocker ''SCHEMA_MISMATCH'' (not_dict @ fmt env item))"

definition blocker_items :: "(string \<times> json) list option \<Rightarrow> json list option" where
  "blocker_items d =
     (case d of
        Some kvs \<Rightarrow> (case dict_get kvs ''blockers'' of Some (JList xs) \<Rightarrow> Some xs | _ \<Rightarrow> None)
      | None \<Rightarrow> None)"

definition parsed_blockers :: "web_env \<Rightarrow> (string \<times> json) list option \<Rightarrow> (string \<times> json) list \<Rightarrow> blocker list" where
  "parsed_blockers env file state =
     (case blocker_items file of
        Some xs \<Rightarrow> map (parse_blocker env ''BLOCKERS list item missing required fields: '' ''BLOCKERS list item not dict: '') xs
      | None \<Rightarrow>
          (case blocker_items (Some state) of
             Some xs \<Rightarrow> map (parse_blocker env ''CURRENT_STATE blockers item missing required fields: ''
                              ''CURRENT_STATE blockers item not dict: '') xs
           | None \<Rightarrow> []))"

definition stage_blockers ::
  "web_env \<Rightarrow> local_files \<Rightarrow> (string \<times> json) list \<Rightarrow> resolver_progress \<Rightarrow> blocker list stage" where
  "stage_blockers env lo state g =
     stage_bind (reading (read_dict env lo ''state/BLOCKERS.yaml'') g) (\<lambda>g file.
       let bs = parsed_blockers env file state
       in Continue (emit BLOCKERS_LOADED [(''count'', JInt (int (length bs)))] (complete [''8.BLOCKERS''] g)) bs)"

section \<open>Stages 9 to 14\<close>

definition file_action :: "(string \<times> json) list option \<Rightarrow> next_action option" where
  "file_action d =
     (case d of
        Some (kv # kvs) \<Rightarrow>
          (case jfield (kv # kvs) ''action'' (JObj []) of
             JObj a \<Rightarrow> Some \<lparr>na_action = jfield a ''WHAT'' (JStr ''Unspecified action''),
                             na_actor = jfield a ''OWNER'' (JStr ''ANNY''),
                             na_target = jfield a ''DEPENDENCY'' JNull, na_rationale = jfield a ''WHY'' JNull\<rparr>
           | JStr s \<Rightarrow> Some \<lparr>na_action = JStr s, na_actor = JStr ''ANNY'', na_target = JNull, na_rationale = JNull\<rparr>
           | _ \<Rightarrow> None)
      | _ \<Rightarrow> None)"

definition state_action :: "web_env \<Rightarrow> (string \<times> json) list \<Rightarrow> next_action option" where
  "state_action env state =
     (let v = jfield state ''next_action'' JNull
      in if truthy v
         then Some \<lparr>na_action = JStr (fmt env v), na_actor = JStr ''ANNY'', na_target = JNull, na_rationale = JNull\<rparr>
         else None)"

definition stage_action ::
  "web_env \<Rightarrow> local_files \<Rightarrow> (string \<times> json) list \<Rightarrow> blocker list \<Rightarrow> resolver_progress \<Rightarrow> next_action stage" where
  "stage_action env lo state bs g =
     stage_bind (reading (read_dict env lo ''state/NEXT_ACTION.yaml'') g) (\<lambda>g file.
       case (case file_action file of Some a \<Rightarrow> Some a | None \<Rightarrow> state_action env state) of
         None \<Rightarrow>
           stop CS_BLOCKED
             (\<lparr>bl_id = JStr ''BLK-BOOTSTRAP-009'', bl_description = JStr ''state/NEXT_ACTION.yaml missing or invalid'',
               bl_severity = JStr ''HIGH''\<rparr> # bs) ''NEXT_ACTION is missing.'' g
       | Some a \<Rightarrow>
           Continue (emit NEXT_ACTION_LOADED [(''action'', na_action a)] (complete [''9.NEXT_ACTION''] g)) a)"

text \<open>All five are optional; the branch for a missing required one is never taken.\<close>

definition stage_definitions :: "(string \<times> string \<times> bool) list" where
  "stage_definitions =
    [(''10.PROPOSALS'', ''proposals'', False), (''11.HANDOFFS'', ''handoffs'', False),
     (''12.ESCALATIONS'', ''escalations'', False), (''13.REQUIRED_EVIDENCE'', ''evidence'', False),
     (''14.RELEVANT_DOMAIN_STATE'', ''domain'', False)]"

fun stage_optional ::
  "web_env \<Rightarrow> local_files \<Rightarrow> (string \<times> string \<times> bool) list \<Rightarrow> resolver_progress \<Rightarrow> unit stage" where
  "stage_optional env lo [] g = Continue g ()"
| "stage_optional env lo ((name, path, required) # ds) g =
     stage_bind (reading (provider_path_exists env lo path) g) (\<lambda>g present.
       if present then stage_optional env lo ds (complete [name] g)
       else if required
       then stop_blocked (''BLK-BOOTSTRAP-'' @ name) (''Required stage '' @ name @ '' missing'')
              (''Required stage '' @ name @ '' missing.'') g
       else stage_optional env lo ds (complete [name @ '':OPTIONAL_ABSENT''] g))"

text \<open>
  \<open>revision\<close>: the conditional expression covers the whole \<open>or\<close>, and no repository
  description has a \<open>revision\<close>.
\<close>

definition state_revision :: "(string \<times> json) list \<Rightarrow> json" where
  "state_revision state =
     (case jfield state ''timeline'' JNull of JObj t \<Rightarrow> jfield t ''last_state_change'' JNull | _ \<Rightarrow> JNull)"

definition repo_type :: "repo_info \<Rightarrow> string" where
  "repo_type i = (case i of Local_repo _ \<Rightarrow> ''local'' | Github_repo _ _ _ \<Rightarrow> ''github'')"

definition stage_final ::
  "web_env \<Rightarrow> repo_info \<Rightarrow> (string \<times> json) list \<Rightarrow> json \<Rightarrow> current_mission \<Rightarrow> blocker list \<Rightarrow> next_action
     \<Rightarrow> resolver_progress \<Rightarrow> resolver_progress \<times> resolver_result" where
  "stage_final env i state workers mission bs a g =
     (let st = (if bs = [] then CS_CONSISTENT else CS_DEGRADED)
      in (emit BOOTSTRAP_COMPLETED [(''status'', JStr (canonical_value st))] g,
          \<lparr>rr_status = st,
           rr_state = Some \<lparr>cs_repository_name = full_name env i, cs_revision = state_revision state,
              cs_current_mission = mission,
              cs_current_task = (case cm_tasks mission of t # _ \<Rightarrow> Some t | [] \<Rightarrow> None),
              cs_next_action = a, cs_blockers = bs, cs_l2_workers = workers, cs_repo_type = repo_type i\<rparr>,
           rr_stages = pg_stages g, rr_blockers = bs, rr_error = None\<rparr>))"

section \<open>The resolver\<close>

definition resolver_start :: "operational_provider \<Rightarrow> resolver_progress" where
  "resolver_start p = \<lparr>pg_provider = p, pg_stages = [], pg_events = []\<rparr>"

definition resolver_stages ::
  "(nat \<Rightarrow> web_env) \<Rightarrow> local_files \<Rightarrow> resolver_progress \<Rightarrow> resolver_result stage" where
  "resolver_stages envs lo g0 =
     stage_bind (stage_repository (envs 0) lo g0) (\<lambda>g i.
     stage_bind (stage_contract (envs 1) lo g) (\<lambda>g _.
     stage_bind (stage_directory (envs 2) lo ''constitution/'' ''2.CONSTITUTION'' ''BLK-BOOTSTRAP-002''
                   ''constitution directory missing'' ''Constitution directory is missing.'' g) (\<lambda>g _.
     stage_bind (stage_directory (envs 3) lo ''os/'' ''3.OPERATING_SYSTEM'' ''BLK-BOOTSTRAP-003''
                   ''os directory missing'' ''OS directory is missing.'' g) (\<lambda>g _.
     stage_bind (stage_state (envs 4) lo g) (\<lambda>g state.
     stage_bind (stage_workers (envs 5) lo g) (\<lambda>g workers.
     stage_bind (stage_mission (envs 7) lo g) (\<lambda>g mission.
     stage_bind (stage_blockers (envs 8) lo state g) (\<lambda>g bs.
     stage_bind (stage_action (envs 9) lo state bs g) (\<lambda>g a.
     stage_bind (stage_optional (envs 10) lo stage_definitions g) (\<lambda>g _.
       case stage_final (envs 0) i state workers mission bs a g of (g', r) \<Rightarrow> Continue g' r))))))))))"

text \<open>The result with what was emitted, or the exception that left the resolver.\<close>

definition resolver_resolve ::
  "(nat \<Rightarrow> web_env) \<Rightarrow> local_files \<Rightarrow> operational_provider \<Rightarrow> (resolver_progress \<times> resolver_result) op" where
  "resolver_resolve envs lo p =
     (case resolver_stages envs lo (resolver_start p) of
        Raised e \<Rightarrow> Inl e
      | Stopped g r \<Rightarrow> Inr (g, r)
      | Continue g r \<Rightarrow> Inr (g, r))"

section \<open>What the result can be\<close>

definition required_stages :: "string list" where
  "required_stages =
    [''OPERATIONAL_REPOSITORY_RESOLVED'', ''1.BOOTSTRAP'', ''2.CONSTITUTION'', ''3.OPERATING_SYSTEM'',
     ''4.SHARED_ORG_STATE'', ''6.CURRENT_STATE'', ''5.L2_WORKER_REGISTRY'', ''7.CURRENT_MISSION'',
     ''8.BLOCKERS'', ''9.NEXT_ACTION'']"

definition halted :: "resolver_result \<Rightarrow> bool" where
  "halted r \<longleftrightarrow>
     rr_status r \<in> {CS_BLOCKED, CS_UNKNOWN} \<and> rr_state r = None \<and> rr_blockers r \<noteq> [] \<and> rr_error r \<noteq> None \<and>
     prefix (rr_stages r) required_stages"

text \<open>
  From the completed stages \<open>pre\<close> a stage halts with a failing result, or adds \<open>names\<close> and
  hands on a value in \<open>Q\<close>.
\<close>

definition stage_adds :: "string list \<Rightarrow> string list \<Rightarrow> ('a \<Rightarrow> bool) \<Rightarrow> 'a stage \<Rightarrow> bool" where
  "stage_adds pre names Q st \<longleftrightarrow>
     (case st of
        Raised e \<Rightarrow> True
      | Stopped g r \<Rightarrow> halted r
      | Continue g v \<Rightarrow> pg_stages g = pre @ names \<and> Q v)"

definition stage_spec :: "(resolver_progress \<Rightarrow> 'a \<Rightarrow> bool) \<Rightarrow> 'a stage \<Rightarrow> bool" where
  "stage_spec R st \<longleftrightarrow>
     (case st of Raised e \<Rightarrow> True | Stopped g r \<Rightarrow> halted r | Continue g v \<Rightarrow> R g v)"

lemma stage_spec_bind:
  assumes "stage_adds pre names Q st"
    and "\<And>g v. pg_stages g = pre @ names \<Longrightarrow> Q v \<Longrightarrow> stage_spec R (f g v)"
  shows "stage_spec R (stage_bind st f)"
proof (cases st)
  case (Continue g v)
  then show ?thesis using assms(1) assms(2) [of g v] by (simp add: stage_adds_def)
qed (use assms(1) in \<open>simp_all add: stage_adds_def stage_spec_def\<close>)

lemma stage_adds_reading:
  assumes "\<And>g' v. pg_stages g' = pg_stages g \<Longrightarrow> stage_adds (pg_stages g) names Q (f g' v)"
  shows "stage_adds (pg_stages g) names Q (stage_bind (reading h g) f)"
  using assms by (cases "h (pg_provider g)") (auto simp: reading_def stage_adds_def split: sum.splits)

lemma stage_adds_stop [intro]:
  "prefix (pg_stages g) required_stages \<Longrightarrow> st \<in> {CS_BLOCKED, CS_UNKNOWN} \<Longrightarrow> bs \<noteq> [] \<Longrightarrow>
     stage_adds pre names Q (stop st bs m g)"
  by (auto simp: stage_adds_def stop_def halted_def)

lemma stage_adds_stop_blocked [intro]:
  "prefix (pg_stages g) required_stages \<Longrightarrow> stage_adds pre names Q (stop_blocked i d m g)"
  by (auto simp: stop_blocked_def)

lemma stage_adds_Continue [simp]:
  "stage_adds pre names Q (Continue g v) \<longleftrightarrow> pg_stages g = pre @ names \<and> Q v"
  by (simp add: stage_adds_def)

lemma progress_stages [simp]:
  "pg_stages (emit t kvs g) = pg_stages g" "pg_stages (complete ns g) = pg_stages g @ ns"
  "pg_provider (emit t kvs g) = pg_provider g" "pg_provider (complete ns g) = pg_provider g"
  by (simp_all add: emit_def complete_def)

lemma stage_repository_adds:
  assumes "pg_stages g = []"
  shows "stage_adds [] [''OPERATIONAL_REPOSITORY_RESOLVED'']
     (\<lambda>i. snd (resolve_repository env lo (pg_provider g)) = Inr (Some i)) (stage_repository env lo g)"
  using assms
  by (cases "resolve_repository env lo (pg_provider g)")
     (auto simp: stage_repository_def resolution_status_def Let_def split: sum.splits option.splits)

lemma stage_contract_adds:
  "prefix (pg_stages g) required_stages \<Longrightarrow>
     stage_adds (pg_stages g) [''1.BOOTSTRAP''] (\<lambda>_. True) (stage_contract env lo g)"
  unfolding stage_contract_def by (rule stage_adds_reading) auto

lemma stage_directory_adds:
  "prefix (pg_stages g) required_stages \<Longrightarrow>
     stage_adds (pg_stages g) [name] (\<lambda>_. True) (stage_directory env lo path name i d m g)"
  unfolding stage_directory_def by (rule stage_adds_reading) auto

lemma stage_state_adds:
  "prefix (pg_stages g) required_stages \<Longrightarrow>
     stage_adds (pg_stages g) [''4.SHARED_ORG_STATE'', ''6.CURRENT_STATE''] (\<lambda>kvs. kvs \<noteq> []) (stage_state env lo g)"
  unfolding stage_state_def by (rule stage_adds_reading) (auto split: option.splits list.splits)

lemma stage_workers_adds:
  "stage_adds (pg_stages g) [''5.L2_WORKER_REGISTRY''] (\<lambda>_. True) (stage_workers env lo g)"
  unfolding stage_workers_def by (rule stage_adds_reading) auto

definition task_ok :: "current_task \<Rightarrow> bool" where
  "task_ok t \<longleftrightarrow> truthy (ct_id t) \<and> truthy (ct_status t)"

definition mission_ok :: "current_mission \<Rightarrow> bool" where
  "mission_ok m \<longleftrightarrow> truthy (cm_id m) \<and> truthy (cm_status m) \<and> (\<forall>t\<in>set (cm_tasks m). task_ok t)"

lemma mission_tasks_ok: "mission_tasks env items = Inr ts \<Longrightarrow> \<forall>t\<in>set ts. task_ok t"
proof (induction env items arbitrary: ts rule: mission_tasks.induct)
  case (2 env kvs items)
  then show ?case by (auto simp: Let_def task_ok_def split: if_splits sum.splits)
qed auto

lemma stage_mission_adds:
  assumes "prefix (pg_stages g) required_stages"
  shows "stage_adds (pg_stages g) [''7.CURRENT_MISSION''] mission_ok (stage_mission env lo g)"
  unfolding stage_mission_def
proof (rule stage_adds_reading, goal_cases)
  case (1 g' md)
  then show ?case using assms
    by (auto simp: Let_def mission_ok_def split: option.splits list.splits sum.splits dest!: mission_tasks_ok)
qed

lemma stage_blockers_adds:
  "stage_adds (pg_stages g) [''8.BLOCKERS''] (\<lambda>bs. \<exists>file. bs = parsed_blockers env file state) (stage_blockers env lo state g)"
  unfolding stage_blockers_def Let_def by (rule stage_adds_reading) auto

lemma stage_action_adds:
  assumes "prefix (pg_stages g) required_stages"
  shows "stage_adds (pg_stages g) [''9.NEXT_ACTION''] (\<lambda>_. True) (stage_action env lo state bs g)"
  unfolding stage_action_def
  by (rule stage_adds_reading) (use assms in \<open>auto split: option.splits\<close>)

text \<open>The entries an optional stage leaves: its name, or its name marked absent.\<close>

definition optional_entry :: "string \<Rightarrow> string \<Rightarrow> bool" where
  "optional_entry name e \<longleftrightarrow> e = name \<or> e = name @ '':OPTIONAL_ABSENT''"

lemma stage_optional_adds:
  assumes "\<forall>(_, _, required)\<in>set ds. \<not> required"
  shows "case stage_optional env lo ds g of
           Raised e \<Rightarrow> True
         | Stopped g' r \<Rightarrow> False
         | Continue g' u \<Rightarrow> \<exists>es. pg_stages g' = pg_stages g @ es \<and> list_all2 optional_entry (map fst ds) es"
  using assms
proof (induction env lo ds g rule: stage_optional.induct)
  case (2 env lo name path required ds g)
  obtain p v where h: "provider_path_exists env lo path (pg_provider g) = (p, v)"
    by fastforce
  show ?case
  proof (cases v)
    case (Inr present)
    define e where "e = (if present then name else name @ '':OPTIONAL_ABSENT'')"
    let ?g = "complete [e] (g\<lparr>pg_provider := p\<rparr>)"
    have step: "stage_optional env lo ((name, path, required) # ds) g = stage_optional env lo ds ?g"
      using 2(3) h Inr by (simp add: reading_def e_def)
    have IH: "present \<or> \<not> present \<and> \<not> required \<Longrightarrow> \<forall>(_, _, required)\<in>set ds. \<not> required \<Longrightarrow>
        case stage_optional env lo ds ?g of
           Raised e \<Rightarrow> True
         | Stopped g' r \<Rightarrow> False
         | Continue g' u \<Rightarrow> \<exists>es. pg_stages g' = pg_stages ?g @ es \<and> list_all2 optional_entry (map fst ds) es"
      using 2(1) [of present "g\<lparr>pg_provider := p\<rparr>"] 2(2) [of present "g\<lparr>pg_provider := p\<rparr>"]
      unfolding e_def by (cases present) simp_all
    have "case stage_optional env lo ds ?g of
           Raised e \<Rightarrow> True
         | Stopped g' r \<Rightarrow> False
         | Continue g' u \<Rightarrow> \<exists>es. pg_stages g' = pg_stages ?g @ es \<and> list_all2 optional_entry (map fst ds) es"
      by (rule IH) (use 2(3) in auto)
    moreover have "optional_entry name e" by (simp add: optional_entry_def e_def)
    ultimately show ?thesis unfolding step by (auto split: stage.splits)
  qed (simp add: h reading_def)
qed simp

definition resolved :: "web_env \<Rightarrow> repo_info \<Rightarrow> resolver_result \<Rightarrow> bool" where
  "resolved env i r \<longleftrightarrow>
     (\<exists>s es. rr_state r = Some s \<and> rr_error r = None \<and> rr_stages r = required_stages @ es \<and>
        list_all2 optional_entry (map fst stage_definitions) es \<and>
        rr_status r = (if rr_blockers r = [] then CS_CONSISTENT else CS_DEGRADED) \<and>
        cs_blockers s = rr_blockers r \<and> mission_ok (cs_current_mission s) \<and>
        cs_repository_name s = full_name env i \<and> cs_repo_type s = repo_type i)"

lemma stage_final_resolved:
  assumes "pg_stages g = required_stages @ es" and "list_all2 optional_entry (map fst stage_definitions) es"
    and "mission_ok mission"
  shows "resolved env i (snd (stage_final env i state workers mission bs a g))"
  using assms by (auto simp: resolved_def stage_final_def Let_def)

lemma optional_then_final:
  assumes "pg_stages g = required_stages" and "mission_ok mission"
  shows "stage_spec (\<lambda>_. resolved env0 i)
     (stage_bind (stage_optional env lo stage_definitions g) (\<lambda>g _.
        case stage_final env0 i state workers mission bs a g of (g', r) \<Rightarrow> Continue g' r))"
proof -
  have "\<forall>(_, _, required)\<in>set stage_definitions. \<not> required"
    by (simp add: stage_definitions_def)
  from stage_optional_adds [OF this, where env = env and lo = lo and g = g] show ?thesis
    using assms
    by (cases "stage_optional env lo stage_definitions g")
       (auto simp: stage_spec_def case_prod_beta intro!: stage_final_resolved)
qed

lemma resolver_stages_spec:
  "stage_spec (\<lambda>_ r. \<exists>i. snd (resolve_repository (envs 0) lo p) = Inr (Some i) \<and> resolved (envs 0) i r)
     (resolver_stages envs lo (resolver_start p))"
proof -
  have start: "pg_stages (resolver_start p) = []" "pg_provider (resolver_start p) = p"
    by (simp_all add: resolver_start_def)
  note adds = stage_contract_adds stage_directory_adds stage_state_adds stage_workers_adds
    stage_mission_adds stage_blockers_adds stage_action_adds
  have chain: "stage_adds pre names Q st" if "stage_adds (pg_stages g) names Q st" "pg_stages g = pre"
    for pre names Q g and st :: "'b stage" using that by simp
  show ?thesis
    unfolding resolver_stages_def
    apply (rule stage_spec_bind [OF stage_repository_adds [OF start(1)]])
    apply (unfold start(2))
    apply (rule stage_spec_bind, rule chain [OF stage_contract_adds], simp add: required_stages_def, assumption)
    apply (rule stage_spec_bind, rule chain [OF stage_directory_adds], simp add: required_stages_def, assumption)
    apply (rule stage_spec_bind, rule chain [OF stage_directory_adds], simp add: required_stages_def, assumption)
    apply (rule stage_spec_bind, rule chain [OF stage_state_adds], simp add: required_stages_def, assumption)
    apply (rule stage_spec_bind, rule chain [OF stage_workers_adds], assumption)
    apply (rule stage_spec_bind, rule chain [OF stage_mission_adds], simp add: required_stages_def, assumption)
    apply (rule stage_spec_bind, rule chain [OF stage_blockers_adds], assumption)
    apply (rule stage_spec_bind, rule chain [OF stage_action_adds], simp add: required_stages_def, assumption)
    subgoal for g i g1 u g2 u2 g3 u3 g4 st g5 ws g6 m g7 bs g8 a
      using optional_then_final [of g8 m "envs 0" i "envs 10" lo st ws bs a]
      by (auto simp: stage_spec_def required_stages_def split: stage.splits)
    done
qed

text \<open>
  C14. The resolver fails closed. A result that is BLOCKED or UNKNOWN carries no canonical state but a
  blocker and an error, and its completed stages are a beginning of the ten required ones. Any other
  result carries the state of the repository that was resolved, after all ten required stages in their
  fixed order and the five optional ones, present or marked absent; it is CONSISTENT exactly when no
  blocker was read, and its mission and every task in its scope have an id and a status. In PRODUCTION,
  when no repository was resolved before, that repository is the only candidate among those GitHub listed.
\<close>

theorem resolver_fails_closed:
  assumes "resolver_resolve envs lo p = Inr (g, r)"
  shows "halted r \<or>
     (\<exists>i. snd (resolve_repository (envs 0) lo p) = Inr (Some i) \<and> resolved (envs 0) i r \<and>
        (opp_environment p = ''PRODUCTION'' \<and> opp_resolved p = None \<longrightarrow>
           (\<exists>c repos. opp_github p = Some c \<and> list_repositories (envs 0) c None = Inr repos \<and>
              candidates_of (envs 0) c repos = Inr [i])))"
proof -
  have "halted r \<or> (\<exists>i. snd (resolve_repository (envs 0) lo p) = Inr (Some i) \<and> resolved (envs 0) i r)"
    using assms resolver_stages_spec [of envs lo p]
    by (auto simp: resolver_resolve_def stage_spec_def split: stage.splits)
  moreover have "\<exists>c repos. opp_github p = Some c \<and> list_repositories (envs 0) c None = Inr repos \<and>
      candidates_of (envs 0) c repos = Inr [i]"
    if "snd (resolve_repository (envs 0) lo p) = Inr (Some i)" "opp_environment p = ''PRODUCTION''"
       "opp_resolved p = None" for i
    using that resolve_remote_unique [of "envs 0" _ i]
    by (auto simp: resolve_repository_def local_allowed_def split: option.splits sum.splits)
  ultimately show ?thesis by blast
qed

definition demo_operational_document :: "string \<Rightarrow> json" where
  "demo_operational_document t =
     (if t = ''state'' then JObj [(''schema_version'', JInt 1), (''next_action'', JStr ''ship'')]
      else if t = ''mission'' then JObj [(''mission_id'', JStr ''M1''), (''status'', JStr ''ACTIVE''),
        (''scope'', JList [JObj [(''id'', JStr ''T1''), (''status'', JStr ''OPEN'')]])]
      else JNull)"

definition demo_operational_files :: local_files where
  "demo_operational_files =
     \<lparr>lo_exists = (\<lambda>q. q \<notin> {''/op/handoffs'', ''/op/state/BLOCKERS.yaml''}),
      lo_read = (\<lambda>q. if q = ''/op/state/CURRENT_STATE.yaml'' then Some ''state''
                     else if q = ''/op/state/CURRENT_MISSION.yaml'' then Some ''mission'' else Some ''text''),
      lo_yaml = (\<lambda>t. Some (demo_operational_document t))\<rparr>"

text \<open>GitHub in production: one repository, with the topic of the operational one; a body is known by its address.\<close>

definition demo_operational_web :: web_env where
  "demo_operational_web =
     \<lparr>we_net = (\<lambda>_ url. if mentions url ''handoffs'' \<or> mentions url ''BLOCKERS'' then Http_status 404 ''Not Found''
                       else Http_body url),
      we_utf8 = Inr,
      we_loads = (\<lambda>t. Inr (
        if mentions t ''/contents/''
        then JObj [(''encoding'', JStr ''base64''),
                   (''content'', JStr (if mentions t ''CURRENT_STATE'' then ''state''
                                     else if mentions t ''CURRENT_MISSION'' then ''mission'' else ''text''))]
        else JList [JObj [(''owner'', JObj [(''login'', JStr ''acme'')]), (''name'', JStr ''op''),
                          (''topics'', JList [JStr ''anny-operational''])]])),
      we_b64 = Inr, we_str = (\<lambda>_. ''?'')\<rparr>"

definition demo_provider :: operational_provider where
  "demo_provider = provider_init (pb_github demo_plane) None ''PRODUCTION''"

lemma demo_resolver_runs:
  "case resolver_resolve (\<lambda>_. demo_operational_web) demo_operational_files demo_provider of
     Inl e \<Rightarrow> False
   | Inr (g, r) \<Rightarrow>
       rr_status r = CS_CONSISTENT \<and>
       rr_stages r = required_stages @ [''10.PROPOSALS'', ''11.HANDOFFS:OPTIONAL_ABSENT'', ''12.ESCALATIONS'',
         ''13.REQUIRED_EVIDENCE'', ''14.RELEVANT_DOMAIN_STATE'']"
  by code_simp

theorem resolver_fails_closed_witness:
  "\<exists>g r i c repos. resolver_resolve (\<lambda>_. demo_operational_web) demo_operational_files demo_provider = Inr (g, r) \<and>
     rr_status r = CS_CONSISTENT \<and> ''11.HANDOFFS:OPTIONAL_ABSENT'' \<in> set (rr_stages r) \<and>
     resolved demo_operational_web i r \<and> opp_environment demo_provider = ''PRODUCTION'' \<and>
     list_repositories demo_operational_web c None = Inr repos \<and> candidates_of demo_operational_web c repos = Inr [i]"
proof -
  obtain g r where run: "resolver_resolve (\<lambda>_. demo_operational_web) demo_operational_files demo_provider = Inr (g, r)"
      and r: "rr_status r = CS_CONSISTENT" "''11.HANDOFFS:OPTIONAL_ABSENT'' \<in> set (rr_stages r)"
    using demo_resolver_runs by (auto split: sum.splits prod.splits)
  from r(1) have "\<not> halted r" by (simp add: halted_def)
  moreover have "opp_environment demo_provider = ''PRODUCTION''" "opp_resolved demo_provider = None"
    by (simp_all add: demo_provider_def provider_init_def)
  ultimately show ?thesis using resolver_fails_closed [OF run] run r by blast
qed

end
