(* ===== verification/Compute.thy ===== *)
theory Compute
  imports Fabric
begin

text \<open>
  Remote compute without a transport: the states of a session (runtime/compute/models.py), the
  registry of observed capabilities (runtime/compute/registry.py), the reading of a discovery
  (runtime/compute/discovery.py) and the manager of a connection (runtime/compute/remote_manager.py).
  The remote code of the discovery runs elsewhere; what comes back is an argument.
\<close>

section \<open>States of a session\<close>

datatype remote_state =
    DISCONNECTED | AUTH_PENDING | CONNECTING | PROVISIONING | CONNECTED | AUDITING | REMOTE_READY
  | REMOTE_DEGRADED | EXPIRED | REMOTE_FAILED | TERMINATING | TERMINATED

text \<open>The members of the enum by name; the value of each is its name.\<close>

definition remote_states :: "(string \<times> remote_state) list" where
  "remote_states =
    [(''DISCONNECTED'', DISCONNECTED), (''AUTH_PENDING'', AUTH_PENDING), (''CONNECTING'', CONNECTING),
     (''PROVISIONING'', PROVISIONING), (''CONNECTED'', CONNECTED), (''AUDITING'', AUDITING),
     (''READY'', REMOTE_READY), (''DEGRADED'', REMOTE_DEGRADED), (''EXPIRED'', EXPIRED),
     (''FAILED'', REMOTE_FAILED), (''TERMINATING'', TERMINATING), (''TERMINATED'', TERMINATED)]"

definition remote_state_of :: "string \<Rightarrow> remote_state result" where
  "remote_state_of name =
     (case map_of remote_states name of
        Some s \<Rightarrow> Inr s
      | None \<Rightarrow> Inl (AttributeError (''type object '' @ quoted ''RemoteSessionState'' @ '' has no attribute '' @ quoted name)))"

text \<open>A tuple of members is evaluated from the left before anything is compared with it.\<close>

fun remote_states_of :: "string list \<Rightarrow> remote_state list result" where
  "remote_states_of [] = Inr []"
| "remote_states_of (n # ns) =
     and_then (remote_state_of n) (\<lambda>s. and_then (remote_states_of ns) (\<lambda>ss. Inr (s # ss)))"

section \<open>RuntimeCapabilityRegistry\<close>

datatype capability_state = CAP_UNKNOWN | CAP_OBSERVED | CAP_TESTED | CAP_UNAVAILABLE

primrec capability_state_value :: "capability_state \<Rightarrow> string" where
  "capability_state_value CAP_UNKNOWN = ''UNKNOWN''"
| "capability_state_value CAP_OBSERVED = ''OBSERVED''"
| "capability_state_value CAP_TESTED = ''TESTED''"
| "capability_state_value CAP_UNAVAILABLE = ''UNAVAILABLE''"

text \<open>The observation times are left out: nothing reads them but the serialization.\<close>

record runtime_capability =
  rcap_name :: string
  rcap_state :: capability_state
  rcap_details :: json

type_synonym capability_table = "(string, runtime_capability) dict"

definition register_capability ::
  "string \<Rightarrow> capability_state \<Rightarrow> json \<Rightarrow> capability_table \<Rightarrow> capability_table" where
  "register_capability name st details t =
     dict_set t name \<lparr>rcap_name = name, rcap_state = st, rcap_details = details\<rparr>"

definition capability_table_json :: "capability_table \<Rightarrow> json" where
  "capability_table_json t =
     JObj [(''capabilities'', JList (map (\<lambda>c. JObj [(''name'', JStr (rcap_name c)),
              (''state'', JStr (capability_state_value (rcap_state c))), (''details'', rcap_details c)]) (dict_values t))),
           (''count'', JInt (int (length t)))]"

text \<open>
  \<open>from_resource_profile\<close>, block by block. \<open>pr\<close> renders a value in an f-string; a value is
  compared with a string by equality, so one that is not a string differs from it.
\<close>

type_synonym profile = "(string \<times> json) list"

definition pass_of :: "profile \<Rightarrow> string \<Rightarrow> bool" where
  "pass_of p k \<longleftrightarrow> jfield p k JNull = JStr ''PASS''"

definition gpu_present :: "profile \<Rightarrow> bool" where
  "gpu_present p \<longleftrightarrow> truthy (jfield p ''gpu_present'' (JBool False))"

definition register_hardware :: "(json \<Rightarrow> string) \<Rightarrow> profile \<Rightarrow> capability_table \<Rightarrow> capability_table" where
  "register_hardware pr p t0 =
     (let cpu = jfield p ''cpu'' JNull;
          t1 = (if truthy cpu \<and> cpu \<noteq> JStr ''UNKNOWN''
                then register_capability ''cpu.compute'' CAP_OBSERVED
                       (JStr (pr (jfield p ''cpu_count'' (JStr ''?'')) @ '' cores, '' @
                              pr (jfield p ''ram_gb'' (JStr ''?'')) @ '' GB RAM'')) t0
                else register_capability ''cpu.compute'' CAP_UNKNOWN JNull t0);
          t2 = (if gpu_present p
                then register_capability ''gpu.compute'' CAP_OBSERVED
                       (JStr (pr (jfield p ''gpu_name'' (JStr ''UNKNOWN'')) @ '', '' @
                              pr (jfield p ''vram_gb'' (JStr ''UNKNOWN'')) @ '' GB VRAM'')) t1
                else register_capability ''gpu.compute'' CAP_UNAVAILABLE JNull t1);
          t3 = (if truthy (jfield p ''tpu_present'' (JBool False))
                then register_capability ''tpu.compute'' CAP_OBSERVED (jfield p ''tpu_type'' (JStr ''UNKNOWN'')) t2
                else register_capability ''tpu.compute'' CAP_UNAVAILABLE JNull t2)
      in if truthy (jfield p ''cuda_available'' (JBool False))
         then register_capability ''cuda'' CAP_OBSERVED
                (JStr (''CUDA '' @ pr (jfield p ''cuda_version'' (JStr ''?'')) @ '', Driver '' @
                       pr (jfield p ''driver_version'' (JStr ''?'')))) t3
         else if gpu_present p then register_capability ''cuda'' CAP_UNKNOWN JNull t3
         else register_capability ''cuda'' CAP_UNAVAILABLE JNull t3)"

definition software_packages :: "(string \<times> string) list" where
  "software_packages =
    [(''software.python'', ''python_version''), (''software.pytorch'', ''torch_version''),
     (''software.transformers'', ''transformers_version''), (''software.peft'', ''peft_version''),
     (''software.bitsandbytes'', ''bitsandbytes_version''), (''software.accelerate'', ''accelerate_version'')]"

fun register_software :: "profile \<Rightarrow> (string \<times> string) list \<Rightarrow> capability_table \<Rightarrow> capability_table" where
  "register_software p [] t = t"
| "register_software p ((pkg, key) # ps) t =
     (let v = jfield p key JNull
      in register_software p ps
           (if truthy v \<and> v \<notin> {JStr ''UNKNOWN'', JStr ''NOT_INSTALLED''}
            then register_capability pkg CAP_OBSERVED v t
            else if v = JStr ''NOT_INSTALLED'' then register_capability pkg CAP_UNAVAILABLE JNull t
            else register_capability pkg CAP_UNKNOWN JNull t))"

definition register_gpu_test :: "profile \<Rightarrow> string \<Rightarrow> string \<Rightarrow> capability_table \<Rightarrow> capability_table" where
  "register_gpu_test p key name t =
     (if pass_of p key then register_capability name CAP_TESTED JNull t
      else if gpu_present p then register_capability name CAP_UNKNOWN JNull t
      else t)"

definition from_resource_profile ::
  "(json \<Rightarrow> string) \<Rightarrow> profile \<Rightarrow> capability_table \<Rightarrow> capability_table" where
  "from_resource_profile pr p t =
     (let t1 = register_hardware pr p t;
          t2 = (if pass_of p ''remote_execution'' then register_capability ''remote.execution'' CAP_TESTED JNull t1
                else register_capability ''remote.execution'' CAP_UNKNOWN JNull t1);
          t3 = register_software p software_packages t2;
          t4 = (if pass_of p ''causallm_inference''
                then register_capability ''model.causal_lm'' CAP_TESTED (jfield p ''causallm_model_class'' (JStr ''UNKNOWN'')) t3
                else register_capability ''model.causal_lm'' CAP_UNKNOWN JNull t3)
      in register_gpu_test p ''fp16_test'' ''gpu.fp16''
           (register_gpu_test p ''cuda_tensor_test'' ''gpu.tensor_compute'' t4))"

section \<open>RuntimeResourceDiscovery\<close>

text \<open>\<open>str.splitlines\<close>, on the line breaks of ASCII.\<close>

fun unify_breaks :: "string \<Rightarrow> string" where
  "unify_breaks [] = []"
| "unify_breaks [c] = [if c \<in> set [CHR 0x0B, CHR 0x0C, CHR 0x0D, CHR 0x1C, CHR 0x1D, CHR 0x1E] then CHR 0x0A else c]"
| "unify_breaks (c # d # cs) =
     (if c = CHR 0x0D \<and> d = CHR 0x0A then CHR 0x0A # unify_breaks cs
      else (if c \<in> set [CHR 0x0B, CHR 0x0C, CHR 0x0D, CHR 0x1C, CHR 0x1D, CHR 0x1E] then CHR 0x0A else c)
           # unify_breaks (d # cs))"

definition text_lines :: "string \<Rightarrow> string list" where
  "text_lines s = splitlines (unify_breaks s)"

definition audit_prefix :: string where
  "audit_prefix = ''AUDIT_JSON:''"

text \<open>\<open>data[k] = v\<close> on a parsed document: only an object takes it.\<close>

fun set_item :: "json \<Rightarrow> string \<Rightarrow> json \<Rightarrow> json result" where
  "set_item (JObj kvs) k v = Inr (JObj (dict_set kvs k v))"
| "set_item (JList _) k v = Inl (TypeError ''list indices must be integers or slices, not str'')"
| "set_item d k v = Inl (TypeError (quoted (py_class d) @ '' object does not support item assignment''))"

definition discovery_failed :: "string \<Rightarrow> string \<Rightarrow> profile" where
  "discovery_failed now e =
     [(''_discovery_status'', JStr ''FAILED''), (''_discovery_timestamp'', JStr now), (''_error'', JStr e)]"

definition discovery_partial :: "string \<Rightarrow> string \<Rightarrow> profile" where
  "discovery_partial now out =
     [(''_discovery_status'', JStr ''PARTIAL''), (''_discovery_timestamp'', JStr now),
      (''remote_execution'', JStr ''PASS''), (''_raw_output'', JStr (take 1000 out))]"

definition audit_line :: "(string \<Rightarrow> string + json) \<Rightarrow> string \<Rightarrow> string \<Rightarrow> profile" where
  "audit_line loads now l =
     (case loads (strip (drop (length audit_prefix) l)) of
        Inl e \<Rightarrow> discovery_failed now e
      | Inr data \<Rightarrow>
          (case and_then (set_item data ''_discovery_timestamp'' (JStr now))
                  (\<lambda>d. set_item d ''_discovery_status'' (JStr ''COMPLETED'')) of
             Inr (JObj kvs) \<Rightarrow> kvs
           | Inr _ \<Rightarrow> discovery_failed now []
           | Inl e \<Rightarrow> discovery_failed now (str_exn e)))"

text \<open>
  \<open>discover\<close>: \<open>reply\<close> is what the transport raised, or the standard output of the job, absent
  when the job has none.
\<close>

definition discover_resources :: "(string \<Rightarrow> string + json) \<Rightarrow> string \<Rightarrow> string + string option \<Rightarrow> profile" where
  "discover_resources loads now reply =
     (case reply of
        Inl e \<Rightarrow> discovery_failed now e
      | Inr out \<Rightarrow>
          let stdout = (case out of None \<Rightarrow> [] | Some s \<Rightarrow> s)
          in case find (\<lambda>l. starts_with l audit_prefix) (text_lines stdout) of
               Some l \<Rightarrow> audit_line loads now l
             | None \<Rightarrow> discovery_partial now stdout)"

section \<open>Sessions, leases and jobs\<close>

datatype execution_classification = CLASS_TEST | CLASS_MOCK | CLASS_EMULATED | CLASS_REAL_REMOTE

record compute_lease =
  cl_issued_at :: instant
  cl_expires_at :: instant

text \<open>The profile and the creation time of a session are set nowhere or read nowhere.\<close>

record remote_session =
  rms_id :: string
  rms_provider :: string
  rms_state :: remote_state
  rms_classification :: execution_classification
  rms_lease :: "compute_lease option"
  rms_requested :: "string option"
  rms_observed :: "string option"
  rms_metadata :: "(string, string) dict"

text \<open>
  A job as the transports use it: the code is an attribute callers attach (\<open>code\<close> or
  \<open>script\<close>), and so are \<open>state\<close>, \<open>stdout\<close>, \<open>stderr\<close> and \<open>error\<close>.
\<close>

record remote_job =
  rj_id :: string
  rj_code :: "string option"
  rj_script :: "string option"
  rj_status :: string
  rj_state :: "string option"
  rj_stdout :: "string option"
  rj_stderr :: "string option"
  rj_error :: "string option"

section \<open>RemoteComputeManager\<close>

record connect_attempt =
  at_id :: string
  at_timestamp :: string
  at_failure :: "(string \<times> string) option"

record remote_manager =
  rmg_state :: remote_state
  rmg_session :: "remote_session option"
  rmg_transport :: bool
  rmg_profile :: "profile option"
  rmg_registry :: capability_table
  rmg_workers :: nat
  rmg_cancel :: bool
  rmg_error :: "string option"
  rmg_attempt :: string
  rmg_attempts :: "connect_attempt list"

definition remote_manager_init :: remote_manager where
  "remote_manager_init =
     \<lparr>rmg_state = DISCONNECTED, rmg_session = None, rmg_transport = False, rmg_profile = None,
      rmg_registry = [], rmg_workers = 0, rmg_cancel = False, rmg_error = None, rmg_attempt = [],
      rmg_attempts = []\<rparr>"

text \<open>The started worker threads that have not run are counted in \<open>rmg_workers\<close>.\<close>

definition manager_connect :: "string \<Rightarrow> string \<Rightarrow> remote_manager \<Rightarrow> remote_manager \<times> bool result" where
  "manager_connect uid now m =
     (case remote_states_of [''DISCONNECTED'', ''FAILED'', ''LOST'', ''TERMINATED''] of
        Inl e \<Rightarrow> (m, Inl e)
      | Inr idle \<Rightarrow>
          if rmg_state m \<notin> set idle then (m, Inr False)
          else (m\<lparr>rmg_state := CONNECTING, rmg_error := None, rmg_cancel := False, rmg_attempt := uid,
                  rmg_attempts := rmg_attempts m @ [\<lparr>at_id = uid, at_timestamp = now, at_failure = None\<rparr>],
                  rmg_workers := Suc (rmg_workers m)\<rparr>, Inr True))"

definition manager_disconnect :: "remote_manager \<Rightarrow> remote_manager" where
  "manager_disconnect m =
     (if rmg_state m = DISCONNECTED then m
      else m\<lparr>rmg_state := DISCONNECTED, rmg_session := None, rmg_transport := False, rmg_profile := None,
             rmg_registry := [], rmg_error := None\<rparr>)"

definition manager_reconnect :: "string \<Rightarrow> string \<Rightarrow> remote_manager \<Rightarrow> remote_manager \<times> bool result" where
  "manager_reconnect uid now m = manager_connect uid now (manager_disconnect m)"

definition manager_cancel :: "remote_manager \<Rightarrow> remote_manager \<times> bool result" where
  "manager_cancel m =
     (case remote_states_of [''CONNECTING'', ''WAITING_USER'', ''RUNTIME_CONNECTING'', ''AUDITING''] of
        Inl e \<Rightarrow> (m, Inl e)
      | Inr active \<Rightarrow>
          if rmg_state m \<notin> set active then (m, Inr False) else (m\<lparr>rmg_cancel := True\<rparr>, Inr True))"

text \<open>
  What a worker meets: the cancellation flag at its three readings, the transport, the session the
  provider hands out and the discovered profile.
\<close>

record connect_env =
  ce_cancelled :: "nat \<Rightarrow> bool"
  ce_transport :: "string option"
  ce_provision :: "string + remote_session"
  ce_profile :: profile
  ce_render :: "json \<Rightarrow> string"

fun record_attempt_failure :: "string \<Rightarrow> string \<Rightarrow> string \<Rightarrow> connect_attempt list \<Rightarrow> connect_attempt list" where
  "record_attempt_failure i stg reason [] = []"
| "record_attempt_failure i stg reason (a # as) =
     (if at_id a = i then a\<lparr>at_failure := Some (stg, reason)\<rparr> # as
      else a # record_attempt_failure i stg reason as)"

definition connect_failed :: "string \<Rightarrow> string \<Rightarrow> string \<Rightarrow> string \<Rightarrow> remote_manager \<Rightarrow> remote_manager" where
  "connect_failed i stg msg reason m =
     m\<lparr>rmg_state := REMOTE_FAILED, rmg_error := Some msg,
       rmg_attempts := record_attempt_failure i stg reason (rmg_attempts m)\<rparr>"

definition adopt_session :: "connect_env \<Rightarrow> remote_session \<Rightarrow> remote_manager \<Rightarrow> remote_manager" where
  "adopt_session ce s m0 =
     (let m = m0\<lparr>rmg_session := Some s, rmg_transport := True, rmg_state := AUDITING\<rparr>
      in if ce_cancelled ce 2 then manager_disconnect m
         else m\<lparr>rmg_profile := Some (ce_profile ce),
                rmg_registry := from_resource_profile (ce_render ce) (ce_profile ce) [],
                rmg_state := REMOTE_READY, rmg_error := None\<rparr>)"

definition do_connect :: "connect_env \<Rightarrow> string \<Rightarrow> remote_manager \<Rightarrow> remote_manager \<times> unit result" where
  "do_connect ce i m0 =
     (if ce_cancelled ce 0 then (m0\<lparr>rmg_state := DISCONNECTED\<rparr>, Inr ())
      else let m = m0\<lparr>rmg_state := CONNECTING\<rparr>
      in case ce_transport ce of
          Some e \<Rightarrow> (connect_failed i ''TRANSPORT_INIT'' (''Transport creation failed: '' @ e) e m, Inr ())
        | None \<Rightarrow>
            if ce_cancelled ce 1 then (m\<lparr>rmg_state := DISCONNECTED\<rparr>, Inr ())
            else (case remote_state_of ''WAITING_USER'' of
                Inl e \<Rightarrow> (m, Inl e)
              | Inr waiting \<Rightarrow>
                  let m = m\<lparr>rmg_state := waiting\<rparr>
                  in case ce_provision ce of
                      Inl e \<Rightarrow> (connect_failed i ''PROVISION'' (''Provisioning failed: '' @ e) e m, Inr ())
                    | Inr s \<Rightarrow>
                        if rms_state s = REMOTE_FAILED
                        then let e = (case dict_get (rms_metadata s) ''error'' of
                                        Some e \<Rightarrow> e | None \<Rightarrow> ''Unknown provisioning error'')
                             in (connect_failed i ''PROVISION'' e e m, Inr ())
                        else (adopt_session ce s m, Inr ())))"

definition connect_worker :: "connect_env \<Rightarrow> remote_manager \<Rightarrow> remote_manager" where
  "connect_worker ce m =
     (let i = rmg_attempt m
      in case do_connect ce i m of
          (m', Inr _) \<Rightarrow> m'
        | (m', Inl e) \<Rightarrow> connect_failed i ''WORKER'' (str_exn e) (str_exn e) m')"

datatype manager_op = Connect string string | Disconnect | Reconnect string string | Cancel | Run_worker connect_env

fun manager_op_step :: "manager_op \<Rightarrow> remote_manager \<Rightarrow> remote_manager \<times> bool result" where
  "manager_op_step (Connect uid now) m = manager_connect uid now m"
| "manager_op_step Disconnect m = (manager_disconnect m, Inr True)"
| "manager_op_step (Reconnect uid now) m = manager_reconnect uid now m"
| "manager_op_step Cancel m = manager_cancel m"
| "manager_op_step (Run_worker ce) m =
     (if rmg_workers m = 0 then (m, Inr True)
      else (connect_worker ce (m\<lparr>rmg_workers := rmg_workers m - 1\<rparr>), Inr True))"

definition manager_ops :: "manager_op list \<Rightarrow> remote_manager" where
  "manager_ops ops = foldl (\<lambda>m op. fst (manager_op_step op m)) remote_manager_init ops"

section \<open>What holds of them\<close>

lemma remote_states_missing:
  "remote_state_of ''LOST'' = Inl (AttributeError (''type object '' @ quoted ''RemoteSessionState'' @ '' has no attribute '' @ quoted ''LOST''))"
  "\<exists>e. remote_state_of ''WAITING_USER'' = Inl e"
  "\<exists>e. remote_state_of ''RUNTIME_CONNECTING'' = Inl e"
  by (simp_all add: remote_state_of_def remote_states_def)

lemma connect_raises: "\<exists>e. manager_connect uid now m = (m, Inl e)"
  unfolding manager_connect_def by (simp add: remote_state_of_def remote_states_def)

lemma cancel_raises: "\<exists>e. manager_cancel m = (m, Inl e)"
  unfolding manager_cancel_def by (simp add: remote_state_of_def remote_states_def)

lemma connect_keeps: "fst (manager_connect uid now m) = m"
  using connect_raises [of uid now m] by auto

lemma cancel_keeps: "fst (manager_cancel m) = m"
  using cancel_raises [of m] by auto

lemma init_idle: "manager_disconnect remote_manager_init = remote_manager_init" "rmg_workers remote_manager_init = 0"
  by (simp_all add: manager_disconnect_def remote_manager_init_def)

text \<open>
  No connection is ever started: the states the manager compares with include three the enum does
  not have.
\<close>

lemma manager_ops_init: "manager_ops ops = remote_manager_init"
proof (induction ops rule: rev_induct)
  case (snoc op ops)
  have "fst (manager_op_step op remote_manager_init) = remote_manager_init"
    by (cases op) (simp_all add: manager_reconnect_def connect_keeps cancel_keeps init_idle)
  then show ?case using snoc by (simp add: manager_ops_def)
qed (simp add: manager_ops_def)

text \<open>Were a worker started all the same, it would end without a session.\<close>

lemma connect_worker_ends:
  assumes "rmg_session m = None"
  shows "rmg_state (connect_worker ce m) \<in> {DISCONNECTED, REMOTE_FAILED} \<and> rmg_session (connect_worker ce m) = None"
proof -
  obtain e where "remote_state_of ''WAITING_USER'' = Inl e" using remote_states_missing(2) by blast
  then show ?thesis using assms
    by (auto simp: connect_worker_def do_connect_def connect_failed_def Let_def split: option.splits)
qed

text \<open>
  The registry after a profile: a present GPU is observed, no GPU is unavailable, remote execution
  counts as tested as soon as the profile says so, and a profile that discovery made up itself
  because no answer came back says so too.
\<close>

lemma register_get [simp]:
  "dict_get (register_capability n st d t) k =
     (if k = n then Some \<lparr>rcap_name = n, rcap_state = st, rcap_details = d\<rparr> else dict_get t k)"
  by (simp add: register_capability_def dict_get_set)

lemma register_software_get:
  "k \<notin> fst ` set ps \<Longrightarrow> dict_get (register_software p ps t) k = dict_get t k"
  by (induction p ps t rule: register_software.induct) (auto simp: Let_def)

lemma register_gpu_test_get:
  "k \<noteq> name \<Longrightarrow> dict_get (register_gpu_test p key name t) k = dict_get t k"
  by (simp add: register_gpu_test_def)

lemma get_if: "dict_get (if c then t else u) k = (if c then dict_get t k else dict_get u k)"
  by simp

lemma register_hardware_gpu:
  "\<exists>d. dict_get (register_hardware pr p t) ''gpu.compute'' =
     Some \<lparr>rcap_name = ''gpu.compute'', rcap_state = (if gpu_present p then CAP_OBSERVED else CAP_UNAVAILABLE),
           rcap_details = d\<rparr>"
  unfolding register_hardware_def Let_def get_if register_get by simp

lemma from_resource_profile_get:
  assumes "k \<notin> {''gpu.fp16'', ''gpu.tensor_compute'', ''model.causal_lm'', ''remote.execution''}"
    and "k \<notin> fst ` set software_packages"
  shows "dict_get (from_resource_profile pr p t) k = dict_get (register_hardware pr p t) k"
  using assms
  by (simp add: from_resource_profile_def Let_def register_gpu_test_get register_software_get)

lemma profile_gpu:
  "rcap_state (the (dict_get (from_resource_profile pr p t) ''gpu.compute'')) =
     (if gpu_present p then CAP_OBSERVED else CAP_UNAVAILABLE)"
  using register_hardware_gpu [of pr p t]
  by (subst from_resource_profile_get) (auto simp: software_packages_def)

lemma profile_remote_execution:
  "rcap_state (the (dict_get (from_resource_profile pr p t) ''remote.execution'')) =
     (if pass_of p ''remote_execution'' then CAP_TESTED else CAP_UNKNOWN)"
proof -
  have "''remote.execution'' \<notin> fst ` set software_packages" by (simp add: software_packages_def)
  then show ?thesis
    by (simp add: from_resource_profile_def Let_def register_gpu_test_get register_software_get)
qed

lemma silent_remote_is_tested:
  "rcap_state (the (dict_get (from_resource_profile pr (discover_resources loads now (Inr None)) t) ''remote.execution''))
     = CAP_TESTED"
  by (simp add: profile_remote_execution discover_resources_def text_lines_def splitlines_def
      discovery_partial_def pass_of_def jfield_def)

text \<open>
  What the registry calls tested was tested: the entry is one of the four that have a test, and the
  profile says PASS for it.
\<close>

definition capability_tests :: "(string \<times> string) list" where
  "capability_tests =
    [(''remote.execution'', ''remote_execution''), (''model.causal_lm'', ''causallm_inference''),
     (''gpu.tensor_compute'', ''cuda_tensor_test''), (''gpu.fp16'', ''fp16_test'')]"

definition honest_table :: "profile \<Rightarrow> capability_table \<Rightarrow> bool" where
  "honest_table p t \<longleftrightarrow>
     (\<forall>k c. dict_get t k = Some c \<longrightarrow> rcap_name c = k \<and>
        (rcap_state c = CAP_TESTED \<longrightarrow> (\<exists>key. (k, key) \<in> set capability_tests \<and> pass_of p key)))"

lemma honest_register:
  assumes "honest_table p t" and "st = CAP_TESTED \<Longrightarrow> \<exists>key. (n, key) \<in> set capability_tests \<and> pass_of p key"
  shows "honest_table p (register_capability n st d t)"
  using assms by (auto simp: honest_table_def)

lemma honest_untested: "honest_table p t \<Longrightarrow> st \<noteq> CAP_TESTED \<Longrightarrow> honest_table p (register_capability n st d t)"
  by (rule honest_register) auto

lemma honest_if: "(c \<Longrightarrow> honest_table p t) \<Longrightarrow> (\<not> c \<Longrightarrow> honest_table p u) \<Longrightarrow> honest_table p (if c then t else u)"
  by simp

lemma honest_software: "honest_table p t \<Longrightarrow> honest_table p (register_software p ps t)"
  by (induction p ps t rule: register_software.induct) (simp_all add: Let_def honest_untested)

lemma honest_gpu_test:
  assumes "honest_table p t" and "(n, key) \<in> set capability_tests"
  shows "honest_table p (register_gpu_test p key n t)"
  using assms by (auto simp: register_gpu_test_def intro!: honest_register)

lemma honest_hardware: "honest_table p t \<Longrightarrow> honest_table p (register_hardware pr p t)"
  unfolding register_hardware_def Let_def by (intro honest_if honest_untested) simp_all

lemma honest_profile: "honest_table p (from_resource_profile pr p [])"
  unfolding from_resource_profile_def Let_def
  by (intro honest_gpu_test honest_if honest_register honest_software honest_hardware)
     (auto simp: honest_table_def capability_tests_def)

end
