(* ===== verification/Colab.thy ===== *)
theory Colab
  imports Compute
begin

text \<open>
  The Google Colab provider (runtime/compute/colab.py): the transport over the command line tool, the
  transport over the MCP bridge of the browser, and the provider that routes to them. The answers of
  the tool and of the bridge are arguments; session objects are shared with the caller, so the
  provider keeps them in a list and operations name them by their place in it. An execution is one step:
  its check of the session and of the lease comes before it takes the lock of the bridge, so a lease that ends while it
  waits for the lock is not seen.
\<close>

section \<open>The status line\<close>

text \<open>
  The regular expression of \<open>_parse_session_status_line\<close>, matched as Python's \<open>re\<close> does it:
  all ways to match in the order of preference, the first one wins. A repetition is of one class of
  characters. A result is the groups in the order in which they close, and the rest of the text.
\<close>

datatype rx =
    Lit string
  | Many "char \<Rightarrow> bool" nat
  | Many_lazy "char \<Rightarrow> bool" nat
  | Group rx
  | Then rx rx
  | Maybe rx

text \<open>The ways to take at least \<open>n\<close> characters of a class, shortest first.\<close>

fun takes :: "(char \<Rightarrow> bool) \<Rightarrow> nat \<Rightarrow> string \<Rightarrow> (string \<times> string) list" where
  "takes p 0 s = ([], s) # (case s of [] \<Rightarrow> [] | c # cs \<Rightarrow> if p c then map (\<lambda>(a, b). (c # a, b)) (takes p 0 cs) else [])"
| "takes p (Suc n) s = (case s of [] \<Rightarrow> [] | c # cs \<Rightarrow> if p c then map (\<lambda>(a, b). (c # a, b)) (takes p n cs) else [])"

fun rx_matches :: "rx \<Rightarrow> string \<Rightarrow> (string list \<times> string \<times> string) list" where
  "rx_matches (Lit l) s = (if starts_with s l then [([], l, drop (length l) s)] else [])"
| "rx_matches (Many p n) s = map (\<lambda>(a, b). ([], a, b)) (rev (takes p n s))"
| "rx_matches (Many_lazy p n) s = map (\<lambda>(a, b). ([], a, b)) (takes p n s)"
| "rx_matches (Group r) s = map (\<lambda>(gs, a, b). (gs @ [a], a, b)) (rx_matches r s)"
| "rx_matches (Then r q) s =
     concat (map (\<lambda>(gs, a, b). map (\<lambda>(gs', a', b'). (gs @ gs', a @ a', b')) (rx_matches q b)) (rx_matches r s))"
| "rx_matches (Maybe r) s = rx_matches r s @ [([], [], s)]"

text \<open>\<open>re.search\<close>: the first position with a match.\<close>

fun rx_search :: "rx \<Rightarrow> string \<Rightarrow> string list option" where
  "rx_search r s =
     (case rx_matches r s of
        (gs, _, _) # _ \<Rightarrow> Some gs
      | [] \<Rightarrow> (case s of [] \<Rightarrow> None | c # cs \<Rightarrow> rx_search r cs))"

declare rx_search.simps [simp del]

definition re_space :: "char \<Rightarrow> bool" where
  "re_space c \<longleftrightarrow> is_space c \<or> c \<in> set [CHR 0x1C, CHR 0x1D, CHR 0x1E, CHR 0x1F]"

fun rx_seq :: "rx list \<Rightarrow> rx" where
  "rx_seq [] = Lit []"
| "rx_seq [r] = r"
| "rx_seq (r # rs) = Then r (rx_seq rs)"

definition status_field :: "string \<Rightarrow> rx list" where
  "status_field name =
     [Many re_space 0, Lit ''|'', Many re_space 0, Lit (name @ '':''), Many re_space 0, Group (Many (Not \<circ> re_space) 1)]"

definition status_pattern :: rx where
  "status_pattern =
     rx_seq ([Lit ''['', Group (Many_lazy (\<lambda>c. c \<noteq> CHR 0x0A) 1), Lit '']'', Many re_space 1,
              Group (Many (Not \<circ> re_space) 1)]
             @ status_field ''Hardware'' @ status_field ''Variant'' @ [Maybe (rx_seq (status_field ''Status''))])"

record status_line =
  sl_name :: string
  sl_backend :: string
  sl_hardware :: string
  sl_variant :: string
  sl_status :: string

definition parse_status_line :: "string \<Rightarrow> status_line option" where
  "parse_status_line l =
     (case rx_search status_pattern l of
        Some [n, b, h, v] \<Rightarrow> Some \<lparr>sl_name = n, sl_backend = b, sl_hardware = h, sl_variant = v, sl_status = ''UNKNOWN''\<rparr>
      | Some [n, b, h, v, st] \<Rightarrow> Some \<lparr>sl_name = n, sl_backend = b, sl_hardware = h, sl_variant = v, sl_status = st\<rparr>
      | _ \<Rightarrow> None)"

text \<open>The first line that parses.\<close>

fun first_status :: "string list \<Rightarrow> status_line option" where
  "first_status [] = None"
| "first_status (l # ls) = (case parse_status_line l of Some p \<Rightarrow> Some p | None \<Rightarrow> first_status ls)"

lemma status_line_example:
  "parse_status_line ''[a] gpu-1 | Hardware: T4 | Variant: GPU | Status: IDLE'' =
     Some \<lparr>sl_name = ''a'', sl_backend = ''gpu-1'', sl_hardware = ''T4'', sl_variant = ''GPU'', sl_status = ''IDLE''\<rparr>"
  by code_simp

section \<open>Errors, context, credentials, leases\<close>

datatype colab_exn =
    ColabCLINotFoundError string
  | ColabSessionNotFoundError string
  | ColabCLIError string
  | Colab_raised exn

type_synonym 'a colab = "colab_exn + 'a"

text \<open>A context dictionary, seen through its keys and the entries that are read.\<close>

record provision_context =
  pc_keys :: "string list"
  pc_session_name :: "string option"
  pc_accelerator :: "string option"
  pc_lease_duration :: "int option"
  pc_transport_type :: "string option"

definition forbidden_context_keys :: "string list" where
  "forbidden_context_keys =
    [''credentials'', ''token'', ''private_keys'', ''secret'', ''api_key'', ''password'', ''cookie'',
     ''session_cookie'', ''browser_cookie'']"

definition smuggled :: "provision_context \<Rightarrow> string list" where
  "smuggled x = filter (\<lambda>k. k \<in> set forbidden_context_keys) (pc_keys x)"

text \<open>
  What an operation meets: the clock, fresh names, how a set and a string print, the command line tool by its
  arguments, and the bridge: whether it starts, what the browser tool answers (its text and the error
  flag), the tools it lists and what a call of one returns.
\<close>

datatype cli_reply = Cli_missing | Cli_timeout | Cli_done int string string

record tool_reply =
  tr_text :: "string option"
  tr_error :: bool

record colab_env =
  cb_now :: instant
  cb_uuid :: string
  cb_set_repr :: "string list \<Rightarrow> string"
  cb_repr :: "string \<Rightarrow> string"
  cb_cli :: "string list \<Rightarrow> cli_reply"
  cb_start :: "string option"
  cb_open :: "string + tool_reply"
  cb_list :: "exn + string list"
  cb_call :: "string \<Rightarrow> string \<Rightarrow> string + tool_reply"

definition assert_no_credentials :: "colab_env \<Rightarrow> provision_context \<Rightarrow> unit colab" where
  "assert_no_credentials e x =
     (if smuggled x \<noteq> []
      then Inl (Colab_raised (ValueError
             (''Security violation: forbidden keys in provision() context: '' @ cb_set_repr e (smuggled x))))
      else Inr ())"

definition check_lease :: "instant \<Rightarrow> remote_session \<Rightarrow> remote_session" where
  "check_lease now s =
     (case rms_lease s of
        Some l \<Rightarrow> if now > cl_expires_at l then s\<lparr>rms_state := EXPIRED\<rparr> else s
      | None \<Rightarrow> s)"

definition new_lease :: "colab_env \<Rightarrow> provision_context \<Rightarrow> compute_lease" where
  "new_lease e x =
     \<lparr>cl_issued_at = cb_now e,
      cl_expires_at = cb_now e + (case pc_lease_duration x of Some d \<Rightarrow> d | None \<Rightarrow> seconds 3600)\<rparr>"

definition state_name :: "remote_state \<Rightarrow> string" where
  "state_name st = (case find (\<lambda>(n, t). t = st) remote_states of Some (n, _) \<Rightarrow> n | None \<Rightarrow> [])"

text \<open>The code of a job: \<open>code\<close>, else \<open>script\<close>; an empty one does not count.\<close>

definition job_code :: "remote_job \<Rightarrow> string option" where
  "job_code j =
     (if truthy_str (rj_code j) then rj_code j else if truthy_str (rj_script j) then rj_script j else None)"

section \<open>CliColabTransport\<close>

datatype availability = AVAILABLE | UNAVAILABLE | AVAILABILITY_UNKNOWN

record cli_transport =
  ct_path :: "string option"
  ct_availability :: "availability option"
  ct_version :: "string option"
  ct_help :: "string option"

fun find_cli_in :: "(string \<Rightarrow> string option) \<Rightarrow> string list \<Rightarrow> string option" where
  "find_cli_in which [] = None"
| "find_cli_in which (n # ns) =
     (if truthy_str (which n) then which n else find_cli_in which ns)"

definition cli_init :: "(string \<Rightarrow> string option) \<Rightarrow> string option \<Rightarrow> cli_transport" where
  "cli_init which path =
     \<lparr>ct_path = (if truthy_str path then path else find_cli_in which [''colab'', ''google-colab-cli'', ''colab-cli'']),
      ct_availability = None, ct_version = None, ct_help = None\<rparr>"

definition or_text :: "string \<Rightarrow> string \<Rightarrow> string" where
  "or_text a b = (if a \<noteq> [] then a else b)"

definition probe_availability :: "colab_env \<Rightarrow> cli_transport \<Rightarrow> cli_transport" where
  "probe_availability e t =
     (if ct_path t = None then t\<lparr>ct_availability := Some UNAVAILABLE\<rparr>
      else case cb_cli e [''version''] of
          Cli_done _ out err \<Rightarrow>
            t\<lparr>ct_version := Some (strip (or_text out err)),
              ct_help := (case cb_cli e [''--help''] of Cli_done _ out err \<Rightarrow> Some (or_text out err) | _ \<Rightarrow> None),
              ct_availability := Some AVAILABLE\<rparr>
        | _ \<Rightarrow> t\<lparr>ct_availability := Some UNAVAILABLE\<rparr>)"

definition repr_opt :: "colab_env \<Rightarrow> string option \<Rightarrow> string" where
  "repr_opt e v = (case v of None \<Rightarrow> ''None'' | Some s \<Rightarrow> cb_repr e s)"

definition assert_available :: "colab_env \<Rightarrow> cli_transport \<Rightarrow> cli_transport \<times> unit colab" where
  "assert_available e t =
     (let t = (if ct_availability t = None then probe_availability e t else t)
      in (t, if ct_availability t = Some AVAILABLE then Inr ()
             else Inl (ColabCLINotFoundError (''Colab CLI not available. cli_path='' @ repr_opt e (ct_path t) @
                    ''. Install google-colab-cli and re-run probe_availability().''))))"

definition determine_classification :: "cli_transport \<Rightarrow> bool \<Rightarrow> execution_classification" where
  "determine_classification t confirmed =
     (if ct_availability t \<noteq> Some AVAILABLE then CLASS_TEST
      else if confirmed then CLASS_REAL_REMOTE else CLASS_TEST)"

definition run_cli_raw ::
  "colab_env \<Rightarrow> string list \<Rightarrow> cli_transport \<Rightarrow> cli_transport \<times> (int \<times> string \<times> string) colab" where
  "run_cli_raw e args t =
     (case assert_available e t of
        (t, Inl x) \<Rightarrow> (t, Inl x)
      | (t, Inr _) \<Rightarrow>
          (t, case cb_cli e args of
                Cli_missing \<Rightarrow> Inl (ColabCLINotFoundError (''CLI binary not found: '' @ str_opt (ct_path t)))
              | Cli_timeout \<Rightarrow> Inl (ColabCLIError ''CLI command timed out'')
              | Cli_done rc out err \<Rightarrow> Inr (rc, out, err)))"

definition session_name_of :: "string \<Rightarrow> colab_env \<Rightarrow> provision_context \<Rightarrow> string" where
  "session_name_of pre e x =
     (if truthy_str (pc_session_name x) then the (pc_session_name x) else pre @ cb_uuid e)"

definition new_session_args :: "string \<Rightarrow> provision_context \<Rightarrow> string list" where
  "new_session_args name x =
     [''new'', ''--session'', name] @
     (if truthy_str (pc_accelerator x) then [''--gpu'', the (pc_accelerator x)] else [])"

definition cli_provision ::
  "colab_env \<Rightarrow> provision_context \<Rightarrow> cli_transport \<Rightarrow> cli_transport \<times> remote_session colab" where
  "cli_provision e x t =
     (case assert_no_credentials e x of
        Inl r \<Rightarrow> (t, Inl r)
      | Inr _ \<Rightarrow>
          let name = session_name_of ''anny-'' e x
          in case run_cli_raw e (new_session_args name x) t of
              (t, Inl r) \<Rightarrow> (t, Inl r)
            | (t, Inr (rc, out, err)) \<Rightarrow>
                (t, if rc \<noteq> 0
                    then Inl (ColabCLIError (''colab new failed (exit '' @ str_int rc @ ''): '' @ strip (or_text err out)))
                    else if \<not> mentions (out @ err) ''Session READY''
                    then Inl (ColabCLIError (''Session creation did not confirm READY state. Output: '' @ cb_repr e (out @ err)))
                    else Inr \<lparr>rms_id = name, rms_provider = ''google-colab'', rms_state = CONNECTED,
                              rms_classification = determine_classification t True,
                              rms_lease = Some (new_lease e x), rms_requested = pc_accelerator x,
                              rms_observed = None, rms_metadata = []\<rparr>))"

text \<open>
  The profile an inspection returns, as far as it is ever set: the accelerator. \<open>gpu_present\<close> is
  None when nothing was read.
\<close>

record observed_profile =
  op_gpu_present :: "bool option"
  op_gpu_model :: "string option"
  op_accelerator :: "string option"
  op_accelerator_observed :: bool
  op_observed_at :: instant

definition observed_of :: "instant \<Rightarrow> string option \<Rightarrow> observed_profile" where
  "observed_of now h =
     (let gpu = (if truthy_str h then Some (h \<noteq> Some ''CPU'') else None)
      in \<lparr>op_gpu_present = gpu, op_gpu_model = (if gpu = Some True then h else None), op_accelerator = h,
          op_accelerator_observed = truthy_str h, op_observed_at = now\<rparr>)"

text \<open>Operations on a session return it updated, also when they raise.\<close>

definition cli_inspect ::
  "colab_env \<Rightarrow> remote_session \<Rightarrow> cli_transport \<Rightarrow> cli_transport \<times> remote_session \<times> observed_profile colab" where
  "cli_inspect e s t =
     (let s = check_lease (cb_now e) s
      in if rms_state s \<in> {EXPIRED, TERMINATED}
         then (t, s, Inl (Colab_raised (RuntimeError (''Cannot inspect session in state '' @ state_name (rms_state s)))))
         else case run_cli_raw e [''status'', ''--session'', rms_id s] t of
             (t, Inl r) \<Rightarrow> (t, s, Inl r)
           | (t, Inr (rc, out, err)) \<Rightarrow>
               let h = (if rc = 0 then map_option sl_hardware (first_status (text_lines (out @ err))) else None)
               in (t, s\<lparr>rms_observed := h\<rparr>, Inr (observed_of (cb_now e) h)))"

definition reported_state :: "string \<Rightarrow> remote_state \<Rightarrow> remote_state" where
  "reported_state cli st =
     (let u = map upper_char cli
      in if u \<in> {''IDLE'', ''BUSY'', ''RUNNING''} then CONNECTED
         else if u = ''TERMINATED'' then TERMINATED
         else if u = ''FAILED'' then REMOTE_FAILED
         else st)"

definition cli_health ::
  "colab_env \<Rightarrow> remote_session \<Rightarrow> cli_transport \<Rightarrow> cli_transport \<times> remote_session \<times> remote_state colab" where
  "cli_health e s t =
     (let s = check_lease (cb_now e) s
      in if rms_state s \<in> {EXPIRED, TERMINATED, REMOTE_FAILED} then (t, s, Inr (rms_state s))
         else case run_cli_raw e [''status'', ''--session'', rms_id s] t of
             (t, Inl r) \<Rightarrow> (t, s, Inl r)
           | (t, Inr (rc, out, err)) \<Rightarrow>
               let output = out @ err;
                   st = (if rc \<noteq> 0 \<or> mentions (map to_lower_char output) ''not found'' then TERMINATED
                         else reported_state
                                (case first_status (text_lines output) of Some p \<Rightarrow> sl_status p | None \<Rightarrow> ''UNKNOWN'')
                                (rms_state s))
               in (t, s\<lparr>rms_state := st\<rparr>, Inr st))"

text \<open>
  The refusal of a session that is not READY. When code goes out it is through a temporary file whose
  content the last component names with the name of the session.
\<close>

definition cli_execute ::
  "colab_env \<Rightarrow> remote_session \<Rightarrow> remote_job \<Rightarrow> cli_transport
     \<Rightarrow> cli_transport \<times> remote_session \<times> remote_job \<times> unit colab \<times> (string \<times> string) option" where
  "cli_execute e s j t =
     (let s = check_lease (cb_now e) s
      in if rms_state s = TERMINATED
         then (t, s, j, Inl (Colab_raised (RuntimeError ''Cannot execute on TERMINATED session.'')), None)
         else if rms_state s \<noteq> REMOTE_READY
         then (t, s, j, Inl (Colab_raised (RuntimeError (''Cannot execute. Session state is '' @
                 state_name (rms_state s) @ ''. Must be READY.''))), None)
         else case assert_available e t of
             (t, Inl r) \<Rightarrow> (t, s, j, Inl r, None)
           | (t, Inr _) \<Rightarrow>
               (case job_code j of
                  None \<Rightarrow> (t, s, j, Inl (Colab_raised (ValueError ''RemoteComputeJob has no executable code payload.'')), None)
                | Some c \<Rightarrow>
                    (case run_cli_raw e [''exec'', ''--session'', rms_id s, ''--file'', c] t of
                       (t, Inl r) \<Rightarrow> (t, s, j, Inl r, Some (rms_id s, c))
                     | (t, Inr (rc, out, err)) \<Rightarrow>
                         if rc \<noteq> 0
                         then let m = strip (or_text err out)
                              in (t, s, j\<lparr>rj_state := Some ''FAILED'', rj_error := Some m\<rparr>,
                                  Inl (ColabCLIError (''colab exec failed (exit '' @ str_int rc @ ''): '' @ m)),
                                  Some (rms_id s, c))
                         else (t, s, j\<lparr>rj_state := Some ''COMPLETED'', rj_stdout := Some out\<rparr>, Inr (),
                               Some (rms_id s, c)))))"

definition cli_collect ::
  "colab_env \<Rightarrow> remote_session \<Rightarrow> cli_transport \<Rightarrow> cli_transport \<times> remote_session \<times> unit colab" where
  "cli_collect e s t =
     (case assert_available e t of (t, r) \<Rightarrow> (t, check_lease (cb_now e) s, r))"

definition cli_terminate :: "colab_env \<Rightarrow> remote_session \<Rightarrow> cli_transport \<Rightarrow> cli_transport \<times> remote_session" where
  "cli_terminate e s t =
     (fst (run_cli_raw e [''stop'', ''--session'', rms_id s] t), s\<lparr>rms_state := TERMINATED\<rparr>)"

section \<open>BrowserColabTransport\<close>

text \<open>
  The bridge that runs, if any, by the number of bridges started before it. Every operation holds
  the lock of the bridge.
\<close>

record browser_transport =
  bt_bridge :: "nat option"
  bt_started :: nat

definition browser_init :: browser_transport where
  "browser_init = \<lparr>bt_bridge = None, bt_started = 0\<rparr>"

definition browser_session ::
  "colab_env \<Rightarrow> provision_context \<Rightarrow> remote_state \<Rightarrow> execution_classification \<Rightarrow> string option
     \<Rightarrow> (string, string) dict \<Rightarrow> remote_session" where
  "browser_session e x st cls acc meta =
     \<lparr>rms_id = session_name_of ''anny-browser-'' e x, rms_provider = ''google-colab'', rms_state = st,
      rms_classification = cls, rms_lease = Some (new_lease e x), rms_requested = acc, rms_observed = None,
      rms_metadata = meta\<rparr>"

definition failed_session :: "colab_env \<Rightarrow> provision_context \<Rightarrow> string \<Rightarrow> remote_session" where
  "failed_session e x m = browser_session e x REMOTE_FAILED CLASS_TEST None [(''error'', m)]"

text \<open>What the browser tool answered: the reason it cannot be used, if there is one.\<close>

definition attach_error :: "string + tool_reply \<Rightarrow> string option" where
  "attach_error r =
     (case r of
        Inl m \<Rightarrow> Some m
      | Inr t \<Rightarrow>
          let text = (case tr_text t of None \<Rightarrow> [] | Some s \<Rightarrow> s)
          in if tr_error t \<or> text = ''false'' then Some (''Connection timeout or denied: '' @ text) else None)"

definition browser_provision ::
  "colab_env \<Rightarrow> provision_context \<Rightarrow> browser_transport \<Rightarrow> browser_transport \<times> remote_session colab" where
  "browser_provision e x t =
     (case assert_no_credentials e x of
        Inl r \<Rightarrow> (t, Inl r)
      | Inr _ \<Rightarrow>
          let t = \<lparr>bt_bridge = Some (bt_started t), bt_started = Suc (bt_started t)\<rparr>;
              off = t\<lparr>bt_bridge := None\<rparr>
          in case cb_start e of
              Some m \<Rightarrow> (off, Inr (failed_session e x (''MCP Start Failed: '' @ m)))
            | None \<Rightarrow>
                (case attach_error (cb_open e) of
                   Some m \<Rightarrow> (off, Inr (failed_session e x (''Browser attach failed: '' @ m)))
                 | None \<Rightarrow>
                     (t, Inr (browser_session e x REMOTE_READY CLASS_REAL_REMOTE (pc_accelerator x)
                        [(''transport'', ''browser''), (''browser_state'', ''ATTACHED'')]))))"

definition browser_inspect :: "colab_env \<Rightarrow> remote_session \<Rightarrow> remote_session \<times> observed_profile" where
  "browser_inspect e s = (check_lease (cb_now e) s, observed_of (cb_now e) None)"

definition browser_health ::
  "colab_env \<Rightarrow> remote_session \<Rightarrow> browser_transport \<Rightarrow> remote_session \<times> remote_state" where
  "browser_health e s t =
     (let s = check_lease (cb_now e) s
      in if rms_state s \<in> {EXPIRED, TERMINATED, REMOTE_FAILED} then (s, rms_state s)
         else let st = (case bt_bridge t of
                          None \<Rightarrow> TERMINATED
                        | Some _ \<Rightarrow> (case cb_list e of Inl _ \<Rightarrow> TERMINATED | Inr _ \<Rightarrow> REMOTE_READY))
              in (s\<lparr>rms_state := st\<rparr>, st))"

definition exec_tools :: "string list" where
  "exec_tools = [''python'', ''run_python'', ''execute_python'', ''execute_cell'']"

definition call_failed :: "string \<Rightarrow> remote_job \<Rightarrow> remote_job \<times> unit colab" where
  "call_failed m j =
     (j\<lparr>rj_status := ''FAILED'', rj_error := Some m\<rparr>, Inl (ColabCLIError (''Colab MCP execution failed: '' @ m)))"

definition call_ended :: "tool_reply \<Rightarrow> remote_job \<Rightarrow> remote_job" where
  "call_ended r j =
     (let text = (case tr_text r of None \<Rightarrow> [] | Some s \<Rightarrow> s)
      in if tr_error r then j\<lparr>rj_status := ''FAILED'', rj_stderr := Some text\<rparr>
         else j\<lparr>rj_status := ''COMPLETED'', rj_stdout := Some text\<rparr>)"

text \<open>The last component: the bridge that was handed the code, and the code.\<close>

definition browser_execute ::
  "colab_env \<Rightarrow> remote_session \<Rightarrow> remote_job \<Rightarrow> browser_transport
     \<Rightarrow> remote_session \<times> remote_job \<times> unit colab \<times> (nat \<times> string) option" where
  "browser_execute e s j t =
     (let s = check_lease (cb_now e) s; no = \<lambda>x. (s, j, Inl (Colab_raised x), None)
      in if rms_state s \<noteq> REMOTE_READY
         then no (RuntimeError (''Cannot execute on browser session in state: RemoteSessionState.'' @ state_name (rms_state s)))
         else case bt_bridge t of
             None \<Rightarrow> no (RuntimeError ''MCP bridge is not active.'')
           | Some b \<Rightarrow>
               (case job_code j of
                  None \<Rightarrow> no (ValueError ''RemoteComputeJob has no executable code payload.'')
                | Some c \<Rightarrow>
                    (case cb_list e of
                       Inl x \<Rightarrow> no x
                     | Inr names \<Rightarrow>
                         (case find (\<lambda>n. n \<in> set names) exec_tools of
                            None \<Rightarrow> no (RuntimeError (''No execution tool found in MCP session. Available tools: '' @
                                            cb_set_repr e names))
                          | Some tool \<Rightarrow>
                              (case cb_call e tool c of
                                 Inl m \<Rightarrow> (case call_failed m j of (j', r) \<Rightarrow> (s, j', r, Some (b, c)))
                               | Inr r \<Rightarrow> (s, call_ended r j, Inr (), Some (b, c)))))))"

definition browser_collect :: "colab_env \<Rightarrow> remote_session \<Rightarrow> remote_session" where
  "browser_collect e s = check_lease (cb_now e) s"

definition browser_terminate :: "remote_session \<Rightarrow> browser_transport \<Rightarrow> browser_transport \<times> remote_session" where
  "browser_terminate s t = (t\<lparr>bt_bridge := None\<rparr>, s\<lparr>rms_state := TERMINATED\<rparr>)"

section \<open>ColabComputeProvider\<close>

text \<open>
  What left the provider: code for a session, by its object, over the command line or through a
  bridge, and when.
\<close>

datatype channel = Command_line | Bridge_channel nat

record dispatch =
  di_session :: nat
  di_channel :: channel
  di_code :: string
  di_at :: instant

record colab_provider =
  cp_cli :: cli_transport
  cp_browser :: browser_transport
  cp_objects :: "remote_session list"
  cp_sessions :: "(string, nat) dict"
  cp_sent :: "dispatch list"

definition provider_start :: "(string \<Rightarrow> string option) \<Rightarrow> string option \<Rightarrow> colab_provider" where
  "provider_start which path =
     \<lparr>cp_cli = cli_init which path, cp_browser = browser_init, cp_objects = [], cp_sessions = [], cp_sent = []\<rparr>"

definition uses_browser :: "remote_session \<Rightarrow> bool" where
  "uses_browser s \<longleftrightarrow> dict_get (rms_metadata s) ''transport'' = Some ''browser''"

definition provider_provision ::
  "colab_env \<Rightarrow> provision_context \<Rightarrow> colab_provider \<Rightarrow> colab_provider \<times> nat colab" where
  "provider_provision e x p =
     (let (p, r) = (if pc_transport_type x = Some ''browser''
                    then case browser_provision e x (cp_browser p) of (t, r) \<Rightarrow> (p\<lparr>cp_browser := t\<rparr>, r)
                    else case cli_provision e x (cp_cli p) of (t, r) \<Rightarrow> (p\<lparr>cp_cli := t\<rparr>, r))
      in case r of
          Inl m \<Rightarrow> (p, Inl m)
        | Inr s \<Rightarrow>
            let i = length (cp_objects p)
            in (p\<lparr>cp_objects := cp_objects p @ [s], cp_sessions := dict_set (cp_sessions p) (rms_id s) i\<rparr>, Inr i))"

text \<open>The caller's session object \<open>i\<close> after an operation.\<close>

definition put_session :: "nat \<Rightarrow> remote_session \<Rightarrow> colab_provider \<Rightarrow> colab_provider" where
  "put_session i s p = p\<lparr>cp_objects := (cp_objects p)[i := s]\<rparr>"

definition provider_inspect ::
  "colab_env \<Rightarrow> nat \<Rightarrow> colab_provider \<Rightarrow> colab_provider \<times> observed_profile colab" where
  "provider_inspect e i p =
     (let s = cp_objects p ! i
      in if uses_browser s
         then case browser_inspect e s of (s', r) \<Rightarrow> (put_session i s' p, Inr r)
         else case cli_inspect e s (cp_cli p) of (t, s', r) \<Rightarrow> (put_session i s' (p\<lparr>cp_cli := t\<rparr>), r))"

definition provider_health :: "colab_env \<Rightarrow> nat \<Rightarrow> colab_provider \<Rightarrow> colab_provider \<times> remote_state colab" where
  "provider_health e i p =
     (let s = cp_objects p ! i
      in if uses_browser s
         then case browser_health e s (cp_browser p) of (s', r) \<Rightarrow> (put_session i s' p, Inr r)
         else case cli_health e s (cp_cli p) of (t, s', r) \<Rightarrow> (put_session i s' (p\<lparr>cp_cli := t\<rparr>), r))"

definition provider_execute ::
  "colab_env \<Rightarrow> nat \<Rightarrow> remote_job \<Rightarrow> colab_provider \<Rightarrow> colab_provider \<times> remote_job \<times> unit colab" where
  "provider_execute e i j p =
     (let s = cp_objects p ! i;
          send = \<lambda>ch c p. p\<lparr>cp_sent := cp_sent p @ [\<lparr>di_session = i, di_channel = ch, di_code = c, di_at = cb_now e\<rparr>]\<rparr>
      in if uses_browser s
         then case browser_execute e s j (cp_browser p) of
                (s', j', r, out) \<Rightarrow>
                  ((case out of None \<Rightarrow> put_session i s' p
                    | Some (b, c) \<Rightarrow> send (Bridge_channel b) c (put_session i s' p)), j', r)
         else case cli_execute e s j (cp_cli p) of
                (t, s', j', r, out) \<Rightarrow>
                  ((case out of None \<Rightarrow> put_session i s' (p\<lparr>cp_cli := t\<rparr>)
                    | Some (_, c) \<Rightarrow> send Command_line c (put_session i s' (p\<lparr>cp_cli := t\<rparr>))), j', r))"

definition provider_collect :: "colab_env \<Rightarrow> nat \<Rightarrow> colab_provider \<Rightarrow> colab_provider" where
  "provider_collect e i p =
     (let s = cp_objects p ! i
      in if uses_browser s then put_session i (browser_collect e s) p
         else case cli_collect e s (cp_cli p) of (t, s', _) \<Rightarrow> put_session i s' (p\<lparr>cp_cli := t\<rparr>))"

definition provider_terminate :: "colab_env \<Rightarrow> nat \<Rightarrow> colab_provider \<Rightarrow> colab_provider" where
  "provider_terminate e i p =
     (let s = cp_objects p ! i
      in if uses_browser s
         then case browser_terminate s (cp_browser p) of (t, s') \<Rightarrow> put_session i s' (p\<lparr>cp_browser := t\<rparr>)
         else case cli_terminate e s (cp_cli p) of (t, s') \<Rightarrow> put_session i s' (p\<lparr>cp_cli := t\<rparr>))"

datatype provider_op =
    Provision provision_context
  | Inspect nat
  | Health nat
  | Execute nat remote_job
  | Collect nat
  | Terminate nat

text \<open>An operation names a session the provider handed out.\<close>

fun op_session :: "provider_op \<Rightarrow> nat option" where
  "op_session (Provision _) = None"
| "op_session (Inspect i) = Some i"
| "op_session (Health i) = Some i"
| "op_session (Execute i _) = Some i"
| "op_session (Collect i) = Some i"
| "op_session (Terminate i) = Some i"

fun provider_apply :: "colab_env \<Rightarrow> provider_op \<Rightarrow> colab_provider \<Rightarrow> colab_provider" where
  "provider_apply e (Provision x) p = fst (provider_provision e x p)"
| "provider_apply e (Inspect i) p = fst (provider_inspect e i p)"
| "provider_apply e (Health i) p = fst (provider_health e i p)"
| "provider_apply e (Execute i j) p = fst (provider_execute e i j p)"
| "provider_apply e (Collect i) p = provider_collect e i p"
| "provider_apply e (Terminate i) p = provider_terminate e i p"

inductive provider_step :: "colab_provider \<Rightarrow> colab_provider \<Rightarrow> bool" where
  operate: "(case op_session op of None \<Rightarrow> True | Some i \<Rightarrow> i < length (cp_objects p)) \<Longrightarrow>
     provider_step p (provider_apply e op p)"

section \<open>How a session can evolve\<close>

definition dead :: "remote_session \<Rightarrow> bool" where
  "dead s \<longleftrightarrow> rms_state s \<in> {EXPIRED, TERMINATED, REMOTE_FAILED}"

definition evolves :: "remote_session \<Rightarrow> remote_session \<Rightarrow> bool" where
  "evolves s s' \<longleftrightarrow>
     rms_lease s' = rms_lease s \<and> rms_metadata s' = rms_metadata s \<and> (dead s \<longrightarrow> dead s') \<and>
     (rms_state s' = REMOTE_READY \<longrightarrow> uses_browser s \<or> rms_state s = REMOTE_READY)"

lemma evolves_refl [simp]: "evolves s s"
  by (simp add: evolves_def)

lemma evolves_trans: "evolves a b \<Longrightarrow> evolves b c \<Longrightarrow> evolves a c"
  by (auto simp: evolves_def uses_browser_def)

lemma evolves_lease [simp]: "evolves s (check_lease now s)"
  by (auto simp: evolves_def check_lease_def dead_def split: option.splits)

lemma lease_same [simp]:
  "rms_lease (check_lease now s) = rms_lease s" "rms_metadata (check_lease now s) = rms_metadata s"
  by (auto simp: check_lease_def split: option.splits)

lemma evolves_observed [simp]: "evolves s (check_lease now s\<lparr>rms_observed := h\<rparr>)"
  by (auto simp: evolves_def check_lease_def dead_def split: option.splits)

lemma dead_lease: "dead s \<Longrightarrow> dead (check_lease now s)"
  by (auto simp: dead_def check_lease_def split: option.splits)

lemma evolves_inspect: "evolves s (fst (snd (cli_inspect e s t)))"
  unfolding cli_inspect_def Let_def by (auto split: prod.splits sum.splits)

lemma reported_ready: "reported_state u st = REMOTE_READY \<Longrightarrow> st = REMOTE_READY"
  by (auto simp: reported_state_def Let_def split: if_splits)

lemma evolves_state:
  assumes "\<not> dead (check_lease now s)" and "st = REMOTE_READY \<Longrightarrow> uses_browser s \<or> rms_state (check_lease now s) = REMOTE_READY"
  shows "evolves s (check_lease now s\<lparr>rms_state := st\<rparr>)"
proof -
  have "\<not> dead s" using assms(1) dead_lease by blast
  moreover have "rms_state (check_lease now s) = REMOTE_READY \<Longrightarrow> rms_state s = REMOTE_READY"
    by (auto simp: check_lease_def split: option.splits if_splits)
  ultimately show ?thesis using assms(2) by (auto simp: evolves_def)
qed

lemma evolves_cli_health: "evolves s (fst (snd (cli_health e s t)))"
proof -
  have "reported_state u (rms_state (check_lease (cb_now e) s)) = REMOTE_READY \<Longrightarrow>
      rms_state (check_lease (cb_now e) s) = REMOTE_READY" for u
    by (rule reported_ready)
  then show ?thesis
    unfolding cli_health_def Let_def
    by (auto simp: dead_def split: prod.splits sum.splits intro!: evolves_state)
qed

lemma evolves_cli_execute: "evolves s (fst (snd (cli_execute e s j t)))"
  unfolding cli_execute_def Let_def by (auto split: prod.splits sum.splits option.splits)

lemma evolves_browser_health: "uses_browser s \<Longrightarrow> evolves s (fst (browser_health e s t))"
  unfolding browser_health_def Let_def by (auto simp: dead_def intro!: evolves_state)

lemma evolves_browser_execute: "evolves s (fst (browser_execute e s j t))"
  unfolding browser_execute_def Let_def call_failed_def
  by (auto split: sum.splits option.splits)

lemma evolves_terminated [simp]: "evolves s (s\<lparr>rms_state := TERMINATED\<rparr>)"
  by (simp add: evolves_def dead_def)

text \<open>Code goes out only for a session that is READY and whose lease has not passed.\<close>

lemma lease_ready:
  assumes "rms_state (check_lease now s) = REMOTE_READY"
  shows "rms_state s = REMOTE_READY" "rms_lease s = Some l \<Longrightarrow> now \<le> cl_expires_at l"
  using assms by (auto simp: check_lease_def split: option.splits if_splits)

lemma cli_execute_sends:
  "cli_execute e s j t = (t', s', j', r, Some m) \<Longrightarrow> rms_state (check_lease (cb_now e) s) = REMOTE_READY"
  unfolding cli_execute_def Let_def by (auto split: prod.splits sum.splits option.splits if_splits)

lemma browser_execute_sends:
  assumes "browser_execute e s j t = (s', j', r, Some (b, c))"
  shows "rms_state (check_lease (cb_now e) s) = REMOTE_READY \<and> bt_bridge t = Some b \<and> job_code j = Some c"
  using assms unfolding browser_execute_def Let_def call_failed_def
  by (auto split: sum.splits option.splits if_splits)

section \<open>The provider over time\<close>

definition colab_inv :: "colab_provider \<Rightarrow> bool" where
  "colab_inv p \<longleftrightarrow>
     (\<forall>s \<in> set (cp_objects p). rms_lease s \<noteq> None \<and> (rms_state s = REMOTE_READY \<longrightarrow> uses_browser s)) \<and>
     (\<forall>d \<in> set (cp_sent p). di_session d < length (cp_objects p) \<and>
        uses_browser (cp_objects p ! di_session d) \<and> (\<exists>b. di_channel d = Bridge_channel b) \<and>
        di_at d \<le> cl_expires_at (the (rms_lease (cp_objects p ! di_session d))))"

text \<open>What an operation does to the sessions and to what was sent.\<close>

definition provider_effect :: "provider_op \<Rightarrow> instant \<Rightarrow> colab_provider \<Rightarrow> colab_provider \<Rightarrow> bool" where
  "provider_effect op now p q \<longleftrightarrow>
     (case op_session op of
        None \<Rightarrow> cp_sent q = cp_sent p \<and>
          (\<exists>ss. cp_objects q = cp_objects p @ ss \<and> (\<forall>s\<in>set ss. rms_lease s \<noteq> None \<and> (rms_state s = REMOTE_READY \<longrightarrow> uses_browser s)))
      | Some i \<Rightarrow> (\<exists>s. cp_objects q = (cp_objects p)[i := s] \<and> evolves (cp_objects p ! i) s) \<and>
          (cp_sent q = cp_sent p \<or>
           (\<exists>ch c. cp_sent q = cp_sent p @ [\<lparr>di_session = i, di_channel = ch, di_code = c, di_at = now\<rparr>] \<and>
              rms_state (check_lease now (cp_objects p ! i)) = REMOTE_READY \<and>
              (uses_browser (cp_objects p ! i) \<longrightarrow> (\<exists>b. ch = Bridge_channel b)))))"

lemma provision_effect: "provider_effect (Provision x) now p (fst (provider_provision e x p))"
  unfolding provider_effect_def provider_provision_def browser_provision_def cli_provision_def Let_def
  by (auto simp: browser_session_def failed_session_def uses_browser_def split: prod.splits sum.splits option.splits)

lemma put_effect:
  assumes "evolves (cp_objects p ! i) s" and "op_session op = Some i"
    and "cp_objects p' = cp_objects p" and "cp_sent p' = cp_sent p"
  shows "provider_effect op now p (put_session i s p')"
  using assms by (auto simp: provider_effect_def put_session_def)

lemma inspect_effect: "provider_effect (Inspect i) now p (fst (provider_inspect e i p))"
  using evolves_inspect [of "cp_objects p ! i" e "cp_cli p"]
  by (auto simp: provider_inspect_def browser_inspect_def Let_def split: prod.splits intro!: put_effect)

lemma health_effect: "provider_effect (Health i) now p (fst (provider_health e i p))"
  using evolves_cli_health [of "cp_objects p ! i" e "cp_cli p"]
    evolves_browser_health [of "cp_objects p ! i" e "cp_browser p"]
  by (auto simp: provider_health_def Let_def split: prod.splits intro!: put_effect)

lemma collect_effect: "provider_effect (Collect i) now p (provider_collect e i p)"
  by (auto simp: provider_collect_def browser_collect_def cli_collect_def Let_def split: prod.splits intro!: put_effect)

lemma terminate_effect: "provider_effect (Terminate i) now p (provider_terminate e i p)"
  by (auto simp: provider_terminate_def browser_terminate_def cli_terminate_def Let_def split: prod.splits intro!: put_effect)

lemma execute_effect: "provider_effect (Execute i j) (cb_now e) p (fst (provider_execute e i j p))"
proof (cases "uses_browser (cp_objects p ! i)")
  case True
  obtain s' j' r out where x: "browser_execute e (cp_objects p ! i) j (cp_browser p) = (s', j', r, out)"
    by (metis prod_cases4)
  have "evolves (cp_objects p ! i) s'"
    using evolves_browser_execute [of "cp_objects p ! i" e j "cp_browser p"] x by simp
  then show ?thesis
    using True x browser_execute_sends [of e "cp_objects p ! i" j "cp_browser p" s' j' r]
    by (cases out) (auto simp: provider_execute_def provider_effect_def put_session_def Let_def)
next
  case False
  obtain t s' j' r out where x: "cli_execute e (cp_objects p ! i) j (cp_cli p) = (t, s', j', r, out)"
    by (metis prod_cases5)
  have "evolves (cp_objects p ! i) s'"
    using evolves_cli_execute [of "cp_objects p ! i" e j "cp_cli p"] x by simp
  then show ?thesis
    using False x cli_execute_sends [of e "cp_objects p ! i" j "cp_cli p" t s' j' r]
    by (cases out) (auto simp: provider_execute_def provider_effect_def put_session_def Let_def)
qed

lemma apply_effect: "provider_effect op (cb_now e) p (provider_apply e op p)"
  by (cases op)
     (simp_all add: provision_effect inspect_effect health_effect collect_effect terminate_effect execute_effect)

lemma dispatch_ready:
  assumes "rms_state (check_lease now s) = REMOTE_READY" and "rms_lease s \<noteq> None"
  shows "rms_state s = REMOTE_READY \<and> \<not> dead s \<and> now \<le> cl_expires_at (the (rms_lease s))"
  using lease_ready [OF assms(1)] assms(2) by (auto simp: dead_def)

text \<open>Effects keep sessions in place: what changes is known session by session.\<close>

lemma effect_session:
  assumes "provider_effect op now p q" and "k < length (cp_objects p)"
    and "case op_session op of None \<Rightarrow> True | Some i \<Rightarrow> i < length (cp_objects p)"
  shows "k < length (cp_objects q)" "evolves (cp_objects p ! k) (cp_objects q ! k)"
  using assms by (auto simp: provider_effect_def nth_append nth_list_update split: option.splits)

lemma colab_inv_effect:
  assumes "colab_inv p" and "provider_effect op now p q"
    and "case op_session op of None \<Rightarrow> True | Some i \<Rightarrow> i < length (cp_objects p)"
  shows "colab_inv q"
proof (cases "op_session op")
  case None
  then show ?thesis using assms
    by (auto simp: provider_effect_def colab_inv_def nth_append)
next
  case (Some i)
  then have i: "i < length (cp_objects p)" using assms(3) by simp
  obtain s where q: "cp_objects q = (cp_objects p)[i := s]" and ev: "evolves (cp_objects p ! i) s"
    using assms(2) Some by (auto simp: provider_effect_def)
  have good: "rms_lease x \<noteq> None \<and> (rms_state x = REMOTE_READY \<longrightarrow> uses_browser x)" if "x \<in> set (cp_objects p)" for x
    using assms(1) that by (auto simp: colab_inv_def)
  have s: "rms_lease s \<noteq> None \<and> (rms_state s = REMOTE_READY \<longrightarrow> uses_browser s)"
    using ev good [OF nth_mem [OF i]] by (auto simp: evolves_def uses_browser_def)
  have same: "uses_browser (cp_objects q ! k) = uses_browser (cp_objects p ! k)"
      "rms_lease (cp_objects q ! k) = rms_lease (cp_objects p ! k)" for k
    using ev q i by (simp_all add: evolves_def uses_browser_def nth_list_update)
  have "di_session d < length (cp_objects p) \<and> uses_browser (cp_objects p ! di_session d) \<and>
      (\<exists>b. di_channel d = Bridge_channel b) \<and>
      di_at d \<le> cl_expires_at (the (rms_lease (cp_objects p ! di_session d)))" if "d \<in> set (cp_sent q)" for d
  proof (cases "d \<in> set (cp_sent p)")
    case True
    then show ?thesis using assms(1) by (auto simp: colab_inv_def)
  next
    case False
    then have d: "di_session d = i" "di_at d = now" "rms_state (check_lease now (cp_objects p ! i)) = REMOTE_READY"
        "uses_browser (cp_objects p ! i) \<longrightarrow> (\<exists>b. di_channel d = Bridge_channel b)"
      using assms(2) Some that by (auto simp: provider_effect_def)
    then show ?thesis
      using dispatch_ready [OF d(3)] good [OF nth_mem [OF i]] i by auto
  qed
  moreover have "set (cp_objects q) \<subseteq> insert s (set (cp_objects p))"
    unfolding q by (rule set_update_subset_insert)
  ultimately show ?thesis using good s q same by (auto simp: colab_inv_def)
qed

lemma colab_inv_step: "provider_step p q \<Longrightarrow> colab_inv p \<Longrightarrow> colab_inv q"
  by (induction rule: provider_step.induct) (rule colab_inv_effect [OF _ apply_effect])

lemma colab_inv_start: "colab_inv (provider_start which path)"
  by (simp add: colab_inv_def provider_start_def)

lemma colab_inv_reachable: "provider_step\<^sup>*\<^sup>* p q \<Longrightarrow> colab_inv p \<Longrightarrow> colab_inv q"
  by (induction rule: rtranclp_induct) (auto intro: colab_inv_step)

text \<open>A dead session stays dead and gets no more code.\<close>

definition sent_to :: "nat \<Rightarrow> colab_provider \<Rightarrow> dispatch list" where
  "sent_to i p = filter (\<lambda>d. di_session d = i) (cp_sent p)"

definition dead_at :: "nat \<Rightarrow> colab_provider \<Rightarrow> bool" where
  "dead_at i p \<longleftrightarrow> i < length (cp_objects p) \<and> dead (cp_objects p ! i)"

lemma dead_step:
  assumes "provider_step p q" and "colab_inv p" and "dead_at i p"
  shows "dead_at i q \<and> sent_to i q = sent_to i p"
  using assms(1)
proof cases
  case (operate op e)
  note eff = apply_effect [of op e p, folded operate(1)]
  have i: "i < length (cp_objects p)" and d: "dead (cp_objects p ! i)" using assms(3) by (simp_all add: dead_at_def)
  have "dead_at i q"
    using effect_session [OF eff i operate(2)] d by (auto simp: dead_at_def evolves_def)
  moreover have "sent_to i q = sent_to i p"
  proof (cases "op_session op = Some i")
    case True
    have "rms_state (check_lease (cb_now e) (cp_objects p ! i)) \<noteq> REMOTE_READY"
      using dead_lease [OF d, of "cb_now e"] by (auto simp: dead_def)
    then show ?thesis using eff True by (auto simp: provider_effect_def sent_to_def)
  next
    case False
    then show ?thesis using eff by (auto simp: provider_effect_def sent_to_def split: option.splits)
  qed
  ultimately show ?thesis by simp
qed

lemma dead_forever:
  assumes "provider_step\<^sup>*\<^sup>* p q" and "colab_inv p" and "dead_at i p"
  shows "dead_at i q \<and> sent_to i q = sent_to i p"
  using assms
proof (induction rule: rtranclp_induct)
  case (step q r)
  then show ?case using dead_step [of q r i] colab_inv_reachable [of p q] by auto
qed simp

section \<open>Properties\<close>

text \<open>
  C34. Whatever the command line tool and the bridge answer, in any order of operations: code leaves
  the provider only over a bridge, for a session of the browser transport, within its lease; once a
  session is expired, terminated or failed it stays so and no code is sent for it again; and a context
  with a credential in it provisions nothing.
\<close>

theorem colab_code_confined:
  assumes "provider_step\<^sup>*\<^sup>* (provider_start which path) p" and "provider_step\<^sup>*\<^sup>* p q"
  shows "(\<forall>d \<in> set (cp_sent q).
            di_session d < length (cp_objects q) \<and> uses_browser (cp_objects q ! di_session d) \<and>
            (\<exists>b. di_channel d = Bridge_channel b) \<and>
            di_at d \<le> cl_expires_at (the (rms_lease (cp_objects q ! di_session d)))) \<and>
         (\<forall>i. dead_at i p \<longrightarrow> dead_at i q \<and> sent_to i q = sent_to i p) \<and>
         (\<forall>e x. smuggled x \<noteq> [] \<longrightarrow> (\<exists>m. provider_provision e x q = (q, Inl m)))"
proof (intro conjI allI impI)
  have p: "colab_inv p" using assms(1) colab_inv_start by (rule colab_inv_reachable)
  then have q: "colab_inv q" using colab_inv_reachable [OF assms(2)] by blast
  then show "\<forall>d \<in> set (cp_sent q).
            di_session d < length (cp_objects q) \<and> uses_browser (cp_objects q ! di_session d) \<and>
            (\<exists>b. di_channel d = Bridge_channel b) \<and>
            di_at d \<le> cl_expires_at (the (rms_lease (cp_objects q ! di_session d)))"
    by (simp add: colab_inv_def)
  fix i assume "dead_at i p"
  then show "dead_at i q" "sent_to i q = sent_to i p" using dead_forever [OF assms(2) p] by simp_all
next
  fix e and x :: provision_context
  assume "smuggled x \<noteq> []"
  then show "\<exists>m. provider_provision e x q = (q, Inl m)"
    by (auto simp: provider_provision_def browser_provision_def cli_provision_def assert_no_credentials_def Let_def)
qed

definition demo_colab_env :: colab_env where
  "demo_colab_env =
     \<lparr>cb_now = 5, cb_uuid = ''u1'', cb_set_repr = concat, cb_repr = quoted, cb_cli = (\<lambda>_. Cli_done 0 ''Session READY'' []),
      cb_start = None, cb_open = Inr \<lparr>tr_text = Some ''true'', tr_error = False\<rparr>, cb_list = Inr [''run_python''],
      cb_call = (\<lambda>_ _. Inr \<lparr>tr_text = Some ''ok'', tr_error = False\<rparr>)\<rparr>"

definition demo_colab_context :: "string \<Rightarrow> provision_context" where
  "demo_colab_context transport =
     \<lparr>pc_keys = [''transport_type''], pc_session_name = None, pc_accelerator = None, pc_lease_duration = None,
      pc_transport_type = Some transport\<rparr>"

definition demo_remote_job :: remote_job where
  "demo_remote_job =
     \<lparr>rj_id = ''j'', rj_code = Some ''print(1)'', rj_script = None, rj_status = ''PENDING'', rj_state = None,
      rj_stdout = None, rj_stderr = None, rj_error = None\<rparr>"

definition demo_run :: "provider_op list \<Rightarrow> colab_provider" where
  "demo_run ops = foldl (\<lambda>p op. provider_apply demo_colab_env op p) (provider_start (\<lambda>_. None) None) ops"

lemma demo_run_steps:
  "(case op_session op of None \<Rightarrow> True | Some i \<Rightarrow> i < length (cp_objects p)) \<Longrightarrow>
     provider_step\<^sup>*\<^sup>* s p \<Longrightarrow> provider_step\<^sup>*\<^sup>* s (provider_apply e op p)"
  by (auto intro: rtranclp.rtrancl_into_rtrancl operate)

lemma demo_sent:
  "map di_code (cp_sent (demo_run [Provision (demo_colab_context ''browser''), Execute 0 demo_remote_job])) = [''print(1)'']"
  "length (cp_objects (demo_run [Provision (demo_colab_context ''browser'')])) = 1"
  "length (cp_objects (demo_run [Provision (demo_colab_context ''browser''), Execute 0 demo_remote_job])) = 1"
  "dead_at 0 (demo_run [Provision (demo_colab_context ''browser''), Execute 0 demo_remote_job, Terminate 0])"
  by code_simp+

lemma demo_reachable:
  "provider_step\<^sup>*\<^sup>* (provider_start (\<lambda>_. None) None)
     (demo_run [Provision (demo_colab_context ''browser''), Execute 0 demo_remote_job, Terminate 0])"
proof -
  have snoc: "demo_run (ops @ [op]) = provider_apply demo_colab_env op (demo_run ops)" for ops op
    by (simp add: demo_run_def)
  have 1: "provider_step\<^sup>*\<^sup>* (provider_start (\<lambda>_. None) None) (demo_run [Provision (demo_colab_context ''browser'')])"
    unfolding demo_run_def foldl.simps by (intro r_into_rtranclp operate) simp
  have 2: "provider_step\<^sup>*\<^sup>* (provider_start (\<lambda>_. None) None)
      (demo_run ([Provision (demo_colab_context ''browser'')] @ [Execute 0 demo_remote_job]))"
    unfolding snoc by (rule demo_run_steps [OF _ 1]) (simp add: demo_sent)
  have "provider_step\<^sup>*\<^sup>* (provider_start (\<lambda>_. None) None)
      (demo_run (([Provision (demo_colab_context ''browser'')] @ [Execute 0 demo_remote_job]) @ [Terminate 0]))"
    unfolding snoc [of "[Provision (demo_colab_context ''browser'')] @ [Execute 0 demo_remote_job]"]
    by (rule demo_run_steps [OF _ 2]) (simp add: demo_sent)
  then show ?thesis by simp
qed

theorem colab_code_confined_witness:
  "dead_at 0 (demo_run [Provision (demo_colab_context ''browser''), Execute 0 demo_remote_job, Terminate 0]) \<and>
   sent_to 0 (provider_apply demo_colab_env (Execute 0 demo_remote_job)
      (demo_run [Provision (demo_colab_context ''browser''), Execute 0 demo_remote_job, Terminate 0])) =
   sent_to 0 (demo_run [Provision (demo_colab_context ''browser''), Execute 0 demo_remote_job, Terminate 0])"
proof -
  let ?p = "demo_run [Provision (demo_colab_context ''browser''), Execute 0 demo_remote_job, Terminate 0]"
  have d: "dead_at 0 ?p" by (rule demo_sent)
  then have "provider_step\<^sup>*\<^sup>* ?p (provider_apply demo_colab_env (Execute 0 demo_remote_job) ?p)"
    by (intro r_into_rtranclp operate) (simp add: dead_at_def)
  from colab_code_confined [OF demo_reachable this] d show ?thesis by simp
qed

text \<open>
  No operation makes a session of the command line READY, so none of them ever executes anything.
\<close>

lemma cli_session_never_executes:
  assumes "provider_step\<^sup>*\<^sup>* (provider_start which path) p" and "i < length (cp_objects p)"
    and "\<not> uses_browser (cp_objects p ! i)"
  shows "\<exists>m. snd (snd (provider_execute e i j p)) = Inl m \<and> cp_sent (fst (provider_execute e i j p)) = cp_sent p"
proof -
  have "colab_inv p" using assms(1) colab_inv_start by (rule colab_inv_reachable)
  then have "rms_state (cp_objects p ! i) \<noteq> REMOTE_READY"
    using assms(2,3) by (auto simp: colab_inv_def)
  then have "rms_state (check_lease (cb_now e) (cp_objects p ! i)) \<noteq> REMOTE_READY"
    using lease_ready(1) by blast
  then show ?thesis
    using assms(3) by (auto simp: provider_execute_def cli_execute_def put_session_def Let_def)
qed

text \<open>
  The browser transport has one bridge for all its sessions: after a second session was opened, the
  code of the first goes through the bridge of the second.
\<close>

lemma code_reaches_other_bridge:
  "map (\<lambda>d. (di_session d, di_channel d, di_code d))
     (cp_sent (demo_run [Provision (demo_colab_context ''browser''), Provision (demo_colab_context ''browser''),
        Execute 0 demo_remote_job])) = [(0, Bridge_channel 1, ''print(1)'')]"
  by code_simp

end
