(* ===== verification/Broker.thy ===== *)
theory Broker
  imports Bootstrap
begin

text \<open>
  The browser broker (runtime/browser/broker_server.py): validation of what clients send, the Chrome
  process, requests over the DevTools protocol, and the operations on the page. The page and the
  protocol are arguments: the replies to the numbered requests. A page script is known by its name
  and the values put into it; the JavaScript itself is not modelled.
\<close>

section \<open>Validation\<close>

definition allowed_schemes :: "string list" where
  "allowed_schemes = [''http://'', ''https://'', ''about:'']"

definition repr_tuple :: "string list \<Rightarrow> string" where
  "repr_tuple ss = ''('' @ concat (map (\<lambda>(i, s). (if i = 0 then [] else '', '') @ quoted s) (enumerate 0 ss)) @ '')''"

text \<open>The forbidden characters with their \<open>repr\<close>.\<close>

definition forbidden_in_url :: "(char \<times> string) list" where
  "forbidden_in_url =
    [(CHR 0x0A, quoted [CHR 0x5C, CHR ''n'']), (CHR 0x0D, quoted [CHR 0x5C, CHR ''r'']),
     (CHR 0x00, quoted ([CHR 0x5C] @ ''x00'')), (CHR 0x60, quoted [CHR 0x60]), (CHR ''$'', quoted ''$''),
     (CHR '';'', quoted '';''), (CHR ''|'', quoted ''|''), (CHR ''>'', quoted ''>''), (CHR ''<'', quoted ''<''),
     (CHR '' '', quoted '' '')]"

definition validate_url :: "json \<Rightarrow> string result" where
  "validate_url v =
     (case v of
        JStr url \<Rightarrow>
          if url = [] then Inl (ValueError ''url must be a non-empty string'')
          else if \<not> list_ex (starts_with url) allowed_schemes
          then Inl (ValueError (''url scheme not allowed. Must start with one of '' @ repr_tuple allowed_schemes))
          else (case find (\<lambda>(c, _). c \<in> set url) forbidden_in_url of
                  Some (_, r) \<Rightarrow> Inl (ValueError (''Forbidden character '' @ r @ '' in url''))
                | None \<Rightarrow> Inr url)
      | _ \<Rightarrow> Inl (ValueError ''url must be a non-empty string''))"

text \<open>\<open>resolve\<close> is \<open>Path.resolve\<close>, \<open>repr\<close> prints the name.\<close>

definition validate_profile :: "(string \<Rightarrow> string) \<Rightarrow> (string \<Rightarrow> string) \<Rightarrow> string \<Rightarrow> string \<Rightarrow> string result" where
  "validate_profile resolve repr base name =
     (if name = [] then Inl (ValueError ''profile must be a non-empty string'')
      else if mentions name ''/'' \<or> mentions name [CHR 0x5C] \<or> mentions name ''..''
      then Inl (ValueError ''profile must be a simple name, not a path'')
      else let p = resolve (path_join base name); b = resolve base
           in if p = b \<or> starts_with p (b @ ''/'') then Inr p
              else Inl (ValueError (''Profile '' @ repr name @ '' resolves outside allowed base'')))"

definition chrome_binary :: string where
  "chrome_binary = ''/usr/bin/google-chrome''"

definition chrome_flags :: "string list" where
  "chrome_flags =
    [''--no-first-run'', ''--no-default-browser-check'', ''--new-window'',
     ''--disable-background-timer-throttling'', ''--disable-backgrounding-occluded-windows'',
     ''--disable-renderer-backgrounding'', ''--remote-debugging-port=0'',
     ''--remote-debugging-address=127.0.0.1'']"

definition chrome_env_keys :: "string list" where
  "chrome_env_keys =
    [''DISPLAY'', ''WAYLAND_DISPLAY'', ''XDG_RUNTIME_DIR'', ''DBUS_SESSION_BUS_ADDRESS'', ''XAUTHORITY'',
     ''HOME'', ''PATH'', ''USER'', ''LOGNAME'']"

definition build_chrome_env :: "(string, string) dict \<Rightarrow> (string, string) dict" where
  "build_chrome_env base =
     concat (map (\<lambda>k. case dict_get base k of Some v \<Rightarrow> [(k, v)] | None \<Rightarrow> []) chrome_env_keys)"

section \<open>The broker\<close>

datatype browser_state =
    B_CREATED | B_LAUNCHING | B_RUNNING | B_NAVIGATING | B_READY | B_HIDDEN | B_CLOSING | B_CLOSED | B_FAILED

primrec browser_state_value :: "browser_state \<Rightarrow> string" where
  "browser_state_value B_CREATED = ''CREATED''"
| "browser_state_value B_LAUNCHING = ''LAUNCHING''"
| "browser_state_value B_RUNNING = ''RUNNING''"
| "browser_state_value B_NAVIGATING = ''NAVIGATING''"
| "browser_state_value B_READY = ''READY''"
| "browser_state_value B_HIDDEN = ''HIDDEN''"
| "browser_state_value B_CLOSING = ''CLOSING''"
| "browser_state_value B_CLOSED = ''CLOSED''"
| "browser_state_value B_FAILED = ''FAILED''"

record browser_target =
  bt_backend :: json
  bt_node :: json
  bt_session :: "string option"

record issued_authorization =
  ia_target :: string
  ia_session :: string
  ia_expires_at :: instant
  ia_method :: json
  ia_url :: json
  ia_frame :: json

record pending_submission =
  ps_auth :: string
  ps_authorization :: issued_authorization

text \<open>A request the interceptor let through: for which authorization, its method, address and frame.\<close>

record let_through =
  lt_auth :: string
  lt_method :: string
  lt_url :: string
  lt_frame :: json

record browser_broker =
  bk_process :: "nat option"
  bk_state :: browser_state
  bk_broker_state :: string
  bk_last_url :: "string option"
  bk_ws_url :: "string option"
  bk_ws :: bool
  bk_msg_id :: nat
  bk_session :: "string option"
  bk_targets :: "(string, browser_target) dict"
  bk_pending :: "pending_submission option"
  bk_issued :: "(string, issued_authorization) dict"
  bk_profile_dir :: string
  bk_launched :: "string list list"
  bk_calls :: "(string \<times> (string \<times> json) list) list"
  bk_passed :: "let_through list"

definition broker_init :: "string \<Rightarrow> browser_broker" where
  "broker_init profile =
     \<lparr>bk_process = None, bk_state = B_CLOSED, bk_broker_state = ''STOPPED'', bk_last_url = None, bk_ws_url = None,
      bk_ws = False, bk_msg_id = 0, bk_session = None, bk_targets = [], bk_pending = None, bk_issued = [],
      bk_profile_dir = profile, bk_launched = [], bk_calls = [], bk_passed = []\<rparr>"

text \<open>
  What an operation meets. The page replies by the number of the request; what changes while the
  operation runs (the process, fresh names, the clock) is also taken at that number.
\<close>

datatype cdp_reply = Reply json | Reply_error json | Reply_late | Reply_closed | Send_failed string

datatype stop_outcome = Stops | Killed | Survives

datatype xdo_failure = Xdo_timeout | Xdo_error string

record browser_env =
  be_alive :: "nat \<Rightarrow> bool"
  be_str :: "json \<Rightarrow> string"
  be_loads :: "string \<Rightarrow> string + json"
  be_port :: "nat \<Rightarrow> string option"
  be_pages :: "nat \<Rightarrow> json option"
  be_connects :: bool
  be_reply :: "nat \<Rightarrow> cdp_reply"
  be_uuid :: "nat \<Rightarrow> string"
  be_now :: "nat \<Rightarrow> instant"
  be_tick :: "nat \<Rightarrow> instant"
  be_b64 :: "string \<Rightarrow> string"
  be_chrome :: bool
  be_mkdir :: "exn option"
  be_popen :: "string + nat"
  be_stop :: stop_outcome
  be_xdotool :: bool
  be_search :: "xdo_failure + string list"
  be_minimize :: "string \<Rightarrow> xdo_failure option"

type_synonym 'a brk = "browser_broker \<Rightarrow> browser_broker \<times> 'a result"

definition bk_return :: "'a \<Rightarrow> 'a brk" where
  "bk_return v b = (b, Inr v)"

definition bk_raise :: "exn \<Rightarrow> 'a brk" where
  "bk_raise x b = (b, Inl x)"

definition bk_lift :: "'a result \<Rightarrow> 'a brk" where
  "bk_lift r b = (b, r)"

definition bk_bind :: "'a brk \<Rightarrow> ('a \<Rightarrow> 'b brk) \<Rightarrow> 'b brk" where
  "bk_bind m f b = (case m b of (b', Inl x) \<Rightarrow> (b', Inl x) | (b', Inr v) \<Rightarrow> f v b')"

text \<open>\<open>try ... except\<close>; the handler sees every exception.\<close>

definition bk_catch :: "'a brk \<Rightarrow> (exn \<Rightarrow> 'a brk) \<Rightarrow> 'a brk" where
  "bk_catch m h b = (case m b of (b', Inl x) \<Rightarrow> h x b' | (b', Inr v) \<Rightarrow> (b', Inr v))"

definition bk_get :: "(browser_broker \<Rightarrow> 'a) \<Rightarrow> 'a brk" where
  "bk_get f b = (b, Inr (f b))"

definition bk_put :: "(browser_broker \<Rightarrow> browser_broker) \<Rightarrow> unit brk" where
  "bk_put f b = (f b, Inr ())"

definition error_json :: "string \<Rightarrow> json" where
  "error_json m = JObj [(''status'', JStr ''error''), (''message'', JStr m)]"

definition state_json :: "browser_state \<Rightarrow> json" where
  "state_json s = JStr (browser_state_value s)"

definition text_of :: "browser_env \<Rightarrow> json \<Rightarrow> string" where
  "text_of e v = (case v of JStr s \<Rightarrow> s | _ \<Rightarrow> be_str e v)"

definition running :: "browser_env \<Rightarrow> browser_broker \<Rightarrow> bool" where
  "running e b \<longleftrightarrow> bk_process b \<noteq> None \<and> be_alive e (bk_msg_id b)"

section \<open>Requests over the protocol\<close>

text \<open>The port file is tried ten times, the list of pages five times.\<close>

fun find_port :: "browser_env \<Rightarrow> nat \<Rightarrow> string option" where
  "find_port e 0 = None"
| "find_port e (Suc n) = (case be_port e (10 - Suc n) of Some p \<Rightarrow> Some p | None \<Rightarrow> find_port e n)"

fun page_in :: "json list \<Rightarrow> string option result" where
  "page_in [] = Inr None"
| "page_in (t # ts) =
     and_then (get_of t ''type'' JNull) (\<lambda>ty. and_then (py_in (JStr ''webSocketDebuggerUrl'') t) (\<lambda>has.
       if ty = JStr ''page'' \<and> has
       then and_then (item_of t ''webSocketDebuggerUrl'') (\<lambda>u. Inr (case u of JStr s \<Rightarrow> Some s | _ \<Rightarrow> None))
       else page_in ts))"

definition page_of :: "json option \<Rightarrow> string option" where
  "page_of v =
     (case v of
        Some (JList ts) \<Rightarrow> (case page_in ts of Inr u \<Rightarrow> u | Inl _ \<Rightarrow> None)
      | _ \<Rightarrow> None)"

fun find_page :: "browser_env \<Rightarrow> nat \<Rightarrow> string option" where
  "find_page e 0 = None"
| "find_page e (Suc n) = (case page_of (be_pages e (5 - Suc n)) of Some u \<Rightarrow> Some u | None \<Rightarrow> find_page e n)"

definition get_cdp_ws_url :: "browser_env \<Rightarrow> browser_broker \<Rightarrow> browser_broker \<times> string option" where
  "get_cdp_ws_url e b =
     (if truthy_str (bk_ws_url b) then (b, bk_ws_url b)
      else if \<not> truthy_str (find_port e 10) then (b, None)
      else (case find_page e 5 of
              None \<Rightarrow> (b, None)
            | Some u \<Rightarrow> (b\<lparr>bk_ws_url := Some u\<rparr>, Some u)))"

definition get_ws :: "browser_env \<Rightarrow> browser_broker \<Rightarrow> browser_broker \<times> bool" where
  "get_ws e b =
     (if bk_ws b then (b, True)
      else case get_cdp_ws_url e b of
          (b, u) \<Rightarrow>
            if \<not> truthy_str u then (b, False)
            else if be_connects e then (b\<lparr>bk_ws := True\<rparr>, True)
            else (b\<lparr>bk_ws_url := None\<rparr>, False))"

definition cdp_request :: "browser_env \<Rightarrow> string \<Rightarrow> (string \<times> json) list \<Rightarrow> json brk" where
  "cdp_request e meth params b0 =
     (case get_ws e b0 of
        (b, False) \<Rightarrow> (b, Inl (RuntimeError ''CDP WebSocket is unavailable.''))
      | (b, True) \<Rightarrow>
          let i = Suc (bk_msg_id b);
              b = b\<lparr>bk_msg_id := i, bk_calls := bk_calls b @ [(meth, params)]\<rparr>
          in case be_reply e i of
              Send_failed m \<Rightarrow>
                (b\<lparr>bk_ws := False, bk_ws_url := None\<rparr>, Inl (RuntimeError (''CDP communication failed: '' @ m)))
            | Reply_closed \<Rightarrow> (b, Inl (RuntimeError ''CDP WebSocket closed while waiting for response.''))
            | Reply_late \<Rightarrow> (b, Inl (RuntimeError ''CDP request timed out.''))
            | Reply_error v \<Rightarrow> (b, Inl (RuntimeError (''CDP Error: '' @ text_of e v)))
            | Reply v \<Rightarrow> (b, Inr v))"

text \<open>A page script by its name, with the values put into it.\<close>

definition script :: "string \<Rightarrow> (string \<times> json) list \<Rightarrow> json" where
  "script name vs = JObj ((''script'', JStr name) # vs)"

definition call_on :: "browser_env \<Rightarrow> json \<Rightarrow> json \<Rightarrow> json brk" where
  "call_on e obj s =
     cdp_request e ''Runtime.callFunctionOn'' [(''objectId'', obj), (''functionDeclaration'', s), (''returnByValue'', JBool True)]"

text \<open>The exception a script raised in the page, else the value it returned.\<close>

definition script_raised :: "browser_env \<Rightarrow> json \<Rightarrow> string option result" where
  "script_raised e res =
     and_then (py_in (JStr ''exceptionDetails'') res) (\<lambda>x.
       if x then and_then (item_of res ''exceptionDetails'') (\<lambda>d. Inr (Some (text_of e d))) else Inr None)"

definition script_value :: "json \<Rightarrow> json result" where
  "script_value res = and_then (get_of res ''result'' (JObj [])) (\<lambda>r. get_of r ''value'' (JObj []))"

definition value_error :: "json \<Rightarrow> json option result" where
  "value_error v =
     and_then (py_in (JStr ''error'') v) (\<lambda>x. if x then and_then (item_of v ''error'') (\<lambda>m. Inr (Some m)) else Inr None)"

definition error_value :: "json \<Rightarrow> json" where
  "error_value m = JObj [(''status'', JStr ''error''), (''message'', m)]"

text \<open>What a script reports as its failure, as the reply, if anything.\<close>

definition script_verdict :: "browser_env \<Rightarrow> json \<Rightarrow> json option result" where
  "script_verdict e res =
     and_then (script_raised e res) (\<lambda>x.
       case x of
         Some m \<Rightarrow> Inr (Some (JStr m))
       | None \<Rightarrow> and_then (script_value res) value_error)"

section \<open>The Chrome process\<close>

definition running_json :: "browser_broker \<Rightarrow> nat \<Rightarrow> (string \<times> json) list" where
  "running_json b pid =
     [(''pid'', JInt (int pid)), (''browser_state'', state_json (bk_state b)), (''profile'', JStr (bk_profile_dir b)),
      (''binary'', JStr chrome_binary)]"

definition chrome_args :: "string \<Rightarrow> string \<Rightarrow> string list" where
  "chrome_args profile url = [chrome_binary, ''--user-data-dir='' @ profile] @ chrome_flags @ [''--app='' @ url]"

text \<open>What a new session starts with.\<close>

definition fresh_session :: "string option \<Rightarrow> browser_broker \<Rightarrow> browser_broker" where
  "fresh_session sid b =
     b\<lparr>bk_ws := False, bk_ws_url := None, bk_session := sid, bk_targets := [], bk_pending := None, bk_issued := []\<rparr>"

definition launch_chrome :: "browser_env \<Rightarrow> string \<Rightarrow> json brk" where
  "launch_chrome e url b0 =
     (let b = fresh_session (Some (be_uuid e (bk_msg_id b0))) (b0\<lparr>bk_state := B_LAUNCHING, bk_last_url := Some url\<rparr>);
          b = b\<lparr>bk_launched := bk_launched b @ [chrome_args (bk_profile_dir b) url]\<rparr>
      in case be_popen e of
          Inl m \<Rightarrow> (b\<lparr>bk_state := B_FAILED, bk_process := None\<rparr>, Inr (error_json (''Popen failed: '' @ m)))
        | Inr pid \<Rightarrow>
            let b = b\<lparr>bk_process := Some pid, bk_state := B_RUNNING\<rparr>
            in (b, Inr (JObj ((''status'', JStr ''ok'') # running_json b pid))))"

definition start_browser :: "browser_env \<Rightarrow> json \<Rightarrow> json brk" where
  "start_browser e v b =
     (case validate_url v of
        Inl x \<Rightarrow> (b, Inr (error_json (str_exn x)))
      | Inr url \<Rightarrow>
          if running e b
          then (b, Inr (JObj ([(''status'', JStr ''ok''), (''message'', JStr ''Browser already running'')] @
                              running_json b (the (bk_process b)))))
          else if \<not> be_chrome e
          then (b\<lparr>bk_state := B_FAILED\<rparr>, Inr (error_json (''Chrome binary not found: '' @ chrome_binary)))
          else (case be_mkdir e of
                  Some x \<Rightarrow> (b, Inl x)
                | None \<Rightarrow> launch_chrome e url b))"

definition stop_browser :: "browser_env \<Rightarrow> json brk" where
  "stop_browser e b =
     (if running e b \<and> be_stop e = Survives
      then (b\<lparr>bk_state := B_CLOSING\<rparr>, Inl (Exception ''timed out after 3 seconds''))
      else let b = (if running e b then b\<lparr>bk_process := None\<rparr> else b);
               b = fresh_session None (b\<lparr>bk_state := B_CLOSED\<rparr>)
           in (b, Inr (JObj [(''status'', JStr ''ok''), (''browser_state'', state_json (bk_state b))])))"

definition restart_browser :: "browser_env \<Rightarrow> json brk" where
  "restart_browser e b =
     (if \<not> truthy_str (bk_last_url b)
      then (b, Inr (error_json ''No URL to restart to. Use START_BROWSER first.''))
      else bk_bind (stop_browser e) (\<lambda>_. start_browser e (JStr (the (bk_last_url b)))) b)"

definition get_broker_status :: "browser_env \<Rightarrow> json brk" where
  "get_broker_status e b =
     (let alive = running e b;
          b = (if bk_process b \<noteq> None \<and> \<not> alive \<and> bk_state b \<in> {B_RUNNING, B_HIDDEN}
               then b\<lparr>bk_state := B_FAILED\<rparr> else b)
      in (b, Inr (JObj [(''status'', JStr ''ok''), (''running'', JBool alive),
            (''pid'', case bk_process b of Some p \<Rightarrow> if alive then JInt (int p) else JNull | None \<Rightarrow> JNull),
            (''broker_state'', JStr (bk_broker_state b)), (''browser_state'', state_json (bk_state b)),
            (''profile'', JStr (bk_profile_dir b)), (''binary'', JStr chrome_binary)])))"

text \<open>The dash of two messages, in UTF-8.\<close>

definition em_dash :: string where
  "em_dash = [CHR 0xE2, CHR 0x80, CHR 0x94]"

text \<open>The windows are minimized in order; the first failure ends it.\<close>

fun minimize_all :: "browser_env \<Rightarrow> string list \<Rightarrow> xdo_failure option" where
  "minimize_all e [] = None"
| "minimize_all e (w # ws) = (case be_minimize e w of Some x \<Rightarrow> Some x | None \<Rightarrow> minimize_all e ws)"

definition hide_reply :: "string \<Rightarrow> browser_state \<Rightarrow> string \<Rightarrow> json" where
  "hide_reply st bs m = JObj [(''status'', JStr st), (''browser_state'', state_json bs), (''message'', JStr m)]"

definition xdo_message :: "xdo_failure \<Rightarrow> string" where
  "xdo_message x = (case x of Xdo_timeout \<Rightarrow> ''xdotool timed out'' | Xdo_error m \<Rightarrow> ''hide_browser error: '' @ m)"

definition hide_browser :: "browser_env \<Rightarrow> json brk" where
  "hide_browser e b =
     (if \<not> running e b then (b, Inr (hide_reply ''ok'' (bk_state b) (''Browser not running '' @ em_dash @ '' nothing to hide'')))
      else if \<not> be_xdotool e
      then (b, Inr (hide_reply ''unavailable'' (bk_state b) (''xdotool not installed '' @ em_dash @ '' hide not possible'')))
      else case be_search e of
          Inl x \<Rightarrow> (b, Inr (hide_reply ''error'' (bk_state b) (xdo_message x)))
        | Inr [] \<Rightarrow> (b, Inr (hide_reply ''ok'' (bk_state b) ''No windows found for PID (may already be hidden)''))
        | Inr ws \<Rightarrow>
            (case minimize_all e ws of
               Some x \<Rightarrow> (b, Inr (hide_reply ''error'' (bk_state b) (xdo_message x)))
             | None \<Rightarrow>
                 let b = b\<lparr>bk_state := B_HIDDEN\<rparr>
                 in (b, Inr (JObj [(''status'', JStr ''ok''), (''browser_state'', state_json (bk_state b)),
                       (''pid'', JInt (int (the (bk_process b)))), (''windows_hidden'', JList (map JStr ws))]))))"

section \<open>Operations on the page\<close>

definition when_running :: "browser_env \<Rightarrow> string \<Rightarrow> json brk \<Rightarrow> json brk" where
  "when_running e m f b = (if running e b then f b else (b, Inr (error_json m)))"

text \<open>A failure inside \<open>try ... except Exception\<close> becomes an error reply.\<close>

definition or_failed :: "string \<Rightarrow> json brk \<Rightarrow> json brk" where
  "or_failed what m = bk_catch m (\<lambda>x. bk_return (error_json (''CDP '' @ what @ '' failed: '' @ str_exn x)))"

definition navigate :: "browser_env \<Rightarrow> json \<Rightarrow> json brk" where
  "navigate e v b =
     (case validate_url v of
        Inl x \<Rightarrow> (b, Inr (error_json (str_exn x)))
      | Inr url \<Rightarrow>
          when_running e ''Browser is not running. Use START_BROWSER first.''
            (bk_bind (bk_put (\<lambda>b. b\<lparr>bk_state := B_NAVIGATING, bk_last_url := Some url\<rparr>)) (\<lambda>_.
             bk_catch
               (bk_bind (cdp_request e ''Page.navigate'' [(''url'', JStr url)]) (\<lambda>_.
                bk_bind (bk_put (\<lambda>b. b\<lparr>bk_state := B_RUNNING\<rparr>)) (\<lambda>_.
                bk_return (JObj [(''status'', JStr ''ok''), (''browser_state'', state_json B_RUNNING), (''url'', JStr url)]))))
               (\<lambda>x. bk_bind (bk_put (\<lambda>b. b\<lparr>bk_state := B_FAILED\<rparr>)) (\<lambda>_.
                bk_return (error_json (''CDP navigate failed: '' @ str_exn x)))))) b)"

text \<open>The history entry to go to; anything but what the protocol documents raises \<open>TypeError\<close>.\<close>

definition history_entry :: "bool \<Rightarrow> json \<Rightarrow> json option result" where
  "history_entry back history =
     and_then (get_of history ''currentIndex'' (JInt 0)) (\<lambda>i. and_then (get_of history ''entries'' (JList [])) (\<lambda>es.
       case (i, es) of
         (JInt n, JList xs) \<Rightarrow>
           (let k = (if back then n - 1 else n + 1)
            in Inr (if 0 \<le> k \<and> k < int (length xs) then Some (xs ! nat k) else None))
       | _ \<Rightarrow> Inl (TypeError ''unsupported operand'')))"

definition go_to_entry :: "browser_env \<Rightarrow> json \<Rightarrow> unit brk" where
  "go_to_entry e entry =
     bk_bind (bk_lift (item_of entry ''id'')) (\<lambda>i.
     bk_bind (cdp_request e ''Page.navigateToHistoryEntry'' [(''entryId'', i)]) (\<lambda>_.
     bk_bind (bk_lift (get_of entry ''url'' JNull)) (\<lambda>u.
     bk_put (\<lambda>b. b\<lparr>bk_last_url := (case u of JStr s \<Rightarrow> Some s | _ \<Rightarrow> None)\<rparr>))))"

definition navigate_action :: "browser_env \<Rightarrow> json \<Rightarrow> json brk" where
  "navigate_action e action =
     (let done = bk_return (JObj [(''status'', JStr ''ok''), (''action'', action)])
      in when_running e ''Browser is not running.'' (or_failed ''action''
           (if action = JStr ''back'' \<or> action = JStr ''forward''
            then bk_bind (cdp_request e ''Page.getNavigationHistory'' []) (\<lambda>history.
                 bk_bind (bk_lift (history_entry (action = JStr ''back'') history)) (\<lambda>entry.
                 case entry of
                   None \<Rightarrow> done
                 | Some x \<Rightarrow> bk_bind (go_to_entry e x) (\<lambda>_. done)))
            else if action = JStr ''reload'' then bk_bind (cdp_request e ''Page.reload'' []) (\<lambda>_. done)
            else bk_return (error_json (''Unknown action '' @ text_of e action)))))"

text \<open>\<open>observe\<close> and \<open>_observe_with_timeout\<close> differ in the script and in how long they wait.\<close>

definition observe_with :: "browser_env \<Rightarrow> string \<Rightarrow> json brk" where
  "observe_with e name =
     when_running e ''Browser is not running.'' (or_failed ''observe''
       (bk_bind (cdp_request e ''Runtime.evaluate'' [(''expression'', script name []), (''returnByValue'', JBool True)]) (\<lambda>res.
        bk_bind (bk_lift (script_raised e res)) (\<lambda>x.
        case x of
          Some m \<Rightarrow> bk_return (error_json m)
        | None \<Rightarrow> bk_bind (bk_lift (script_value res)) (\<lambda>v.
            bk_return (JObj [(''status'', JStr ''ok''), (''observation'', v)]))))))"

definition observe :: "browser_env \<Rightarrow> json brk" where
  "observe e = observe_with e ''observe''"

text \<open>The reply after an action: what the page looks like, or why it could not be looked at.\<close>

definition after_action :: "browser_env \<Rightarrow> (string \<times> json) list \<Rightarrow> json brk" where
  "after_action e action =
     bk_bind (observe e) (\<lambda>obs.
       let base = [(''status'', JStr ''ok''), (''result'', JStr ''success''), (''action'', JObj action)]
       in bk_return (JObj (base @
            (if jfield (case obs of JObj kvs \<Rightarrow> kvs | _ \<Rightarrow> []) ''status'' JNull = JStr ''ok''
             then [(''observation'', jfield (case obs of JObj kvs \<Rightarrow> kvs | _ \<Rightarrow> []) ''observation'' JNull)]
             else [(''observation_error'', jfield (case obs of JObj kvs \<Rightarrow> kvs | _ \<Rightarrow> []) ''message'' JNull)]))))"

text \<open>A target of the current session.\<close>

definition current_target :: "browser_broker \<Rightarrow> string \<Rightarrow> browser_target option" where
  "current_target b tid =
     (case dict_get (bk_targets b) tid of
        Some t \<Rightarrow> if bt_session t = bk_session b then Some t else None
      | None \<Rightarrow> None)"

definition with_target :: "string \<Rightarrow> (browser_target \<Rightarrow> json brk) \<Rightarrow> json brk" where
  "with_target tid f b =
     (case current_target b tid of None \<Rightarrow> (b, Inr (error_json ''TARGET_STALE'')) | Some t \<Rightarrow> f t b)"

text \<open>The object of a node; \<open>None\<close> when the node is stale. Only \<open>RuntimeError\<close> is caught.\<close>

definition resolved_object :: "json \<Rightarrow> json option result" where
  "resolved_object res =
     and_then (py_in (JStr ''object'') res) (\<lambda>x.
       if \<not> x then Inr None
       else and_then (item_of res ''object'') (\<lambda>o1. and_then (py_in (JStr ''objectId'') o1) (\<lambda>y.
         if \<not> y then Inr None else and_then (item_of o1 ''objectId'') (\<lambda>i. Inr (Some i)))))"

definition resolve_node :: "browser_env \<Rightarrow> browser_target \<Rightarrow> json option brk" where
  "resolve_node e t =
     bk_catch
       (bk_bind (cdp_request e ''DOM.resolveNode'' [(''backendNodeId'', bt_backend t)]) (\<lambda>res. bk_return (Some res)))
       (\<lambda>x. case x of RuntimeError _ \<Rightarrow> bk_return None | _ \<Rightarrow> bk_raise x)"

definition target_object :: "browser_env \<Rightarrow> browser_target \<Rightarrow> json option brk" where
  "target_object e t =
     bk_bind (resolve_node e t) (\<lambda>res.
       case res of None \<Rightarrow> bk_return None | Some r \<Rightarrow> bk_lift (resolved_object r))"

definition action_of :: "string \<Rightarrow> string \<Rightarrow> (string \<times> json) list" where
  "action_of kind tid = [(''type'', JStr kind), (''target_id'', JStr tid)]"

text \<open>Run a script on an object and report its failure, else go on.\<close>

definition run_script :: "browser_env \<Rightarrow> json \<Rightarrow> json \<Rightarrow> json brk \<Rightarrow> json brk" where
  "run_script e obj s next =
     bk_bind (call_on e obj s) (\<lambda>res.
     bk_bind (bk_lift (script_verdict e res)) (\<lambda>v.
       case v of Some m \<Rightarrow> bk_return (error_value m) | None \<Rightarrow> next))"

text \<open>The scripts of clear, check and uncheck only fail by raising.\<close>

definition run_plain :: "browser_env \<Rightarrow> json \<Rightarrow> json \<Rightarrow> json brk \<Rightarrow> json brk" where
  "run_plain e obj s next =
     bk_bind (call_on e obj s) (\<lambda>res.
     bk_bind (bk_lift (script_raised e res)) (\<lambda>v.
       case v of Some m \<Rightarrow> bk_return (error_json m) | None \<Rightarrow> next))"

definition click :: "browser_env \<Rightarrow> string \<Rightarrow> json brk" where
  "click e tid =
     when_running e ''Browser is not running.'' (with_target tid (\<lambda>t. or_failed ''click''
       (bk_bind (target_object e t) (\<lambda>obj.
        case obj of
          None \<Rightarrow> bk_return (error_json ''TARGET_STALE'')
        | Some o1 \<Rightarrow> run_script e o1 (script ''click'' []) (after_action e (action_of ''click'' tid))))))"

text \<open>A permitted text field: its object, or the reason it is not.\<close>

definition validate_text_target :: "browser_env \<Rightarrow> browser_target \<Rightarrow> (json + json) brk" where
  "validate_text_target e t =
     bk_bind (target_object e t) (\<lambda>obj.
       case obj of
         None \<Rightarrow> bk_return (Inl (JStr ''TARGET_STALE''))
       | Some o1 \<Rightarrow>
           bk_bind (call_on e o1 (script ''validate_text'' [])) (\<lambda>res.
           bk_bind (bk_lift (script_verdict e res)) (\<lambda>v.
             bk_return (case v of Some m \<Rightarrow> Inl m | None \<Rightarrow> Inr o1))))"

definition with_text_target :: "browser_env \<Rightarrow> string \<Rightarrow> (json \<Rightarrow> json brk) \<Rightarrow> json brk" where
  "with_text_target e tid f =
     when_running e ''Browser is not running.'' (with_target tid (\<lambda>t.
       bk_bind (validate_text_target e t) (\<lambda>v.
         case v of Inl m \<Rightarrow> bk_return (error_value m) | Inr obj \<Rightarrow> f obj)))"

definition type_text :: "browser_env \<Rightarrow> string \<Rightarrow> json \<Rightarrow> json brk" where
  "type_text e tid text =
     with_text_target e tid (\<lambda>obj.
       run_script e obj (script ''type'' [(''text'', text)]) (after_action e (action_of ''type'' tid)))"

definition fill_text :: "browser_env \<Rightarrow> string \<Rightarrow> json \<Rightarrow> json brk" where
  "fill_text e tid text =
     with_text_target e tid (\<lambda>obj.
       run_script e obj (script ''fill'' [(''text'', text)]) (after_action e (action_of ''fill'' tid)))"

definition clear_text :: "browser_env \<Rightarrow> string \<Rightarrow> json brk" where
  "clear_text e tid =
     with_text_target e tid (\<lambda>obj.
       run_plain e obj (script ''clear'' []) (after_action e (action_of ''clear'' tid)))"

text \<open>A control: its object with tag and type. A script that raised means a stale node here.\<close>

definition validate_control_target :: "browser_env \<Rightarrow> browser_target \<Rightarrow> (json + json \<times> json \<times> json) brk" where
  "validate_control_target e t =
     (if \<not> truthy (bt_node t) then bk_return (Inl (JStr ''Target node object ID missing''))
      else bk_bind (call_on e (bt_node t) (script ''validate_control'' [])) (\<lambda>res.
           bk_bind (bk_lift (script_raised e res)) (\<lambda>x.
           case x of
             Some _ \<Rightarrow> bk_return (Inl (JStr ''TARGET_STALE''))
           | None \<Rightarrow>
               bk_bind (bk_lift (script_value res)) (\<lambda>v.
               bk_bind (bk_lift (value_error v)) (\<lambda>m.
               case m of
                 Some m \<Rightarrow> bk_return (Inl m)
               | None \<Rightarrow>
                   bk_bind (bk_lift (item_of v ''tag'')) (\<lambda>tag.
                   bk_bind (bk_lift (item_of v ''type'')) (\<lambda>ty.
                   bk_return (Inr (bt_node t, tag, ty)))))))))"

definition with_control :: "browser_env \<Rightarrow> string \<Rightarrow> (json \<Rightarrow> json \<Rightarrow> json \<Rightarrow> json brk) \<Rightarrow> json brk" where
  "with_control e tid f =
     with_target tid (\<lambda>t.
       bk_bind (validate_control_target e t) (\<lambda>v.
         case v of Inl m \<Rightarrow> bk_return (error_value m) | Inr (obj, tag, ty) \<Rightarrow> f obj tag ty))"

definition select_option :: "browser_env \<Rightarrow> string \<Rightarrow> json \<Rightarrow> json brk" where
  "select_option e tid opt =
     with_control e tid (\<lambda>obj tag ty.
       if tag \<noteq> JStr ''select'' then bk_return (error_json ''TARGET_NOT_SELECT'')
       else run_script e obj (script ''select'' [(''option'', opt)])
              (after_action e (action_of ''select'' tid @ [(''option'', opt)])))"

definition check_box :: "browser_env \<Rightarrow> string \<Rightarrow> json brk" where
  "check_box e tid =
     with_control e tid (\<lambda>obj tag ty.
       if tag \<noteq> JStr ''input'' \<or> ty \<notin> {JStr ''checkbox'', JStr ''radio''}
       then bk_return (error_json ''TARGET_UNSUPPORTED_CONTROL'')
       else run_plain e obj (script ''check'' []) (after_action e (action_of ''check'' tid)))"

definition uncheck_box :: "browser_env \<Rightarrow> string \<Rightarrow> json brk" where
  "uncheck_box e tid =
     with_control e tid (\<lambda>obj tag ty.
       if tag \<noteq> JStr ''input'' then bk_return (error_json ''TARGET_UNSUPPORTED_CONTROL'')
       else if ty = JStr ''radio'' then bk_return (error_json ''TARGET_UNSUPPORTED_ACTION'')
       else if ty \<noteq> JStr ''checkbox'' then bk_return (error_json ''TARGET_UNSUPPORTED_CONTROL'')
       else run_plain e obj (script ''uncheck'' []) (after_action e (action_of ''uncheck'' tid)))"

section \<open>Finding elements\<close>

fun lower_of :: "json \<Rightarrow> string result" where
  "lower_of (JStr s) = Inr (map to_lower_char s)"
| "lower_of v = Inl (no_attribute (py_class v) ''lower'')"

definition query_field :: "(string \<times> json) list \<Rightarrow> string \<Rightarrow> string result" where
  "query_field query k = lower_of (jfield query k (JStr []))"

definition is_digits :: "string \<Rightarrow> bool" where
  "is_digits s \<longleftrightarrow> s \<noteq> [] \<and> list_all (\<lambda>c. CHR ''0'' \<le> c \<and> c \<le> CHR ''9'') s"

fun isdigit_of :: "json \<Rightarrow> bool result" where
  "isdigit_of (JStr s) = Inr (is_digits s)"
| "isdigit_of v = Inl (no_attribute (py_class v) ''isdigit'')"

fun items_or_empty :: "json \<Rightarrow> json list result" where
  "items_or_empty (JList xs) = Inr xs"
| "items_or_empty v = Inl (TypeError (quoted (py_class v) @ '' object is not iterable''))"

text \<open>The described properties of one element: the object of its node and the rest.\<close>

definition text_property :: "json \<Rightarrow> bool" where
  "text_property name \<longleftrightarrow>
     name \<in> JStr ` {''role'', ''name'', ''text'', ''tag'', ''type'', ''group'', ''selected_options_json'',
                     ''validity_flags_json''}"

definition flag_property :: "json \<Rightarrow> bool" where
  "flag_property name \<longleftrightarrow>
     name \<in> JStr ` {''value_present'', ''disabled'', ''required'', ''valid'', ''checked'', ''multiple''}"

definition property_value :: "json \<Rightarrow> json \<Rightarrow> json result" where
  "property_value ip d = and_then (item_of ip ''value'') (\<lambda>v. get_of v ''value'' d)"

definition one_property ::
  "json \<Rightarrow> json \<times> (string \<times> json) list \<Rightarrow> (json \<times> (string \<times> json) list) result" where
  "one_property ip nm =
     and_then (item_of ip ''name'') (\<lambda>name.
       let key = (case name of JStr s \<Rightarrow> s | _ \<Rightarrow> [])
       in if name = JStr ''node''
          then and_then (item_of ip ''value'') (\<lambda>v. and_then (item_of v ''objectId'') (\<lambda>i. Inr (i, snd nm)))
          else if text_property name
          then and_then (property_value ip (JStr [])) (\<lambda>x. Inr (fst nm, dict_set (snd nm) key x))
          else if flag_property name
          then and_then (property_value ip (JBool False)) (\<lambda>x. Inr (fst nm, dict_set (snd nm) key x))
          else Inr nm)"

fun item_meta :: "json list \<Rightarrow> json \<times> (string \<times> json) list \<Rightarrow> (json \<times> (string \<times> json) list) result" where
  "item_meta [] nm = Inr nm"
| "item_meta (ip # ips) nm = and_then (one_property ip nm) (item_meta ips)"

definition loads_of :: "browser_env \<Rightarrow> json \<Rightarrow> json option" where
  "loads_of e v = (case v of JStr s \<Rightarrow> (case be_loads e s of Inr x \<Rightarrow> Some x | Inl _ \<Rightarrow> None) | _ \<Rightarrow> None)"

definition decode_meta :: "browser_env \<Rightarrow> (string \<times> json) list \<Rightarrow> (string \<times> json) list" where
  "decode_meta e m0 =
     (let m1 = (case dict_get m0 ''selected_options_json'' of
                  None \<Rightarrow> m0
                | Some v \<Rightarrow> dict_del (dict_set m0 ''selected_options''
                              (case loads_of e v of Some x \<Rightarrow> x | None \<Rightarrow> JList [])) ''selected_options_json'')
      in case dict_get m1 ''validity_flags_json'' of
          None \<Rightarrow> m1
        | Some v \<Rightarrow> dict_del (case loads_of e v of Some x \<Rightarrow> dict_set m1 ''validity_flags'' x | None \<Rightarrow> m1)
                      ''validity_flags_json'')"

text \<open>A node the page described becomes a target of the session.\<close>

definition add_target :: "browser_env \<Rightarrow> json \<Rightarrow> json \<Rightarrow> (string \<times> json) list \<Rightarrow> json option brk" where
  "add_target e backend node meta b =
     (if backend = JNull then (b, Inr None)
      else let tid = ''bt_'' @ be_uuid e (bk_msg_id b)
           in (b\<lparr>bk_targets := dict_set (bk_targets b) tid
                  \<lparr>bt_backend = backend, bt_node = node, bt_session = bk_session b\<rparr>\<rparr>,
               Inr (Some (JObj (foldl (\<lambda>d (k, v). dict_set d k v) [(''target_id'', JStr tid)] meta)))))"

definition find_item :: "browser_env \<Rightarrow> json \<Rightarrow> json option brk" where
  "find_item e prop =
     bk_bind (bk_lift (and_then (get_of prop ''name'' JNull) isdigit_of)) (\<lambda>digit.
     if \<not> digit then bk_return None
     else bk_bind (bk_lift (and_then (item_of prop ''value'') (\<lambda>v. item_of v ''objectId''))) (\<lambda>obj.
          bk_bind (cdp_request e ''Runtime.getProperties'' [(''objectId'', obj), (''ownProperties'', JBool True)]) (\<lambda>props.
          bk_bind (bk_lift (and_then (get_of props ''result'' (JList [])) items_or_empty)) (\<lambda>items.
          bk_bind (bk_lift (item_meta items (JNull, []))) (\<lambda>(node, meta).
          if \<not> truthy node then bk_return None
          else bk_bind (cdp_request e ''DOM.describeNode'' [(''objectId'', node)]) (\<lambda>req.
               bk_bind (bk_lift (and_then (get_of req ''node'' (JObj [])) (\<lambda>n. get_of n ''backendNodeId'' JNull))) (\<lambda>backend.
               add_target e backend node (decode_meta e meta))))))))"

fun find_items :: "browser_env \<Rightarrow> json list \<Rightarrow> json list brk" where
  "find_items e [] = bk_return []"
| "find_items e (p # ps) =
     bk_bind (find_item e p) (\<lambda>x.
     bk_bind (find_items e ps) (\<lambda>xs. bk_return (case x of None \<Rightarrow> xs | Some t \<Rightarrow> t # xs)))"

definition find_targets :: "browser_env \<Rightarrow> json \<Rightarrow> json brk" where
  "find_targets e query_script =
     bk_bind (cdp_request e ''Runtime.evaluate'' [(''expression'', query_script), (''returnByValue'', JBool False)]) (\<lambda>res.
     bk_bind (bk_lift (script_raised e res)) (\<lambda>x.
     case x of
       Some m \<Rightarrow> bk_return (error_json m)
     | None \<Rightarrow>
         bk_bind (bk_lift (and_then (get_of res ''result'' (JObj [])) (\<lambda>r. get_of r ''objectId'' JNull))) (\<lambda>arr.
         if \<not> truthy arr then bk_return (JObj [(''status'', JStr ''ok''), (''targets'', JList [])])
         else bk_bind (cdp_request e ''Runtime.getProperties'' [(''objectId'', arr), (''ownProperties'', JBool True)]) (\<lambda>props.
              bk_bind (bk_lift (and_then (get_of props ''result'' (JList [])) items_or_empty)) (\<lambda>items.
              bk_bind (find_items e items) (\<lambda>ts.
              bk_return (JObj [(''status'', JStr ''ok''), (''targets'', JList ts)])))))))"

definition find_elements :: "browser_env \<Rightarrow> (string \<times> json) list \<Rightarrow> json brk" where
  "find_elements e query =
     when_running e ''Browser is not running.''
       (bk_bind (bk_lift (query_field query ''text'')) (\<lambda>t.
        bk_bind (bk_lift (query_field query ''role'')) (\<lambda>r.
        bk_bind (bk_lift (query_field query ''tag'')) (\<lambda>g.
        bk_bind (bk_lift (query_field query ''type'')) (\<lambda>ty.
        bk_bind (bk_catch (cdp_request e ''DOM.enable'' []) (\<lambda>_. bk_return JNull)) (\<lambda>_.
        or_failed ''find'' (find_targets e
          (script ''find'' [(''text'', JStr t), (''role'', JStr r), (''tag'', JStr g), (''type'', JStr ty)]))))))))"

section \<open>What operations leave alone\<close>

text \<open>
  Everything but starting, stopping and submitting keeps the authorizations, the pending submission,
  the requests that were let through, the session and what was launched. The rules follow the
  combinators.
\<close>

named_theorems keeps_intro \<open>operations that keep the authorizations\<close>

definition same_auth :: "browser_broker \<Rightarrow> browser_broker \<Rightarrow> bool" where
  "same_auth b b' \<longleftrightarrow>
     bk_issued b' = bk_issued b \<and> bk_pending b' = bk_pending b \<and> bk_passed b' = bk_passed b \<and>
     bk_session b' = bk_session b \<and> bk_launched b' = bk_launched b \<and> bk_profile_dir b' = bk_profile_dir b"

definition keeps :: "'a brk \<Rightarrow> bool" where
  "keeps m \<longleftrightarrow> (\<forall>b. same_auth b (fst (m b)))"

lemma same_auth_trans: "same_auth a b \<Longrightarrow> same_auth b c \<Longrightarrow> same_auth a c"
  by (simp add: same_auth_def)

lemma same_auth_refl [simp]: "same_auth b b"
  by (simp add: same_auth_def)

lemma keepsD: "keeps m \<Longrightarrow> m b = (b', r) \<Longrightarrow> same_auth b b'"
  unfolding keeps_def by (metis fst_conv)

lemma keeps_return [keeps_intro]: "keeps (bk_return v)"
  by (simp add: keeps_def bk_return_def)

lemma keeps_raise [keeps_intro]: "keeps (bk_raise v)"
  by (simp add: keeps_def bk_raise_def)

lemma keeps_lift [keeps_intro]: "keeps (bk_lift v)"
  by (simp add: keeps_def bk_lift_def)

lemma keeps_bind [keeps_intro]:
  assumes "keeps m" and "\<And>v. keeps (f v)"
  shows "keeps (bk_bind m f)"
  unfolding keeps_def
proof
  fix b
  obtain b' r where m: "m b = (b', r)" by fastforce
  then have "same_auth b b'" using assms(1) keepsD by blast
  moreover have "same_auth b' (fst (f v b'))" for v using assms(2) by (simp add: keeps_def)
  ultimately show "same_auth b (fst (bk_bind m f b))"
    by (auto simp: bk_bind_def m split: sum.splits intro: same_auth_trans)
qed

lemma keeps_catch [keeps_intro]:
  assumes "keeps m" and "\<And>x. keeps (h x)"
  shows "keeps (bk_catch m h)"
  unfolding keeps_def
proof
  fix b
  obtain b' r where m: "m b = (b', r)" by fastforce
  then have "same_auth b b'" using assms(1) keepsD by blast
  moreover have "same_auth b' (fst (h x b'))" for x using assms(2) by (simp add: keeps_def)
  ultimately show "same_auth b (fst (bk_catch m h b))"
    by (auto simp: bk_catch_def m split: sum.splits intro: same_auth_trans)
qed

lemma keeps_when_running [keeps_intro]: "keeps f \<Longrightarrow> keeps (when_running e m f)"
  by (simp add: keeps_def when_running_def)

lemma keeps_with_target [keeps_intro]: "(\<And>t. keeps (f t)) \<Longrightarrow> keeps (with_target tid f)"
  by (simp add: keeps_def with_target_def split: option.splits)

lemma keeps_put_state [keeps_intro]:
  "keeps (bk_put (\<lambda>b. b\<lparr>bk_state := s\<rparr>))" "keeps (bk_put (\<lambda>b. b\<lparr>bk_last_url := u\<rparr>))"
  "keeps (bk_put (\<lambda>b. b\<lparr>bk_state := s, bk_last_url := u\<rparr>))"
  by (simp_all add: keeps_def bk_put_def same_auth_def)

lemma keeps_if [keeps_intro]: "keeps m \<Longrightarrow> keeps n \<Longrightarrow> keeps (if c then m else n)"
  by simp

lemma keeps_option [keeps_intro]: "keeps m \<Longrightarrow> (\<And>v. keeps (f v)) \<Longrightarrow> keeps (case x of None \<Rightarrow> m | Some v \<Rightarrow> f v)"
  by (cases x) simp_all

lemma keeps_sum [keeps_intro]:
  "(\<And>v. keeps (f v)) \<Longrightarrow> (\<And>v. keeps (g v)) \<Longrightarrow> keeps (case x of Inl v \<Rightarrow> f v | Inr v \<Rightarrow> g v)"
  by (cases x) simp_all

lemma keeps_prod [keeps_intro]: "(\<And>u v. keeps (f u v)) \<Longrightarrow> keeps (case x of (u, v) \<Rightarrow> f u v)"
  by (cases x) simp

lemma get_ws_keeps: "same_auth b (fst (get_ws e b))"
  by (auto simp: get_ws_def get_cdp_ws_url_def same_auth_def split: option.splits)

lemma keeps_cdp [keeps_intro]: "keeps (cdp_request e meth params)"
  unfolding keeps_def
proof
  fix b
  obtain b' ok where w: "get_ws e b = (b', ok)" by fastforce
  then have "same_auth b b'" using get_ws_keeps [of b e] by simp
  then show "same_auth b (fst (cdp_request e meth params b))"
    by (auto simp: cdp_request_def w Let_def same_auth_def split: cdp_reply.splits bool.splits)
qed

lemma keeps_resolve [keeps_intro]: "keeps (resolve_node e t)"
  unfolding resolve_node_def by (intro keeps_intro) (auto intro: keeps_intro split: exn.splits)

lemma keeps_or_failed [keeps_intro]: "keeps m \<Longrightarrow> keeps (or_failed what m)"
  unfolding or_failed_def by (intro keeps_intro)

lemma keeps_call [keeps_intro]: "keeps (call_on e obj s)"
  unfolding call_on_def by (intro keeps_intro)

lemma keeps_observe [keeps_intro]: "keeps (observe e)" "keeps (observe_with e name)"
  unfolding observe_def observe_with_def by (intro keeps_intro)+

lemma keeps_after_action [keeps_intro]: "keeps (after_action e action)"
  unfolding after_action_def Let_def by (intro keeps_intro)

lemma keeps_target_object [keeps_intro]: "keeps (target_object e t)"
  unfolding target_object_def by (intro keeps_intro)

lemma keeps_run_script [keeps_intro]: "keeps next \<Longrightarrow> keeps (run_script e obj s next)"
  unfolding run_script_def by (intro keeps_intro)

lemma keeps_run_plain [keeps_intro]: "keeps next \<Longrightarrow> keeps (run_plain e obj s next)"
  unfolding run_plain_def by (intro keeps_intro)

lemma keeps_validate [keeps_intro]: "keeps (validate_text_target e t)" "keeps (validate_control_target e t)"
  unfolding validate_text_target_def validate_control_target_def by (intro keeps_intro)+

lemma keeps_text_target [keeps_intro]: "(\<And>obj. keeps (f obj)) \<Longrightarrow> keeps (with_text_target e tid f)"
  unfolding with_text_target_def by (intro keeps_intro)

lemma keeps_control [keeps_intro]: "(\<And>obj tag ty. keeps (f obj tag ty)) \<Longrightarrow> keeps (with_control e tid f)"
  unfolding with_control_def by (intro keeps_intro)

lemma keeps_add_target [keeps_intro]: "keeps (add_target e backend node meta)"
  by (simp add: keeps_def add_target_def same_auth_def Let_def)

lemma keeps_find_item [keeps_intro]: "keeps (find_item e p)"
  unfolding find_item_def by (intro keeps_intro)

lemma keeps_find_items [keeps_intro]: "keeps (find_items e ps)"
  by (induction e ps rule: find_items.induct) (simp_all add: keeps_intro)

lemma keeps_navigate: "keeps (navigate e v)"
proof -
  have "keeps (navigate e v) \<longleftrightarrow> (\<forall>b. same_auth b (fst (navigate e v b)))" by (rule keeps_def)
  moreover have "same_auth b (fst (navigate e v b))" for b
  proof (cases "validate_url v")
    case (Inr url)
    have "keeps (when_running e ''Browser is not running. Use START_BROWSER first.''
            (bk_bind (bk_put (\<lambda>b. b\<lparr>bk_state := B_NAVIGATING, bk_last_url := Some url\<rparr>)) (\<lambda>_.
             bk_catch
               (bk_bind (cdp_request e ''Page.navigate'' [(''url'', JStr url)]) (\<lambda>_.
                bk_bind (bk_put (\<lambda>b. b\<lparr>bk_state := B_RUNNING\<rparr>)) (\<lambda>_.
                bk_return (JObj [(''status'', JStr ''ok''), (''browser_state'', state_json B_RUNNING), (''url'', JStr url)]))))
               (\<lambda>x. bk_bind (bk_put (\<lambda>b. b\<lparr>bk_state := B_FAILED\<rparr>)) (\<lambda>_.
                bk_return (error_json (''CDP navigate failed: '' @ str_exn x)))))))"
      by (intro keeps_intro)
    then show ?thesis by (simp add: navigate_def Inr keeps_def)
  qed (simp add: navigate_def)
  ultimately show ?thesis by blast
qed

lemma keeps_page_operations:
  "keeps (navigate_action e action)" "keeps (click e tid)" "keeps (type_text e tid text)" "keeps (fill_text e tid text)"
  "keeps (clear_text e tid)" "keeps (select_option e tid opt)" "keeps (check_box e tid)" "keeps (uncheck_box e tid)"
  "keeps (find_elements e query)"
  unfolding navigate_action_def click_def type_text_def fill_text_def clear_text_def select_option_def check_box_def
    uncheck_box_def find_elements_def find_targets_def go_to_entry_def Let_def
  by (intro keeps_intro)+

lemma keeps_window: "keeps (hide_browser e)" "keeps (get_broker_status e)"
  by (auto simp: keeps_def hide_browser_def get_broker_status_def same_auth_def Let_def
      split: sum.splits list.splits option.splits)

end
