(* ===== verification/BrokerSubmit.thy ===== *)
theory BrokerSubmit
  imports Broker
begin

text \<open>
  Governed form submission in the browser broker (runtime/browser/broker_server.py): issuing an
  authorization for a form, consuming it to submit, and the interceptor that lets a request with side
  effects through only for an armed submission. Clients are served by threads and the interceptor
  runs in its own, so the phases of a submission are steps between which others may happen.
\<close>

section \<open>Issuing an authorization\<close>

text \<open>The identifiers of the frames of a frame tree, the tree first.\<close>

lemma size_child:
  assumes "dict_get kvs k = Some v"
  shows "size v < size (JObj kvs)"
proof -
  have "(k, v) \<in> set kvs" using assms by (rule map_of_SomeD)
  then have "size_prod (\<lambda>_. 0) size (k, v) \<le> size_list (size_prod (\<lambda>_. 0) size) kvs"
    by (rule size_list_estimation') simp
  then show ?thesis by simp
qed

function frames_of :: "json \<Rightarrow> json list result" and frames_in :: "json list \<Rightarrow> json list result" where
  "frames_of t =
     and_then (and_then (item_of t ''frame'') (\<lambda>f. item_of f ''id'')) (\<lambda>i.
       case t of
         JObj kvs \<Rightarrow>
           (case dict_get kvs ''childFrames'' of
              Some (JList cs) \<Rightarrow> and_then (frames_in cs) (\<lambda>is. Inr (i # is))
            | None \<Rightarrow> Inr [i]
            | Some v \<Rightarrow> Inl (TypeError (quoted (py_class v) @ '' object is not iterable'')))
       | _ \<Rightarrow> Inr [i])"
| "frames_in [] = Inr []"
| "frames_in (t # ts) = and_then (frames_of t) (\<lambda>is. and_then (frames_in ts) (\<lambda>js. Inr (is @ js)))"
  by pat_completeness auto
termination
  by (relation "measure (\<lambda>x. case x of Inl t \<Rightarrow> size t | Inr ts \<Rightarrow> size_list size ts)")
     (auto dest: size_child)

definition probe_frame :: "browser_env \<Rightarrow> string \<Rightarrow> json \<Rightarrow> (bool \<times> json) brk" where
  "probe_frame e token fid =
     bk_bind (cdp_request e ''Page.createIsolatedWorld'' [(''frameId'', fid), (''worldName'', JStr ''anny_auth'')]) (\<lambda>w.
     bk_bind (bk_lift (item_of w ''executionContextId'')) (\<lambda>ctx.
     bk_bind (cdp_request e ''Runtime.evaluate'' [(''contextId'', ctx), (''expression'', script ''read_token'' [])]) (\<lambda>res.
     bk_bind (bk_lift (and_then (get_of res ''result'' (JObj [])) (\<lambda>r. get_of r ''value'' JNull))) (\<lambda>v.
     bk_return (v = JStr token, ctx)))))"

text \<open>
  The frame that carries the token. A frame whose probe raises is skipped; when removing the token
  raises, the search goes on with that frame found.
\<close>

fun find_frame :: "browser_env \<Rightarrow> string \<Rightarrow> json list \<Rightarrow> json \<Rightarrow> json brk" where
  "find_frame e token [] found = bk_return found"
| "find_frame e token (f # fs) found = (\<lambda>b.
     case probe_frame e token f b of
       (b1, Inl _) \<Rightarrow> find_frame e token fs found b1
     | (b1, Inr (False, _)) \<Rightarrow> find_frame e token fs found b1
     | (b1, Inr (True, ctx)) \<Rightarrow>
         (case cdp_request e ''Runtime.evaluate'' [(''contextId'', ctx), (''expression'', script ''remove_token'' [])] b1 of
            (b2, Inl _) \<Rightarrow> find_frame e token fs f b2
          | (b2, Inr _) \<Rightarrow> (b2, Inr f)))"

definition form_frame :: "browser_env \<Rightarrow> json \<Rightarrow> json brk" where
  "form_frame e obj b0 =
     (let token = be_uuid e (bk_msg_id b0)
      in bk_bind (cdp_request e ''Runtime.callFunctionOn''
              [(''objectId'', obj), (''functionDeclaration'', script ''set_token'' [(''token'', JStr token)])]) (\<lambda>_.
         bk_bind (cdp_request e ''Page.getFrameTree'' []) (\<lambda>tree.
         bk_bind (bk_lift (and_then (item_of tree ''frameTree'') frames_of)) (\<lambda>fs.
         find_frame e token fs (JStr [])))) b0)"

text \<open>The new authorization of the form; \<open>life\<close> is the time it lasts, or what adding it to the clock raises.\<close>

definition store_authorization ::
  "browser_env \<Rightarrow> string \<Rightarrow> string \<Rightarrow> instant result \<Rightarrow> json \<Rightarrow> json \<Rightarrow> json brk" where
  "store_authorization e tid sid life v frame b =
     (case and_then life (\<lambda>n. and_then (item_of v ''method'') (\<lambda>m. and_then (item_of v ''action'') (\<lambda>u. Inr (n, m, u)))) of
        Inl x \<Rightarrow> (b, Inl x)
      | Inr (n, m, u) \<Rightarrow>
          let aid = be_uuid e (bk_msg_id b)
          in (b\<lparr>bk_issued := dict_set (bk_issued b) aid
                 \<lparr>ia_target = tid, ia_session = sid, ia_expires_at = be_now e (bk_msg_id b) + n,
                  ia_method = m, ia_url = u, ia_frame = frame\<rparr>\<rparr>,
              Inr (JObj [(''status'', JStr ''ok''), (''auth_id'', JStr aid)])))"

text \<open>Everything before an authorization is stored: a refusal, or the description of the form with its frame.\<close>

definition describe_form :: "browser_env \<Rightarrow> json \<Rightarrow> (json + json \<times> json) brk" where
  "describe_form e obj =
     bk_bind (form_frame e obj) (\<lambda>frame.
     if \<not> truthy frame then bk_return (Inl (error_json ''FRAME_IDENTITY_MISSING''))
     else bk_bind (call_on e obj (script ''form'' [])) (\<lambda>res.
          bk_bind (bk_lift (script_raised e res)) (\<lambda>x.
          case x of
            Some m \<Rightarrow> bk_return (Inl (error_json m))
          | None \<Rightarrow>
              bk_bind (bk_lift (script_value res)) (\<lambda>v.
              bk_bind (bk_lift (value_error v)) (\<lambda>er.
              bk_return (case er of Some m \<Rightarrow> Inl (error_value m) | None \<Rightarrow> Inr (v, frame)))))))"

definition issue_auth :: "browser_env \<Rightarrow> string \<Rightarrow> string \<Rightarrow> instant result \<Rightarrow> json brk" where
  "issue_auth e tid sid life =
     when_running e ''Browser is not running.'' (with_target tid (\<lambda>t b.
       if bk_session b \<noteq> Some sid then (b, Inr (error_json ''AUTHORIZATION_SESSION_MISMATCH''))
       else bk_bind (target_object e t) (\<lambda>obj.
            case obj of
              None \<Rightarrow> bk_return (error_json ''TARGET_STALE'')
            | Some o1 \<Rightarrow>
                bk_bind (describe_form e o1) (\<lambda>d.
                case d of
                  Inl r \<Rightarrow> bk_return r
                | Inr (v, frame) \<Rightarrow> store_authorization e tid sid life v frame)) b))"

section \<open>Submitting\<close>

definition submit_refusal :: "string \<Rightarrow> json \<Rightarrow> json" where
  "submit_refusal m tid =
     JObj [(''status'', JStr ''error''), (''message'', JStr m),
           (''action'', JObj [(''type'', JStr ''submit''), (''target_id'', tid)])]"

definition lookup_authorization :: "browser_broker \<Rightarrow> json \<Rightarrow> (string \<times> issued_authorization) option result" where
  "lookup_authorization b auth =
     (case auth of
        JStr aid \<Rightarrow> Inr (map_option (Pair aid) (dict_get (bk_issued b) aid))
      | JList _ \<Rightarrow> Inl (TypeError (''unhashable type: '' @ quoted ''list''))
      | JObj _ \<Rightarrow> Inl (TypeError (''unhashable type: '' @ quoted ''dict''))
      | _ \<Rightarrow> Inr None)"

text \<open>The authorization boundary: a refusal, or the consumed authorization.\<close>

definition submit_check :: "browser_env \<Rightarrow> json \<Rightarrow> json \<Rightarrow> (json + pending_submission) brk" where
  "submit_check e tid auth b =
     (if \<not> running e b then (b, Inr (Inl (error_json ''Browser is not running.'')))
      else if \<not> truthy auth then (b, Inr (Inl (submit_refusal ''MISSING_AUTHORIZATION'' tid)))
      else case lookup_authorization b auth of
          Inl x \<Rightarrow> (b, Inl x)
        | Inr None \<Rightarrow> (b, Inr (Inl (submit_refusal ''INVALID_AUTHORIZATION'' tid)))
        | Inr (Some (aid, a)) \<Rightarrow>
            if Some (ia_session a) \<noteq> bk_session b
            then (b, Inr (Inl (submit_refusal ''AUTHORIZATION_SESSION_MISMATCH'' tid)))
            else if JStr (ia_target a) \<noteq> tid
            then (b, Inr (Inl (submit_refusal ''AUTHORIZATION_TARGET_MISMATCH'' tid)))
            else if be_now e (bk_msg_id b) > ia_expires_at a
            then (b, Inr (Inl (submit_refusal ''AUTHORIZATION_EXPIRED'' tid)))
            else (b\<lparr>bk_issued := dict_del (bk_issued b) aid\<rparr>,
                  Inr (Inr \<lparr>ps_auth = aid, ps_authorization = a\<rparr>)))"

definition submit_object :: "browser_env \<Rightarrow> pending_submission \<Rightarrow> json option brk" where
  "submit_object e p b =
     (case current_target b (ia_target (ps_authorization p)) of
        None \<Rightarrow> (b, Inr None)
      | Some t \<Rightarrow> target_object e t b)"

definition arm_submission :: "pending_submission \<Rightarrow> unit brk" where
  "arm_submission p = bk_put (\<lambda>b. b\<lparr>bk_pending := Some p\<rparr>)"

definition disarm :: "json \<Rightarrow> json option brk" where
  "disarm r = bk_bind (bk_put (\<lambda>b. b\<lparr>bk_pending := None\<rparr>)) (\<lambda>_. bk_return (Some r))"

text \<open>The submission in the page: a failure disarms it, an exception leaves it armed.\<close>

definition submit_fire :: "browser_env \<Rightarrow> json \<Rightarrow> json option brk" where
  "submit_fire e obj =
     bk_bind (call_on e obj (script ''submit'' [])) (\<lambda>res.
     bk_bind (bk_lift (script_raised e res)) (\<lambda>x.
     case x of
       Some m \<Rightarrow> disarm (error_json m)
     | None \<Rightarrow>
         bk_bind (bk_lift (script_value res)) (\<lambda>v.
         bk_bind (bk_lift (value_error v)) (\<lambda>er.
         case er of Some m \<Rightarrow> disarm (error_value m) | None \<Rightarrow> bk_return None))))"

text \<open>The URL a poll saw, when the page could be looked at.\<close>

definition polled_url :: "json \<Rightarrow> json option result" where
  "polled_url c =
     and_then (get_of c ''status'' JNull) (\<lambda>st.
       if st = JStr ''ok''
       then and_then (get_of c ''observation'' (JObj [])) (\<lambda>v. and_then (get_of v ''url'' (JStr [])) (\<lambda>u. Inr (Some u)))
       else Inr None)"

text \<open>\<open>while time.time() < deadline\<close>; a loop that never ends is \<open>None\<close>.\<close>

partial_function (option) poll_page ::
  "browser_env \<Rightarrow> instant \<Rightarrow> nat \<Rightarrow> json \<Rightarrow> browser_broker \<Rightarrow> (browser_broker \<times> json result) option" where
  "poll_page e deadline k obs b =
     (if be_tick e k < deadline
      then (case observe_with e ''poll'' b of
              (b1, Inl x) \<Rightarrow> Some (b1, Inl x)
            | (b1, Inr c) \<Rightarrow>
                (case polled_url c of
                   Inl x \<Rightarrow> Some (b1, Inl x)
                 | Inr None \<Rightarrow> poll_page e deadline (Suc k) obs b1
                 | Inr (Some u) \<Rightarrow>
                     if truthy u \<and> u \<noteq> JStr ''about:blank'' then Some (b1, Inr c)
                     else poll_page e deadline (Suc k) c b1))
      else Some (b, Inr obs))"

definition submit_reply :: "pending_submission \<Rightarrow> json \<Rightarrow> json \<Rightarrow> json" where
  "submit_reply p tid obs =
     (let kvs = (case obs of JObj kvs \<Rightarrow> kvs | _ \<Rightarrow> []);
          done = jfield kvs ''status'' JNull = JStr ''ok'';
          a = ps_authorization p
      in JObj ([(''status'', JStr ''ok''),
                (''result'', JStr (if done then ''REQUEST_ACCEPTED'' else ''POST_ACTION_FAILED'')),
                (''action'', JObj [(''type'', JStr ''submit''), (''target_id'', tid), (''authorization_used'', JBool True)]),
                (''request'', JObj [(''method'', ia_method a), (''destination'', ia_url a)])] @
               (if done then [(''observation'', jfield kvs ''observation'' JNull)]
                else [(''observation_error'', jfield kvs ''message'' JNull)])))"

definition poll_after :: "browser_env \<Rightarrow> pending_submission \<Rightarrow> json \<Rightarrow> browser_broker \<Rightarrow> (browser_broker \<times> json result) option" where
  "poll_after e p tid b =
     (case poll_page e (be_tick e 0 + seconds 8) 1 (error_json ''Timed out waiting for post-submission page'') b of
        None \<Rightarrow> None
      | Some (b1, Inl x) \<Rightarrow> Some (b1, Inl x)
      | Some (b1, Inr obs) \<Rightarrow> Some (b1, Inr (submit_reply p tid obs)))"

text \<open>What becomes of a consumed authorization up to the polling: a reply, or on to the polling.\<close>

definition submit_consumed :: "browser_env \<Rightarrow> pending_submission \<Rightarrow> json option brk" where
  "submit_consumed e p =
     bk_bind (submit_object e p) (\<lambda>obj.
     case obj of
       None \<Rightarrow> bk_return (Some (error_json ''TARGET_STALE''))
     | Some o1 \<Rightarrow> bk_bind (arm_submission p) (\<lambda>_. submit_fire e o1))"

definition submit :: "browser_env \<Rightarrow> json \<Rightarrow> json \<Rightarrow> browser_broker \<Rightarrow> (browser_broker \<times> json result) option" where
  "submit e tid auth b =
     (case submit_check e tid auth b of
        (b1, Inl x) \<Rightarrow> Some (b1, Inl x)
      | (b1, Inr (Inl r)) \<Rightarrow> Some (b1, Inr r)
      | (b1, Inr (Inr p)) \<Rightarrow>
          (case submit_consumed e p b1 of
             (b2, Inl x) \<Rightarrow> Some (b2, Inl x)
           | (b2, Inr (Some r)) \<Rightarrow> Some (b2, Inr r)
           | (b2, Inr None) \<Rightarrow> poll_after e p tid b2))"

section \<open>The interceptor\<close>

definition send_cdp_async :: "string \<Rightarrow> (string \<times> json) list \<Rightarrow> browser_broker \<Rightarrow> browser_broker" where
  "send_cdp_async meth params b =
     (if bk_ws b then b\<lparr>bk_msg_id := Suc (bk_msg_id b), bk_calls := bk_calls b @ [(meth, params)]\<rparr> else b)"

definition before_hash :: "json \<Rightarrow> string result" where
  "before_hash v =
     (case v of JStr s \<Rightarrow> Inr (takeWhile (\<lambda>c. c \<noteq> CHR ''#'') s) | _ \<Rightarrow> Inl (no_attribute (py_class v) ''split''))"

text \<open>The body to send on, base64; \<open>None\<close> when there is none.\<close>

definition post_data :: "browser_env \<Rightarrow> (string \<times> json) list \<Rightarrow> json option result" where
  "post_data e req =
     (let plain = (case dict_get req ''postData'' of
                     None \<Rightarrow> Inr None
                   | Some (JStr s) \<Rightarrow> Inr (Some (JStr (be_b64 e s)))
                   | Some v \<Rightarrow> Inl (no_attribute (py_class v) ''encode''))
      in case dict_get req ''postDataEntries'' of
          None \<Rightarrow> plain
        | Some (JList []) \<Rightarrow> plain
        | Some (JList (x # _)) \<Rightarrow> and_then (get_of x ''bytes'' JNull) (\<lambda>v. Inr (Some v))
        | Some v \<Rightarrow> Inl (TypeError (''object of type '' @ quoted (py_class v) @ '' has no len()'')))"

definition pending_matches :: "pending_submission \<Rightarrow> string \<Rightarrow> json \<Rightarrow> json \<Rightarrow> bool result" where
  "pending_matches p meth url frame =
     (let a = ps_authorization p
      in if ia_method a \<noteq> JStr meth then Inr False
         else and_then (before_hash url) (\<lambda>u. and_then (before_hash (ia_url a)) (\<lambda>x.
                Inr (u = x \<and> ia_frame a = frame))))"

definition fail_request :: "json \<Rightarrow> unit brk" where
  "fail_request rid = bk_put (send_cdp_async ''Fetch.failRequest'' [(''requestId'', rid), (''errorReason'', JStr ''AccessDenied'')])"

text \<open>The request goes on for the armed submission, which is used up first.\<close>

definition pass_request ::
  "browser_env \<Rightarrow> pending_submission \<Rightarrow> json \<Rightarrow> (string \<times> json) list \<Rightarrow> string \<Rightarrow> json \<Rightarrow> json \<Rightarrow> unit brk" where
  "pass_request e p rid req meth url frame =
     bk_bind (bk_put (\<lambda>b. b\<lparr>bk_pending := None\<rparr>)) (\<lambda>_.
     bk_bind (bk_lift (post_data e req)) (\<lambda>d.
     bk_bind (bk_put (\<lambda>b. b\<lparr>bk_passed := bk_passed b @
         [\<lparr>lt_auth = ps_auth p, lt_method = meth, lt_url = (case url of JStr s \<Rightarrow> s | _ \<Rightarrow> []), lt_frame = frame\<rparr>]\<rparr>)) (\<lambda>_.
     bk_catch
       (bk_bind (cdp_request e ''Fetch.continueRequest''
            ((''requestId'', rid) # (case d of Some v \<Rightarrow> if truthy v then [(''postData'', v)] else [] | None \<Rightarrow> []))) (\<lambda>_.
        bk_return ()))
       (\<lambda>_. bk_return ()))))"

definition guard_request ::
  "browser_env \<Rightarrow> json \<Rightarrow> (string \<times> json) list \<Rightarrow> string \<Rightarrow> json \<Rightarrow> json \<Rightarrow> unit brk" where
  "guard_request e rid req meth url frame b =
     (case bk_pending b of
        None \<Rightarrow> fail_request rid b
      | Some p \<Rightarrow>
          (case pending_matches p meth url frame of
             Inl x \<Rightarrow> (b, Inl x)
           | Inr True \<Rightarrow> pass_request e p rid req meth url frame b
           | Inr False \<Rightarrow> fail_request rid b))"

definition safe_methods :: "string list" where
  "safe_methods = [''GET'', ''HEAD'', ''OPTIONS'']"

text \<open>A paused request; an exception ends the thread that listens.\<close>

definition handle_event :: "browser_env \<Rightarrow> (string \<times> json) list \<Rightarrow> unit brk" where
  "handle_event e event =
     (if jfield event ''method'' JNull \<noteq> JStr ''Fetch.requestPaused'' then bk_return ()
      else case (jfield event ''params'' (JObj [])) of
          JObj params \<Rightarrow>
            (let rid = jfield params ''requestId'' JNull
             in case jfield params ''request'' (JObj []) of
                 JObj req \<Rightarrow>
                   bk_bind (bk_lift (upper_of (jfield req ''method'' (JStr [])))) (\<lambda>meth.
                   if meth \<in> set safe_methods
                   then bk_put (send_cdp_async ''Fetch.continueRequest'' [(''requestId'', rid)])
                   else guard_request e rid req meth (jfield req ''url'' JNull) (jfield params ''frameId'' (JStr [])))
               | v \<Rightarrow> bk_raise (no_attribute (py_class v) ''get''))
        | v \<Rightarrow> bk_raise (no_attribute (py_class v) ''get''))"

text \<open>
  The listener over the messages that come in (\<open>None\<close> when receiving fails or the connection ends);
  a reply is handed to the request that waits for it, which the replies of the environment stand for.
  It stops for good at the first exception.
\<close>

fun listen :: "browser_env \<Rightarrow> json option list \<Rightarrow> browser_broker \<Rightarrow> browser_broker \<times> bool" where
  "listen e [] b = (b, True)"
| "listen e (None # ms) b = (b, False)"
| "listen e (Some (JObj kvs) # ms) b =
     (if ''method'' \<in> set (dict_keys kvs) \<and> ''id'' \<notin> set (dict_keys kvs)
      then (case handle_event e kvs b of (b1, Inl _) \<Rightarrow> (b1, False) | (b1, Inr _) \<Rightarrow> listen e ms b1)
      else listen e ms b)"
| "listen e (Some v # ms) b = (b, False)"

section \<open>All that can happen\<close>

datatype page_op =
    Navigate json
  | Navigate_action json
  | Observe
  | Find "(string \<times> json) list"
  | Click string
  | Type_text string json
  | Fill_text string json
  | Clear_text string
  | Select_option string json
  | Check_box string
  | Uncheck_box string
  | Hide
  | Status

fun page_apply :: "browser_env \<Rightarrow> page_op \<Rightarrow> json brk" where
  "page_apply e (Navigate u) = navigate e u"
| "page_apply e (Navigate_action a) = navigate_action e a"
| "page_apply e Observe = observe e"
| "page_apply e (Find q) = find_elements e q"
| "page_apply e (Click t) = click e t"
| "page_apply e (Type_text t x) = type_text e t x"
| "page_apply e (Fill_text t x) = fill_text e t x"
| "page_apply e (Clear_text t) = clear_text e t"
| "page_apply e (Select_option t x) = select_option e t x"
| "page_apply e (Check_box t) = check_box e t"
| "page_apply e (Uncheck_box t) = uncheck_box e t"
| "page_apply e Hide = hide_browser e"
| "page_apply e Status = get_broker_status e"

lemma page_keeps: "keeps (page_apply e op)"
  by (cases op) (simp_all add: keeps_navigate keeps_page_operations keeps_window keeps_observe)

text \<open>
  A submission under way: its authorization is consumed, or it is armed with the object it will be
  submitted on. The history holds every authorization that was ever issued.
\<close>

datatype flight = Consumed pending_submission | Armed pending_submission json

record submission_world =
  sw_broker :: browser_broker
  sw_flights :: "flight list"
  sw_history :: "(string \<times> issued_authorization) list"

definition flight_ids :: "flight list \<Rightarrow> string list" where
  "flight_ids fs = concat (map (\<lambda>f. case f of Consumed p \<Rightarrow> [ps_auth p] | Armed _ _ \<Rightarrow> []) fs)"

definition pending_ids :: "browser_broker \<Rightarrow> string list" where
  "pending_ids b = (case bk_pending b of None \<Rightarrow> [] | Some p \<Rightarrow> [ps_auth p])"

text \<open>The identifiers that can still be used, or were.\<close>

definition live_ids :: "submission_world \<Rightarrow> string list" where
  "live_ids s =
     dict_keys (bk_issued (sw_broker s)) @ flight_ids (sw_flights s) @ pending_ids (sw_broker s) @
     map lt_auth (bk_passed (sw_broker s))"

text \<open>
  The steps. Operations on the page, starting, stopping and restarting the browser happen whole, as
  does issuing an authorization, under a name that is not in use; a submission consumes its
  authorization, is armed, and fires, with anything in between; events come at any time.
\<close>

inductive broker_step :: "submission_world \<Rightarrow> submission_world \<Rightarrow> bool" where
  page: "broker_step s (s\<lparr>sw_broker := fst (page_apply e op (sw_broker s))\<rparr>)"
| starts: "broker_step s (s\<lparr>sw_broker := fst (start_browser e url (sw_broker s))\<rparr>)"
| stops: "broker_step s (s\<lparr>sw_broker := fst (stop_browser e (sw_broker s))\<rparr>)"
| restarts: "broker_step s (s\<lparr>sw_broker := fst (restart_browser e (sw_broker s))\<rparr>)"
| issues: "(\<forall>i. be_uuid e i \<notin> set (live_ids s)) \<Longrightarrow>
     b' = fst (issue_auth e tid sid life (sw_broker s)) \<Longrightarrow>
     broker_step s (s\<lparr>sw_broker := b', sw_history := sw_history s @ drop (length (bk_issued (sw_broker s))) (bk_issued b')\<rparr>)"
| consumes: "submit_check e tid auth (sw_broker s) = (b', Inr (Inr p)) \<Longrightarrow>
     broker_step s (s\<lparr>sw_broker := b', sw_flights := sw_flights s @ [Consumed p]\<rparr>)"
| arms: "sw_flights s = fs @ Consumed p # gs \<Longrightarrow> submit_object e p (sw_broker s) = (b', Inr (Some obj)) \<Longrightarrow>
     broker_step s (s\<lparr>sw_broker := fst (arm_submission p b'), sw_flights := fs @ Armed p obj # gs\<rparr>)"
| goes_stale: "sw_flights s = fs @ Consumed p # gs \<Longrightarrow> submit_object e p (sw_broker s) = (b', r) \<Longrightarrow>
     (\<forall>obj. r \<noteq> Inr (Some obj)) \<Longrightarrow> broker_step s (s\<lparr>sw_broker := b', sw_flights := fs @ gs\<rparr>)"
| fires: "sw_flights s = fs @ Armed p obj # gs \<Longrightarrow>
     broker_step s (s\<lparr>sw_broker := fst (submit_fire e obj (sw_broker s)), sw_flights := fs @ gs\<rparr>)"
| event: "broker_step s (s\<lparr>sw_broker := fst (handle_event e ev (sw_broker s))\<rparr>)"

definition submission_start :: "string \<Rightarrow> submission_world" where
  "submission_start profile = \<lparr>sw_broker = broker_init profile, sw_flights = [], sw_history = []\<rparr>"

section \<open>The invariant\<close>

text \<open>
  No identifier is in two places, and everything that is or was usable comes from the history; what
  was let through agrees with its authorization.
\<close>

definition agrees :: "(string \<times> issued_authorization) list \<Rightarrow> let_through \<Rightarrow> bool" where
  "agrees h l \<longleftrightarrow>
     (\<exists>a. (lt_auth l, a) \<in> set h \<and> ia_method a = JStr (lt_method l) \<and> ia_frame a = lt_frame l \<and>
        before_hash (ia_url a) = before_hash (JStr (lt_url l)))"

definition backed :: "(string \<times> issued_authorization) list \<Rightarrow> pending_submission \<Rightarrow> bool" where
  "backed h p \<longleftrightarrow> (ps_auth p, ps_authorization p) \<in> set h"

definition flight_pending :: "flight \<Rightarrow> pending_submission" where
  "flight_pending f = (case f of Consumed p \<Rightarrow> p | Armed p _ \<Rightarrow> p)"

definition submission_inv :: "submission_world \<Rightarrow> bool" where
  "submission_inv s \<longleftrightarrow>
     distinct (live_ids s) \<and>
     set (bk_issued (sw_broker s)) \<subseteq> set (sw_history s) \<and>
     (\<forall>f \<in> set (sw_flights s). backed (sw_history s) (flight_pending f)) \<and>
     (\<forall>p. bk_pending (sw_broker s) = Some p \<longrightarrow> backed (sw_history s) p) \<and>
     (\<forall>l \<in> set (bk_passed (sw_broker s)). agrees (sw_history s) l)"

lemma flight_ids_simps [simp]:
  "flight_ids [] = []" "flight_ids (Consumed p # fs) = ps_auth p # flight_ids fs"
  "flight_ids (Armed p o1 # fs) = flight_ids fs" "flight_ids (fs @ gs) = flight_ids fs @ flight_ids gs"
  by (simp_all add: flight_ids_def)

lemma same_auth_inv:
  assumes "submission_inv s" and "same_auth (sw_broker s) b"
  shows "submission_inv (s\<lparr>sw_broker := b\<rparr>)"
  using assms by (simp add: submission_inv_def live_ids_def pending_ids_def same_auth_def)

text \<open>Losing authorizations, the pending submission or a submission under way never hurts.\<close>

lemma submission_inv_less:
  assumes "submission_inv s" and "bk_passed b = bk_passed (sw_broker s)"
    and "bk_pending b = None \<or> bk_pending b = bk_pending (sw_broker s)"
    and "bk_issued b = [] \<or> bk_issued b = bk_issued (sw_broker s)"
  shows "submission_inv (s\<lparr>sw_broker := b\<rparr>)"
proof -
  have d: "distinct (live_ids s)" using assms(1) by (simp add: submission_inv_def)
  have "distinct (live_ids (s\<lparr>sw_broker := b\<rparr>))"
    using assms(3,4) d
    by (elim disjE) (simp_all add: live_ids_def pending_ids_def assms(2) Int_Un_distrib Int_Un_distrib2)
  then show ?thesis
    using assms by (simp add: submission_inv_def) (elim disjE; simp)
qed

lemma start_same:
  assumes "start_browser e url b = (b', r)"
  shows "bk_passed b' = bk_passed b \<and> (bk_pending b' = None \<or> bk_pending b' = bk_pending b) \<and>
    (bk_issued b' = [] \<or> bk_issued b' = bk_issued b)"
  using assms by (auto simp: start_browser_def launch_chrome_def fresh_session_def Let_def split: sum.splits if_splits option.splits)

lemma stop_same:
  assumes "stop_browser e b = (b', r)"
  shows "bk_passed b' = bk_passed b \<and> (bk_pending b' = None \<or> bk_pending b' = bk_pending b) \<and>
    (bk_issued b' = [] \<or> bk_issued b' = bk_issued b)"
  using assms by (auto simp: stop_browser_def fresh_session_def Let_def split: if_splits)

lemma restart_browser_same:
  assumes "restart_browser e b = (b', r)"
  shows "bk_passed b' = bk_passed b \<and> (bk_pending b' = None \<or> bk_pending b' = bk_pending b) \<and>
    (bk_issued b' = [] \<or> bk_issued b' = bk_issued b)"
proof (cases "truthy_str (bk_last_url b)")
  case True
  obtain b1 r1 where stop: "stop_browser e b = (b1, r1)" by fastforce
  obtain b2 r2 where start: "start_browser e (JStr (the (bk_last_url b))) b1 = (b2, r2)" by fastforce
  have "b' = b1 \<or> b' = b2"
    using assms True stop start by (auto simp: restart_browser_def bk_bind_def split: sum.splits)
  then show ?thesis using stop_same [OF stop] start_same [OF start] by auto
qed (use assms in \<open>simp add: restart_browser_def\<close>)

section \<open>What each step does to the authorizations\<close>

lemma bind_cases:
  assumes "keeps m" and "bk_bind m f b = (b', r)"
  obtains "same_auth b b'" | b1 v where "same_auth b b1" and "f v b1 = (b', r)"
proof -
  obtain b1 x where m: "m b = (b1, x)" by fastforce
  then have "same_auth b b1" using assms(1) keepsD by blast
  then show ?thesis using assms(2) that m by (cases x) (auto simp: bk_bind_def)
qed

lemma keeps_probe [keeps_intro]: "keeps (probe_frame e token f)"
  unfolding probe_frame_def by (intro keeps_intro)

lemma keeps_find_frame [keeps_intro]: "keeps (find_frame e token fs found)"
proof (induction fs arbitrary: found)
  case (Cons f fs)
  have IH: "same_auth b (fst (find_frame e token fs g b))" for g b using Cons by (simp add: keeps_def)
  have "same_auth b (fst (find_frame e token (f # fs) found b))" for b
  proof -
    obtain b1 x where p: "probe_frame e token f b = (b1, x)" by fastforce
    then have s1: "same_auth b b1" using keeps_probe keepsD by blast
    obtain b2 z where q: "cdp_request e ''Runtime.evaluate''
        [(''contextId'', snd (projr x)), (''expression'', script ''remove_token'' [])] b1 = (b2, z)" by fastforce
    then have s2: "same_auth b1 b2" using keeps_cdp keepsD by blast
    show ?thesis
      using s1 s2 p q IH same_auth_trans [OF s1 IH] same_auth_trans [OF same_auth_trans [OF s1 s2] IH]
        same_auth_trans [OF s1 s2]
      by (cases x; cases z) (auto split: prod.splits bool.splits)
  qed
  then show ?case by (simp add: keeps_def)
qed (simp add: keeps_intro)

lemma keeps_form_frame [keeps_intro]: "keeps (form_frame e obj)"
proof -
  have "keeps (bk_bind (cdp_request e ''Runtime.callFunctionOn''
              [(''objectId'', obj), (''functionDeclaration'', script ''set_token'' [(''token'', JStr token)])]) (\<lambda>_.
         bk_bind (cdp_request e ''Page.getFrameTree'' []) (\<lambda>tree.
         bk_bind (bk_lift (and_then (item_of tree ''frameTree'') frames_of)) (\<lambda>fs.
         find_frame e token fs (JStr [])))))" for token
    by (intro keeps_intro)
  then show ?thesis by (simp add: keeps_def form_frame_def Let_def)
qed

lemma keeps_describe [keeps_intro]: "keeps (describe_form e obj)"
  unfolding describe_form_def by (intro keeps_intro)

lemma store_effect:
  assumes "store_authorization e tid sid x v frame b = (b', r)"
  shows "b' = b \<or> (\<exists>i a. b' = b\<lparr>bk_issued := dict_set (bk_issued b) (be_uuid e i) a\<rparr>)"
  using assms by (auto simp: store_authorization_def Let_def split: sum.splits prod.splits)

lemma issue_effect:
  assumes "issue_auth e tid sid x b = (b', r)"
  shows "same_auth b b' \<or>
    (\<exists>b1 i a. same_auth b b1 \<and> b' = b1\<lparr>bk_issued := dict_set (bk_issued b1) (be_uuid e i) a\<rparr>)"
proof (cases "running e b \<and> bk_session b = Some sid")
  case False
  then show ?thesis using assms
    by (auto simp: issue_auth_def when_running_def with_target_def split: option.splits if_splits)
next
  case True
  show ?thesis
  proof (cases "current_target b tid")
    case (Some t)
    have "bk_bind (target_object e t) (\<lambda>obj.
            case obj of
              None \<Rightarrow> bk_return (error_json ''TARGET_STALE'')
            | Some o1 \<Rightarrow>
                bk_bind (describe_form e o1) (\<lambda>d.
                case d of
                  Inl r \<Rightarrow> bk_return r
                | Inr (v, frame) \<Rightarrow> store_authorization e tid sid x v frame)) b = (b', r)"
      using assms True Some by (simp add: issue_auth_def when_running_def with_target_def)
    then show ?thesis
    proof (rule bind_cases [rotated])
      show "keeps (target_object e t)" by (rule keeps_target_object)
    next
      fix b1 obj
      assume s1: "same_auth b b1"
        and rest: "(case obj of None \<Rightarrow> bk_return (error_json ''TARGET_STALE'')
            | Some o1 \<Rightarrow> bk_bind (describe_form e o1) (\<lambda>d.
                case d of Inl r \<Rightarrow> bk_return r
                | Inr (v, frame) \<Rightarrow> store_authorization e tid sid x v frame)) b1 = (b', r)"
      show ?thesis
      proof (cases obj)
        case None
        then show ?thesis using rest s1 by (simp add: bk_return_def)
      next
        case (Some o1)
        show ?thesis
          using rest unfolding Some option.case
        proof (rule bind_cases [rotated])
          show "keeps (describe_form e o1)" by (rule keeps_describe)
        next
          assume "same_auth b1 b'"
          then show ?thesis using s1 same_auth_trans by blast
        next
          fix b2 d
          assume "same_auth b1 b2"
            and last: "(case d of Inl r \<Rightarrow> bk_return r
                | Inr (v, frame) \<Rightarrow> store_authorization e tid sid x v frame) b2 = (b', r)"
          then have "same_auth b b2" using s1 same_auth_trans by blast
          then show ?thesis
            using last store_effect [of e tid sid x _ _ b2 b' r]
            by (fastforce simp: bk_return_def split: sum.splits prod.splits)
        qed
      qed
    qed simp
  qed (use assms True in \<open>simp add: issue_auth_def when_running_def with_target_def\<close>)
qed

lemma keeps_submit_object: "keeps (submit_object e p)"
proof -
  have "same_auth b (fst (submit_object e p b))" for b
    using keeps_target_object by (auto simp: submit_object_def keeps_def split: option.splits)
  then show ?thesis by (simp add: keeps_def)
qed

lemma fire_effect:
  assumes "submit_fire e obj b = (b', r)"
  shows "bk_passed b' = bk_passed b \<and> bk_issued b' = bk_issued b \<and> (bk_pending b' = None \<or> bk_pending b' = bk_pending b)"
proof -
  have d: "bk_passed b2 = bk_passed b1 \<and> bk_issued b2 = bk_issued b1 \<and> bk_pending b2 = None" if "disarm v b1 = (b2, x)" for v b1 b2 x
    using that by (auto simp: disarm_def bk_bind_def bk_put_def bk_return_def)
  obtain b1 x where m: "call_on e obj (script ''submit'' []) b = (b1, x)" by fastforce
  then have s: "same_auth b b1" using keeps_call keepsD by blast
  have "b' = b1 \<or> (\<exists>v x. disarm v b1 = (b', x))"
    using assms m
    by (auto simp: submit_fire_def bk_bind_def bk_lift_def bk_return_def split: sum.splits option.splits)
  then show ?thesis using s d by (auto simp: same_auth_def)
qed

lemma matches_agree:
  assumes "pending_matches p meth url frame = Inr True" and "backed h p"
  shows "agrees h \<lparr>lt_auth = ps_auth p, lt_method = meth, lt_url = (case url of JStr s \<Rightarrow> s | _ \<Rightarrow> []), lt_frame = frame\<rparr>"
  unfolding agrees_def
  using assms
  by (intro exI [of _ "ps_authorization p"])
     (auto simp: pending_matches_def backed_def before_hash_def Let_def and_then_Inr_iff split: if_splits json.splits)

lemma async_same: "same_auth b (send_cdp_async m ps b)"
  by (simp add: send_cdp_async_def same_auth_def)

definition same_launch :: "browser_broker \<Rightarrow> browser_broker \<Rightarrow> bool" where
  "same_launch b b' \<longleftrightarrow> bk_launched b' = bk_launched b \<and> bk_profile_dir b' = bk_profile_dir b"

text \<open>A request is let through at most for the armed submission, which is gone afterwards.\<close>

lemma pass_effect:
  assumes "pass_request e p rid req meth url frame b = (b', r)"
  shows "bk_issued b' = bk_issued b \<and> bk_pending b' = None \<and> same_launch b b' \<and>
    (bk_passed b' = bk_passed b \<or>
     bk_passed b' = bk_passed b @ [\<lparr>lt_auth = ps_auth p, lt_method = meth,
        lt_url = (case url of JStr s \<Rightarrow> s | _ \<Rightarrow> []), lt_frame = frame\<rparr>])"
proof (cases "post_data e req")
  case (Inl x)
  then show ?thesis using assms by (auto simp: pass_request_def bk_bind_def bk_put_def bk_lift_def same_launch_def)
next
  case (Inr d)
  let ?b = "b\<lparr>bk_pending := None, bk_passed := bk_passed b @ [\<lparr>lt_auth = ps_auth p, lt_method = meth,
        lt_url = (case url of JStr s \<Rightarrow> s | _ \<Rightarrow> []), lt_frame = frame\<rparr>]\<rparr>"
  let ?m = "bk_catch (bk_bind (cdp_request e ''Fetch.continueRequest''
            ((''requestId'', rid) # (case d of Some v \<Rightarrow> if truthy v then [(''postData'', v)] else [] | None \<Rightarrow> []))) (\<lambda>_.
        bk_return ())) (\<lambda>_. bk_return ())"
  have "keeps ?m" by (intro keeps_intro)
  then have "same_auth ?b b'"
    using assms Inr keepsD [of ?m ?b b' r] by (simp add: pass_request_def bk_bind_def bk_put_def bk_lift_def)
  then show ?thesis by (simp add: same_auth_def same_launch_def)
qed

lemma event_effect:
  assumes "handle_event e ev b = (b', r)"
  shows "same_auth b b' \<or>
    (\<exists>p. bk_pending b = Some p \<and> bk_issued b' = bk_issued b \<and> bk_pending b' = None \<and> same_launch b b' \<and>
       (bk_passed b' = bk_passed b \<or>
        (\<exists>meth url frame. pending_matches p meth url frame = Inr True \<and> meth \<notin> set safe_methods \<and>
           bk_passed b' = bk_passed b @ [\<lparr>lt_auth = ps_auth p, lt_method = meth,
              lt_url = (case url of JStr s \<Rightarrow> s | _ \<Rightarrow> []), lt_frame = frame\<rparr>])))"
proof -
  have fails: "same_auth b b'" if "fail_request rid b = (b', r)" for rid
    using that async_same by (auto simp: fail_request_def bk_put_def)
  have guard: ?thesis if g: "guard_request e rid req meth url frame b = (b', r)" and m: "meth \<notin> set safe_methods"
    for rid req meth url frame
  proof (cases "bk_pending b")
    case None
    then show ?thesis using g fails by (simp add: guard_request_def)
  next
    case (Some p)
    show ?thesis
    proof (cases "pending_matches p meth url frame")
      case (Inl x)
      then show ?thesis using g Some by (simp add: guard_request_def)
    next
      case (Inr ok)
      then show ?thesis
        using g Some m fails pass_effect [of e p rid req meth url frame b b' r]
        by (cases ok) (auto simp: guard_request_def)
    qed
  qed
  show ?thesis
  proof (cases "\<exists>params req. jfield ev ''params'' (JObj []) = JObj params \<and>
      jfield params ''request'' (JObj []) = JObj req \<and> jfield ev ''method'' JNull = JStr ''Fetch.requestPaused''")
    case True
    then obtain params req where ev: "jfield ev ''params'' (JObj []) = JObj params"
        "jfield params ''request'' (JObj []) = JObj req" "jfield ev ''method'' JNull = JStr ''Fetch.requestPaused''"
      by blast
    show ?thesis
    proof (cases "upper_of (jfield req ''method'' (JStr []))")
      case (Inl x)
      then show ?thesis using assms ev by (simp add: handle_event_def bk_bind_def bk_lift_def Let_def)
    next
      case (Inr meth)
      show ?thesis
      proof (cases "meth \<in> set safe_methods")
        case True
        then show ?thesis
          using assms ev Inr async_same by (auto simp: handle_event_def bk_bind_def bk_lift_def bk_put_def Let_def)
      next
        case False
        then show ?thesis
          using assms ev Inr guard by (simp add: handle_event_def bk_bind_def bk_lift_def Let_def)
      qed
    qed
  next
    case False
    then have "b' = b" using assms
      by (auto simp: handle_event_def bk_return_def bk_raise_def Let_def split: if_splits json.splits)
    then show ?thesis by simp
  qed
qed

lemma backed_mono: "backed h p \<Longrightarrow> backed (h @ k) p"
  by (simp add: backed_def)

lemma agrees_mono: "agrees h l \<Longrightarrow> agrees (h @ k) l"
  unfolding agrees_def set_append by blast

lemma check_effect:
  assumes "submit_check e tid auth b = (b', Inr (Inr p))"
  shows "b' = b\<lparr>bk_issued := dict_del (bk_issued b) (ps_auth p)\<rparr> \<and>
    dict_get (bk_issued b) (ps_auth p) = Some (ps_authorization p) \<and>
    be_now e (bk_msg_id b) \<le> ia_expires_at (ps_authorization p) \<and>
    Some (ia_session (ps_authorization p)) = bk_session b \<and> JStr (ia_target (ps_authorization p)) = tid"
  using assms
  by (auto simp: submit_check_def lookup_authorization_def split: if_splits sum.splits option.splits json.splits)

lemma keys_del: "distinct (dict_keys d) \<Longrightarrow> distinct (dict_keys (dict_del d k)) \<and> set (dict_keys (dict_del d k)) \<subseteq> set (dict_keys d) - {k}"
  by (induction d) (auto simp: AList.delete_eq split: if_splits)

lemma set_del_subset: "set (dict_del d k) \<subseteq> set d"
  by (auto simp: AList.delete_eq)

lemma issue_inv:
  assumes "submission_inv s" and "\<forall>i. be_uuid e i \<notin> set (live_ids s)"
    and "b' = fst (issue_auth e tid sid x (sw_broker s))"
  shows "submission_inv (s\<lparr>sw_broker := b',
    sw_history := sw_history s @ drop (length (bk_issued (sw_broker s))) (bk_issued b')\<rparr>)"
proof -
  obtain r where "issue_auth e tid sid x (sw_broker s) = (b', r)" using assms(3) by (metis prod.collapse)
  from issue_effect [OF this] show ?thesis
  proof
    assume same: "same_auth (sw_broker s) b'"
    then have "drop (length (bk_issued (sw_broker s))) (bk_issued b') = []" by (simp add: same_auth_def)
    then show ?thesis using same_auth_inv [OF assms(1) same] by (simp add: submission_inv_def live_ids_def)
  next
    assume "\<exists>b1 i a. same_auth (sw_broker s) b1 \<and> b' = b1\<lparr>bk_issued := dict_set (bk_issued b1) (be_uuid e i) a\<rparr>"
    then obtain b1 i a where s1: "same_auth (sw_broker s) b1"
        and b': "b' = b1\<lparr>bk_issued := dict_set (bk_issued b1) (be_uuid e i) a\<rparr>" by blast
    define k where "k = be_uuid e i"
    have k: "k \<notin> set (live_ids s)" using assms(2) by (simp add: k_def)
    then have "k \<notin> fst ` set (bk_issued b1)" using s1 by (simp add: live_ids_def same_auth_def)
    then have "dict_get (bk_issued b1) k = None" by (simp add: map_of_eq_None_iff)
    then have new: "bk_issued b' = bk_issued (sw_broker s) @ [(k, a)]"
      using s1 b' by (simp add: k_def [symmetric] dict_set_new same_auth_def)
    have rest: "bk_pending b' = bk_pending (sw_broker s)" "bk_passed b' = bk_passed (sw_broker s)"
      using s1 b' by (simp_all add: same_auth_def)
    have d: "distinct (live_ids s)" using assms(1) by (simp add: submission_inv_def)
    have "distinct (live_ids (s\<lparr>sw_broker := b', sw_history := h\<rparr>))" for h
      using d k by (simp add: live_ids_def pending_ids_def new rest)
    then show ?thesis
      using assms(1) by (auto simp: submission_inv_def new rest intro: backed_mono agrees_mono)
  qed
qed

lemma live_ids_consume:
  assumes "distinct (live_ids s)" and "aid \<in> set (dict_keys (bk_issued (sw_broker s)))" and "ps_auth p = aid"
  shows "distinct (live_ids (s\<lparr>sw_broker := (sw_broker s)\<lparr>bk_issued := dict_del (bk_issued (sw_broker s)) aid\<rparr>,
    sw_flights := sw_flights s @ [Consumed p]\<rparr>))"
proof -
  define ks where "ks = dict_keys (bk_issued (sw_broker s))"
  define ks' where "ks' = dict_keys (dict_del (bk_issued (sw_broker s)) aid)"
  define rest where "rest = pending_ids (sw_broker s) @ map lt_auth (bk_passed (sw_broker s))"
  have d: "distinct (ks @ flight_ids (sw_flights s) @ rest)"
    using assms(1) by (simp add: live_ids_def ks_def rest_def)
  have "distinct ks'" and sub: "set ks' \<subseteq> set ks - {aid}"
    using keys_del [of "bk_issued (sw_broker s)" aid] d by (simp_all add: ks_def ks'_def)
  moreover have "aid \<in> set ks" using assms(2) by (simp add: ks_def)
  ultimately have "distinct (ks' @ (flight_ids (sw_flights s) @ [aid]) @ rest)"
    using d by (simp add: disjoint_iff) blast
  then show ?thesis
    by (simp add: live_ids_def ks'_def rest_def assms(3) pending_ids_def)
qed

lemma consume_inv:
  assumes "submission_inv s" and "submit_check e tid auth (sw_broker s) = (b', Inr (Inr p))"
  shows "submission_inv (s\<lparr>sw_broker := b', sw_flights := sw_flights s @ [Consumed p]\<rparr>)"
proof -
  have b': "b' = (sw_broker s)\<lparr>bk_issued := dict_del (bk_issued (sw_broker s)) (ps_auth p)\<rparr>"
      and p: "dict_get (bk_issued (sw_broker s)) (ps_auth p) = Some (ps_authorization p)"
    using check_effect [OF assms(2)] by blast+
  have mem: "(ps_auth p, ps_authorization p) \<in> set (bk_issued (sw_broker s))" using p by (rule map_of_SomeD)
  then have key: "ps_auth p \<in> set (dict_keys (bk_issued (sw_broker s)))" by force
  have issued: "set (bk_issued (sw_broker s)) \<subseteq> set (sw_history s)"
    using assms(1) unfolding submission_inv_def by blast
  have "distinct (live_ids (s\<lparr>sw_broker := b', sw_flights := sw_flights s @ [Consumed p]\<rparr>))"
    unfolding b' by (rule live_ids_consume [OF _ key refl]) (use assms(1) in \<open>simp add: submission_inv_def\<close>)
  moreover have "set (bk_issued b') \<subseteq> set (sw_history s)"
    using issued set_del_subset [where d = "bk_issued (sw_broker s)" and k = "ps_auth p"] unfolding b' by simp
  moreover have "backed (sw_history s) p" using mem issued unfolding backed_def by blast
  ultimately show ?thesis
    using assms(1) by (simp add: submission_inv_def b' flight_pending_def)
qed

lemma flight_inv:
  assumes "submission_inv s" and "sw_flights s = fs @ f # gs"
  shows "submission_inv (s\<lparr>sw_flights := fs @ gs\<rparr>)"
  using assms by (cases f; simp add: submission_inv_def live_ids_def; blast)

lemma flight_backed:
  assumes "submission_inv s" and "sw_flights s = fs @ f # gs"
  shows "backed (sw_history s) (flight_pending f)"
  using assms by (simp add: submission_inv_def)

lemma live_ids_arm:
  assumes "distinct (live_ids s)" and "sw_flights s = fs @ Consumed p # gs"
    and "bk_issued b = bk_issued (sw_broker s)" and "bk_passed b = bk_passed (sw_broker s)"
    and "bk_pending b = Some p"
  shows "distinct (live_ids (s\<lparr>sw_broker := b, sw_flights := fs @ Armed p obj # gs\<rparr>))"
  using assms by (simp add: live_ids_def pending_ids_def disjoint_iff; blast)

lemma arm_inv:
  assumes "submission_inv s" and fs: "sw_flights s = fs @ Consumed p # gs" and "same_auth (sw_broker s) b"
  shows "submission_inv (s\<lparr>sw_broker := fst (arm_submission p b), sw_flights := fs @ Armed p obj # gs\<rparr>)"
proof -
  define b1 where "b1 = fst (arm_submission p b)"
  have b: "bk_issued b1 = bk_issued (sw_broker s)" "bk_passed b1 = bk_passed (sw_broker s)" "bk_pending b1 = Some p"
    using assms(3) by (simp_all add: same_auth_def b1_def arm_submission_def bk_put_def)
  have p: "backed (sw_history s) p" using flight_backed [OF assms(1) fs] by (simp add: flight_pending_def)
  have "distinct (live_ids (s\<lparr>sw_broker := b1, sw_flights := fs @ Armed p obj # gs\<rparr>))"
    using assms(1) by (intro live_ids_arm [OF _ fs b]) (simp add: submission_inv_def)
  then show ?thesis
    using assms(1) p unfolding b1_def [symmetric] by (simp add: submission_inv_def b fs flight_pending_def)
qed

lemma event_inv:
  assumes "submission_inv s" and "handle_event e ev (sw_broker s) = (b', r)"
  shows "submission_inv (s\<lparr>sw_broker := b'\<rparr>)"
  using event_effect [OF assms(2)]
proof (elim disjE exE conjE)
  assume "same_auth (sw_broker s) b'"
  then show ?thesis using assms(1) same_auth_inv by blast
next
  fix p
  assume "bk_issued b' = bk_issued (sw_broker s)" "bk_pending b' = None" "bk_passed b' = bk_passed (sw_broker s)"
  then show ?thesis using assms(1) by (intro submission_inv_less) simp_all
next
  fix p meth url frame
  assume p: "bk_pending (sw_broker s) = Some p" and b': "bk_issued b' = bk_issued (sw_broker s)" "bk_pending b' = None"
    and m: "pending_matches p meth url frame = Inr True"
    and passed: "bk_passed b' = bk_passed (sw_broker s) @ [\<lparr>lt_auth = ps_auth p, lt_method = meth,
              lt_url = (case url of JStr s \<Rightarrow> s | _ \<Rightarrow> []), lt_frame = frame\<rparr>]"
  have "backed (sw_history s) p" using assms(1) p by (simp add: submission_inv_def)
  note agrees = matches_agree [OF m this]
  have "distinct (live_ids s)" using assms(1) by (simp add: submission_inv_def)
  then have "distinct (live_ids (s\<lparr>sw_broker := b'\<rparr>))"
    by (auto simp: live_ids_def pending_ids_def b' passed p)
  then show ?thesis
    using assms(1) agrees by (auto simp: submission_inv_def b' passed)
qed

lemma submission_inv_step:
  assumes "broker_step s t" and "submission_inv s"
  shows "submission_inv t"
  using assms
proof (induction rule: broker_step.induct)
  case (page s e op)
  then show ?case using page_keeps [of e op] by (intro same_auth_inv) (simp_all add: keeps_def)
next
  case (starts s e url)
  then show ?case using start_same [of e url "sw_broker s"] by (intro submission_inv_less) (metis prod.collapse)+
next
  case (stops s e)
  then show ?case using stop_same [of e "sw_broker s"] by (intro submission_inv_less) (metis prod.collapse)+
next
  case (restarts s e)
  then show ?case using restart_browser_same [of e "sw_broker s"] by (intro submission_inv_less) (metis prod.collapse)+
next
  case (issues e s b' tid sid x)
  then show ?case by (intro issue_inv) simp_all
next
  case (consumes e tid auth s b' p)
  then show ?case by (intro consume_inv) simp_all
next
  case (arms s fs p gs e b' obj)
  then show ?case using keepsD [OF keeps_submit_object] by (intro arm_inv) blast+
next
  case (goes_stale s fs p gs e b' r)
  then have "submission_inv (s\<lparr>sw_flights := fs @ gs\<rparr>)" "same_auth (sw_broker s) b'"
    using flight_inv keepsD [OF keeps_submit_object] by blast+
  then have "submission_inv (s\<lparr>sw_flights := fs @ gs, sw_broker := b'\<rparr>)" by (intro same_auth_inv) simp_all
  then show ?case unfolding submission_inv_def live_ids_def by simp
next
  case (fires s fs p obj gs e)
  obtain b' r where f: "submit_fire e obj (sw_broker s) = (b', r)" by fastforce
  have "submission_inv (s\<lparr>sw_flights := fs @ gs\<rparr>)" using fires flight_inv by blast
  then have "submission_inv (s\<lparr>sw_flights := fs @ gs, sw_broker := b'\<rparr>)"
    using fire_effect [OF f] by (intro submission_inv_less) simp_all
  then show ?case unfolding submission_inv_def live_ids_def f by simp
next
  case (event s e ev)
  then show ?case using event_inv by (metis prod.collapse)
qed

lemma submission_inv_start: "submission_inv (submission_start profile)"
  by (simp add: submission_inv_def submission_start_def broker_init_def live_ids_def pending_ids_def)

lemma submission_inv_reachable: "broker_step\<^sup>*\<^sup>* (submission_start profile) s \<Longrightarrow> submission_inv s"
  by (induction rule: rtranclp_induct) (auto intro: submission_inv_step submission_inv_start)

text \<open>C18. Over every interleaving of operations on the page, starts and stops, submissions and events of the
  page: no two requests with side effects were let through for the same authorization, and each agrees with an
  authorization that was issued, in its method, its address up to the fragment, and its frame.\<close>

theorem unsafe_requests_authorized:
  assumes "broker_step\<^sup>*\<^sup>* (submission_start profile) s"
  shows "distinct (map lt_auth (bk_passed (sw_broker s))) \<and>
    (\<forall>l \<in> set (bk_passed (sw_broker s)). agrees (sw_history s) l)"
  using submission_inv_reachable [OF assms] by (simp add: submission_inv_def live_ids_def)

section \<open>What Chrome is launched with\<close>

text \<open>The program, the profile and the flags are fixed, the address passed the validation.\<close>

definition launch_ok :: "string \<Rightarrow> browser_broker \<Rightarrow> bool" where
  "launch_ok profile b \<longleftrightarrow>
     bk_profile_dir b = profile \<and>
     (\<forall>args \<in> set (bk_launched b). \<exists>url. args = chrome_args profile url \<and> validate_url (JStr url) = Inr url)"

lemma validate_url_Inr: "validate_url v = Inr url \<Longrightarrow> v = JStr url"
  by (auto simp: validate_url_def split: json.splits if_splits option.splits)

lemma launch_ok_same: "same_auth b b' \<Longrightarrow> launch_ok profile b \<Longrightarrow> launch_ok profile b'"
  by (simp add: same_auth_def launch_ok_def)

lemma launch_ok_start:
  assumes "launch_ok profile b"
  shows "launch_ok profile (fst (start_browser e v b))"
proof (cases "validate_url v")
  case (Inr url)
  then have "validate_url (JStr url) = Inr url" using validate_url_Inr by blast
  then have "launch_ok profile (fst (launch_chrome e url b))"
    using assms by (auto simp: launch_ok_def launch_chrome_def fresh_session_def Let_def split: sum.splits)
  then show ?thesis
    using assms Inr by (auto simp: start_browser_def launch_ok_def split: option.splits)
qed (use assms in \<open>simp add: start_browser_def\<close>)

lemma launch_ok_stop: "launch_ok profile b \<Longrightarrow> launch_ok profile (fst (stop_browser e b))"
  by (auto simp: stop_browser_def fresh_session_def launch_ok_def Let_def)

lemma launch_ok_restart:
  assumes "launch_ok profile b"
  shows "launch_ok profile (fst (restart_browser e b))"
proof -
  obtain b1 r1 where stop: "stop_browser e b = (b1, r1)" by fastforce
  then have "launch_ok profile b1" using launch_ok_stop [OF assms, of e] by simp
  then show ?thesis
    using assms stop launch_ok_start by (cases r1) (simp_all add: restart_browser_def bk_bind_def)
qed

lemma launch_ok_same_launch: "same_launch b b' \<Longrightarrow> launch_ok profile b \<Longrightarrow> launch_ok profile b'"
  by (simp add: same_launch_def launch_ok_def)

lemma same_launch_fire: "same_launch b (fst (submit_fire e obj b))"
proof -
  obtain b1 x where m: "call_on e obj (script ''submit'' []) b = (b1, x)" by fastforce
  then have "same_auth b b1" using keeps_call keepsD by blast
  then show ?thesis using m
    by (auto simp: submit_fire_def bk_bind_def bk_lift_def bk_return_def disarm_def bk_put_def same_auth_def same_launch_def
        split: sum.splits option.splits)
qed

lemma same_launch_event: "same_launch b (fst (handle_event e ev b))"
  using event_effect [of e ev b "fst (handle_event e ev b)" "snd (handle_event e ev b)"]
  by (auto simp: same_auth_def same_launch_def)

lemma same_launch_issue: "same_launch b (fst (issue_auth e tid sid x b))"
  using issue_effect [of e tid sid x b "fst (issue_auth e tid sid x b)" "snd (issue_auth e tid sid x b)"]
  by (auto simp: same_auth_def same_launch_def)

lemma same_launch_check: "submit_check e tid auth b = (b', Inr (Inr p)) \<Longrightarrow> same_launch b b'"
  using check_effect [of e tid auth b b' p] by (auto simp: same_launch_def)

lemma same_launch_object: "submit_object e p b = (b', r) \<Longrightarrow> same_launch b b'"
  using keepsD [OF keeps_submit_object] by (force simp: same_auth_def same_launch_def)

lemma same_launch_arm: "same_launch b (fst (arm_submission p b))"
  by (simp add: arm_submission_def bk_put_def same_launch_def)

lemma launch_ok_step:
  assumes "broker_step s t" and "launch_ok profile (sw_broker s)"
  shows "launch_ok profile (sw_broker t)"
  using assms
proof (induction rule: broker_step.induct)
  case (page s e op)
  have "same_auth (sw_broker s) (fst (page_apply e op (sw_broker s)))"
    using page_keeps [of e op] by (simp add: keeps_def)
  then show ?case using page launch_ok_same [of _ _ profile] by simp
next
  case (arms s fs p gs e b' obj)
  then have "launch_ok profile b'" using same_launch_object launch_ok_same_launch by blast
  then show ?case by (simp add: launch_ok_same_launch [OF same_launch_arm])
next
  case (issues e s b' tid sid x)
  then show ?case by (simp add: launch_ok_same_launch [OF same_launch_issue])
next
  case (fires s fs p obj gs e)
  then show ?case by (simp add: launch_ok_same_launch [OF same_launch_fire])
next
  case (event s e ev)
  then show ?case by (simp add: launch_ok_same_launch [OF same_launch_event])
qed (simp_all add: launch_ok_start launch_ok_stop launch_ok_restart launch_ok_same_launch [OF same_launch_check]
      launch_ok_same_launch [OF same_launch_object])

lemma launch_ok_reachable: "broker_step\<^sup>*\<^sup>* (submission_start profile) s \<Longrightarrow> launch_ok profile (sw_broker s)"
proof (induction rule: rtranclp_induct)
  case base
  then show ?case by (simp add: launch_ok_def submission_start_def broker_init_def)
qed (rule launch_ok_step)

text \<open>Chrome is only ever launched as the fixed program with the profile of the broker and the fixed flags, on an
  address that has an allowed scheme and none of the forbidden characters.\<close>

theorem launches_confined:
  assumes "broker_step\<^sup>*\<^sup>* (submission_start profile) s" and "args \<in> set (bk_launched (sw_broker s))"
  shows "\<exists>url. args = [chrome_binary, ''--user-data-dir='' @ profile] @ chrome_flags @ [''--app='' @ url] \<and>
    list_ex (starts_with url) allowed_schemes \<and>
    set url \<inter> {CHR 0x0A, CHR 0x0D, CHR 0x00, CHR 0x60, CHR ''$'', CHR '';'', CHR ''|'', CHR ''>'', CHR ''<'', CHR '' ''} = {}"
proof -
  obtain url where args: "args = chrome_args profile url" and url: "validate_url (JStr url) = Inr url"
    using launch_ok_reachable [OF assms(1)] assms(2) by (auto simp: launch_ok_def)
  then have scheme: "list_ex (starts_with url) allowed_schemes"
      and none: "find (\<lambda>(c, _). c \<in> set url) forbidden_in_url = None"
    by (auto simp: validate_url_def split: if_splits option.splits)
  have "c \<notin> set url" if "(c, r) \<in> set forbidden_in_url" for c r
    using none that by (auto simp: find_None_iff)
  then have "set url \<inter> fst ` set forbidden_in_url = {}" by force
  then have "set url \<inter> {CHR 0x0A, CHR 0x0D, CHR 0x00, CHR 0x60, CHR ''$'', CHR '';'', CHR ''|'', CHR ''>'', CHR ''<'', CHR '' ''} = {}"
    unfolding forbidden_in_url_def by simp
  then show ?thesis using args scheme by (auto simp: chrome_args_def)
qed

section \<open>Submitting ends\<close>

text \<open>The number of requests an operation sends at most.\<close>

definition sends :: "nat \<Rightarrow> 'a brk \<Rightarrow> bool" where
  "sends n m \<longleftrightarrow> (\<forall>b. length (bk_calls (fst (m b))) \<le> length (bk_calls b) + n)"

lemma sendsD: "sends n m \<Longrightarrow> m b = (b', r) \<Longrightarrow> length (bk_calls b') \<le> length (bk_calls b) + n"
  unfolding sends_def by (metis fst_conv)

lemma sends_none: "sends 0 (bk_return v)" "sends 0 (bk_lift r)" "sends 0 (bk_raise x)"
  by (simp_all add: sends_def bk_return_def bk_lift_def bk_raise_def)

lemma sends_bind:
  assumes "sends n m" and "\<And>v. sends k (f v)"
  shows "sends (n + k) (bk_bind m f)"
  unfolding sends_def
proof
  fix b
  obtain b1 r where m: "m b = (b1, r)" by fastforce
  then have "length (bk_calls b1) \<le> length (bk_calls b) + n" using assms(1) sendsD by blast
  moreover have "length (bk_calls (fst (f v b1))) \<le> length (bk_calls b1) + k" for v
    using assms(2) by (simp add: sends_def)
  ultimately show "length (bk_calls (fst (bk_bind m f b))) \<le> length (bk_calls b) + (n + k)"
    using m by (auto simp: bk_bind_def add.assoc [symmetric] split: sum.splits intro: order_trans le_trans trans_le_add1)
       (meson add_le_mono1 le_trans)
qed

lemma sends_catch:
  assumes "sends n m" and "\<And>x. sends 0 (h x)"
  shows "sends n (bk_catch m h)"
  unfolding sends_def
proof
  fix b
  obtain b1 r where m: "m b = (b1, r)" by fastforce
  then have "length (bk_calls b1) \<le> length (bk_calls b) + n" using assms(1) sendsD by blast
  moreover have "length (bk_calls (fst (h x b1))) \<le> length (bk_calls b1)" for x
    using assms(2) by (simp add: sends_def)
  ultimately show "length (bk_calls (fst (bk_catch m h b))) \<le> length (bk_calls b) + n"
    using m by (auto simp: bk_catch_def split: sum.splits intro: le_trans)
qed

lemma get_ws_calls: "bk_calls (fst (get_ws e b)) = bk_calls b"
  by (auto simp: get_ws_def get_cdp_ws_url_def split: option.splits)

lemma sends_cdp: "sends 1 (cdp_request e meth params)"
  unfolding sends_def
proof
  fix b
  obtain b' ok where w: "get_ws e b = (b', ok)" by fastforce
  then have "bk_calls b' = bk_calls b" using get_ws_calls [of e b] by simp
  then show "length (bk_calls (fst (cdp_request e meth params b))) \<le> length (bk_calls b) + 1"
    by (auto simp: cdp_request_def w Let_def split: cdp_reply.splits bool.splits)
qed

lemma sends_cases:
  "(\<And>v. sends n (f v)) \<Longrightarrow> sends n g \<Longrightarrow> sends n (case x of None \<Rightarrow> g | Some v \<Rightarrow> f v)"
  by (cases x) simp_all

lemma sends_request: "(\<And>v. sends n (f v)) \<Longrightarrow> sends (Suc n) (bk_bind (cdp_request e meth params) f)"
  using sends_bind [OF sends_cdp] by fastforce

lemma sends_pure: "(\<And>v. sends n (f v)) \<Longrightarrow> sends n (bk_bind (bk_lift r) f)"
  using sends_bind [OF sends_none(2)] by fastforce

lemmas sends_intro = sends_request sends_pure sends_none sends_cases

lemma sends_observe: "sends (Suc 0) (observe_with e name)"
proof -
  have "sends (Suc 0) (or_failed ''observe''
       (bk_bind (cdp_request e ''Runtime.evaluate'' [(''expression'', script name []), (''returnByValue'', JBool True)]) (\<lambda>res.
        bk_bind (bk_lift (script_raised e res)) (\<lambda>x.
        case x of Some m \<Rightarrow> bk_return (error_json m)
        | None \<Rightarrow> bk_bind (bk_lift (script_value res)) (\<lambda>v.
            bk_return (JObj [(''status'', JStr ''ok''), (''observation'', v)]))))))"
    unfolding or_failed_def by (intro sends_catch sends_intro)
  then show ?thesis by (simp add: sends_def observe_with_def when_running_def)
qed

lemma poll_returns:
  assumes "deadline \<le> be_tick e k + int n * 500000"
    and "\<And>j. k \<le> j \<Longrightarrow> be_tick e j + 500000 \<le> be_tick e (Suc j)"
  shows "\<exists>b' r. poll_page e deadline k obs b = Some (b', r) \<and> length (bk_calls b') \<le> length (bk_calls b) + n"
  using assms
proof (induction n arbitrary: k obs b)
  case 0
  then show ?case by (subst poll_page.simps) simp
next
  case (Suc n)
  obtain b1 r where o: "observe_with e ''poll'' b = (b1, r)" by fastforce
  have calls: "length (bk_calls b1) \<le> length (bk_calls b) + Suc 0" using sends_observe o sendsD by blast
  have "deadline \<le> be_tick e (Suc k) + int n * 500000" using Suc.prems(1) Suc.prems(2) [of k] by (simp add: algebra_simps)
  then have IH: "\<exists>b' r. poll_page e deadline (Suc k) x b1 = Some (b', r) \<and> length (bk_calls b') \<le> length (bk_calls b1) + n" for x
    using Suc.prems(2) by (intro Suc.IH) simp_all
  show ?case
    using IH [of obs] IH [of "projr r"] calls
    by (subst poll_page.simps) (fastforce simp: o split: sum.splits option.splits)
qed

lemma sends_submit_object: "sends (Suc 0) (submit_object e p)"
proof -
  have "sends (Suc 0) (target_object e t)" for t
  proof -
    have "sends (Suc 0) (resolve_node e t)"
      unfolding resolve_node_def
      by (intro sends_catch sends_intro) (auto simp: sends_none split: exn.splits)
    then have "sends (Suc 0 + 0) (target_object e t)"
      unfolding target_object_def by (rule sends_bind) (intro sends_intro)
    then show ?thesis by simp
  qed
  then show ?thesis by (simp add: submit_object_def sends_def split: option.splits)
qed

lemma sends_disarm: "sends 0 (disarm r)"
  by (simp add: disarm_def sends_def bk_bind_def bk_put_def bk_return_def)

lemma sends_submit_fire: "sends (Suc 0) (submit_fire e obj)"
  unfolding submit_fire_def call_on_def by (intro sends_intro sends_disarm)

lemma sends_submit_consumed: "sends 2 (submit_consumed e p)"
proof -
  have "sends 0 (arm_submission p)" by (simp add: sends_def arm_submission_def bk_put_def)
  then have arm: "sends (0 + Suc 0) (bk_bind (arm_submission p) (\<lambda>_. submit_fire e o1))" for o1
    by (rule sends_bind) (rule sends_submit_fire)
  have "sends (Suc 0 + Suc 0) (submit_consumed e p)"
    unfolding submit_consumed_def
  proof (intro sends_bind sends_submit_object sends_cases)
    show "sends (Suc 0) (bk_bind (arm_submission p) (\<lambda>_. submit_fire e v))" for v using arm [of v] by simp
    show "sends (Suc 0) (bk_return (Some (error_json ''TARGET_STALE'')))" by (simp add: sends_def bk_return_def)
  qed
  then show ?thesis by (simp add: numeral_2_eq_2)
qed

lemma check_sends: "bk_calls (fst (submit_check e tid auth b)) = bk_calls b"
  by (auto simp: submit_check_def split: sum.splits option.splits)

lemma poll_after_returns:
  assumes "be_tick e 0 \<le> be_tick e 1" and "\<forall>k\<ge>1. be_tick e k + 500000 \<le> be_tick e (Suc k)"
  shows "\<exists>b' r. poll_after e p tid b = Some (b', r) \<and> length (bk_calls b') \<le> length (bk_calls b) + 16"
proof -
  have "be_tick e 0 + seconds 8 \<le> be_tick e 1 + int 16 * 500000" using assms(1) by (simp add: seconds_def)
  then obtain b' r where "poll_page e (be_tick e 0 + seconds 8) 1
      (error_json ''Timed out waiting for post-submission page'') b = Some (b', r)"
      and "length (bk_calls b') \<le> length (bk_calls b) + 16"
    using poll_returns [of _ e 1 16] assms(2) by blast
  then show ?thesis by (cases r) (simp_all add: poll_after_def)
qed

text \<open>C19. A submission returns, whatever the page answers, and sends at most 18 requests: when the clock has not gone back
  at its first reading and every poll takes at least half a second, there are at most 16 polls in the eight seconds.\<close>

theorem submit_returns:
  assumes "be_tick e 0 \<le> be_tick e 1" and "\<forall>k\<ge>1. be_tick e k + 500000 \<le> be_tick e (Suc k)"
  shows "\<exists>b' r. submit e tid auth b = Some (b', r) \<and> length (bk_calls b') \<le> length (bk_calls b) + 18"
proof -
  obtain b1 r1 where c: "submit_check e tid auth b = (b1, r1)" by fastforce
  have c1: "bk_calls b1 = bk_calls b" using check_sends [of e tid auth b] c by simp
  show ?thesis
  proof (cases "\<exists>p. r1 = Inr (Inr p)")
    case True
    then obtain p where r1: "r1 = Inr (Inr p)" by blast
    obtain b2 r2 where f: "submit_consumed e p b1 = (b2, r2)" by fastforce
    have c2: "length (bk_calls b2) \<le> length (bk_calls b) + 2"
      using sendsD [OF sends_submit_consumed f] c1 by simp
    obtain b3 r3 where "poll_after e p tid b2 = Some (b3, r3)" "length (bk_calls b3) \<le> length (bk_calls b2) + 16"
      using poll_after_returns [OF assms] by blast
    then show ?thesis using c r1 f c2 by (auto simp: submit_def split: sum.splits option.splits)
  next
    case False
    then show ?thesis using c c1 by (auto simp: submit_def split: sum.splits)
  qed
qed

section \<open>What is left of a submission\<close>

text \<open>When the page fails to answer, the submission stays armed.\<close>

lemma failed_submit_stays_armed:
  assumes "submit_fire e obj b = (b', Inl x)"
  shows "bk_pending b' = bk_pending b"
proof -
  obtain b1 r where m: "call_on e obj (script ''submit'' []) b = (b1, r)" by fastforce
  then have s: "same_auth b b1" using keeps_call keepsD by blast
  have "b' = b1"
    using assms m
    by (auto simp: submit_fire_def bk_bind_def bk_lift_def bk_return_def disarm_def bk_put_def
        split: sum.splits option.splits)
  then show ?thesis using s by (simp add: same_auth_def)
qed

text \<open>After an event it cannot handle, the listener has stopped, whatever comes.\<close>

lemma malformed_event_ends:
  "listen e (Some (JObj [(''method'', JStr ''Fetch.requestPaused''), (''params'', JNull)]) # ms) b = (b, False)"
  by (simp add: handle_event_def bk_raise_def jfield_def)

section \<open>A run\<close>

text \<open>
  A browser that is started, searched for a form, given an authorization for it, and submits it; the
  page answers the numbered requests in this order.
\<close>

definition demo_form :: json where
  "demo_form = JObj [(''method'', JStr ''POST''), (''action'', JStr ''https://a.b/send'')]"

definition demo_replies :: "json list" where
  "demo_replies =
    [JObj [],
     JObj [(''result'', JObj [(''objectId'', JStr ''list'')])],
     JObj [(''result'', JList [JObj [(''name'', JStr ''0''), (''value'', JObj [(''objectId'', JStr ''item'')])]])],
     JObj [(''result'', JList [JObj [(''name'', JStr ''node''), (''value'', JObj [(''objectId'', JStr ''node'')])]])],
     JObj [(''node'', JObj [(''backendNodeId'', JInt 9)])],
     JObj [(''object'', JObj [(''objectId'', JStr ''form'')])],
     JObj [],
     JObj [(''frameTree'', JObj [(''frame'', JObj [(''id'', JStr ''top'')])])],
     JObj [(''executionContextId'', JInt 1)],
     JObj [(''result'', JObj [(''value'', JStr ''suuuuuu'')])],
     JObj [],
     JObj [(''result'', JObj [(''value'', demo_form)])],
     JObj [(''object'', JObj [(''objectId'', JStr ''form'')])],
     JObj [(''result'', JObj [])]]"

definition demo_browser :: browser_env where
  "demo_browser = \<lparr>be_alive = \<lambda>_. True, be_str = \<lambda>_. [], be_loads = \<lambda>s. Inl s, be_port = \<lambda>_. Some ''9222'',
     be_pages = \<lambda>_. Some (JList [JObj [(''type'', JStr ''page''), (''webSocketDebuggerUrl'', JStr ''ws'')]]),
     be_connects = True,
     be_reply = \<lambda>i. if i \<le> 14 then Reply (demo_replies ! (i - 1)) else Reply_late,
     be_uuid = \<lambda>i. CHR ''s'' # replicate i (CHR ''u''), be_now = \<lambda>_. 0, be_tick = \<lambda>k. int k * 500000, be_b64 = id,
     be_chrome = True, be_mkdir = None, be_popen = Inr 7, be_stop = Stops, be_xdotool = False,
     be_search = Inr [], be_minimize = \<lambda>_. None\<rparr>"

definition demo_event :: "(string \<times> json) list" where
  "demo_event =
    [(''method'', JStr ''Fetch.requestPaused''),
     (''params'', JObj [(''requestId'', JStr ''r''), (''frameId'', JStr ''top''),
        (''request'', JObj [(''method'', JStr ''post''), (''url'', JStr ''https://a.b/send#x'')])])]"

definition demo_found :: submission_world where
  "demo_found =
     (let w = submission_start ''/p'';
          w = w\<lparr>sw_broker := fst (start_browser demo_browser (JStr ''https://a.b/'') (sw_broker w))\<rparr>
      in w\<lparr>sw_broker := fst (page_apply demo_browser (Find []) (sw_broker w))\<rparr>)"

definition demo_issued :: submission_world where
  "demo_issued =
     (let w = demo_found;
          b = fst (issue_auth demo_browser ''bt_suuuuu'' ''s'' (Inr (seconds 300)) (sw_broker w))
      in w\<lparr>sw_broker := b, sw_history := sw_history w @ drop (length (bk_issued (sw_broker w))) (bk_issued b)\<rparr>)"

definition demo_pending :: pending_submission where
  "demo_pending =
     \<lparr>ps_auth = ''suuuuuuuuuuuu'',
      ps_authorization =
        \<lparr>ia_target = ''bt_suuuuu'', ia_session = ''s'', ia_expires_at = 300000000, ia_method = JStr ''POST'',
         ia_url = JStr ''https://a.b/send'', ia_frame = JStr ''top''\<rparr>\<rparr>"

definition demo_consumed :: submission_world where
  "demo_consumed =
     (let w = demo_issued
      in w\<lparr>sw_broker := fst (submit_check demo_browser (JStr ''bt_suuuuu'') (JStr ''suuuuuuuuuuuu'') (sw_broker w)),
           sw_flights := sw_flights w @ [Consumed demo_pending]\<rparr>)"

definition demo_armed :: submission_world where
  "demo_armed =
     (let w = demo_consumed
      in w\<lparr>sw_broker := fst (arm_submission demo_pending (fst (submit_object demo_browser demo_pending (sw_broker w)))),
           sw_flights := [Armed demo_pending (JStr ''form'')]\<rparr>)"

definition demo_sent :: submission_world where
  "demo_sent = (let w = demo_armed in w\<lparr>sw_broker := fst (handle_event demo_browser demo_event (sw_broker w))\<rparr>)"

lemma pair_with_snd: "snd x = r \<Longrightarrow> x = (fst x, r)"
  by (cases x) simp

lemma pending_by_fields:
  assumes "(case x of Inr (Inr q) \<Rightarrow>
      (let a = ps_authorization q
       in [JStr (ps_auth q), JStr (ia_target a), JStr (ia_session a), JInt (ia_expires_at a), ia_method a, ia_url a, ia_frame a])
      | _ \<Rightarrow> []) =
    [JStr (ps_auth p), JStr (ia_target (ps_authorization p)), JStr (ia_session (ps_authorization p)),
     JInt (ia_expires_at (ps_authorization p)), ia_method (ps_authorization p), ia_url (ps_authorization p),
     ia_frame (ps_authorization p)]"
  shows "x = Inr (Inr (p :: pending_submission))"
  using assms by (cases x) (auto simp: Let_def split: sum.splits)

lemma demo_check:
  "submit_check demo_browser (JStr ''bt_suuuuu'') (JStr ''suuuuuuuuuuuu'') (sw_broker demo_issued) =
     (fst (submit_check demo_browser (JStr ''bt_suuuuu'') (JStr ''suuuuuuuuuuuu'') (sw_broker demo_issued)),
      Inr (Inr demo_pending))"
  by (rule pair_with_snd, rule pending_by_fields) code_simp

lemma demo_object:
  "submit_object demo_browser demo_pending (sw_broker demo_consumed) =
     (fst (submit_object demo_browser demo_pending (sw_broker demo_consumed)), Inr (Some (JStr ''form'')))"
  by (rule pair_with_snd) code_simp

lemma demo_nothing_live: "live_ids demo_found = []"
  by code_simp

lemma demo_flights: "sw_flights demo_consumed = [] @ Consumed demo_pending # []"
proof -
  have "sw_flights demo_issued = []" by (simp add: demo_issued_def demo_found_def submission_start_def Let_def)
  then show ?thesis by (simp add: demo_consumed_def Let_def)
qed

lemma demo_reaches: "broker_step\<^sup>*\<^sup>* (submission_start ''/p'') demo_sent"
proof -
  let ?w = "submission_start ''/p''"
  let ?v = "?w\<lparr>sw_broker := fst (start_browser demo_browser (JStr ''https://a.b/'') (sw_broker ?w))\<rparr>"
  have "broker_step ?w ?v" by (rule starts)
  moreover have "broker_step ?v demo_found" unfolding demo_found_def Let_def by (rule page)
  moreover have "broker_step demo_found demo_issued"
    unfolding demo_issued_def Let_def by (rule issues [OF _ refl]) (simp only: demo_nothing_live list.set empty_iff not_False_eq_True simp_thms)
  moreover have "broker_step demo_issued demo_consumed"
    unfolding demo_consumed_def Let_def by (rule consumes [OF demo_check])
  moreover have "broker_step demo_consumed demo_armed"
    using arms [OF demo_flights demo_object] unfolding demo_armed_def Let_def append.simps .
  moreover have "broker_step demo_armed demo_sent" unfolding demo_sent_def Let_def by (rule event)
  ultimately show ?thesis by (meson converse_rtranclp_into_rtranclp rtranclp.rtrancl_refl)
qed

lemma unsafe_requests_authorized_witness:
  "map lt_auth (bk_passed (sw_broker demo_sent)) = [''suuuuuuuuuuuu''] \<and>
   agrees (sw_history demo_sent) (hd (bk_passed (sw_broker demo_sent)))"
proof -
  have one: "map lt_auth (bk_passed (sw_broker demo_sent)) = [''suuuuuuuuuuuu'']" by code_simp
  then have "hd (bk_passed (sw_broker demo_sent)) \<in> set (bk_passed (sw_broker demo_sent))"
    by (intro list.set_sel(1)) auto
  then show ?thesis using unsafe_requests_authorized [OF demo_reaches] one by blast
qed

lemma launches_confined_witness:
  "\<exists>args \<in> set (bk_launched (sw_broker demo_sent)). \<exists>url.
     args = [chrome_binary, ''--user-data-dir='' @ ''/p''] @ chrome_flags @ [''--app='' @ url]"
proof -
  have "bk_launched (sw_broker demo_sent) \<noteq> []" by code_simp
  then have mem: "hd (bk_launched (sw_broker demo_sent)) \<in> set (bk_launched (sw_broker demo_sent))"
    by (rule list.set_sel(1))
  from launches_confined [OF demo_reaches mem]
  obtain url where "hd (bk_launched (sw_broker demo_sent)) =
      [chrome_binary, ''--user-data-dir='' @ ''/p''] @ chrome_flags @ [''--app='' @ url]" by (elim exE conjE)
  then show ?thesis using mem by (intro bexI exI)
qed

lemma submit_returns_witness:
  "\<exists>b' r. submit demo_browser (JStr ''bt_suuuuu'') (JStr ''suuuuuuuuuuuu'') (sw_broker demo_issued) = Some (b', r) \<and>
     length (bk_calls b') \<le> length (bk_calls (sw_broker demo_issued)) + 18"
  by (rule submit_returns) (simp_all add: demo_browser_def)

text \<open>A request still goes out after the authorization it was armed with has expired.\<close>

lemma expired_request_passes:
  "bk_passed (fst (handle_event (demo_browser\<lparr>be_now := \<lambda>_. seconds 100000\<rparr>) demo_event (sw_broker demo_armed))) \<noteq> [] \<and>
   ia_expires_at (ps_authorization demo_pending) < seconds 100000"
  by code_simp

end
