(* ===== verification/BrokerIpc.thy ===== *)
theory BrokerIpc
  imports BrokerSubmit
begin

text \<open>
  The IPC side of the browser broker: the schema of the commands, the handler of one connection, the
  server around it (runtime/browser/broker_server.py), the client (runtime/browser/manager.py) and the
  authorization of an action (runtime/browser/authorization.py).
\<close>

section \<open>The schema\<close>

definition required_fields :: "(string, string list) dict" where
  "required_fields =
    [(''START_BROWSER'', [''url'']), (''STOP_BROWSER'', []), (''STATUS'', []), (''HIDE_BROWSER'', []),
     (''NAVIGATE'', [''url'']), (''NAVIGATE_ACTION'', [''action'']), (''OBSERVE'', []), (''RESTART_BROWSER'', []),
     (''FIND'', [''query'']), (''CLICK'', [''target_id'']), (''TYPE'', [''target_id'', ''text'']),
     (''FILL'', [''target_id'', ''text'']), (''CLEAR'', [''target_id'']),
     (''SELECT'', [''target_id'', ''option_identity'']), (''CHECK'', [''target_id'']),
     (''UNCHECK'', [''target_id'']), (''SUBMIT'', [''target_id''])]"

definition forbidden_fields :: "string list" where
  "forbidden_fields =
    [''binary'', ''executable'', ''shell'', ''profile'', ''profile_dir'', ''flags'', ''args'', ''uid'', ''gid'', ''env'',
     ''script'', ''objectId'', ''password'']"

definition missing_field :: "string list \<Rightarrow> (string \<times> json) list \<Rightarrow> string option" where
  "missing_field fs req = find (\<lambda>f. f \<notin> set (dict_keys req)) fs"

definition injected_fields :: "(string \<times> json) list \<Rightarrow> string list" where
  "injected_fields req = filter (\<lambda>f. f \<in> set (dict_keys req)) forbidden_fields"

text \<open>
  The command with the request, or the complaint. \<open>repr\<close> prints the name of a command, \<open>show_set\<close> a
  frozen set of names.
\<close>

definition check_fields ::
  "(string list \<Rightarrow> string) \<Rightarrow> string \<Rightarrow> string list \<Rightarrow> (string \<times> json) list \<Rightarrow> string + string \<times> (string \<times> json) list" where
  "check_fields show_set c fs req =
     (case missing_field fs req of
        Some f \<Rightarrow> Inl (''Missing required field '' @ quoted f @ '' for command '' @ quoted c)
      | None \<Rightarrow>
          if injected_fields req \<noteq> [] then Inl (''Forbidden fields in request: '' @ show_set (injected_fields req))
          else Inr (c, req))"

definition validate_schema ::
  "(string \<Rightarrow> string) \<Rightarrow> (string list \<Rightarrow> string) \<Rightarrow> json \<Rightarrow> string + string \<times> (string \<times> json) list" where
  "validate_schema repr show_set request =
     (case request of
        JObj req \<Rightarrow>
          (case dict_get req ''command'' of
             Some (JStr c) \<Rightarrow>
               if c = [] then Inl (''Missing or invalid '' @ quoted ''command'' @ '' field'')
               else (case dict_get required_fields c of
                       None \<Rightarrow> Inl (''Unknown command: '' @ repr c)
                     | Some fs \<Rightarrow> check_fields show_set c fs req)
           | _ \<Rightarrow> Inl (''Missing or invalid '' @ quoted ''command'' @ '' field''))
      | _ \<Rightarrow> Inl ''Request must be a JSON object'')"

section \<open>Commands\<close>

text \<open>
  A target identifier as it comes. Targets are kept under strings, so anything else is not found, and
  a list or an object cannot even be looked up. \<open>checks\<close>: whether the operation first asks that the
  browser runs.
\<close>

definition on_target :: "browser_env \<Rightarrow> bool \<Rightarrow> json \<Rightarrow> (string \<Rightarrow> json brk) \<Rightarrow> json brk" where
  "on_target e checks tid f b =
     (case tid of
        JStr t \<Rightarrow> f t b
      | v \<Rightarrow>
          if checks \<and> \<not> running e b then (b, Inr (error_json ''Browser is not running.''))
          else if py_class v \<in> {''list'', ''dict''}
          then (b, Inl (TypeError (''unhashable type: '' @ quoted (py_class v))))
          else (b, Inr (error_json ''TARGET_STALE'')))"

text \<open>The commands on the window and the page; \<open>None\<close> for those on a target.\<close>

definition page_command :: "browser_env \<Rightarrow> string \<Rightarrow> (string \<times> json) list \<Rightarrow> json brk option" where
  "page_command e c req =
     (if c = ''START_BROWSER'' then Some (start_browser e (jfield req ''url'' JNull))
      else if c = ''STOP_BROWSER'' then Some (stop_browser e)
      else if c = ''STATUS'' then Some (get_broker_status e)
      else if c = ''HIDE_BROWSER'' then Some (hide_browser e)
      else if c = ''NAVIGATE'' then Some (navigate e (jfield req ''url'' JNull))
      else if c = ''NAVIGATE_ACTION'' then Some (navigate_action e (jfield req ''action'' JNull))
      else if c = ''OBSERVE'' then Some (observe e)
      else if c = ''FIND''
      then Some (case jfield req ''query'' JNull of
                   JObj q \<Rightarrow> find_elements e q
                 | _ \<Rightarrow> bk_return (error_json ''query must be an object''))
      else if c = ''RESTART_BROWSER'' then Some (restart_browser e)
      else None)"

definition target_command :: "browser_env \<Rightarrow> string \<Rightarrow> (string \<times> json) list \<Rightarrow> json brk" where
  "target_command e c req =
     (let tid = jfield req ''target_id'' JNull; text = jfield req ''text'' JNull
      in if c = ''CLICK'' then on_target e True tid (click e)
         else if c = ''TYPE'' then on_target e True tid (\<lambda>t. type_text e t text)
         else if c = ''FILL'' then on_target e True tid (\<lambda>t. fill_text e t text)
         else if c = ''CLEAR'' then on_target e True tid (clear_text e)
         else if c = ''SELECT'' then on_target e False tid (\<lambda>t. select_option e t (jfield req ''option_identity'' JNull))
         else if c = ''CHECK'' then on_target e False tid (check_box e)
         else if c = ''UNCHECK'' then on_target e False tid (uncheck_box e)
         else bk_return (error_json ''Unhandled command''))"

text \<open>
  \<open>expires_in\<close> added to the clock, which counts whole microseconds here; \<open>issue_command\<close> is the branch
  of \<open>ISSUE_AUTH\<close>. A browser that runs has a session, so a session that is no text is another one.
\<close>

definition lifetime :: "json \<Rightarrow> instant result" where
  "lifetime v =
     (case v of
        JInt n \<Rightarrow> Inr (seconds n)
      | JBool t \<Rightarrow> Inr (seconds (if t then 1 else 0))
      | JFloat q \<Rightarrow> Inr \<lfloor>q * 1000000\<rfloor>
      | _ \<Rightarrow> Inl (TypeError (''unsupported operand type(s) for +: '' @ quoted ''float'' @ '' and '' @ quoted (py_class v))))"

definition issue_command :: "browser_env \<Rightarrow> (string \<times> json) list \<Rightarrow> json brk" where
  "issue_command e req b =
     (case and_then (item_of (JObj req) ''target_id'') (\<lambda>t. and_then (item_of (JObj req) ''session_id'') (\<lambda>s. Inr (t, s))) of
        Inl x \<Rightarrow> (b, Inl x)
      | Inr (tid, sid) \<Rightarrow>
          on_target e True tid (\<lambda>t. case sid of
              JStr s \<Rightarrow> issue_auth e t s (lifetime (jfield req ''expires_in'' (JInt 300)))
            | _ \<Rightarrow> when_running e ''Browser is not running.''
                     (with_target t (\<lambda>_. bk_return (error_json ''AUTHORIZATION_SESSION_MISMATCH'')))) b)"

text \<open>One validated request.\<close>

definition dispatch_command ::
  "browser_env \<Rightarrow> string \<times> (string \<times> json) list \<Rightarrow> browser_broker \<Rightarrow> (browser_broker \<times> json result) option" where
  "dispatch_command e cr b =
     (case cr of (c, req) \<Rightarrow>
        if c = ''SUBMIT'' then submit e (jfield req ''target_id'' JNull) (jfield req ''auth_id'' JNull) b
        else if c = ''ISSUE_AUTH'' then Some (issue_command e req b)
        else (case page_command e c req of
                Some f \<Rightarrow> Some (f b)
              | None \<Rightarrow> Some (target_command e c req b)))"

section \<open>One connection\<close>

datatype load_failure = Not_json string | Not_text string

record ipc_env =
  ie_browser :: browser_env
  ie_loads :: "string \<Rightarrow> load_failure + json"
  ie_repr :: "string \<Rightarrow> string"
  ie_show_set :: "string list \<Rightarrow> string"

definition max_request_bytes :: nat where
  "max_request_bytes = 4096"

text \<open>\<open>readline(limit)\<close>: up to the end of the line, and no more than the limit.\<close>

fun read_line :: "nat \<Rightarrow> string \<Rightarrow> string" where
  "read_line 0 s = []"
| "read_line (Suc n) [] = []"
| "read_line (Suc n) (c # s) = (if c = CHR 0x0A then [c] else c # read_line n s)"

definition internal_error :: json where
  "internal_error = error_json ''Internal broker error''"

definition answer :: "browser_broker \<times> json result \<Rightarrow> browser_broker \<times> json option" where
  "answer br = (fst br, Some (case snd br of Inl _ \<Rightarrow> internal_error | Inr v \<Rightarrow> v))"

text \<open>What a client receives for what it sent: nothing for an empty line; \<open>None\<close> when the handler never ends.\<close>

definition ipc_handle :: "ipc_env \<Rightarrow> string \<Rightarrow> browser_broker \<Rightarrow> (browser_broker \<times> json option) option" where
  "ipc_handle i sent b =
     (let raw = strip (read_line max_request_bytes sent)
      in if raw = [] then Some (b, None)
         else case ie_loads i raw of
             Inl (Not_json m) \<Rightarrow> Some (b, Some (error_json (''JSON parse error: '' @ m)))
           | Inl (Not_text _) \<Rightarrow> Some (b, Some internal_error)
           | Inr request \<Rightarrow>
               (case validate_schema (ie_repr i) (ie_show_set i) request of
                  Inl m \<Rightarrow> Some (b, Some (error_json m))
                | Inr cr \<Rightarrow> map_option answer (dispatch_command (ie_browser i) cr b)))"

section \<open>The server\<close>

definition server_init :: "string \<Rightarrow> browser_broker" where
  "server_init profile = (broker_init profile)\<lparr>bk_broker_state := ''RUNNING''\<rparr>"

definition server_close :: "browser_env \<Rightarrow> unit brk" where
  "server_close e =
     bk_bind (stop_browser e) (\<lambda>_. bk_put (\<lambda>b. b\<lparr>bk_broker_state := ''STOPPED''\<rparr>))"

text \<open>What is at the path of the socket: its kind and its owner.\<close>

datatype socket_path = Absent | Not_socket | Socket_of nat

definition check_not_root :: "nat \<Rightarrow> unit result" where
  "check_not_root uid = (if uid = 0 then Inl (RuntimeError ''Browser Broker must not run as root.'') else Inr ())"

text \<open>\<open>show\<close> prints a user number.\<close>

definition prepare_socket :: "(nat \<Rightarrow> string) \<Rightarrow> string \<Rightarrow> nat \<Rightarrow> socket_path \<Rightarrow> socket_path result" where
  "prepare_socket show_uid path uid there =
     and_then (check_not_root uid) (\<lambda>_.
       case there of
         Absent \<Rightarrow> Inr Absent
       | Not_socket \<Rightarrow>
           Inl (RuntimeError (path @ '' exists and is not a socket '' @ em_dash @ '' refusing to remove''))
       | Socket_of owner \<Rightarrow>
           if owner \<noteq> uid
           then Inl (RuntimeError (''Stale socket '' @ path @ '' owned by uid='' @ show_uid owner @ '', not us''))
           else Inr Absent)"

section \<open>The client\<close>

text \<open>
  \<open>srv\<close> is the connection: the bytes that come back for what is sent, or the text of the exception.
  One read returns at most 4096 bytes.
\<close>

definition recv_limit :: nat where
  "recv_limit = 4096"

definition send_ipc ::
  "bool \<Rightarrow> (json \<Rightarrow> string) \<Rightarrow> (string \<Rightarrow> string + json) \<Rightarrow> (string \<Rightarrow> string + string) \<Rightarrow> string \<Rightarrow> (string \<times> json) list \<Rightarrow> json" where
  "send_ipc there dumps loads srv command kwargs =
     (if \<not> there then error_json ''Broker unavailable''
      else case srv (dumps (JObj ((''command'', JStr command) # kwargs)) @ [CHR 0x0A]) of
          Inl m \<Rightarrow> error_json m
        | Inr data \<Rightarrow>
            if data = [] then error_json ''Empty response from broker''
            else (case loads (strip (take recv_limit data)) of Inl m \<Rightarrow> error_json m | Inr v \<Rightarrow> v))"

text \<open>The methods of the client as the command and the fields they send.\<close>

datatype manager_call =
    Mgr_launch string
  | Mgr_hide
  | Mgr_navigate string
  | Mgr_restart
  | Mgr_get_status
  | Mgr_terminate
  | Mgr_navigate_action string
  | Mgr_observe
  | Mgr_find "(string \<times> json) list"
  | Mgr_click string
  | Mgr_type string string
  | Mgr_fill string string
  | Mgr_clear string
  | Mgr_select string string
  | Mgr_check string
  | Mgr_uncheck string
  | Mgr_issue_authorization string string int
  | Mgr_submit string string

fun manager_request :: "manager_call \<Rightarrow> string \<times> (string \<times> json) list" where
  "manager_request (Mgr_launch url) = (''START_BROWSER'', [(''url'', JStr url)])"
| "manager_request Mgr_hide = (''HIDE_BROWSER'', [])"
| "manager_request (Mgr_navigate url) = (''NAVIGATE'', [(''url'', JStr url)])"
| "manager_request Mgr_restart = (''RESTART_BROWSER'', [])"
| "manager_request Mgr_get_status = (''STATUS'', [])"
| "manager_request Mgr_terminate = (''STOP_BROWSER'', [])"
| "manager_request (Mgr_navigate_action a) = (''NAVIGATE_ACTION'', [(''action'', JStr a)])"
| "manager_request Mgr_observe = (''OBSERVE'', [])"
| "manager_request (Mgr_find q) = (''FIND'', [(''query'', JObj q)])"
| "manager_request (Mgr_click t) = (''CLICK'', [(''target_id'', JStr t)])"
| "manager_request (Mgr_type t x) = (''TYPE'', [(''target_id'', JStr t), (''text'', JStr x)])"
| "manager_request (Mgr_fill t x) = (''FILL'', [(''target_id'', JStr t), (''text'', JStr x)])"
| "manager_request (Mgr_clear t) = (''CLEAR'', [(''target_id'', JStr t)])"
| "manager_request (Mgr_select t x) = (''SELECT'', [(''target_id'', JStr t), (''option_identity'', JStr x)])"
| "manager_request (Mgr_check t) = (''CHECK'', [(''target_id'', JStr t)])"
| "manager_request (Mgr_uncheck t) = (''UNCHECK'', [(''target_id'', JStr t)])"
| "manager_request (Mgr_issue_authorization t s n) =
     (''ISSUE_AUTH'', [(''target_id'', JStr t), (''session_id'', JStr s), (''expires_in'', JInt n)])"
| "manager_request (Mgr_submit t a) = (''SUBMIT'', [(''target_id'', JStr t), (''auth_id'', JStr a)])"

text \<open>\<open>is_running\<close> reads the reply to \<open>STATUS\<close>; a reply that is no object raises.\<close>

definition is_running_reply :: "json \<Rightarrow> bool result" where
  "is_running_reply v =
     and_then (get_of v ''status'' JNull) (\<lambda>s.
       if s \<noteq> JStr ''ok'' then Inr False
       else and_then (get_of v ''running'' JNull) (\<lambda>r. Inr (r = JBool True)))"

section \<open>The authorization of an action\<close>

record action_authorization =
  aa_session_id :: string
  aa_target_id :: string
  aa_issued_at :: instant
  aa_expires_at :: instant

definition action_is_valid :: "action_authorization \<Rightarrow> instant \<Rightarrow> string \<Rightarrow> string \<Rightarrow> bool" where
  "action_is_valid a now sid tid =
     (if aa_session_id a \<noteq> sid then False
      else if aa_target_id a \<noteq> tid then False
      else if now > aa_expires_at a then False
      else if now < aa_issued_at a then False
      else True)"

section \<open>What gets through\<close>

text \<open>A validated request names a known command, has its fields, and none of the forbidden ones.\<close>

lemma schema_sound:
  assumes "validate_schema repr show_set v = Inr (c, req)"
  obtains fs where "v = JObj req" and "dict_get req ''command'' = Some (JStr c)" and "dict_get required_fields c = Some fs"
    and "set fs \<subseteq> set (dict_keys req)" and "set (dict_keys req) \<inter> set forbidden_fields = {}"
proof -
  obtain req' where v1: "v = JObj req'" using assms by (cases v) (simp_all add: validate_schema_def)
  obtain w where w: "dict_get req' ''command'' = Some w"
    using assms by (cases "dict_get req' ''command''") (simp_all add: validate_schema_def v1)
  obtain c' where w2: "w = JStr c'"
    using assms by (cases w) (simp_all add: validate_schema_def v1 w)
  obtain fs where fs: "dict_get required_fields c' = Some fs"
    using assms by (cases "dict_get required_fields c'") (simp_all add: validate_schema_def v1 w w2 split: if_splits)
  have f: "check_fields show_set c' fs req' = Inr (c, req)"
    using assms by (simp add: validate_schema_def v1 w w2 fs split: if_splits)
  then have c: "c' = c" by (simp add: check_fields_def split: option.splits if_splits)
  note v = v1 w [unfolded w2 c] fs [unfolded c]
  from f have "req' = req" "missing_field fs req = None" "injected_fields req = []"
    by (simp_all add: check_fields_def split: option.splits if_splits)
  then show ?thesis
    using v by (intro that) (auto simp: missing_field_def injected_fields_def find_None_iff filter_empty_conv)
qed

lemma issue_auth_rejected: "validate_schema repr show_set v \<noteq> Inr (''ISSUE_AUTH'', req)"
proof
  assume "validate_schema repr show_set v = Inr (''ISSUE_AUTH'', req)"
  then obtain fs where "dict_get required_fields ''ISSUE_AUTH'' = Some fs" by (rule schema_sound)
  then show False by (simp add: required_fields_def)
qed

lemma required_lookup:
  "dict_get required_fields ''START_BROWSER'' = Some [''url'']"
  "dict_get required_fields ''STOP_BROWSER'' = Some []"
  "dict_get required_fields ''STATUS'' = Some []"
  "dict_get required_fields ''HIDE_BROWSER'' = Some []"
  "dict_get required_fields ''NAVIGATE'' = Some [''url'']"
  "dict_get required_fields ''NAVIGATE_ACTION'' = Some [''action'']"
  "dict_get required_fields ''OBSERVE'' = Some []"
  "dict_get required_fields ''RESTART_BROWSER'' = Some []"
  "dict_get required_fields ''FIND'' = Some [''query'']"
  "dict_get required_fields ''CLICK'' = Some [''target_id'']"
  "dict_get required_fields ''TYPE'' = Some [''target_id'', ''text'']"
  "dict_get required_fields ''FILL'' = Some [''target_id'', ''text'']"
  "dict_get required_fields ''CLEAR'' = Some [''target_id'']"
  "dict_get required_fields ''SELECT'' = Some [''target_id'', ''option_identity'']"
  "dict_get required_fields ''CHECK'' = Some [''target_id'']"
  "dict_get required_fields ''UNCHECK'' = Some [''target_id'']"
  "dict_get required_fields ''SUBMIT'' = Some [''target_id'']"
  "dict_get required_fields ''ISSUE_AUTH'' = None"
  by (simp_all add: required_fields_def)

text \<open>Every request of the client but one has a schema it satisfies.\<close>

definition manager_schema_request :: "manager_call \<Rightarrow> (string \<times> json) list" where
  "manager_schema_request m = (''command'', JStr (fst (manager_request m))) # snd (manager_request m)"

lemma manager_requests_valid:
  "validate_schema repr show_set (JObj (manager_schema_request m)) =
    (if fst (manager_request m) = ''ISSUE_AUTH'' then Inl (''Unknown command: '' @ repr ''ISSUE_AUTH'')
     else Inr (fst (manager_request m), manager_schema_request m))"
  by (cases m)
     (simp_all add: validate_schema_def check_fields_def required_lookup forbidden_fields_def manager_schema_request_def
      missing_field_def injected_fields_def)

section \<open>Submission over IPC\<close>

text \<open>
  What clients of the socket and the page can do together: connections, and events of the page. Nothing
  is ever authorized this way, so nothing is armed or let through.
\<close>

inductive ipc_step :: "browser_broker \<Rightarrow> browser_broker \<Rightarrow> bool" where
  connection: "ipc_handle i sent b = Some (b', r) \<Longrightarrow> ipc_step b b'"
| page_event: "ipc_step b (fst (handle_event e ev b))"

definition nothing_authorized :: "browser_broker \<Rightarrow> bool" where
  "nothing_authorized b \<longleftrightarrow> bk_issued b = [] \<and> bk_pending b = None \<and> bk_passed b = []"

lemma keeps_nothing: "keeps f \<Longrightarrow> nothing_authorized b \<Longrightarrow> nothing_authorized (fst (f b))"
  by (simp add: keeps_def same_auth_def nothing_authorized_def)

lemma lifecycle_nothing:
  assumes "nothing_authorized b"
  shows "nothing_authorized (fst (start_browser e v b))" and "nothing_authorized (fst (stop_browser e b))"
    and "nothing_authorized (fst (restart_browser e b))"
  using assms start_same [of e v b] stop_same [of e b] restart_browser_same [of e b]
  by (metis nothing_authorized_def prod.collapse)+

lemma keeps_on_target: "(\<And>t. keeps (f t)) \<Longrightarrow> keeps (on_target e checks tid f)"
  by (cases tid) (auto simp: keeps_def on_target_def)

lemma keeps_target_command: "keeps (target_command e c req)"
  unfolding target_command_def Let_def
  by (intro keeps_if keeps_on_target keeps_page_operations keeps_return)

lemma if_SomeE:
  assumes "(if p then Some a else r) = Some f"
  obtains "f = a" | "r = Some f"
  using assms by (cases p) simp_all

lemma page_command_nothing:
  assumes "page_command e c req = Some f" and "nothing_authorized b"
  shows "nothing_authorized (fst (f b))"
proof -
  have find: "keeps (case v of JObj q \<Rightarrow> find_elements e q | _ \<Rightarrow> bk_return (error_json ''query must be an object''))" for v
    by (cases v) (simp_all add: keeps_page_operations keeps_return)
  have "f \<in> {start_browser e (jfield req ''url'' JNull), stop_browser e, restart_browser e} \<or> keeps f"
    using assms(1) unfolding page_command_def
    by (elim if_SomeE) (simp_all add: keeps_window keeps_navigate keeps_page_operations keeps_observe find)
  then show ?thesis using assms(2) lifecycle_nothing keeps_nothing by blast
qed

text \<open>With nothing issued, every submission is refused at once.\<close>

lemma lookup_nothing:
  assumes "nothing_authorized b"
  shows "lookup_authorization b auth = Inr None \<or> (\<exists>x. lookup_authorization b auth = Inl x)"
  using assms by (cases auth) (simp_all add: lookup_authorization_def nothing_authorized_def)

lemma submit_refused:
  assumes "nothing_authorized b"
  shows "\<exists>m. submit e tid auth b = Some (b, m) \<and>
    (m \<in> {Inr (error_json ''Browser is not running.''), Inr (submit_refusal ''MISSING_AUTHORIZATION'' tid),
           Inr (submit_refusal ''INVALID_AUTHORIZATION'' tid)} \<or> (\<exists>x. m = Inl x))"
  using lookup_nothing [OF assms, of auth] by (auto simp: submit_def submit_check_def)

lemma dispatch_nothing:
  assumes "dispatch_command e cr b = Some (b', r)" and "nothing_authorized b" and "fst cr \<noteq> ''ISSUE_AUTH''"
  shows "nothing_authorized b'"
proof (cases "fst cr = ''SUBMIT''")
  case True
  then obtain tid auth where "submit e tid auth b = Some (b', r)" using assms(1) by (cases cr) (simp add: dispatch_command_def)
  then have "b' = b" using submit_refused [OF assms(2), of e tid auth] by auto
  then show ?thesis using assms(2) by simp
next
  case False
  obtain c req where cr: "cr = (c, req)" by (cases cr)
  show ?thesis
  proof (cases "page_command e c req")
    case None
    then have "b' = fst (target_command e c req b)" using assms(1,3) False by (auto simp: dispatch_command_def cr)
    then show ?thesis using keeps_nothing [OF keeps_target_command assms(2)] by simp
  next
    case (Some f)
    then have "b' = fst (f b)" using assms(1,3) False by (auto simp: dispatch_command_def cr)
    then show ?thesis using page_command_nothing [OF Some assms(2)] by simp
  qed
qed

lemma event_nothing: "nothing_authorized b \<Longrightarrow> nothing_authorized (fst (handle_event e ev b))"
  using event_effect [of e ev b "fst (handle_event e ev b)" "snd (handle_event e ev b)"]
  by (auto simp: nothing_authorized_def same_auth_def)

lemma handle_effect:
  assumes "ipc_handle i sent b = Some (b', r)"
  shows "b' = b \<or> (\<exists>cr r'. fst cr \<noteq> ''ISSUE_AUTH'' \<and> dispatch_command (ie_browser i) cr b = Some (b', r'))"
proof -
  have ans: "\<exists>r'. d = Some (b', r')" if "map_option answer d = Some (b', r)" for d
    using that by (cases d) (auto simp: answer_def)
  define raw where "raw = strip (read_line max_request_bytes sent)"
  show ?thesis
  proof (cases "raw = []")
    case False
    show ?thesis
    proof (cases "ie_loads i raw")
      case (Inl x)
      then show ?thesis using assms False by (cases x) (simp_all add: ipc_handle_def raw_def)
    next
      case (Inr v)
      show ?thesis
      proof (cases "validate_schema (ie_repr i) (ie_show_set i) v")
        case (Inl m)
        then show ?thesis using assms False \<open>ie_loads i raw = Inr v\<close> by (simp add: ipc_handle_def raw_def)
      next
        case (Inr cr)
        then have "map_option answer (dispatch_command (ie_browser i) cr b) = Some (b', r)"
          using assms False \<open>ie_loads i raw = Inr v\<close> by (simp add: ipc_handle_def raw_def)
        moreover have "fst cr \<noteq> ''ISSUE_AUTH''" using issue_auth_rejected Inr by (metis prod.collapse)
        ultimately show ?thesis using ans by blast
      qed
    qed
  qed (use assms in \<open>simp add: ipc_handle_def raw_def\<close>)
qed

lemma ipc_step_nothing:
  assumes "ipc_step b b'" and "nothing_authorized b"
  shows "nothing_authorized b'"
  using assms
proof (induction rule: ipc_step.induct)
  case (connection i sent b b' r)
  then show ?case using handle_effect dispatch_nothing by metis
next
  case (page_event b e ev)
  then show ?case by (simp add: event_nothing)
qed

text \<open>C20. Over IPC no form can ever be submitted, since the schema rejects the one command that authorizes a submission
  before its handler: after any connections and events of the page nothing was issued or let through, and a submission
  leaves the broker as it is and does not report one.\<close>

theorem no_submission_over_ipc:
  assumes "ipc_step\<^sup>*\<^sup>* (server_init profile) b"
  shows "bk_issued b = [] \<and> bk_passed b = [] \<and>
    (\<exists>r. submit e tid auth b = Some (b, r) \<and> r \<noteq> Inr (submit_reply p tid obs))"
proof -
  have "nothing_authorized (server_init profile)"
    by (simp add: nothing_authorized_def server_init_def broker_init_def)
  with assms have n: "nothing_authorized b"
    by (induction rule: rtranclp_induct) (simp_all add: ipc_step_nothing)
  obtain m where m: "submit e tid auth b = Some (b, m)"
    and "m \<in> {Inr (error_json ''Browser is not running.''), Inr (submit_refusal ''MISSING_AUTHORIZATION'' tid),
             Inr (submit_refusal ''INVALID_AUTHORIZATION'' tid)} \<or> (\<exists>x. m = Inl x)"
    using submit_refused [OF n, of e tid auth] by blast
  then have "m \<noteq> Inr (submit_reply p tid obs)"
    by (auto simp: error_json_def submit_refusal_def submit_reply_def Let_def)
  then show ?thesis using n m by (auto simp: nothing_authorized_def)
qed

text \<open>A client starts the browser, another asks for an authorization and is refused.\<close>

definition demo_ask :: "json \<Rightarrow> ipc_env" where
  "demo_ask v = \<lparr>ie_browser = demo_browser, ie_loads = \<lambda>_. Inr v, ie_repr = id, ie_show_set = \<lambda>_. []\<rparr>"

definition demo_start_request :: json where
  "demo_start_request = JObj [(''command'', JStr ''START_BROWSER''), (''url'', JStr ''https://a.b/'')]"

definition demo_issue_request :: json where
  "demo_issue_request = JObj [(''command'', JStr ''ISSUE_AUTH''), (''target_id'', JStr ''t''), (''session_id'', JStr ''s'')]"

definition demo_served :: browser_broker where
  "demo_served = fst (the (ipc_handle (demo_ask demo_start_request) ''x'' (server_init ''/p'')))"

lemma demo_raw: "strip (read_line max_request_bytes ''x'') = ''x''"
proof -
  have nil: "read_line n [] = []" for n by (cases n) simp_all
  have m: "max_request_bytes = Suc 4095" by (simp add: max_request_bytes_def)
  have "read_line max_request_bytes ''x'' = ''x''" unfolding m read_line.simps(3) nil by simp
  moreover have "strip ''x'' = ''x''" by code_simp
  ultimately show ?thesis by simp
qed

lemma demo_served_steps: "ipc_step\<^sup>*\<^sup>* (server_init ''/p'') demo_served"
proof -
  have "ipc_handle (demo_ask demo_start_request) ''x'' (server_init ''/p'') \<noteq> None"
    by (simp add: ipc_handle_def demo_ask_def demo_raw demo_start_request_def validate_schema_def
        required_lookup check_fields_def missing_field_def injected_fields_def forbidden_fields_def dispatch_command_def
        page_command_def Let_def)
  then have start: "ipc_step (server_init ''/p'') demo_served"
    unfolding demo_served_def by (metis ipc_step.connection option.collapse prod.collapse)
  have "ipc_handle (demo_ask demo_issue_request) ''x'' demo_served = Some (demo_served, Some (error_json ''Unknown command: ISSUE_AUTH''))"
    by (simp add: ipc_handle_def demo_ask_def demo_raw demo_issue_request_def validate_schema_def
        required_lookup Let_def)
  then have "ipc_step demo_served demo_served" by (rule ipc_step.connection)
  with start show ?thesis by (meson converse_rtranclp_into_rtranclp r_into_rtranclp)
qed

lemma no_submission_over_ipc_witness:
  "running demo_browser demo_served \<and> bk_issued demo_served = [] \<and> bk_passed demo_served = [] \<and>
   (\<exists>r. submit demo_browser (JStr ''t'') (JStr ''a'') demo_served = Some (demo_served, r) \<and>
      r \<noteq> Inr (submit_reply demo_pending (JStr ''t'') JNull))"
proof -
  have "running demo_browser demo_served" by code_simp
  then show ?thesis using no_submission_over_ipc [OF demo_served_steps] by blast
qed

section \<open>A call of the client\<close>

text \<open>What comes back on the connection; a handler that never ends is the timeout of the client.\<close>

definition broker_server :: "ipc_env \<Rightarrow> (json \<Rightarrow> string) \<Rightarrow> browser_broker \<Rightarrow> string \<Rightarrow> string + string" where
  "broker_server i dumps b sent =
     (case ipc_handle i sent b of
        None \<Rightarrow> Inl ''timed out''
      | Some (_, None) \<Rightarrow> Inr []
      | Some (_, Some v) \<Rightarrow> Inr (dumps v @ [CHR 0x0A]))"

text \<open>A line that travels: short enough, without a line end inside, and without spaces around it.\<close>

definition one_line :: "string \<Rightarrow> bool" where
  "one_line s \<longleftrightarrow> s \<noteq> [] \<and> length s < 4096 \<and> CHR 0x0A \<notin> set s \<and> strip s = s"

lemma read_line_short: "length s < n \<Longrightarrow> CHR 0x0A \<notin> set s \<Longrightarrow> read_line n (s @ [CHR 0x0A]) = s @ [CHR 0x0A]"
proof (induction n arbitrary: s)
  case (Suc n)
  then show ?case by (cases s) auto
qed simp

lemma strip_line:
  assumes "strip s = s" and "s \<noteq> []"
  shows "strip (s @ [CHR 0x0A]) = s"
proof -
  have "length (strip s) \<le> length (dropWhile is_space s)"
    unfolding strip_def length_rev by (metis length_dropWhile_le length_rev)
  then have "length (dropWhile is_space s) = length s" using assms(1) length_dropWhile_le [of is_space s] by simp
  then have front: "dropWhile is_space s = s"
    by (metis append_Nil length_0_conv add_cancel_left_left length_append takeWhile_dropWhile_id)
  then have tail_kept: "rev (dropWhile is_space (rev s)) = s" using assms(1) by (simp add: strip_def)
  have "\<not> is_space (hd s)"
    using front assms(2) by (metis dropWhile.simps(2) length_dropWhile_le list.collapse list.size(4) not_less_eq_eq One_nat_def add.right_neutral add_Suc_right)
  then have "dropWhile is_space (s @ [CHR 0x0A]) = s @ [CHR 0x0A]" using assms(2) by (cases s) auto
  then show ?thesis using tail_kept by (simp add: strip_def is_space_def)
qed

lemma one_line_read: "one_line s \<Longrightarrow> strip (read_line max_request_bytes (s @ [CHR 0x0A])) = s"
  unfolding one_line_def max_request_bytes_def by (simp add: read_line_short strip_line)

text \<open>A call of the client over the connection gives back what the operation of the broker answered, when the
  lines are short enough.\<close>

theorem ipc_roundtrip:
  assumes "fst (manager_request m) \<noteq> ''ISSUE_AUTH''"
    and "one_line (dumps (JObj (manager_schema_request m)))"
    and "ie_loads i (dumps (JObj (manager_schema_request m))) = Inr (JObj (manager_schema_request m))"
    and "dispatch_command (ie_browser i) (fst (manager_request m), manager_schema_request m) b = Some (b', Inr v)"
    and "one_line (dumps v)" and "loads (dumps v) = Inr v"
  shows "send_ipc True dumps loads (broker_server i dumps b) (fst (manager_request m)) (snd (manager_request m)) = v"
proof -
  let ?req = "dumps (JObj (manager_schema_request m)) @ [CHR 0x0A]"
  have "ipc_handle i ?req b = Some (b', Some v)"
    using assms(1-4) one_line_read [OF assms(2)]
    by (simp add: ipc_handle_def manager_requests_valid answer_def one_line_def)
  then have "broker_server i dumps b ?req = Inr (dumps v @ [CHR 0x0A])" by (simp add: broker_server_def)
  moreover have "strip (take recv_limit (dumps v @ [CHR 0x0A])) = dumps v"
    using assms(5) strip_line by (simp add: one_line_def recv_limit_def take_Cons')
  ultimately show ?thesis using assms(6) by (simp add: send_ipc_def manager_schema_request_def)
qed

text \<open>A longer reply is cut: the client reads the first 4096 bytes.\<close>

lemma long_reply_is_cut:
  assumes "srv (dumps (JObj ((''command'', JStr c) # kw)) @ [CHR 0x0A]) = Inr (r @ [CHR 0x0A])" and "length r \<ge> 4096"
    and "loads (strip (take 4096 r)) = Inl m"
  shows "send_ipc True dumps loads srv c kw = error_json m"
  using assms by (auto simp: send_ipc_def recv_limit_def)

definition demo_ipc :: ipc_env where
  "demo_ipc = \<lparr>ie_browser = demo_browser, ie_loads = \<lambda>_. Inr (JObj (manager_schema_request Mgr_hide)),
     ie_repr = id, ie_show_set = concat\<rparr>"

lemma ipc_roundtrip_witness:
  "send_ipc True (\<lambda>_. ''x'') (\<lambda>_. Inr (hide_reply ''ok'' B_CLOSED (''Browser not running '' @ em_dash @ '' nothing to hide'')))
     (broker_server demo_ipc (\<lambda>_. ''x'') (server_init ''/p'')) (fst (manager_request Mgr_hide)) (snd (manager_request Mgr_hide)) =
   hide_reply ''ok'' B_CLOSED (''Browser not running '' @ em_dash @ '' nothing to hide'')"
proof (rule ipc_roundtrip)
  show "dispatch_command (ie_browser demo_ipc) (fst (manager_request Mgr_hide), manager_schema_request Mgr_hide) (server_init ''/p'') =
      Some (server_init ''/p'', Inr (hide_reply ''ok'' B_CLOSED (''Browser not running '' @ em_dash @ '' nothing to hide'')))"
    by (simp add: dispatch_command_def page_command_def hide_browser_def running_def server_init_def broker_init_def)
qed (simp_all add: demo_ipc_def one_line_def strip_def is_space_def)

end
