(* ===== verification/Telemetry.thy ===== *)
theory Telemetry
  imports Fabric
begin

text \<open>
  Telemetry (runtime/telemetry/): the envelope of an event, the scrubber, the collector with its log and
  its queries, the stream of live events, and the aggregation of the log into the processing matrix.
  An envelope is its fields with their values. A line of the log is what \<open>json.loads\<close> makes of it, if
  anything; parsing of timestamps is an argument. Identifiers are strings or null.
\<close>

section \<open>Trace contexts\<close>

record trace_context =
  tx_trace_id :: string
  tx_span_id :: string
  tx_parent_span_id :: "string option"

definition generate_id :: "string \<Rightarrow> string \<Rightarrow> string" where
  "generate_id pre hex = pre @ ''-'' @ take 16 hex"

definition new_trace :: "string \<Rightarrow> string \<Rightarrow> trace_context" where
  "new_trace h1 h2 =
     \<lparr>tx_trace_id = generate_id ''trc'' h1, tx_span_id = generate_id ''spn'' h2, tx_parent_span_id = None\<rparr>"

definition child_span :: "string \<Rightarrow> trace_context \<Rightarrow> trace_context" where
  "child_span h t =
     \<lparr>tx_trace_id = tx_trace_id t, tx_span_id = generate_id ''spn'' h, tx_parent_span_id = Some (tx_span_id t)\<rparr>"

section \<open>Scrubbing\<close>

definition sensitive_words :: "string list" where
  "sensitive_words = [''token'', ''key'', ''password'', ''secret'', ''credential'', ''auth'', ''pat'']"

text \<open>\<open>.*\<close> stays within a line, and \<open>$\<close> also matches before a line end at the very end.\<close>

definition one_line_left :: "string \<Rightarrow> bool" where
  "one_line_left s \<longleftrightarrow> CHR 0x0A \<notin> set (if s \<noteq> [] \<and> last s = CHR 0x0A then butlast s else s)"

definition word_at :: "string \<Rightarrow> nat \<Rightarrow> string \<Rightarrow> bool" where
  "word_at k i w \<longleftrightarrow>
     CHR 0x0A \<notin> set (take i k) \<and> starts_with (map to_lower_char (drop i k)) w \<and> one_line_left (drop (i + length w) k)"

definition is_sensitive_key :: "string \<Rightarrow> bool" where
  "is_sensitive_key k \<longleftrightarrow> list_ex (\<lambda>i. list_ex (word_at k i) sensitive_words) [0..<Suc (length k)]"

definition redacted :: json where
  "redacted = JStr ''[REDACTED]''"

fun scrub_metadata :: "json \<Rightarrow> json"
  and scrub_items :: "json list \<Rightarrow> json list"
  and scrub_entries :: "(string \<times> json) list \<Rightarrow> (string \<times> json) list" where
  "scrub_metadata (JObj kvs) = JObj (scrub_entries kvs)"
| "scrub_metadata (JList vs) = JList (scrub_items vs)"
| "scrub_metadata v = v"
| "scrub_items [] = []"
| "scrub_items (v # vs) = scrub_metadata v # scrub_items vs"
| "scrub_entries [] = []"
| "scrub_entries ((k, v) # kvs) =
     (k, if is_sensitive_key k then redacted else scrub_metadata v) # scrub_entries kvs"

section \<open>Envelopes\<close>

type_synonym envelope = "(string, json) dict"

definition envelope_defaults :: "string \<Rightarrow> string \<Rightarrow> envelope" where
  "envelope_defaults eid now =
     [(''event_id'', JStr eid), (''trace_id'', JNull), (''span_id'', JNull), (''parent_span_id'', JNull),
      (''timestamp'', JStr now), (''component'', JStr []), (''event_type'', JStr []), (''source'', JStr []),
      (''domain'', JStr ''ANNY_UNIVERSE'')] @
     map (\<lambda>k. (k, JNull))
      [''task_id'', ''execution_id'', ''worker_id'', ''directorate_id'', ''department_id'', ''workspace_id'',
       ''tenant_id'', ''account_id'', ''project_id'', ''repository_id'', ''resource_id'', ''capability_id'',
       ''capability_family'', ''execution_mode'', ''routing_class'', ''executor_type'', ''executor_id'',
       ''model_id'', ''model_version'', ''policy_version'', ''status'', ''duration_ms'', ''input_size'',
       ''output_size'', ''input_hash'', ''result_hash''] @
     [(''metadata'', JObj [])]"

definition envelope_fields :: "string list" where
  "envelope_fields = dict_keys (envelope_defaults [] [])"

text \<open>The constructor; a field it does not know is a \<open>TypeError\<close>.\<close>

definition make_envelope :: "string \<Rightarrow> string \<Rightarrow> (string \<times> json) list \<Rightarrow> envelope option" where
  "make_envelope eid now given =
     (if set (dict_keys given) \<subseteq> set envelope_fields
      then Some (map (\<lambda>(k, d). (k, case dict_get given k of Some v \<Rightarrow> v | None \<Rightarrow> d)) (envelope_defaults eid now))
      else None)"

text \<open>\<open>create\<close> takes every field but the identifier and the time.\<close>

definition create_envelope ::
  "string \<Rightarrow> string \<Rightarrow> string \<Rightarrow> string \<Rightarrow> string \<Rightarrow> (string \<times> json) list \<Rightarrow> envelope option" where
  "create_envelope eid now component event_type source given =
     (if ''event_id'' \<in> set (dict_keys given) \<or> ''timestamp'' \<in> set (dict_keys given) then None
      else let m = (case dict_get given ''metadata'' of Some v \<Rightarrow> if truthy v then v else JObj [] | None \<Rightarrow> JObj [])
           in make_envelope eid now
                (dict_set (dict_set (dict_set (dict_set given ''metadata'' m) ''component'' (JStr component))
                   ''event_type'' (JStr event_type)) ''source'' (JStr source)))"

definition envelope_dict :: "envelope \<Rightarrow> (string \<times> json) list" where
  "envelope_dict e = filter (\<lambda>(k, v). v \<noteq> JNull) e"

definition env_field :: "envelope \<Rightarrow> string \<Rightarrow> json" where
  "env_field e k = jfield e k JNull"

section \<open>The collector\<close>

record telemetry_collector =
  tc_log :: "json option list"
  tc_recent :: "envelope list"

definition collector_init :: "json option list \<Rightarrow> telemetry_collector" where
  "collector_init lines = \<lparr>tc_log = lines, tc_recent = []\<rparr>"

definition recent_limit :: nat where
  "recent_limit = 1000"

definition push_recent :: "envelope \<Rightarrow> envelope list \<Rightarrow> envelope list" where
  "push_recent e es = (let ys = es @ [e] in drop (length ys - recent_limit) ys)"

text \<open>A failed write is only logged; the envelope is then not among the recent ones either.\<close>

definition scrub_envelope :: "envelope \<Rightarrow> envelope" where
  "scrub_envelope e =
     (if truthy (env_field e ''metadata'')
      then dict_set e ''metadata'' (scrub_metadata (env_field e ''metadata'')) else e)"

definition collector_emit :: "bool \<Rightarrow> envelope \<Rightarrow> telemetry_collector \<Rightarrow> telemetry_collector" where
  "collector_emit writes e0 c =
     (let e = scrub_envelope e0
      in if writes
         then c\<lparr>tc_log := tc_log c @ [Some (JObj (envelope_dict e))], tc_recent := push_recent e (tc_recent c)\<rparr>
         else c)"

definition matches_filters :: "(string \<times> string) list \<Rightarrow> (string \<times> json) list \<Rightarrow> bool" where
  "matches_filters fs kvs \<longleftrightarrow> list_all (\<lambda>(k, v). dict_get kvs k = Some (JStr v)) fs"

text \<open>The envelope a line stands for; lines of any other shape are passed over.\<close>

definition line_event :: "string \<Rightarrow> (string \<times> string) list \<Rightarrow> json option \<Rightarrow> envelope option" where
  "line_event eid fs line =
     (case line of
        Some (JObj kvs) \<Rightarrow>
          if matches_filters fs kvs
          then make_envelope eid [] (if ''timestamp'' \<in> set (dict_keys kvs) then kvs else kvs @ [(''timestamp'', JNull)])
          else None
      | _ \<Rightarrow> None)"

text \<open>The loop over the lines, the last one first; it ends once enough was found, after finding.\<close>

fun query_lines :: "(nat \<Rightarrow> string) \<Rightarrow> (string \<times> string) list \<Rightarrow> int \<Rightarrow> json option list \<Rightarrow> envelope list \<Rightarrow> envelope list" where
  "query_lines fresh fs limit [] acc = acc"
| "query_lines fresh fs limit (l # ls) acc =
     (case line_event (fresh (length ls)) fs l of
        None \<Rightarrow> query_lines fresh fs limit ls acc
      | Some e \<Rightarrow>
          if int (length (acc @ [e])) \<ge> limit then acc @ [e]
          else query_lines fresh fs limit ls (acc @ [e]))"

definition query_events :: "(nat \<Rightarrow> string) \<Rightarrow> (string \<times> string) list \<Rightarrow> int \<Rightarrow> telemetry_collector \<Rightarrow> envelope list" where
  "query_events fresh fs limit c = query_lines fresh fs limit (rev (tc_log c)) []"

definition trace_events :: "(nat \<Rightarrow> string) \<Rightarrow> string \<Rightarrow> telemetry_collector \<Rightarrow> envelope list" where
  "trace_events fresh tid c = rev (query_events fresh [(''trace_id'', tid)] 1000 c)"

definition live_events :: "telemetry_collector \<Rightarrow> envelope list" where
  "live_events c = tc_recent c"

text \<open>\<open>recent[-limit:]\<close>, which is everything for 0.\<close>

definition timeline_events :: "nat \<Rightarrow> telemetry_collector \<Rightarrow> envelope list" where
  "timeline_events limit c =
     (let es = tc_recent c
      in if length es > limit \<and> limit \<noteq> 0 then drop (length es - limit) es else es)"

section \<open>The stream\<close>

text \<open>One turn of the loop: what is new by its identifier is sent, in order.\<close>

fun stream_poll :: "envelope list \<Rightarrow> json list \<Rightarrow> envelope list \<times> json list" where
  "stream_poll [] seen = ([], seen)"
| "stream_poll (e # es) seen =
     (let i = env_field e ''event_id''
      in if i \<in> set seen then stream_poll es seen
         else (case stream_poll es (seen @ [i]) of (out, seen') \<Rightarrow> (e # out, seen')))"

text \<open>The first events, and what each turn sends for the recent events it finds.\<close>

fun stream_turns :: "envelope list list \<Rightarrow> json list \<Rightarrow> envelope list" where
  "stream_turns [] seen = []"
| "stream_turns (live # turns) seen = (case stream_poll live seen of (out, seen') \<Rightarrow> out @ stream_turns turns seen')"

definition telemetry_stream :: "envelope list \<Rightarrow> envelope list list \<Rightarrow> envelope list" where
  "telemetry_stream first turns = first @ stream_turns turns (map (\<lambda>e. env_field e ''event_id'') first)"

section \<open>Aggregation\<close>

record execution_state =
  xs_department :: json
  xs_routing :: json
  xs_status :: json
  xs_duration :: json
  xs_timestamp :: json
  xs_when :: instant

text \<open>The events with a timestamp that can be parsed, with it, in the order of time.\<close>

definition timed_events :: "(string \<Rightarrow> instant option) \<Rightarrow> envelope list \<Rightarrow> (instant \<times> envelope) list" where
  "timed_events isoparse es =
     sort_key fst (List.map_filter (\<lambda>e.
       case env_field e ''timestamp'' of
         JStr s \<Rightarrow> if s = [] then None else map_option (\<lambda>t. (t, e)) (isoparse s)
       | _ \<Rightarrow> None) es)"

definition or_unknown :: "json \<Rightarrow> json" where
  "or_unknown v = (if truthy v then v else JStr ''UNKNOWN'')"

definition new_state :: "instant \<Rightarrow> envelope \<Rightarrow> execution_state" where
  "new_state t e =
     \<lparr>xs_department = or_unknown (env_field e ''department_id''), xs_routing = or_unknown (env_field e ''routing_class''),
      xs_status = JStr ''UNKNOWN'', xs_duration = JNull, xs_timestamp = env_field e ''timestamp'', xs_when = t\<rparr>"

definition succeeded :: json where
  "succeeded = JStr ''SUCCEEDED''"

text \<open>Success is kept, whatever comes later.\<close>

definition merge_status :: "json \<Rightarrow> json \<Rightarrow> json" where
  "merge_status old new =
     (if \<not> truthy new then old else if old = succeeded \<and> new \<noteq> succeeded then old else new)"

definition update_state :: "instant \<Rightarrow> envelope \<Rightarrow> execution_state \<Rightarrow> execution_state" where
  "update_state t e s =
     (let s = s\<lparr>xs_department := if truthy (env_field e ''department_id'') then env_field e ''department_id'' else xs_department s,
                xs_routing := if truthy (env_field e ''routing_class'') then env_field e ''routing_class'' else xs_routing s,
                xs_status := merge_status (xs_status s) (env_field e ''status''),
                xs_duration := if env_field e ''duration_ms'' \<noteq> JNull then env_field e ''duration_ms'' else xs_duration s\<rparr>
      in if t > xs_when s then s\<lparr>xs_timestamp := env_field e ''timestamp'', xs_when := t\<rparr> else s)"

definition observe_event :: "instant \<times> envelope \<Rightarrow> (json, execution_state) dict \<Rightarrow> (json, execution_state) dict" where
  "observe_event te d =
     (case te of (t, e) \<Rightarrow>
        let i = env_field e ''execution_id''
        in if \<not> truthy i then d
           else dict_set d i (update_state t e (case dict_get d i of Some s \<Rightarrow> s | None \<Rightarrow> new_state t e)))"

definition execution_states :: "(instant \<times> envelope) list \<Rightarrow> (json, execution_state) dict" where
  "execution_states es = fold observe_event es []"

record matrix_stats =
  mx_total :: nat
  mx_deterministic :: nat
  mx_local_model :: nat
  mx_frontier_model :: nat
  mx_unknown :: nat
  mx_success :: nat
  mx_failed :: nat
  mx_timeout :: nat
  mx_blocked :: nat
  mx_latest :: "(json \<times> instant) option"
  mx_durations :: "json list"

definition no_stats :: matrix_stats where
  "no_stats =
     \<lparr>mx_total = 0, mx_deterministic = 0, mx_local_model = 0, mx_frontier_model = 0, mx_unknown = 0, mx_success = 0,
      mx_failed = 0, mx_timeout = 0, mx_blocked = 0, mx_latest = None, mx_durations = []\<rparr>"

definition count_routing :: "json \<Rightarrow> matrix_stats \<Rightarrow> matrix_stats" where
  "count_routing rc m =
     (if rc = JStr ''DETERMINISTIC'' then m\<lparr>mx_deterministic := mx_deterministic m + 1\<rparr>
      else if rc = JStr ''LOCAL_MODEL'' then m\<lparr>mx_local_model := mx_local_model m + 1\<rparr>
      else if rc = JStr ''FRONTIER_MODEL'' then m\<lparr>mx_frontier_model := mx_frontier_model m + 1\<rparr>
      else m\<lparr>mx_unknown := mx_unknown m + 1\<rparr>)"

definition count_status :: "json \<Rightarrow> matrix_stats \<Rightarrow> matrix_stats" where
  "count_status st m =
     (if st = succeeded then m\<lparr>mx_success := mx_success m + 1\<rparr>
      else if st = JStr ''FAILED'' then m\<lparr>mx_failed := mx_failed m + 1\<rparr>
      else if st = JStr ''TIMED_OUT'' then m\<lparr>mx_timeout := mx_timeout m + 1\<rparr>
      else if st = JStr ''BLOCKED'' \<or> st = JStr ''LIMIT_EXCEEDED'' then m\<lparr>mx_blocked := mx_blocked m + 1\<rparr>
      else m)"

definition count_latest :: "execution_state \<Rightarrow> matrix_stats \<Rightarrow> matrix_stats" where
  "count_latest s m =
     (case mx_latest m of
        None \<Rightarrow> m\<lparr>mx_latest := Some (xs_timestamp s, xs_when s)\<rparr>
      | Some (_, t) \<Rightarrow> if xs_when s > t then m\<lparr>mx_latest := Some (xs_timestamp s, xs_when s)\<rparr> else m)"

definition count_execution :: "execution_state \<Rightarrow> matrix_stats \<Rightarrow> matrix_stats" where
  "count_execution s m =
     (let m = count_status (xs_status s) (count_routing (xs_routing s) (m\<lparr>mx_total := mx_total m + 1\<rparr>));
          m = (if xs_duration s \<noteq> JNull then m\<lparr>mx_durations := mx_durations m @ [xs_duration s]\<rparr> else m)
      in count_latest s m)"

definition count_in_department ::
  "execution_state \<Rightarrow> (json, matrix_stats) dict \<Rightarrow> (json, matrix_stats) dict" where
  "count_in_department s ds =
     (let m = (case dict_get ds (xs_department s) of Some m \<Rightarrow> m | None \<Rightarrow> no_stats)
      in dict_set ds (xs_department s) (count_execution s m))"

definition count_all :: "execution_state list \<Rightarrow> matrix_stats \<times> (json, matrix_stats) dict" where
  "count_all ss = fold (\<lambda>s (g, ds). (count_execution s g, count_in_department s ds)) ss (no_stats, [])"

text \<open>\<open>sum(durations) / len(durations)\<close>; 0 for none.\<close>

fun number_of :: "json \<Rightarrow> rat option" where
  "number_of (JInt n) = Some (of_int n)"
| "number_of (JFloat x) = Some x"
| "number_of (JBool b) = Some (if b then 1 else 0)"
| "number_of v = None"

fun sum_numbers :: "json list \<Rightarrow> rat result" where
  "sum_numbers [] = Inr 0"
| "sum_numbers (v # vs) =
     (case number_of v of
        None \<Rightarrow> Inl (TypeError ''unsupported operand'')
      | Some x \<Rightarrow> and_then (sum_numbers vs) (\<lambda>y. Inr (x + y)))"

definition average_duration :: "matrix_stats \<Rightarrow> rat result" where
  "average_duration m =
     (if mx_durations m = [] then Inr 0
      else and_then (sum_numbers (mx_durations m)) (\<lambda>x. Inr (x / of_nat (length (mx_durations m)))))"

fun average_all :: "(json, matrix_stats) dict \<Rightarrow> (json, matrix_stats \<times> rat) dict result" where
  "average_all [] = Inr []"
| "average_all ((k, m) # ds) =
     and_then (average_duration m) (\<lambda>a. and_then (average_all ds) (\<lambda>rest. Inr ((k, m, a) # rest)))"

record processing_matrix =
  pm_global :: "matrix_stats \<times> rat"
  pm_departments :: "(json, matrix_stats \<times> rat) dict"

definition matrix_of :: "(string \<Rightarrow> instant option) \<Rightarrow> envelope list \<Rightarrow> processing_matrix result" where
  "matrix_of isoparse es =
     (case count_all (dict_values (execution_states (timed_events isoparse es))) of
        (g, ds) \<Rightarrow>
          and_then (average_duration g) (\<lambda>a. and_then (average_all ds) (\<lambda>das.
            Inr \<lparr>pm_global = (g, a), pm_departments = das\<rparr>)))"

definition get_matrix ::
  "(string \<Rightarrow> instant option) \<Rightarrow> (nat \<Rightarrow> string) \<Rightarrow> (string \<times> string) list \<Rightarrow> telemetry_collector \<Rightarrow> processing_matrix result" where
  "get_matrix isoparse fresh fs c = matrix_of isoparse (query_events fresh fs 10000 c)"

definition aggregator_events :: "(nat \<Rightarrow> string) \<Rightarrow> (string \<times> string) list \<Rightarrow> int \<Rightarrow> telemetry_collector \<Rightarrow> (string \<times> json) list list" where
  "aggregator_events fresh fs limit c = map envelope_dict (query_events fresh fs limit c)"

section \<open>Nothing sensitive is written\<close>

text \<open>A value that shows something under a sensitive key.\<close>

fun leaks :: "json \<Rightarrow> bool" and leaks_items :: "json list \<Rightarrow> bool" and leaks_entries :: "(string \<times> json) list \<Rightarrow> bool" where
  "leaks (JObj kvs) \<longleftrightarrow> leaks_entries kvs"
| "leaks (JList vs) \<longleftrightarrow> leaks_items vs"
| "leaks v \<longleftrightarrow> False"
| "leaks_items [] \<longleftrightarrow> False"
| "leaks_items (v # vs) \<longleftrightarrow> leaks v \<or> leaks_items vs"
| "leaks_entries [] \<longleftrightarrow> False"
| "leaks_entries ((k, v) # kvs) \<longleftrightarrow> (is_sensitive_key k \<and> v \<noteq> redacted) \<or> leaks v \<or> leaks_entries kvs"

lemma redacted_fixed [simp]: "scrub_metadata redacted = redacted" "\<not> leaks redacted"
  by (simp_all add: redacted_def)

lemma scrub_no_leak: "\<not> leaks (scrub_metadata v)" "\<not> leaks_items (scrub_items vs)" "\<not> leaks_entries (scrub_entries kvs)"
  by (induction v and vs and kvs rule: scrub_metadata_scrub_items_scrub_entries.induct) auto

lemma scrub_idem:
  "scrub_metadata (scrub_metadata v) = scrub_metadata v" "scrub_items (scrub_items vs) = scrub_items vs"
  "scrub_entries (scrub_entries kvs) = scrub_entries kvs"
  by (induction v and vs and kvs rule: scrub_metadata_scrub_items_scrub_entries.induct) auto

text \<open>What has nothing to hide is kept as it is.\<close>

lemma scrub_honest:
  "\<not> leaks v \<Longrightarrow> scrub_metadata v = v" "\<not> leaks_items vs \<Longrightarrow> scrub_items vs = vs"
  "\<not> leaks_entries kvs \<Longrightarrow> scrub_entries kvs = kvs"
  by (induction v and vs and kvs rule: scrub_metadata_scrub_items_scrub_entries.induct) auto

section \<open>Runs\<close>

text \<open>Events that are created and emitted, where writing may fail, and restarts, which forget the recent events.\<close>

datatype telemetry_op =
    Record_event bool string string string string string "(string \<times> json) list"
  | Restart_collector

fun telemetry_apply :: "telemetry_op \<Rightarrow> telemetry_collector \<Rightarrow> telemetry_collector" where
  "telemetry_apply (Record_event writes eid now component event_type source given) c =
     (case create_envelope eid now component event_type source given of
        None \<Rightarrow> c | Some e \<Rightarrow> collector_emit writes e c)"
| "telemetry_apply Restart_collector c = collector_init (tc_log c)"

definition telemetry_run :: "telemetry_op list \<Rightarrow> telemetry_collector" where
  "telemetry_run ops = fold telemetry_apply ops (collector_init [])"

text \<open>What a run wrote.\<close>

definition written :: "telemetry_op list \<Rightarrow> envelope list" where
  "written ops = List.map_filter (\<lambda>p.
     case p of
       Record_event True eid now component event_type source given \<Rightarrow>
         map_option scrub_envelope (create_envelope eid now component event_type source given)
     | _ \<Rightarrow> None) ops"



lemma envelope_fields_distinct: "distinct envelope_fields"
  by (simp add: envelope_fields_def envelope_defaults_def)

lemma default_keys: "dict_keys (envelope_defaults eid now) = envelope_fields"
  by (simp add: envelope_fields_def envelope_defaults_def)


lemma get_filter_values:
  "distinct (dict_keys e) \<Longrightarrow>
    dict_get (filter (\<lambda>(k, v). P v) e) k = (case dict_get e k of Some v \<Rightarrow> if P v then Some v else None | None \<Rightarrow> None)"
proof (induction e)
  case (Cons a e)
  then show ?case by (cases a) (auto simp: map_of_eq_None_iff split: option.splits)
qed simp






lemma make_envelope_keys:
  assumes "make_envelope eid now given = Some e"
  shows "dict_keys e = envelope_fields"
proof -
  have "e = map (\<lambda>(k, d). (k, case dict_get given k of Some v \<Rightarrow> v | None \<Rightarrow> d)) (envelope_defaults eid now)"
    using assms by (simp add: make_envelope_def split: if_splits)
  then show ?thesis by (simp add: default_keys [of eid now, symmetric] case_prod_beta)
qed

lemma create_keys: "create_envelope eid now c t src given = Some e \<Longrightarrow> dict_keys e = envelope_fields"
  by (auto simp: create_envelope_def Let_def make_envelope_keys split: if_splits)

lemma scrub_keys:
  assumes "dict_keys e = envelope_fields"
  shows "dict_keys (scrub_envelope e) = envelope_fields"
proof -
  have "''metadata'' \<in> set (dict_keys e)" unfolding assms by (simp add: envelope_fields_def envelope_defaults_def)
  then have "dict_keys (dict_set e ''metadata'' v) = envelope_fields" for v
    using assms by (simp add: AList.update_keys)
  then show ?thesis using assms by (simp add: scrub_envelope_def)
qed


lemma scrub_envelope_metadata: "\<not> leaks (env_field (scrub_envelope e) ''metadata'')"
proof (cases "truthy (env_field e ''metadata'')")
  case True
  then show ?thesis by (simp add: scrub_envelope_def env_field_def jfield_def scrub_no_leak)
next
  case False
  then show ?thesis by (cases "env_field e ''metadata''") (simp_all add: scrub_envelope_def)
qed

lemma map_filter_snoc: "List.map_filter f (xs @ [x]) = List.map_filter f xs @ (case f x of None \<Rightarrow> [] | Some y \<Rightarrow> [y])"
  by (induction xs) (auto simp: List.map_filter_simps split: option.splits)

lemma telemetry_run_snoc: "telemetry_run (ops @ [p]) = telemetry_apply p (telemetry_run ops)"
  by (simp add: telemetry_run_def)

lemma log_written: "tc_log (telemetry_run ops) = map (\<lambda>e. Some (JObj (envelope_dict e))) (written ops)"
proof (induction ops rule: rev_induct)
  case Nil
  then show ?case by (simp add: telemetry_run_def collector_init_def written_def List.map_filter_simps)
next
  case (snoc p ops)
  then show ?case
  proof (cases p)
    case (Record_event writes eid now component event_type source given)
    then show ?thesis using snoc
      by (cases writes; cases "create_envelope eid now component event_type source given")
         (simp_all add: telemetry_run_snoc written_def map_filter_snoc collector_emit_def Let_def)
  next
    case Restart_collector
    then show ?thesis using snoc
      by (simp add: telemetry_run_snoc written_def map_filter_snoc collector_init_def)
  qed
qed

lemma writtenE:
  assumes "e \<in> set (written ops)"
  obtains eid now c t src given e0 where "Record_event True eid now c t src given \<in> set ops"
    and "create_envelope eid now c t src given = Some e0" and "e = scrub_envelope e0"
proof -
  from assms obtain p where p: "p \<in> set ops" and q: "(case p of
       Record_event True eid now component event_type source given \<Rightarrow>
         map_option scrub_envelope (create_envelope eid now component event_type source given)
     | _ \<Rightarrow> None) = Some e"
    unfolding written_def List.map_filter_def by fastforce
  show ?thesis
  proof (cases p)
    case (Record_event w eid now c t src given)
    then show ?thesis using p q that by (cases w; cases "create_envelope eid now c t src given") simp_all
  qed (use q in simp)
qed


lemma written_keys: "e \<in> set (written ops) \<Longrightarrow> dict_keys e = envelope_fields"
  by (elim writtenE) (simp add: create_keys scrub_keys)

lemma written_scrubbed: "e \<in> set (written ops) \<Longrightarrow> \<not> leaks (env_field e ''metadata'')"
  by (elim writtenE) (simp add: scrub_envelope_metadata)

text \<open>
  What a key that names a secret is, in its own terms: somewhere in it, in whatever case, stands a word for one, and it has
  no line end. \<open>exposes\<close> looks for such a key, at any depth, that holds anything but the mark.
\<close>

definition names_secret :: "string \<Rightarrow> bool" where
  "names_secret k \<longleftrightarrow> CHR 0x0A \<notin> set k \<and>
     (\<exists>w \<in> {''token'', ''key'', ''password'', ''secret'', ''credential'', ''auth'', ''pat''}. sublist w (map to_lower_char k))"

fun exposes :: "json \<Rightarrow> bool" and exposes_items :: "json list \<Rightarrow> bool"
  and exposes_entries :: "(string \<times> json) list \<Rightarrow> bool" where
  "exposes (JObj kvs) \<longleftrightarrow> exposes_entries kvs"
| "exposes (JList vs) \<longleftrightarrow> exposes_items vs"
| "exposes v \<longleftrightarrow> False"
| "exposes_items [] \<longleftrightarrow> False"
| "exposes_items (v # vs) \<longleftrightarrow> exposes v \<or> exposes_items vs"
| "exposes_entries [] \<longleftrightarrow> False"
| "exposes_entries ((k, v) # kvs) \<longleftrightarrow> (names_secret k \<and> v \<noteq> JStr ''[REDACTED]'') \<or> exposes v \<or> exposes_entries kvs"

lemma sensitive_words_set:
  "set sensitive_words = {''token'', ''key'', ''password'', ''secret'', ''credential'', ''auth'', ''pat''}"
  by (simp add: sensitive_words_def)

lemma names_secret_sensitive:
  assumes "names_secret k"
  shows "is_sensitive_key k"
proof -
  obtain w where w: "w \<in> set sensitive_words" "sublist w (map to_lower_char k)"
    using assms unfolding names_secret_def sensitive_words_set by blast
  obtain a b where k: "map to_lower_char k = a @ w @ b" using w(2) by (auto simp: sublist_def)
  have "map to_lower_char (drop (length a) k) = w @ b" using k by (simp add: drop_map [symmetric])
  moreover have "CHR 0x0A \<notin> set (take (length a) k)" "CHR 0x0A \<notin> set (drop (length a + length w) k)"
    using assms by (auto simp: names_secret_def dest: in_set_takeD in_set_dropD)
  ultimately have "word_at k (length a) w"
    by (auto simp: word_at_def starts_with_def one_line_left_def dest: in_set_butlastD)
  moreover have "length a \<in> set [0..<Suc (length k)]" using arg_cong [OF k, of length] by (simp del: upt_Suc)
  ultimately show ?thesis using w(1) unfolding is_sensitive_key_def list_ex_iff by blast
qed

lemma exposes_leaks:
  "exposes v \<Longrightarrow> leaks v" "exposes_items vs \<Longrightarrow> leaks_items vs" "exposes_entries kvs \<Longrightarrow> leaks_entries kvs"
  by (induction v and vs and kvs rule: exposes_exposes_items_exposes_entries.induct)
     (auto simp: names_secret_sensitive redacted_def)

text \<open>
  C35. Whatever is emitted, however writing fails and whenever the collector restarts: every line of the log is an
  object whose metadata, at every depth, holds only the redaction mark under a key without line ends that contains, in any
  case, token, key, password, secret, credential, auth or pat.
\<close>

theorem telemetry_log_scrubbed:
  "list_all (\<lambda>l. \<exists>kvs. l = Some (JObj kvs) \<and> \<not> exposes (jfield kvs ''metadata'' JNull)) (tc_log (telemetry_run ops))"
proof -
  have "\<not> exposes (jfield (envelope_dict e) ''metadata'' JNull)" if e: "e \<in> set (written ops)" for e
  proof -
    have "distinct (dict_keys e)" using written_keys [OF e] envelope_fields_distinct by simp
    then have "\<not> leaks (jfield (envelope_dict e) ''metadata'' JNull)"
      using written_scrubbed [OF e]
      by (cases "dict_get e ''metadata''") (simp_all add: envelope_dict_def jfield_def env_field_def get_filter_values)
    then show ?thesis using exposes_leaks(1) by blast
  qed
  then show ?thesis by (simp add: log_written list_all_iff)
qed






section \<open>The matrix counts every execution once\<close>

lemma merge_succeeded: "merge_status old new = succeeded \<longleftrightarrow> old = succeeded \<or> new = succeeded"
  by (auto simp: merge_status_def succeeded_def)

lemma update_succeeded:
  "xs_status (update_state t e s) = succeeded \<longleftrightarrow> xs_status s = succeeded \<or> env_field e ''status'' = succeeded"
  by (simp add: update_state_def Let_def merge_succeeded)

lemma new_not_succeeded: "xs_status (new_state t e) \<noteq> succeeded"
  by (simp add: new_state_def succeeded_def)

lemma states_snoc: "execution_states (es @ [te]) = observe_event te (execution_states es)"
  by (simp add: execution_states_def)

lemma states_wf: "dict_wf (execution_states es)"
  by (induction es rule: rev_induct) (auto simp: execution_states_def observe_event_def Let_def)

lemma states_keys:
  "dict_get (execution_states es) i \<noteq> None \<longleftrightarrow> truthy i \<and> (\<exists>(t, e) \<in> set es. env_field e ''execution_id'' = i)"
proof (induction es rule: rev_induct)
  case (snoc te es)
  then show ?case by (cases te) (auto simp: states_snoc observe_event_def Let_def)
qed (simp add: execution_states_def)

lemma states_succeeded:
  "dict_get (execution_states es) i = Some s \<Longrightarrow>
    xs_status s = succeeded \<longleftrightarrow> (\<exists>(t, e) \<in> set es. env_field e ''execution_id'' = i \<and> env_field e ''status'' = succeeded)"
proof (induction es arbitrary: s rule: rev_induct)
  case (snoc te es)
  obtain t e where te: "te = (t, e)" by (cases te)
  show ?case
  proof (cases "truthy (env_field e ''execution_id'') \<and> env_field e ''execution_id'' = i")
    case True
    have s: "s = update_state t e (case dict_get (execution_states es) i of Some s \<Rightarrow> s | None \<Rightarrow> new_state t e)"
      using snoc.prems True by (auto simp: te states_snoc observe_event_def)
    show ?thesis
    proof (cases "dict_get (execution_states es) i")
      case None
      then have "\<not> (\<exists>(t, e) \<in> set es. env_field e ''execution_id'' = i)" using states_keys [of es i] True by auto
      then show ?thesis using s None True by (auto simp: te update_succeeded new_not_succeeded)
    next
      case (Some s0)
      then show ?thesis using snoc.IH [OF Some] s True by (auto simp: te update_succeeded)
    qed
  next
    case False
    then have "dict_get (execution_states es) i = Some s" and "truthy i"
      using snoc.prems states_keys [of "es @ [te]" i] by (auto simp: te states_snoc observe_event_def Let_def split: if_splits)
    then show ?thesis using snoc.IH False by (auto simp: te)
  qed
qed (simp add: execution_states_def)

text \<open>The columns of a row.\<close>

definition routing_sum :: "matrix_stats \<Rightarrow> nat" where
  "routing_sum m = mx_deterministic m + mx_local_model m + mx_frontier_model m + mx_unknown m"

definition ended_sum :: "matrix_stats \<Rightarrow> nat" where
  "ended_sum m = mx_success m + mx_failed m + mx_timeout m + mx_blocked m"

lemma count_latest_columns [simp]:
  "mx_total (count_latest s m) = mx_total m" "routing_sum (count_latest s m) = routing_sum m"
  "ended_sum (count_latest s m) = ended_sum m" "mx_success (count_latest s m) = mx_success m"
  by (auto simp: count_latest_def routing_sum_def ended_sum_def split: option.splits)

lemma count_status_columns [simp]:
  "mx_total (count_status st m) = mx_total m" "routing_sum (count_status st m) = routing_sum m"
  "ended_sum (count_status st m) \<le> Suc (ended_sum m)"
  "mx_success (count_status st m) = mx_success m + (if st = succeeded then 1 else 0)"
  by (simp_all add: count_status_def routing_sum_def ended_sum_def)

lemma count_routing_columns [simp]:
  "mx_total (count_routing rc m) = mx_total m" "routing_sum (count_routing rc m) = Suc (routing_sum m)"
  "ended_sum (count_routing rc m) = ended_sum m" "mx_success (count_routing rc m) = mx_success m"
  by (simp_all add: count_routing_def routing_sum_def ended_sum_def)

lemma durations_columns [simp]:
  "routing_sum (m\<lparr>mx_durations := ds\<rparr>) = routing_sum m" "ended_sum (m\<lparr>mx_durations := ds\<rparr>) = ended_sum m"
  "routing_sum (m\<lparr>mx_total := n\<rparr>) = routing_sum m" "ended_sum (m\<lparr>mx_total := n\<rparr>) = ended_sum m"
  by (simp_all add: routing_sum_def ended_sum_def)

lemma count_columns:
  "mx_total (count_execution s m) = Suc (mx_total m)"
  "routing_sum (count_execution s m) = Suc (routing_sum m)"
  "ended_sum (count_execution s m) \<le> Suc (ended_sum m)"
  "mx_success (count_execution s m) = mx_success m + (if xs_status s = succeeded then 1 else 0)"
  using count_status_columns(3) [of "xs_status s" "count_routing (xs_routing s) (m\<lparr>mx_total := Suc (mx_total m)\<rparr>)"]
  by (simp_all add: count_execution_def Let_def)

definition sum_rows :: "('r \<Rightarrow> nat) \<Rightarrow> (json, 'r) dict \<Rightarrow> nat" where
  "sum_rows f ds = sum_list (map (\<lambda>(k, m). f m) ds)"

lemma sum_rows_set:
  assumes "dict_wf ds"
  shows "sum_rows f (dict_set ds k m) + (case dict_get ds k of Some m0 \<Rightarrow> f m0 | None \<Rightarrow> 0) = sum_rows f ds + f m"
  using assms by (induction ds) (auto simp: sum_rows_def split: option.splits)

definition rows_agree :: "matrix_stats \<Rightarrow> (json, matrix_stats) dict \<Rightarrow> bool" where
  "rows_agree g ds \<longleftrightarrow> sum_rows mx_total ds = mx_total g \<and> sum_rows mx_success ds = mx_success g"

lemma department_rows:
  assumes "dict_wf ds"
  shows "sum_rows mx_total (count_in_department s ds) = Suc (sum_rows mx_total ds)"
    and "sum_rows mx_success (count_in_department s ds) = sum_rows mx_success ds + (if xs_status s = succeeded then 1 else 0)"
proof -
  define m0 where "m0 = (case dict_get ds (xs_department s) of Some m \<Rightarrow> m | None \<Rightarrow> no_stats)"
  have dep: "count_in_department s ds = dict_set ds (xs_department s) (count_execution s m0)"
    by (simp add: count_in_department_def m0_def)
  have old: "(case dict_get ds (xs_department s) of Some m \<Rightarrow> f m | None \<Rightarrow> 0) = f m0" if "f no_stats = 0" for f :: "matrix_stats \<Rightarrow> nat"
    using that by (simp add: m0_def split: option.splits)
  show "sum_rows mx_total (count_in_department s ds) = Suc (sum_rows mx_total ds)"
    using sum_rows_set [OF assms, of mx_total "xs_department s" "count_execution s m0"] old [of mx_total]
    by (simp add: dep count_columns no_stats_def)
  show "sum_rows mx_success (count_in_department s ds) = sum_rows mx_success ds + (if xs_status s = succeeded then 1 else 0)"
    using sum_rows_set [OF assms, of mx_success "xs_department s" "count_execution s m0"] old [of mx_success]
    by (simp add: dep count_columns no_stats_def)
qed

lemma count_all_invariant:
  assumes "count_all ss = (g, ds)"
  shows "dict_wf ds \<and> mx_total g = length ss \<and> routing_sum g = length ss \<and> ended_sum g \<le> length ss \<and>
    mx_success g = length (filter (\<lambda>s. xs_status s = succeeded) ss) \<and> rows_agree g ds"
  using assms
proof (induction ss arbitrary: g ds rule: rev_induct)
  case Nil
  then show ?case
    by (auto simp: count_all_def no_stats_def routing_sum_def ended_sum_def rows_agree_def sum_rows_def)
next
  case (snoc s ss)
  obtain g0 ds0 where c: "count_all ss = (g0, ds0)" by fastforce
  have g: "g = count_execution s g0" and ds: "ds = count_in_department s ds0"
    using snoc.prems c by (simp_all add: count_all_def)
  have wf: "dict_wf ds" using snoc.IH [OF c] by (simp add: ds count_in_department_def Let_def)
  have "ended_sum g \<le> Suc (length ss)" using snoc.IH [OF c] count_columns(3) [of s g0] by (simp add: g)
  then show ?case
    using snoc.IH [OF c] wf department_rows [of ds0 s]
    by (auto simp: g ds count_columns rows_agree_def)
qed

lemma average_all_rows:
  "average_all ds = Inr das \<Longrightarrow> sum_rows f ds = sum_rows (\<lambda>(m, a). f m) das"
  by (induction ds arbitrary: das rule: average_all.induct) (auto simp: sum_rows_def)

lemma keys_filter:
  "dict_wf d \<Longrightarrow> set (dict_keys (filter (\<lambda>(k, v). P v) d)) = {k \<in> set (dict_keys d). P (the (dict_get d k))}"
proof (induction d)
  case (Cons a d)
  then show ?case by (cases a) auto
qed simp

text \<open>The processing matrix counts every execution once: its total is the number of executions in the log, split
  completely over the routing classes and over the departments, and an execution counts as a success exactly when some
  event reports it, whatever else was reported before or after.\<close>

theorem matrix_partitions:
  assumes "matrix_of isoparse es = Inr m"
  shows "mx_total (fst (pm_global m)) =
      card {i. truthy i \<and> (\<exists>(t, e) \<in> set (timed_events isoparse es). env_field e ''execution_id'' = i)} \<and>
    routing_sum (fst (pm_global m)) = mx_total (fst (pm_global m)) \<and>
    ended_sum (fst (pm_global m)) \<le> mx_total (fst (pm_global m)) \<and>
    sum_rows (\<lambda>(s, a). mx_total s) (pm_departments m) = mx_total (fst (pm_global m)) \<and>
    sum_rows (\<lambda>(s, a). mx_success s) (pm_departments m) = mx_success (fst (pm_global m)) \<and>
    mx_success (fst (pm_global m)) =
      card {i. truthy i \<and> (\<exists>(t, e) \<in> set (timed_events isoparse es).
        env_field e ''execution_id'' = i \<and> env_field e ''status'' = succeeded)}"
proof -
  let ?es = "timed_events isoparse es"
  let ?d = "execution_states ?es"
  obtain g ds where c: "count_all (dict_values ?d) = (g, ds)" by fastforce
  obtain a das where a: "average_all ds = Inr das" and m: "m = \<lparr>pm_global = (g, a), pm_departments = das\<rparr>"
    using assms by (auto simp: matrix_of_def c)
  note inv = count_all_invariant [OF c]
  have keys: "set (dict_keys ?d) = {i. truthy i \<and> (\<exists>(t, e) \<in> set ?es. env_field e ''execution_id'' = i)}"
    using states_keys [of ?es] by (auto simp: map_of_eq_None_iff)
  have "length ?d = card (set (dict_keys ?d))" using distinct_card [OF states_wf [of ?es]] by simp
  then have total: "mx_total g = card {i. truthy i \<and> (\<exists>(t, e) \<in> set ?es. env_field e ''execution_id'' = i)}"
    using inv keys by simp
  have "length (filter (\<lambda>s. xs_status s = succeeded) (dict_values ?d)) =
      card {i \<in> set (dict_keys ?d). xs_status (the (dict_get ?d i)) = succeeded}"
  proof -
    have "length (filter (\<lambda>s. xs_status s = succeeded) (dict_values ?d)) =
        length (filter (\<lambda>(k, s). xs_status s = succeeded) ?d)"
      by (simp add: filter_map o_def case_prod_unfold)
    also have "\<dots> = card (set (dict_keys (filter (\<lambda>(k, s). xs_status s = succeeded) ?d)))"
      using distinct_card [of "dict_keys (filter (\<lambda>(k, s). xs_status s = succeeded) ?d)"] states_wf [of ?es]
      by (simp add: distinct_map_filter)
    also have "set (dict_keys (filter (\<lambda>(k, s). xs_status s = succeeded) ?d)) =
        {i \<in> set (dict_keys ?d). xs_status (the (dict_get ?d i)) = succeeded}"
      by (rule keys_filter [OF states_wf])
    finally show ?thesis .
  qed
  also have "{i \<in> set (dict_keys ?d). xs_status (the (dict_get ?d i)) = succeeded} =
      {i. truthy i \<and> (\<exists>(t, e) \<in> set ?es. env_field e ''execution_id'' = i \<and> env_field e ''status'' = succeeded)}"
  proof (intro set_eqI iffI)
    fix i
    assume "i \<in> {i \<in> set (dict_keys ?d). xs_status (the (dict_get ?d i)) = succeeded}"
    then have some: "dict_get ?d i \<noteq> None" and st: "xs_status (the (dict_get ?d i)) = succeeded"
      by (simp_all add: map_of_eq_None_iff)
    then have "truthy i" using states_keys [of ?es i] by blast
    moreover obtain s where s: "dict_get ?d i = Some s" using some by blast
    ultimately show "i \<in> {i. truthy i \<and> (\<exists>(t, e) \<in> set ?es. env_field e ''execution_id'' = i \<and> env_field e ''status'' = succeeded)}"
      using states_succeeded [OF s] st by simp
  next
    fix i
    assume i: "i \<in> {i. truthy i \<and> (\<exists>(t, e) \<in> set ?es. env_field e ''execution_id'' = i \<and> env_field e ''status'' = succeeded)}"
    then have "dict_get ?d i \<noteq> None" using states_keys [of ?es i] by blast
    then obtain s where s: "dict_get ?d i = Some s" by blast
    then have "xs_status s = succeeded" using states_succeeded [OF s] i by blast
    moreover have "i \<in> set (dict_keys ?d)" using s by (metis map_of_eq_None_iff option.distinct(1) set_map)
    ultimately show "i \<in> {i \<in> set (dict_keys ?d). xs_status (the (dict_get ?d i)) = succeeded}" using s by simp
  qed
  finally have "mx_success g =
      card {i. truthy i \<and> (\<exists>(t, e) \<in> set ?es. env_field e ''execution_id'' = i \<and> env_field e ''status'' = succeeded)}"
    using inv by simp
  then show ?thesis
    using inv total average_all_rows [OF a, of mx_total] average_all_rows [OF a, of mx_success]
    by (simp add: m rows_agree_def)
qed

definition demo_matrix_events :: "envelope list" where
  "demo_matrix_events =
    [[(''timestamp'', JStr ''2''), (''execution_id'', JStr ''x1''), (''department_id'', JStr ''eng''), (''status'', JStr ''FAILED'')],
     [(''timestamp'', JStr ''1''), (''execution_id'', JStr ''x1''), (''status'', JStr ''SUCCEEDED''), (''duration_ms'', JInt 4)]]"

lemma matrix_partitions_witness:
  "\<exists>m. matrix_of (\<lambda>s. if s = ''1'' then Some 1 else Some 2) demo_matrix_events = Inr m \<and>
     mx_total (fst (pm_global m)) = 1 \<and> mx_success (fst (pm_global m)) = 1 \<and>
     routing_sum (fst (pm_global m)) = mx_total (fst (pm_global m))"
proof -
  let ?p = "\<lambda>s. if s = ''1'' then Some 1 else Some (2 :: int)"
  have "(case matrix_of ?p demo_matrix_events of
      Inr m \<Rightarrow> mx_total (fst (pm_global m)) = 1 \<and> mx_success (fst (pm_global m)) = 1 | Inl _ \<Rightarrow> False)"
    by code_simp
  then obtain m where m: "matrix_of ?p demo_matrix_events = Inr m"
      and one: "mx_total (fst (pm_global m)) = 1" "mx_success (fst (pm_global m)) = 1"
    by (auto split: sum.splits)
  have "routing_sum (fst (pm_global m)) = mx_total (fst (pm_global m))"
    using matrix_partitions [OF m] by blast
  then show ?thesis using m one by blast
qed

section \<open>Limits\<close>

text \<open>A key that names a secret after a line end is not seen as one.\<close>

lemma line_end_hides_key:
  "is_sensitive_key ''api_TOKEN'' \<and> \<not> is_sensitive_key (CHR ''x'' # CHR 0x0A # ''token'') \<and>
   scrub_metadata (JObj [(CHR ''x'' # CHR 0x0A # ''token'', JStr ''gho'')]) = JObj [(CHR ''x'' # CHR 0x0A # ''token'', JStr ''gho'')]"
proof -
  have lower: "map to_lower_char ''api_TOKEN'' = ''api_'' @ ''token'' @ []" by code_simp
  have "names_secret ''api_TOKEN''"
    unfolding names_secret_def lower using sublist_appendI [of "''token''" "''api_''" "[]"] by simp
  then have "is_sensitive_key ''api_TOKEN''" by (rule names_secret_sensitive)
  moreover have "\<not> is_sensitive_key (CHR ''x'' # CHR 0x0A # ''token'')" by code_simp
  ultimately show ?thesis by simp
qed

text \<open>Keys of paths are redacted with the secrets.\<close>

lemma path_is_redacted: "scrub_metadata (JObj [(''path'', JStr ''src'')]) = JObj [(''path'', redacted)]"
proof -
  have lower: "map to_lower_char ''path'' = [] @ ''pat'' @ ''h''" by code_simp
  have "names_secret ''path''"
    unfolding names_secret_def lower using sublist_appendI [of "''pat''" "[]" "''h''"] by simp
  then have "is_sensitive_key ''path''" by (rule names_secret_sensitive)
  then show ?thesis by simp
qed

text \<open>Only the metadata is scrubbed.\<close>

lemma other_fields_kept: "k \<noteq> ''metadata'' \<Longrightarrow> env_field (scrub_envelope e) k = env_field e k"
  by (simp add: scrub_envelope_def env_field_def jfield_def)

text \<open>The stream sends every event once, by its identifier.\<close>

lemma stream_poll_once:
  "distinct seen \<Longrightarrow> stream_poll es seen = (out, seen') \<Longrightarrow>
    distinct seen' \<and> seen' = seen @ map (\<lambda>e. env_field e ''event_id'') out \<and> set out \<subseteq> set es"
proof (induction es seen arbitrary: out seen' rule: stream_poll.induct)
  case (2 e es seen)
  then show ?case by (fastforce simp: Let_def split: if_splits prod.splits)
qed simp

lemma stream_turns_once:
  "distinct seen \<Longrightarrow>
    distinct (seen @ map (\<lambda>e. env_field e ''event_id'') (stream_turns turns seen))"
proof (induction turns arbitrary: seen)
  case (Cons live turns)
  obtain out seen' where p: "stream_poll live seen = (out, seen')" by fastforce
  then have "distinct seen'" and s: "seen' = seen @ map (\<lambda>e. env_field e ''event_id'') out"
    using stream_poll_once [OF Cons.prems p] by blast+
  then have "distinct (seen' @ map (\<lambda>e. env_field e ''event_id'') (stream_turns turns seen'))" using Cons.IH by blast
  then show ?case by (simp add: p s)
qed simp

end
