(* ===== verification/Evaluation.thy ===== *)
theory Evaluation
  imports Intelligence Telemetry "HOL-Library.List_Lexorder"
begin

text \<open>
  The capability benchmark (runtime/intelligence/): the taxonomy, the grading of outputs, the runner with
  its statistics and scorecards, the store of the scorecards and the evidence built from it. Numbers are
  rationals, rounding is half to even on them. What \<open>json.loads\<close>, \<open>str\<close>, \<open>difflib\<close>, the clock and the
  backend answer are arguments; text is ASCII.
\<close>

section \<open>The taxonomy\<close>

definition deterministic_capabilities :: "string list" where
  "deterministic_capabilities =
    [''filesystem.read'', ''filesystem.write'', ''filesystem.list'', ''schema.validate'', ''search.index'', ''search.query'',
     ''git.clone'', ''git.commit'', ''git.diff'', ''git.log'', ''patch.apply'', ''patch.parse'', ''patch.review'',
     ''terminal.execute'', ''terminal.pty'', ''debug.attach'', ''debug.breakpoint'', ''pytest.run'', ''pytest.parse'',
     ''workspace.index'', ''workspace.search'']"

definition local_inference_capabilities :: "string list" where
  "local_inference_capabilities =
    [''text.summarization'', ''text.classification'', ''text.rewriting'', ''data.extraction'', ''data.analysis'',
     ''reasoning.analysis'', ''reasoning.comparison'', ''code.understanding'', ''code.generation'', ''code.editing'',
     ''test.generation'', ''bug.diagnosis'', ''tool.use'', ''tool.planning'', ''document.summarize'',
     ''document.classify'', ''architecture.analysis'']"

definition taxonomy_capabilities :: "string list" where
  "taxonomy_capabilities = deterministic_capabilities @ local_inference_capabilities"

definition capability_families :: "(string, string list) dict" where
  "capability_families =
    [(''language'', [''text.summarization'', ''text.classification'', ''text.rewriting'']),
     (''information'', [''data.extraction'', ''data.analysis'']),
     (''reasoning'', [''reasoning.analysis'', ''reasoning.comparison'']),
     (''code'', [''code.understanding'', ''code.generation'', ''code.editing'', ''test.generation'', ''bug.diagnosis'']),
     (''tool'', [''tool.use'', ''tool.planning'']),
     (''document'', [''document.summarize'', ''document.classify'']),
     (''schema'', [''schema.validate'']),
     (''architecture'', [''architecture.analysis'']),
     (''filesystem'', [''filesystem.read'', ''filesystem.write'', ''filesystem.list'']),
     (''search'', [''search.index'', ''search.query'']),
     (''git'', [''git.clone'', ''git.commit'', ''git.diff'', ''git.log'']),
     (''patch'', [''patch.apply'', ''patch.parse'', ''patch.review'']),
     (''terminal'', [''terminal.execute'', ''terminal.pty'']),
     (''debug'', [''debug.attach'', ''debug.breakpoint'']),
     (''pytest'', [''pytest.run'', ''pytest.parse'']),
     (''workspace'', [''workspace.index'', ''workspace.search''])]"

definition is_deterministic :: "string \<Rightarrow> bool" where
  "is_deterministic c \<longleftrightarrow> c \<in> set deterministic_capabilities"

definition requires_benchmark :: "string \<Rightarrow> bool" where
  "requires_benchmark c \<longleftrightarrow> c \<in> set local_inference_capabilities"

definition validate_capability_id :: "string \<Rightarrow> bool" where
  "validate_capability_id c \<longleftrightarrow> c \<in> set taxonomy_capabilities"

definition get_family :: "string \<Rightarrow> string" where
  "get_family c = (case find (\<lambda>(f, ms). c \<in> set ms) capability_families of Some (f, _) \<Rightarrow> f | None \<Rightarrow> ''unknown'')"

text \<open>Every capability is in exactly one family, and no family has another one.\<close>

lemma families_partition:
  "distinct (concat (dict_values capability_families)) \<and>
   set (concat (dict_values capability_families)) = set taxonomy_capabilities \<and> distinct taxonomy_capabilities"
  by code_simp

section \<open>Rounding\<close>

definition round_half_even :: "rat \<Rightarrow> int" where
  "round_half_even y =
     (let f = \<lfloor>y\<rfloor>; d = y - of_int f
      in if d < 1/2 then f else if d > 1/2 then f + 1 else if even f then f else f + 1)"

definition round_to :: "nat \<Rightarrow> rat \<Rightarrow> rat" where
  "round_to n x = of_int (round_half_even (x * 10 ^ n)) / 10 ^ n"

lemma round_half_even_near: "\<lfloor>y\<rfloor> \<le> round_half_even y \<and> round_half_even y \<le> \<lfloor>y\<rfloor> + 1"
  by (simp add: round_half_even_def Let_def)

lemma round_half_even_mono: "x \<le> y \<Longrightarrow> round_half_even x \<le> round_half_even y"
proof -
  assume le: "x \<le> y"
  then have f: "\<lfloor>x\<rfloor> \<le> \<lfloor>y\<rfloor>" by (rule floor_mono)
  show ?thesis
  proof (cases "\<lfloor>x\<rfloor> = \<lfloor>y\<rfloor>")
    case True
    then show ?thesis using le by (auto simp: round_half_even_def Let_def)
  next
    case False
    then show ?thesis using f round_half_even_near [of x] round_half_even_near [of y] by linarith
  qed
qed

lemma round_half_even_int [simp]: "round_half_even (of_int n) = n"
  by (simp add: round_half_even_def)

lemma round_to_mono: "x \<le> y \<Longrightarrow> round_to n x \<le> round_to n y"
  unfolding round_to_def by (intro divide_right_mono of_int_le_iff [THEN iffD2] round_half_even_mono mult_right_mono) simp_all

lemma round_to_exact: "x * 10 ^ n = of_int k \<Longrightarrow> round_to n x = x"
proof -
  assume k: "x * 10 ^ n = of_int k"
  then have "round_to n x = of_int k / 10 ^ n" by (simp add: round_to_def)
  also have "\<dots> = x" using k [symmetric] by simp
  finally show ?thesis .
qed

lemma round_to_0 [simp]: "round_to n 0 = 0"
  by (rule round_to_exact [of _ _ 0]) simp

lemma round_to_1 [simp]: "round_to n 1 = 1"
  by (rule round_to_exact [of _ _ "10 ^ n"]) simp

lemma round_to_unit: "0 \<le> x \<Longrightarrow> x \<le> 1 \<Longrightarrow> 0 \<le> round_to n x \<and> round_to n x \<le> 1"
  using round_to_mono [of 0 x n] round_to_mono [of x 1 n] by simp

lemma round_4_half: "1/2 \<le> x \<Longrightarrow> 1/2 \<le> round_to 4 x"
  using round_to_mono [of "1/2" x 4] round_to_exact [of "1/2" 4 5000] by simp

section \<open>Grading\<close>

record grading_result =
  gr_score :: rat
  gr_confidence :: rat
  gr_method :: string
  gr_details :: "(string \<times> json) list"
  gr_passed :: bool

record grading_env =
  ge_loads :: "string \<Rightarrow> string + json"
  ge_str :: "json \<Rightarrow> string"
  ge_ratio :: "string \<Rightarrow> string \<Rightarrow> rat"

definition passing_threshold :: rat where
  "passing_threshold = 1/2"

definition str_value :: "grading_env \<Rightarrow> json \<Rightarrow> string" where
  "str_value e v = (case v of JStr s \<Rightarrow> s | _ \<Rightarrow> ge_str e v)"

definition white :: "char \<Rightarrow> bool" where
  "white c \<longleftrightarrow> c \<in> {CHR 0x09, CHR 0x0A, CHR 0x0B, CHR 0x0C, CHR 0x0D, CHR 0x1C, CHR 0x1D, CHR 0x1E, CHR 0x1F, CHR '' ''}"

definition strip_white :: "string \<Rightarrow> string" where
  "strip_white s = rev (dropWhile white (rev (dropWhile white s)))"

text \<open>A run of white space becomes one space.\<close>

fun collapse_white :: "bool \<Rightarrow> string \<Rightarrow> string" where
  "collapse_white inside [] = []"
| "collapse_white inside (c # s) =
     (if white c then (if inside then collapse_white True s else CHR '' '' # collapse_white True s)
      else c # collapse_white False s)"

definition normalize_str :: "string \<Rightarrow> string" where
  "normalize_str s = collapse_white False (map to_lower_char (strip_white s))"

definition word_char :: "char \<Rightarrow> bool" where
  "word_char c \<longleftrightarrow>
     (CHR ''a'' \<le> c \<and> c \<le> CHR ''z'') \<or> (CHR ''A'' \<le> c \<and> c \<le> CHR ''Z'') \<or> (CHR ''0'' \<le> c \<and> c \<le> CHR ''9'') \<or> c = CHR ''_''"

fun split_white :: "string \<Rightarrow> string \<Rightarrow> string list" where
  "split_white w [] = (if w = [] then [] else [w])"
| "split_white w (c # s) =
     (if white c then (if w = [] then split_white [] s else w # split_white [] s) else split_white (w @ [c]) s)"

definition stopwords :: "string list" where
  "stopwords =
    [''the'', ''a'', ''an'', ''is'', ''in'', ''of'', ''to'', ''and'', ''or'', ''for'', ''it'', ''this'', ''that'', ''with'', ''as'',
     ''be'', ''are'', ''was'', ''were'', ''by'', ''at'', ''from'', ''on'']"

definition tokenize :: "string \<Rightarrow> string list" where
  "tokenize s =
     filter (\<lambda>t. length t > 1 \<and> t \<notin> set stopwords)
       (split_white [] (filter (\<lambda>c. word_char c \<or> white c) (map to_lower_char s)))"

definition exact_match :: "grading_env \<Rightarrow> json \<Rightarrow> json \<Rightarrow> grading_result" where
  "exact_match e output expected =
     (let o1 = normalize_str (str_value e output); x1 = normalize_str (str_value e expected); m = (o1 = x1)
      in \<lparr>gr_score = if m then 1 else 0, gr_confidence = 1, gr_method = ''exact_match'',
          gr_details = [(''normalized_output'', JStr o1), (''normalized_expected'', JStr x1)], gr_passed = m\<rparr>)"

definition values_match :: "grading_env \<Rightarrow> rat \<Rightarrow> json \<Rightarrow> json \<Rightarrow> bool" where
  "values_match e tolerance a b =
     (if a = JNull then False
      else case (number_of a, number_of b) of
          (Some x, Some y) \<Rightarrow> \<bar>x - y\<bar> \<le> tolerance + \<bar>y\<bar> * (1/100)
        | _ \<Rightarrow> map to_lower_char (strip_white (str_value e a)) = map to_lower_char (strip_white (str_value e b)))"

definition loaded :: "grading_env \<Rightarrow> json \<Rightarrow> string + json" where
  "loaded e v = (case v of JStr s \<Rightarrow> ge_loads e s | _ \<Rightarrow> Inr v)"

text \<open>The entries that agree with what is expected, and those that do not; an output that is no object raises.\<close>

fun match_entries ::
  "grading_env \<Rightarrow> rat \<Rightarrow> json \<Rightarrow> (string \<times> json) list \<Rightarrow> (nat \<times> json list) result" where
  "match_entries e tol output [] = Inr (0, [])"
| "match_entries e tol output ((k, x) # kvs) =
     and_then (get_of output k JNull) (\<lambda>v. and_then (match_entries e tol output kvs) (\<lambda>(n, ms).
       Inr (if values_match e tol v x then (n + 1, ms)
            else (n, JObj [(''key'', JStr k), (''expected'', x), (''got'', v)] # ms))))"

definition parse_failed :: "string \<Rightarrow> grading_result" where
  "parse_failed m =
     \<lparr>gr_score = 0, gr_confidence = 9/10, gr_method = ''structured_match'',
      gr_details = [(''error'', JStr (''JSON parse failed: '' @ m))], gr_passed = False\<rparr>"

definition structured_match :: "grading_env \<Rightarrow> rat \<Rightarrow> json \<Rightarrow> json \<Rightarrow> grading_result result" where
  "structured_match e tol output expected =
     (case loaded e output of
        Inl m \<Rightarrow> Inr (parse_failed m)
      | Inr o1 \<Rightarrow>
          (case loaded e expected of
             Inl m \<Rightarrow> Inr (parse_failed m)
           | Inr (JObj kvs) \<Rightarrow>
               and_then (match_entries e tol o1 kvs) (\<lambda>(n, ms).
                 let total = length kvs; score = (if total > 0 then of_nat n / of_nat total else 0)
                 in Inr \<lparr>gr_score = score, gr_confidence = if total > 0 then 95/100 else 1/2,
                         gr_method = ''structured_match'',
                         gr_details = [(''matched'', JInt (int n)), (''total'', JInt (int total)), (''mismatches'', JList ms)],
                         gr_passed = score \<ge> passing_threshold\<rparr>)
           | Inr v \<Rightarrow> Inl (no_attribute (py_class v) ''items'')))"

definition jaccard :: "string list \<Rightarrow> string list \<Rightarrow> rat" where
  "jaccard os xs =
     (if set os \<union> set xs = {} then 0
      else of_nat (length (remdups (filter (\<lambda>t. t \<in> set xs) os))) / of_nat (length (remdups (os @ xs))))"

definition token_recall :: "string list \<Rightarrow> string list \<Rightarrow> rat" where
  "token_recall os xs =
     of_nat (length (remdups (filter (\<lambda>t. t \<in> set xs) os))) / of_nat (length (remdups xs))"

definition semantic_score :: "string list \<Rightarrow> string list \<Rightarrow> rat" where
  "semantic_score os xs = 6/10 * jaccard os xs + 4/10 * token_recall os xs"

definition semantic_grading :: "grading_env \<Rightarrow> json \<Rightarrow> json \<Rightarrow> grading_result" where
  "semantic_grading e output expected =
     (let os = tokenize (str_value e output); xs = tokenize (str_value e expected)
      in if xs = []
         then \<lparr>gr_score = 0, gr_confidence = 1/2, gr_method = ''semantic_grading'',
               gr_details = [(''reason'', JStr ''empty_expected'')], gr_passed = False\<rparr>
         else \<lparr>gr_score = round_to 4 (semantic_score os xs),
               gr_confidence = round_to 4 (min (95/100) (1/2 + 5/100 * of_nat (length (remdups xs)))),
               gr_method = ''semantic_grading'',
               gr_details = [(''jaccard'', JFloat (round_to 4 (jaccard os xs))), (''recall'', JFloat (round_to 4 (token_recall os xs))),
                             (''out_tokens'', JInt (int (length (remdups os)))), (''exp_tokens'', JInt (int (length (remdups xs))))],
               gr_passed = semantic_score os xs \<ge> passing_threshold\<rparr>)"

definition reference_comparison :: "grading_env \<Rightarrow> json \<Rightarrow> json \<Rightarrow> grading_result" where
  "reference_comparison e output expected =
     (let r = ge_ratio e (str_value e expected) (str_value e output)
      in \<lparr>gr_score = round_to 4 r, gr_confidence = 85/100, gr_method = ''reference_comparison'',
          gr_details = [(''similarity_ratio'', JFloat (round_to 4 r))], gr_passed = r \<ge> passing_threshold\<rparr>)"

definition task_failed :: "string \<Rightarrow> grading_result" where
  "task_failed m =
     \<lparr>gr_score = 0, gr_confidence = 95/100, gr_method = ''task_success'', gr_details = [(''error'', JStr m)], gr_passed = False\<rparr>"

definition task_keys :: "string list option \<Rightarrow> json \<Rightarrow> string list" where
  "task_keys required expected =
     (case required of
        Some (k # ks) \<Rightarrow> k # ks
      | _ \<Rightarrow> (case expected of JObj kvs \<Rightarrow> dict_keys kvs | _ \<Rightarrow> []))"

definition task_success :: "grading_env \<Rightarrow> string list option \<Rightarrow> json \<Rightarrow> json \<Rightarrow> grading_result" where
  "task_success e required output expected =
     (case loaded e output of
        Inl m \<Rightarrow> task_failed m
      | Inr (JObj kvs) \<Rightarrow>
          (let keys = task_keys required expected; missing = filter (\<lambda>k. k \<notin> set (dict_keys kvs)) keys;
               passed = (missing = []);
               score = (if passed then 1 else (of_nat (length keys) - of_nat (length missing)) / of_nat (length keys))
           in \<lparr>gr_score = round_to 4 score, gr_confidence = 95/100, gr_method = ''task_success'',
               gr_details = [(''required_keys'', JList (map JStr keys)), (''missing_keys'', JList (map JStr missing))],
               gr_passed = passed\<rparr>)
      | Inr v \<Rightarrow> task_failed ''Output is not a dict'')"

definition human_adjudication :: "grading_env \<Rightarrow> json \<Rightarrow> grading_result" where
  "human_adjudication e output =
     \<lparr>gr_score = 1/2, gr_confidence = 0, gr_method = ''human_adjudication'',
      gr_details = [(''status'', JStr ''PENDING_HUMAN_REVIEW''), (''output_preview'', JStr (take 200 (str_value e output)))],
      gr_passed = False\<rparr>"

text \<open>\<open>tol\<close> and \<open>required\<close> are the details the methods know; the runner passes none.\<close>

definition grade :: "grading_env \<Rightarrow> rat \<Rightarrow> string list option \<Rightarrow> string \<Rightarrow> json \<Rightarrow> json \<Rightarrow> grading_result result" where
  "grade e tol required m output expected =
     (if m = ''exact_match'' then Inr (exact_match e output expected)
      else if m = ''structured_match'' then structured_match e tol output expected
      else if m = ''semantic_grading'' then Inr (semantic_grading e output expected)
      else if m = ''reference_comparison'' then Inr (reference_comparison e output expected)
      else if m = ''task_success'' then Inr (task_success e required output expected)
      else if m = ''human_adjudication'' then Inr (human_adjudication e output)
      else Inl (ValueError (''Unknown grading method: '' @ m)))"

section \<open>What a grade can be\<close>

definition grade_ok :: "grading_result \<Rightarrow> bool" where
  "grade_ok g \<longleftrightarrow>
     0 \<le> gr_score g \<and> gr_score g \<le> 1 \<and> 0 \<le> gr_confidence g \<and> gr_confidence g \<le> 1 \<and>
     (gr_passed g \<longrightarrow> 1/2 \<le> gr_score g)"

text \<open>\<open>difflib\<close> documents its ratio as a number in [0, 1].\<close>

definition ratio_ok :: "grading_env \<Rightarrow> bool" where
  "ratio_ok e \<longleftrightarrow> (\<forall>x y. 0 \<le> ge_ratio e x y \<and> ge_ratio e x y \<le> 1)"

lemma fraction_unit: "n \<le> m \<Longrightarrow> 0 \<le> (of_nat n :: rat) / of_nat m \<and> (of_nat n :: rat) / of_nat m \<le> 1"
  by (cases "m = 0") (simp_all add: divide_le_eq)

lemma match_entries_le: "match_entries e tol out kvs = Inr (n, ms) \<Longrightarrow> n \<le> length kvs \<and> n + length ms = length kvs"
  by (induction e tol out kvs arbitrary: n ms rule: match_entries.induct) (auto split: if_splits)

lemma structured_ok:
  assumes "structured_match e tol output expected = Inr g"
  shows "grade_ok g"
proof -
  have failed: "grade_ok (parse_failed m)" for m by (simp add: parse_failed_def grade_ok_def)
  show ?thesis
  proof (cases "\<exists>o1 kvs. loaded e output = Inr o1 \<and> loaded e expected = Inr (JObj kvs)")
    case True
    then obtain o1 kvs where ld: "loaded e output = Inr o1" "loaded e expected = Inr (JObj kvs)" by blast
    then obtain n ms where m: "match_entries e tol o1 kvs = Inr (n, ms)"
      using assms by (auto simp: structured_match_def)
    have "0 \<le> (of_nat n :: rat) / of_nat (length kvs) \<and> (of_nat n :: rat) / of_nat (length kvs) \<le> 1"
      using match_entries_le [OF m] fraction_unit by blast
    then show ?thesis using assms ld m
      by (auto simp: structured_match_def grade_ok_def Let_def passing_threshold_def)
  next
    case False
    then show ?thesis using assms failed by (auto simp: structured_match_def split: sum.splits json.splits)
  qed
qed

lemma length_remdups_mono: "set xs \<subseteq> set ys \<Longrightarrow> length (remdups xs) \<le> length (remdups ys)"
  by (simp add: length_remdups_card_conv card_mono)

lemma jaccard_unit: "0 \<le> jaccard os xs \<and> jaccard os xs \<le> 1"
proof -
  have "length (remdups (filter (\<lambda>t. t \<in> set xs) os)) \<le> length (remdups (os @ xs))"
    by (intro length_remdups_mono) auto
  from fraction_unit [OF this] show ?thesis by (simp add: jaccard_def)
qed

lemma recall_unit: "0 \<le> token_recall os xs \<and> token_recall os xs \<le> 1"
proof -
  have "length (remdups (filter (\<lambda>t. t \<in> set xs) os)) \<le> length (remdups xs)"
    by (intro length_remdups_mono) auto
  from fraction_unit [OF this] show ?thesis by (simp add: token_recall_def)
qed

lemma semantic_unit: "0 \<le> semantic_score os xs \<and> semantic_score os xs \<le> 1"
  using jaccard_unit [of os xs] recall_unit [of os xs] unfolding semantic_score_def by linarith

lemma semantic_ok: "grade_ok (semantic_grading e output expected)"
proof -
  have conf: "0 \<le> min (95/100) (1/2 + 5/100 * of_nat n :: rat) \<and> min (95/100) (1/2 + 5/100 * of_nat n) \<le> (1 :: rat)" for n
    by simp
  show ?thesis
    using round_to_unit [OF conjunct1 [OF semantic_unit] conjunct2 [OF semantic_unit]]
      round_to_unit [OF conjunct1 [OF conf] conjunct2 [OF conf]] round_4_half
    by (auto simp: semantic_grading_def grade_ok_def Let_def passing_threshold_def)
qed

lemma task_ok: "grade_ok (task_success e required output expected)"
proof -
  have failed: "grade_ok (task_failed m)" for m by (simp add: task_failed_def grade_ok_def)
  show ?thesis
  proof (cases "\<exists>kvs. loaded e output = Inr (JObj kvs)")
    case True
    then obtain kvs where ld: "loaded e output = Inr (JObj kvs)" by blast
    define keys where "keys = task_keys required expected"
    define missing where "missing = filter (\<lambda>k. k \<notin> set (dict_keys kvs)) keys"
    have le: "length missing \<le> length keys" by (simp add: missing_def)
    have "0 \<le> ((of_nat (length keys) - of_nat (length missing)) / of_nat (length keys) :: rat) \<and>
        ((of_nat (length keys) - of_nat (length missing)) / of_nat (length keys) :: rat) \<le> 1"
      using fraction_unit [of "length keys - length missing" "length keys"] le by (simp add: of_nat_diff)
    then have unit: "0 \<le> round_to 4 ((of_nat (length keys) - of_nat (length missing)) / of_nat (length keys)) \<and>
        round_to 4 ((of_nat (length keys) - of_nat (length missing)) / of_nat (length keys)) \<le> 1"
      by (intro round_to_unit) simp_all
    have "task_success e required output expected =
        \<lparr>gr_score = round_to 4 (if missing = [] then 1 else (of_nat (length keys) - of_nat (length missing)) / of_nat (length keys)),
         gr_confidence = 95/100, gr_method = ''task_success'',
         gr_details = [(''required_keys'', JList (map JStr keys)), (''missing_keys'', JList (map JStr missing))],
         gr_passed = (missing = [])\<rparr>"
      by (simp add: task_success_def ld Let_def keys_def missing_def)
    then show ?thesis using unit by (simp add: grade_ok_def)
  next
    case False
    then show ?thesis using failed by (auto simp: task_success_def split: sum.splits json.splits)
  qed
qed

lemma grade_in_bounds:
  assumes "ratio_ok e" and "grade e tol required m output expected = Inr g"
  shows "grade_ok g"
proof -
  have "grade_ok (reference_comparison e output expected)"
    using assms(1) round_to_unit round_4_half
    by (auto simp: reference_comparison_def grade_ok_def ratio_ok_def Let_def passing_threshold_def)
  moreover have "grade_ok (exact_match e output expected)" "grade_ok (human_adjudication e output)"
    by (simp_all add: exact_match_def human_adjudication_def grade_ok_def Let_def)
  ultimately show ?thesis
    using assms(2) structured_ok semantic_ok task_ok unfolding grade_def
    by (auto split: if_splits)
qed

text \<open>Every grade and confidence lies between 0 and 1, and what passed scores at least a half.\<close>

theorem grade_bounded:
  assumes "ratio_ok e" and "grade e tol required m output expected = Inr g"
  shows "0 \<le> gr_score g \<and> gr_score g \<le> 1 \<and> 0 \<le> gr_confidence g \<and> gr_confidence g \<le> 1 \<and>
    (gr_passed g \<longrightarrow> 1/2 \<le> gr_score g)"
  using grade_in_bounds [OF assms] by (simp add: grade_ok_def)

definition demo_grading :: grading_env where
  "demo_grading = \<lparr>ge_loads = \<lambda>s. Inl ''Expecting value'', ge_str = \<lambda>_. [], ge_ratio = \<lambda>_ _. 3/4\<rparr>"

lemma grade_bounded_witness:
  "\<exists>g. grade demo_grading 0 None ''reference_comparison'' (JStr ''a'') (JStr ''b'') = Inr g \<and>
     0 \<le> gr_score g \<and> gr_score g \<le> 1"
proof -
  have "grade demo_grading 0 None ''reference_comparison'' (JStr ''a'') (JStr ''b'') =
      Inr (reference_comparison demo_grading (JStr ''a'') (JStr ''b''))" by (simp add: grade_def)
  moreover have "ratio_ok demo_grading" by (simp add: ratio_ok_def demo_grading_def)
  ultimately show ?thesis using grade_bounded by blast
qed

section \<open>The runner\<close>

record bench_case =
  bc_id :: string
  bc_capability :: string
  bc_input :: json
  bc_expected :: json
  bc_method :: string

datatype backend_outcome =
    Ran json
  | Out_of_memory string
  | Not_implemented string
  | Raised string string

record run_result =
  rr_case :: bench_case
  rr_grading :: grading_result
  rr_latency :: rat

record failure_record =
  fr_case :: string
  fr_capability :: string
  fr_type :: string
  fr_details :: string

text \<open>The backend with its identifiers; runs are numbered, each with its latency in seconds.\<close>

record bench_runner =
  rn_grading :: grading_env
  rn_run :: "nat \<Rightarrow> string \<Rightarrow> json \<Rightarrow> backend_outcome \<times> rat"
  rn_implementation :: string
  rn_revision :: string
  rn_adapter :: "string option"
  rn_timeout :: rat
  rn_ram_gb :: rat
  rn_sqrt :: "rat \<Rightarrow> rat"
  rn_fixed2 :: "rat \<Rightarrow> string"
  rn_show :: "rat \<Rightarrow> string"

definition classify_bench_failure :: "string \<Rightarrow> string \<Rightarrow> string" where
  "classify_bench_failure cls m =
     (let t = map to_lower_char m
      in if mentions t ''timeout'' \<or> mentions t ''timed out'' then ''timeout''
         else if mentions t ''permission'' \<or> mentions t ''denied'' then ''policy_denied''
         else if mentions (map to_lower_char cls) ''invalid'' \<or> mentions t ''invalid'' then ''invalid_case''
         else if mentions t ''grading'' then ''grading_failure''
         else ''benchmark_failure'')"

definition case_failure :: "bench_case \<Rightarrow> string \<Rightarrow> string \<Rightarrow> failure_record" where
  "case_failure c ty m = \<lparr>fr_case = bc_id c, fr_capability = bc_capability c, fr_type = ty, fr_details = m\<rparr>"

definition run_single :: "bench_runner \<Rightarrow> nat \<Rightarrow> bench_case \<Rightarrow> failure_record + run_result" where
  "run_single r i c =
     (case rn_run r i (bc_capability c) (bc_input c) of
        (Out_of_memory m, _) \<Rightarrow> Inl (case_failure c ''resource_failure'' m)
      | (Not_implemented m, _) \<Rightarrow> Inl (case_failure c ''implementation_failure'' m)
      | (Raised cls m, _) \<Rightarrow> Inl (case_failure c (classify_bench_failure cls m) m)
      | (Ran out, latency) \<Rightarrow>
          if latency > rn_timeout r
          then Inl (case_failure c ''timeout''
                 (''Latency '' @ rn_fixed2 r latency @ ''s > timeout '' @ rn_show r (rn_timeout r) @ ''s''))
          else (case grade (rn_grading r) 0 None (bc_method c) out (bc_expected c) of
                  Inl x \<Rightarrow> Inl (case_failure c (classify_bench_failure (exn_class x) (str_exn x)) (str_exn x))
                | Inr g \<Rightarrow> Inr \<lparr>rr_case = c, rr_grading = g, rr_latency = round_to 4 latency\<rparr>))"

text \<open>Each case so many times, in order; \<open>i\<close> numbers the runs.\<close>

fun run_each :: "bench_runner \<Rightarrow> nat \<Rightarrow> bench_case list \<Rightarrow> run_result list \<times> failure_record list" where
  "run_each r i [] = ([], [])"
| "run_each r i (c # cs) =
     (case run_each r (Suc i) cs of (rs, fs) \<Rightarrow>
        (case run_single r i c of Inl f \<Rightarrow> (rs, f # fs) | Inr x \<Rightarrow> (x # rs, fs)))"

definition run_cases ::
  "bench_runner \<Rightarrow> nat \<Rightarrow> bench_case list \<Rightarrow> nat \<Rightarrow> run_result list \<times> failure_record list \<times> string list" where
  "run_cases r i cases runs =
     (case run_each r i (concat (map (replicate runs) cases)) of
        (rs, fs) \<Rightarrow>
          (rs, fs, [''capability.benchmark_started'',
                    if fs = [] then ''capability.benchmark_completed'' else ''capability.benchmark_failed'']))"

section \<open>Statistics and scorecards\<close>

text \<open>\<open>xs\<close> is sorted.\<close>

definition percentile :: "rat list \<Rightarrow> rat \<Rightarrow> rat" where
  "percentile xs pct =
     (if xs = [] then 0
      else let idx = pct / 100 * of_nat (length xs - 1);
               lo = nat \<lfloor>idx\<rfloor>; hi = min (lo + 1) (length xs - 1)
           in xs ! lo * (1 - (idx - of_nat lo)) + xs ! hi * (idx - of_nat lo))"

record repeatability_stats =
  rs_run_count :: nat
  rs_mean :: rat
  rs_variance :: rat
  rs_stddev :: rat
  rs_best :: rat
  rs_worst :: rat
  rs_scores :: "rat list"

definition variance_of :: "rat list \<Rightarrow> rat" where
  "variance_of xs = sum_list (map (\<lambda>x. (x - mean xs) ^ 2) xs) / of_nat (length xs)"

definition repeatability :: "bench_runner \<Rightarrow> rat list \<Rightarrow> repeatability_stats" where
  "repeatability r xs =
     (if xs = []
      then \<lparr>rs_run_count = 0, rs_mean = 0, rs_variance = 0, rs_stddev = 0, rs_best = 0, rs_worst = 0, rs_scores = []\<rparr>
      else \<lparr>rs_run_count = length xs, rs_mean = round_to 4 (mean xs), rs_variance = round_to 6 (variance_of xs),
            rs_stddev = round_to 4 (rn_sqrt r (variance_of xs)), rs_best = round_to 4 (Max (set xs)),
            rs_worst = round_to 4 (Min (set xs)), rs_scores = map (round_to 4) xs\<rparr>)"

record scorecard =
  sc_id :: string
  sc_capability :: string
  sc_implementation :: string
  sc_revision :: string
  sc_benchmark_version :: string
  sc_dataset_version :: string
  sc_score :: rat
  sc_confidence :: rat
  sc_p50 :: rat
  sc_p95 :: rat
  sc_p99 :: rat
  sc_resource_usage :: json
  sc_status :: certification_status
  sc_hardware :: json
  sc_adapter :: "string option"
  sc_created_at :: "instant option"

definition certification_threshold :: rat where
  "certification_threshold = 8/10"

text \<open>\<open>stamp\<close> renders the time, \<open>hw\<close> is the profile of the machine. The events are what the callback gets.\<close>

definition build_scorecard ::
  "bench_runner \<Rightarrow> (instant \<Rightarrow> string) \<Rightarrow> json \<Rightarrow> instant \<Rightarrow> string \<Rightarrow> string \<Rightarrow> run_result list \<Rightarrow> scorecard \<times> string list" where
  "build_scorecard r stamp hw now cap dataset results =
     (let rs = filter (\<lambda>x. bc_capability (rr_case x) = cap) results;
          scores = map (gr_score \<circ> rr_grading) rs;
          confs = map (gr_confidence \<circ> rr_grading) rs;
          latencies = sort (map rr_latency rs);
          score = (if scores = [] then 0 else rs_mean (repeatability r scores));
          conf = (if confs = [] then 0 else mean confs);
          cert = (if score \<ge> certification_threshold then CERTIFIED else VALID)
      in (\<lparr>sc_id = cap @ ''_'' @ rn_implementation r @ ''_'' @ stamp now, sc_capability = cap,
           sc_implementation = rn_implementation r, sc_revision = rn_revision r, sc_benchmark_version = ''v1.0.0'',
           sc_dataset_version = dataset, sc_score = round_to 4 score, sc_confidence = round_to 4 conf,
           sc_p50 = round_to 4 (percentile latencies 50), sc_p95 = round_to 4 (percentile latencies 95),
           sc_p99 = round_to 4 (percentile latencies 99),
           sc_resource_usage = JObj [(''ram_gb'', JFloat (rn_ram_gb r))], sc_status = cert, sc_hardware = hw,
           sc_adapter = rn_adapter r, sc_created_at = Some now\<rparr>,
          if cert = CERTIFIED then [''capability.certified''] else []))"

fun run_rounds :: "bench_runner \<Rightarrow> nat \<Rightarrow> bench_case list \<Rightarrow> nat \<Rightarrow> rat list" where
  "run_rounds r i cases 0 = []"
| "run_rounds r i cases (Suc n) =
     map (gr_score \<circ> rr_grading) (fst (run_cases r i cases 1)) @ run_rounds r (i + length cases) cases n"

definition run_repeatability :: "bench_runner \<Rightarrow> bench_case list \<Rightarrow> string \<Rightarrow> nat \<Rightarrow> repeatability_stats" where
  "run_repeatability r cases cap runs =
     repeatability r (run_rounds r 0 (filter (\<lambda>c. bc_capability c = cap) cases) runs)"

section \<open>What a scorecard says\<close>

lemma interpolate_mono:
  fixes a b t u :: rat
  assumes "a \<le> b" and "t \<le> u"
  shows "a * (1 - t) + b * t \<le> a * (1 - u) + b * u"
proof -
  have "a * (1 - t) + b * t = a + (b - a) * t" "a * (1 - u) + b * u = a + (b - a) * u"
    by (simp_all add: algebra_simps)
  moreover have "(b - a) * t \<le> (b - a) * u" using assms by (intro mult_left_mono) simp_all
  ultimately show ?thesis by simp
qed

lemma interpolate_between:
  fixes a b t :: rat
  assumes "a \<le> b" and "0 \<le> t" and "t \<le> 1"
  shows "a \<le> a * (1 - t) + b * t" and "a * (1 - t) + b * t \<le> b"
  using interpolate_mono [OF assms(1,2)] interpolate_mono [OF assms(1,3)] by simp_all

text \<open>The position between two neighbours, as a function of the index.\<close>

definition at_index :: "rat list \<Rightarrow> rat \<Rightarrow> rat" where
  "at_index xs x =
     (let lo = nat \<lfloor>x\<rfloor>; hi = min (lo + 1) (length xs - 1)
      in xs ! lo * (1 - (x - of_nat lo)) + xs ! hi * (x - of_nat lo))"

lemma at_index_mono:
  assumes "sorted xs" and "0 \<le> x" and "x \<le> y" and "y \<le> of_nat (length xs - 1)" and "xs \<noteq> []"
  shows "at_index xs x \<le> at_index xs y"
proof -
  define i where "i = nat \<lfloor>x\<rfloor>"
  define j where "j = nat \<lfloor>y\<rfloor>"
  let ?n = "length xs - 1"
  have frac: "0 \<le> z - of_nat (nat \<lfloor>z\<rfloor>) \<and> z - of_nat (nat \<lfloor>z\<rfloor>) \<le> 1" if "0 \<le> z" for z :: rat
  proof -
    have "of_nat (nat \<lfloor>z\<rfloor>) = (of_int \<lfloor>z\<rfloor> :: rat)" using that by (simp add: of_nat_nat)
    then show ?thesis using of_int_floor_le [of z] floor_correct [of z] by linarith
  qed
  have ij: "i \<le> j" using floor_mono [OF assms(3)] by (simp add: i_def j_def nat_mono)
  have "\<lfloor>y\<rfloor> \<le> int ?n" using assms(4) by (metis floor_mono floor_of_nat)
  then have jn: "j \<le> ?n" by (simp add: j_def)
  then have len: "i < length xs" "j < length xs" using ij assms(5) by (auto simp: Suc_le_eq neq_Nil_conv)
  have sorted: "xs ! a \<le> xs ! b" if "a \<le> b" "b < length xs" for a b
    using assms(1) that sorted_nth_mono by blast
  have up: "xs ! a \<le> xs ! min (a + 1) ?n" if "a \<le> ?n" for a
    using that assms(5) by (intro sorted) (auto simp: neq_Nil_conv)
  have at_x: "at_index xs x = xs ! i * (1 - (x - of_nat i)) + xs ! min (i + 1) ?n * (x - of_nat i)"
    by (simp add: at_index_def i_def Let_def)
  have at_y: "at_index xs y = xs ! j * (1 - (y - of_nat j)) + xs ! min (j + 1) ?n * (y - of_nat j)"
    by (simp add: at_index_def j_def Let_def)
  have frac_x: "0 \<le> x - of_nat i" "x - of_nat i \<le> 1" using frac [OF assms(2)] by (simp_all only: i_def)
  have frac_y: "0 \<le> y - of_nat j" "y - of_nat j \<le> 1"
    using frac [OF order_trans [OF assms(2,3)]] by (simp_all only: j_def)
  show ?thesis
  proof (cases "i = j")
    case True
    have "x - of_nat i \<le> y - of_nat i" using assms(3) by simp
    from interpolate_mono [OF up [OF jn] this [unfolded True]] show ?thesis unfolding at_x at_y True .
  next
    case False
    have "at_index xs x \<le> xs ! min (i + 1) ?n"
      unfolding at_x using ij jn by (intro interpolate_between(2) up frac_x) simp
    also have "\<dots> \<le> xs ! j" using False ij len by (intro sorted) auto
    also have "xs ! j \<le> at_index xs y"
      unfolding at_y using jn by (intro interpolate_between(1) up frac_y)
    finally show ?thesis .
  qed
qed

lemma percentile_mono:
  assumes "sorted xs" and "0 \<le> p" and "p \<le> q" and "q \<le> 100"
  shows "percentile xs p \<le> percentile xs q"
proof (cases "xs = []")
  case False
  let ?n = "of_nat (length xs - 1) :: rat"
  have "percentile xs a = at_index xs (a / 100 * ?n)" for a
    using False by (simp add: percentile_def at_index_def Let_def)
  moreover have "at_index xs (p / 100 * ?n) \<le> at_index xs (q / 100 * ?n)"
  proof (rule at_index_mono [OF assms(1) _ _ _ False])
    show "0 \<le> p / 100 * ?n" using assms(2) by simp
    show "p / 100 * ?n \<le> q / 100 * ?n" using assms(3) by (intro mult_right_mono) simp_all
    have "q / 100 * ?n \<le> 1 * ?n" using assms(4) by (intro mult_right_mono) simp_all
    then show "q / 100 * ?n \<le> ?n" by simp
  qed
  ultimately show ?thesis by simp
qed (simp add: percentile_def)

lemma mean_unit:
  assumes "\<forall>x \<in> set xs. 0 \<le> x \<and> x \<le> (1 :: rat)"
  shows "0 \<le> mean xs \<and> mean xs \<le> 1"
proof -
  have "0 \<le> sum_list xs \<and> sum_list xs \<le> of_nat (length xs)"
    using assms by (induction xs) auto
  then show ?thesis by (cases "xs = []") (simp_all add: mean_def divide_le_eq)
qed

lemma round_to_idem [simp]: "round_to n (round_to n x) = round_to n x"
  by (rule round_to_exact [of _ _ "round_half_even (x * 10 ^ n)"]) (simp add: round_to_def)

lemma run_single_graded:
  assumes "run_single r i c = Inr x"
  shows "\<exists>out. grade (rn_grading r) 0 None (bc_method c) out (bc_expected c) = Inr (rr_grading x) \<and> rr_case x = c"
  using assms by (auto simp: run_single_def split: prod.splits backend_outcome.splits if_splits sum.splits)

lemma run_each_graded:
  assumes "run_each r i cs = (rs, fs)" and "x \<in> set rs" and "ratio_ok (rn_grading r)"
  shows "grade_ok (rr_grading x)"
  using assms(1,2)
proof (induction cs arbitrary: i rs fs)
  case (Cons c cs)
  obtain rs' fs' where rest: "run_each r (Suc i) cs = (rs', fs')" by fastforce
  have "x \<in> set rs' \<or> run_single r i c = Inr x"
    using Cons.prems rest by (auto split: sum.splits)
  then show ?case
  proof
    assume "run_single r i c = Inr x"
    then obtain out where "grade (rn_grading r) 0 None (bc_method c) out (bc_expected c) = Inr (rr_grading x)"
      using run_single_graded by blast
    then show ?thesis using grade_in_bounds [OF assms(3)] by simp
  qed (use Cons.IH [OF rest] in blast)
qed simp

text \<open>C36. A scorecard of a run shows a score and a confidence between 0 and 1 and latencies in order, and it is CERTIFIED
  exactly when the score it shows reaches the threshold.\<close>

theorem scorecard_sound:
  assumes "ratio_ok (rn_grading r)" and "run_cases r i cases n = (results, failures, events)"
    and "build_scorecard r stamp hw now cap dataset results = (sc, told)"
  shows "0 \<le> sc_score sc \<and> sc_score sc \<le> 1 \<and> 0 \<le> sc_confidence sc \<and> sc_confidence sc \<le> 1 \<and>
    sc_p50 sc \<le> sc_p95 sc \<and> sc_p95 sc \<le> sc_p99 sc \<and>
    (sc_status sc = CERTIFIED \<longleftrightarrow> 8/10 \<le> sc_score sc) \<and> (told \<noteq> [] \<longleftrightarrow> sc_status sc = CERTIFIED)"
proof -
  define rs where "rs = filter (\<lambda>x. bc_capability (rr_case x) = cap) results"
  define score where "score = (if rs = [] then 0 else round_to 4 (mean (map (gr_score \<circ> rr_grading) rs)))"
  define conf where "conf = (if rs = [] then 0 else mean (map (gr_confidence \<circ> rr_grading) rs))"
  have each: "run_each r i (concat (map (replicate n) cases)) = (results, failures)"
    using assms(2) by (auto simp: run_cases_def split: prod.splits)
  have ok: "grade_ok (rr_grading x)" if "x \<in> set rs" for x
    using run_each_graded [OF each _ assms(1)] that by (simp add: rs_def)
  have "0 \<le> mean (map (gr_score \<circ> rr_grading) rs) \<and> mean (map (gr_score \<circ> rr_grading) rs) \<le> 1"
    using ok by (intro mean_unit) (auto simp: grade_ok_def)
  then have score: "0 \<le> score \<and> score \<le> 1" using round_to_unit by (simp add: score_def)
  have conf: "0 \<le> conf \<and> conf \<le> 1"
    unfolding conf_def using ok by (simp add: mean_unit grade_ok_def)
  have sc: "sc_score sc = score" "sc_confidence sc = round_to 4 conf"
      "sc_p50 sc = round_to 4 (percentile (sort (map rr_latency rs)) 50)"
      "sc_p95 sc = round_to 4 (percentile (sort (map rr_latency rs)) 95)"
      "sc_p99 sc = round_to 4 (percentile (sort (map rr_latency rs)) 99)"
      "sc_status sc = (if score \<ge> certification_threshold then CERTIFIED else VALID)"
      "told = (if sc_status sc = CERTIFIED then [''capability.certified''] else [])"
    using assms(3) unfolding build_scorecard_def Let_def rs_def [symmetric]
    by (auto simp: score_def conf_def repeatability_def)
  have "sc_p50 sc \<le> sc_p95 sc" "sc_p95 sc \<le> sc_p99 sc"
    unfolding sc by (intro round_to_mono percentile_mono; simp)+
  then show ?thesis
    using score round_to_unit [of conf] conf by (auto simp: sc certification_threshold_def)
qed

text \<open>A backend whose first answer is right and whose others raise.\<close>

definition demo_runner :: bench_runner where
  "demo_runner =
     \<lparr>rn_grading = demo_grading,
      rn_run = \<lambda>i cap v. (if i = 0 then Ran (JStr ''yes'') else Raised ''RuntimeError'' ''lost'', 1/8),
      rn_implementation = ''impl'', rn_revision = ''r1'', rn_adapter = None, rn_timeout = 30, rn_ram_gb = 8,
      rn_sqrt = \<lambda>x. x, rn_fixed2 = \<lambda>_. [], rn_show = \<lambda>_. []\<rparr>"

definition demo_case :: bench_case where
  "demo_case = \<lparr>bc_id = ''b1'', bc_capability = ''text.rewriting'', bc_input = JNull, bc_expected = JStr ''yes'',
     bc_method = ''exact_match''\<rparr>"

definition demo_results :: "run_result list \<times> failure_record list \<times> string list" where
  "demo_results = run_cases demo_runner 0 [demo_case] 3"

definition demo_card :: "scorecard \<times> string list" where
  "demo_card = build_scorecard demo_runner (\<lambda>_. ''now'') JNull 0 ''text.rewriting'' ''v1'' (fst demo_results)"

text \<open>The runs that failed are no part of the score: one success of three certifies.\<close>

lemma failures_not_scored:
  "length (fst demo_results) = 1 \<and> map fr_type (fst (snd demo_results)) = [''benchmark_failure'', ''benchmark_failure''] \<and>
   sc_score (fst demo_card) = 1 \<and> certification_value (sc_status (fst demo_card)) = ''CERTIFIED''"
  by code_simp

lemma scorecard_sound_witness:
  "sc_p50 (fst demo_card) \<le> sc_p95 (fst demo_card) \<and> sc_score (fst demo_card) \<le> 1"
proof -
  have "ratio_ok (rn_grading demo_runner)" by (simp add: ratio_ok_def demo_runner_def demo_grading_def)
  moreover have "run_cases demo_runner 0 [demo_case] 3 = (fst demo_results, fst (snd demo_results), snd (snd demo_results))"
    by (simp add: demo_results_def)
  moreover have "build_scorecard demo_runner (\<lambda>_. ''now'') JNull 0 ''text.rewriting'' ''v1'' (fst demo_results) =
      (fst demo_card, snd demo_card)" by (simp add: demo_card_def)
  ultimately show ?thesis using scorecard_sound by blast
qed

section \<open>The store\<close>

type_synonym card_files = "(string, json) dict"

text \<open>The times as the store writes and reads them, and \<open>float\<close> of a string.\<close>

record store_env =
  se_show :: "instant \<Rightarrow> string"
  se_read :: "string \<Rightarrow> instant option"
  se_float :: "string \<Rightarrow> rat option"

definition card_file :: "string \<Rightarrow> string" where
  "card_file i = map (\<lambda>c. if c = CHR ''/'' \<or> c = CHR ''.'' then CHR ''_'' else c) i @ ''.json''"

definition opt_string :: "string option \<Rightarrow> json" where
  "opt_string x = (case x of Some s \<Rightarrow> JStr s | None \<Rightarrow> JNull)"

definition card_to_dict :: "store_env \<Rightarrow> scorecard \<Rightarrow> json" where
  "card_to_dict e c = JObj
    [(''scorecard_id'', JStr (sc_id c)), (''capability_id'', JStr (sc_capability c)),
     (''implementation_id'', JStr (sc_implementation c)), (''implementation_revision'', JStr (sc_revision c)),
     (''benchmark_version'', JStr (sc_benchmark_version c)), (''dataset_version'', JStr (sc_dataset_version c)),
     (''score'', JFloat (sc_score c)), (''confidence'', JFloat (sc_confidence c)), (''latency_p50'', JFloat (sc_p50 c)),
     (''latency_p95'', JFloat (sc_p95 c)), (''latency_p99'', JFloat (sc_p99 c)), (''resource_usage'', sc_resource_usage c),
     (''certification_status'', JStr (certification_value (sc_status c))), (''hardware_profile'', sc_hardware c),
     (''adapter_revision'', opt_string (sc_adapter c)),
     (''created_at'', case sc_created_at c of Some t \<Rightarrow> JStr (se_show e t) | None \<Rightarrow> JNull)]"

text \<open>Reading back; every exception makes the file unreadable. Fields of text hold text.\<close>

definition text_entry :: "(string \<times> json) list \<Rightarrow> string \<Rightarrow> string option" where
  "text_entry d k = (case dict_get d k of Some (JStr s) \<Rightarrow> Some s | _ \<Rightarrow> None)"

definition float_entry :: "store_env \<Rightarrow> json \<Rightarrow> rat option" where
  "float_entry e v = (case v of JStr s \<Rightarrow> se_float e s | _ \<Rightarrow> number_of v)"

definition status_named :: "string \<Rightarrow> certification_status option" where
  "status_named s = find (\<lambda>st. certification_value st = s) [CERTIFIED, STALE, REQUIRES_REBENCHMARK, REVOKED, VALID]"

definition card_from_dict :: "store_env \<Rightarrow> json \<Rightarrow> scorecard option" where
  "card_from_dict e v =
     (case v of
        JObj d \<Rightarrow>
          (case (map (text_entry d) [''scorecard_id'', ''capability_id'', ''implementation_id'', ''implementation_revision'',
                   ''benchmark_version'', ''dataset_version''],
                 map (\<lambda>k. Option.bind (dict_get d k) (float_entry e)) [''score'', ''confidence'', ''latency_p50'', ''latency_p95''],
                 float_entry e (jfield d ''latency_p99'' (JFloat 0)),
                 Option.bind (text_entry d ''certification_status'') status_named) of
             ([Some i, Some c, Some p, Some r, Some b, Some ds], [Some s, Some cf, Some p50, Some p95], Some p99, Some st) \<Rightarrow>
               Some \<lparr>sc_id = i, sc_capability = c, sc_implementation = p, sc_revision = r, sc_benchmark_version = b,
                     sc_dataset_version = ds, sc_score = s, sc_confidence = cf, sc_p50 = p50, sc_p95 = p95, sc_p99 = p99,
                     sc_resource_usage = jfield d ''resource_usage'' (JObj []), sc_status = st,
                     sc_hardware = jfield d ''hardware_profile'' JNull, sc_adapter = text_entry d ''adapter_revision'',
                     sc_created_at = (case jfield d ''created_at'' JNull of
                                        JStr t \<Rightarrow> if t = [] then None else se_read e t | _ \<Rightarrow> None)\<rparr>
           | _ \<Rightarrow> None)
      | _ \<Rightarrow> None)"

definition save_scorecard :: "store_env \<Rightarrow> scorecard \<Rightarrow> card_files \<Rightarrow> card_files" where
  "save_scorecard e c fs = dict_set fs (card_file (sc_id c)) (card_to_dict e c)"

definition load_scorecard :: "store_env \<Rightarrow> string \<Rightarrow> card_files \<Rightarrow> scorecard option" where
  "load_scorecard e i fs = Option.bind (dict_get fs (card_file i)) (card_from_dict e)"

definition list_scorecards :: "store_env \<Rightarrow> card_files \<Rightarrow> scorecard list" where
  "list_scorecards e fs = List.map_filter (card_from_dict e) (dict_values fs)"

text \<open>\<open>mark_stale\<close> and \<open>revoke\<close>: the new status, and how many cards got it.\<close>

definition of_pair :: "string \<Rightarrow> string \<Rightarrow> scorecard \<Rightarrow> bool" where
  "of_pair cap imp c \<longleftrightarrow> sc_capability c = cap \<and> sc_implementation c = imp"

definition set_card_status ::
  "store_env \<Rightarrow> certification_status \<Rightarrow> string \<Rightarrow> string \<Rightarrow> card_files \<Rightarrow> card_files \<times> nat" where
  "set_card_status e st cap imp fs =
     (let cs = filter (of_pair cap imp) (list_scorecards e fs)
      in (fold (\<lambda>c. save_scorecard e (c\<lparr>sc_status := st\<rparr>)) cs fs, length cs))"

definition mark_stale :: "store_env \<Rightarrow> string \<Rightarrow> string \<Rightarrow> card_files \<Rightarrow> card_files \<times> nat" where
  "mark_stale e = set_card_status e STALE"

definition revoke_scorecards :: "store_env \<Rightarrow> string \<Rightarrow> string \<Rightarrow> card_files \<Rightarrow> card_files \<times> nat" where
  "revoke_scorecards e = set_card_status e REVOKED"

text \<open>\<open>max\<close> keeps the first of the best.\<close>

fun best_card :: "scorecard list \<Rightarrow> scorecard option" where
  "best_card [] = None"
| "best_card (c # cs) =
     (case best_card cs of None \<Rightarrow> Some c | Some d \<Rightarrow> if sc_score d > sc_score c then Some d else Some c)"

definition best_scorecard :: "store_env \<Rightarrow> string \<Rightarrow> card_files \<Rightarrow> scorecard option" where
  "best_scorecard e cap fs =
     best_card (filter (\<lambda>c. sc_capability c = cap \<and> sc_status c = CERTIFIED) (list_scorecards e fs))"

section \<open>What the store promises\<close>

text \<open>A time is written as text that is not empty and reads back as it was.\<close>

definition times_ok :: "store_env \<Rightarrow> bool" where
  "times_ok e \<longleftrightarrow> (\<forall>t. se_show e t \<noteq> [] \<and> se_read e (se_show e t) = Some t)"

lemma status_named_value [simp]: "status_named (certification_value st) = Some st"
  by (cases st) (simp_all add: status_named_def)

lemma card_from_to:
  assumes "times_ok e"
  shows "card_from_dict e (card_to_dict e c) = Some c"
  using assms
  by (cases c) (auto simp: card_from_dict_def card_to_dict_def text_entry_def float_entry_def jfield_def times_ok_def
      opt_string_def split: option.splits)

text \<open>A card that was saved is loaded as it was, whatever the store held.\<close>

theorem scorecard_roundtrip:
  assumes "times_ok e"
  shows "load_scorecard e (sc_id c) (save_scorecard e c fs) = Some c"
  using assms by (simp add: load_scorecard_def save_scorecard_def card_from_to)

inductive store_reachable :: "store_env \<Rightarrow> card_files \<Rightarrow> bool" for e where
  fresh: "store_reachable e []"
| saved: "store_reachable e fs \<Longrightarrow> store_reachable e (save_scorecard e c fs)"
| marked: "store_reachable e fs \<Longrightarrow> store_reachable e (fst (set_card_status e st cap imp fs))"

text \<open>Every file is the file of the card it holds.\<close>

definition cards_filed :: "store_env \<Rightarrow> card_files \<Rightarrow> bool" where
  "cards_filed e fs \<longleftrightarrow> dict_wf fs \<and>
     (\<forall>f v c. dict_get fs f = Some v \<longrightarrow> card_from_dict e v = Some c \<longrightarrow> f = card_file (sc_id c))"

lemma cards_filed_save: "times_ok e \<Longrightarrow> cards_filed e fs \<Longrightarrow> cards_filed e (save_scorecard e c fs)"
  by (auto simp: cards_filed_def save_scorecard_def card_from_to split: if_splits)

lemma cards_filed_fold:
  "times_ok e \<Longrightarrow> cards_filed e fs \<Longrightarrow> cards_filed e (fold (\<lambda>c. save_scorecard e (g c)) cs fs)"
  by (induction cs arbitrary: fs) (simp_all add: cards_filed_save)

lemma reachable_filed: "store_reachable e fs \<Longrightarrow> times_ok e \<Longrightarrow> cards_filed e fs"
proof (induction rule: store_reachable.induct)
  case fresh
  show ?case by (simp add: cards_filed_def)
qed (simp_all add: cards_filed_save cards_filed_fold set_card_status_def Let_def)

lemma dict_get_save_fold:
  "dict_get (fold (\<lambda>c. save_scorecard e (g c)) cs fs) f =
     (case find (\<lambda>c. card_file (sc_id (g c)) = f) (rev cs) of
        Some c \<Rightarrow> Some (card_to_dict e (g c)) | None \<Rightarrow> dict_get fs f)"
proof (induction cs rule: rev_induct)
  case (snoc c cs)
  then show ?case by (simp add: save_scorecard_def)
qed simp

lemma listed_iff:
  "dict_wf fs \<Longrightarrow> c \<in> set (list_scorecards e fs) \<longleftrightarrow> (\<exists>f v. dict_get fs f = Some v \<and> card_from_dict e v = Some c)"
  by (auto simp: list_scorecards_def map_filter_def dict_values_set_iff) (force simp: dict_values_set_iff)+

text \<open>After a status is set, the cards of the pair have it and the others are what they were.\<close>

lemma listed_after_status:
  assumes "times_ok e" and "cards_filed e fs" and "c \<in> set (list_scorecards e (fst (set_card_status e st cap imp fs)))"
  shows "(of_pair cap imp c \<longrightarrow> sc_status c = st) \<and> (\<not> of_pair cap imp c \<longrightarrow> c \<in> set (list_scorecards e fs))"
proof -
  define cs where "cs = filter (of_pair cap imp) (list_scorecards e fs)"
  define fs' where "fs' = fold (\<lambda>c. save_scorecard e (c\<lparr>sc_status := st\<rparr>)) cs fs"
  have fs': "fst (set_card_status e st cap imp fs) = fs'" by (simp add: set_card_status_def Let_def fs'_def cs_def)
  have "cards_filed e fs'" unfolding fs'_def using assms(1,2) by (rule cards_filed_fold)
  then have wf: "dict_wf fs" "dict_wf fs'" using assms(2) by (simp_all add: cards_filed_def)
  obtain f v where f: "dict_get fs' f = Some v" "card_from_dict e v = Some c"
    using assms(3) listed_iff [OF wf(2)] fs' by auto
  show ?thesis
  proof (cases "find (\<lambda>c. card_file (sc_id (c\<lparr>sc_status := st\<rparr>)) = f) (rev cs)")
    case (Some d)
    then have "v = card_to_dict e (d\<lparr>sc_status := st\<rparr>)"
      using f(1) unfolding fs'_def dict_get_save_fold by simp
    then have "c = d\<lparr>sc_status := st\<rparr>" using f(2) card_from_to [OF assms(1)] by simp
    moreover have "d \<in> set cs" using Some by (metis find_Some_iff nth_mem set_rev)
    ultimately show ?thesis by (simp add: cs_def of_pair_def)
  next
    case None
    then have old: "dict_get fs f = Some v" using f by (simp add: fs'_def dict_get_save_fold)
    then have "f = card_file (sc_id c)" using assms(2) f(2) by (simp add: cards_filed_def)
    then have "c \<notin> set cs" using None by (auto simp: find_None_iff)
    moreover have "c \<in> set (list_scorecards e fs)" using listed_iff [OF wf(1)] old f(2) by blast
    ultimately show ?thesis by (simp add: cs_def)
  qed
qed

lemma best_card_in: "best_card cs = Some c \<Longrightarrow> c \<in> set cs"
  by (induction cs arbitrary: c) (auto split: option.splits if_splits)

lemma best_card_none: "best_card cs = None \<longleftrightarrow> cs = []"
  by (cases cs) (auto split: option.splits)

lemma best_card_max: "best_card cs = Some c \<Longrightarrow> d \<in> set cs \<Longrightarrow> sc_score d \<le> sc_score c"
proof (induction cs arbitrary: c d)
  case (Cons x cs)
  show ?case
  proof (cases "best_card cs")
    case None
    then show ?thesis using Cons.prems by (simp add: best_card_none)
  next
    case (Some b)
    then have "d = x \<or> sc_score d \<le> sc_score b" using Cons by auto
    then show ?thesis using Cons.prems Some by (auto split: if_splits)
  qed
qed simp

text \<open>C37. A revoked implementation is never the best for its capability again, whatever cards the store held; and what
  is the best is certified, of that capability, and no certified card of it scores more.\<close>

theorem revoked_never_best:
  assumes "times_ok e" and "store_reachable e fs" and "revoke_scorecards e cap imp fs = (fs', n)"
    and "best_scorecard e cap fs' = Some c"
  shows "sc_implementation c \<noteq> imp \<and> sc_status c = CERTIFIED \<and> sc_capability c = cap \<and>
    c \<in> set (list_scorecards e fs) \<and>
    (\<forall>d. d \<in> set (list_scorecards e fs') \<longrightarrow> sc_capability d = cap \<longrightarrow> sc_status d = CERTIFIED \<longrightarrow> sc_score d \<le> sc_score c)"
proof -
  have c: "c \<in> set (list_scorecards e fs')" "sc_capability c = cap" "sc_status c = CERTIFIED"
    using best_card_in [OF assms(4) [unfolded best_scorecard_def]] by simp_all
  have fs': "fs' = fst (set_card_status e REVOKED cap imp fs)"
    using assms(3) by (simp add: revoke_scorecards_def)
  have st: "(of_pair cap imp c \<longrightarrow> sc_status c = REVOKED) \<and> (\<not> of_pair cap imp c \<longrightarrow> c \<in> set (list_scorecards e fs))"
    using listed_after_status [OF assms(1) reachable_filed [OF assms(2,1)] c(1) [unfolded fs']] .
  then have "\<not> of_pair cap imp c" using c(3) by auto
  then show ?thesis
    using st c best_card_max [OF assms(4) [unfolded best_scorecard_def]] by (auto simp: of_pair_def)
qed

definition demo_store :: store_env where
  "demo_store = \<lparr>se_show = \<lambda>t. if t = 0 then ''0'' else if t > 0 then replicate (nat t) CHR ''+'' else replicate (nat (- t)) CHR ''-'',
     se_read = \<lambda>s. Some (if s = ''0'' then 0 else if hd s = CHR ''+'' then int (length s) else - int (length s)),
     se_float = \<lambda>_. None\<rparr>"

definition other_card :: scorecard where
  "other_card = (fst demo_card)\<lparr>sc_id := ''other'', sc_implementation := ''impl2'', sc_score := 9/10\<rparr>"

lemma demo_times_ok: "times_ok demo_store"
proof -
  have "hd (replicate (nat t) c) = c" if "t > 0" for t c
    using that by (cases "nat t") simp_all
  moreover have "replicate n CHR ''+'' \<noteq> ''0''" "replicate n CHR ''-'' \<noteq> ''0''" for n
    by (cases n; simp)+
  ultimately show ?thesis by (auto simp: times_ok_def demo_store_def)
qed

definition demo_files :: card_files where
  "demo_files = save_scorecard demo_store other_card (save_scorecard demo_store (fst demo_card) [])"

lemma scorecard_roundtrip_witness:
  "load_scorecard demo_store ''other'' demo_files = Some other_card"
  using scorecard_roundtrip [OF demo_times_ok, of other_card] by (simp add: demo_files_def other_card_def)

lemma revoked_never_best_witness:
  "\<exists>c. best_scorecard demo_store ''text.rewriting'' (fst (revoke_scorecards demo_store ''text.rewriting'' ''impl'' demo_files)) = Some c
     \<and> sc_implementation c \<noteq> ''impl''"
proof -
  let ?fs = "revoke_scorecards demo_store ''text.rewriting'' ''impl'' demo_files"
  have "best_scorecard demo_store ''text.rewriting'' (fst ?fs) \<noteq> None" by code_simp
  then obtain c where "best_scorecard demo_store ''text.rewriting'' (fst ?fs) = Some c" by blast
  moreover have "store_reachable demo_store demo_files"
    unfolding demo_files_def by (intro store_reachable.intros)
  ultimately show ?thesis
    using revoked_never_best [OF demo_times_ok _ surjective_pairing] by blast
qed

text \<open>Names that differ only in slashes, dots and underscores share a file: the second card replaces the first.\<close>

lemma card_files_collide:
  assumes "times_ok e" and "card_file (sc_id c) = card_file (sc_id d)"
  shows "load_scorecard e (sc_id c) (save_scorecard e d (save_scorecard e c fs)) = Some d"
  using assms by (simp add: load_scorecard_def save_scorecard_def card_from_to)

lemma card_file_slash: "card_file ''text.rewriting_impl'' = card_file ''text_rewriting/impl''"
  by code_simp

section \<open>Evidence\<close>

record evidence_world =
  ew_out :: "(string, json) dict"
  ew_sums :: "(string \<times> string) list"

record evidence_manifest =
  em_certified :: nat
  em_failed :: nat
  em_files :: "string list"

definition card_evidence :: "(instant \<Rightarrow> string) \<Rightarrow> scorecard \<Rightarrow> json" where
  "card_evidence isof c = JObj
    [(''capability_id'', JStr (sc_capability c)), (''implementation_id'', JStr (sc_implementation c)),
     (''score'', JFloat (sc_score c)), (''confidence'', JFloat (sc_confidence c)), (''latency_p50'', JFloat (sc_p50 c)),
     (''dataset_version'', JStr (sc_dataset_version c)),
     (''certified_at'', case sc_created_at c of Some t \<Rightarrow> JStr (isof t) | None \<Rightarrow> JNull), (''hardware'', sc_hardware c)]"

definition evidence_file :: "string \<Rightarrow> string" where
  "evidence_file cap = ''cert_'' @ map (\<lambda>c. if c = CHR ''.'' then CHR ''_'' else c) cap @ ''.json''"

definition export_one ::
  "store_env \<Rightarrow> (instant \<Rightarrow> string) \<Rightarrow> card_files \<Rightarrow> string \<Rightarrow> (string, json) dict \<times> evidence_manifest \<Rightarrow> (string, json) dict \<times> evidence_manifest" where
  "export_one e isof fs cap om =
     (case om of (out, m) \<Rightarrow>
        (case best_scorecard e cap fs of
           None \<Rightarrow> (out, m\<lparr>em_failed := em_failed m + 1\<rparr>)
         | Some c \<Rightarrow>
             (dict_set out (evidence_file cap) (card_evidence isof c),
              m\<lparr>em_certified := em_certified m + 1, em_files := em_files m @ [evidence_file cap]\<rparr>)))"

text \<open>The set of all capabilities is walked in the order of its lists; its listing is sorted.\<close>

definition taxonomy_json :: json where
  "taxonomy_json = JObj
    [(''families'', JObj (map (\<lambda>(f, ms). (f, JList (map JStr ms))) capability_families)),
     (''all_capabilities'', JList (map JStr (sort taxonomy_capabilities)))]"

definition generate_evidence ::
  "store_env \<Rightarrow> (instant \<Rightarrow> string) \<Rightarrow> (json \<Rightarrow> string) \<Rightarrow> card_files \<Rightarrow> (string, json) dict \<Rightarrow> evidence_world \<times> evidence_manifest" where
  "generate_evidence e isof sha fs out =
     (case fold (export_one e isof fs) taxonomy_capabilities
             (dict_set out ''taxonomy.json'' taxonomy_json,
              \<lparr>em_certified = 0, em_failed = 0, em_files = [''taxonomy.json'']\<rparr>) of
        (out, m) \<Rightarrow>
          (\<lparr>ew_out = out, ew_sums = map (\<lambda>f. (sha (the (dict_get out f)), f)) (em_files m)\<rparr>, m))"

section \<open>What the evidence counts\<close>

lemma export_counts:
  "fold (export_one e isof fs) caps (out, m) = (out', m') \<Longrightarrow>
     em_certified m' = em_certified m + length (filter (\<lambda>c. best_scorecard e c fs \<noteq> None) caps) \<and>
     em_failed m' = em_failed m + length (filter (\<lambda>c. best_scorecard e c fs = None) caps)"
  by (induction caps arbitrary: out m) (auto simp: export_one_def split: option.splits)

text \<open>
  Every capability counts once, and one without a certified card counts as failed, even where no benchmark
  is required of it.
\<close>

lemma evidence_counts:
  assumes "generate_evidence e isof sha fs out = (w, m)"
  shows "em_certified m + em_failed m = length taxonomy_capabilities"
    and "(\<forall>c. best_scorecard e c fs = None) \<Longrightarrow> em_failed m = length taxonomy_capabilities"
proof -
  obtain out' m' where *: "fold (export_one e isof fs) taxonomy_capabilities
      (dict_set out ''taxonomy.json'' taxonomy_json, \<lparr>em_certified = 0, em_failed = 0, em_files = [''taxonomy.json'']\<rparr>) = (out', m')"
    by fastforce
  then have "m = m'" using assms by (simp add: generate_evidence_def)
  note c = export_counts [OF *]
  have "length (filter (\<lambda>c. best_scorecard e c fs \<noteq> None) taxonomy_capabilities) +
      length (filter (\<lambda>c. best_scorecard e c fs = None) taxonomy_capabilities) = length taxonomy_capabilities"
    using sum_length_filter_compl [of "\<lambda>c. best_scorecard e c fs \<noteq> None"] by simp
  then show "em_certified m + em_failed m = length taxonomy_capabilities" using c \<open>m = m'\<close> by simp
  show "em_failed m = length taxonomy_capabilities" if "\<forall>c. best_scorecard e c fs = None"
    using c \<open>m = m'\<close> that by simp
qed

lemma deterministic_not_benchmarked:
  "filter requires_benchmark deterministic_capabilities = []"
  by code_simp

text \<open>An output that is no object is not graded zero: the grader raises, and the run is a failure.\<close>

lemma structured_match_raises:
  "structured_match demo_grading 0 (JList []) (JObj [(''a'', JInt 1)]) = Inl (no_attribute ''list'' ''get'')"
  by code_simp

text \<open>What is expected to be null matches nothing, not even null.\<close>

lemma null_never_matches: "\<not> values_match e tol JNull JNull"
  by (simp add: values_match_def)

section \<open>Reporting an assessment\<close>

text \<open>
  Without a collector nothing happens. With one, the payload reads \<open>response.available\<close>, which a response
  does not have.
\<close>

definition emit_capability_assessed :: "bool \<Rightarrow> assessment_response \<Rightarrow> unit result" where
  "emit_capability_assessed collector r =
     (if \<not> collector then Inr ()
      else Inl (no_attribute ''CapabilityAssessmentResponse'' ''available''))"

end
