(* ===== verification/LocalModel.thy ===== *)
theory LocalModel
  imports Worker Telemetry
begin

text \<open>
  The executor of the local model (runtime/execution/qwen_executor.py) with the validator of its output
  (runtime/execution/validator.py), and its place in a worker (runtime/execution/worker.py). The artifact, the
  model, the JSON codec, SHA-256 and what the host measures are arguments; text is ASCII.
\<close>

section \<open>The validator\<close>

record local_model =
  lm_exists :: bool
  lm_artifact_sha :: string
  lm_expected_sha :: "string option"
  lm_json_len :: "json \<Rightarrow> int"
  lm_str :: "json \<Rightarrow> string"
  lm_load :: "json \<Rightarrow> json \<Rightarrow> unit result"
  lm_generate :: "string \<Rightarrow> json \<Rightarrow> json \<Rightarrow> json \<Rightarrow> json \<Rightarrow> (string \<times> int \<times> int) result"
  lm_loads :: "string \<Rightarrow> string + json"
  lm_hash :: "json \<Rightarrow> string"
  lm_show_set :: "string list \<Rightarrow> string"
  lm_load_ms :: int
  lm_inference_ms :: int
  lm_memory_mb :: rat
  lm_cpu :: rat

definition required_output :: "string list" where
  "required_output = [''class'', ''confidence'', ''reason_codes'']"

definition allowed_classes :: "string list" where
  "allowed_classes = [''confidential'', ''public'', ''internal'', ''restricted'']"

text \<open>A refusal is the message of \<open>ModelOutputInvalid\<close>.\<close>

definition check_class :: "local_model \<Rightarrow> json \<Rightarrow> string + unit" where
  "check_class lm v =
     (case v of
        JStr s \<Rightarrow>
          if s \<in> set allowed_classes then Inr ()
          else Inl (quoted ''class'' @ '' must be one of '' @ lm_show_set lm allowed_classes)
      | _ \<Rightarrow> Inl (quoted ''class'' @ '' must be a string''))"

definition check_confidence :: "json \<Rightarrow> string + unit" where
  "check_confidence v =
     (case number_of v of
        None \<Rightarrow> Inl (quoted ''confidence'' @ '' must be a number'')
      | Some x \<Rightarrow>
          if 0 \<le> x \<and> x \<le> 1 then Inr () else Inl (quoted ''confidence'' @ '' must be between 0.0 and 1.0''))"

definition check_reasons :: "json \<Rightarrow> string + unit" where
  "check_reasons v = (case v of JList _ \<Rightarrow> Inr () | _ \<Rightarrow> Inl (quoted ''reason_codes'' @ '' must be a list''))"

fun first_error :: "(string + unit) list \<Rightarrow> string option" where
  "first_error [] = None"
| "first_error (Inl m # cs) = Some m"
| "first_error (Inr _ # cs) = first_error cs"

definition missing_output :: "(string \<times> json) list \<Rightarrow> string list" where
  "missing_output d = filter (\<lambda>k. dict_get d k = None) required_output"

definition validate_document_classification :: "local_model \<Rightarrow> string \<Rightarrow> string + json" where
  "validate_document_classification lm s =
     (case lm_loads lm s of
        Inl m \<Rightarrow> Inl (''Output is not valid JSON: '' @ m)
      | Inr (JObj d) \<Rightarrow>
          if missing_output d \<noteq> []
          then Inl (''Missing required fields: '' @ lm_show_set lm (missing_output d))
          else (case first_error [check_class lm (jfield d ''class'' JNull), check_confidence (jfield d ''confidence'' JNull),
                                  check_reasons (jfield d ''reason_codes'' JNull)] of
                  Some m \<Rightarrow> Inl m
                | None \<Rightarrow> Inr (JObj d))
      | Inr _ \<Rightarrow> Inl ''Output must be a JSON object'')"

text \<open>What a classification is, without the way it is checked.\<close>

definition classification :: "json \<Rightarrow> bool" where
  "classification v \<longleftrightarrow>
     (\<exists>d. v = JObj d \<and> (\<exists>s. dict_get d ''class'' = Some (JStr s) \<and> s \<in> set allowed_classes) \<and>
        (\<exists>c x. dict_get d ''confidence'' = Some c \<and> number_of c = Some x \<and> 0 \<le> x \<and> x \<le> 1) \<and>
        (\<exists>rs. dict_get d ''reason_codes'' = Some (JList rs)))"

lemma check_class_ok: "check_class lm v = Inr () \<longleftrightarrow> (\<exists>s. v = JStr s \<and> s \<in> set allowed_classes)"
  by (cases v) (simp_all add: check_class_def)

lemma check_confidence_ok: "check_confidence v = Inr () \<longleftrightarrow> (\<exists>x. number_of v = Some x \<and> 0 \<le> x \<and> x \<le> 1)"
  by (cases "number_of v") (simp_all add: check_confidence_def)

lemma check_reasons_ok: "check_reasons v = Inr () \<longleftrightarrow> (\<exists>rs. v = JList rs)"
  by (cases v) (simp_all add: check_reasons_def)

lemma first_error_none: "first_error cs = None \<longleftrightarrow> (\<forall>c \<in> set cs. c = Inr ())"
  by (induction cs rule: first_error.induct) simp_all

text \<open>The validator accepts exactly the classifications among the texts that are JSON, and gives back what it read.\<close>

theorem validator_exact:
  "validate_document_classification lm s = Inr v \<longleftrightarrow> lm_loads lm s = Inr v \<and> classification v"
proof (cases "\<exists>d. lm_loads lm s = Inr (JObj d)")
  case True
  then obtain d where d: "lm_loads lm s = Inr (JObj d)" by blast
  have missing: "missing_output d = [] \<longleftrightarrow> (\<forall>k \<in> set required_output. \<exists>v. dict_get d k = Some v)"
    by (auto simp: missing_output_def filter_empty_conv)
  let ?errors = "[check_class lm (jfield d ''class'' JNull), check_confidence (jfield d ''confidence'' JNull),
      check_reasons (jfield d ''reason_codes'' JNull)]"
  have says: "validate_document_classification lm s = Inr v \<longleftrightarrow>
      missing_output d = [] \<and> first_error ?errors = None \<and> v = JObj d"
    unfolding validate_document_classification_def d by (auto split: option.splits)
  have fine: "missing_output d = [] \<and> first_error ?errors = None \<longleftrightarrow> classification (JObj d)"
    by (auto simp: missing classification_def first_error_none check_class_ok check_confidence_ok check_reasons_ok
        required_output_def jfield_def split: option.splits)
  show ?thesis using says fine d by auto
next
  case False
  then show ?thesis
    by (auto simp: validate_document_classification_def classification_def split: sum.splits json.splits)
qed

section \<open>What the model said\<close>

text \<open>The text before the first occurrence of a mark, and up to the last closing brace.\<close>

fun cut_before :: "string \<Rightarrow> string \<Rightarrow> string" where
  "cut_before p [] = []"
| "cut_before p (c # s) = (if take (length p) (c # s) = p then [] else c # cut_before p s)"

definition up_to_brace :: "string \<Rightarrow> string" where
  "up_to_brace s =
     (if CHR 0x7D \<in> set s then rev (dropWhile (\<lambda>c. c \<noteq> CHR 0x7D) (rev s)) else s)"

definition raw_output :: "string \<Rightarrow> string" where
  "raw_output text = up_to_brace (cut_before ''</think>'' (CHR 0x7B # text))"

lemma length_cut_before: "length (cut_before p s) \<le> length s"
  by (induction s) auto

lemma length_up_to_brace: "length (up_to_brace s) \<le> length s"
  by (simp add: up_to_brace_def length_dropWhile_le le_trans [OF length_dropWhile_le])

section \<open>The executor\<close>

definition verify_artifact :: "local_model \<Rightarrow> unit result" where
  "verify_artifact lm =
     (if \<not> lm_exists lm then Inl (ExecutorSecurityError ''ARTIFACT_MISSING'')
      else if truthy_str (lm_expected_sha lm) \<and> lm_expected_sha lm \<noteq> Some (lm_artifact_sha lm)
      then Inl (ExecutorSecurityError ''ARTIFACT_INTEGRITY_UNKNOWN'')
      else Inr ())"

text \<open>\<open>n > v\<close> for a limit that may be any value.\<close>

definition exceeds :: "int \<Rightarrow> json \<Rightarrow> bool result" where
  "exceeds n v =
     (case number_of v of
        Some x \<Rightarrow> Inr (of_int n > x)
      | None \<Rightarrow> Inl (TypeError (quoted ''>'' @ '' not supported between instances of '' @ quoted ''int'' @ '' and ''
                    @ quoted (py_class v))))"

definition local_memory :: "task \<Rightarrow> json" where
  "local_memory t = JObj [(''input'', JObj (tk_input t)), (''schema'', JStr ''document.classify'')]"

definition escaped_name :: "string \<Rightarrow> string" where
  "escaped_name s = [CHR 0x5C, CHR 0x22] @ s @ [CHR 0x5C, CHR 0x22]"

definition double_quoted :: "string \<Rightarrow> string" where
  "double_quoted s = CHR 0x22 # s @ [CHR 0x22]"

definition local_prompt :: "string \<Rightarrow> string" where
  "local_prompt text =
     ''<|im_start|>system'' @ [CHR 0x0A] @
     ''You are a strict classification AI. Output strictly valid JSON. Schema: {'' @ escaped_name ''class'' @ '': string, ''
     @ escaped_name ''confidence'' @ '': float, '' @ escaped_name ''reason_codes'' @ '': list[string]}. The ''
     @ escaped_name ''class'' @ '' MUST be one of: ['' @ double_quoted ''confidential'' @ '', '' @ double_quoted ''public''
     @ '', '' @ double_quoted ''internal'' @ '', '' @ double_quoted ''restricted'' @ ''].<|im_end|>'' @ [CHR 0x0A]
     @ ''<|im_start|>user'' @ [CHR 0x0A] @ ''Classify this document: '' @ text @ ''<|im_end|>'' @ [CHR 0x0A]
     @ ''<|im_start|>assistant'' @ [CHR 0x0A] @ ''{''"

record model_result =
  mo_status :: string
  mo_data :: json
  mo_evidence :: "(string \<times> json) list"

definition local_str :: "local_model \<Rightarrow> json \<Rightarrow> string" where
  "local_str lm v = (case v of JStr s \<Rightarrow> s | _ \<Rightarrow> lm_str lm v)"

definition judge_output :: "local_model \<Rightarrow> string \<Rightarrow> string \<times> json" where
  "judge_output lm raw =
     (case validate_document_classification lm raw of
        Inr v \<Rightarrow> (''SUCCEEDED'', v)
      | Inl m \<Rightarrow> (''MODEL_OUTPUT_INVALID'', JObj [(''error'', JStr m), (''raw'', JStr raw)]))"

definition local_evidence ::
  "local_model \<Rightarrow> task \<Rightarrow> string \<Rightarrow> int \<Rightarrow> int \<Rightarrow> json \<Rightarrow> (string \<times> json) list \<Rightarrow> (string \<times> json) list" where
  "local_evidence lm t raw generated read result sampling =
     [(''model_loaded_ms'', JInt (lm_load_ms lm)),
      (''first_token_latency_ms'', JInt (lm_inference_ms lm div max generated 1)),
      (''total_latency_ms'', JInt (lm_inference_ms lm)), (''input_size_bytes'', JInt (lm_json_len lm (local_memory t))),
      (''input_tokens'', JInt read), (''tokens_generated'', JInt generated),
      (''output_size_bytes'', JInt (int (length raw))), (''result_hash'', JStr (lm_hash lm result)),
      (''memory_peak_mb'', JFloat (lm_memory_mb lm)), (''cpu_usage_pct'', JFloat (lm_cpu lm)),
      (''sampling'', JObj sampling)]"

definition limit_of :: "task \<Rightarrow> string \<Rightarrow> json \<Rightarrow> json" where
  "limit_of t k d = jfield (tk_constraints t) k d"

definition max_context :: "task \<Rightarrow> json" where
  "max_context t = limit_of t ''max_context'' (JInt 32000)"

definition max_output :: "task \<Rightarrow> json" where
  "max_output t = limit_of t ''max_output'' (JInt 4000)"

text \<open>From the loaded model to the result.\<close>

definition infer :: "local_model \<Rightarrow> task \<Rightarrow> model_result result" where
  "infer lm t =
     (let temperature = limit_of t ''temperature'' (JFloat 0); top_p = limit_of t ''top_p'' (JFloat 1);
          max_tokens = limit_of t ''max_tokens'' (max_output t); seed = limit_of t ''seed'' (JInt 42)
      in and_then (lm_load lm (max_context t) seed) (\<lambda>_.
         and_then (lm_generate lm (local_prompt (local_str lm (jfield (tk_input t) ''text'' (JStr []))))
                     max_tokens temperature top_p seed) (\<lambda>(text, generated, read).
         and_then (exceeds (int (length (raw_output text))) (max_output t)) (\<lambda>over.
           if over then Inl (ExecutorLimitsExceeded ''Output exceeds max_output'')
           else let (status, result) = judge_output lm (raw_output text)
                in Inr \<lparr>mo_status = status, mo_data = result,
                     mo_evidence = local_evidence lm t (raw_output text) generated read result
                       [(''temperature'', temperature), (''top_p'', top_p), (''max_tokens'', max_tokens), (''seed'', seed),
                        (''context_size'', max_context t)]\<rparr>))))"

definition qwen_execute :: "local_model \<Rightarrow> task \<Rightarrow> capability_definition \<Rightarrow> model_result result" where
  "qwen_execute lm t c =
     and_then (verify_artifact lm) (\<lambda>_.
       if cap_network_policy c \<noteq> ''disabled''
       then Inl (ExecutorSecurityError ''Local model requires disabled network policy'')
       else and_then (exceeds (lm_json_len lm (local_memory t)) (max_context t)) (\<lambda>over.
         if over then Inl (ExecutorLimitsExceeded ''Input exceeds max_context'') else infer lm t))"

section \<open>In the worker\<close>

text \<open>\<open>start_worker\<close> builds the executor without an expected digest and reads the data and the hash of its result.\<close>

definition local_run :: "local_model \<Rightarrow> task \<Rightarrow> capability_definition \<Rightarrow> (json \<times> string option) result" where
  "local_run lm t c =
     and_then (qwen_execute (lm\<lparr>lm_expected_sha := None\<rparr>) t c) (\<lambda>r.
       Inr (mo_data r, case dict_get (mo_evidence r) ''result_hash'' of Some (JStr h) \<Rightarrow> Some h | _ \<Rightarrow> None))"

definition fits :: "int \<Rightarrow> json \<Rightarrow> bool" where
  "fits n v \<longleftrightarrow> (\<exists>x. number_of v = Some x \<and> of_int n \<le> x)"

lemma exceeds_fits: "exceeds n v = Inr False \<longleftrightarrow> fits n v"
  by (auto simp: exceeds_def fits_def split: option.splits)

definition output_error :: "json \<Rightarrow> bool" where
  "output_error v \<longleftrightarrow> (\<exists>m raw. v = JObj [(''error'', JStr m), (''raw'', JStr raw)])"

lemma judge_output_cases:
  "judge_output lm raw = (st, v) \<Longrightarrow>
     st = ''SUCCEEDED'' \<and> classification v \<or> st = ''MODEL_OUTPUT_INVALID'' \<and> output_error v \<and> \<not> classification v"
  by (auto simp: judge_output_def validator_exact output_error_def classification_def split: sum.splits)


lemma infer_result:
  assumes "infer lm t = Inr r"
  shows "\<exists>text g n. fits (int (length (raw_output text))) (max_output t) \<and>
     judge_output lm (raw_output text) = (mo_status r, mo_data r) \<and>
     dict_get (mo_evidence r) ''result_hash'' = Some (JStr (lm_hash lm (mo_data r))) \<and>
     lm_generate lm (local_prompt (local_str lm (jfield (tk_input t) ''text'' (JStr []))))
       (limit_of t ''max_tokens'' (max_output t)) (limit_of t ''temperature'' (JFloat 0)) (limit_of t ''top_p'' (JFloat 1))
       (limit_of t ''seed'' (JInt 42)) = Inr (text, g, n)"
  using assms
  by (auto simp: infer_def Let_def local_evidence_def exceeds_fits [symmetric] split: if_splits prod.splits)

lemma judge_output_digest [simp]: "judge_output (lm\<lparr>lm_expected_sha := x\<rparr>) raw = judge_output lm raw"
  by (simp add: judge_output_def validate_document_classification_def check_class_def cong del: sum.case_cong_weak
      json.case_cong_weak option.case_cong_weak if_weak_cong)

lemma local_run_result:
  assumes "local_run lm t c = Inr (v, h)"
  shows "lm_exists lm \<and> cap_network_policy c = ''disabled'' \<and> fits (lm_json_len lm (local_memory t)) (max_context t) \<and>
     (\<exists>text. fits (int (length (raw_output text))) (max_output t) \<and> snd (judge_output lm (raw_output text)) = v) \<and>
     (classification v \<or> output_error v) \<and> h = Some (lm_hash lm v)"
proof -
  let ?lm = "lm\<lparr>lm_expected_sha := None\<rparr>"
  obtain r where r: "qwen_execute ?lm t c = Inr r" "v = mo_data r"
      "h = (case dict_get (mo_evidence r) ''result_hash'' of Some (JStr h) \<Rightarrow> Some h | _ \<Rightarrow> None)"
    using assms by (auto simp: local_run_def)
  have pre: "lm_exists lm" "cap_network_policy c = ''disabled''"
      "exceeds (lm_json_len lm (local_memory t)) (max_context t) = Inr False" and inf: "infer ?lm t = Inr r"
    using r(1) by (auto simp: qwen_execute_def verify_artifact_def split: if_splits)
  obtain said where said: "fits (int (length (raw_output said))) (max_output t)"
      "judge_output ?lm (raw_output said) = (mo_status r, mo_data r)"
      "dict_get (mo_evidence r) ''result_hash'' = Some (JStr (lm_hash ?lm (mo_data r)))"
    using infer_result [OF inf] by blast
  have "classification v \<or> output_error v" using judge_output_cases [OF said(2)] r(2) by blast
  moreover have "h = Some (lm_hash lm v)" using r(2,3) said(3) by simp
  moreover have "snd (judge_output lm (raw_output said)) = v"
    using said(2) r(2) by simp
  ultimately show ?thesis using pre said(1) exceeds_fits by blast
qed

text \<open>C38. A worker that finishes with the local model had its artifact, a capability without network, an input within the
  context and an output within the limit; its result is what the validator made of that output, a classification or a report,
  its hash is the hash of that result, and the gateway and the outside are what they were.\<close>

theorem local_worker_contained:
  assumes "we_local env = Some (local_run lm)" and "wk_executor_type w = ''LOCAL_MODEL''"
    and "worker_body env w t c cx fe gw = (gw', cx', Finished_body)"
  shows "gw' = gw \<and> lm_exists lm \<and> cap_network_policy c = ''disabled'' \<and>
     fits (lm_json_len lm (local_memory t)) (max_context t) \<and>
     (\<exists>text v. fits (int (length (raw_output text))) (max_output t) \<and> snd (judge_output lm (raw_output text)) = v \<and>
        (classification v \<or> output_error v) \<and> tc_result cx' = Some v \<and> tc_result_hash cx' = Some (lm_hash lm v))"
proof -
  have body: "gw' = gw" "run_local env t c cx = (cx', Finished_body)"
    using assms(2,3) by (auto simp: worker_body_def split: if_splits prod.splits)
  obtain v h where v: "local_run lm t c = Inr (v, h)" "cx' = cx\<lparr>tc_status := E_SUCCEEDED, tc_result := Some v, tc_result_hash := h\<rparr>"
    using body(2) assms(1) by (auto simp: run_local_def split: sum.splits)
  show ?thesis using local_run_result [OF v(1)] v(2) body(1) by auto
qed

section \<open>A model that answers nonsense\<close>

text \<open>A codec that reads one good answer and nothing else.\<close>

definition good_output :: string where
  "good_output = CHR 0x7B # ''ok'' @ [CHR 0x7D]"

definition demo_codec :: "string \<Rightarrow> string + json" where
  "demo_codec s =
     (if s = good_output
      then Inr (JObj [(''class'', JStr ''public''), (''confidence'', JBool True), (''reason_codes'', JList [])])
      else Inl ''Expecting property name'')"

definition demo_local :: "string \<Rightarrow> local_model" where
  "demo_local answer =
     \<lparr>lm_exists = True, lm_artifact_sha = ''a'', lm_expected_sha = None, lm_json_len = \<lambda>_. 100, lm_str = \<lambda>_. [],
      lm_load = \<lambda>_ _. Inr (), lm_generate = \<lambda>_ _ _ _ _. Inr (answer, 5, 50), lm_loads = demo_codec, lm_hash = \<lambda>_. ''h'',
      lm_show_set = \<lambda>_. [], lm_load_ms = 10, lm_inference_ms = 20, lm_memory_mb = 0, lm_cpu = 0\<rparr>"

definition classify_task :: task where
  "classify_task = (demo_hash_task ''/srv/x'')\<lparr>tk_capability_id := ''document.classify'', tk_input := [(''text'', JStr ''memo'')],
     tk_constraints := []\<rparr>"

definition classify_capability :: capability_definition where
  "classify_capability = capability_of_row (hd (filter (\<lambda>(i, _). i = ''document.classify'') initial_rows))"

definition classify_worker :: worker_definition where
  "classify_worker = (snd (snd (create_worker ''1'' 0 demo_selection classify_task demo_task_context demo_manager)))
     \<lparr>wk_executor_type := ''LOCAL_MODEL''\<rparr>"

definition local_body :: "string \<Rightarrow> (mcp_gateway option \<times> nat) \<times> task_context \<times> body_outcome" where
  "local_body answer = worker_body (demo_env\<lparr>we_local := Some (local_run (demo_local answer))\<rparr>) classify_worker classify_task
     classify_capability demo_task_context None (None, 0)"

text \<open>A boolean passes for a confidence.\<close>

lemma boolean_confidence:
  "validate_document_classification (demo_local []) good_output =
     Inr (JObj [(''class'', JStr ''public''), (''confidence'', JBool True), (''reason_codes'', JList [])])"
  by (simp add: validator_exact classification_def demo_local_def demo_codec_def allowed_classes_def)

lemma local_body_eq:
  assumes "local_run (demo_local answer) classify_task classify_capability = Inr (v, h)"
  shows "local_body answer =
    ((None, 0), demo_task_context\<lparr>tc_status := E_SUCCEEDED, tc_result := Some v, tc_result_hash := h\<rparr>, Finished_body)"
proof -
  have "\<not> we_check demo_env > wk_deadline classify_worker" "wk_executor_type classify_worker = ''LOCAL_MODEL''"
    by (simp_all add: classify_worker_def create_worker_def Let_def demo_env_def demo_task_context_def)
  then show ?thesis using assms by (simp add: local_body_def worker_body_def run_local_def)
qed

text \<open>
  A worker whose model answers nonsense succeeds: \<open>start_worker\<close> does not look at the status of the result.
\<close>

lemma nonsense_result:
  "local_run (demo_local ''no'') classify_task classify_capability =
     Inr (JObj [(''error'', JStr ''Output is not valid JSON: Expecting property name''), (''raw'', JStr (CHR 0x7B # ''no''))], Some ''h'')"
  by code_simp

lemma invalid_output_succeeds:
  "\<exists>cx v. local_body ''no'' = ((None, 0), cx, Finished_body) \<and> tc_status cx = E_SUCCEEDED \<and> tc_result cx = Some v \<and>
     output_error v \<and> \<not> classification v"
  unfolding local_body_eq [OF nonsense_result] by (simp add: output_error_def classification_def)

text \<open>What stands before the closing tag is the reasoning; the answer after it is thrown away.\<close>

lemma reasoning_kept:
  "raw_output (''t'' @ ''</think>'' @ answer) = CHR 0x7B # ''t''"
  by (simp add: raw_output_def up_to_brace_def)

lemma good_result:
  "local_run (demo_local (tl good_output)) classify_task classify_capability =
     Inr (JObj [(''class'', JStr ''public''), (''confidence'', JBool True), (''reason_codes'', JList [])], Some ''h'')"
  by code_simp

lemma local_worker_contained_witness:
  "\<exists>cx v. local_body (tl good_output) = ((None, 0), cx, Finished_body) \<and> tc_result cx = Some v \<and>
     (classification v \<or> output_error v) \<and> tc_result_hash cx = Some (lm_hash (demo_local (tl good_output)) v)"
proof -
  obtain cx where cx: "local_body (tl good_output) = ((None, 0), cx, Finished_body)"
    using local_body_eq [OF good_result] by blast
  have "wk_executor_type classify_worker = ''LOCAL_MODEL''" by (simp add: classify_worker_def)
  from local_worker_contained [OF _ this cx [unfolded local_body_def]] cx show ?thesis by auto
qed

end
