(* ===== verification/Services.thy ===== *)
theory Services
  imports Processes Workspaces Mutation Evaluation
begin

text \<open>
  What stands on top of processes and workspaces: the shell executor (runtime/shell/executor.py), the git service
  (runtime/git/service.py), the built-in tools (runtime/tools/builtins.py) and the receipt store
  (runtime/execution/receipt.py). The workspace manager of the shell and the shell of the git service are
  arguments, as they are objects handed to a constructor; the ones this repository has are given beside them.
  Text is printable ASCII with tabs and line ends.
\<close>

section \<open>Classes of commands\<close>

datatype shell_effect = SE_READONLY | SE_WORKSPACE_MUTATING | SE_PROCESS_CONTROL | SE_REMOTE_MUTATION | SE_UNKNOWN

definition readonly_commands :: "string list" where
  "readonly_commands = [''ls'', ''cat'', ''grep'', ''find'', ''head'', ''tail'', ''wc'', ''diff'']"

definition mutating_commands :: "string list" where
  "mutating_commands = [''mkdir'', ''cp'', ''mv'', ''rm'', ''touch'', ''chmod'', ''sed'']"

definition process_commands :: "string list" where
  "process_commands = [''kill'', ''pkill'', ''killall'']"

definition first_word :: "string \<Rightarrow> string" where
  "first_word s = (case split_white [] s of [] \<Rightarrow> [] | w # _ \<Rightarrow> w)"

definition git_effect :: "string \<Rightarrow> shell_effect option" where
  "git_effect s =
     (case split_white [] s of
        _ # sub # _ \<Rightarrow>
          if sub \<in> {''status'', ''log'', ''diff''} then Some SE_READONLY
          else if sub \<in> {''push'', ''remote''} then Some SE_REMOTE_MUTATION
          else None
      | _ \<Rightarrow> None)"

definition classify_command :: "string \<Rightarrow> shell_effect" where
  "classify_command s =
     (if first_word s \<in> set readonly_commands then SE_READONLY
      else if first_word s \<in> set mutating_commands then SE_WORKSPACE_MUTATING
      else if first_word s \<in> set process_commands then SE_PROCESS_CONTROL
      else case (if first_word s = ''git'' then git_effect s else None) of
          Some x \<Rightarrow> x
        | None \<Rightarrow>
            if first_word s = ''echo'' \<and> CHR ''>'' \<in> set s then SE_WORKSPACE_MUTATING
            else if mentions s ''curl -X POST'' \<or> mentions s ''wget --post'' then SE_REMOTE_MUTATION
            else SE_UNKNOWN)"

primrec shell_capability :: "shell_effect \<Rightarrow> string option" where
  "shell_capability SE_READONLY = Some ''FILE_READ''"
| "shell_capability SE_WORKSPACE_MUTATING = Some ''FILE_WRITE''"
| "shell_capability SE_PROCESS_CONTROL = Some ''PROCESS_CONTROL''"
| "shell_capability SE_REMOTE_MUTATION = Some ''REMOTE_REPOSITORY_MUTATION''"
| "shell_capability SE_UNKNOWN = None"

section \<open>ShellExecutor\<close>

record shell_result =
  sh_exit_code :: int
  sh_stdout :: string
  sh_stderr :: string
  sh_duration_ms :: int

text \<open>What one call meets: the identifier of the process, the clock, \<open>Popen\<close> and \<open>communicate\<close>.\<close>

record shell_env =
  sv_process_id :: string
  sv_started :: instant
  sv_popen :: "process_call \<Rightarrow> int result"
  sv_failed :: instant
  sv_waited :: instant
  sv_outcome :: communicate
  sv_duration :: int

definition shell_result_of :: "int \<Rightarrow> process_record option \<Rightarrow> shell_result" where
  "shell_result_of ms r =
     \<lparr>sh_exit_code = (case Option.bind r pr_exit_code of Some n \<Rightarrow> n | None \<Rightarrow> - 1),
      sh_stdout = (case r of Some p \<Rightarrow> pr_stdout p | None \<Rightarrow> []),
      sh_stderr = (case r of Some p \<Rightarrow> pr_stderr p | None \<Rightarrow> []), sh_duration_ms = ms\<rparr>"

text \<open>The command runs in bash in the directory of the workspace, with the environment that was asked for.\<close>

definition shell_run ::
  "shell_env \<Rightarrow> execution_context \<Rightarrow> string \<Rightarrow> workspace \<Rightarrow> int \<Rightarrow> (string \<times> string) list option \<Rightarrow> process_manager
     \<Rightarrow> process_manager \<times> shell_result result" where
  "shell_run e ctx command ws timeout penv m =
     (case process_start (sv_process_id e) (sv_started e) (sv_popen e) (sv_failed e) ctx [''bash'', ''-c'', command]
             (ws_local_path ws) timeout penv m of
        Inl x \<Rightarrow> (m, Inl x)
      | Inr (m1, r) \<Rightarrow>
          (case process_wait (sv_waited e) (sv_outcome e) ctx (pr_process_id r) m1 of
             Inl x \<Rightarrow> (m1, Inl x)
           | Inr (m2, r2) \<Rightarrow> (m2, Inr (shell_result_of (sv_duration e) r2))))"

definition shell_execute ::
  "shell_env \<Rightarrow> (string \<Rightarrow> workspace option result) \<Rightarrow> execution_context \<Rightarrow> string \<Rightarrow> int
     \<Rightarrow> (string \<times> string) list option \<Rightarrow> process_manager \<Rightarrow> process_manager \<times> shell_result result" where
  "shell_execute e status ctx command timeout penv m =
     (case shell_capability (classify_command command) of
        None \<Rightarrow> (m, Inl (PermissionError ''Effect UNKNOWN: Action denied by default''))
      | Some cap \<Rightarrow>
          if \<not> has_capability ctx cap then (m, Inl (PermissionError (''Action requires capability '' @ cap)))
          else (case ctx_workspace_id ctx of
                  Some (c # wid) \<Rightarrow>
                    (case status (c # wid) of
                       Inl x \<Rightarrow> (m, Inl x)
                     | Inr None \<Rightarrow> (m, Inl (ValueError ''Workspace not found''))
                     | Inr (Some ws) \<Rightarrow> shell_run e ctx command ws timeout penv m)
                | _ \<Rightarrow> (m, Inl (ValueError ''Context must have a workspace_id''))))"

text \<open>\<open>WorkspaceManager.status\<close> wants the context first; the executor calls it with the identifier alone.\<close>

definition manager_status :: "string \<Rightarrow> workspace option result" where
  "manager_status wid =
     Inl (TypeError (''WorkspaceManager.status() missing 1 required positional argument: '' @ quoted ''workspace_id''))"

section \<open>What the shell may do\<close>

text \<open>
  Whatever manager it is given, a command is spawned at most once, as this command in bash, in the directory of the
  workspace the manager names, under the capability of its class and below the limit.
\<close>

lemma process_start_spawns:
  assumes "process_start pid now popen later ctx command path timeout penv m = Inr (m', r)"
  shows "has_capability ctx ''PROCESS_EXECUTION'' \<and> int (length (active_processes m)) < pm_max_concurrent m \<and>
     (pm_spawned m' = pm_spawned m \<or>
      (\<exists>h. pm_spawned m' = pm_spawned m @ [(\<lparr>pc_command = command, pc_cwd = path, pc_env = penv\<rparr>, h)]))"
  using assms
  by (auto simp: process_start_def enforce_limits_def raise_if_def put_process_def Let_def split: if_splits sum.splits)

lemma process_wait_spawns:
  assumes "process_wait now outcome ctx pid m = Inr (m', r)"
  shows "pm_spawned m' = pm_spawned m"
proof -
  obtain rec where v: "validate_ownership m ctx pid = Inr rec"
    using assms by (cases "validate_ownership m ctx pid") (simp_all add: process_wait_def)
  show ?thesis
  proof (cases "rec = None \<or> dict_get (pm_handles m) pid = None \<or> pr_state (the rec) \<noteq> P_RUNNING")
    case True
    then show ?thesis using assms v by (auto simp: process_wait_def split: option.splits)
  next
    case False
    then show ?thesis
      using assms v by (cases outcome) (auto simp: process_wait_def put_process_def Let_def)
  qed
qed

lemma shell_run_spawns:
  assumes "pm_spawned (fst (shell_run e ctx command ws timeout penv m)) \<noteq> pm_spawned m"
  shows "has_capability ctx ''PROCESS_EXECUTION'' \<and> int (length (active_processes m)) < pm_max_concurrent m \<and>
     (\<exists>h. pm_spawned (fst (shell_run e ctx command ws timeout penv m)) =
        pm_spawned m @ [(\<lparr>pc_command = [''bash'', ''-c'', command], pc_cwd = ws_local_path ws, pc_env = penv\<rparr>, h)])"
proof -
  obtain m1 r where start: "process_start (sv_process_id e) (sv_started e) (sv_popen e) (sv_failed e) ctx
      [''bash'', ''-c'', command] (ws_local_path ws) timeout penv m = Inr (m1, r)"
    using assms by (auto simp: shell_run_def split: sum.splits)
  have "pm_spawned (fst (shell_run e ctx command ws timeout penv m)) = pm_spawned m1"
    by (auto simp: shell_run_def start dest: process_wait_spawns split: sum.splits)
  then show ?thesis using process_start_spawns [OF start] assms by auto
qed

lemma shell_spawns:
  assumes "pm_spawned (fst (shell_execute e status ctx command timeout penv m)) \<noteq> pm_spawned m"
  shows "\<exists>cap wid ws h. shell_capability (classify_command command) = Some cap \<and> has_capability ctx cap \<and>
     has_capability ctx ''PROCESS_EXECUTION'' \<and> int (length (active_processes m)) < pm_max_concurrent m \<and>
     ctx_workspace_id ctx = Some wid \<and> wid \<noteq> [] \<and> status wid = Inr (Some ws) \<and>
     pm_spawned (fst (shell_execute e status ctx command timeout penv m)) =
       pm_spawned m @ [(\<lparr>pc_command = [''bash'', ''-c'', command], pc_cwd = ws_local_path ws, pc_env = penv\<rparr>, h)]"
proof -
  obtain cap c wid ws where pre: "shell_capability (classify_command command) = Some cap" "has_capability ctx cap"
      "ctx_workspace_id ctx = Some (c # wid)" "status (c # wid) = Inr (Some ws)"
    using assms by (auto simp: shell_execute_def split: option.splits if_splits list.splits sum.splits)
  then have "shell_execute e status ctx command timeout penv m = shell_run e ctx command ws timeout penv m"
    by (simp add: shell_execute_def)
  then show ?thesis using pre assms shell_run_spawns [of e ctx command ws timeout penv m] by auto
qed

text \<open>With the workspace manager of this repository no command is ever run.\<close>

lemma shell_never_runs:
  "fst (shell_execute e manager_status ctx command timeout penv m) = m \<and>
   (\<exists>x. snd (shell_execute e manager_status ctx command timeout penv m) = Inl x)"
  by (auto simp: shell_execute_def manager_status_def split: option.splits list.splits)

text \<open>Only the first word counts: what follows it may be any program.\<close>

lemma first_word_space: "w \<noteq> [] \<Longrightarrow> \<not> list_ex white w \<Longrightarrow> first_word (w @ '' '' @ rest) = w"
proof -
  assume w: "w \<noteq> []" "\<not> list_ex white w"
  have "split_white acc (w @ CHR '' '' # rest) = (acc @ w) # split_white [] rest" if "acc @ w \<noteq> []" for acc
    using w(2) that
  proof (induction w arbitrary: acc)
    case Nil
    then show ?case by (simp add: white_def)
  qed simp
  from this [of "[]"] w(1) show ?thesis by (simp add: first_word_def)
qed

lemma readonly_by_first_word:
  "c \<in> set readonly_commands \<Longrightarrow> classify_command (c @ '' '' @ rest) = SE_READONLY"
proof -
  assume c: "c \<in> set readonly_commands"
  then have "c \<noteq> []" "\<not> list_ex white c" by (auto simp: readonly_commands_def white_def)
  from first_word_space [OF this] c show ?thesis by (simp add: classify_command_def)
qed

lemma removal_is_readonly:
  "classify_command ''find . -delete'' = SE_READONLY \<and> classify_command ''ls ; rm -rf x'' = SE_READONLY"
  by code_simp

section \<open>GitService\<close>

text \<open>\<open>repr\<close> of a string.\<close>

definition repr_char :: "char \<Rightarrow> char \<Rightarrow> string" where
  "repr_char q c =
     (if c = q \<or> c = CHR 0x5C then [CHR 0x5C, c]
      else if c = CHR 0x0A then [CHR 0x5C, CHR ''n'']
      else if c = CHR 0x09 then [CHR 0x5C, CHR ''t'']
      else if c = CHR 0x0D then [CHR 0x5C, CHR ''r'']
      else [c])"

definition py_repr :: "string \<Rightarrow> string" where
  "py_repr s =
     (let q = (if CHR 0x27 \<in> set s \<and> CHR 0x22 \<notin> set s then CHR 0x22 else CHR 0x27)
      in q # concat (map (repr_char q) s) @ [q])"

text \<open>
  What the service uses of the object it gets as its shell executor: the attribute \<open>capability_gate\<close>, if it has
  one, the generation of its process manager, and \<open>execute\<close>, which gets these keywords and may change the outside
  and the log. The class \<open>ShellExecutor\<close> has neither that attribute nor that signature of \<open>execute\<close>.
\<close>

record shell_call =
  gx_command :: string
  gx_workspace :: string
  gx_session :: string
  gx_actor :: string
  gx_tenant :: string

record 'w git_state =
  gs_world :: 'w
  gs_engine :: continuity_engine

record 'w shell_port =
  gp_gate :: "capability_gate option"
  gp_generation :: int
  gp_execute :: "shell_call \<Rightarrow> 'w git_state \<Rightarrow> 'w git_state \<times> shell_result result"

record git_caller =
  gc_workspace :: string
  gc_session :: string
  gc_actor :: string
  gc_tenant :: string

fun follow :: "'s \<times> 'a result \<Rightarrow> ('a \<Rightarrow> 's \<Rightarrow> 's \<times> 'b result) \<Rightarrow> 's \<times> 'b result" where
  "follow (s, Inl e) f = (s, Inl e)"
| "follow (s, Inr x) f = f x s"

definition git_allowed :: "'w shell_port \<Rightarrow> git_caller \<Rightarrow> capability \<Rightarrow> unit result" where
  "git_allowed p c cap =
     (case gp_gate p of
        None \<Rightarrow> Inl (no_attribute ''ShellExecutor'' ''capability_gate'')
      | Some g \<Rightarrow>
          (let d = gate_check g (gc_session c) (gc_actor c) cap (gc_workspace c) (gp_generation p) (gp_generation p)
           in if allowed d then Inr () else Inl (PermissionError (capability_name cap @ '' denied: '' @ dec_reason d))))"

definition run_git :: "'w shell_port \<Rightarrow> git_caller \<Rightarrow> string \<Rightarrow> 'w git_state \<Rightarrow> 'w git_state \<times> shell_result result" where
  "run_git p c cmd st =
     gp_execute p \<lparr>gx_command = cmd, gx_workspace = gc_workspace c, gx_session = gc_session c, gx_actor = gc_actor c,
       gx_tenant = gc_tenant c\<rparr> st"

definition git_status :: "'w shell_port \<Rightarrow> git_caller \<Rightarrow> 'w git_state \<Rightarrow> 'w git_state \<times> string result" where
  "git_status p c st =
     follow (st, git_allowed p c GIT_READ) (\<lambda>_ st.
     follow (run_git p c ''git status --porcelain'' st) (\<lambda>r st. (st, Inr (strip (sh_stdout r)))))"

definition git_diff :: "'w shell_port \<Rightarrow> git_caller \<Rightarrow> string option \<Rightarrow> 'w git_state \<Rightarrow> 'w git_state \<times> string result" where
  "git_diff p c ref st =
     follow (st, git_allowed p c GIT_READ) (\<lambda>_ st.
     follow (run_git p c (case ref of Some (x # xs) \<Rightarrow> ''git diff '' @ x # xs | _ \<Rightarrow> ''git diff'') st) (\<lambda>r st.
       (st, Inr (sh_stdout r))))"

definition head_command :: string where
  "head_command = ''git rev-parse HEAD || echo '' @ quoted []"

definition changed_command :: string where
  "changed_command = ''git diff --name-only --cached || git diff --name-only''"

definition commit_command :: "string \<Rightarrow> string option \<Rightarrow> string" where
  "commit_command message author =
     ''git add -A && git commit -m '' @ py_repr message @
     (case author of Some (a # as) \<Rightarrow> '' --author='' @ py_repr (a # as) | _ \<Rightarrow> [])"

definition last_commit_command :: string where
  "last_commit_command = ''git log -1 --format='' @ quoted ''%H%n%an%n%s''"

text \<open>
  Identifiers and time stamps of the two phases, the time of the answer, and, where writing or flushing the log raises
  in one of them, the exception and what it leaves of the engine.
\<close>

record commit_env =
  ev_prepared :: string
  ev_finalized :: string
  ev_mutated :: string
  ev_time :: string
  ev_later :: string
  ev_clock :: string
  ev_prepare_error :: "(exn \<times> continuity_engine) option"
  ev_finalize_error :: "(exn \<times> continuity_engine) option"

definition logged ::
  "(exn \<times> continuity_engine) option \<Rightarrow> (continuity_engine \<times> 'a) result \<Rightarrow> 'w git_state \<Rightarrow> 'w git_state \<times> 'a result" where
  "logged failure outcome st =
     (case outcome of
        Inl x \<Rightarrow> (st, Inl x)
      | Inr (g, a) \<Rightarrow>
          (case failure of
             Some (x, g') \<Rightarrow> (st\<lparr>gs_engine := g'\<rparr>, Inl x)
           | None \<Rightarrow> (st\<lparr>gs_engine := g\<rparr>, Inr a)))"

definition prepare_step ::
  "commit_env \<Rightarrow> mutation_request \<Rightarrow> 'w git_state \<Rightarrow> 'w git_state \<times> event_record result" where
  "prepare_step e q st =
     logged (ev_prepare_error e) (prepare_mutation (ev_prepared e) (ev_time e) q (gs_engine st)) st"

definition finalize_step ::
  "commit_env \<Rightarrow> event_record \<Rightarrow> string \<Rightarrow> string list \<Rightarrow> string list \<Rightarrow> string list \<Rightarrow> 'w git_state
     \<Rightarrow> 'w git_state \<times> event_record result" where
  "finalize_step e pe after files tests evidence st =
     logged (ev_finalize_error e)
       (finalize_mutation (ev_finalized e) (ev_mutated e) (ev_later e) pe after files tests evidence (gs_engine st)) st"

definition commit_answer :: "commit_env \<Rightarrow> string list \<Rightarrow> (string \<times> string) list" where
  "commit_answer e lines =
     [(''commit_sha'', hd lines), (''author'', if length lines > 1 then lines ! 1 else []),
      (''message'', if length lines > 2 then lines ! 2 else []), (''timestamp'', ev_clock e)]"

definition record_commit ::
  "'w shell_port \<Rightarrow> git_caller \<Rightarrow> commit_env \<Rightarrow> event_record \<Rightarrow> string list \<Rightarrow> string list \<Rightarrow> string list \<Rightarrow> 'w git_state
     \<Rightarrow> 'w git_state \<times> (string \<times> string) list result" where
  "record_commit p c e pe files tests evidence st =
     follow (run_git p c last_commit_command st) (\<lambda>r st.
       let lines = split_newline (strip (sh_stdout r))
       in follow (finalize_step e pe (hd lines) files tests evidence st) (\<lambda>_ st. (st, Inr (commit_answer e lines))))"

definition git_commit ::
  "'w shell_port \<Rightarrow> git_caller \<Rightarrow> commit_env \<Rightarrow> mutation_request \<Rightarrow> string \<Rightarrow> string option \<Rightarrow> string list \<Rightarrow> string list
     \<Rightarrow> 'w git_state \<Rightarrow> 'w git_state \<times> (string \<times> string) list result" where
  "git_commit p c e q message author tests evidence st =
     follow (st, git_allowed p c GIT_WRITE) (\<lambda>_ st.
     follow (run_git p c head_command st) (\<lambda>before st.
     follow (prepare_step e (q\<lparr>mq_actor_id := gc_actor c, mq_commit_before := strip (sh_stdout before)\<rparr>) st) (\<lambda>pe st.
     follow (run_git p c changed_command st) (\<lambda>changed st.
     follow (run_git p c (commit_command message author) st) (\<lambda>_ st.
       record_commit p c e pe (filter (\<lambda>f. f \<noteq> []) (splitlines (sh_stdout changed))) tests evidence st)))))"

section \<open>What becomes of a commit\<close>

text \<open>A shell whose every command fails with exit code 1 and prints nothing.\<close>

definition failing_shell :: "unit shell_port" where
  "failing_shell =
     \<lparr>gp_gate = Some (gate_grant gate_init ''kira'' GIT_WRITE ''ws1''), gp_generation = 1,
      gp_execute = \<lambda>call st. (st, Inr \<lparr>sh_exit_code = 1, sh_stdout = [], sh_stderr = ''fatal'', sh_duration_ms = 1\<rparr>)\<rparr>"

definition demo_caller :: git_caller where
  "demo_caller = \<lparr>gc_workspace = ''ws1'', gc_session = ''s'', gc_actor = ''kira'', gc_tenant = ''t1''\<rparr>"

definition demo_commit_env :: commit_env where
  "demo_commit_env =
     \<lparr>ev_prepared = ''e1'', ev_finalized = ''e2'', ev_mutated = ''e3'', ev_time = ''t1'', ev_later = ''t2'', ev_clock = ''1.0'',
      ev_prepare_error = None, ev_finalize_error = None\<rparr>"

definition demo_mutation :: mutation_request where
  "demo_mutation =
     \<lparr>mq_mission_id = ''M-1'', mq_task_id = ''T-1'', mq_step_id = ''S-1'', mq_actor_id = [], mq_actor_level = ''L0'',
      mq_repository = ''/repo'', mq_branch = ''main'', mq_commit_before = [], mq_reason = ''why'', mq_action = ''edit'',
      mq_next_action = ''push'', mq_execution_id = None\<rparr>"

definition demo_git_state :: "unit git_state" where
  "demo_git_state = \<lparr>gs_world = (), gs_engine = demo_engine\<rparr>"

definition demo_commit :: "unit git_state \<times> (string \<times> string) list result" where
  "demo_commit = git_commit failing_shell demo_caller demo_commit_env demo_mutation ''fix'' None [] [] demo_git_state"

text \<open>The exit code of the commit is not looked at: a commit that failed is finalized as a success.\<close>

lemma failed_commit_finalized:
  "snd demo_commit = Inr [(''commit_sha'', []), (''author'', []), (''message'', []), (''timestamp'', ''1.0'')] \<and>
   map er_result (ce_events (gs_engine (fst demo_commit))) = [''PREPARED'', ''SUCCESS'', ''SUCCESS'']"
  by (simp add: demo_commit_def demo_commit_env_def demo_mutation_def demo_git_state_def git_commit_def git_allowed_def failing_shell_def demo_caller_def gate_defs run_git_def
      prepare_step_def logged_def prepare_mutation_def demo_step_records record_commit_def finalize_step_def finalize_mutation_def
      demo_engine_records step_records_def records_by_mission_def append_event_def number_event_def
      save_record_def put_record_def prepared_record_def finalized_record_def prepared_event_def
      outcome_event_def record_create_def demo_engine_events strip_def commit_answer_def Let_def)

text \<open>The shell executor of this repository has no gate: every operation raises before it does anything.\<close>

lemma git_service_raises:
  assumes "gp_gate p = None"
  shows "git_status p c st = (st, Inl (no_attribute ''ShellExecutor'' ''capability_gate''))"
    and "git_diff p c ref st = (st, Inl (no_attribute ''ShellExecutor'' ''capability_gate''))"
    and "git_commit p c e q message author tests evidence st = (st, Inl (no_attribute ''ShellExecutor'' ''capability_gate''))"
  using assms by (simp_all add: git_status_def git_diff_def git_commit_def git_allowed_def)

text \<open>The classifier denies the commands of a commit in any case.\<close>

lemma commit_commands_unknown:
  "classify_command head_command = SE_UNKNOWN \<and> classify_command (commit_command ''fix'' None) = SE_UNKNOWN"
  by code_simp

text \<open>\<open>repr\<close> quotes for Python, not for bash: an apostrophe turns the quotes into double ones, in which bash expands.\<close>

lemma message_expanded:
  "py_repr (''it'' @ [CHR 0x27] @ ''s $(id)'') = [CHR 0x22] @ ''it'' @ [CHR 0x27] @ ''s $(id)'' @ [CHR 0x22]"
  by code_simp

section \<open>Built-in tools\<close>

definition builtin_manifest ::
  "string \<Rightarrow> string list \<Rightarrow> (string \<times> string) list \<Rightarrow> capability list \<Rightarrow> string list \<Rightarrow> bool \<Rightarrow> tool_manifest" where
  "builtin_manifest name ins outs caps effects workspace =
     \<lparr>tm_name = name, tm_version = ''1.0'', tm_input_schema = JObj (map (\<lambda>k. (k, JStr ''str'')) ins),
      tm_output_schema = JObj (map (\<lambda>(k, t). (k, JStr t)) outs), tm_required_capabilities = caps,
      tm_side_effects = effects, tm_execution_domain = ''LOCAL'', tm_workspace_required = workspace,
      tm_network_required = False\<rparr>"

definition builtin_manifests :: "tool_manifest list" where
  "builtin_manifests =
     [builtin_manifest ''workspace.create'' [''repository'', ''source_revision''] [(''workspace_id'', ''str'')]
        [WORKSPACE_CREATE] [''Creates local directory''] False,
      builtin_manifest ''workspace.status'' [''workspace_id''] [(''status'', ''dict'')] [] [] True,
      builtin_manifest ''fs.read'' [''path''] [(''content'', ''str'')] [FILE_READ] [] True,
      builtin_manifest ''fs.write'' [''path'', ''content''] [(''success'', ''bool'')] [FILE_WRITE] [''Modifies file''] True,
      builtin_manifest ''fs.patch'' [''path'', ''search'', ''replace''] [(''success'', ''bool'')] [FILE_READ, FILE_WRITE]
        [''Modifies file''] True,
      builtin_manifest ''shell.exec'' [''command''] [(''exit_code'', ''int''), (''stdout'', ''str''), (''stderr'', ''str'')]
        [PROCESS_EXECUTION] [''Executes arbitrary commands''] True,
      builtin_manifest ''git.status'' [] [(''status'', ''dict'')] [GIT_READ] [] True,
      builtin_manifest ''git.diff'' [''ref''] [(''diff'', ''str'')] [GIT_READ] [] True,
      builtin_manifest ''git.commit'' [''message''] [(''commit_sha'', ''str'')] [GIT_WRITE] [''Creates a commit''] True]"

text \<open>
  A handler is a lambda of \<open>ctx\<close> and \<open>args\<close>; through the orchestrator both come from the request and are JSON
  values, which have none of the attributes the lambdas read. The manager's \<open>status\<close> wants a context.
\<close>

definition builtin_error :: "string \<Rightarrow> json \<Rightarrow> json \<Rightarrow> exn" where
  "builtin_error name ctx args =
     (if name = ''workspace.create'' then no_attribute (py_class ctx) ''tenant_id''
      else if name = ''workspace.status''
      then (case item_of args ''workspace_id'' of
              Inl x \<Rightarrow> x
            | Inr _ \<Rightarrow> TypeError (''WorkspaceManager.status() missing 1 required positional argument: '' @ quoted ''workspace_id''))
      else if name = ''shell.exec''
      then (case item_of args ''command'' of Inl x \<Rightarrow> x | Inr _ \<Rightarrow> no_attribute (py_class ctx) ''workspace_id'')
      else no_attribute (py_class ctx) ''workspace_id'')"

definition builtin_lambda :: string where
  "builtin_lambda = ''register_builtins.<locals>.<lambda>()''"

definition builtin_handler :: "string \<Rightarrow> (string, json) dict \<Rightarrow> json result" where
  "builtin_handler name kw =
     (case find (\<lambda>k. k \<noteq> ''ctx'' \<and> k \<noteq> ''args'') (dict_keys kw) of
        Some k \<Rightarrow> Inl (TypeError (builtin_lambda @ '' got an unexpected keyword argument '' @ quoted k))
      | None \<Rightarrow>
          (case (dict_get kw ''ctx'', dict_get kw ''args'') of
             (Some ctx, Some args) \<Rightarrow> Inl (builtin_error name ctx args)
           | (None, None) \<Rightarrow> Inl (TypeError (builtin_lambda @ '' missing 2 required positional arguments: ''
                               @ quoted ''ctx'' @ '' and '' @ quoted ''args''))
           | (None, Some _) \<Rightarrow> Inl (TypeError (builtin_lambda @ '' missing 1 required positional argument: '' @ quoted ''ctx''))
           | (Some _, None) \<Rightarrow> Inl (TypeError (builtin_lambda @ '' missing 1 required positional argument: '' @ quoted ''args''))))"

definition register_builtins ::
  "((string, json) dict \<Rightarrow> json result) tool_registry \<Rightarrow> ((string, json) dict \<Rightarrow> json result) tool_registry" where
  "register_builtins r = foldl (\<lambda>r m. tools_register r (m, builtin_handler (tm_name m))) r builtin_manifests"

lemma builtin_handler_raises: "\<exists>x. builtin_handler name kw = Inl x"
  by (auto simp: builtin_handler_def split: option.splits)

lemma registered_builtins:
  "tools_get (register_builtins tools_init) name = Some (m, h) \<Longrightarrow> m \<in> set builtin_manifests \<and> h = builtin_handler (tm_name m)"
proof -
  have "\<forall>m h. tools_get (foldl (\<lambda>r m. tools_register r (m, builtin_handler (tm_name m))) r ms) name = Some (m, h) \<longrightarrow>
      tools_get r name = Some (m, h) \<or> m \<in> set ms \<and> h = builtin_handler (tm_name m)" for r ms
    by (induction ms arbitrary: r) (fastforce simp: tools_defs split: if_splits)+
  from this [of tools_init builtin_manifests]
  show "tools_get (register_builtins tools_init) name = Some (m, h) \<Longrightarrow> m \<in> set builtin_manifests \<and> h = builtin_handler (tm_name m)"
    by (auto simp: register_builtins_def tools_defs)
qed

text \<open>The built-in tools are nine under nine names, none needs the network, and every one whose manifest names a side effect
  requires a capability; but called by the orchestrator, whatever is granted and whatever the request says, none ever
  succeeds.\<close>

theorem builtins_never_succeed:
  assumes "eo_tool_registry eo = register_builtins tools_init"
  shows "\<not> ir_success (orchestrator_execute eo iv t0 t1) \<and> ir_data (orchestrator_execute eo iv t0 t1) = None \<and>
     map tm_name (tools_list (eo_tool_registry eo)) = map tm_name builtin_manifests \<and>
     list_all (\<lambda>m. \<not> tm_network_required m \<and> (tm_side_effects m = [] \<or> tm_required_capabilities m \<noteq> []))
       (tools_list (eo_tool_registry eo))"
proof -
  have listed: "tools_list (register_builtins tools_init) = builtin_manifests"
    by (simp add: register_builtins_def builtin_manifests_def builtin_manifest_def tools_defs)
  have "list_all (\<lambda>m. \<not> tm_network_required m \<and> (tm_side_effects m = [] \<or> tm_required_capabilities m \<noteq> [])) builtin_manifests"
    by (simp add: builtin_manifests_def builtin_manifest_def)
  moreover have "\<not> ir_success (orchestrator_execute eo iv t0 t1) \<and> ir_data (orchestrator_execute eo iv t0 t1) = None"
  proof (cases "tools_get (eo_tool_registry eo) (ti_name iv)")
    case None
    then show ?thesis by (simp add: orchestrator_execute_def denied_def)
  next
    case (Some mh)
    obtain m h where mh: "mh = (m, h)" by fastforce
    then have "h = builtin_handler (tm_name m)" using Some assms registered_builtins by simp
    then obtain x where "h (ti_args iv) = Inl x" using builtin_handler_raises by blast
    then show ?thesis using Some mh by (simp add: orchestrator_execute_def denied_def)
  qed
  ultimately show ?thesis using assms listed by simp
qed

lemma builtins_never_succeed_witness:
  "\<not> ir_success (orchestrator_execute
     \<lparr>eo_tool_registry = register_builtins tools_init, eo_gate = gate_grant gate_init ''anny'' FILE_READ ''ws1'',
      eo_session_validate = None, eo_process_generation = 1, eo_generation = 1\<rparr> demo_invocation 0 5000)"
  using builtins_never_succeed [of "\<lparr>eo_tool_registry = register_builtins tools_init, eo_gate = gate_grant gate_init ''anny'' FILE_READ ''ws1'',
      eo_session_validate = None, eo_process_generation = 1, eo_generation = 1\<rparr>"] by simp

section \<open>Receipts\<close>

record execution_receipt =
  rc_receipt_id :: string
  rc_operation_id :: string
  rc_execution_id :: string
  rc_runtime_id :: string
  rc_workspace_id :: string
  rc_actor_id :: string
  rc_session_id :: string
  rc_tenant_id :: string
  rc_tool :: string
  rc_status :: string
  rc_started_at :: string
  rc_finished_at :: string
  rc_generation :: int
  rc_duration_ms :: int
  rc_exit_code :: "int option"
  rc_metadata :: "(string \<times> json) list"

text \<open>
  The directories of the dates in the order the file system lists them, each with its files; a file holds the fields
  of one receipt. Identifiers and dates are plain names.
\<close>

type_synonym receipt_dirs = "(string, (string, execution_receipt) dict) dict"

definition receipt_date :: "execution_receipt \<Rightarrow> string" where
  "receipt_date r = (if length (rc_started_at r) \<ge> 10 then take 10 (rc_started_at r) else ''unknown'')"

definition receipts_of :: "receipt_dirs \<Rightarrow> string \<Rightarrow> (string, execution_receipt) dict" where
  "receipts_of ds d = (case dict_get ds d of Some fs \<Rightarrow> fs | None \<Rightarrow> [])"

definition store_receipt :: "execution_receipt \<Rightarrow> receipt_dirs \<Rightarrow> receipt_dirs" where
  "store_receipt r ds =
     dict_set ds (receipt_date r) (dict_set (receipts_of ds (receipt_date r)) (rc_receipt_id r) r)"

fun get_receipt :: "string \<Rightarrow> receipt_dirs \<Rightarrow> execution_receipt option" where
  "get_receipt i [] = None"
| "get_receipt i ((d, fs) # ds) = (case dict_get fs i of Some r \<Rightarrow> Some r | None \<Rightarrow> get_receipt i ds)"

definition list_receipts :: "string option \<Rightarrow> string option \<Rightarrow> receipt_dirs \<Rightarrow> execution_receipt list" where
  "list_receipts operation date ds =
     filter (\<lambda>r. operation = None \<or> Some (rc_operation_id r) = operation)
       (concat (map dict_values (case date of Some (c # d) \<Rightarrow> [receipts_of ds (c # d)] | _ \<Rightarrow> dict_values ds)))"

lemma get_receipt_skip: "(\<And>d fs. (d, fs) \<in> set ds \<Longrightarrow> dict_get fs i = None) \<Longrightarrow> get_receipt i ds = None"
  by (induction i ds rule: get_receipt.induct) (auto split: option.splits)

text \<open>A receipt is read back unless another day has one of the same identifier.\<close>

lemma receipt_read_back:
  assumes "\<And>d fs. (d, fs) \<in> set ds \<Longrightarrow> d \<noteq> receipt_date r \<Longrightarrow> dict_get fs (rc_receipt_id r) = None"
  shows "get_receipt (rc_receipt_id r) (store_receipt r ds) = Some r"
proof -
  define fs where "fs = dict_set (receipts_of ds (receipt_date r)) (rc_receipt_id r) r"
  have "get_receipt (rc_receipt_id r) (dict_set es (receipt_date r) fs) = Some r"
    if "\<And>d fs. (d, fs) \<in> set es \<Longrightarrow> d \<noteq> receipt_date r \<Longrightarrow> dict_get fs (rc_receipt_id r) = None" for es
    using that
  proof (induction es)
    case (Cons e es)
    obtain d gs where e: "e = (d, gs)" by fastforce
    then have "d = receipt_date r \<or> dict_get gs (rc_receipt_id r) = None"
      by (cases "d = receipt_date r") (use Cons.prems [of d gs] e in auto)
    moreover have "get_receipt (rc_receipt_id r) (dict_set es (receipt_date r) fs) = Some r"
      by (rule Cons.IH) (use Cons.prems in auto)
    ultimately show ?case by (auto simp: e fs_def)
  qed (simp add: fs_def)
  from this [OF assms] show ?thesis by (simp add: store_receipt_def fs_def)
qed

text \<open>One of the same identifier on a day listed before hides it.\<close>

lemma receipt_hidden:
  assumes "receipt_date q \<noteq> receipt_date r" and "rc_receipt_id q = rc_receipt_id r"
  shows "get_receipt (rc_receipt_id r) (store_receipt r (store_receipt q [])) = Some q"
  using assms by (simp add: store_receipt_def receipts_of_def)

end
