(* ===== verification/Panel.thy ===== *)
theory Panel
  imports Admin Github Engine
begin

text \<open>
  The admin panel behind its router (runtime/admin/routes.py): the handlers that change the GitHub authorization, the
  configuration, the engine or the audit log (runtime/admin/audit.py), the handlers that answer JSON, and the context all
  requests share (runtime/admin/server.py). GitHub, the engine's surroundings, clocks and the codec of the
  configuration are arguments of a request; a page is its name and what is put into it.
\<close>

section \<open>The audit log\<close>

record audit_entry =
  au_session :: string
  au_action :: string
  au_timestamp :: string
  au_runtime :: string
  au_principal :: string
  au_result :: string
  au_details :: "string option"

text \<open>\<open>lines[-count:]\<close>: all of them for 0; a damaged line ends the reading, and what was read is kept.\<close>

definition last_lines :: "int \<Rightarrow> 'a list \<Rightarrow> 'a list" where
  "last_lines n ls =
     (if n = 0 then ls else if n > 0 then drop (length ls - nat n) ls else drop (nat (- n)) ls)"

fun read_entries :: "'a line list \<Rightarrow> 'a list" where
  "read_entries [] = []"
| "read_entries (Blank # ls) = read_entries ls"
| "read_entries (Parsed x # ls) = x # read_entries ls"
| "read_entries (Garbled # ls) = []"

definition read_recent :: "int \<Rightarrow> audit_entry jsonl \<Rightarrow> audit_entry list" where
  "read_recent n f = read_entries (last_lines n (jl_read f))"

section \<open>The panel\<close>

text \<open>
  \<open>pn_threads\<close> are the verifications that were started and have not run yet, with their clients; \<open>pn_snapshot\<close> is the
  report and the repositories of the last discovery.
\<close>

record panel =
  pn_sessions :: admin_auth
  pn_github :: "github_manager option"
  pn_engine :: "engine option"
  pn_config_file :: config_file
  pn_audit :: "audit_entry jsonl option"
  pn_snapshot :: "(bootstrap_report option \<times> discovered_repository list) option"
  pn_threads :: "(rest_client option \<times> fabric_adapter option) list"

record panel_env =
  pe_github :: github_env
  pe_now :: instant
  pe_user :: "user_answer http_answer"
  pe_device :: "device_answer http_answer"
  pe_token :: "token_answer http_answer"
  pe_repositories :: "discovered_repository list result"
  pe_world :: boot_world
  pe_port :: "string option"
  pe_client :: rest_client
  pe_fabric :: "fabric_adapter option"
  pe_issue :: issue
  pe_audit_time :: string
  pe_audit_writes :: bool
  pe_yaml :: yaml
  pe_save :: "(exn \<times> config_file) option"

text \<open>
  The handlers read the session from a context that all requests share while each has a thread of its own (section on the
  shared context below). What it holds at the first and at the second reading of a handler is given: alone it is the
  context of the request, else whatever other requests have made of it. \<open>vw_left\<close> is the snapshot the context holds
  after the request where another one interfered, \<open>None\<close> where none did. The handlers take effect one at a time.
\<close>

type_synonym snapshot = "(bootstrap_report option \<times> discovered_repository list) option"

record views =
  vw_first :: admin_context
  vw_second :: admin_context
  vw_left :: "snapshot option"

definition own_views :: "admin_context \<Rightarrow> views" where
  "own_views cx = \<lparr>vw_first = cx, vw_second = cx, vw_left = None\<rparr>"

datatype panel_reply = Redirect_to string | Json_reply json | Page_reply string "string list"

definition audit_entry_of ::
  "panel_env \<Rightarrow> panel \<Rightarrow> admin_session \<Rightarrow> string \<Rightarrow> string \<Rightarrow> string option \<Rightarrow> audit_entry" where
  "audit_entry_of env p s action outcome details =
     \<lparr>au_session = ad_session_id s, au_action = action, au_timestamp = pe_audit_time env,
      au_runtime = am_runtime_id (pn_sessions p), au_principal = ad_principal s, au_result = outcome, au_details = details\<rparr>"

text \<open>Without a session or a log nothing is recorded; a write that fails is swallowed.\<close>

definition audit ::
  "panel_env \<Rightarrow> admin_context \<Rightarrow> string \<Rightarrow> string \<Rightarrow> string option \<Rightarrow> panel \<Rightarrow> panel" where
  "audit env cx action outcome details p =
     (case (ax_session cx, pn_audit p) of
        (Some s, Some f) \<Rightarrow>
          if pe_audit_writes env then p\<lparr>pn_audit := Some (jl_append (audit_entry_of env p s action outcome details) f)\<rparr> else p
      | _ \<Rightarrow> p)"

definition get_fabric_client :: "panel_env \<Rightarrow> panel \<Rightarrow> fabric_adapter option result" where
  "get_fabric_client env p =
     (case pn_github p of
        None \<Rightarrow> Inr None
      | Some g \<Rightarrow> and_then (has_token g) (\<lambda>b. Inr (if b then pe_fabric env else None)))"

definition start_engine ::
  "panel_env \<Rightarrow> rest_client \<Rightarrow> fabric_adapter option \<Rightarrow> engine \<Rightarrow> engine \<times> unit result" where
  "start_engine env c fab s =
     (case engine_startup (pe_port env) (pe_world env) (Some c) fab s of (s', _, outcome) \<Rightarrow> (s', outcome))"

text \<open>After a new token: discovery and a start of the engine; whatever raises ends it silently.\<close>

definition rediscover :: "panel_env \<Rightarrow> panel \<Rightarrow> panel" where
  "rediscover env p =
     (case (pe_repositories env, pn_engine p, get_fabric_client env p) of
        (Inr repos, Some s, Inr fab) \<Rightarrow>
          (case start_engine env (pe_client env) fab s of
             (s', Inl e) \<Rightarrow> p\<lparr>pn_engine := Some s'\<rparr>
           | (s', Inr _) \<Rightarrow> p\<lparr>pn_engine := Some s', pn_snapshot := Some (en_report (fst s'), repos)\<rparr>)
      | _ \<Rightarrow> p)"

definition authorized_now :: "panel_env \<Rightarrow> views \<Rightarrow> string \<Rightarrow> panel \<Rightarrow> panel \<times> admin_context" where
  "authorized_now env vw action p =
     (let p1 = rediscover env (audit env (vw_first vw) action ''SUCCESS'' None p);
          (m, cx') = end_onboarding (pe_issue env) (vw_second vw) (pn_sessions p1)
      in (p1\<lparr>pn_sessions := m\<rparr>, cx'))"

section \<open>Handlers that act\<close>

type_synonym handled = "panel \<times> admin_context \<times> panel_reply result"

definition panel_logout :: "panel_env \<Rightarrow> views \<Rightarrow> panel \<Rightarrow> handled" where
  "panel_logout env vw p =
     (let (m, cx') = handle_logout (vw_first vw) (pn_sessions p)
      in ((audit env (vw_first vw) ''LOGOUT'' ''SUCCESS'' None p)\<lparr>pn_sessions := m\<rparr>, cx', Inr (Redirect_to ''/'')))"

definition back_to :: "admin_context \<Rightarrow> string \<Rightarrow> panel_reply" where
  "back_to cx msg = Redirect_to ((if onboarding cx then ''/?error='' else ''/github?error='') @ msg)"

definition handle_github_token :: "panel_env \<Rightarrow> string \<Rightarrow> views \<Rightarrow> panel \<Rightarrow> handled" where
  "handle_github_token env tok vw p =
     (if tok = [] then (p, vw_first vw, Inr (back_to (vw_first vw) ''GitHub+Access+Token+is+required''))
      else case pn_github p of
        None \<Rightarrow> (p, vw_first vw, Inr (Redirect_to ''/''))
      | Some g \<Rightarrow>
          (let (g', r) = store_and_validate_token (pe_github env) (pe_now env) (pe_user env) tok g;
               p1 = p\<lparr>pn_github := Some g'\<rparr>
           in if sb_success r
              then (let (p2, cx') = authorized_now env vw ''GITHUB_TOKEN_SUBMIT'' p1 in (p2, cx', Inr (Redirect_to ''/'')))
              else (audit env (vw_first vw) ''GITHUB_TOKEN_SUBMIT'' ''FAILED'' (sb_error r) p1, vw_second vw,
                    Inr (back_to (vw_second vw) (quote_plus (case sb_error r of Some m \<Rightarrow> m | None \<Rightarrow> ''Validation failed''))))))"

definition handle_device_init :: "panel_env \<Rightarrow> views \<Rightarrow> panel \<Rightarrow> handled" where
  "handle_device_init env vw p =
     (case pn_github p of
        None \<Rightarrow> (p, vw_first vw, Inr (Redirect_to ''/?error=GitHub+Auth+Manager+not+available''))
      | Some g \<Rightarrow>
          (case initiate_device_flow (pe_github env) (pe_now env) (pe_device env) g of
             (g', None) \<Rightarrow>
               (p\<lparr>pn_github := Some g'\<rparr>, vw_first vw,
                Inr (Redirect_to (''/?error='' @ quote_plus (''Failed to initiate device flow: '' @
                  str_exn (no_attribute ''NoneType'' ''user_code'')))))
           | (g', Some f) \<Rightarrow>
               (p\<lparr>pn_github := Some g'\<rparr>, vw_first vw,
                Inr (Page_reply ''device_flow_page'' [df_user_code f, df_verification_uri f,
                  case ax_session (vw_first vw) of Some s \<Rightarrow> ad_csrf_token s | None \<Rightarrow> []]))))"

primrec poll_json :: "poll_status \<Rightarrow> json" where
  "poll_json NO_ACTIVE_FLOW = JObj [(''status'', JStr ''NO_ACTIVE_FLOW'')]"
| "poll_json P_EXPIRED = JObj [(''status'', JStr ''EXPIRED'')]"
| "poll_json P_AUTHORIZED = JObj [(''status'', JStr ''AUTHORIZED'')]"
| "poll_json P_PENDING = JObj [(''status'', JStr ''PENDING'')]"
| "poll_json P_SLOW_DOWN = JObj [(''status'', JStr ''SLOW_DOWN'')]"
| "poll_json P_DENIED = JObj [(''status'', JStr ''DENIED'')]"
| "poll_json (P_ERROR m) = JObj [(''status'', JStr ''ERROR''), (''error'', JStr m)]"

definition handle_device_poll :: "panel_env \<Rightarrow> views \<Rightarrow> panel \<Rightarrow> handled" where
  "handle_device_poll env vw p =
     (case pn_github p of
        None \<Rightarrow>
          (p, vw_first vw, Inr (Json_reply (JObj [(''status'', JStr ''FAILED''), (''error'', JStr ''GitHub Auth Manager not available'')])))
      | Some g \<Rightarrow>
          (let (g', r) = poll_device_flow (pe_github env) (pe_now env) (pe_token env) (pe_user env) g;
               p1 = p\<lparr>pn_github := Some g'\<rparr>
           in if r = P_AUTHORIZED
              then (let (p2, cx') = authorized_now env vw ''GITHUB_DEVICE_AUTH'' p1 in (p2, cx', Inr (Json_reply (poll_json r))))
              else (p1, vw_first vw, Inr (Json_reply (poll_json r)))))"

text \<open>The verification runs in a thread of its own, with the clients that were built for it.\<close>

definition handle_verify_bootstrap :: "panel_env \<Rightarrow> views \<Rightarrow> panel \<Rightarrow> handled" where
  "handle_verify_bootstrap env vw p =
     (case pn_engine p of
        None \<Rightarrow> (p, vw_first vw, Inr (Json_reply (JObj [(''status'', JStr ''error''), (''message'', JStr ''No engine'')])))
      | Some _ \<Rightarrow>
          (case (case pn_github p of None \<Rightarrow> Inr False | Some g \<Rightarrow> has_token g, get_fabric_client env p) of
             (Inr b, Inr fab) \<Rightarrow>
               (p\<lparr>pn_threads := pn_threads p @ [(if b then Some (pe_client env) else None, fab)]\<rparr>, vw_first vw,
                Inr (Json_reply (JObj [(''status'', JStr ''started'')])))
           | (Inl e, _) \<Rightarrow> (p, vw_first vw, Inl e)
           | (_, Inl e) \<Rightarrow> (p, vw_first vw, Inl e)))"

definition handle_github_disconnect :: "panel_env \<Rightarrow> views \<Rightarrow> panel \<Rightarrow> handled" where
  "handle_github_disconnect env vw p =
     (case pn_github p of
        None \<Rightarrow> (p, vw_first vw, Inr (Redirect_to ''/github''))
      | Some g \<Rightarrow>
          (case disconnect_github (pe_github env) g of
             (g', Inl e) \<Rightarrow> (p\<lparr>pn_github := Some g'\<rparr>, vw_first vw, Inl e)
           | (g', Inr _) \<Rightarrow>
               (audit env (vw_first vw) ''GITHUB_DISCONNECT'' ''SUCCESS'' None (p\<lparr>pn_github := Some g'\<rparr>), vw_first vw, Inr (Redirect_to ''/github''))))"

text \<open>A restart, diagnostics and an update check are recorded and nothing else.\<close>

definition handle_recorded :: "string \<Rightarrow> string \<Rightarrow> panel_env \<Rightarrow> views \<Rightarrow> panel \<Rightarrow> handled" where
  "handle_recorded action target env vw p = (audit env (vw_first vw) action ''SUCCESS'' None p, vw_first vw, Inr (Redirect_to target))"

definition configured :: "string \<Rightarrow> string \<Rightarrow> engine \<Rightarrow> engine" where
  "configured org repo s =
     ((fst s)\<lparr>en_config := dict_set (dict_set (en_config (fst s)) ''fabric_org'' (JStr org)) ''fabric_repo'' (JStr repo)\<rparr>, snd s)"

text \<open>The new start needs the GitHub manager for its client, and a snapshot to put its report into.\<close>

definition restart_configured :: "panel_env \<Rightarrow> engine \<Rightarrow> panel \<Rightarrow> panel" where
  "restart_configured env s p =
     (case (pn_github p, get_fabric_client env p) of
        (Some _, Inr fab) \<Rightarrow>
          (case start_engine env (pe_client env) fab s of
             (s', Inl e) \<Rightarrow> p\<lparr>pn_engine := Some s'\<rparr>
           | (s', Inr _) \<Rightarrow>
               p\<lparr>pn_engine := Some s', pn_snapshot := map_option (\<lambda>(_, repos). (en_report (fst s'), repos)) (pn_snapshot p)\<rparr>)
      | _ \<Rightarrow> p)"

text \<open>\<open>pe_save\<close>: what the saving of the configuration raises and what it then leaves of the file, if it fails.\<close>

definition handle_fabric_setup :: "panel_env \<Rightarrow> string \<Rightarrow> string \<Rightarrow> views \<Rightarrow> panel \<Rightarrow> handled" where
  "handle_fabric_setup env org repo vw p =
     (if org = [] \<or> repo = [] then (p, vw_first vw, Inr (Redirect_to ''/?error=Both+Organization+and+Repository+are+required''))
      else case pn_engine p of
        None \<Rightarrow> (p, vw_first vw, Inr (Redirect_to ''/''))
      | Some s \<Rightarrow>
          (let s1 = configured org repo s;
               p1 = p\<lparr>pn_engine := Some s1, pn_config_file := config_save (pe_yaml env) (en_config (fst s1))\<rparr>
           in case pe_save env of
                Some (e, left) \<Rightarrow> (p\<lparr>pn_engine := Some s1, pn_config_file := left\<rparr>, vw_first vw, Inl e)
              | None \<Rightarrow>
                  (restart_configured env s1 (audit env (vw_first vw) ''FABRIC_SETUP'' ''SUCCESS'' (Some (org @ ''/'' @ repo)) p1), vw_first vw,
               Inr (Redirect_to ''/''))))"

section \<open>Dispatch\<close>

text \<open>The actions with what their forms hold; an exception of a handler is answered with 500.\<close>

datatype panel_action =
    Logout | Github_token string | Device_init | Device_poll | Github_disconnect | Fabric_setup string string
  | Admin_restart | Admin_diagnostics | Admin_update_check | Verify_bootstrap

primrec panel_handle :: "panel_env \<Rightarrow> panel_action \<Rightarrow> views \<Rightarrow> panel \<Rightarrow> handled" where
  "panel_handle env Logout vw p = panel_logout env vw p"
| "panel_handle env (Github_token tok) vw p = handle_github_token env tok vw p"
| "panel_handle env Device_init vw p = handle_device_init env vw p"
| "panel_handle env Device_poll vw p = handle_device_poll env vw p"
| "panel_handle env Github_disconnect vw p = handle_github_disconnect env vw p"
| "panel_handle env (Fabric_setup org repo) vw p = handle_fabric_setup env org repo vw p"
| "panel_handle env Admin_restart vw p = handle_recorded ''RUNTIME_RESTART'' ''/'' env vw p"
| "panel_handle env Admin_diagnostics vw p = handle_recorded ''DIAGNOSTICS_RUN'' ''/doctor'' env vw p"
| "panel_handle env Admin_update_check vw p = handle_recorded ''UPDATE_CHECK'' ''/'' env vw p"
| "panel_handle env Verify_bootstrap vw p = handle_verify_bootstrap env vw p"

definition dispatch_action :: "panel_env \<Rightarrow> panel_action \<Rightarrow> views \<Rightarrow> panel \<Rightarrow> panel \<times> int \<times> panel_reply" where
  "dispatch_action env a vw p =
     (case panel_handle env a vw p of
        (p', _, Inl e) \<Rightarrow> (p', 500, Page_reply ''500 Internal Server Error'' [])
      | (p', _, Inr (Redirect_to l)) \<Rightarrow> (p', 303, Redirect_to l)
      | (p', _, Inr r) \<Rightarrow> (p', 200, r))"

text \<open>A thread that was started runs its verification; what it raises ends the thread.\<close>

definition run_thread :: "panel_env \<Rightarrow> panel \<Rightarrow> panel" where
  "run_thread env p =
     (case (pn_threads p, pn_engine p) of
        ((gh, fab) # ts, Some s) \<Rightarrow>
          p\<lparr>pn_threads := ts, pn_engine := Some (fst (engine_verify (pe_port env) (pe_world env) gh fab s))\<rparr>
      | _ \<Rightarrow> p)"

section \<open>Answers about the state\<close>

primrec runtime_state_name :: "runtime_state \<Rightarrow> string" where
  "runtime_state_name RS_STARTING = ''STARTING''"
| "runtime_state_name RS_VERIFYING = ''VERIFYING''"
| "runtime_state_name RS_READY = ''READY''"
| "runtime_state_name RS_WAITING_FOR_SESSION = ''WAITING_FOR_SESSION''"
| "runtime_state_name RS_DRAINING = ''DRAINING''"
| "runtime_state_name RS_STOPPED = ''STOPPED''"
| "runtime_state_name RS_ERROR = ''ERROR''"
| "runtime_state_name RS_ADMIN_MODE = ''ADMIN_MODE''"

definition anny_ready :: "runtime_engine \<Rightarrow> bool" where
  "anny_ready en = (case en_report en of Some r \<Rightarrow> rp_anny_ready r | None \<Rightarrow> False)"

definition bool_name :: "bool \<Rightarrow> string" where
  "bool_name b = (if b then ''True'' else ''False'')"

definition health_ready :: "panel \<Rightarrow> int \<times> json" where
  "health_ready p =
     (case pn_engine p of
        None \<Rightarrow> (503, JObj [(''status'', JStr ''not_ready''), (''reason'', JStr ''No runtime engine'')])
      | Some s \<Rightarrow>
          if anny_ready (fst s) \<and> en_state (fst s) \<in> {RS_READY, RS_WAITING_FOR_SESSION}
          then (200, JObj [(''status'', JStr ''ready'')])
          else (503, JObj [(''status'', JStr ''not_ready''),
                 (''reason'', JStr (''State='' @ runtime_state_name (en_state (fst s)) @ '', ready='' @ bool_name (anny_ready (fst s))))]))"

definition runtime_health :: "runtime_engine \<Rightarrow> string" where
  "runtime_health en =
     (if en_state en \<in> {RS_ERROR, RS_STOPPED} then ''NOT_HEALTHY''
      else if en_state en \<in> {RS_STARTING, RS_VERIFYING, RS_ADMIN_MODE, RS_DRAINING} then ''DEGRADED''
      else if anny_ready en then ''HEALTHY'' else ''DEGRADED'')"

primrec gate_name :: "readiness_gate \<Rightarrow> string" where
  "gate_name RUNTIME_IDENTITY = ''RUNTIME_IDENTITY''"
| "gate_name GITHUB_CONNECTED = ''GITHUB_CONNECTED''"
| "gate_name GITHUB_ORG_BOUND = ''GITHUB_ORG_BOUND''"
| "gate_name FABRIC_REACHABLE = ''FABRIC_REACHABLE''"
| "gate_name FABRIC_IDENTITY_VERIFIED = ''FABRIC_IDENTITY_VERIFIED''"
| "gate_name FABRIC_TRUST_VERIFIED = ''FABRIC_TRUST_VERIFIED''"
| "gate_name FABRIC_TENANT_BOUND = ''FABRIC_TENANT_BOUND''"
| "gate_name FABRIC_STATE_READABLE = ''FABRIC_STATE_READABLE''"
| "gate_name FABRIC_PROVENANCE_VALID = ''FABRIC_PROVENANCE_VALID''"
| "gate_name FABRIC_NODE_AT_REMOTE_HEAD = ''FABRIC_NODE_AT_REMOTE_HEAD''"
| "gate_name RUNTIME_REACHABLE = ''RUNTIME_REACHABLE''"
| "gate_name RUNTIME_HEALTH_VERIFIED = ''RUNTIME_HEALTH_VERIFIED''"
| "gate_name RUNTIME_BINDING_VERIFIED = ''RUNTIME_BINDING_VERIFIED''"
| "gate_name RUNTIME_ADMITTED = ''RUNTIME_ADMITTED''"
| "gate_name PLANE_RECONCILIATION = ''PLANE_RECONCILIATION''"
| "gate_name POLICY_SNAPSHOT_FRESH = ''POLICY_SNAPSHOT_FRESH''"
| "gate_name CONTRACTS_DISCOVERED = ''CONTRACTS_DISCOVERED''"
| "gate_name CAPABILITIES_INVENTORIED = ''CAPABILITIES_INVENTORIED''"
| "gate_name TOOLS_INVENTORIED = ''TOOLS_INVENTORIED''"
| "gate_name MODELS_INVENTORIED = ''MODELS_INVENTORIED''"
| "gate_name WORKERS_INVENTORIED = ''WORKERS_INVENTORIED''"
| "gate_name CONNECTORS_INVENTORIED = ''CONNECTORS_INVENTORIED''"
| "gate_name CRITICAL_ACCESS_VERIFIED = ''CRITICAL_ACCESS_VERIFIED''"
| "gate_name DELEGATION_CONTEXT_BUILT = ''DELEGATION_CONTEXT_BUILT''"
| "gate_name CONTINUITY_COHERENT = ''CONTINUITY_COHERENT''"

text \<open>\<open>detail\<close> gives the text of a gate's result.\<close>

definition gate_json :: "(gate_result \<Rightarrow> json) \<Rightarrow> gate_result \<Rightarrow> json" where
  "gate_json detail g = JObj
    [(''phase'', JStr (takeWhile (\<lambda>c. c \<noteq> CHR ''_'') (gate_name (gr_gate g)))), (''gate'', JStr (gate_name (gr_gate g))),
     (''status'', JStr (if gr_passed g then ''PASS'' else if gr_evidence g = JStr ''STUB'' then ''BLOCKED'' else ''FAIL'')),
     (''detail'', detail g), (''evidence'', gr_evidence g)]"

definition github_status_of :: "panel \<Rightarrow> string" where
  "github_status_of p = (case pn_github p of Some g \<Rightarrow> gc_auth_status (gm_state g) | None \<Rightarrow> ''UNAUTHORIZED'')"

definition known_node :: "runtime_engine \<Rightarrow> json" where
  "known_node en = (case en_report en of Some r \<Rightarrow> rp_fabric_node r | None \<Rightarrow> JStr ''UNKNOWN'')"

text \<open>A report has no \<open>timestamp\<close>.\<close>

definition api_status :: "(gate_result \<Rightarrow> json) \<Rightarrow> panel \<Rightarrow> json" where
  "api_status detail p =
     (case pn_engine p of
        None \<Rightarrow> JObj [(''anny_ready'', JBool False), (''runtime_state'', JStr ''STOPPED''), (''error'', JStr ''No runtime engine'')]
      | Some (en, _) \<Rightarrow>
          (let ready = anny_ready en; st = JStr (runtime_state_name (en_state en)); gh = JStr (github_status_of p); na = JStr ''N/A'' in
           JObj
            [(''anny_ready'', JBool ready), (''runtime_state'', st), (''runtime_health'', JStr (runtime_health en)),
             (''github_status'', gh),
             (''fabric_status'', JStr (if truthy (known_node en) \<and> known_node en \<noteq> JStr ''UNKNOWN'' then ''CONNECTED''
                                      else ''NOT_CONFIGURED'')),
             (''admission_status'', JStr (if ready then ''ADMITTED'' else ''PENDING'')),
             (''reconciliation_status'', JStr (if ready then ''COHERENT'' else ''PENDING'')), (''timestamp'', JNull),
             (''runtime_id'', JStr (am_runtime_id (pn_sessions p))), (''runtime_version'', JStr ''0.4.0''), (''github_org'', gh),
             (''fabric_org'', jfield (en_config en) ''fabric_org'' JNull),
             (''fabric_repo'', jfield (en_config en) ''fabric_repo'' JNull), (''fabric_node'', known_node en),
             (''tenant'', na), (''policy_revision'', na), (''contract_revision'', na),
             (''gates'', JList (case en_report en of Some r \<Rightarrow> map (gate_json detail) (rp_gates r) | None \<Rightarrow> [])),
             (''capabilities'', JList []), (''health'', JObj [(''engine'', st), (''github'', gh)]), (''access'', JList []),
             (''tools'', JList []), (''models'', JList []), (''workers'', JList []), (''connectors'', JList []),
             (''continuity'', JObj [(''mission'', na), (''task'', na), (''step'', na), (''action'', na), (''blockers'', JStr ''0''),
                                   (''status'', st)])]))"

definition repository_json :: "discovered_repository \<Rightarrow> json" where
  "repository_json r = JObj
    [(''full_name'', dr_full_name r), (''name'', dr_name r), (''owner'', dr_owner r), (''visibility'', JStr (dr_visibility r)),
     (''archived'', dr_archived r), (''default_branch'', dr_default_branch r)]"

definition canonical_source :: "panel \<Rightarrow> string" where
  "canonical_source p =
     (case pn_engine p of
        None \<Rightarrow> ''NOT_CONFIGURED''
      | Some (en, _) \<Rightarrow>
          (case (config_string (en_config en) ''fabric_org'', config_string (en_config en) ''fabric_repo'') of
             (Some (c # org), Some (d # repo)) \<Rightarrow> c # org @ ''/'' @ d # repo
           | _ \<Rightarrow> ''NOT_CONFIGURED''))"

text \<open>
  The snapshot's result is a report or nothing. The engine has no \<open>get_health_status\<close>, so the status of the runtime
  is unknown; a report always has a node, if only \<open>UNKNOWN\<close>.
\<close>

definition continuity_dto :: "panel \<Rightarrow> json" where
  "continuity_dto p =
     (let dto = (\<lambda>status source recon fabric repos summary. JObj
           [(''status'', JStr status), (''canonical_source'', JStr source), (''canonical_revision'', JNull),
            (''current_mission'', JNull), (''current_task'', JNull), (''next_action'', JNull), (''blocker_count'', JInt 0),
            (''reconciliation_status'', JStr recon), (''github_status'', JStr (github_status_of p)),
            (''runtime_status'', JStr ''UNKNOWN''), (''fabric_status'', JStr fabric), (''organizations'', JList []),
            (''repositories'', JList (map repository_json repos)), (''blockers'', JList []), (''l2_worker_summary'', summary)])
      in case pn_snapshot p of
           None \<Rightarrow> dto ''UNKNOWN'' ''UNKNOWN'' ''UNKNOWN'' ''NOT_CONFIGURED'' [] JNull
         | Some (r, repos) \<Rightarrow>
             (let ready = (case r of Some x \<Rightarrow> rp_anny_ready x | None \<Rightarrow> False);
                  node = (case r of Some x \<Rightarrow> truthy (rp_fabric_node x) | None \<Rightarrow> False)
              in dto (if ready then ''READY'' else ''BLOCKED'') (canonical_source p)
                   (if ready then ''COHERENT'' else ''INCOHERENT'') (if node then ''CONNECTED'' else ''NOT_CONFIGURED'') repos
                   (JObj [(''count'', JInt 0), (''registered_workers'', JList [])])))"

section \<open>The shared context\<close>

text \<open>
  Every request writes its own context into the one the handlers read and puts the old one back at its end:
  \<open>context.update\<close>, and the \<open>finally\<close> of \<open>do_GET\<close> and \<open>do_POST\<close>. The server has a thread per request.
\<close>

type_synonym 'v request_context = "(string, 'v) dict"

definition update_context :: "'v request_context \<Rightarrow> 'v request_context \<Rightarrow> 'v request_context" where
  "update_context new rc = fold (\<lambda>(k, v) d. dict_set d k v) new rc"

definition never_restored :: "string list" where
  "never_restored = [''admin_session'', ''set_cookies'', ''new_session_id'', ''secure_cookie'']"

definition leave_get :: "'v request_context \<Rightarrow> 'v request_context \<Rightarrow> 'v request_context" where
  "leave_get saved rc =
     update_context (filter (\<lambda>(k, v). k \<notin> set never_restored) saved)
       (filter (\<lambda>(k, v). k \<in> set (dict_keys saved) \<or> k = ''bootstrap_snapshot'' \<or> k = ''sync_service'') rc)"

definition leave_post :: "'v request_context \<Rightarrow> 'v request_context \<Rightarrow> 'v request_context" where
  "leave_post saved rc =
     update_context (filter (\<lambda>(k, v). k \<notin> set never_restored \<and> k \<noteq> ''destroy_session'') saved)
       (filter (\<lambda>(k, v). k \<in> set (dict_keys saved) \<or> k = ''bootstrap_snapshot'' \<or> k = ''sync_service'') rc)"

lemma get_update_context:
  "dict_wf new \<Longrightarrow> dict_get (update_context new rc) k = (case dict_get new k of Some v \<Rightarrow> Some v | None \<Rightarrow> dict_get rc k)"
proof (induction new arbitrary: rc)
  case (Cons n new)
  obtain a b where n: "n = (a, b)" by fastforce
  then have wf: "dict_wf new" and fresh: "dict_get new a = None"
    using Cons.prems by (auto simp: map_of_eq_None_iff)
  have "update_context (n # new) rc = update_context new (dict_set rc a b)" by (simp add: update_context_def n)
  then show ?case using Cons.IH [OF wf] fresh by (cases "k = a") (auto simp: n split: option.split)
qed (simp add: update_context_def)

lemma get_filter_key: "dict_get (filter (\<lambda>(k, v). P k) d) k = (if P k then dict_get d k else None)"
  by (induction d) auto

lemma wf_filter: "dict_wf d \<Longrightarrow> dict_wf (filter P d)"
  by (induction d) auto

text \<open>A snapshot that a handler puts into the context is gone after its request: the old one is put back.\<close>

lemma snapshot_put_back:
  assumes "dict_wf saved" and "dict_get saved ''bootstrap_snapshot'' = Some v"
  shows "dict_get (leave_get saved rc) ''bootstrap_snapshot'' = Some v"
    and "dict_get (leave_post saved rc) ''bootstrap_snapshot'' = Some v"
  using assms
  by (simp_all add: leave_get_def leave_post_def get_update_context wf_filter get_filter_key never_restored_def)

lemma session_forgotten:
  assumes "dict_wf saved" and "dict_get saved ''admin_session'' = None"
  shows "dict_get (leave_get saved rc) ''admin_session'' = None" and "dict_get (leave_post saved rc) ''admin_session'' = None"
  using assms
  by (auto simp: leave_get_def leave_post_def get_update_context wf_filter get_filter_key map_of_eq_None_iff never_restored_def)

text \<open>
  A handler that reads the session after another request has entered reads the session of the other one; and after the
  other one has left first, there is a session the second did not bring, or none.
\<close>

lemma session_of_another:
  assumes "dict_wf rc" and "dict_wf mine" and "dict_wf theirs" and "dict_get theirs ''admin_session'' = Some v"
  shows "dict_get (update_context theirs (update_context mine rc)) ''admin_session'' = Some v"
  using assms by (simp add: get_update_context)

lemma session_taken_away:
  assumes "dict_wf rc" and "dict_get rc ''admin_session'' = None"
  shows "dict_get (leave_get rc (update_context theirs (update_context mine rc))) ''admin_session'' = None"
  using session_forgotten(1) [OF assms] .

section \<open>A request\<close>

text \<open>The request with the snapshot put back; what \<open>handle_fabric_setup\<close> writes into the old snapshot stays.\<close>

primrec writes_in_place :: "panel_action \<Rightarrow> bool" where
  "writes_in_place Logout = False"
| "writes_in_place (Github_token tok) = False"
| "writes_in_place Device_init = False"
| "writes_in_place Device_poll = False"
| "writes_in_place Github_disconnect = False"
| "writes_in_place (Fabric_setup org repo) = True"
| "writes_in_place Admin_restart = False"
| "writes_in_place Admin_diagnostics = False"
| "writes_in_place Admin_update_check = False"
| "writes_in_place Verify_bootstrap = False"

definition serve :: "panel_env \<Rightarrow> panel_action \<Rightarrow> views \<Rightarrow> panel \<Rightarrow> panel \<times> int \<times> panel_reply" where
  "serve env a vw p =
     (let (p', code, r) = dispatch_action env a vw p
      in (p'\<lparr>pn_snapshot := (case vw_left vw of
              Some sn \<Rightarrow> sn
            | None \<Rightarrow> if writes_in_place a then pn_snapshot p' else pn_snapshot p)\<rparr>, code, r))"

lemma serve_sel:
  "pn_github (fst (serve env a vw p)) = pn_github (fst (panel_handle env a vw p))"
  "pn_engine (fst (serve env a vw p)) = pn_engine (fst (panel_handle env a vw p))"
  "pn_config_file (fst (serve env a vw p)) = pn_config_file (fst (panel_handle env a vw p))"
  "pn_audit (fst (serve env a vw p)) = pn_audit (fst (panel_handle env a vw p))"
  by (simp_all add: serve_def dispatch_action_def split: prod.splits sum.splits panel_reply.splits)

lemma audit_sel [simp]:
  "pn_sessions (audit env cx a r d p) = pn_sessions p" "pn_github (audit env cx a r d p) = pn_github p"
  "pn_engine (audit env cx a r d p) = pn_engine p" "pn_config_file (audit env cx a r d p) = pn_config_file p"
  "pn_snapshot (audit env cx a r d p) = pn_snapshot p" "pn_threads (audit env cx a r d p) = pn_threads p"
  by (simp_all add: audit_def split: option.split)

lemma rediscover_sel [simp]:
  "pn_sessions (rediscover env p) = pn_sessions p" "pn_github (rediscover env p) = pn_github p"
  "pn_config_file (rediscover env p) = pn_config_file p" "pn_audit (rediscover env p) = pn_audit p"
  "pn_threads (rediscover env p) = pn_threads p"
  by (simp_all add: rediscover_def split: sum.split option.split prod.split)

lemma restart_configured_sel [simp]:
  "pn_sessions (restart_configured env s p) = pn_sessions p" "pn_github (restart_configured env s p) = pn_github p"
  "pn_config_file (restart_configured env s p) = pn_config_file p" "pn_audit (restart_configured env s p) = pn_audit p"
  "pn_threads (restart_configured env s p) = pn_threads p"
  by (simp_all add: restart_configured_def split: sum.split option.split prod.split)

lemma authorized_now_sel [simp]:
  "pn_github (fst (authorized_now env vw a p)) = pn_github p"
  "pn_config_file (fst (authorized_now env vw a p)) = pn_config_file p"
  "pn_audit (fst (authorized_now env vw a p)) = pn_audit (audit env (vw_first vw) a ''SUCCESS'' None p)"
  "pn_engine (fst (authorized_now env vw a p)) = pn_engine (rediscover env (audit env (vw_first vw) a ''SUCCESS'' None p))"
  by (simp_all add: authorized_now_def Let_def split: prod.split)

section \<open>What is recorded\<close>

definition grown :: "'a jsonl \<Rightarrow> 'a jsonl option \<Rightarrow> bool" where
  "grown f x \<longleftrightarrow> x = Some f \<or> (\<exists>e. x = Some (jl_append e f))"

lemma grown_same [simp]: "grown f (Some f)"
  by (simp add: grown_def)

lemma grown_audit: "pn_audit p = Some f \<Longrightarrow> grown f (pn_audit (audit env cx a r d p))"
  by (auto simp: audit_def grown_def split: option.split)

lemma audit_working:
  assumes "ax_session cx = Some s" and "pn_audit p = Some f" and "pe_audit_writes env"
  shows "pn_audit (audit env cx a r d p) = Some (jl_append (audit_entry_of env p s a r d) f)"
  using assms by (simp add: audit_def)

lemma validated_recorded:
  assumes "validate_github env now ans g = (g', res)" and "gc_auth_status (gm_state g) \<noteq> ''AUTHORIZED''"
    and "gc_auth_status (gm_state g') = ''AUTHORIZED''"
  shows "res = Inr True"
proof -
  obtain st ok where j: "judge_token now ans (gm_state g) = (st, ok)" by (metis prod.exhaust)
  then show ?thesis
    using assms judge_token_authorized [OF j]
    by (auto simp: validate_github_def save_state_def split: sum.splits if_splits)
qed

lemma accepted_recorded:
  assumes "accept_token env now ans tok g = (g', r)" and "gc_auth_status (gm_state g) \<noteq> ''AUTHORIZED''"
    and "gc_auth_status (gm_state g') = ''AUTHORIZED''"
  shows "r = P_AUTHORIZED"
proof (cases "file_store (ge_fernet env) (ge_nonce env) (token_ref (gm_account_id g)) tok (gm_secrets g)")
  case (Pair s1 stored)
  obtain g2 res where v: "validate_github env now ans (g\<lparr>gm_secrets := s1, gm_flow := None\<rparr>) = (g2, res)" by (metis prod.exhaust)
  have auth: "gc_auth_status (gm_state g2) = ''AUTHORIZED'' \<Longrightarrow> res = Inr True"
    using validated_recorded [OF v] assms(2) by simp
  show ?thesis
    using assms auth unfolding accept_token_def Pair
    by (auto simp: v split: sum.splits bool.splits prod.splits)
qed

lemma polled_recorded:
  assumes "poll_device_flow env now tans uans g = (g', r)" and "gc_auth_status (gm_state g) \<noteq> ''AUTHORIZED''"
    and "gc_auth_status (gm_state g') = ''AUTHORIZED''"
  shows "r = P_AUTHORIZED"
  using assms accepted_recorded [of env now uans _ g g' r]
  by (auto simp: poll_device_flow_def Let_def split: option.splits if_splits http_answer.splits token_answer.splits)

lemma submitted_recorded:
  assumes "store_and_validate_token env now ans tok g = (g', r)" and "\<not> sb_success r"
  shows "g' = g"
  using assms by (auto simp: store_and_validate_token_def Let_def split: http_answer.splits if_splits prod.splits sum.splits)

lemma disconnected_status:
  "gc_auth_status (gm_state (fst (disconnect_github env g))) \<in> {''UNAUTHORIZED'', gc_auth_status (gm_state g)}"
  by (simp add: disconnect_github_def save_state_def credential_init_def split: prod.split sum.split)

lemma initiated_status:
  "gc_auth_status (gm_state (fst (initiate_device_flow env now ans g))) = gc_auth_status (gm_state g)"
  by (simp add: initiate_device_flow_def save_state_def Let_def split: http_answer.split)

text \<open>No request changes what the audit log holds: it adds an entry or none.\<close>

lemma audit_append_only:
  assumes "pn_audit p = Some f"
  shows "grown f (pn_audit (fst (serve env a vw p)))"
  using assms
  by (cases a)
     (simp_all add: serve_sel panel_logout_def handle_github_token_def handle_device_init_def handle_device_poll_def
        handle_github_disconnect_def handle_recorded_def handle_verify_bootstrap_def handle_fabric_setup_def Let_def
        case_prod_beta grown_audit split: option.split sum.split)

definition github_authorized :: "panel \<Rightarrow> bool" where
  "github_authorized p = (case pn_github p of Some g \<Rightarrow> gc_auth_status (gm_state g) = ''AUTHORIZED'' | None \<Rightarrow> False)"

lemma github_authorized_github:
  "pn_github q = pn_github p \<Longrightarrow> github_authorized q = github_authorized p"
  by (simp add: github_authorized_def)

text \<open>What a success is recorded as: the names of the Fabric's repository are the only details, never a token.\<close>

fun success_entry :: "panel_action \<Rightarrow> (string \<times> string option) option" where
  "success_entry (Github_token tok) = Some (''GITHUB_TOKEN_SUBMIT'', None)"
| "success_entry Device_poll = Some (''GITHUB_DEVICE_AUTH'', None)"
| "success_entry (Fabric_setup org repo) = Some (''FABRIC_SETUP'', Some (org @ ''/'' @ repo))"
| "success_entry _ = None"

definition recorded_success :: "panel_env \<Rightarrow> panel_action \<Rightarrow> views \<Rightarrow> panel \<Rightarrow> panel \<Rightarrow> bool" where
  "recorded_success env a vw p p' \<longleftrightarrow>
     (\<exists>action details. success_entry a = Some (action, details) \<and>
        pn_audit p' = pn_audit (audit env (vw_first vw) action ''SUCCESS'' details p))"

lemma audit_agrees:
  "pn_audit q = pn_audit p \<Longrightarrow> pn_sessions q = pn_sessions p \<Longrightarrow>
     pn_audit (audit env cx a r d q) = pn_audit (audit env cx a r d p)"
  by (simp add: audit_def audit_entry_of_def split: option.split)

lemma token_succeeded:
  assumes "handle_github_token env tok vw p = (p', cx', r)" and "\<not> github_authorized p" and "github_authorized p'"
  shows "recorded_success env (Github_token tok) vw p p'"
proof -
  obtain g where g: "pn_github p = Some g" and "tok \<noteq> []"
    using assms by (auto simp: handle_github_token_def split: if_splits option.splits)
  obtain g' v where v: "store_and_validate_token (pe_github env) (pe_now env) (pe_user env) tok g = (g', v)" by (metis prod.exhaust)
  have "sb_success v"
  proof (rule ccontr)
    assume "\<not> sb_success v"
    moreover from this have "g' = g" by (rule submitted_recorded [OF v])
    ultimately have "pn_github p' = pn_github p"
      using assms(1) \<open>tok \<noteq> []\<close> by (auto simp: handle_github_token_def g v Let_def)
    then show False using assms(2,3) github_authorized_github by blast
  qed
  then have "p' = fst (authorized_now env vw ''GITHUB_TOKEN_SUBMIT'' (p\<lparr>pn_github := Some g'\<rparr>))"
    using assms(1) \<open>tok \<noteq> []\<close> by (auto simp: handle_github_token_def g v Let_def split: prod.splits)
  then show ?thesis by (auto simp: recorded_success_def intro: audit_agrees)
qed

lemma poll_succeeded:
  assumes "handle_device_poll env vw p = (p', cx', r)" and "\<not> github_authorized p" and "github_authorized p'"
  shows "recorded_success env Device_poll vw p p'"
proof -
  obtain g where g: "pn_github p = Some g"
    using assms by (auto simp: handle_device_poll_def split: option.splits)
  obtain g' v where v: "poll_device_flow (pe_github env) (pe_now env) (pe_token env) (pe_user env) g = (g', v)" by (metis prod.exhaust)
  have accepted: "p' = fst (authorized_now env vw ''GITHUB_DEVICE_AUTH'' (p\<lparr>pn_github := Some g'\<rparr>))" if "v = P_AUTHORIZED"
    using assms(1) that by (auto simp: handle_device_poll_def g v Let_def split: prod.splits)
  have "pn_github p' = Some g'"
  proof (cases "v = P_AUTHORIZED")
    case False
    then show ?thesis using assms(1) by (auto simp: handle_device_poll_def g v Let_def)
  qed (simp add: accepted)
  then have "v = P_AUTHORIZED"
    using polled_recorded [OF v] assms(2,3) by (simp add: github_authorized_def g)
  from accepted [OF this] show ?thesis by (auto simp: recorded_success_def intro: audit_agrees)
qed

text \<open>A save that fails is answered 500 and not recorded, whatever it leaves of the file.\<close>

lemma setup_succeeded:
  assumes "handle_fabric_setup env org repo vw p = (p', cx', r)" and "p' \<noteq> p"
  shows "(case pe_save env of
            None \<Rightarrow> recorded_success env (Fabric_setup org repo) vw p p'
          | Some (e, left) \<Rightarrow> pn_config_file p' = left \<and> pn_audit p' = pn_audit p \<and> r = Inl e)"
proof -
  obtain x where x: "pn_engine p = Some x" "org \<noteq> []" "repo \<noteq> []"
    using assms by (auto simp: handle_fabric_setup_def split: if_splits option.splits)
  show ?thesis
  proof (cases "pe_save env")
    case None
    then have "pn_audit p' = pn_audit (audit env (vw_first vw) ''FABRIC_SETUP'' ''SUCCESS'' (Some (org @ ''/'' @ repo))
        (p\<lparr>pn_engine := Some (configured org repo x), pn_config_file := config_save (pe_yaml env) (en_config (fst (configured org repo x)))\<rparr>))"
      using assms x by (auto simp: handle_fabric_setup_def Let_def)
    then show ?thesis using None by (auto simp: recorded_success_def intro: audit_agrees)
  next
    case (Some y)
    then show ?thesis using assms x by (cases y) (auto simp: handle_fabric_setup_def Let_def)
  qed
qed

lemma other_handlers_quiet:
  assumes "panel_handle env a vw p = (p', cx', r)"
    and "a \<in> {Logout, Device_init, Github_disconnect, Admin_restart, Admin_diagnostics, Admin_update_check, Verify_bootstrap}"
  shows "pn_config_file p' = pn_config_file p" and "github_authorized p' \<Longrightarrow> github_authorized p"
proof -
  note defs = panel_logout_def handle_device_init_def handle_github_disconnect_def handle_recorded_def handle_verify_bootstrap_def
  show "pn_config_file p' = pn_config_file p"
    using assms by (auto simp: defs split: prod.splits option.splits sum.splits)
  have "pn_github p' = pn_github p \<or> (\<exists>g. pn_github p = Some g \<and>
      (pn_github p' = Some (fst (initiate_device_flow (pe_github env) (pe_now env) (pe_device env) g)) \<or>
       pn_github p' = Some (fst (disconnect_github (pe_github env) g))))"
    using assms by (auto simp: defs split: prod.splits option.splits sum.splits)
  moreover have "gc_auth_status (gm_state (fst (disconnect_github (pe_github env) g))) = ''AUTHORIZED'' \<Longrightarrow>
      gc_auth_status (gm_state g) = ''AUTHORIZED''" for g
    using disconnected_status [of "pe_github env" g] by auto
  ultimately show "github_authorized p' \<Longrightarrow> github_authorized p"
    by (elim disjE exE conjE) (simp_all add: github_authorized_def initiated_status)
qed

lemma token_config: "pn_config_file (fst (handle_github_token env tok vw p)) = pn_config_file p"
  by (simp add: handle_github_token_def authorized_now_def Let_def split: prod.split option.split)

lemma poll_config: "pn_config_file (fst (handle_device_poll env vw p)) = pn_config_file p"
  by (simp add: handle_device_poll_def authorized_now_def Let_def split: prod.split option.split)

section \<open>Runs of the panel\<close>

text \<open>
  Requests, verifications in their threads, and the start and the end of the engine by its own process. The smoke tests
  are those of the runtime.
\<close>

inductive panel_step :: "panel \<Rightarrow> panel \<Rightarrow> bool" where
  served: "real_world (pe_world env) \<Longrightarrow> panel_step p (fst (serve env a vw p))"
| verified: "real_world (pe_world env) \<Longrightarrow> panel_step p (run_thread env p)"
| operated: "op_real op \<Longrightarrow> panel_step p (p\<lparr>pn_engine := map_option (\<lambda>s. engine_apply port s op) (pn_engine p)\<rparr>)"

definition down :: "engine \<Rightarrow> bool" where
  "down s \<longleftrightarrow> en_state (fst s) \<in> {RS_STOPPED, RS_ERROR, RS_ADMIN_MODE}"

definition never_up :: "panel \<Rightarrow> bool" where
  "never_up p \<longleftrightarrow> (\<forall>s. pn_engine p = Some s \<longrightarrow> down s)"

lemma down_apply: "op_real op \<Longrightarrow> down (engine_apply port s op)"
  using engine_apply_state [of op port s] by (auto simp: down_def split: if_splits)

lemma down_start: "real_world (pe_world env) \<Longrightarrow> start_engine env c fab s = (s', r) \<Longrightarrow> down s'"
  using down_apply [of "Startup (pe_world env) (Some c) fab" "pe_port env" s]
  by (auto simp: start_engine_def split: prod.splits)

lemma down_verify: "real_world (pe_world env) \<Longrightarrow> down (fst (engine_verify (pe_port env) (pe_world env) gh fab s))"
  using down_apply [of "Verify (pe_world env) gh fab" "pe_port env" s] by simp

lemma never_up_engine: "pn_engine q = pn_engine p \<Longrightarrow> never_up q = never_up p"
  by (simp add: never_up_def)

lemma never_up_rediscover: "real_world (pe_world env) \<Longrightarrow> never_up p \<Longrightarrow> never_up (rediscover env p)"
  by (auto simp: rediscover_def never_up_def intro: down_start split: sum.split option.split prod.split)

lemma never_up_restart: "real_world (pe_world env) \<Longrightarrow> never_up p \<Longrightarrow> never_up (restart_configured env s p)"
  by (auto simp: restart_configured_def never_up_def intro: down_start split: sum.split option.split prod.split)

lemma never_up_authorized: "real_world (pe_world env) \<Longrightarrow> never_up p \<Longrightarrow> never_up (fst (authorized_now env vw a p))"
  by (simp add: never_up_engine [OF authorized_now_sel(4)] never_up_rediscover never_up_engine [OF audit_sel(3)])

lemma down_configured: "down (configured org repo s) = down s"
  by (simp add: down_def configured_def)

lemma never_up_setup:
  assumes "real_world (pe_world env)" and "never_up p"
  shows "never_up (fst (handle_fabric_setup env org repo vw p))"
proof -
  have "never_up (restart_configured env (configured org repo s) (audit env cx act r d
      (p\<lparr>pn_engine := Some (configured org repo s), pn_config_file := c\<rparr>)))" if "pn_engine p = Some s" for s cx act r d c
    using assms(2) that
    by (intro never_up_restart [OF assms(1)]) (simp add: never_up_engine [OF audit_sel(3)] never_up_def down_configured)
  moreover have "never_up (p\<lparr>pn_engine := Some (configured org repo s), pn_config_file := c\<rparr>)" if "pn_engine p = Some s" for s c
    using assms(2) that by (simp add: never_up_def down_configured)
  ultimately show ?thesis
    using assms(2) by (simp add: handle_fabric_setup_def Let_def split: option.split prod.split)
qed

lemma never_up_handle:
  assumes "real_world (pe_world env)" and "never_up p"
  shows "never_up (fst (panel_handle env a vw p))"
proof (cases "\<exists>org repo. a = Fabric_setup org repo")
  case True
  then show ?thesis using never_up_setup [OF assms] by auto
next
  case False
  have authorized: "never_up (fst (authorized_now env vw act (p\<lparr>pn_github := g\<rparr>)))" for act g
    using assms(2) by (intro never_up_authorized [OF assms(1)]) (simp add: never_up_def)
  have "pn_engine (fst (panel_handle env a vw p)) = pn_engine p \<or>
      (\<exists>act g. fst (panel_handle env a vw p) = fst (authorized_now env vw act (p\<lparr>pn_github := g\<rparr>)))"
    using False
    by (cases a)
       (auto simp: panel_logout_def handle_github_token_def handle_device_init_def handle_device_poll_def
          handle_github_disconnect_def handle_recorded_def handle_verify_bootstrap_def Let_def
          case_prod_beta split: option.split sum.split)
  then show ?thesis using authorized never_up_engine assms(2) by metis
qed

lemma never_up_step: "panel_step p q \<Longrightarrow> never_up p \<Longrightarrow> never_up q"
proof (induction rule: panel_step.induct)
  case (served env p a vw)
  then show ?case using never_up_handle never_up_engine [OF serve_sel(2)] by blast
next
  case (verified env p)
  then show ?case
    by (cases "pn_threads p"; cases "pn_engine p") (auto simp: run_thread_def never_up_def down_verify case_prod_beta)
next
  case (operated op p port)
  then show ?case by (cases "pn_engine p") (simp_all add: never_up_def down_apply del: split_paired_All)
qed

lemma never_up_run: "panel_step\<^sup>*\<^sup>* p q \<Longrightarrow> never_up p \<Longrightarrow> never_up q"
  by (induction rule: rtranclp_induct) (auto intro: never_up_step)

section \<open>Properties\<close>

text \<open>
  C13. The panel never reports the runtime ready: after any run of requests, verifications in threads, starts
  and ends of the engine, \<open>/health/ready\<close> answers 503, whatever GitHub, the Fabric, the forms and the
  files say. The critical smoke test of \<open>repository.read\<close> calls a method the GitHub client does not have.
\<close>

theorem health_never_ready:
  assumes "panel_step\<^sup>*\<^sup>* p q" and "pn_engine p = Some (engine_init c d)"
  shows "fst (health_ready q) = 503"
proof -
  have "never_up p" using assms(2) by (simp add: never_up_def down_def engine_init_def)
  then have "never_up q" by (rule never_up_run [OF assms(1)])
  then show ?thesis by (auto simp: health_ready_def never_up_def down_def split: option.split)
qed

definition demo_panel_env :: panel_env where
  "demo_panel_env =
     \<lparr>pe_github = demo_github_env, pe_now = 9, pe_user = Http_ok \<lparr>ua_login = Some ''ann'', ua_scopes = ''repo, read:org''\<rparr>,
      pe_device = Http_error 500 ''down'', pe_token = Http_ok (Access_token ''ghp''), pe_repositories = Inr [],
      pe_world = demo_boot_world, pe_port = None, pe_client = the (pb_github demo_plane), pe_fabric = pb_fabric demo_plane,
      pe_issue = \<lparr>is_now = 9, is_session_id = ''s2'', is_csrf = ''t2''\<rparr>, pe_audit_time = ''t'', pe_audit_writes = True,
      pe_yaml = demo_yaml, pe_save = None\<rparr>"

definition demo_panel :: panel where
  "demo_panel =
     \<lparr>pn_sessions = demo_admin, pn_github = Some (github_init demo_github_env ''cid'' None demo_secrets),
      pn_engine = Some (engine_init demo_config
        \<lparr>dk_generation = Absent, dk_engine_state = None, dk_continuity = continuity_init\<rparr>),
      pn_config_file = No_config, pn_audit = Some jl_empty, pn_snapshot = None, pn_threads = []\<rparr>"

definition demo_panel_context :: admin_context where
  "demo_panel_context =
     \<lparr>ax_secure_cookie = False, ax_session = Some (snd (create_admin_session
        \<lparr>is_now = 0, is_session_id = ''s1'', is_csrf = ''t1''\<rparr> ''admin'' (admin_auth_init ''r1'' 60))),
      ax_new_session_id = None, ax_destroy_session = False, ax_redirect_to = None\<rparr>"

theorem health_never_ready_witness:
  "fst (health_ready (fst (serve demo_panel_env (Github_token ''ghp'') (own_views demo_panel_context) demo_panel))) = 503"
proof (rule health_never_ready)
  show "panel_step\<^sup>*\<^sup>* demo_panel (fst (serve demo_panel_env (Github_token ''ghp'') (own_views demo_panel_context) demo_panel))"
    by (intro r_into_rtranclp panel_step.served) (simp add: demo_panel_env_def real_world_def demo_boot_world_def)
qed (simp add: demo_panel_def)

text \<open>
  C30. What changes the configuration or authorizes GitHub is recorded, as far as the panel knows whose request it is:
  when a request changes the configuration file, or GitHub is authorized after it and was not before, and the audit log can
  be written, then the log gets exactly one entry, the \<open>SUCCESS\<close> of this action with empty details or the names
  of the Fabric's repository, never a token. It is made out to the session the shared context holds when the handler reads it,
  the request's own if no other request is in between; if the context then holds none, nothing is recorded, nor is a
  setup whose save of the configuration failed: that one is answered 500.
\<close>

theorem changes_recorded:
  assumes "serve env a vw p = (p', code, reply)" and "pn_audit p = Some f" and "pe_audit_writes env"
    and "pn_config_file p' \<noteq> pn_config_file p \<or> (\<not> github_authorized p \<and> github_authorized p')"
  shows "(\<exists>org repo. a = Fabric_setup org repo) \<and> pe_save env \<noteq> None \<and> code = 500 \<and> pn_audit p' = Some f \<or>
     (\<exists>action details. success_entry a = Some (action, details) \<and>
        pn_audit p' = (case ax_session (vw_first vw) of
            None \<Rightarrow> Some f
          | Some s \<Rightarrow> Some (jl_append (audit_entry_of env p s action ''SUCCESS'' details) f)))"
proof -
  obtain q cx' r where h: "panel_handle env a vw p = (q, cx', r)" by (metis prod_cases3)
  have same: "pn_audit p' = pn_audit q" "pn_config_file p' = pn_config_file q" "pn_github p' = pn_github q"
    using serve_sel [of env a vw p] by (simp_all add: assms(1) h)
  have code: "r = Inl e \<Longrightarrow> code = 500" for e
    using assms(1) by (simp add: serve_def dispatch_action_def h)
  have change: "pn_config_file q \<noteq> pn_config_file p \<or> (\<not> github_authorized p \<and> github_authorized q)"
    using assms(4) same github_authorized_github [OF same(3)] by simp
  have "recorded_success env a vw p q \<or>
      (\<exists>org repo e. a = Fabric_setup org repo \<and> pe_save env \<noteq> None \<and> pn_audit q = pn_audit p \<and> r = Inl e)"
  proof (cases a)
    case (Github_token tok)
    then have "handle_github_token env tok vw p = (q, cx', r)" using h by simp
    then show ?thesis using token_succeeded change token_config [of env tok vw p] Github_token by simp
  next
    case Device_poll
    then have "handle_device_poll env vw p = (q, cx', r)" using h by simp
    then show ?thesis using poll_succeeded change poll_config [of env vw p] Device_poll by simp
  next
    case (Fabric_setup org repo)
    then have "handle_fabric_setup env org repo vw p = (q, cx', r)" "q \<noteq> p" using h change by auto
    then show ?thesis using setup_succeeded Fabric_setup by (fastforce split: option.splits)
  qed (use other_handlers_quiet [OF h] change in blast)+
  then show ?thesis
    using assms(2,3) code by (auto simp: recorded_success_def same(1) audit_def split: option.splits)
qed

theorem changes_recorded_witness:
  "pn_audit (fst (serve demo_panel_env (Fabric_setup ''acme'' ''ops'') (own_views demo_panel_context) demo_panel)) =
     Some (jl_append (audit_entry_of demo_panel_env demo_panel (the (ax_session demo_panel_context))
       ''FABRIC_SETUP'' ''SUCCESS'' (Some ''acme/ops'')) jl_empty)"
proof -
  obtain p' code r where e: "serve demo_panel_env (Fabric_setup ''acme'' ''ops'') (own_views demo_panel_context) demo_panel = (p', code, r)"
    by (metis prod_cases3)
  obtain x where x: "pn_engine demo_panel = Some x" by (simp add: demo_panel_def)
  have sel: "pe_yaml demo_panel_env = demo_yaml" "pe_save demo_panel_env = None" "pe_audit_writes demo_panel_env"
      "pn_config_file demo_panel = No_config" "pn_audit demo_panel = Some jl_empty"
      "ax_session (vw_first (own_views demo_panel_context)) = Some (the (ax_session demo_panel_context))"
    by (simp_all add: demo_panel_env_def demo_panel_def demo_panel_context_def own_views_def)
  have "pn_config_file p' = config_save demo_yaml (en_config (fst (configured ''acme'' ''ops'' x)))"
    using serve_sel(3) [of demo_panel_env "Fabric_setup ''acme'' ''ops''" "own_views demo_panel_context" demo_panel]
    by (simp add: e handle_fabric_setup_def Let_def x sel)
  then have "pn_config_file p' \<noteq> pn_config_file demo_panel"
    by (simp add: config_save_def demo_yaml_def sel Let_def)
  then show ?thesis using changes_recorded [OF e sel(5,3)] by (simp add: e sel)
qed

text \<open>Neither the audit log nor the answer depends on the token that was submitted, only on how GitHub and the files answered.\<close>

lemma token_not_revealed:
  assumes "tok \<noteq> []" and "tok' \<noteq> []"
  shows "pn_audit (fst (handle_github_token env tok vw p)) = pn_audit (fst (handle_github_token env tok' vw p)) \<and>
     snd (snd (handle_github_token env tok vw p)) = snd (snd (handle_github_token env tok' vw p))"
proof (cases "pn_github p")
  case None
  then show ?thesis using assms by (simp add: handle_github_token_def)
next
  case (Some g)
  obtain g1 r1 g2 r2 where v: "store_and_validate_token (pe_github env) (pe_now env) (pe_user env) tok g = (g1, r1)"
      "store_and_validate_token (pe_github env) (pe_now env) (pe_user env) tok' g = (g2, r2)"
    by (metis prod.exhaust)
  then have "r1 = r2"
    by (auto simp: store_and_validate_token_def file_store_def Let_def split: http_answer.splits if_splits sum.splits)
  moreover have "pn_audit (audit env cx act out d (p\<lparr>pn_github := g\<rparr>)) = pn_audit (audit env cx act out d (p\<lparr>pn_github := g'\<rparr>))"
    for cx act out d g g' by (simp add: audit_def audit_entry_of_def split: option.split)
  ultimately show ?thesis
    using assms by (auto simp: handle_github_token_def Some v Let_def case_prod_beta)
qed

end
