(* ===== verification/Spec2Isabelle.thy ===== *)
theory Spec2Isabelle
  imports Sessions Filesystem Recovery Bridge Admin Accounts Sync Github Engine Resolver Colab BrokerIpc Evaluation LocalModel Services Panel
begin

text \<open>
  Verification library of the ANNY Runtime (src/runtime): a governed runtime that executes tasks for the
  Anny instances of an organization. It accepts a task, decides whether and by which executor it may run,
  runs it in a workspace of its own behind a generation fence, and keeps a durable record of what happened.
  Around this core stand the services a client reaches (bridge API, admin panel, browser broker), the
  sources of authority (GitHub, the Repository Fabric, the operational repository) and the checks that run
  before the runtime calls itself ready.

  The theories follow the packages; each states at its start which files it models, and its definitions have
  the names of the functions and fields they translate (with a prefix or another word where HOL or another
  theory has the name already).

  \<^bold>\<open>How the code is modelled.\<close> A class is a record of its fields, a method a function from the state (and what it
  is told) to its result and the new state; an enumeration is a datatype with the function that gives its
  value strings. An exception is a value: a method that may raise returns \<open>exn + 'a\<close>, with the class and the
  message of the exception where the code goes on to read them. A dict is an association list in insertion
  order (\<open>dict\<close> of Prelude), because the code iterates over it and its order reaches files and replies; JSON values are
  the datatype \<open>json\<close>. Python's integers are unbounded and are \<open>int\<close> or \<open>nat\<close>; floats are rationals where only order, sums and
  quotients matter. A file of JSON lines is the list of its lines, each one what the decoder answers for it,
  so that torn and damaged lines are part of the model. What lies outside of src/ is an argument: the
  clock, generated identifiers, SHA-256, HMAC, Ed25519, Fernet, JSON and YAML codecs, GitHub, the model behind
  an executor, the pages in a browser, \<open>Popen\<close>, the Colab command line tool. Concurrency is written out as
  sequences of steps: a lock makes a method one step, and what happens outside of a lock (the body of a
  sync thread, the call of a worker into its executor, the phases of a form submission) is a step of its own
  between which others may come. The handlers of the panel share one context without a lock: what it holds when one of
  them reads it is given to it and may be another request's. Failures of the file system are outcomes where a component's
  properties depend on them (workspaces, records of a sync, the saving of the configuration, journals and registries);
  elsewhere a write succeeds, which the theory says.

  \<^bold>\<open>Foundations.\<close> Prelude: Python values, dicts, the simp collections and the interfaces \<open>keyed_store\<close> (the last write wins),
  \<open>fencing_counter\<close> (a number that never goes back) and \<open>one_way\<close> (steps that keep an invariant and never leave a
  terminal state). They are interpreted where a component provides them: the grants and tools of CapGate and Security, the
  capabilities, the MCP tools and policies, implementations and benchmarks are keyed stores; the two generation
  counters are fences; enrollment, sessions, processes, workers and executions are one-way machines. \<open>secret_backend\<close>
  of Secrets is the interface of the same name of the code, provided by the file backend and by the two
  brokers on top of it. Paths: the part of os.path the code uses, with the containment lemmas of every confinement
  property.

  \<^bold>\<open>Authority.\<close> Generation (runtime generation, fence), CapGate (grants, registry, plain orchestrator), Security (contexts,
  authorization store, validator, guard, authorized pipeline), Enrollment, Identity, Sessions, Secrets, Accounts.
  The lemmas show that no operation passes without its grant, that stale generations are refused, that the
  stores implement partial maps, and that accounts cannot read each other's secrets.

  \<^bold>\<open>Execution.\<close> Capabilities (data model, registry, policy), Executor (deterministic executor), McpGateway (governed
  tools), ModelRegistry (with its durable file and attested recovery), Intelligence (assessment and drift),
  Kernel (planning and selection), Worker, LocalModel (the executor of the local model), Manager (admission, execution,
  outcome), Workspaces, Filesystem (with the sandboxes), Processes, Recovery, Services (shell, git, built-in tools).
  Manager composes executors, workers, the gateway and the records; its lemmas state what an execution may do at most
  once, what a stale one never does and what a restart finds.

  \<^bold>\<open>Records.\<close> Journals (JSON-lines files, journals, bus), Continuity (records and events, restarts included), Mutation (two-phase
  repository mutations and their reconciliation), Telemetry (scrubbing, log, queries, processing matrix), Evaluation
  (grading, scorecards, their store, evidence).

  \<^bold>\<open>Outside.\<close> Bridge (the API), Admin (sessions, CSRF, routing of the panel), Github (authorization of the panel),
  Panel (its handlers, audit log and answers, and the context its requests share),
  Fabric (client, discovery, admission), Sync (governed staging of releases), Compute and Colab (remote
  compute), Broker, BrokerSubmit and BrokerIpc (the browser broker).

  \<^bold>\<open>Start.\<close> Inventory (what is enumerated and probed), Bootstrap (the gates of the three planes), Config, Operational and
  Resolver (canonical state), Engine (start, verification, shutdown).

  \<^bold>\<open>The properties.\<close> They stand in the theories of their components, each after a text with its number; a property with
  hypotheses is applied at a concrete input by the theorem of the same name with \<open>_witness\<close>. Those of Manager, Bridge,
  Panel, BrokerIpc and Sync span components. Some state defects: \<open>Panel.health_never_ready\<close> (a probe calls
  an operation the client does not have) and \<open>BrokerIpc.no_submission_over_ipc\<close> (the schema does not know
  a command); others say under which failures of the surroundings something does not hold (\<open>Sync.sync_quiesces\<close>,
  \<open>Panel.changes_recorded\<close>) or which inputs escape it (\<open>Filesystem.filesystem_scoped\<close>). More are kept as lemmas beside the
  definitions they are about.

  \<^bold>\<open>Bounds and termination.\<close> All functions are total and there is no fuel: loops of the code are over finite collections or bounded
  by constants that the model has (the 18 requests of a submission that polls every half second, the retries of port
  selection and replies). A sync thread is two steps, its body, where the providers are taken to answer, and its end. The one loop without a
  bound of its own, the telemetry stream, ends with its client and is modelled over the list of the turns.

  \<^bold>\<open>Not modelled.\<close> The pages of the panel (admin/templates.py, templates_cc.py, sync_ui.py) and the handlers that only
  render them; JavaScript that runs in pages; the command line front end, the diagnostic
  scripts, the platform adapters, whose functions call the system and print; the message classes of
  contracts/, which no code of the runtime builds; the stubs of the updater and the doctor; the data sets of the
  benchmark. They hold no state that a modelled component reads.
\<close>

end
